(* ===== verification/Prelude.thy ===== *)
theory Prelude
  imports Complex_Main "HOL-Library.List_Lexorder" "HOL-Library.Char_ord"
begin

text \<open>
  Shared vocabulary of the development.  Python sets of flag strings are lists here: the code
  only ever unions them, tests them for emptiness or membership, and finally publishes
  \<open>tuple(sorted(flags))\<close>, which is \<open>sorted_set\<close>.  Strings are \<open>string\<close>
  (code points up to 255) ordered lexicographically by code point, as Python orders them.
  The named collections carry the component proofs:
  \<^item> \<open>flag_simps\<close>: emptiness and membership of flag lists;
  \<^item> \<open>guard_defs\<close>: the definitions of the boolean guards a component tests;
  \<^item> \<open>rounding_laws\<close>: what the directed and exact decimal operations promise.
\<close>

named_theorems flag_simps
named_theorems guard_defs
named_theorems rounding_laws

type_synonym uuid = nat
type_synonym flag = string

section \<open>Sorted flag tuples\<close>

definition sorted_set :: "'a::linorder list \<Rightarrow> 'a list" where
  "sorted_set xs = sort (remdups xs)"

definition flag_if :: "bool \<Rightarrow> 'a \<Rightarrow> 'a list" where
  "flag_if b x = (if b then [x] else [])"

text \<open>\<open>len(set(xs)) != 1\<close> of the projections of a tuple, the code's compatibility test.\<close>

definition all_same :: "'a list \<Rightarrow> bool" where
  "all_same xs = (length (remdups xs) = 1)"

section \<open>Text predicates\<close>

text \<open>\<open>str.strip()\<close> removes these characters; \<open>nonblank s\<close> is \<open>bool(s.strip())\<close>.\<close>

definition is_space :: "char \<Rightarrow> bool" where
  "is_space c = (let n = (of_char c :: nat) in
     (9 \<le> n \<and> n \<le> 13) \<or> (28 \<le> n \<and> n \<le> 32) \<or> n = 133 \<or> n = 160)"

definition nonblank :: "string \<Rightarrow> bool" where
  "nonblank s = list_ex (\<lambda>c. \<not> is_space c) s"

definition char_between :: "char \<Rightarrow> char \<Rightarrow> char \<Rightarrow> bool" where
  "char_between lo hi c =
     ((of_char lo :: nat) \<le> of_char c \<and> (of_char c :: nat) \<le> of_char hi)"

definition is_digit :: "char \<Rightarrow> bool" where
  "is_digit = char_between (CHR ''0'') (CHR ''9'')"

definition is_upper :: "char \<Rightarrow> bool" where
  "is_upper = char_between (CHR ''A'') (CHR ''Z'')"

definition is_hex :: "char \<Rightarrow> bool" where
  "is_hex c = (is_digit c \<or> char_between (CHR ''a'') (CHR ''f'') c)"

text \<open>The regular expressions \<open>[0-9a-f]{64}\<close> and \<open>[A-Z]{3}\<close>, as full matches.\<close>

definition sha256_text :: "string \<Rightarrow> bool" where
  "sha256_text s = (length s = 64 \<and> list_all is_hex s)"

definition iso_currency :: "string \<Rightarrow> bool" where
  "iso_currency s = (length s = 3 \<and> list_all is_upper s)"

definition starts_with :: "string \<Rightarrow> string \<Rightarrow> bool" where
  "starts_with p s = (take (length p) s = p)"

section \<open>Results that may raise\<close>

text \<open>
  The exceptions the modelled code raises on purpose.  \<open>NumericError\<close> stands for
  \<open>DecimalException\<close> and \<open>ArithmeticError\<close>, which the code always catches together.
\<close>

datatype error = ValueError | NumericError | BudgetExhausted | AssertionError

type_synonym 'a result = "error + 'a"

definition guard_value :: "bool \<Rightarrow> 'a \<Rightarrow> 'a result" where
  "guard_value ok x = (if ok then Inr x else Inl ValueError)"

fun opt_all :: "'a option list \<Rightarrow> 'a list option" where
  "opt_all [] = Some []"
| "opt_all (None # xs) = None"
| "opt_all (Some x # xs) = map_option (Cons x) (opt_all xs)"

text \<open>Steps in sequence, the first failure ending them.\<close>

fun fold_result :: "('a \<Rightarrow> 's \<Rightarrow> 's result) \<Rightarrow> 'a list \<Rightarrow> 's \<Rightarrow> 's result" where
  "fold_result step [] st = Inr st"
| "fold_result step (x # xs) st = (case step x st of Inl e \<Rightarrow> Inl e | Inr st' \<Rightarrow> fold_result step xs st')"

section \<open>Lemmas\<close>

lemma set_sorted_set [simp]: "set (sorted_set xs) = set xs"
  by (simp add: sorted_set_def)

lemma distinct_sorted_set [simp]: "distinct (sorted_set xs)"
  by (simp add: sorted_set_def)

lemma sorted_sorted_set [simp]: "sorted (sorted_set xs)"
  by (simp add: sorted_set_def)

lemma sorted_set_Nil_iff [simp]: "sorted_set xs = [] \<longleftrightarrow> xs = []"
  by (metis set_empty set_sorted_set)

lemma sorted_set_eq_iff: "sorted_set xs = sorted_set ys \<longleftrightarrow> set xs = set ys"
proof
  assume "sorted_set xs = sorted_set ys"
  then have "set (sorted_set xs) = set (sorted_set ys)" by (rule arg_cong)
  then show "set xs = set ys" by simp
next
  assume "set xs = set ys"
  then show "sorted_set xs = sorted_set ys"
    by (intro sorted_distinct_set_unique) simp_all
qed

lemma strict_sorted_sorted_set: "sorted_wrt (<) (sorted_set xs)"
  by (simp add: strict_sorted_iff sorted_set_def)

lemma flag_if_Nil_iff [simp, flag_simps]: "flag_if b x = [] \<longleftrightarrow> \<not> b"
  by (simp add: flag_if_def)

lemma Nil_flag_if_iff [simp]: "[] = flag_if b x \<longleftrightarrow> \<not> b"
  by (simp add: flag_if_def)

lemma set_flag_if [simp, flag_simps]: "y \<in> set (flag_if b x) \<longleftrightarrow> b \<and> y = x"
  by (cases b) (simp_all add: flag_if_def)

lemma flag_if_simps [simp]: "flag_if True x = [x]" "flag_if False x = []"
  by (simp_all add: flag_if_def)

lemma all_same_iff: "all_same xs \<longleftrightarrow> (\<exists>x. set xs = {x})"
proof -
  have "all_same xs \<longleftrightarrow> card (set xs) = 1"
    by (simp add: all_same_def length_remdups_card_conv)
  then show ?thesis by (simp add: card_1_singleton_iff)
qed

lemma all_sameD: "all_same (map f xs) \<Longrightarrow> x \<in> set xs \<Longrightarrow> y \<in> set xs \<Longrightarrow> f x = f y"
  by (metis all_same_iff image_eqI list.set_map singletonD)

lemma all_same_nonempty: "all_same xs \<Longrightarrow> xs \<noteq> []"
  by (auto simp: all_same_iff)

lemma opt_all_Some_iff: "opt_all xs = Some ys \<longleftrightarrow> xs = map Some ys"
  by (induction xs arbitrary: ys rule: opt_all.induct) auto

lemma set_map_filter: "set (List.map_filter f xs) = {y. \<exists>x\<in>set xs. f x = Some y}"
  by (induction xs) (auto simp: List.map_filter_simps split: option.splits)

lemma guard_value_Inr [simp]: "guard_value ok x = Inr y \<longleftrightarrow> ok \<and> y = x"
  by (auto simp: guard_value_def)

lemma fold_result_inv:
  assumes "fold_result step xs st = Inr st'" "P st"
    and "\<And>x s s'. x \<in> set xs \<Longrightarrow> step x s = Inr s' \<Longrightarrow> P s \<Longrightarrow> P s'"
  shows "P st'"
  using assms(1,2,3)
proof (induction xs arbitrary: st)
  case (Cons x xs)
  then obtain s where s: "step x st = Inr s" "fold_result step xs s = Inr st'" by (auto split: sum.splits)
  have "P s" using Cons.prems(3)[of x] s(1) Cons.prems(2) by simp
  then show ?case using s(2) Cons.prems(3) by (intro Cons.IH[of s]) auto
qed simp

section \<open>Step relations\<close>

text \<open>
  Step relations of the stateful components: the states that steps lead to from the initial ones, and the
  contract of an invariant, which holds initially and survives every step.
\<close>

inductive reach :: "('s \<Rightarrow> bool) \<Rightarrow> ('s \<Rightarrow> 's \<Rightarrow> bool) \<Rightarrow> 's \<Rightarrow> bool"
  for start :: "'s \<Rightarrow> bool" and move :: "'s \<Rightarrow> 's \<Rightarrow> bool" where
  reach_start: "start s \<Longrightarrow> reach start move s"
| reach_move: "reach start move s \<Longrightarrow> move s t \<Longrightarrow> reach start move t"

locale invariant_system =
  fixes start :: "'s \<Rightarrow> bool"
    and move :: "'s \<Rightarrow> 's \<Rightarrow> bool"
    and safe :: "'s \<Rightarrow> bool"
  assumes start_safe: "start s \<Longrightarrow> safe s"
    and move_safe: "safe s \<Longrightarrow> move s t \<Longrightarrow> safe t"
begin

lemma reach_safe: "reach start move s \<Longrightarrow> safe s"
  by (induction rule: reach.induct) (auto intro: start_safe move_safe)

end

end
