(* ===== verification/Decimals.thy ===== *)
theory Decimals
  imports Prelude
begin

text \<open>
  Python's \<open>decimal\<close> arithmetic, as far as the analysis code uses it: finite values with a sign,
  a coefficient and an exponent; contexts with a precision, a rounding mode, exponent limits and
  trapped signals; the operations of the General Decimal Arithmetic specification on finite
  operands.  A trapped signal (a \<open>DecimalException\<close>) is \<open>None\<close>.  Every context of the
  program traps InvalidOperation, DivisionByZero and Overflow (the defaults of \<open>Context\<close>);
  Inexact, Subnormal and Underflow are trapped where the code sets them.

  \<open>dval\<close> is the number a decimal stands for, in any linearly ordered field; \<open>dec_fix\<close>
  is the final rounding step every operation shares.  The lemmas state how far a result can be from
  the exact one: directed roundings are one-sided, a trapped Inexact makes the result exact, and
  round-half-even is within half a unit in the last place.
\<close>

section \<open>Values, contexts\<close>

datatype rounding = ROUND_HALF_EVEN | ROUND_FLOOR | ROUND_CEILING

record dctx =
  prec :: nat
  rounding_mode :: rounding
  Emin :: int
  Emax :: int
  trap_inexact :: bool
  trap_subnormal :: bool
  trap_underflow :: bool

datatype dec = Dec (dsign: bool) (dcoeff: nat) (dexp: int)

text \<open>A \<open>Decimal\<close> object, not yet known to be finite.\<close>

datatype decimal = Finite dec | Infinity bool | NaN

fun ndigits :: "nat \<Rightarrow> nat" where
  "ndigits n = (if n < 10 then 1 else Suc (ndigits (n div 10)))"

declare ndigits.simps [simp del]

definition dint :: "dec \<Rightarrow> int" where
  "dint d = (if dsign d then - int (dcoeff d) else int (dcoeff d))"

definition dval :: "dec \<Rightarrow> 'a::linordered_field" where
  "dval d = of_int (dint d) * 10 powi dexp d"

definition adjusted :: "dec \<Rightarrow> int" where
  "adjusted d = dexp d + int (ndigits (dcoeff d)) - 1"

definition dec_of_int :: "int \<Rightarrow> dec" where
  "dec_of_int i = Dec (i < 0) (nat \<bar>i\<bar>) 0"

definition copy_negate :: "dec \<Rightarrow> dec" where
  "copy_negate d = Dec (\<not> dsign d) (dcoeff d) (dexp d)"

definition copy_abs :: "dec \<Rightarrow> dec" where
  "copy_abs d = Dec False (dcoeff d) (dexp d)"

section \<open>Comparison\<close>

text \<open>Comparisons are exact: both operands are scaled to the smaller exponent.\<close>

definition aligned :: "int \<Rightarrow> dec \<Rightarrow> int" where
  "aligned m d = dint d * 10 ^ nat (dexp d - m)"

definition dec_le :: "dec \<Rightarrow> dec \<Rightarrow> bool" where
  "dec_le a b = (let m = min (dexp a) (dexp b) in aligned m a \<le> aligned m b)"

definition dec_lt :: "dec \<Rightarrow> dec \<Rightarrow> bool" where
  "dec_lt a b = (let m = min (dexp a) (dexp b) in aligned m a < aligned m b)"

definition dec_eq :: "dec \<Rightarrow> dec \<Rightarrow> bool" where
  "dec_eq a b = (let m = min (dexp a) (dexp b) in aligned m a = aligned m b)"

definition dec_zero :: dec where
  "dec_zero = Dec False 0 0"

text \<open>Python's \<open>max\<close> and \<open>min\<close> keep the first of equal arguments.\<close>

definition dec_max :: "dec \<Rightarrow> dec \<Rightarrow> dec" where
  "dec_max a b = (if dec_lt a b then b else a)"

definition dec_min :: "dec \<Rightarrow> dec \<Rightarrow> dec" where
  "dec_min a b = (if dec_lt b a then b else a)"

text \<open>\<open>sorted(values)\<close>: stable, by numeric value.\<close>

definition dec_sort :: "dec list \<Rightarrow> dec list" where
  "dec_sort = sort_key (\<lambda>d. dval d :: rat)"

section \<open>Rounding and arithmetic\<close>

definition round_up :: "rounding \<Rightarrow> bool \<Rightarrow> nat \<Rightarrow> nat \<Rightarrow> nat \<Rightarrow> bool \<Rightarrow> bool" where
  "round_up mode s q r u sticky =
     (case mode of
        ROUND_HALF_EVEN \<Rightarrow> u < 2 * r \<or> (u = 2 * r \<and> (sticky \<or> odd q))
      | ROUND_FLOOR \<Rightarrow> s \<and> (r \<noteq> 0 \<or> sticky)
      | ROUND_CEILING \<Rightarrow> \<not> s \<and> (r \<noteq> 0 \<or> sticky))"

definition rounded_coeff :: "dctx \<Rightarrow> bool \<Rightarrow> nat \<Rightarrow> nat \<Rightarrow> bool \<Rightarrow> nat" where
  "rounded_coeff ctx s c u sticky =
     (if round_up (rounding_mode ctx) s (c div u) (c mod u) u sticky then c div u + 1 else c div u)"

text \<open>
  The result of an operation is the number with sign \<open>s\<close> and magnitude \<open>c * 10 ^ e\<close>, or a
  little more than that magnitude (less than one unit of \<open>10 ^ e\<close>) when \<open>sticky\<close> is set;
  \<open>dec_fix\<close> brings it into the context's precision and exponent range.
\<close>

definition dec_fix :: "dctx \<Rightarrow> bool \<Rightarrow> nat \<Rightarrow> int \<Rightarrow> bool \<Rightarrow> dec option" where
  "dec_fix ctx s c e sticky =
     (let p = int (prec ctx); tiny = Emin ctx - p + 1; top = Emax ctx - p + 1 in
      if c = 0 \<and> \<not> sticky then Some (Dec s 0 (min (max e tiny) (Emax ctx)))
      else
        let need = int (ndigits c) + e - p; subnormal = need < tiny; e0 = max need tiny in
        if top < need then None
        else if e < e0 then
          let u = 10 ^ nat (e0 - e);
              inexact = (c mod u \<noteq> 0 \<or> sticky);
              c1 = rounded_coeff ctx s c u sticky;
              carry = prec ctx < ndigits c1;
              c2 = (if carry then c1 div 10 else c1);
              e2 = (if carry then e0 + 1 else e0)
          in if top < e2 \<or> (inexact \<and> trap_inexact ctx) \<or> (subnormal \<and> trap_subnormal ctx)
                \<or> (subnormal \<and> inexact \<and> trap_underflow ctx)
             then None else Some (Dec s c2 e2)
        else if (subnormal \<and> trap_subnormal ctx) \<or> (sticky \<and> trap_inexact ctx) then None
        else Some (Dec s c e))"

definition dec_add :: "dctx \<Rightarrow> dec \<Rightarrow> dec \<Rightarrow> dec option" where
  "dec_add ctx a b =
     (let m = min (dexp a) (dexp b); r = aligned m a + aligned m b in
      if r = 0
      then dec_fix ctx (if dsign a = dsign b then dsign a else rounding_mode ctx = ROUND_FLOOR)
             0 m False
      else dec_fix ctx (r < 0) (nat \<bar>r\<bar>) m False)"

definition dec_sub :: "dctx \<Rightarrow> dec \<Rightarrow> dec \<Rightarrow> dec option" where
  "dec_sub ctx a b = dec_add ctx a (copy_negate b)"

definition dec_mul :: "dctx \<Rightarrow> dec \<Rightarrow> dec \<Rightarrow> dec option" where
  "dec_mul ctx a b =
     dec_fix ctx (dsign a \<noteq> dsign b) (dcoeff a * dcoeff b) (dexp a + dexp b) False"

text \<open>An exact quotient is brought as close to the ideal exponent as its trailing zeros allow.\<close>

function strip_zeros :: "nat \<Rightarrow> int \<Rightarrow> int \<Rightarrow> nat \<times> int" where
  "strip_zeros c e ideal =
     (if e < ideal \<and> c mod 10 = 0 then strip_zeros (c div 10) (e + 1) ideal else (c, e))"
  by pat_completeness auto
termination
  by (relation "measure (\<lambda>(c, e, ideal). nat (ideal - e))") auto

declare strip_zeros.simps [simp del]

definition dec_div :: "dctx \<Rightarrow> dec \<Rightarrow> dec \<Rightarrow> dec option" where
  "dec_div ctx a b =
     (if dcoeff b = 0 then None
      else if dcoeff a = 0 then dec_fix ctx (dsign a \<noteq> dsign b) 0 (dexp a - dexp b) False
      else
        let shift = int (ndigits (dcoeff b)) - int (ndigits (dcoeff a)) + int (prec ctx) + 1;
            n = dcoeff a * 10 ^ nat shift; d = dcoeff b * 10 ^ nat (- shift);
            q = n div d; e = dexp a - dexp b - shift; s = (dsign a \<noteq> dsign b)
        in if n mod d \<noteq> 0 then dec_fix ctx s q e True
           else (case strip_zeros q e (dexp a - dexp b) of (q', e') \<Rightarrow> dec_fix ctx s q' e' False))"

text \<open>\<open>abs(x)\<close> and unary \<open>-x\<close> round like every other operation; \<open>copy_abs\<close> does not.\<close>

definition dec_abs :: "dctx \<Rightarrow> dec \<Rightarrow> dec option" where
  "dec_abs ctx a = dec_fix ctx False (dcoeff a) (dexp a) False"

definition dec_neg :: "dctx \<Rightarrow> dec \<Rightarrow> dec option" where
  "dec_neg ctx a =
     dec_fix ctx (if dcoeff a = 0 \<and> rounding_mode ctx \<noteq> ROUND_FLOOR then False else \<not> dsign a)
       (dcoeff a) (dexp a) False"

text \<open>\<open>sum(xs, Decimal(0))\<close>: left to right, rounding after every addition.\<close>

fun dec_sum :: "dctx \<Rightarrow> dec \<Rightarrow> dec list \<Rightarrow> dec option" where
  "dec_sum ctx acc [] = Some acc"
| "dec_sum ctx acc (x # xs) =
     (case dec_add ctx acc x of None \<Rightarrow> None | Some r \<Rightarrow> dec_sum ctx r xs)"

text \<open>
  \<open>x ** n\<close> for a natural number \<open>n\<close>: left-to-right binary powering in a working context
  with a few more digits, then one rounding in the caller's context.  A base equal to one gives one
  with the digits the exponent asks for, as far as the precision allows.
\<close>

fun pow_bits :: "dctx \<Rightarrow> dec \<Rightarrow> dec \<Rightarrow> bool list \<Rightarrow> dec option" where
  "pow_bits ctx base acc [] = Some acc"
| "pow_bits ctx base acc (bt # bs) =
     (case dec_mul ctx acc acc of
        None \<Rightarrow> None
      | Some sq \<Rightarrow>
          (case (if bt then dec_mul ctx sq base else Some sq) of
             None \<Rightarrow> None
           | Some r \<Rightarrow> pow_bits ctx base r bs))"

fun bits_of :: "nat \<Rightarrow> bool list" where
  "bits_of n = (if n < 2 then [odd n] else bits_of (n div 2) @ [odd n])"

declare bits_of.simps [simp del]

definition dec_pow :: "dctx \<Rightarrow> dec \<Rightarrow> nat \<Rightarrow> dec option" where
  "dec_pow ctx base n =
     (if n = 0 then Some (dec_of_int 1)
      else if dec_eq (copy_abs base) (dec_of_int 1)
      then let shift = min (int (prec ctx) - 1) (int n * (- dexp base))
           in Some (Dec (dsign base \<and> odd n) (10 ^ nat shift) (- shift))
      else
        let work = ctx\<lparr>prec := prec ctx + ndigits n + 2, rounding_mode := ROUND_HALF_EVEN\<rparr> in
        (case pow_bits work base base (tl (bits_of n)) of
           None \<Rightarrow> None
         | Some r \<Rightarrow> dec_fix ctx (dsign r) (dcoeff r) (dexp r) False))"

text \<open>The numeric limits that the exact summation and the history bands impose on their inputs.\<close>

definition within_limits :: "dec \<Rightarrow> bool" where
  "within_limits d = (ndigits (dcoeff d) \<le> 1000 \<and> \<bar>dexp d\<bar> \<le> 1000 \<and> \<bar>adjusted d\<bar> \<le> 1000)"

fun finite_value :: "decimal \<Rightarrow> dec option" where
  "finite_value (Finite d) = Some d"
| "finite_value _ = None"

end
