(* ===== verification/Valuation_Types.thy ===== *)
theory Valuation_Types
  imports Decimals "HOL-Library.Monad_Syntax"
begin

text \<open>
  The contracts of \<open>packages/core/valuation_types.py\<close>: the forecast, the solve specification, the
  evaluation and the solver's certificate, each with the validator that pydantic runs when the object
  is built.  A failing validator raises \<open>ValueError\<close>.
\<close>

section \<open>Numeric inputs\<close>

definition decimal_input :: "decimal \<Rightarrow> dec result" where
  "decimal_input v = (case v of Finite d \<Rightarrow> Inr d | _ \<Rightarrow> Inl ValueError)"

definition dcf_bounds :: "dec \<Rightarrow> bool" where
  "dcf_bounds d = (ndigits (dcoeff d) \<le> 40 \<and> \<bar>adjusted d\<bar> \<le> 100 \<and> \<bar>dexp d\<bar> \<le> 100)"

definition bounded_decimal :: "decimal \<Rightarrow> dec result" where
  "bounded_decimal v =
     (case decimal_input v of
        Inl err \<Rightarrow> Inl err
      | Inr d \<Rightarrow> guard_value (dcf_bounds d) d)"

datatype variable = Revenue_cagr | Terminal_operating_margin | Reinvestment_to_revenue

abbreviation dec_pos :: "dec \<Rightarrow> bool" where
  "dec_pos d \<equiv> dec_lt dec_zero d"

abbreviation dec_nonneg :: "dec \<Rightarrow> bool" where
  "dec_nonneg d \<equiv> dec_le dec_zero d"

abbreviation dec_one :: dec where
  "dec_one \<equiv> dec_of_int 1"

section \<open>Forecast\<close>

record forecast =
  revenue_anchor :: dec
  growth :: "dec list"
  margins :: "dec list"
  taxes :: "dec list"
  reinvestment :: "dec list"
  wacc :: dec
  risk_free :: dec
  terminal_growth :: dec
  terminal_margin :: dec
  terminal_tax :: dec
  terminal_roic :: dec

definition internal_bounds :: "dec \<Rightarrow> bool" where
  "internal_bounds d = (\<bar>adjusted d\<bar> \<le> 100 \<and> ndigits (dcoeff d) \<le> 80)"

definition forecast_numbers :: "forecast \<Rightarrow> dec list" where
  "forecast_numbers f =
     [revenue_anchor f] @ growth f @ margins f @ taxes f @ reinvestment f
     @ [wacc f, risk_free f, terminal_growth f, terminal_margin f, terminal_tax f, terminal_roic f]"

definition forecast_domains :: "forecast \<Rightarrow> bool" where
  "forecast_domains f =
     (list_all internal_bounds (forecast_numbers f)
      \<and> 1 \<le> length (growth f) \<and> length (growth f) \<le> 10
      \<and> length (margins f) = length (growth f) \<and> length (taxes f) = length (growth f)
      \<and> length (reinvestment f) = length (growth f)
      \<and> dec_pos (revenue_anchor f) \<and> dec_pos (wacc f) \<and> dec_pos (terminal_roic f)
      \<and> dec_nonneg (terminal_growth f)
      \<and> dec_lt (terminal_growth f) (dec_min (dec_min (risk_free f) (wacc f)) (terminal_roic f))
      \<and> dec_pos (terminal_margin f) \<and> dec_le (terminal_margin f) dec_one
      \<and> dec_nonneg (terminal_tax f) \<and> dec_lt (terminal_tax f) dec_one
      \<and> list_all (\<lambda>g. dec_lt (dec_of_int (- 1)) g) (growth f)
      \<and> list_all dec_nonneg (reinvestment f)
      \<and> list_all (\<lambda>t. dec_nonneg t \<and> dec_le t dec_one) (taxes f))"

section \<open>Solve specification\<close>

record solve_spec =
  solve_variable :: variable
  lower :: dec
  upper :: dec
  absolute_tolerance :: dec
  relative_tolerance :: dec
  width_tolerance :: dec
  max_iterations :: nat
  max_subdivisions :: nat
  max_evaluations :: nat
  margin_weights :: "dec list"
  anchor_margin :: "dec option"

fun dec_sorted :: "dec list \<Rightarrow> bool" where
  "dec_sorted [] = True"
| "dec_sorted [x] = True"
| "dec_sorted (x # y # zs) = (dec_le x y \<and> dec_sorted (y # zs))"

definition margin_solve_domain :: "solve_spec \<Rightarrow> bool" where
  "margin_solve_domain s =
     (dec_pos (lower s) \<and> dec_lt (lower s) (upper s) \<and> dec_le (upper s) dec_one
      \<and> anchor_margin s \<noteq> None \<and> margin_weights s \<noteq> []
      \<and> dec_eq (last (margin_weights s)) dec_one
      \<and> list_all (\<lambda>w. dec_nonneg w \<and> dec_le w dec_one) (margin_weights s)
      \<and> dec_sorted (margin_weights s))"

definition spec_inputs :: "solve_spec \<Rightarrow> dec list" where
  "spec_inputs s =
     [lower s, upper s, absolute_tolerance s, relative_tolerance s, width_tolerance s]
     @ margin_weights s @ (case anchor_margin s of None \<Rightarrow> [] | Some a \<Rightarrow> [a])"

definition spec_domain :: "solve_spec \<Rightarrow> bool" where
  "spec_domain s =
     (list_all dcf_bounds (spec_inputs s)
      \<and> 1 \<le> max_iterations s \<and> max_iterations s \<le> 256
      \<and> 1 \<le> max_subdivisions s \<and> max_subdivisions s \<le> 4096
      \<and> 1 \<le> max_evaluations s \<and> max_evaluations s \<le> 10000
      \<and> dec_lt (lower s) (upper s) \<and> dec_pos (absolute_tolerance s)
      \<and> dec_nonneg (relative_tolerance s) \<and> dec_pos (width_tolerance s)
      \<and> (if solve_variable s = Terminal_operating_margin then margin_solve_domain s
         else margin_weights s = [] \<and> anchor_margin s = None)
      \<and> (solve_variable s = Revenue_cagr \<longrightarrow> dec_lt (dec_of_int (- 1)) (lower s))
      \<and> (solve_variable s = Reinvestment_to_revenue \<longrightarrow> dec_nonneg (lower s)))"

section \<open>Evaluation\<close>

record forecast_row =
  row_year :: nat
  row_revenue :: dec
  row_ebit :: dec
  row_cash_tax :: dec
  row_nopat :: dec
  row_reinvestment :: dec
  row_fcff :: dec
  row_pv :: dec

record evaluation =
  ev_rows :: "forecast_row list"
  terminal_revenue :: dec
  terminal_nopat :: dec
  terminal_reinvestment :: dec
  terminal_fcff :: dec
  terminal_value :: dec
  pv_terminal :: dec
  pv_explicit :: dec
  operating_ev :: dec
  terminal_contribution :: "dec option"
  terminal_dominant :: "bool option"
  ev_reasons :: "string list"

section \<open>Certificates\<close>

record interval =
  iv_lower :: dec
  iv_upper :: dec

definition mk_interval :: "dec \<Rightarrow> dec \<Rightarrow> interval result" where
  "mk_interval lo hi = guard_value (dec_le lo hi) \<lparr>iv_lower = lo, iv_upper = hi\<rparr>"

datatype disposition = Excluded | Unique_root | Unresolved

record proof_region =
  pr_domain :: interval
  pr_residual :: interval
  pr_derivative :: interval
  pr_disposition :: disposition
  pr_left_residual :: "interval option"
  pr_right_residual :: "interval option"
  pr_root :: "interval option"

datatype solve_state =
  Converged | No_solution_in_domain | Non_unique | Inconclusive | Unavailable

record solve_result =
  sr_state :: solve_state
  sr_representative :: "dec option"
  sr_interval :: "interval option"
  sr_residual :: "interval option"
  sr_root_intervals :: "interval list"
  sr_unresolved_domains :: "interval list"
  sr_proof :: "proof_region list"
  sr_proof_revision :: string
  sr_evaluations :: nat
  sr_subdivisions :: nat
  sr_iterations :: nat
  sr_reasons :: "string list"

definition scalar_requires_certificate :: "solve_result \<Rightarrow> solve_result result" where
  "scalar_requires_certificate r =
     guard_value
       (if sr_state r = Converged
        then (case (sr_representative r, sr_interval r) of
                (Some x, Some iv) \<Rightarrow>
                  sr_residual r \<noteq> None \<and> dec_le (iv_lower iv) x \<and> dec_le x (iv_upper iv)
                  \<and> length (sr_root_intervals r) = 1 \<and> sr_proof r \<noteq> []
              | _ \<Rightarrow> False)
        else sr_representative r = None \<and> sr_interval r = None)
       r"

end
