(* ===== verification/Valuation.thy ===== *)
theory Valuation
  imports Valuation_Types "HOL-Library.While_Combinator"
begin

text \<open>
  \<open>packages/core/valuation.py\<close>: the FCFF evaluation, outward-rounded interval arithmetic with
  first derivatives, and the branch-and-bound root isolation that certifies the implied parameter.
  The solver's mutable counters are an explicit state; an exception is the left value of a result and
  leaves the counters as they were when it was raised, as the source's \<open>try\<close> block sees them.
\<close>

definition CONTEXT :: dctx where
  "CONTEXT = \<lparr>prec = 80, rounding_mode = ROUND_HALF_EVEN, Emin = - 9999, Emax = 9999,
     trap_inexact = False, trap_subnormal = False, trap_underflow = False\<rparr>"

abbreviation ctx_floor :: dctx where
  "ctx_floor \<equiv> CONTEXT\<lparr>rounding_mode := ROUND_FLOOR\<rparr>"

abbreviation ctx_ceiling :: dctx where
  "ctx_ceiling \<equiv> CONTEXT\<lparr>rounding_mode := ROUND_CEILING\<rparr>"

section \<open>Forecast evaluation\<close>

definition forecast_year :: "forecast \<Rightarrow> nat \<Rightarrow> dec \<Rightarrow> forecast_row option" where
  "forecast_year f i revenue = do {
     growth1 \<leftarrow> dec_add CONTEXT dec_one (growth f ! i);
     revenue' \<leftarrow> dec_mul CONTEXT revenue growth1;
     ebit \<leftarrow> dec_mul CONTEXT revenue' (margins f ! i);
     cash_tax \<leftarrow> dec_mul CONTEXT (dec_max ebit dec_zero) (taxes f ! i);
     nopat \<leftarrow> dec_sub CONTEXT ebit cash_tax;
     reinv \<leftarrow> dec_mul CONTEXT revenue' (reinvestment f ! i);
     fcff \<leftarrow> dec_sub CONTEXT nopat reinv;
     rate \<leftarrow> dec_add CONTEXT dec_one (wacc f);
     factor \<leftarrow> dec_pow CONTEXT rate (Suc i);
     pv \<leftarrow> dec_div CONTEXT fcff factor;
     Some \<lparr>row_year = Suc i, row_revenue = revenue', row_ebit = ebit, row_cash_tax = cash_tax,
        row_nopat = nopat, row_reinvestment = reinv, row_fcff = fcff, row_pv = pv\<rparr> }"

text \<open>The loop over the years carries the revenue and the rows built so far.\<close>

fun forecast_rows :: "forecast \<Rightarrow> nat list \<Rightarrow> dec \<Rightarrow> (forecast_row list \<times> dec) option" where
  "forecast_rows f [] revenue = Some ([], revenue)"
| "forecast_rows f (i # is) revenue = do {
     row \<leftarrow> forecast_year f i revenue;
     (rows, last_revenue) \<leftarrow> forecast_rows f is (row_revenue row);
     Some (row # rows, last_revenue) }"

definition evaluate_model :: "forecast \<Rightarrow> evaluation option" where
  "evaluate_model f = do {
     (rows, revenue) \<leftarrow> forecast_rows f [0..<length (growth f)] (revenue_anchor f);
     g1 \<leftarrow> dec_add CONTEXT dec_one (terminal_growth f);
     tr \<leftarrow> dec_mul CONTEXT revenue g1;
     tm \<leftarrow> dec_mul CONTEXT tr (terminal_margin f);
     keep \<leftarrow> dec_sub CONTEXT dec_one (terminal_tax f);
     tn \<leftarrow> dec_mul CONTEXT tm keep;
     tng \<leftarrow> dec_mul CONTEXT tn (terminal_growth f);
     ti \<leftarrow> dec_div CONTEXT tng (terminal_roic f);
     tf \<leftarrow> dec_sub CONTEXT tn ti;
     spread \<leftarrow> dec_sub CONTEXT (wacc f) (terminal_growth f);
     tv \<leftarrow> dec_div CONTEXT tf spread;
     rate \<leftarrow> dec_add CONTEXT dec_one (wacc f);
     factor \<leftarrow> dec_pow CONTEXT rate (length rows);
     pv \<leftarrow> dec_div CONTEXT tv factor;
     explicit \<leftarrow> dec_sum CONTEXT dec_zero (map row_pv rows);
     ev \<leftarrow> dec_add CONTEXT explicit pv;
     ratio \<leftarrow> (if dec_pos ev then map_option Some (dec_div CONTEXT pv ev) else Some None);
     Some \<lparr>ev_rows = rows, terminal_revenue = tr, terminal_nopat = tn,
        terminal_reinvestment = ti, terminal_fcff = tf, terminal_value = tv, pv_terminal = pv,
        pv_explicit = explicit, operating_ev = ev, terminal_contribution = ratio,
        terminal_dominant = map_option (\<lambda>x. dec_lt (Dec False 75 (- 2)) x) ratio,
        ev_reasons = (if ratio = None then [''terminal_ratio_not_meaningful''] else [])\<rparr> }"

definition evaluate :: "forecast \<Rightarrow> evaluation result" where
  "evaluate f =
     (if \<not> forecast_domains f then Inl ValueError
      else case evaluate_model f of None \<Rightarrow> Inl NumericError | Some ev \<Rightarrow> Inr ev)"

section \<open>Interval arithmetic\<close>

record bounds =
  lo :: dec
  hi :: dec

abbreviation Bounds :: "dec \<Rightarrow> dec \<Rightarrow> bounds" where
  "Bounds a b \<equiv> \<lparr>lo = a, hi = b\<rparr>"

definition point :: "dec \<Rightarrow> bounds" where
  "point v = Bounds v v"

definition public :: "bounds \<Rightarrow> interval result" where
  "public b = mk_interval (lo b) (hi b)"

definition bounds_add :: "bounds \<Rightarrow> bounds \<Rightarrow> bounds option" where
  "bounds_add a b = do {
     l \<leftarrow> dec_add ctx_floor (lo a) (lo b);
     h \<leftarrow> dec_add ctx_ceiling (hi a) (hi b);
     Some (Bounds l h) }"

definition bounds_neg :: "bounds \<Rightarrow> bounds" where
  "bounds_neg a = Bounds (copy_negate (hi a)) (copy_negate (lo a))"

definition bounds_sub :: "bounds \<Rightarrow> bounds \<Rightarrow> bounds option" where
  "bounds_sub a b = bounds_add a (bounds_neg b)"

text \<open>The four products (quotients) of endpoints, in the order of the source's generator.\<close>

definition corners :: "(dec \<Rightarrow> dec \<Rightarrow> dec option) \<Rightarrow> bounds \<Rightarrow> bounds \<Rightarrow> (dec \<times> dec \<times> dec \<times> dec) option" where
  "corners f a b = do {
     w \<leftarrow> f (lo a) (lo b);
     x \<leftarrow> f (lo a) (hi b);
     y \<leftarrow> f (hi a) (lo b);
     z \<leftarrow> f (hi a) (hi b);
     Some (w, x, y, z) }"

definition min4 :: "dec \<times> dec \<times> dec \<times> dec \<Rightarrow> dec" where
  "min4 q = (case q of (w, x, y, z) \<Rightarrow> dec_min (dec_min (dec_min w x) y) z)"

definition max4 :: "dec \<times> dec \<times> dec \<times> dec \<Rightarrow> dec" where
  "max4 q = (case q of (w, x, y, z) \<Rightarrow> dec_max (dec_max (dec_max w x) y) z)"

definition bounds_mul :: "bounds \<Rightarrow> bounds \<Rightarrow> bounds option" where
  "bounds_mul a b = do {
     down \<leftarrow> corners (dec_mul ctx_floor) a b;
     up \<leftarrow> corners (dec_mul ctx_ceiling) a b;
     Some (Bounds (min4 down) (max4 up)) }"

definition bounds_div :: "bounds \<Rightarrow> bounds \<Rightarrow> bounds option" where
  "bounds_div a b =
     (if dec_le (lo b) dec_zero \<and> dec_le dec_zero (hi b) then None
      else do {
        down \<leftarrow> corners (dec_div ctx_floor) a b;
        up \<leftarrow> corners (dec_div ctx_ceiling) a b;
        Some (Bounds (min4 down) (max4 up)) })"

fun bounds_power :: "bounds \<Rightarrow> nat \<Rightarrow> bounds option" where
  "bounds_power b 0 = Some (point dec_one)"
| "bounds_power b (Suc n) = do { r \<leftarrow> bounds_power b n; bounds_mul r b }"

definition bsign :: "bounds \<Rightarrow> int" where
  "bsign b = (if dec_pos (lo b) then 1 else if dec_lt (hi b) dec_zero then - 1 else 0)"

record dual =
  dvalue :: bounds
  derivative :: bounds

abbreviation Dual :: "bounds \<Rightarrow> bounds \<Rightarrow> dual" where
  "Dual v d \<equiv> \<lparr>dvalue = v, derivative = d\<rparr>"

definition dconst :: "dec \<Rightarrow> dual" where
  "dconst v = Dual (point v) (point dec_zero)"

definition dual_add :: "dual \<Rightarrow> dual \<Rightarrow> dual option" where
  "dual_add a b = do {
     v \<leftarrow> bounds_add (dvalue a) (dvalue b);
     d \<leftarrow> bounds_add (derivative a) (derivative b);
     Some (Dual v d) }"

definition dual_sub :: "dual \<Rightarrow> dual \<Rightarrow> dual option" where
  "dual_sub a b = do {
     v \<leftarrow> bounds_sub (dvalue a) (dvalue b);
     d \<leftarrow> bounds_sub (derivative a) (derivative b);
     Some (Dual v d) }"

definition dual_mul :: "dual \<Rightarrow> dual \<Rightarrow> dual option" where
  "dual_mul a b = do {
     v \<leftarrow> bounds_mul (dvalue a) (dvalue b);
     l \<leftarrow> bounds_mul (derivative a) (dvalue b);
     r \<leftarrow> bounds_mul (dvalue a) (derivative b);
     d \<leftarrow> bounds_add l r;
     Some (Dual v d) }"

definition dual_div :: "dual \<Rightarrow> dual \<Rightarrow> dual option" where
  "dual_div a b = do {
     v \<leftarrow> bounds_div (dvalue a) (dvalue b);
     l \<leftarrow> bounds_mul (derivative a) (dvalue b);
     r \<leftarrow> bounds_mul (dvalue a) (derivative b);
     n \<leftarrow> bounds_sub l r;
     sq \<leftarrow> bounds_power (dvalue b) 2;
     d \<leftarrow> bounds_div n sq;
     Some (Dual v d) }"

definition dual_positive :: "dual \<Rightarrow> dual" where
  "dual_positive a =
     (if dec_nonneg (lo (dvalue a)) then a
      else if dec_le (hi (dvalue a)) dec_zero then dconst dec_zero
      else Dual (Bounds dec_zero (hi (dvalue a)))
             (Bounds (dec_min dec_zero (lo (derivative a))) (dec_max dec_zero (hi (derivative a)))))"

section \<open>The residual\<close>

text \<open>One year of the loop: revenue, running total and discount factor.\<close>

definition residual_margin :: "forecast \<Rightarrow> solve_spec \<Rightarrow> dual \<Rightarrow> nat \<Rightarrow> dual option" where
  "residual_margin f spec x i =
     (if solve_variable spec = Terminal_operating_margin then do {
        anchor \<leftarrow> anchor_margin spec;
        let weight = dconst (margin_weights spec ! i);
        rest \<leftarrow> dual_sub (dconst dec_one) weight;
        fixed \<leftarrow> dual_mul rest (dconst anchor);
        moving \<leftarrow> dual_mul weight x;
        dual_add fixed moving }
      else Some (dconst (margins f ! i)))"

definition residual_year ::
  "forecast \<Rightarrow> solve_spec \<Rightarrow> dual \<Rightarrow> nat \<Rightarrow> dual \<times> dual \<times> dual \<Rightarrow> (dual \<times> dual \<times> dual) option" where
  "residual_year f spec x i st = (case st of (revenue, pv_sum, discount) \<Rightarrow> do {
     let g = (if solve_variable spec = Revenue_cagr then x else dconst (growth f ! i));
     let k = (if solve_variable spec = Reinvestment_to_revenue then x else dconst (reinvestment f ! i));
     margin \<leftarrow> residual_margin f spec x i;
     g1 \<leftarrow> dual_add (dconst dec_one) g;
     revenue' \<leftarrow> dual_mul revenue g1;
     ebit \<leftarrow> dual_mul revenue' margin;
     tax \<leftarrow> dual_mul (dual_positive ebit) (dconst (taxes f ! i));
     nopat \<leftarrow> dual_sub ebit tax;
     w1 \<leftarrow> dual_add (dconst dec_one) (dconst (wacc f));
     discount' \<leftarrow> dual_mul discount w1;
     spend \<leftarrow> dual_mul revenue' k;
     fcff \<leftarrow> dual_sub nopat spend;
     pv \<leftarrow> dual_div fcff discount';
     pv_sum' \<leftarrow> dual_add pv_sum pv;
     Some (revenue', pv_sum', discount') })"

fun residual_years ::
  "forecast \<Rightarrow> solve_spec \<Rightarrow> dual \<Rightarrow> nat list \<Rightarrow> dual \<times> dual \<times> dual \<Rightarrow> (dual \<times> dual \<times> dual) option" where
  "residual_years f spec x [] st = Some st"
| "residual_years f spec x (i # is) st = do {
     st' \<leftarrow> residual_year f spec x i st;
     residual_years f spec x is st' }"

definition residual_terminal :: "forecast \<Rightarrow> solve_spec \<Rightarrow> dual \<Rightarrow> dual \<Rightarrow> dual \<Rightarrow> dual option" where
  "residual_terminal f spec x revenue discount = do {
     let tmargin = (if solve_variable spec = Terminal_operating_margin then x
                    else dconst (terminal_margin f));
     g1 \<leftarrow> dual_add (dconst dec_one) (dconst (terminal_growth f));
     tr \<leftarrow> dual_mul revenue g1;
     tm \<leftarrow> dual_mul tr tmargin;
     keep \<leftarrow> dual_sub (dconst dec_one) (dconst (terminal_tax f));
     tn \<leftarrow> dual_mul tm keep;
     tng \<leftarrow> dual_mul tn (dconst (terminal_growth f));
     ti \<leftarrow> dual_div tng (dconst (terminal_roic f));
     tf \<leftarrow> dual_sub tn ti;
     spread \<leftarrow> dual_sub (dconst (wacc f)) (dconst (terminal_growth f));
     tv \<leftarrow> dual_div tf spread;
     dual_div tv discount }"

definition residual :: "forecast \<Rightarrow> solve_spec \<Rightarrow> dec \<Rightarrow> bounds \<Rightarrow> dual option" where
  "residual f spec target domain = do {
     let x = Dual domain (point dec_one);
     (revenue, pv_sum, discount) \<leftarrow>
       residual_years f spec x [0..<length (growth f)]
         (dconst (revenue_anchor f), dconst dec_zero, dconst dec_one);
     terminal \<leftarrow> residual_terminal f spec x revenue discount;
     s \<leftarrow> dual_add pv_sum terminal;
     dual_sub s (dconst target) }"

end
