(* ===== verification/Solver.thy ===== *)
theory Solver
  imports Valuation
begin

text \<open>
  The class \<open>Solver\<close> of \<open>packages/core/valuation.py\<close>: bounded evaluation, bracket
  refinement, the kink partition, and the loop over pending regions.  A solver action maps the
  counters to a result and the counters after it; an exception keeps the counters reached so far.
  The pending regions are a stack whose head is popped next (the end of the source's list).
\<close>

record counters =
  evaluations :: nat
  iterations :: nat
  subdivisions :: nat

type_synonym 'a action = "counters \<Rightarrow> 'a result \<times> counters"

definition act_return :: "'a \<Rightarrow> 'a action" where
  "act_return x st = (Inr x, st)"

definition act_raise :: "error \<Rightarrow> 'a action" where
  "act_raise err st = (Inl err, st)"

definition act_bind :: "'a action \<Rightarrow> ('a \<Rightarrow> 'b action) \<Rightarrow> 'b action" where
  "act_bind m k st =
     (case m st of (Inl err, st') \<Rightarrow> (Inl err, st') | (Inr x, st') \<Rightarrow> k x st')"

definition act_numeric :: "'a option \<Rightarrow> 'a action" where
  "act_numeric m = (case m of None \<Rightarrow> act_raise NumericError | Some x \<Rightarrow> act_return x)"

definition act_result :: "'a result \<Rightarrow> 'a action" where
  "act_result m = (case m of Inl err \<Rightarrow> act_raise err | Inr x \<Rightarrow> act_return x)"

section \<open>One evaluation\<close>

definition at_bounds :: "forecast \<Rightarrow> solve_spec \<Rightarrow> dec \<Rightarrow> bounds \<Rightarrow> dual action" where
  "at_bounds f spec target b st =
     (if max_evaluations spec \<le> evaluations st then (Inl BudgetExhausted, st)
      else act_numeric (residual f spec target b) (st\<lparr>evaluations := evaluations st + 1\<rparr>))"

definition value_at :: "forecast \<Rightarrow> solve_spec \<Rightarrow> dec \<Rightarrow> dec \<Rightarrow> bounds action" where
  "value_at f spec target v =
     act_bind (at_bounds f spec target (point v)) (\<lambda>d. act_return (dvalue d))"

definition midpoint :: "dec \<Rightarrow> dec \<Rightarrow> dec option" where
  "midpoint a b = do { s \<leftarrow> dec_add CONTEXT a b; dec_div CONTEXT s (dec_of_int 2) }"

definition same_as_end :: "dec \<Rightarrow> bounds \<Rightarrow> bool" where
  "same_as_end v b = (dec_eq v (lo b) \<or> dec_eq v (hi b))"

section \<open>Refinement of a bracket\<close>

definition tolerance :: "solve_spec \<Rightarrow> dec \<Rightarrow> dec option" where
  "tolerance spec target = do {
     t \<leftarrow> dec_abs CONTEXT target;
     rel \<leftarrow> dec_mul CONTEXT (relative_tolerance spec) t;
     dec_add CONTEXT (absolute_tolerance spec) rel }"

text \<open>The acceptance test: narrow enough, and the residual within tolerance on the whole bracket.\<close>

definition accepts :: "solve_spec \<Rightarrow> dec \<Rightarrow> bounds \<Rightarrow> bounds \<Rightarrow> bool option" where
  "accepts spec tol bracket res = do {
     width \<leftarrow> dec_sub CONTEXT (hi bracket) (lo bracket);
     if \<not> dec_le width (width_tolerance spec) then Some False
     else do {
       l \<leftarrow> dec_abs CONTEXT (lo res);
       h \<leftarrow> dec_abs CONTEXT (hi res);
       Some (dec_le (dec_max l h) tol) } }"

definition count_iteration :: "unit action" where
  "count_iteration st = (Inr (), st\<lparr>iterations := iterations st + 1\<rparr>)"

definition narrow :: "forecast \<Rightarrow> solve_spec \<Rightarrow> dec \<Rightarrow> int \<Rightarrow> bounds \<Rightarrow> dec \<Rightarrow> bounds option action" where
  "narrow f spec target left_sign bracket mid =
     act_bind (value_at f spec target mid) (\<lambda>m.
       if bsign m \<noteq> 0
       then act_return (Some (if bsign m = left_sign then Bounds mid (hi bracket)
                              else Bounds (lo bracket) mid))
       else
         act_bind (act_numeric (midpoint (lo bracket) mid)) (\<lambda>low.
         act_bind (act_numeric (midpoint mid (hi bracket))) (\<lambda>high.
         act_bind (value_at f spec target low) (\<lambda>l.
         act_bind (value_at f spec target high) (\<lambda>h.
           act_return (if bsign l = left_sign \<and> bsign h = - left_sign
                       then Some (Bounds low high) else None))))))"

fun refine_loop ::
  "forecast \<Rightarrow> solve_spec \<Rightarrow> dec \<Rightarrow> dec \<Rightarrow> int \<Rightarrow> nat \<Rightarrow> bounds \<Rightarrow> (bounds \<times> bounds) option action" where
  "refine_loop f spec target tol left_sign 0 bracket = act_return None"
| "refine_loop f spec target tol left_sign (Suc n) bracket =
     act_bind count_iteration (\<lambda>_.
     act_bind (at_bounds f spec target bracket) (\<lambda>d.
     act_bind (act_numeric (accepts spec tol bracket (dvalue d))) (\<lambda>ok.
       if ok then act_return (Some (bracket, dvalue d))
       else
         act_bind (act_numeric (midpoint (lo bracket) (hi bracket))) (\<lambda>mid.
           if same_as_end mid bracket then act_return None
           else
             act_bind (narrow f spec target left_sign bracket mid) (\<lambda>next_bracket.
               case next_bracket of
                 None \<Rightarrow> act_return None
               | Some b \<Rightarrow> refine_loop f spec target tol left_sign n b)))))"

definition refine ::
  "forecast \<Rightarrow> solve_spec \<Rightarrow> dec \<Rightarrow> bounds \<Rightarrow> int \<Rightarrow> (bounds \<times> bounds) option action" where
  "refine f spec target bracket left_sign =
     act_bind (act_numeric (tolerance spec target)) (\<lambda>tol.
       refine_loop f spec target tol left_sign (max_iterations spec) bracket)"

section \<open>Partition at the tax kinks\<close>

definition add_cut :: "dec list \<Rightarrow> dec \<Rightarrow> dec list" where
  "add_cut cuts v = (if list_ex (\<lambda>c. dec_eq c v) cuts then cuts else cuts @ [v])"

definition kink :: "dec \<Rightarrow> dec \<Rightarrow> bounds option" where
  "kink anchor weight = do {
     rest \<leftarrow> bounds_sub (point dec_one) (point weight);
     n \<leftarrow> bounds_mul (bounds_neg (point anchor)) rest;
     bounds_div n (point weight) }"

definition inside :: "solve_spec \<Rightarrow> dec \<Rightarrow> bool" where
  "inside spec v = (dec_lt (lower spec) v \<and> dec_lt v (upper spec))"

fun kink_cuts :: "solve_spec \<Rightarrow> dec \<Rightarrow> dec list \<Rightarrow> dec list \<Rightarrow> dec list option" where
  "kink_cuts spec anchor [] cuts = Some cuts"
| "kink_cuts spec anchor (w # ws) cuts =
     (if dec_pos w then do {
        k \<leftarrow> kink anchor w;
        kink_cuts spec anchor ws (foldl add_cut cuts (filter (inside spec) [lo k, hi k])) }
      else kink_cuts spec anchor ws cuts)"

definition partition_cuts :: "solve_spec \<Rightarrow> dec list option" where
  "partition_cuts spec =
     (let cuts = foldl add_cut [] [lower spec, upper spec] in
      map_option dec_sort
        (if solve_variable spec = Terminal_operating_margin
         then (case anchor_margin spec of
                 None \<Rightarrow> None
               | Some anchor \<Rightarrow> kink_cuts spec anchor (margin_weights spec) cuts)
         else Some cuts))"

definition pieces :: "dec list \<Rightarrow> bounds list" where
  "pieces cuts = map (\<lambda>(a, b). Bounds a b) (zip cuts (tl cuts))"

section \<open>One pending region\<close>

datatype outcome =
  Split bounds bounds
| Settled proof_region "(bounds \<times> bounds) option"

definition region_record ::
  "bounds \<Rightarrow> dual \<Rightarrow> disposition \<Rightarrow> bounds option \<Rightarrow> bounds option \<Rightarrow> bounds option \<Rightarrow> proof_region action" where
  "region_record current d disp left right rooted =
     act_bind (act_result (public current)) (\<lambda>dom.
     act_bind (act_result (public (dvalue d))) (\<lambda>res.
     act_bind (act_result (public (derivative d))) (\<lambda>der.
     act_bind (case left of None \<Rightarrow> act_return None
               | Some b \<Rightarrow> act_bind (act_result (public b)) (\<lambda>i. act_return (Some i))) (\<lambda>l.
     act_bind (case right of None \<Rightarrow> act_return None
               | Some b \<Rightarrow> act_bind (act_result (public b)) (\<lambda>i. act_return (Some i))) (\<lambda>r.
     act_bind (case rooted of None \<Rightarrow> act_return None
               | Some b \<Rightarrow> act_bind (act_result (public b)) (\<lambda>i. act_return (Some i))) (\<lambda>rt.
       act_return \<lparr>pr_domain = dom, pr_residual = res, pr_derivative = der,
         pr_disposition = disp, pr_left_residual = l, pr_right_residual = r, pr_root = rt\<rparr>))))))"

definition settle ::
  "bounds \<Rightarrow> dual \<Rightarrow> disposition \<Rightarrow> bounds option \<Rightarrow> bounds option \<Rightarrow> (bounds \<times> bounds) option \<Rightarrow> outcome action" where
  "settle current d disp left right rooted =
     act_bind (region_record current d disp left right (map_option fst rooted))
       (\<lambda>pr. act_return (Settled pr rooted))"

definition count_subdivision :: "unit action" where
  "count_subdivision st = (Inr (), st\<lparr>subdivisions := subdivisions st + 1\<rparr>)"

definition unresolved_region ::
  "solve_spec \<Rightarrow> bounds \<Rightarrow> dual \<Rightarrow> bounds option \<Rightarrow> bounds option \<Rightarrow> outcome action" where
  "unresolved_region spec current d left right =
     act_bind (act_numeric (midpoint (lo current) (hi current))) (\<lambda>mid.
     act_bind (\<lambda>st. if subdivisions st < max_subdivisions spec \<and> \<not> same_as_end mid current
                    then act_bind (act_numeric (dec_sub CONTEXT (hi current) (lo current)))
                           (\<lambda>w. act_return (dec_lt (width_tolerance spec) w)) st
                    else act_return False st) (\<lambda>divide.
       if divide
       then act_bind count_subdivision (\<lambda>_.
              act_return (Split (Bounds (lo current) mid) (Bounds mid (hi current))))
       else settle current d Unresolved left right None))"

text \<open>The branch with a signed slope: compare the signs at the two ends, refine a sign change.\<close>

definition process_bracket ::
  "forecast \<Rightarrow> solve_spec \<Rightarrow> dec \<Rightarrow> bounds \<Rightarrow> dual \<Rightarrow> bounds \<Rightarrow> bounds \<Rightarrow> outcome action" where
  "process_bracket f spec target current d left right =
     (if bsign left \<noteq> 0 \<and> bsign left = bsign right
      then settle current d Excluded (Some left) (Some right) None
      else if bsign left * bsign right = - 1 then
        act_bind (refine f spec target current (bsign left)) (\<lambda>refined.
          case refined of
            Some rooted \<Rightarrow> settle current d Unique_root (Some left) (Some right) (Some rooted)
          | None \<Rightarrow> unresolved_region spec current d (Some left) (Some right))
      else unresolved_region spec current d (Some left) (Some right))"

definition process_region :: "forecast \<Rightarrow> solve_spec \<Rightarrow> dec \<Rightarrow> bounds \<Rightarrow> outcome action" where
  "process_region f spec target current =
     act_bind (at_bounds f spec target current) (\<lambda>d.
       if bsign (dvalue d) \<noteq> 0 then settle current d Excluded None None None
       else if bsign (derivative d) \<noteq> 0 then
         act_bind (value_at f spec target (lo current)) (\<lambda>left.
         act_bind (value_at f spec target (hi current)) (\<lambda>right.
           process_bracket f spec target current d left right))
       else unresolved_region spec current d None None)"

section \<open>The loop\<close>

record loop_state =
  pending :: "bounds list"
  current :: "bounds option"
  proofs :: "proof_region list"
  roots :: "bounds list"
  residuals :: "bounds list"
  unresolved :: bool
  counts :: counters
  raised :: "error option"

definition loop_step :: "forecast \<Rightarrow> solve_spec \<Rightarrow> dec \<Rightarrow> loop_state \<Rightarrow> loop_state" where
  "loop_step f spec target s =
     (case pending s of
        [] \<Rightarrow> s
      | b # rest \<Rightarrow>
          (case process_region f spec target b (counts s) of
             (Inl err, st) \<Rightarrow>
               s\<lparr>pending := rest, current := Some b, counts := st, raised := Some err\<rparr>
           | (Inr (Split left right), st) \<Rightarrow>
               s\<lparr>pending := left # right # rest, current := None, counts := st\<rparr>
           | (Inr (Settled pr rooted), st) \<Rightarrow>
               s\<lparr>pending := rest, current := None, counts := st,
                  proofs := proofs s @ [pr],
                  roots := roots s @ (case rooted of None \<Rightarrow> [] | Some (b', _) \<Rightarrow> [b']),
                  residuals := residuals s @ (case rooted of None \<Rightarrow> [] | Some (_, r) \<Rightarrow> [r]),
                  unresolved := (unresolved s \<or> pr_disposition pr = Unresolved)\<rparr>))"

definition loop_running :: "loop_state \<Rightarrow> bool" where
  "loop_running s = (raised s = None \<and> pending s \<noteq> [])"

definition initial_counts :: counters where
  "initial_counts = \<lparr>evaluations = 0, iterations = 0, subdivisions = 0\<rparr>"

definition loop_start :: "solve_spec \<Rightarrow> loop_state" where
  "loop_start spec =
     (let whole = \<lparr>pending = [Bounds (lower spec) (upper spec)], current = None, proofs = [],
            roots = [], residuals = [], unresolved = False, counts = initial_counts,
            raised = None\<rparr> in
      case partition_cuts spec of
        None \<Rightarrow> whole\<lparr>raised := Some NumericError\<rparr>
      | Some cuts \<Rightarrow>
          (if max_subdivisions spec < length cuts - 2 then whole\<lparr>raised := Some BudgetExhausted\<rparr>
           else whole\<lparr>pending := pieces cuts,
                  counts := initial_counts\<lparr>subdivisions := length cuts - 2\<rparr>\<rparr>))"

definition run_loop :: "forecast \<Rightarrow> solve_spec \<Rightarrow> dec \<Rightarrow> loop_state option" where
  "run_loop f spec target =
     while_option loop_running (loop_step f spec target) (loop_start spec)"

section \<open>The result\<close>

fun public_all :: "bounds list \<Rightarrow> interval list result" where
  "public_all [] = Inr []"
| "public_all (b # bs) =
     (case public b of
        Inl err \<Rightarrow> Inl err
      | Inr i \<Rightarrow> (case public_all bs of Inl err \<Rightarrow> Inl err | Inr is \<Rightarrow> Inr (i # is)))"

definition remaining_regions :: "loop_state \<Rightarrow> bounds list" where
  "remaining_regions s = (case current s of None \<Rightarrow> [] | Some b \<Rightarrow> [b]) @ rev (pending s)"

definition final_reasons :: "loop_state \<Rightarrow> string list" where
  "final_reasons s =
     (if raised s \<noteq> None \<or> unresolved s \<or> remaining_regions s \<noteq> []
      then [case raised s of
              None \<Rightarrow> ''uncertified_domain''
            | Some err \<Rightarrow> if err = BudgetExhausted then ''evaluation_budget'' else ''numeric_precision'']
      else [])"

definition final_state :: "loop_state \<Rightarrow> solve_state" where
  "final_state s =
     (if final_reasons s \<noteq> [] then Inconclusive
      else if 1 < length (roots s) then Non_unique
      else if roots s \<noteq> [] then Converged
      else No_solution_in_domain)"

definition solve_summary :: "loop_state \<Rightarrow> solve_result result" where
  "solve_summary s =
     (let chosen = (if final_state s = Converged then Some (hd (roots s), hd (residuals s)) else None) in
      case (case chosen of
              None \<Rightarrow> Inr None
            | Some (b, _) \<Rightarrow> (case midpoint (lo b) (hi b) of None \<Rightarrow> Inl NumericError | Some m \<Rightarrow> Inr (Some m))) of
        Inl err \<Rightarrow> Inl err
      | Inr rep \<Rightarrow>
        (case public_all (case chosen of None \<Rightarrow> [] | Some (b, r) \<Rightarrow> [b, r]) of
           Inl err \<Rightarrow> Inl err
         | Inr ivs \<Rightarrow>
           (case public_all (roots s) of
              Inl err \<Rightarrow> Inl err
            | Inr root_ivs \<Rightarrow>
              (case public_all (remaining_regions s) of
                 Inl err \<Rightarrow> Inl err
               | Inr rem \<Rightarrow>
                 scalar_requires_certificate
                   \<lparr>sr_state = final_state s, sr_representative = rep,
                    sr_interval = (case ivs of [] \<Rightarrow> None | i # _ \<Rightarrow> Some i),
                    sr_residual = (case ivs of _ # r # _ \<Rightarrow> Some r | _ \<Rightarrow> None),
                    sr_root_intervals = root_ivs,
                    sr_unresolved_domains =
                      rem @ map pr_domain (filter (\<lambda>p. pr_disposition p = Unresolved) (proofs s)),
                    sr_proof = proofs s, sr_proof_revision = ''decimal_interval_model_v1'',
                    sr_evaluations = evaluations (counts s),
                    sr_subdivisions = subdivisions (counts s),
                    sr_iterations = iterations (counts s),
                    sr_reasons = final_reasons s\<rparr>))))"

text \<open>
  A \<open>ValueError\<close> raised inside the loop (an unordered interval) is not caught and leaves
  \<open>run\<close>; the other two exceptions end the loop and are reported in the result.
\<close>

definition run_solver :: "forecast \<Rightarrow> solve_spec \<Rightarrow> dec \<Rightarrow> solve_result result" where
  "run_solver f spec target =
     (case run_loop f spec target of
        None \<Rightarrow> Inl AssertionError
      | Some s \<Rightarrow> (if raised s = Some ValueError then Inl ValueError else solve_summary s))"

definition solve :: "forecast \<Rightarrow> solve_spec \<Rightarrow> decimal \<Rightarrow> solve_result result" where
  "solve f spec target =
     (if \<not> forecast_domains f \<or> \<not> spec_domain spec then Inl ValueError
      else case target of
        Finite t \<Rightarrow>
          (if solve_variable spec = Terminal_operating_margin
              \<and> length (margin_weights spec) \<noteq> length (growth f)
           then Inl ValueError else run_solver f spec t)
      | _ \<Rightarrow> Inl ValueError)"

definition scenario_span :: "solve_result list \<Rightarrow> interval option result" where
  "scenario_span rs =
     (if length rs < 2 \<or> list_ex (\<lambda>r. sr_state r \<noteq> Converged) rs then Inr None
      else case List.map_filter sr_representative rs of
        [] \<Rightarrow> Inl ValueError
      | v # vs \<Rightarrow>
          (case mk_interval (foldl dec_min v vs) (foldl dec_max v vs) of
             Inl err \<Rightarrow> Inl err | Inr i \<Rightarrow> Inr (Some i)))"

end
