(* ===== verification/Decimal_Laws.thy ===== *)
theory Decimal_Laws
  imports Decimals
begin

text \<open>
  What the decimal operations promise: comparisons decide the order of the values, and the shared
  rounding step \<open>dec_fix\<close> stays on one side of the exact result (directed modes), within half a
  unit of it (half even), or equal to it (Inexact trapped, or the digits fit).
\<close>

section \<open>Digits and scaling\<close>

lemma ndigits_pos [simp]: "0 < ndigits n"
  by (subst ndigits.simps) simp

lemma ndigits_0 [simp]: "ndigits 0 = 1"
  by (subst ndigits.simps) simp

lemma less_10_pow_ndigits: "n < 10 ^ ndigits n"
proof (induction n rule: ndigits.induct)
  case (1 n)
  show ?case
  proof (cases "n < 10")
    case True
    then show ?thesis by (simp add: ndigits.simps[of n])
  next
    case False
    with 1 have "n div 10 < 10 ^ ndigits (n div 10)" by simp
    then have "n < 10 * 10 ^ ndigits (n div 10)" by arith
    with False show ?thesis by (simp add: ndigits.simps[of n])
  qed
qed

lemma ndigits_le_imp: "0 < n \<Longrightarrow> 10 ^ (ndigits n - 1) \<le> n"
proof (induction n rule: ndigits.induct)
  case (1 n)
  show ?case
  proof (cases "n < 10")
    case True
    with "1.prems" show ?thesis by (simp add: ndigits.simps[of n])
  next
    case False
    then have "0 < n div 10" by arith
    with 1 False have ih: "10 ^ (ndigits (n div 10) - 1) \<le> n div 10" by simp
    have "10 ^ ndigits (n div 10) = 10 * 10 ^ (ndigits (n div 10) - 1)"
      by (metis One_nat_def Suc_pred ndigits_pos power_Suc)
    also have "\<dots> \<le> 10 * (n div 10)" using ih by simp
    also have "\<dots> \<le> n" by simp
    finally show ?thesis using False by (simp add: ndigits.simps[of n])
  qed
qed

lemma ndigits_le_iff: "ndigits n \<le> k \<longleftrightarrow> n < 10 ^ k" if "0 < k"
proof
  assume "ndigits n \<le> k"
  then have "(10::nat) ^ ndigits n \<le> 10 ^ k" by (rule power_increasing) simp
  with less_10_pow_ndigits[of n] show "n < 10 ^ k" by linarith
next
  assume less: "n < 10 ^ k"
  show "ndigits n \<le> k"
  proof (cases "n = 0")
    case True
    with that show ?thesis by simp
  next
    case False
    then have "10 ^ (ndigits n - 1) \<le> n" by (intro ndigits_le_imp) simp
    with less have "(10::nat) ^ (ndigits n - 1) < 10 ^ k" by linarith
    then have "ndigits n - 1 < k" by (simp add: power_strict_increasing_iff)
    then show ?thesis by linarith
  qed
qed

lemma less_ndigits_iff: "k < ndigits n \<longleftrightarrow> 10 ^ k \<le> n" if "0 < k"
  using ndigits_le_iff[OF that, of n] by linarith

lemma ten_powi_pos [simp]: "(0::'a::linordered_field) < 10 powi e"
  by (simp add: zero_less_power_int)

lemma ten_powi_add_nat: "(10::'a::linordered_field) powi (e + int k) = 10 powi e * 10 ^ k"
  by (simp add: power_int_add)

lemma ten_powi_diff:
  "m \<le> e \<Longrightarrow> (10::'a::linordered_field) powi e = 10 powi m * 10 ^ nat (e - m)"
  using ten_powi_add_nat[of m "nat (e - m)"] by simp

section \<open>Values and comparison\<close>

lemma dint_simps [simp]: "dint (Dec True c e) = - int c" "dint (Dec False c e) = int c"
  by (simp_all add: dint_def)

lemma dval_Dec: "dval (Dec s c e) = (if s then - 1 else 1) * of_nat c * (10 powi e :: 'a::linordered_field)"
  by (simp add: dval_def dint_def)

lemma dval_aligned:
  "m \<le> dexp d \<Longrightarrow> (dval d :: 'a::linordered_field) = of_int (aligned m d) * 10 powi m"
  by (simp add: dval_def aligned_def ten_powi_diff[of m "dexp d"])

lemma dval_of_int [simp]: "dval (dec_of_int i) = of_int i"
  by (simp add: dval_def dec_of_int_def dint_def)

lemma dval_zero [simp]: "dval dec_zero = 0"
  by (simp add: dval_def dec_zero_def dint_def)

lemma dval_coeff_0 [simp]: "dval (Dec s 0 e) = 0"
  by (simp add: dval_def dint_def)

lemma dval_copy_negate [simp]: "dval (copy_negate d) = - dval d"
  by (simp add: dval_def copy_negate_def dint_def)

lemma abs_of_int_dint: "\<bar>of_int (dint d) :: 'a::linordered_idom\<bar> = of_nat (dcoeff d)"
  by (simp add: dint_def)

lemma dval_copy_abs [simp]: "dval (copy_abs d) = \<bar>dval d\<bar>"
  by (simp add: dval_def copy_abs_def abs_mult abs_of_int_dint)

lemma dval_eq_0_iff: "dval d = 0 \<longleftrightarrow> dcoeff d = 0"
  by (simp add: dval_def dint_def)

lemma dec_le_iff: "dec_le a b \<longleftrightarrow> (dval a :: 'a::linordered_field) \<le> dval b"
proof -
  let ?m = "min (dexp a) (dexp b)"
  have "(dval a :: 'a) \<le> dval b
      \<longleftrightarrow> (of_int (aligned ?m a) :: 'a) * 10 powi ?m \<le> of_int (aligned ?m b) * 10 powi ?m"
    by (simp add: dval_aligned[of ?m])
  also have "\<dots> \<longleftrightarrow> aligned ?m a \<le> aligned ?m b" by simp
  finally show ?thesis by (simp add: dec_le_def Let_def)
qed

lemma dec_lt_iff: "dec_lt a b \<longleftrightarrow> (dval a :: 'a::linordered_field) < dval b"
proof -
  have "dec_lt a b \<longleftrightarrow> \<not> dec_le b a"
    by (simp add: dec_lt_def dec_le_def Let_def min.commute not_le)
  then show ?thesis by (simp add: dec_le_iff[where 'a='a] not_le)
qed

lemma dec_eq_iff: "dec_eq a b \<longleftrightarrow> (dval a :: 'a::linordered_field) = dval b"
proof -
  have "dec_eq a b \<longleftrightarrow> dec_le a b \<and> dec_le b a"
    by (auto simp: dec_eq_def dec_le_def Let_def min.commute)
  then show ?thesis by (auto simp: dec_le_iff[where 'a='a])
qed

lemma dval_dec_max: "dval (dec_max a b) = max (dval a) (dval b :: 'a::linordered_field)"
  by (simp add: dec_max_def dec_lt_iff[where 'a='a])

lemma dval_dec_min: "dval (dec_min a b) = min (dval a) (dval b :: 'a::linordered_field)"
  by (simp add: dec_min_def dec_lt_iff[where 'a='a])

lemma dec_le_refl [simp]: "dec_le a a"
  by (simp add: dec_le_def)

lemma dec_le_trans: "dec_le a b \<Longrightarrow> dec_le b c \<Longrightarrow> dec_le a c"
  by (simp add: dec_le_iff[where 'a=rat])

lemma dec_le_linear: "dec_le a b \<or> dec_le b a"
  by (simp add: dec_le_iff[where 'a=rat] linear)

lemma dec_lt_def': "dec_lt a b \<longleftrightarrow> \<not> dec_le b a"
  by (simp add: dec_le_iff[where 'a=rat] dec_lt_iff[where 'a=rat] not_le)

section \<open>The rounding step\<close>

text \<open>One rounding at the unit \<open>u\<close>: \<open>q\<close> units and a remainder \<open>r\<close> below one unit.\<close>

lemma round_up_floor:
  fixes X w :: "'a::linordered_field"
  assumes c: "c = q * u + r" and "r < u" and w: "0 < w"
    and lo: "of_nat c * w \<le> X" and hi: "X < of_nat (c + 1) * w"
    and ex: "\<not> sticky \<Longrightarrow> X = of_nat c * w"
    and c1: "c1 = (if up then q + 1 else q)" and up: "up \<longleftrightarrow> r \<noteq> 0 \<or> sticky"
  shows "X \<le> of_nat c1 * (of_nat u * w)"
proof (cases up)
  case True
  have "c + 1 \<le> (q + 1) * u" using c \<open>r < u\<close> by simp
  then have "(of_nat (c + 1) :: 'a) \<le> of_nat ((q + 1) * u)" by (rule of_nat_mono)
  then have "of_nat (c + 1) * w \<le> of_nat ((q + 1) * u) * w" using w by (simp only: mult_right_mono less_imp_le)
  with hi True c1 show ?thesis by (simp add: algebra_simps)
next
  case False
  with up c have "c = q * u" "\<not> sticky" by auto
  with ex c1 False show ?thesis by (simp add: algebra_simps)
qed

lemma round_down_le:
  fixes X w :: "'a::linordered_field"
  assumes c: "c = q * u + r" and w: "0 < w" and lo: "of_nat c * w \<le> X"
  shows "of_nat q * (of_nat u * w) \<le> X"
proof -
  have "(of_nat (q * u) :: 'a) \<le> of_nat c" using c by (intro of_nat_mono) simp
  then have "of_nat (q * u) * w \<le> of_nat c * w" using w by (simp only: mult_right_mono less_imp_le)
  with lo show ?thesis by (simp add: algebra_simps)
qed

lemma round_half_even_error:
  fixes X w :: "'a::linordered_field"
  assumes c: "c = q * u + r" and "r < u" and "even u" and w: "0 < w"
    and lo: "of_nat c * w \<le> X" and hi: "X < of_nat (c + 1) * w"
    and ex: "\<not> sticky \<Longrightarrow> X = of_nat c * w"
    and c1: "c1 = (if round_up ROUND_HALF_EVEN s q r u sticky then q + 1 else q)"
  shows "2 * \<bar>of_nat c1 * (of_nat u * w) - X\<bar> \<le> of_nat u * w"
proof (cases "round_up ROUND_HALF_EVEN s q r u sticky")
  case True
  then have "u \<le> 2 * r" by (auto simp: round_up_def)
  then have "2 * ((q + 1) * u) \<le> 2 * c + u" using c by simp
  then have "(of_nat (2 * ((q + 1) * u)) :: 'a) \<le> of_nat (2 * c + u)" by (rule of_nat_mono)
  then have "of_nat (2 * ((q + 1) * u)) * w \<le> of_nat (2 * c + u) * w"
    using w by (simp only: mult_right_mono less_imp_le)
  moreover have "X \<le> of_nat (q + 1) * (of_nat u * w)"
    using c \<open>r < u\<close> \<open>u \<le> 2 * r\<close>
    by (intro round_up_floor[where up = True and q = q, OF c \<open>r < u\<close> w lo hi ex]) auto
  ultimately show ?thesis using True c1 lo by (simp add: algebra_simps)
next
  case False
  have le: "of_nat q * (of_nat u * w) \<le> X" by (rule round_down_le[OF c w lo])
  show ?thesis
  proof (cases sticky)
    case True
    with False have "2 * r < u" by (auto simp: round_up_def)
    with \<open>even u\<close> have "2 * r + 2 \<le> u" by presburger
    then have "2 * (c + 1) \<le> 2 * (q * u) + u" using c by simp
    then have "(of_nat (2 * (c + 1)) :: 'a) \<le> of_nat (2 * (q * u) + u)" by (rule of_nat_mono)
    then have "of_nat (2 * (c + 1)) * w \<le> of_nat (2 * (q * u) + u) * w"
      using w by (simp only: mult_right_mono less_imp_le)
    with le hi False c1 show ?thesis by (simp add: algebra_simps)
  next
    case False
    with \<open>\<not> round_up _ _ _ _ _ _\<close> have "2 * r \<le> u" by (auto simp: round_up_def)
    then have "2 * c \<le> 2 * (q * u) + u" using c by simp
    then have "(of_nat (2 * c) :: 'a) \<le> of_nat (2 * (q * u) + u)" by (rule of_nat_mono)
    then have "of_nat (2 * c) * w \<le> of_nat (2 * (q * u) + u) * w"
      using w by (simp only: mult_right_mono less_imp_le)
    with le ex[OF False] \<open>\<not> round_up _ _ _ _ _ _\<close> c1 show ?thesis by (simp add: algebra_simps)
  qed
qed

text \<open>
  The outcome of \<open>dec_fix\<close>: a zero, the number itself, or a number of \<open>c1\<close> units
  \<open>u * 10 ^ e\<close> with the coefficient rounded by \<open>round_up\<close>.
\<close>

definition fix_shape :: "dctx \<Rightarrow> bool \<Rightarrow> nat \<Rightarrow> int \<Rightarrow> bool \<Rightarrow> dec \<Rightarrow> nat \<Rightarrow> nat \<Rightarrow> nat \<Rightarrow> nat \<Rightarrow> bool" where
  "fix_shape ctx s c e sticky r q r0 k c1 \<longleftrightarrow>
     0 < k \<and> c = q * 10 ^ k + r0 \<and> r0 < 10 ^ k
     \<and> c1 = (if round_up (rounding_mode ctx) s q r0 (10 ^ k) sticky then q + 1 else q)
     \<and> dsign r = s \<and> (trap_inexact ctx \<longrightarrow> r0 = 0 \<and> \<not> sticky)
     \<and> ((r = Dec s c1 (e + int k) \<and> ndigits c1 \<le> prec ctx)
        \<or> (c1 = 10 ^ prec ctx \<and> r = Dec s (10 ^ (prec ctx - 1)) (e + int k + 1)))"

lemma dec_fix_cases:
  assumes fx: "dec_fix ctx s c e sticky = Some r" and p: "0 < prec ctx"
    and st: "sticky \<longrightarrow> prec ctx < ndigits c"
  obtains (zero) "c = 0" "\<not> sticky" "dcoeff r = 0" "dsign r = s"
    | (plain) "\<not> sticky" "r = Dec s c e" "ndigits c \<le> prec ctx"
    | (rounded) q r0 k c1 where "fix_shape ctx s c e sticky r q r0 k c1"
proof -
  define tiny where "tiny = Emin ctx - int (prec ctx) + 1"
  define top where "top = Emax ctx - int (prec ctx) + 1"
  define need where "need = int (ndigits c) + e - int (prec ctx)"
  define e0 where "e0 = max need tiny"
  consider (z) "c = 0 \<and> \<not> sticky" | (same) "\<not> (c = 0 \<and> \<not> sticky)" "\<not> e < e0"
    | (rnd) "\<not> (c = 0 \<and> \<not> sticky)" "e < e0" by blast
  then show thesis
  proof cases
    case z
    with fx show ?thesis by (intro zero) (auto simp: dec_fix_def Let_def)
  next
    case same
    then have "need \<le> e" by (simp add: e0_def)
    then have "ndigits c \<le> prec ctx" by (simp add: need_def)
    moreover from this st have "\<not> sticky" by auto
    ultimately show ?thesis using fx same
      by (intro plain) (auto simp: dec_fix_def Let_def need_def tiny_def e0_def split: if_splits)
  next
    case rnd
    define k where "k = nat (e0 - e)"
    define q where "q = c div 10 ^ k"
    define r0 where "r0 = c mod 10 ^ k"
    define c1 where "c1 = rounded_coeff ctx s c (10 ^ k) sticky"
    have k: "0 < k" "e0 = e + int k" using rnd by (auto simp: k_def)
    have "need \<le> e + int k" using k by (simp add: e0_def)
    then have "ndigits c \<le> prec ctx + k" by (simp add: need_def)
    then have "c < 10 ^ (prec ctx + k)" using p by (simp add: ndigits_le_iff)
    then have "q < 10 ^ prec ctx" by (simp add: q_def less_mult_imp_div_less power_add)
    then have c1_le: "c1 \<le> 10 ^ prec ctx" by (simp add: c1_def rounded_coeff_def q_def)
    have r: "r = (if prec ctx < ndigits c1 then Dec s (c1 div 10) (e0 + 1) else Dec s c1 e0)"
      and ti: "trap_inexact ctx \<longrightarrow> r0 = 0 \<and> \<not> sticky"
      using fx rnd
      by (auto simp: dec_fix_def Let_def need_def[symmetric] tiny_def[symmetric] top_def[symmetric]
          e0_def[symmetric] k_def[symmetric] r0_def[symmetric] c1_def[symmetric]
          split: if_splits)
    have carry: "c1 = 10 ^ prec ctx" if "prec ctx < ndigits c1"
      using that c1_le p by (simp add: less_ndigits_iff)
    have ten: "(10::nat) ^ prec ctx div 10 = 10 ^ (prec ctx - 1)"
      using p by (cases "prec ctx") simp_all
    have "fix_shape ctx s c e sticky r q r0 k c1"
      unfolding fix_shape_def
    proof (intro conjI)
      show "c = q * 10 ^ k + r0" unfolding q_def r0_def by (rule div_mult_mod_eq [symmetric])
      show "(r = Dec s c1 (e + int k) \<and> ndigits c1 \<le> prec ctx)
        \<or> (c1 = 10 ^ prec ctx \<and> r = Dec s (10 ^ (prec ctx - 1)) (e + int k + 1))"
        using r carry k ten by auto
    qed (use k r ti in \<open>auto simp: r0_def q_def c1_def rounded_coeff_def\<close>)
    then show ?thesis by (rule rounded)
  qed
qed

lemma fix_shape_dval:
  assumes "fix_shape ctx s c e sticky r q r0 k c1" and p: "0 < prec ctx"
  shows "(dval r :: 'a::linordered_field) = (if s then - 1 else 1) * (of_nat c1 * (of_nat (10 ^ k) * 10 powi e))"
proof -
  have "of_nat (10 ^ (prec ctx - 1)) * (10 powi (e + int k + 1)) = (of_nat (10 ^ prec ctx) :: 'a) * (of_nat (10 ^ k) * 10 powi e)"
    using p ten_powi_add_nat[where 'a='a, of e "k + 1"]
    by (cases "prec ctx") (simp_all add: algebra_simps)
  moreover have "(r = Dec s c1 (e + int k) \<and> ndigits c1 \<le> prec ctx)
        \<or> (c1 = 10 ^ prec ctx \<and> r = Dec s (10 ^ (prec ctx - 1)) (e + int k + 1))"
    using assms(1) unfolding fix_shape_def by blast
  ultimately show ?thesis
    by (elim disjE conjE) (simp_all add: dval_Dec ten_powi_add_nat[of e k] algebra_simps)
qed

text \<open>A number of magnitude \<open>X\<close> that \<open>dec_fix\<close> is asked to round.\<close>

definition represents :: "nat \<Rightarrow> int \<Rightarrow> bool \<Rightarrow> 'a::linordered_field \<Rightarrow> bool" where
  "represents c e sticky X \<longleftrightarrow>
     of_nat c * 10 powi e \<le> X \<and> X < of_nat (c + 1) * 10 powi e
     \<and> (\<not> sticky \<longrightarrow> X = of_nat c * 10 powi e)"

definition with_sign :: "bool \<Rightarrow> 'a::linordered_field \<Rightarrow> 'a" where
  "with_sign s X = (if s then - X else X)"

lemma represents_exact: "represents c e False (of_nat c * 10 powi e)"
  by (simp add: represents_def)

lemma dec_fix_floor:
  fixes X :: "'a::linordered_field"
  assumes "dec_fix ctx s c e sticky = Some r" and p: "0 < prec ctx"
    and "sticky \<longrightarrow> prec ctx < ndigits c"
    and X: "represents c e sticky X" and "rounding_mode ctx = ROUND_FLOOR"
  shows "dval r \<le> with_sign s X"
  using assms(1-3)
proof (cases rule: dec_fix_cases)
  case zero
  with X show ?thesis by (simp add: dval_eq_0_iff[THEN iffD2] represents_def with_sign_def)
next
  case plain
  with X show ?thesis by (simp add: dval_Dec represents_def with_sign_def)
next
  case (rounded q r0 k c1)
  then have c: "c = q * 10 ^ k + r0" "r0 < 10 ^ k" "c1 = (if s \<and> (r0 \<noteq> 0 \<or> sticky) then q + 1 else q)"
    by (auto simp: fix_shape_def round_up_def assms(5))
  have lo: "of_nat c * 10 powi e \<le> X" and hi: "X < of_nat (c + 1) * 10 powi e"
    and ex: "\<not> sticky \<Longrightarrow> X = of_nat c * 10 powi e" using X by (simp_all add: represents_def)
  show ?thesis
  proof (cases s)
    case True
    then have "X \<le> of_nat c1 * (of_nat (10 ^ k) * 10 powi e)"
      using c by (intro round_up_floor[where up = "r0 \<noteq> 0 \<or> sticky", OF c(1,2) ten_powi_pos lo hi ex]) auto
    with True show ?thesis by (simp add: fix_shape_dval[OF rounded p] with_sign_def)
  next
    case False
    with c round_down_le[OF c(1) ten_powi_pos lo] show ?thesis
      by (simp add: fix_shape_dval[OF rounded p] with_sign_def)
  qed
qed

lemma dec_fix_ceiling:
  fixes X :: "'a::linordered_field"
  assumes "dec_fix ctx s c e sticky = Some r" and p: "0 < prec ctx"
    and "sticky \<longrightarrow> prec ctx < ndigits c"
    and X: "represents c e sticky X" and "rounding_mode ctx = ROUND_CEILING"
  shows "with_sign s X \<le> dval r"
  using assms(1-3)
proof (cases rule: dec_fix_cases)
  case zero
  with X show ?thesis by (simp add: dval_eq_0_iff[THEN iffD2] represents_def with_sign_def)
next
  case plain
  with X show ?thesis by (simp add: dval_Dec represents_def with_sign_def)
next
  case (rounded q r0 k c1)
  then have c: "c = q * 10 ^ k + r0" "r0 < 10 ^ k" "c1 = (if \<not> s \<and> (r0 \<noteq> 0 \<or> sticky) then q + 1 else q)"
    by (auto simp: fix_shape_def round_up_def assms(5))
  have lo: "of_nat c * 10 powi e \<le> X" and hi: "X < of_nat (c + 1) * 10 powi e"
    and ex: "\<not> sticky \<Longrightarrow> X = of_nat c * 10 powi e" using X by (simp_all add: represents_def)
  show ?thesis
  proof (cases s)
    case False
    then have "X \<le> of_nat c1 * (of_nat (10 ^ k) * 10 powi e)"
      using c by (intro round_up_floor[where up = "r0 \<noteq> 0 \<or> sticky", OF c(1,2) ten_powi_pos lo hi ex]) auto
    with False show ?thesis by (simp add: fix_shape_dval[OF rounded p] with_sign_def)
  next
    case True
    with c round_down_le[OF c(1) ten_powi_pos lo] show ?thesis
      by (simp add: fix_shape_dval[OF rounded p] with_sign_def)
  qed
qed

lemma dec_fix_exact:
  fixes X :: "'a::linordered_field"
  assumes "dec_fix ctx s c e sticky = Some r" and p: "0 < prec ctx"
    and "sticky \<longrightarrow> prec ctx < ndigits c"
    and X: "represents c e sticky X" and "trap_inexact ctx"
  shows "dval r = with_sign s X"
  using assms(1-3)
proof (cases rule: dec_fix_cases)
  case zero
  with X show ?thesis by (simp add: dval_eq_0_iff[THEN iffD2] represents_def with_sign_def)
next
  case plain
  with X show ?thesis by (simp add: dval_Dec represents_def with_sign_def)
next
  case (rounded q r0 k c1)
  with assms(5) have "c = q * 10 ^ k" "\<not> sticky" "c1 = q"
    by (auto simp: fix_shape_def round_up_def split: rounding.splits)
  with X show ?thesis
    by (simp add: fix_shape_dval[OF rounded p] with_sign_def represents_def algebra_simps)
qed

lemma dec_fix_half_even:
  fixes X :: "'a::linordered_field"
  assumes "dec_fix ctx s c e sticky = Some r" and p: "0 < prec ctx"
    and "sticky \<longrightarrow> prec ctx < ndigits c"
    and X: "represents c e sticky X" and m: "rounding_mode ctx = ROUND_HALF_EVEN"
  shows "2 * \<bar>dval r - with_sign s X\<bar> \<le> 10 powi dexp r"
  using assms(1-3)
proof (cases rule: dec_fix_cases)
  case zero
  with X show ?thesis
    by (simp add: dval_eq_0_iff[THEN iffD2] represents_def with_sign_def less_imp_le)
next
  case plain
  with X show ?thesis by (simp add: dval_Dec represents_def with_sign_def less_imp_le)
next
  case (rounded q r0 k c1)
  then have c: "c = q * 10 ^ k + r0" "r0 < 10 ^ k" and ev: "even ((10::nat) ^ k)"
    and c1: "c1 = (if round_up ROUND_HALF_EVEN s q r0 (10 ^ k) sticky then q + 1 else q)"
    and ex: "e + int k \<le> dexp r"
    by (auto simp: fix_shape_def m)
  have "2 * \<bar>of_nat c1 * (of_nat (10 ^ k) * 10 powi e) - X\<bar> \<le> of_nat (10 ^ k) * 10 powi e"
    using X by (intro round_half_even_error[OF c ev ten_powi_pos _ _ _ c1]) (simp_all add: represents_def)
  also have "of_nat (10 ^ k) * 10 powi e = (10 powi (e + int k) :: 'a)"
    by (simp add: ten_powi_add_nat)
  also have "\<dots> \<le> 10 powi dexp r" using ex by (simp add: power_int_increasing)
  finally show ?thesis
    by (cases s) (simp_all add: fix_shape_dval[OF rounded p] with_sign_def abs_minus_commute algebra_simps)
qed

section \<open>What every operation promises\<close>

definition rounds_to :: "dctx \<Rightarrow> dec \<Rightarrow> 'a::linordered_field \<Rightarrow> bool" where
  "rounds_to ctx r V \<longleftrightarrow>
     (rounding_mode ctx = ROUND_FLOOR \<longrightarrow> dval r \<le> V)
     \<and> (rounding_mode ctx = ROUND_CEILING \<longrightarrow> V \<le> dval r)
     \<and> (rounding_mode ctx = ROUND_HALF_EVEN \<longrightarrow> 2 * \<bar>dval r - V\<bar> \<le> 10 powi dexp r)
     \<and> (trap_inexact ctx \<longrightarrow> dval r = V)"

lemma dec_fix_rounds_to:
  assumes "dec_fix ctx s c e sticky = Some r" and "0 < prec ctx"
    and "sticky \<longrightarrow> prec ctx < ndigits c" and "represents c e sticky X"
  shows "rounds_to ctx r (with_sign s X)"
  using dec_fix_floor[OF assms] dec_fix_ceiling[OF assms] dec_fix_half_even[OF assms]
    dec_fix_exact[OF assms] by (simp add: rounds_to_def)

lemma dec_fix_rounds_to_int:
  assumes "dec_fix ctx s (nat \<bar>i\<bar>) e False = Some r" and "0 < prec ctx" and "i \<noteq> 0 \<longrightarrow> s = (i < 0)"
  shows "rounds_to ctx r (of_int i * 10 powi e :: 'a::linordered_field)"
proof -
  have "rounds_to ctx r (with_sign s (of_nat (nat \<bar>i\<bar>) * 10 powi e :: 'a))"
    using assms(1,2) by (intro dec_fix_rounds_to[OF _ _ _ represents_exact]) auto
  moreover have "with_sign s (of_nat (nat \<bar>i\<bar>) * 10 powi e :: 'a) = of_int i * 10 powi e"
    using assms(3) by (cases "i = 0") (auto simp: with_sign_def)
  ultimately show ?thesis by simp
qed

lemma dec_add_rounds_to [rounding_laws]:
  assumes "dec_add ctx a b = Some r" and p: "0 < prec ctx"
  shows "rounds_to ctx r (dval a + dval b)"
proof -
  let ?m = "min (dexp a) (dexp b)"
  let ?i = "aligned ?m a + aligned ?m b"
  obtain s where "dec_fix ctx s (nat \<bar>?i\<bar>) ?m False = Some r" "?i \<noteq> 0 \<longrightarrow> s = (?i < 0)"
    using assms(1) by (auto simp: dec_add_def Let_def split: if_splits)
  then have "rounds_to ctx r (of_int ?i * 10 powi ?m)" using p by (intro dec_fix_rounds_to_int)
  then show ?thesis by (simp add: dval_aligned[of ?m] algebra_simps)
qed

lemma dec_sub_rounds_to [rounding_laws]:
  "dec_sub ctx a b = Some r \<Longrightarrow> 0 < prec ctx \<Longrightarrow> rounds_to ctx r (dval a - dval b)"
  using dec_add_rounds_to[of ctx a "copy_negate b" r] by (simp add: dec_sub_def)

lemma dval_with_sign: "dval d = with_sign (dsign d) (of_nat (dcoeff d) * 10 powi dexp d)"
  by (simp add: dval_def dint_def with_sign_def)

lemma dec_mul_rounds_to [rounding_laws]:
  assumes "dec_mul ctx a b = Some r" and "0 < prec ctx"
  shows "rounds_to ctx r (dval a * dval b :: 'a::linordered_field)"
proof -
  have "rounds_to ctx r (with_sign (dsign a \<noteq> dsign b)
      (of_nat (dcoeff a * dcoeff b) * 10 powi (dexp a + dexp b) :: 'a))"
    using assms by (intro dec_fix_rounds_to[OF _ _ _ represents_exact]) (auto simp: dec_mul_def)
  then show ?thesis
    by (simp add: dval_with_sign with_sign_def power_int_add algebra_simps split: if_splits)
qed

lemma strip_zeros_value:
  "strip_zeros c e ideal = (c', e') \<Longrightarrow>
     of_nat c' * 10 powi e' = (of_nat c * 10 powi e :: 'a::linordered_field)"
proof (induction c e ideal arbitrary: c' e' rule: strip_zeros.induct)
  case (1 c e ideal)
  show ?case
  proof (cases "e < ideal \<and> c mod 10 = 0")
    case True
    then have "strip_zeros (c div 10) (e + 1) ideal = (c', e')"
      using "1.prems" by (simp add: strip_zeros.simps[of c e ideal])
    with True have "of_nat c' * 10 powi e' = (of_nat (c div 10) * 10 powi (e + 1) :: 'a)"
      by (rule "1.IH")
    also have "\<dots> = of_nat (c div 10 * 10) * 10 powi e"
      using ten_powi_add_nat[where 'a='a, of e 1] by simp
    also have "c div 10 * 10 = c" using True by auto
    finally show ?thesis .
  next
    case False
    from "1.prems" have "(c', e') = (c, e)" by (subst (asm) strip_zeros.simps) (simp only: False if_False)
    then show ?thesis by simp
  qed
qed

lemma represents_quotient:
  assumes "0 < d" and "X = of_nat n / of_nat d * 10 powi e"
  shows "represents (n div d) e (n mod d \<noteq> 0) (X :: 'a::linordered_field)"
proof -
  have n: "(of_nat n :: 'a) = of_nat (n div d) * of_nat d + of_nat (n mod d)"
    by (metis div_mult_mod_eq of_nat_add of_nat_mult)
  have "n mod d < d" using assms(1) by simp
  then have md: "(of_nat (n mod d) :: 'a) < of_nat d" by (rule of_nat_less_iff[THEN iffD2])
  have d: "(0::'a) < of_nat d" using assms(1) by simp
  define Y where "Y = (of_nat n / of_nat d :: 'a)"
  have "of_nat (n div d) \<le> Y"
    unfolding Y_def using d n by (simp add: le_divide_eq)
  moreover have "Y < of_nat (n div d + 1)"
    unfolding Y_def using d n md by (simp add: divide_less_eq algebra_simps)
  moreover have "n mod d = 0 \<longrightarrow> Y = of_nat (n div d)"
    unfolding Y_def using d n by (simp add: field_simps)
  ultimately show ?thesis
    unfolding represents_def assms(2) Y_def[symmetric]
    by (simp add: mult_right_mono mult_strict_right_mono less_imp_le)
qed

lemma quotient_digits:
  assumes "0 < ca" "0 < cb"
    and shift: "shift = int (ndigits cb) - int (ndigits ca) + int p + 1"
  shows "p < ndigits (ca * 10 ^ nat shift div (cb * 10 ^ nat (- shift)))"
proof -
  have ca: "10 ^ (ndigits ca - 1) \<le> ca" using assms(1) by (rule ndigits_le_imp)
  have cb: "cb \<le> 10 ^ ndigits cb" using less_10_pow_ndigits[of cb] by simp
  have exps: "p + ndigits cb + nat (- shift) = ndigits ca - 1 + nat shift"
    using shift ndigits_pos[of ca] by linarith
  have "10 ^ p * (cb * 10 ^ nat (- shift)) \<le> 10 ^ p * (10 ^ ndigits cb * 10 ^ nat (- shift))"
    using cb by (intro mult_le_mono) simp_all
  also have "\<dots> = 10 ^ (ndigits ca - 1) * 10 ^ nat shift"
    by (simp only: power_add[symmetric] exps[symmetric] add.assoc[symmetric])
  also have "\<dots> \<le> ca * 10 ^ nat shift" using ca by (intro mult_le_mono) simp_all
  finally have "10 ^ p \<le> ca * 10 ^ nat shift div (cb * 10 ^ nat (- shift))"
    using assms(2) by (simp add: less_eq_div_iff_mult_less_eq)
  then show ?thesis by (cases "p = 0") (simp_all add: less_ndigits_iff)
qed

lemma dec_div_rounds_to [rounding_laws]:
  assumes div: "dec_div ctx a b = Some r" and p: "0 < prec ctx"
  shows "rounds_to ctx r (dval a / dval b :: 'a::linordered_field)"
proof (cases "dcoeff a = 0")
  case True
  then have "rounds_to ctx r (with_sign (dsign a \<noteq> dsign b) (of_nat 0 * 10 powi (dexp a - dexp b)) :: 'a)"
    using div p by (intro dec_fix_rounds_to[OF _ _ _ represents_exact]) (auto simp: dec_div_def split: if_splits)
  with True show ?thesis by (simp add: dval_with_sign with_sign_def split: if_splits)
next
  case False
  have b: "dcoeff b \<noteq> 0" using div by (simp add: dec_div_def split: if_splits)
  define shift where "shift = int (ndigits (dcoeff b)) - int (ndigits (dcoeff a)) + int (prec ctx) + 1"
  define n where "n = dcoeff a * 10 ^ nat shift"
  define d where "d = dcoeff b * 10 ^ nat (- shift)"
  define e where "e = dexp a - dexp b - shift"
  define X where "X = (of_nat n / of_nat d * 10 powi e :: 'a)"
  let ?s = "dsign a \<noteq> dsign b"
  have d: "0 < d" using b by (simp add: d_def)
  have rep: "represents (n div d) e (n mod d \<noteq> 0) X" using d by (rule represents_quotient) (simp add: X_def)
  have dig: "prec ctx < ndigits (n div d)"
    unfolding n_def d_def using False b by (intro quotient_digits) (simp_all add: shift_def)
  have "rounds_to ctx r (with_sign ?s X)"
  proof (cases "n mod d = 0")
    case True
    obtain q' e' where st: "strip_zeros (n div d) e (dexp a - dexp b) = (q', e')" by fastforce
    then have "dec_fix ctx ?s q' e' False = Some r"
      using div b False True
      by (simp add: dec_div_def Let_def shift_def[symmetric] n_def[symmetric] d_def[symmetric] e_def[symmetric])
    moreover have "represents q' e' False X"
      using rep True strip_zeros_value[OF st, where 'a='a] represents_exact[of q' e', where 'a='a]
      by (simp add: represents_def)
    ultimately show ?thesis using p by (intro dec_fix_rounds_to) auto
  next
    case nz: False
    then have "dec_fix ctx ?s (n div d) e True = Some r"
      using div b False
      by (simp add: dec_div_def Let_def shift_def[symmetric] n_def[symmetric] d_def[symmetric] e_def[symmetric])
    with rep nz dig p show ?thesis by (intro dec_fix_rounds_to) auto
  qed
  moreover have "with_sign ?s X = dval a / dval b"
  proof -
    have "10 powi e * (10 ^ nat shift) / (10 ^ nat (- shift)) = (10 powi (dexp a - dexp b) :: 'a)"
    proof (cases "0 \<le> shift")
      case True
      then show ?thesis using ten_powi_add_nat[where 'a='a, of e "nat shift"] by (simp add: e_def)
    next
      case False
      then show ?thesis
        using ten_powi_add_nat[where 'a='a, of "e + shift" "nat (- shift)"] by (simp add: e_def)
    qed
    then have "X = of_nat (dcoeff a) / of_nat (dcoeff b) * 10 powi (dexp a - dexp b)"
      by (simp add: X_def n_def d_def field_simps)
    then show ?thesis by (simp add: dval_with_sign with_sign_def power_int_diff field_simps)
  qed
  ultimately show ?thesis by simp
qed

lemma dec_abs_rounds_to [rounding_laws]:
  assumes "dec_abs ctx a = Some r" and "0 < prec ctx"
  shows "rounds_to ctx r (\<bar>dval a\<bar> :: 'a::linordered_field)"
proof -
  have "rounds_to ctx r (with_sign False (of_nat (dcoeff a) * 10 powi dexp a) :: 'a)"
    using assms by (intro dec_fix_rounds_to[OF _ _ _ represents_exact]) (auto simp: dec_abs_def)
  then show ?thesis by (simp add: dval_with_sign with_sign_def abs_mult split: if_splits)
qed

lemma dec_neg_rounds_to [rounding_laws]:
  assumes "dec_neg ctx a = Some r" and "0 < prec ctx"
  shows "rounds_to ctx r (- dval a :: 'a::linordered_field)"
proof (cases "dcoeff a = 0")
  case True
  then obtain s where "dec_fix ctx s 0 (dexp a) False = Some r" using assms(1) by (auto simp: dec_neg_def)
  then have "rounds_to ctx r (with_sign s (of_nat 0 * 10 powi dexp a) :: 'a)"
    using assms(2) by (intro dec_fix_rounds_to[OF _ _ _ represents_exact]) auto
  with True show ?thesis by (simp add: dval_with_sign with_sign_def split: if_splits)
next
  case False
  then have "rounds_to ctx r (with_sign (\<not> dsign a) (of_nat (dcoeff a) * 10 powi dexp a) :: 'a)"
    using assms by (intro dec_fix_rounds_to[OF _ _ _ represents_exact]) (auto simp: dec_neg_def)
  then show ?thesis by (simp add: dval_with_sign with_sign_def split: if_splits)
qed

section \<open>Results need no further rounding\<close>

definition storable :: "dctx \<Rightarrow> dec \<Rightarrow> bool" where
  "storable ctx d \<longleftrightarrow> Emin ctx - int (prec ctx) + 1 \<le> dexp d \<and> ndigits (dcoeff d) \<le> prec ctx"

lemma dec_fix_exponent:
  assumes "dec_fix ctx s c e sticky = Some r" "Emin ctx \<le> Emax ctx" "0 < prec ctx"
  shows "Emin ctx - int (prec ctx) + 1 \<le> dexp r"
  using assms by (auto simp: dec_fix_def Let_def split: if_splits)

lemma dec_fix_storable:
  assumes "dec_fix ctx s c e False = Some r" "Emin ctx \<le> Emax ctx" and p: "0 < prec ctx"
  shows "storable ctx r"
proof -
  have "ndigits (dcoeff r) \<le> prec ctx"
  proof (rule dec_fix_cases[OF assms(1) p])
    fix q r0 k c1 assume rounded: "fix_shape ctx s c e False r q r0 k c1"
    have "ndigits (10 ^ (prec ctx - 1)) \<le> prec ctx" using p by (simp add: ndigits_le_iff)
    with rounded show ?thesis by (auto simp: fix_shape_def)
  qed (use p in \<open>auto simp: Suc_leI\<close>)
  with dec_fix_exponent[OF assms] show ?thesis by (simp add: storable_def)
qed

lemma dec_abs_storable:
  assumes "storable ctx d" "dec_abs ctx d = Some r" "0 < prec ctx"
  shows "dval r = (\<bar>dval d\<bar> :: 'a::linordered_field)"
proof -
  have "dval r = (dval (Dec False (dcoeff d) (dexp d)) :: 'a)"
    using assms by (auto simp: dec_abs_def dec_fix_def Let_def storable_def split: if_splits)
  then show ?thesis by (simp flip: copy_abs_def)
qed

lemma dec_add_storable:
  assumes "dec_add ctx a b = Some r" "Emin ctx \<le> Emax ctx" "0 < prec ctx"
  shows "storable ctx r"
  using assms by (auto simp: dec_add_def Let_def dec_fix_storable split: if_splits)

end
