(* ===== verification/Enclosure.thy ===== *)
theory Enclosure
  imports Valuation Decimal_Laws
begin

text \<open>
  What the interval arithmetic of \<open>valuation.py\<close> certifies.  \<open>in_bounds x b\<close> says that a real
  number lies in an interval; \<open>encloses d f S\<close> says that a dual interval holds every value of
  \<open>f\<close> on \<open>S\<close> and every difference quotient between two points of \<open>S\<close>.  Difference
  quotients, unlike derivatives, exist at the tax kink too, and every dual operation preserves them.
  The exact discounted cash flow model over the reals is stated in closed form, as the specification
  that \<open>residual\<close> encloses.
\<close>

section \<open>Specification\<close>

definition in_bounds :: "real \<Rightarrow> bounds \<Rightarrow> bool" where
  "in_bounds x b \<longleftrightarrow> dval (lo b) \<le> x \<and> x \<le> dval (hi b)"

definition region :: "bounds \<Rightarrow> real set" where
  "region b = {x. in_bounds x b}"

definition encloses :: "dual \<Rightarrow> (real \<Rightarrow> real) \<Rightarrow> real set \<Rightarrow> bool" where
  "encloses d f S \<longleftrightarrow>
     (\<forall>x\<in>S. in_bounds (f x) (dvalue d))
     \<and> (\<forall>x\<in>S. \<forall>y\<in>S. x \<noteq> y \<longrightarrow> in_bounds ((f y - f x) / (y - x)) (derivative d))"

definition growth_at :: "forecast \<Rightarrow> solve_spec \<Rightarrow> nat \<Rightarrow> real \<Rightarrow> real" where
  "growth_at f spec i x = (if solve_variable spec = Revenue_cagr then x else dval (growth f ! i))"

definition spend_at :: "forecast \<Rightarrow> solve_spec \<Rightarrow> nat \<Rightarrow> real \<Rightarrow> real" where
  "spend_at f spec i x =
     (if solve_variable spec = Reinvestment_to_revenue then x else dval (reinvestment f ! i))"

definition margin_at :: "forecast \<Rightarrow> solve_spec \<Rightarrow> nat \<Rightarrow> real \<Rightarrow> real" where
  "margin_at f spec i x =
     (if solve_variable spec = Terminal_operating_margin
      then (1 - dval (margin_weights spec ! i)) * (case anchor_margin spec of Some a \<Rightarrow> dval a | None \<Rightarrow> 0)
           + dval (margin_weights spec ! i) * x
      else dval (margins f ! i))"

definition exact_revenue :: "forecast \<Rightarrow> solve_spec \<Rightarrow> nat \<Rightarrow> real \<Rightarrow> real" where
  "exact_revenue f spec n x = dval (revenue_anchor f) * (\<Prod>i<n. 1 + growth_at f spec i x)"

definition exact_fcff :: "forecast \<Rightarrow> solve_spec \<Rightarrow> nat \<Rightarrow> real \<Rightarrow> real" where
  "exact_fcff f spec i x =
     (let revenue = exact_revenue f spec (Suc i) x; ebit = revenue * margin_at f spec i x
      in ebit - max ebit 0 * dval (taxes f ! i) - revenue * spend_at f spec i x)"

definition exact_terminal :: "forecast \<Rightarrow> solve_spec \<Rightarrow> real \<Rightarrow> real" where
  "exact_terminal f spec x =
     (let m = (if solve_variable spec = Terminal_operating_margin then x else dval (terminal_margin f));
          tn = exact_revenue f spec (length (growth f)) x * (1 + dval (terminal_growth f)) * m
               * (1 - dval (terminal_tax f))
      in (tn - tn * dval (terminal_growth f) / dval (terminal_roic f))
         / (dval (wacc f) - dval (terminal_growth f)))"

definition exact_ev :: "forecast \<Rightarrow> solve_spec \<Rightarrow> real \<Rightarrow> real" where
  "exact_ev f spec x =
     (\<Sum>i<length (growth f). exact_fcff f spec i x / (1 + dval (wacc f)) ^ Suc i)
     + exact_terminal f spec x / (1 + dval (wacc f)) ^ length (growth f)"

definition exact_residual :: "forecast \<Rightarrow> solve_spec \<Rightarrow> dec \<Rightarrow> real \<Rightarrow> real" where
  "exact_residual f spec target x = exact_ev f spec x - dval target"

section \<open>Interval operations\<close>

lemma CONTEXT_simps [simp]:
  "prec CONTEXT = 80" "rounding_mode CONTEXT = ROUND_HALF_EVEN" "trap_inexact CONTEXT = False"
  by (simp_all add: CONTEXT_def)

lemma ctx_prec_pos: "0 < prec ctx_floor" "0 < prec ctx_ceiling"
  by simp_all

lemma rounds_to_floor: "rounds_to ctx_floor r V \<Longrightarrow> dval r \<le> V"
  by (simp add: rounds_to_def)

lemma rounds_to_ceiling: "rounds_to ctx_ceiling r V \<Longrightarrow> V \<le> dval r"
  by (simp add: rounds_to_def)

text \<open>The directed operations, as one-sided bounds on real numbers.\<close>

lemma directed:
  shows dec_add_floor: "dec_add ctx_floor u v = Some r \<Longrightarrow> dval r \<le> (dval u + dval v :: real)"
    and dec_add_ceiling: "dec_add ctx_ceiling u v = Some r \<Longrightarrow> (dval u + dval v :: real) \<le> dval r"
    and dec_mul_floor: "dec_mul ctx_floor u v = Some r \<Longrightarrow> dval r \<le> (dval u * dval v :: real)"
    and dec_mul_ceiling: "dec_mul ctx_ceiling u v = Some r \<Longrightarrow> (dval u * dval v :: real) \<le> dval r"
    and dec_div_floor: "dec_div ctx_floor u v = Some r \<Longrightarrow> dval r \<le> (dval u / dval v :: real)"
    and dec_div_ceiling: "dec_div ctx_ceiling u v = Some r \<Longrightarrow> (dval u / dval v :: real) \<le> dval r"
  by (blast intro: rounds_to_floor rounds_to_ceiling dec_add_rounds_to dec_mul_rounds_to
      dec_div_rounds_to ctx_prec_pos)+

lemma in_bounds_Bounds [simp]: "in_bounds x (Bounds a b) \<longleftrightarrow> dval a \<le> x \<and> x \<le> dval b"
  by (simp add: in_bounds_def)

lemma in_bounds_point [simp]: "in_bounds x (point v) \<longleftrightarrow> x = dval v"
  by (auto simp: point_def in_bounds_def)

lemma bounds_add_sound:
  assumes "bounds_add a b = Some c" "in_bounds x a" "in_bounds y b"
  shows "in_bounds (x + y) c"
proof -
  obtain l h where c: "c = Bounds l h" "dec_add ctx_floor (lo a) (lo b) = Some l"
      "dec_add ctx_ceiling (hi a) (hi b) = Some h"
    using assms(1) by (auto simp: bounds_add_def split: Option.bind_splits)
  from dec_add_floor[OF c(2)] dec_add_ceiling[OF c(3)] assms(2,3)
  show ?thesis by (simp add: c(1) in_bounds_def)
qed

lemma bounds_neg_sound: "in_bounds x a \<Longrightarrow> in_bounds (- x) (bounds_neg a)"
  by (simp add: bounds_neg_def in_bounds_def)

lemma bounds_sub_sound:
  "bounds_sub a b = Some c \<Longrightarrow> in_bounds x a \<Longrightarrow> in_bounds y b \<Longrightarrow> in_bounds (x - y) c"
  using bounds_add_sound[of a "bounds_neg b" c x "- y"] bounds_neg_sound[of y b]
  by (simp add: bounds_sub_def)

text \<open>A product with one factor in an interval lies between the products with its endpoints.\<close>

lemma mult_between:
  fixes x a b c :: real
  assumes "a \<le> x" "x \<le> b"
  shows "min (a * c) (b * c) \<le> x * c" and "x * c \<le> max (a * c) (b * c)"
  using assms by (cases "0 \<le> c"; auto simp: min_le_iff_disj le_max_iff_disj
      mult_right_mono mult_right_mono_neg)+

lemma corner_bounds:
  fixes x y a b c d :: real
  assumes x: "a \<le> x" "x \<le> b" and y: "c \<le> y" "y \<le> d"
  shows "min (min (min (a * c) (a * d)) (b * c)) (b * d) \<le> x * y"
    and "x * y \<le> max (max (max (a * c) (a * d)) (b * c)) (b * d)"
proof -
  have yc: "min (c * x) (d * x) \<le> x * y" "x * y \<le> max (c * x) (d * x)"
    using mult_between[OF y, of x] by (simp_all add: mult.commute)
  have xc: "min (a * c) (b * c) \<le> x * c" "x * c \<le> max (a * c) (b * c)"
    and xd: "min (a * d) (b * d) \<le> x * d" "x * d \<le> max (a * d) (b * d)"
    using mult_between[OF x, of c] mult_between[OF x, of d] by simp_all
  show "min (min (min (a * c) (a * d)) (b * c)) (b * d) \<le> x * y"
    using yc(1) xc(1) xd(1) by (auto simp: min_le_iff_disj mult.commute[of _ x])
  show "x * y \<le> max (max (max (a * c) (a * d)) (b * c)) (b * d)"
    using yc(2) xc(2) xd(2) by (auto simp: le_max_iff_disj mult.commute[of _ x])
qed

lemma corners_SomeE:
  assumes "corners g a b = Some q"
  obtains w x y z where "q = (w, x, y, z)" "g (lo a) (lo b) = Some w" "g (lo a) (hi b) = Some x"
    "g (hi a) (lo b) = Some y" "g (hi a) (hi b) = Some z"
  using assms by (auto simp: corners_def split: Option.bind_splits)

lemma min4_le:
  assumes "corners g a b = Some q" and low: "\<And>u v r. g u v = Some r \<Longrightarrow> dval r \<le> (G (dval u) (dval v) :: real)"
    and "min (min (min (G (dval (lo a)) (dval (lo b))) (G (dval (lo a)) (dval (hi b))))
           (G (dval (hi a)) (dval (lo b)))) (G (dval (hi a)) (dval (hi b))) \<le> X"
  shows "dval (min4 q) \<le> X"
proof -
  obtain w x y z where q: "q = (w, x, y, z)" "g (lo a) (lo b) = Some w" "g (lo a) (hi b) = Some x"
      "g (hi a) (lo b) = Some y" "g (hi a) (hi b) = Some z" using assms(1) by (rule corners_SomeE)
  show ?thesis
    using low[OF q(2)] low[OF q(3)] low[OF q(4)] low[OF q(5)] assms(3)
    by (auto simp: q(1) min4_def dval_dec_min min_le_iff_disj)
qed

lemma max4_ge:
  assumes "corners g a b = Some q" and up: "\<And>u v r. g u v = Some r \<Longrightarrow> (G (dval u) (dval v) :: real) \<le> dval r"
    and "X \<le> max (max (max (G (dval (lo a)) (dval (lo b))) (G (dval (lo a)) (dval (hi b))))
           (G (dval (hi a)) (dval (lo b)))) (G (dval (hi a)) (dval (hi b)))"
  shows "X \<le> dval (max4 q)"
proof -
  obtain w x y z where q: "q = (w, x, y, z)" "g (lo a) (lo b) = Some w" "g (lo a) (hi b) = Some x"
      "g (hi a) (lo b) = Some y" "g (hi a) (hi b) = Some z" using assms(1) by (rule corners_SomeE)
  show ?thesis
    using up[OF q(2)] up[OF q(3)] up[OF q(4)] up[OF q(5)] assms(3)
    by (auto simp: q(1) max4_def dval_dec_max le_max_iff_disj)
qed

lemma bounds_mul_sound:
  assumes "bounds_mul a b = Some c" "in_bounds x a" "in_bounds y b"
  shows "in_bounds (x * y) c"
proof -
  obtain dn up where c: "c = Bounds (min4 dn) (max4 up)" "corners (dec_mul ctx_floor) a b = Some dn"
      "corners (dec_mul ctx_ceiling) a b = Some up"
    using assms(1) by (auto simp: bounds_mul_def split: Option.bind_splits)
  note corner = corner_bounds[of "dval (lo a)" x "dval (hi a)" "dval (lo b)" y "dval (hi b)"]
  have "dval (min4 dn) \<le> x * y"
    using assms(2,3)
    by (intro min4_le[OF c(2), where G = "(*)"] corner(1) dec_mul_floor) (simp_all add: in_bounds_def)
  moreover have "x * y \<le> dval (max4 up)"
    using assms(2,3)
    by (intro max4_ge[OF c(3), where G = "(*)"] corner(2) dec_mul_ceiling) (simp_all add: in_bounds_def)
  ultimately show ?thesis by (simp add: c(1))
qed

lemma bounds_div_nonzero:
  assumes "bounds_div a b = Some c" "in_bounds y b"
  shows "(0::real) < dval (lo b) \<and> 0 < y \<or> dval (hi b) < (0::real) \<and> y < 0"
proof -
  have "\<not> (dval (lo b) \<le> (0::real) \<and> 0 \<le> (dval (hi b) :: real))"
    using assms(1) by (simp add: bounds_div_def dec_le_iff[where 'a=real] split: if_splits)
  with assms(2) show ?thesis by (auto simp: in_bounds_def)
qed

lemma bounds_div_sound:
  assumes "bounds_div a b = Some c" "in_bounds x a" "in_bounds y b"
  shows "in_bounds (x / y) c"
proof -
  obtain dn up where c: "c = Bounds (min4 dn) (max4 up)" "corners (dec_div ctx_floor) a b = Some dn"
      "corners (dec_div ctx_ceiling) a b = Some up"
    using assms(1) by (auto simp: bounds_div_def split: if_splits Option.bind_splits)
  have inv: "inverse (dval (hi b)) \<le> inverse y" "inverse y \<le> inverse (dval (lo b))"
    using bounds_div_nonzero[OF assms(1,3)] assms(3)
    by (auto simp: in_bounds_def intro: le_imp_inverse_le le_imp_inverse_le_neg)
  note corner = corner_bounds[OF _ _ inv, of "dval (lo a)" x "dval (hi a)"]
  have "dval (min4 dn) \<le> x / y"
    using corner(1) assms(2)
    by (intro min4_le[OF c(2), where G = "(/)"] dec_div_floor)
      (simp_all add: in_bounds_def divide_inverse min.commute min.left_commute)
  moreover have "x / y \<le> dval (max4 up)"
    using corner(2) assms(2)
    by (intro max4_ge[OF c(3), where G = "(/)"] dec_div_ceiling)
      (simp_all add: in_bounds_def divide_inverse max.commute max.left_commute)
  ultimately show ?thesis by (simp add: c(1))
qed

lemma bounds_power2_sound:
  assumes "bounds_power b 2 = Some c" "in_bounds x b" "in_bounds y b"
  shows "in_bounds (x * y) c"
proof -
  obtain r where "bounds_mul (point dec_one) b = Some r" "bounds_mul r b = Some c"
    using assms(1) by (auto simp: numeral_2_eq_2 split: Option.bind_splits)
  moreover from this(1) have "in_bounds (1 * x) r" using assms(2) by (intro bounds_mul_sound) auto
  ultimately show ?thesis using bounds_mul_sound[of r b c "1 * x" y] assms(3) by simp
qed

section \<open>Dual operations\<close>

text \<open>Difference quotients of sums, products, quotients and positive parts.\<close>

lemma sum_slope:
  fixes a b c d h :: real
  shows "(a + b - (c + d)) / h = (a - c) / h + (b - d) / h"
    and "(a - b - (c - d)) / h = (a - c) / h - (b - d) / h"
    and "(a * b - c * d) / h = (a - c) / h * b + c * ((b - d) / h)"
  by (simp_all add: diff_divide_distrib add_divide_distrib algebra_simps)

lemma enclosesI:
  assumes "\<And>x. x \<in> S \<Longrightarrow> in_bounds (f x) (dvalue d)"
    and "\<And>x y. x \<in> S \<Longrightarrow> y \<in> S \<Longrightarrow> x \<noteq> y \<Longrightarrow> in_bounds ((f y - f x) / (y - x)) (derivative d)"
  shows "encloses d f S"
  using assms by (simp add: encloses_def)

lemma encloses_value: "encloses d f S \<Longrightarrow> x \<in> S \<Longrightarrow> in_bounds (f x) (dvalue d)"
  by (simp add: encloses_def)

lemma encloses_slope:
  "encloses d f S \<Longrightarrow> x \<in> S \<Longrightarrow> y \<in> S \<Longrightarrow> x \<noteq> y \<Longrightarrow> in_bounds ((f y - f x) / (y - x)) (derivative d)"
  by (simp add: encloses_def)

lemma encloses_const: "encloses (dconst v) (\<lambda>_. dval v) S"
  by (simp add: encloses_def dconst_def)

lemma encloses_ident: "encloses (Dual b (point dec_one)) (\<lambda>x. x) (region b)"
  by (simp add: encloses_def region_def)

lemma encloses_add:
  assumes "dual_add a b = Some c" "encloses a f S" "encloses b g S"
  shows "encloses c (\<lambda>x. f x + g x) S"
proof -
  obtain v d where c: "c = Dual v d" "bounds_add (dvalue a) (dvalue b) = Some v"
      "bounds_add (derivative a) (derivative b) = Some d"
    using assms(1) by (auto simp: dual_add_def split: Option.bind_splits)
  show ?thesis
  proof (rule enclosesI)
    fix x y assume xy: "x \<in> S" "y \<in> S" "x \<noteq> y"
    show "in_bounds ((f y + g y - (f x + g x)) / (y - x)) (derivative c)"
      using bounds_add_sound[OF c(3) encloses_slope[OF assms(2) xy] encloses_slope[OF assms(3) xy]]
      by (simp add: c(1) sum_slope)
  qed (simp add: c(1) bounds_add_sound[OF c(2) encloses_value[OF assms(2)] encloses_value[OF assms(3)]])
qed

lemma encloses_sub:
  assumes "dual_sub a b = Some c" "encloses a f S" "encloses b g S"
  shows "encloses c (\<lambda>x. f x - g x) S"
proof -
  obtain v d where c: "c = Dual v d" "bounds_sub (dvalue a) (dvalue b) = Some v"
      "bounds_sub (derivative a) (derivative b) = Some d"
    using assms(1) by (auto simp: dual_sub_def split: Option.bind_splits)
  show ?thesis
  proof (rule enclosesI)
    fix x y assume xy: "x \<in> S" "y \<in> S" "x \<noteq> y"
    show "in_bounds ((f y - g y - (f x - g x)) / (y - x)) (derivative c)"
      using bounds_sub_sound[OF c(3) encloses_slope[OF assms(2) xy] encloses_slope[OF assms(3) xy]]
      by (simp add: c(1) sum_slope)
  qed (simp add: c(1) bounds_sub_sound[OF c(2) encloses_value[OF assms(2)] encloses_value[OF assms(3)]])
qed

lemma encloses_mul:
  assumes "dual_mul a b = Some c" "encloses a f S" "encloses b g S"
  shows "encloses c (\<lambda>x. f x * g x) S"
proof -
  obtain v l r d where c: "c = Dual v d" "bounds_mul (dvalue a) (dvalue b) = Some v"
      "bounds_mul (derivative a) (dvalue b) = Some l" "bounds_mul (dvalue a) (derivative b) = Some r"
      "bounds_add l r = Some d"
    using assms(1) by (auto simp: dual_mul_def split: Option.bind_splits)
  show ?thesis
  proof (rule enclosesI)
    fix x y assume xy: "x \<in> S" "y \<in> S" "x \<noteq> y"
    have "in_bounds ((f y - f x) / (y - x) * g y) l"
      by (rule bounds_mul_sound[OF c(3) encloses_slope[OF assms(2) xy] encloses_value[OF assms(3) xy(2)]])
    moreover have "in_bounds (f x * ((g y - g x) / (y - x))) r"
      by (rule bounds_mul_sound[OF c(4) encloses_value[OF assms(2) xy(1)] encloses_slope[OF assms(3) xy]])
    ultimately show "in_bounds ((f y * g y - f x * g x) / (y - x)) (derivative c)"
      using bounds_add_sound[OF c(5)] by (simp add: c(1) sum_slope)
  qed (simp add: c(1) bounds_mul_sound[OF c(2) encloses_value[OF assms(2)] encloses_value[OF assms(3)]])
qed

lemma quotient_slope:
  fixes fx fy gx gy h :: real
  assumes "gx \<noteq> 0" "gy \<noteq> 0"
  shows "(fy / gy - fx / gx) / h = ((fy - fx) / h * gx - fx * ((gy - gx) / h)) / (gx * gy)"
  using assms by (cases "h = 0") (simp_all add: field_simps)

lemma encloses_div:
  assumes "dual_div a b = Some c" "encloses a f S" "encloses b g S"
  shows "encloses c (\<lambda>x. f x / g x) S"
proof -
  obtain v l r n sq d where c: "c = Dual v d" "bounds_div (dvalue a) (dvalue b) = Some v"
      "bounds_mul (derivative a) (dvalue b) = Some l" "bounds_mul (dvalue a) (derivative b) = Some r"
      "bounds_sub l r = Some n" "bounds_power (dvalue b) 2 = Some sq" "bounds_div n sq = Some d"
    using assms(1) by (auto simp: dual_div_def split: Option.bind_splits)
  have nz: "g x \<noteq> 0" if "x \<in> S" for x
    using bounds_div_nonzero[OF c(2) encloses_value[OF assms(3) that]] by auto
  show ?thesis
  proof (rule enclosesI)
    fix x y assume xy: "x \<in> S" "y \<in> S" "x \<noteq> y"
    have "in_bounds ((f y - f x) / (y - x) * g x) l"
      by (rule bounds_mul_sound[OF c(3) encloses_slope[OF assms(2) xy] encloses_value[OF assms(3) xy(1)]])
    moreover have "in_bounds (f x * ((g y - g x) / (y - x))) r"
      by (rule bounds_mul_sound[OF c(4) encloses_value[OF assms(2) xy(1)] encloses_slope[OF assms(3) xy]])
    moreover have "in_bounds (g x * g y) sq"
      by (rule bounds_power2_sound[OF c(6) encloses_value[OF assms(3) xy(1)] encloses_value[OF assms(3) xy(2)]])
    ultimately have "in_bounds (((f y - f x) / (y - x) * g x - f x * ((g y - g x) / (y - x))) / (g x * g y)) d"
      by (intro bounds_div_sound[OF c(7)] bounds_sub_sound[OF c(5)])
    then show "in_bounds ((f y / g y - f x / g x) / (y - x)) (derivative c)"
      by (simp add: c(1) quotient_slope[OF nz[OF xy(1)] nz[OF xy(2)]])
  qed (simp add: c(1) bounds_div_sound[OF c(2) encloses_value[OF assms(2)] encloses_value[OF assms(3)]])
qed

lemma positive_part_slope:
  fixes a b h :: real
  assumes "h \<noteq> 0"
  shows "min 0 ((b - a) / h) \<le> (max b 0 - max a 0) / h" "(max b 0 - max a 0) / h \<le> max 0 ((b - a) / h)"
proof -
  consider "0 < h" | "h < 0" using assms by linarith
  then have "min 0 ((b - a) / h) \<le> (max b 0 - max a 0) / h \<and> (max b 0 - max a 0) / h \<le> max 0 ((b - a) / h)"
    by cases (auto simp: max_def min_def field_simps intro: mult_nonpos_nonneg mult_nonpos_nonpos)
  then show "min 0 ((b - a) / h) \<le> (max b 0 - max a 0) / h" "(max b 0 - max a 0) / h \<le> max 0 ((b - a) / h)"
    by simp_all
qed

lemma encloses_positive:
  assumes "encloses a f S"
  shows "encloses (dual_positive a) (\<lambda>x. max (f x) 0) S"
proof -
  consider (pos) "(0::real) \<le> dval (lo (dvalue a))"
    | (neg) "\<not> (0::real) \<le> dval (lo (dvalue a))" "dval (hi (dvalue a)) \<le> (0::real)"
    | (kink) "\<not> (0::real) \<le> dval (lo (dvalue a))" "\<not> dval (hi (dvalue a)) \<le> (0::real)" by blast
  then show ?thesis
  proof cases
    case pos
    then have "max (f x) 0 = f x" if "x \<in> S" for x
      using encloses_value[OF assms that] by (simp add: in_bounds_def)
    then show ?thesis using assms pos
      by (simp add: encloses_def dual_positive_def dec_le_iff[where 'a=real])
  next
    case neg
    then have "max (f x) 0 = 0" if "x \<in> S" for x
      using encloses_value[OF assms that] by (simp add: in_bounds_def)
    then show ?thesis using neg
      by (simp add: encloses_def dual_positive_def dec_le_iff[where 'a=real] dconst_def)
  next
    case kink
    then have d: "dual_positive a = Dual (Bounds dec_zero (hi (dvalue a)))
        (Bounds (dec_min dec_zero (lo (derivative a))) (dec_max dec_zero (hi (derivative a))))"
      by (simp add: dual_positive_def dec_le_iff[where 'a=real])
    show ?thesis unfolding d
    proof (rule enclosesI)
      fix x y assume xy: "x \<in> S" "y \<in> S" "x \<noteq> y"
      define s where "s = (f y - f x) / (y - x)"
      have s: "dval (lo (derivative a)) \<le> s" "s \<le> dval (hi (derivative a))"
        using encloses_slope[OF assms xy] by (simp_all add: in_bounds_def s_def)
      have "min 0 s \<le> (max (f y) 0 - max (f x) 0) / (y - x)" "(max (f y) 0 - max (f x) 0) / (y - x) \<le> max 0 s"
        using positive_part_slope[of "y - x" "f y" "f x"] xy by (simp_all add: s_def)
      moreover have "min 0 (dval (lo (derivative a))) \<le> min 0 s" "max 0 s \<le> max 0 (dval (hi (derivative a)))"
        using s by (simp_all add: min.coboundedI2 max.coboundedI2)
      ultimately show "in_bounds ((max (f y) 0 - max (f x) 0) / (y - x)) (derivative (Dual (Bounds dec_zero (hi (dvalue a)))
        (Bounds (dec_min dec_zero (lo (derivative a))) (dec_max dec_zero (hi (derivative a))))))"
        unfolding dual.simps in_bounds_Bounds dval_dec_min dval_dec_max dval_zero by linarith
    next
      fix x assume "x \<in> S"
      then show "in_bounds (max (f x) 0) (dvalue (Dual (Bounds dec_zero (hi (dvalue a)))
        (Bounds (dec_min dec_zero (lo (derivative a))) (dec_max dec_zero (hi (derivative a))))))"
        using encloses_value[OF assms, of x] kink by (simp add: in_bounds_def)
    qed
  qed
qed

section \<open>The residual encloses the exact model\<close>

lemmas encloses_ops = encloses_add encloses_sub encloses_mul encloses_div encloses_positive encloses_const

lemma exact_revenue_Suc:
  "exact_revenue f spec (Suc n) x = exact_revenue f spec n x * (1 + growth_at f spec n x)"
  by (simp add: exact_revenue_def)

lemma encloses_margin:
  assumes "residual_margin f spec x i = Some m" "encloses x (\<lambda>x. x) S"
  shows "encloses m (margin_at f spec i) S"
proof (cases "solve_variable spec = Terminal_operating_margin")
  case True
  then obtain a rest fixed moving where c: "anchor_margin spec = Some a"
      "dual_sub (dconst dec_one) (dconst (margin_weights spec ! i)) = Some rest"
      "dual_mul rest (dconst a) = Some fixed"
      "dual_mul (dconst (margin_weights spec ! i)) x = Some moving" "dual_add fixed moving = Some m"
    using assms(1) by (auto simp: residual_margin_def Let_def bind_eq_Some_conv)
  have "encloses m (\<lambda>x. (dval dec_one - dval (margin_weights spec ! i)) * dval a + dval (margin_weights spec ! i) * x) S"
    by (intro encloses_add[OF c(5)] encloses_mul[OF c(3)] encloses_mul[OF c(4)] encloses_sub[OF c(2)]
        encloses_const assms(2))
  with True c(1) show ?thesis by (simp add: margin_at_def[abs_def])
next
  case False
  then show ?thesis using assms(1) encloses_const
    by (auto simp: residual_margin_def margin_at_def[abs_def])
qed

text \<open>What the three running duals of the loop enclose after \<open>m\<close> years.\<close>

definition years_inv :: "forecast \<Rightarrow> solve_spec \<Rightarrow> real set \<Rightarrow> nat \<Rightarrow> dual \<times> dual \<times> dual \<Rightarrow> bool" where
  "years_inv f spec S m st = (case st of (revenue, pv_sum, discount) \<Rightarrow>
     encloses revenue (exact_revenue f spec m) S
     \<and> encloses pv_sum (\<lambda>x. \<Sum>i<m. exact_fcff f spec i x / (1 + dval (wacc f)) ^ Suc i) S
     \<and> encloses discount (\<lambda>_. (1 + dval (wacc f)) ^ m) S)"

lemma residual_year_inv:
  assumes "residual_year f spec x m st = Some st'" "years_inv f spec S m st" "encloses x (\<lambda>x. x) S"
  shows "years_inv f spec S (Suc m) st'"
proof -
  obtain revenue pv_sum discount where st: "st = (revenue, pv_sum, discount)" by (cases st)
  define g where "g = (if solve_variable spec = Revenue_cagr then x else dconst (growth f ! m))"
  define k where "k = (if solve_variable spec = Reinvestment_to_revenue then x else dconst (reinvestment f ! m))"
  obtain margin g1 revenue' ebit tax nopat w1 discount' spend fcff pv pv_sum' where
    c: "residual_margin f spec x m = Some margin" "dual_add (dconst dec_one) g = Some g1"
      "dual_mul revenue g1 = Some revenue'" "dual_mul revenue' margin = Some ebit"
      "dual_mul (dual_positive ebit) (dconst (taxes f ! m)) = Some tax" "dual_sub ebit tax = Some nopat"
      "dual_add (dconst dec_one) (dconst (wacc f)) = Some w1" "dual_mul discount w1 = Some discount'"
      "dual_mul revenue' k = Some spend" "dual_sub nopat spend = Some fcff"
      "dual_div fcff discount' = Some pv" "dual_add pv_sum pv = Some pv_sum'"
    and st': "st' = (revenue', pv_sum', discount')"
    using assms(1) unfolding st residual_year_def g_def[symmetric] k_def[symmetric] Let_def prod.case
    by (auto simp: bind_eq_Some_conv)
  have inv: "encloses revenue (exact_revenue f spec m) S"
      "encloses pv_sum (\<lambda>x. \<Sum>i<m. exact_fcff f spec i x / (1 + dval (wacc f)) ^ Suc i) S"
      "encloses discount (\<lambda>_. (1 + dval (wacc f)) ^ m) S"
    using assms(2) by (simp_all add: years_inv_def st)
  have g: "encloses g (growth_at f spec m) S" and k: "encloses k (spend_at f spec m) S"
    using assms(3) encloses_const by (auto simp: g_def k_def growth_at_def[abs_def] spend_at_def[abs_def])
  have "encloses revenue' (\<lambda>x. exact_revenue f spec m x * (dval dec_one + growth_at f spec m x)) S"
    by (intro encloses_mul[OF c(3)] encloses_add[OF c(2)] encloses_const inv g)
  then have rev': "encloses revenue' (exact_revenue f spec (Suc m)) S"
    by (simp add: exact_revenue_Suc[abs_def])
  note ebit = encloses_mul[OF c(4) rev' encloses_margin[OF c(1) assms(3)]]
  have "encloses discount' (\<lambda>_. (1 + dval (wacc f)) ^ m * (dval dec_one + dval (wacc f))) S"
    by (intro encloses_mul[OF c(8)] encloses_add[OF c(7)] encloses_const inv)
  then have disc: "encloses discount' (\<lambda>_. (1 + dval (wacc f)) ^ Suc m) S"
    by (simp add: mult.commute)
  have "encloses fcff (exact_fcff f spec m) S"
    unfolding exact_fcff_def[abs_def] Let_def
    by (intro encloses_sub[OF c(10)] encloses_sub[OF c(6)] encloses_mul[OF c(5)] encloses_mul[OF c(9)]
        encloses_positive encloses_const ebit rev' k)
  then have "encloses pv_sum' (\<lambda>x. (\<Sum>i<m. exact_fcff f spec i x / (1 + dval (wacc f)) ^ Suc i)
      + exact_fcff f spec m x / (1 + dval (wacc f)) ^ Suc m) S"
    by (intro encloses_add[OF c(12)] encloses_div[OF c(11)] inv disc)
  with rev' disc show ?thesis by (simp add: years_inv_def st')
qed

lemma residual_years_inv:
  assumes "residual_years f spec x [m..<n] st = Some st'" "years_inv f spec S m st"
    "encloses x (\<lambda>x. x) S" "m \<le> n"
  shows "years_inv f spec S n st'"
  using assms(4,1,2)
proof (induction arbitrary: st rule: inc_induct)
  case base
  then show ?case by simp
next
  case (step m)
  then have up: "[m..<n] = m # [Suc m..<n]" by (simp add: upt_conv_Cons)
  obtain st1 where "residual_year f spec x m st = Some st1" "residual_years f spec x [Suc m..<n] st1 = Some st'"
    using step.prems(1) by (auto simp: up bind_eq_Some_conv)
  with step residual_year_inv[OF _ step.prems(2) assms(3)] show ?case by blast
qed

lemma residual_terminal_encloses:
  assumes "residual_terminal f spec x revenue discount = Some t" "encloses x (\<lambda>x. x) S"
    "encloses revenue (exact_revenue f spec (length (growth f))) S"
    "encloses discount (\<lambda>_. D) S"
  shows "encloses t (\<lambda>x. exact_terminal f spec x / D) S"
proof -
  define tm0 where "tm0 = (if solve_variable spec = Terminal_operating_margin then x else dconst (terminal_margin f))"
  define m where "m = (\<lambda>x. if solve_variable spec = Terminal_operating_margin then x else (dval (terminal_margin f) :: real))"
  obtain g1 tr tm keep tn tng ti tf spread tv where
    c: "dual_add (dconst dec_one) (dconst (terminal_growth f)) = Some g1" "dual_mul revenue g1 = Some tr"
      "dual_mul tr tm0 = Some tm" "dual_sub (dconst dec_one) (dconst (terminal_tax f)) = Some keep"
      "dual_mul tm keep = Some tn" "dual_mul tn (dconst (terminal_growth f)) = Some tng"
      "dual_div tng (dconst (terminal_roic f)) = Some ti" "dual_sub tn ti = Some tf"
      "dual_sub (dconst (wacc f)) (dconst (terminal_growth f)) = Some spread"
      "dual_div tf spread = Some tv" "dual_div tv discount = Some t"
    using assms(1) unfolding residual_terminal_def tm0_def[symmetric] Let_def
    by (auto simp: bind_eq_Some_conv)
  have tm: "encloses tm0 m S"
    using assms(2) encloses_const by (auto simp: tm0_def m_def)
  have tn: "encloses tn (\<lambda>x. exact_revenue f spec (length (growth f)) x * (dval dec_one + dval (terminal_growth f)) * m x
      * (dval dec_one - dval (terminal_tax f))) S"
    by (intro encloses_mul[OF c(5)] encloses_mul[OF c(3)] encloses_mul[OF c(2)] encloses_add[OF c(1)]
        encloses_sub[OF c(4)] encloses_const assms(3) tm)
  note encloses_div[OF c(11) encloses_div[OF c(10) encloses_sub[OF c(8) tn
    encloses_div[OF c(7) encloses_mul[OF c(6) tn encloses_const] encloses_const]]
    encloses_sub[OF c(9) encloses_const encloses_const]] assms(4)]
  then show ?thesis by (simp add: exact_terminal_def[abs_def] Let_def m_def)
qed

lemma residual_encloses:
  assumes "residual f spec target b = Some d"
  shows "encloses d (exact_residual f spec target) (region b)"
proof -
  let ?x = "Dual b (point dec_one)" and ?n = "length (growth f)"
  obtain revenue pv_sum discount t s where
    c: "residual_years f spec ?x [0..<?n] (dconst (revenue_anchor f), dconst dec_zero, dconst dec_one)
          = Some (revenue, pv_sum, discount)"
      "residual_terminal f spec ?x revenue discount = Some t" "dual_add pv_sum t = Some s"
      "dual_sub s (dconst target) = Some d"
    using assms by (auto simp: residual_def Let_def bind_eq_Some_conv)
  have "years_inv f spec (region b) 0 (dconst (revenue_anchor f), dconst dec_zero, dconst dec_one)"
    using encloses_const[of "revenue_anchor f"] encloses_const[of dec_zero] encloses_const[of dec_one]
    by (simp add: years_inv_def exact_revenue_def[abs_def])
  then have "years_inv f spec (region b) ?n (revenue, pv_sum, discount)"
    using residual_years_inv[OF c(1) _ encloses_ident] by simp
  then have inv: "encloses revenue (exact_revenue f spec ?n) (region b)"
      "encloses pv_sum (\<lambda>x. \<Sum>i<?n. exact_fcff f spec i x / (1 + dval (wacc f)) ^ Suc i) (region b)"
      "encloses discount (\<lambda>_. (1 + dval (wacc f)) ^ ?n) (region b)"
    by (simp_all add: years_inv_def)
  show ?thesis
    unfolding exact_residual_def[abs_def] exact_ev_def
    by (intro encloses_sub[OF c(4)] encloses_add[OF c(3)] encloses_const inv
        residual_terminal_encloses[OF c(2)] encloses_ident)
qed

end
