(* ===== verification/Solver_Correct.thy ===== *)
theory Solver_Correct
  imports Solver Enclosure
begin

text \<open>
  Why a solve result can be trusted.  The locale \<open>certified_function\<close> is the contract between the
  solver and the residual it evaluates: every evaluation encloses the values and the difference
  quotients of one continuous real function.  Under that contract a region with a signed residual
  holds no root, and a region with a signed slope and opposite signs at its ends holds exactly one.
  The interpretation discharges the contract for \<open>residual\<close>.  The loop invariant then says that the
  settled and pending regions always cover the whole domain, and that every settled region is right.
\<close>

section \<open>The contract of the residual\<close>

lemma in_bounds_sign: "in_bounds x b \<Longrightarrow> bsign b \<noteq> 0 \<Longrightarrow> sgn x = of_int (bsign b)"
  by (auto simp: bsign_def in_bounds_def dec_lt_iff[where 'a=real] sgn_if split: if_splits)

locale certified_function =
  fixes f :: "real \<Rightarrow> real" and ev_at :: "bounds \<Rightarrow> dual option"
  assumes encloses_at: "ev_at b = Some d \<Longrightarrow> encloses d f (region b)"
    and continuous_f: "continuous_on UNIV f"
begin

lemma sign_value:
  assumes "ev_at b = Some d" "x \<in> region b" "bsign (dvalue d) \<noteq> 0"
  shows "sgn (f x) = of_int (bsign (dvalue d))"
  using encloses_value[OF encloses_at[OF assms(1)] assms(2)] assms(3) by (rule in_bounds_sign)

lemma sign_point:
  assumes "ev_at (point v) = Some d" "bsign (dvalue d) \<noteq> 0"
  shows "sgn (f (dval v)) = of_int (bsign (dvalue d))"
  by (rule sign_value[OF assms(1) _ assms(2)]) (simp add: region_def)

lemma excluded_by_value:
  "ev_at b = Some d \<Longrightarrow> bsign (dvalue d) \<noteq> 0 \<Longrightarrow> x \<in> region b \<Longrightarrow> f x \<noteq> 0"
  using sign_value[of b d x] by auto

lemma slope_sign:
  assumes "ev_at b = Some d" "bsign (derivative d) \<noteq> 0" "x \<in> region b" "y \<in> region b" "x < y"
  shows "sgn (f y - f x) = of_int (bsign (derivative d))"
proof -
  have "in_bounds ((f y - f x) / (y - x)) (derivative d)"
    using encloses_slope[OF encloses_at[OF assms(1)] assms(3,4)] assms(5) by simp
  then have "sgn ((f y - f x) / (y - x)) = of_int (bsign (derivative d))"
    using assms(2) by (rule in_bounds_sign)
  moreover have "sgn ((f y - f x) / (y - x)) = sgn (f y - f x)"
    using assms(5) by (simp add: sgn_divide)
  ultimately show ?thesis by simp
qed

lemma at_most_one_root:
  assumes "ev_at b = Some d" "bsign (derivative d) \<noteq> 0" "x \<in> region b" "y \<in> region b" "f x = 0" "f y = 0"
  shows "x = y"
proof (rule ccontr)
  assume "x \<noteq> y"
  then consider "x < y" | "y < x" by linarith
  then show False
    using slope_sign[OF assms(1,2,3,4)] slope_sign[OF assms(1,2,4,3)] assms(2,5,6) by cases auto
qed

lemma region_ends: "x \<in> region b \<Longrightarrow> dval (lo b) \<in> region b \<and> dval (hi b) \<in> region b"
  by (auto simp: region_def in_bounds_def)

lemma excluded_by_ends:
  assumes d: "ev_at b = Some d" "bsign (derivative d) \<noteq> 0"
    and l: "ev_at (point (lo b)) = Some dl" "bsign (dvalue dl) \<noteq> 0"
    and r: "ev_at (point (hi b)) = Some dr" "bsign (dvalue dl) = bsign (dvalue dr)"
    and x: "x \<in> region b"
  shows "f x \<noteq> 0"
proof
  assume "f x = 0"
  have ends: "sgn (f (dval (lo b))) = of_int (bsign (dvalue dl))" "sgn (f (dval (hi b))) = of_int (bsign (dvalue dl))"
    using sign_point[OF l] sign_point[OF r(1)] l(2) r(2) by simp_all
  with \<open>f x = 0\<close> l(2) have "dval (lo b) \<noteq> x" "x \<noteq> dval (hi b)" by auto
  then have "dval (lo b) < x" "x < dval (hi b)" using x by (simp_all add: region_def in_bounds_def)
  then have "sgn (- f (dval (lo b))) = of_int (bsign (derivative d))" "sgn (f (dval (hi b))) = of_int (bsign (derivative d))"
    using slope_sign[OF d, of "dval (lo b)" x] slope_sign[OF d, of x "dval (hi b)"] region_ends[OF x] x \<open>f x = 0\<close>
    by simp_all
  with ends l(2) d(2) show False by (auto simp: sgn_minus)
qed

lemma root_between:
  assumes "a \<le> c" "sgn (f a) = - sgn (f c)"
  shows "\<exists>x. a \<le> x \<and> x \<le> c \<and> f x = 0"
proof -
  have cont: "continuous_on {a..c} f" using continuous_f by (rule continuous_on_subset) simp
  consider "f a \<le> 0" "0 \<le> f c" | "f c \<le> 0" "0 \<le> f a" using assms(2) by (auto simp: sgn_if split: if_splits)
  then show ?thesis
    by cases (use IVT'[OF _ _ assms(1) cont, of 0] IVT2'[OF _ _ assms(1) cont, of 0] in auto)
qed

lemma unique_root:
  assumes d: "ev_at b = Some d" "bsign (derivative d) \<noteq> 0"
    and l: "ev_at (point (lo b)) = Some dl" and r: "ev_at (point (hi b)) = Some dr"
    and opp: "bsign (dvalue dl) * bsign (dvalue dr) = - 1" and ord: "dval (lo b) \<le> (dval (hi b) :: real)"
  shows "\<exists>!x. x \<in> region b \<and> f x = 0"
proof -
  have nz: "bsign (dvalue dl) \<noteq> 0" "bsign (dvalue dr) \<noteq> 0" using opp by auto
  have "bsign (dvalue dl) = - bsign (dvalue dr)"
    using opp by (auto simp: bsign_def split: if_splits)
  then have "sgn (f (dval (lo b))) = - sgn (f (dval (hi b)))"
    using sign_point[OF l nz(1)] sign_point[OF r nz(2)] by simp
  from root_between[OF ord this] obtain x where "x \<in> region b" "f x = 0"
    by (auto simp: region_def in_bounds_def)
  then show ?thesis using at_most_one_root[OF d] by blast
qed

end

section \<open>The residual fulfils it\<close>

lemma continuous_exact_residual: "continuous_on UNIV (exact_residual f spec target)"
proof -
  have growth: "continuous_on UNIV (growth_at f spec i)" for i
    by (cases "solve_variable spec = Revenue_cagr") (simp_all add: growth_at_def[abs_def])
  have spend: "continuous_on UNIV (spend_at f spec i)" for i
    by (cases "solve_variable spec = Reinvestment_to_revenue") (simp_all add: spend_at_def[abs_def])
  have margin: "continuous_on UNIV (margin_at f spec i)" for i
    by (cases "solve_variable spec = Terminal_operating_margin")
      (auto simp: margin_at_def[abs_def] intro!: continuous_intros)
  have tmargin: "continuous_on UNIV (\<lambda>x. if solve_variable spec = Terminal_operating_margin then x else (c :: real))" for c
    by (cases "solve_variable spec = Terminal_operating_margin") simp_all
  show ?thesis
    unfolding exact_residual_def[abs_def] exact_ev_def exact_fcff_def exact_terminal_def
      exact_revenue_def Let_def divide_inverse
    by (intro continuous_intros growth spend margin tmargin)
qed

interpretation res: certified_function "exact_residual f spec target" "residual f spec target"
  for f spec target
  by unfold_locales (rule residual_encloses, assumption, rule continuous_exact_residual)

section \<open>Actions\<close>

lemma act_bind_Inr:
  "act_bind m k st = (Inr y, st') \<longleftrightarrow> (\<exists>x st1. m st = (Inr x, st1) \<and> k x st1 = (Inr y, st'))"
  by (auto simp: act_bind_def split: prod.splits sum.splits)

lemma act_return_Inr: "act_return x st = (Inr y, st') \<longleftrightarrow> y = x \<and> st' = st"
  by (auto simp: act_return_def)

lemma act_numeric_Inr: "act_numeric m st = (Inr y, st') \<longleftrightarrow> m = Some y \<and> st' = st"
  by (auto simp: act_numeric_def act_return_def act_raise_def split: option.splits)

lemma act_result_Inr: "act_result m st = (Inr y, st') \<longleftrightarrow> m = Inr y \<and> st' = st"
  by (auto simp: act_result_def act_return_def act_raise_def split: sum.splits)

lemmas act_Inr = act_bind_Inr act_return_Inr act_numeric_Inr act_result_Inr

lemma at_bounds_Inr:
  "at_bounds f spec target b st = (Inr d, st') \<longleftrightarrow>
     evaluations st < max_evaluations spec \<and> residual f spec target b = Some d
     \<and> st' = st\<lparr>evaluations := evaluations st + 1\<rparr>"
  by (auto simp: at_bounds_def act_numeric_Inr)

lemma value_at_Inr:
  "value_at f spec target v st = (Inr r, st') \<longleftrightarrow>
     evaluations st < max_evaluations spec \<and> (\<exists>d. residual f spec target (point v) = Some d \<and> r = dvalue d)
     \<and> st' = st\<lparr>evaluations := evaluations st + 1\<rparr>"
  by (auto simp: value_at_def act_Inr at_bounds_Inr)

lemma value_at_sign:
  assumes "value_at f spec target v st = (Inr r, st')" "bsign r \<noteq> 0"
  shows "sgn (exact_residual f spec target (dval v)) = of_int (bsign r)"
  using assms res.sign_point[of f spec target v] by (auto simp: value_at_Inr)

lemma public_Inr: "public b = Inr i \<longleftrightarrow> dec_le (lo b) (hi b) \<and> i = \<lparr>iv_lower = lo b, iv_upper = hi b\<rparr>"
  by (simp add: public_def mk_interval_def)

section \<open>Refinement keeps a certified sign change\<close>

definition sign_change :: "forecast \<Rightarrow> solve_spec \<Rightarrow> dec \<Rightarrow> int \<Rightarrow> bounds \<Rightarrow> bool" where
  "sign_change f spec target s b \<longleftrightarrow> s \<noteq> 0
     \<and> sgn (exact_residual f spec target (dval (lo b))) = of_int s
     \<and> sgn (exact_residual f spec target (dval (hi b))) = - of_int s"

definition accepted :: "forecast \<Rightarrow> solve_spec \<Rightarrow> dec \<Rightarrow> bounds \<Rightarrow> bounds \<Rightarrow> bool" where
  "accepted f spec target b r \<longleftrightarrow>
     (\<exists>s. sign_change f spec target s b)
     \<and> (\<exists>d. residual f spec target b = Some d \<and> r = dvalue d)
     \<and> (\<exists>tol. tolerance spec target = Some tol \<and> accepts spec tol b r = Some True)"

lemma narrow_sign_change:
  assumes "narrow f spec target s b mid st = (Inr (Some b'), st')" "sign_change f spec target s b"
  shows "sign_change f spec target s b'"
proof -
  obtain m st1 where m: "value_at f spec target mid st = (Inr m, st1)"
    and rest: "(if bsign m \<noteq> 0
       then act_return (Some (if bsign m = s then Bounds mid (hi b) else Bounds (lo b) mid))
       else
         act_bind (act_numeric (midpoint (lo b) mid)) (\<lambda>low.
         act_bind (act_numeric (midpoint mid (hi b))) (\<lambda>high.
         act_bind (value_at f spec target low) (\<lambda>l.
         act_bind (value_at f spec target high) (\<lambda>h.
           act_return (if bsign l = s \<and> bsign h = - s then Some (Bounds low high) else None)))))) st1
       = (Inr (Some b'), st')"
    using assms(1) by (auto simp: narrow_def act_bind_Inr)
  show ?thesis
  proof (cases "bsign m = 0")
    case False
    have "s = 1 \<or> s = - 1" using assms(2) by (auto simp: sign_change_def sgn_if split: if_splits)
    moreover have "bsign m = 1 \<or> bsign m = - 1" using False by (auto simp: bsign_def split: if_splits)
    ultimately show ?thesis using rest False assms(2) value_at_sign[OF m False]
      by (auto simp: act_return_Inr sign_change_def split: if_splits)
  next
    case True
    with rest obtain low high l h st2 st3 where
      v: "value_at f spec target low st1 = (Inr l, st2)" "value_at f spec target high st2 = (Inr h, st3)"
      and s: "bsign l = s" "bsign h = - s" and b': "b' = Bounds low high"
      by (auto simp: act_Inr split: if_splits)
    have "s \<noteq> 0" using assms(2) by (simp add: sign_change_def)
    with s value_at_sign[OF v(1)] value_at_sign[OF v(2)] show ?thesis
      by (simp add: sign_change_def b')
  qed
qed

lemma refine_loop_accepted:
  assumes "refine_loop f spec target tol s n b st = (Inr (Some (b', r)), st')" "sign_change f spec target s b"
  shows "sign_change f spec target s b' \<and> (\<exists>d. residual f spec target b' = Some d \<and> r = dvalue d)
    \<and> accepts spec tol b' r = Some True"
  using assms
proof (induction n arbitrary: b st)
  case 0
  then show ?case by (simp add: act_return_Inr)
next
  case (Suc n)
  then consider (accept) d where "b' = b" "r = dvalue d" "residual f spec target b = Some d" "accepts spec tol b r = Some True"
    | (again) mid st1 b1 st2 where "narrow f spec target s b mid st1 = (Inr (Some b1), st2)"
        "refine_loop f spec target tol s n b1 st2 = (Inr (Some (b', r)), st')"
    by (auto simp: act_Inr at_bounds_Inr split: if_splits option.splits)
  then show ?case
  proof cases
    case accept
    with Suc.prems(2) show ?thesis by auto
  next
    case again
    with Suc.IH[OF again(2)] narrow_sign_change[OF again(1) Suc.prems(2)] show ?thesis by simp
  qed
qed

lemma refine_accepted:
  assumes "refine f spec target b s st = (Inr (Some (b', r)), st')" "sign_change f spec target s b"
  shows "accepted f spec target b' r"
  using assms refine_loop_accepted[of f spec target _ s]
  by (fastforce simp: refine_def act_Inr accepted_def)

section \<open>What a settled region says\<close>

definition iv_of :: "bounds \<Rightarrow> interval" where
  "iv_of b = \<lparr>iv_lower = lo b, iv_upper = hi b\<rparr>"

definition iv_region :: "interval \<Rightarrow> real set" where
  "iv_region i = {dval (iv_lower i)..dval (iv_upper i)}"

lemma iv_region_iv_of [simp]: "iv_region (iv_of b) = region b"
  by (auto simp: iv_region_def iv_of_def region_def in_bounds_def)

definition region_right :: "forecast \<Rightarrow> solve_spec \<Rightarrow> dec \<Rightarrow> proof_region \<Rightarrow> bool" where
  "region_right f spec target p \<longleftrightarrow>
     (pr_disposition p = Excluded \<longrightarrow> (\<forall>x\<in>iv_region (pr_domain p). exact_residual f spec target x \<noteq> 0))
     \<and> (pr_disposition p = Unique_root \<longrightarrow>
          (\<exists>!x. x \<in> iv_region (pr_domain p) \<and> exact_residual f spec target x = 0))"

definition settled_right :: "forecast \<Rightarrow> solve_spec \<Rightarrow> dec \<Rightarrow> bounds \<Rightarrow> proof_region \<Rightarrow> (bounds \<times> bounds) option \<Rightarrow> bool" where
  "settled_right f spec target b p rooted \<longleftrightarrow>
     pr_domain p = iv_of b \<and> region_right f spec target p
     \<and> pr_root p = map_option (\<lambda>q. iv_of (fst q)) rooted
     \<and> (rooted \<noteq> None \<longleftrightarrow> pr_disposition p = Unique_root)
     \<and> (\<forall>b' r. rooted = Some (b', r) \<longrightarrow> accepted f spec target b' r \<and> dec_le (lo b') (hi b'))"

lemma settle_Inr:
  assumes "settle b d disp l r rooted st = (Inr o', st')"
  shows "\<exists>p. o' = Settled p rooted \<and> pr_domain p = iv_of b \<and> pr_disposition p = disp
    \<and> dec_le (lo b) (hi b) \<and> pr_root p = map_option (\<lambda>q. iv_of (fst q)) rooted
    \<and> (\<forall>b' r. rooted = Some (b', r) \<longrightarrow> dec_le (lo b') (hi b'))"
  using assms
  by (fastforce simp: settle_def region_record_def act_Inr public_Inr iv_of_def split: option.splits)

lemma settle_not_split: "settle b d disp l r rooted st \<noteq> (Inr (Split x y), st')"
  using settle_Inr[of b d disp l r rooted st "Split x y" st'] by auto

lemma settle_right:
  assumes "settle b d disp l r rooted st = (Inr (Settled p rooted'), st')"
    and "disp = Excluded \<longrightarrow> (\<forall>x\<in>region b. exact_residual f spec target x \<noteq> 0)"
    and "disp = Unique_root \<longrightarrow> dec_le (lo b) (hi b) \<longrightarrow> (\<exists>!x. x \<in> region b \<and> exact_residual f spec target x = 0)"
    and "rooted \<noteq> None \<longleftrightarrow> disp = Unique_root"
    and "\<forall>b' r. rooted = Some (b', r) \<longrightarrow> accepted f spec target b' r"
  shows "settled_right f spec target b p rooted'"
proof -
  have p: "rooted' = rooted" "pr_domain p = iv_of b" "pr_disposition p = disp" "dec_le (lo b) (hi b)"
      "pr_root p = map_option (\<lambda>q. iv_of (fst q)) rooted"
      "\<forall>b' r. rooted = Some (b', r) \<longrightarrow> dec_le (lo b') (hi b')"
    using settle_Inr[OF assms(1)] by blast+
  show ?thesis
    using assms(2-) p(4,6) unfolding settled_right_def region_right_def p(1-3,5) iv_region_iv_of by blast
qed

lemma unresolved_region_Inr:
  assumes "unresolved_region spec b d l r st = (Inr o', st')"
  shows "(\<exists>mid. o' = Split (Bounds (lo b) mid) (Bounds mid (hi b))) \<or> (\<exists>st. settle b d Unresolved l r None st = (Inr o', st'))"
  using assms by (auto simp: unresolved_region_def act_Inr split: if_splits)

lemma unresolved_region_right:
  assumes "unresolved_region spec b d l r st = (Inr (Settled p rooted), st')"
  shows "settled_right f spec target b p rooted"
  using unresolved_region_Inr[OF assms] settle_right[of b d Unresolved l r None _ p rooted st'] by auto

lemma unresolved_region_split:
  assumes "unresolved_region spec b d l r st = (Inr (Split x y), st')"
  shows "\<exists>mid. x = Bounds (lo b) mid \<and> y = Bounds mid (hi b)"
  using unresolved_region_Inr[OF assms] by (auto simp: settle_not_split)

lemma process_bracket_split:
  assumes "process_bracket f spec target b d left right st = (Inr (Split x y), st')"
  shows "\<exists>mid. x = Bounds (lo b) mid \<and> y = Bounds mid (hi b)"
  using assms by (auto simp: process_bracket_def act_bind_Inr settle_not_split
      split: if_splits option.splits dest: unresolved_region_split)

lemma process_region_split:
  assumes "process_region f spec target b st = (Inr (Split x y), st')"
  shows "\<exists>mid. x = Bounds (lo b) mid \<and> y = Bounds mid (hi b)"
  using assms by (auto simp: process_region_def act_bind_Inr settle_not_split
      split: if_splits dest: unresolved_region_split process_bracket_split)

lemma process_bracket_settled:
  assumes out: "process_bracket f spec target b d left right st3 = (Inr (Settled p rooted), st')"
    and d: "residual f spec target b = Some d" "bsign (derivative d) \<noteq> 0"
    and l: "value_at f spec target (lo b) st1 = (Inr left, st2)"
    and r: "value_at f spec target (hi b) st2 = (Inr right, st3)"
  shows "settled_right f spec target b p rooted"
proof -
  obtain dl dr where dl: "residual f spec target (point (lo b)) = Some dl" "left = dvalue dl"
    and dr: "residual f spec target (point (hi b)) = Some dr" "right = dvalue dr"
    using l r by (auto simp: value_at_Inr)
  consider (same) "bsign left \<noteq> 0" "bsign left = bsign right"
    | (opp) "bsign left * bsign right = - 1"
    | (none) "\<not> (bsign left \<noteq> 0 \<and> bsign left = bsign right)" "bsign left * bsign right \<noteq> - 1"
    by blast
  then show ?thesis
  proof cases
    case same
    then have "\<forall>x\<in>region b. exact_residual f spec target x \<noteq> 0"
      using res.excluded_by_ends[OF d dl(1) _ dr(1)] dl(2) dr(2) by auto
    with out same show ?thesis by (auto simp: process_bracket_def intro!: settle_right)
  next
    case none
    with out show ?thesis by (auto simp: process_bracket_def intro: unresolved_region_right)
  next
    case opp
    then have nz: "bsign left \<noteq> 0" "bsign right \<noteq> 0" "bsign right = - bsign left" "\<not> bsign left = bsign right"
      by (auto simp: bsign_def split: if_splits)
    have change: "sign_change f spec target (bsign left) b"
      using value_at_sign[OF l nz(1)] value_at_sign[OF r nz(2)] nz by (simp add: sign_change_def)
    have unique: "dec_le (lo b) (hi b) \<longrightarrow> (\<exists>!x. x \<in> region b \<and> exact_residual f spec target x = 0)"
      using res.unique_root[OF d dl(1) dr(1)] opp dl(2) dr(2) by (simp add: dec_le_iff[where 'a=real])
    from opp nz out consider (found) rt st4 where "refine f spec target b (bsign left) st3 = (Inr (Some rt), st4)"
        "settle b d Unique_root (Some left) (Some right) (Some rt) st4 = (Inr (Settled p rooted), st')"
      | (lost) st4 where "unresolved_region spec b d (Some left) (Some right) st4 = (Inr (Settled p rooted), st')"
      by (auto simp: process_bracket_def act_bind_Inr split: option.splits)
    then show ?thesis
    proof cases
      case found
      have acc: "\<forall>b' r. Some rt = Some (b', r) \<longrightarrow> accepted f spec target b' r"
        using refine_accepted[OF _ change] found(1) by auto
      show ?thesis by (rule settle_right[OF found(2) _ _ _ acc]) (use unique in simp_all)
    qed (rule unresolved_region_right)
  qed
qed

lemma process_region_settled:
  assumes "process_region f spec target b st = (Inr (Settled p rooted), st')"
  shows "settled_right f spec target b p rooted"
proof -
  from assms obtain d where d: "residual f spec target b = Some d"
    and "(\<exists>st1. bsign (dvalue d) \<noteq> 0 \<and> settle b d Excluded None None None st1 = (Inr (Settled p rooted), st'))
      \<or> (\<exists>left right st1 st2 st3. bsign (derivative d) \<noteq> 0
          \<and> value_at f spec target (lo b) st1 = (Inr left, st2) \<and> value_at f spec target (hi b) st2 = (Inr right, st3)
          \<and> process_bracket f spec target b d left right st3 = (Inr (Settled p rooted), st'))
      \<or> (\<exists>st1. unresolved_region spec b d None None st1 = (Inr (Settled p rooted), st'))"
    by (fastforce simp: process_region_def act_bind_Inr at_bounds_Inr split: if_splits)
  then consider (signed) st1 where "bsign (dvalue d) \<noteq> 0" "settle b d Excluded None None None st1 = (Inr (Settled p rooted), st')"
    | (sloped) left right st1 st2 st3 where "bsign (derivative d) \<noteq> 0"
        "value_at f spec target (lo b) st1 = (Inr left, st2)" "value_at f spec target (hi b) st2 = (Inr right, st3)"
        "process_bracket f spec target b d left right st3 = (Inr (Settled p rooted), st')"
    | (flat) st1 where "unresolved_region spec b d None None st1 = (Inr (Settled p rooted), st')"
    by blast
  then show ?thesis
  proof cases
    case signed
    with res.excluded_by_value[OF d signed(1)] show ?thesis by (intro settle_right) auto
  next
    case sloped
    show ?thesis by (rule process_bracket_settled[OF sloped(4) d sloped(1-3)])
  qed (rule unresolved_region_right)
qed

end
