(* ===== verification/Solver_Loop.thy ===== *)
theory Solver_Loop
  imports Solver_Correct
begin

text \<open>
  The branch-and-bound loop as a whole: its evaluation and subdivision budgets, its termination, the
  invariant that settled and pending regions cover the domain, and what the published result says
  about the roots of the exact model.
\<close>

section \<open>Budgets\<close>

definition frugal :: "solve_spec \<Rightarrow> 'a action \<Rightarrow> bool" where
  "frugal spec m \<longleftrightarrow> (\<forall>st.
     evaluations st \<le> evaluations (snd (m st))
     \<and> (evaluations st \<le> max_evaluations spec \<longrightarrow> evaluations (snd (m st)) \<le> max_evaluations spec)
     \<and> (subdivisions st \<le> max_subdivisions spec \<longrightarrow> subdivisions (snd (m st)) \<le> max_subdivisions spec))"

named_theorems frugal_intros

lemma frugal_basic [frugal_intros]:
  "frugal spec (act_return x)" "frugal spec (act_raise err)" "frugal spec (act_numeric v)"
  "frugal spec (act_result w)" "frugal spec count_iteration"
  by (auto simp: frugal_def act_return_def act_raise_def act_numeric_def act_result_def
      count_iteration_def split: option.splits sum.splits)

lemma frugal_bind [frugal_intros]:
  assumes "frugal spec m" "\<And>x. frugal spec (k x)"
  shows "frugal spec (act_bind m k)"
  unfolding frugal_def
proof
  fix st
  obtain r st1 where m: "m st = (r, st1)" by fastforce
  show "evaluations st \<le> evaluations (snd (act_bind m k st))
     \<and> (evaluations st \<le> max_evaluations spec \<longrightarrow> evaluations (snd (act_bind m k st)) \<le> max_evaluations spec)
     \<and> (subdivisions st \<le> max_subdivisions spec \<longrightarrow> subdivisions (snd (act_bind m k st)) \<le> max_subdivisions spec)"
  proof (cases r)
    case (Inl e)
    with m assms(1)[unfolded frugal_def, rule_format, of st] show ?thesis by (simp add: act_bind_def)
  next
    case (Inr x)
    with m assms(1)[unfolded frugal_def, rule_format, of st] assms(2)[of x, unfolded frugal_def, rule_format, of st1]
    show ?thesis by (auto simp: act_bind_def)
  qed
qed

lemma frugal_split [frugal_intros]:
  "frugal spec m \<Longrightarrow> frugal spec n \<Longrightarrow> frugal spec (if c then m else n)"
  "frugal spec m \<Longrightarrow> (\<And>x. frugal spec (k x)) \<Longrightarrow> frugal spec (case v of None \<Rightarrow> m | Some x \<Rightarrow> k x)"
  by (auto split: option.splits)

lemma frugal_at [frugal_intros]: "frugal spec (at_bounds f spec target b)"
  by (auto simp: frugal_def at_bounds_def act_numeric_def act_return_def act_raise_def split: option.splits)

lemma frugal_value_at [frugal_intros]: "frugal spec (value_at f spec target v)"
  unfolding value_at_def by (intro frugal_intros)

lemma frugal_narrow [frugal_intros]: "frugal spec (narrow f spec target s b mid)"
  unfolding narrow_def by (intro frugal_intros)

lemma frugal_refine_loop [frugal_intros]: "frugal spec (refine_loop f spec target tol s n b)"
  by (induction n arbitrary: b) (simp_all, (intro frugal_intros | assumption)+)

lemma frugal_refine [frugal_intros]: "frugal spec (refine f spec target b s)"
  unfolding refine_def by (intro frugal_intros)

lemma frugal_settle [frugal_intros]: "frugal spec (settle b d disp l r rooted)"
  unfolding settle_def region_record_def by (intro frugal_intros)

lemma frugal_divide [frugal_intros]:
  assumes "frugal spec m"
  shows "frugal spec (act_bind (\<lambda>st. if subdivisions st < max_subdivisions spec \<and> c
      then act_bind (act_numeric v) (\<lambda>w. act_return (P w)) st else act_return False st)
    (\<lambda>divide. if divide then act_bind count_subdivision (\<lambda>_. act_return x) else m))"
  using assms
  by (auto simp: frugal_def act_bind_def act_numeric_def act_return_def act_raise_def count_subdivision_def
      split: option.splits)

lemma frugal_unresolved [frugal_intros]: "frugal spec (unresolved_region spec b d l r)"
  unfolding unresolved_region_def by (intro frugal_intros)

lemma frugal_process: "frugal spec (process_region f spec target b)"
  unfolding process_region_def process_bracket_def by (intro frugal_intros)

lemma process_region_advances:
  assumes "process_region f spec target b st = (Inr o', st')"
  shows "evaluations st < evaluations st' \<and> evaluations st < max_evaluations spec"
proof -
  let ?k = "\<lambda>d. if bsign (dvalue d) \<noteq> 0 then settle b d Excluded None None None
       else if bsign (derivative d) \<noteq> 0 then
         act_bind (value_at f spec target (lo b)) (\<lambda>left.
         act_bind (value_at f spec target (hi b)) (\<lambda>right.
           process_bracket f spec target b d left right))
       else unresolved_region spec b d None None"
  obtain d st1 where d: "at_bounds f spec target b st = (Inr d, st1)" and rest: "?k d st1 = (Inr o', st')"
    using assms by (auto simp: process_region_def act_bind_Inr)
  have "frugal spec (?k d)" unfolding process_bracket_def by (intro frugal_intros)
  then have "evaluations st1 \<le> evaluations st'" using rest unfolding frugal_def by (metis snd_conv)
  with d show ?thesis by (auto simp: at_bounds_Inr)
qed

section \<open>Termination\<close>

definition budget_left :: "solve_spec \<Rightarrow> loop_state \<Rightarrow> nat" where
  "budget_left spec s =
     (if raised s = None then Suc (max_evaluations spec - evaluations (counts s)) else 0)"

lemma loop_step_decreases:
  assumes "loop_running s"
  shows "budget_left spec (loop_step f spec target s) < budget_left spec s"
proof -
  obtain b rest where p: "pending s = b # rest" and r: "raised s = None"
    using assms by (auto simp: loop_running_def neq_Nil_conv)
  obtain v st where v: "process_region f spec target b (counts s) = (v, st)" by fastforce
  show ?thesis
  proof (cases v)
    case (Inl err)
    with p r v show ?thesis by (simp add: loop_step_def budget_left_def)
  next
    case (Inr o')
    with v have "process_region f spec target b (counts s) = (Inr o', st)" by simp
    from process_region_advances[OF this] p r v Inr show ?thesis
      by (cases o') (auto simp: loop_step_def budget_left_def)
  qed
qed

lemma run_loop_total: "\<exists>s. run_loop f spec target = Some s"
  unfolding run_loop_def
  by (rule measure_while_option_Some[where P = "\<lambda>_. True" and f = "budget_left spec"])
    (simp_all add: loop_step_decreases)

lemma run_loop_stops: "run_loop f spec target = Some s \<Longrightarrow> \<not> loop_running s"
  unfolding run_loop_def by (rule while_option_stop)

lemma run_loop_invariant:
  assumes "run_loop f spec target = Some s" "I (loop_start spec)"
    and "\<And>s. I s \<Longrightarrow> loop_running s \<Longrightarrow> I (loop_step f spec target s)"
  shows "I s"
  using assms while_option_rule[of I loop_running "loop_step f spec target" "loop_start spec" s]
  by (auto simp: run_loop_def)

definition within_budget :: "solve_spec \<Rightarrow> loop_state \<Rightarrow> bool" where
  "within_budget spec s \<longleftrightarrow> evaluations (counts s) \<le> max_evaluations spec \<and> subdivisions (counts s) \<le> max_subdivisions spec"

lemma loop_step_counts:
  "pending s = b # rest \<Longrightarrow>
   counts (loop_step f spec target s) = snd (process_region f spec target b (counts s))"
  by (auto simp: loop_step_def split: prod.splits sum.splits outcome.splits)

lemma run_loop_budget:
  assumes "run_loop f spec target = Some s"
  shows "within_budget spec s"
proof (rule run_loop_invariant[OF assms])
  show "within_budget spec (loop_start spec)"
    by (auto simp: within_budget_def loop_start_def initial_counts_def Let_def split: option.splits)
next
  fix s assume s: "within_budget spec s" "loop_running s"
  then obtain b rest where "pending s = b # rest" by (auto simp: loop_running_def neq_Nil_conv)
  with s(1) frugal_process[of spec f target b, unfolded frugal_def, rule_format, of "counts s"]
  show "within_budget spec (loop_step f spec target s)"
    by (simp add: within_budget_def loop_step_counts)
qed

section \<open>The partition covers the domain\<close>

lemma set_add_cut: "set cuts \<subseteq> set (add_cut cuts v)"
  by (auto simp: add_cut_def)

lemma set_foldl_add_cut: "set cuts \<subseteq> set (foldl add_cut cuts vs)"
proof (induction vs arbitrary: cuts)
  case (Cons v vs)
  then show ?case using set_add_cut[of cuts v] by fastforce
qed simp

lemma kink_cuts_keeps: "kink_cuts spec anchor ws cuts = Some cuts' \<Longrightarrow> set cuts \<subseteq> set cuts'"
proof (induction spec anchor ws cuts rule: kink_cuts.induct)
  case (2 spec anchor w ws cuts)
  show ?case
  proof (cases "dec_pos w")
    case True
    then obtain k where "kink anchor w = Some k"
      "kink_cuts spec anchor ws (foldl add_cut cuts (filter (inside spec) [lo k, hi k])) = Some cuts'"
      using "2.prems" by (auto simp: bind_eq_Some_conv)
    from "2.IH"(1)[OF True this] set_foldl_add_cut show ?thesis by (rule subset_trans[rotated])
  qed (use 2 in auto)
qed simp

lemma sorted_wrt_dec_le: "sorted_wrt dec_le xs \<longleftrightarrow> sorted (map (\<lambda>d. dval d :: rat) xs)"
  by (simp add: sorted_map dec_le_iff[where 'a=rat, abs_def])

lemma partition_cuts_ends:
  assumes "partition_cuts spec = Some cuts" "dec_lt (lower spec) (upper spec)"
  shows "lower spec \<in> set cuts" "upper spec \<in> set cuts" "sorted_wrt dec_le cuts"
proof -
  have start: "foldl add_cut [] [lower spec, upper spec] = [lower spec, upper spec]"
    using assms(2) by (simp add: add_cut_def dec_lt_iff[where 'a=rat] dec_eq_iff[where 'a=rat])
  obtain raw where raw: "cuts = dec_sort raw"
    "raw = [lower spec, upper spec] \<or> (\<exists>a. kink_cuts spec a (margin_weights spec) [lower spec, upper spec] = Some raw)"
    using assms(1) unfolding partition_cuts_def start by (auto simp: Let_def split: if_splits option.splits)
  then have "set [lower spec, upper spec] \<subseteq> set raw" using kink_cuts_keeps by blast
  with raw(1) show "lower spec \<in> set cuts" "upper spec \<in> set cuts" "sorted_wrt dec_le cuts"
    by (auto simp: dec_sort_def sorted_wrt_dec_le)
qed

lemma pieces_cover:
  "2 \<le> length cuts \<Longrightarrow> dval (hd cuts) \<le> x \<Longrightarrow> x \<le> dval (last cuts) \<Longrightarrow> \<exists>b\<in>set (pieces cuts). x \<in> region b"
proof (induction cuts rule: induct_list012)
  case (3 a b cs)
  show ?case
  proof (cases "x \<le> dval b")
    case True
    with 3 show ?thesis by (simp add: pieces_def region_def)
  next
    case False
    with 3 have "cs \<noteq> []" by auto
    with False 3 have "\<exists>p\<in>set (pieces (b # cs)). x \<in> region p" by (cases cs) auto
    then show ?thesis by (auto simp: pieces_def)
  qed
qed simp_all

lemma sorted_ends:
  "sorted_wrt dec_le cuts \<Longrightarrow> c \<in> set cuts \<Longrightarrow> dec_le (hd cuts) c \<and> dec_le c (last cuts)"
proof (induction cuts)
  case (Cons a cs)
  then show ?case by (cases "cs = []") (auto intro: dec_le_trans)
qed simp

lemma partition_covers:
  assumes "partition_cuts spec = Some cuts" "dec_lt (lower spec) (upper spec)"
    and x: "dval (lower spec) \<le> x" "x \<le> dval (upper spec)"
  shows "\<exists>b\<in>set (pieces cuts). x \<in> region b"
proof (rule pieces_cover)
  note ends = partition_cuts_ends[OF assms(1,2)]
  show "2 \<le> length cuts"
  proof (rule ccontr)
    assume "\<not> 2 \<le> length cuts"
    then have "length cuts \<le> 1" by simp
    then have "lower spec = upper spec" using ends(1,2) by (cases cuts) auto
    then show False using assms(2) by (simp add: dec_lt_def)
  qed
  show "dval (hd cuts) \<le> x" "x \<le> dval (last cuts)"
    using sorted_ends[OF ends(3) ends(1)] sorted_ends[OF ends(3) ends(2)] x
    by (auto simp: dec_le_iff[where 'a=real])
qed

section \<open>The loop invariant\<close>

definition covered :: "loop_state \<Rightarrow> real set" where
  "covered s = \<Union> (region ` set (pending s)) \<union> \<Union> (region ` set_option (current s))
     \<union> \<Union> ((\<lambda>p. iv_region (pr_domain p)) ` set (proofs s))"

definition uniques :: "loop_state \<Rightarrow> proof_region list" where
  "uniques s = filter (\<lambda>p. pr_disposition p = Unique_root) (proofs s)"

definition loop_inv :: "forecast \<Rightarrow> solve_spec \<Rightarrow> dec \<Rightarrow> loop_state \<Rightarrow> bool" where
  "loop_inv f spec target s \<longleftrightarrow>
     {dval (lower spec)..dval (upper spec)} \<subseteq> covered s
     \<and> list_all (region_right f spec target) (proofs s)
     \<and> map pr_root (uniques s) = map (\<lambda>b. Some (iv_of b)) (roots s)
     \<and> list_all2 (\<lambda>b r. accepted f spec target b r \<and> dec_le (lo b) (hi b)) (roots s) (residuals s)
     \<and> (unresolved s \<longleftrightarrow> (\<exists>p\<in>set (proofs s). pr_disposition p = Unresolved))"

lemma loop_start_covers:
  assumes "dec_lt (lower spec) (upper spec)"
  shows "{dval (lower spec)..dval (upper spec)} \<subseteq> covered (loop_start spec)"
proof (cases "partition_cuts spec")
  case None
  then show ?thesis by (auto simp: loop_start_def covered_def region_def)
next
  case (Some cuts)
  show ?thesis
    using partition_covers[OF Some assms] Some by (auto simp: loop_start_def covered_def region_def Let_def)
qed

lemma loop_start_inv:
  assumes "dec_lt (lower spec) (upper spec)"
  shows "loop_inv f spec target (loop_start spec)"
  using loop_start_covers[OF assms]
  by (auto simp: loop_inv_def loop_start_def uniques_def Let_def split: option.splits)

lemma split_covers: "region b \<subseteq> region (Bounds (lo b) mid) \<union> region (Bounds mid (hi b))"
  by (auto simp: region_def in_bounds_def)

lemma loop_step_inv:
  assumes inv: "loop_inv f spec target s" and run: "loop_running s" "current s = None"
  shows "loop_inv f spec target (loop_step f spec target s)"
proof -
  obtain b rest where p: "pending s = b # rest" using run by (auto simp: loop_running_def neq_Nil_conv)
  obtain v st where v: "process_region f spec target b (counts s) = (v, st)" by fastforce
  consider (err) e where "v = Inl e" | (split) x y where "v = Inr (Split x y)"
    | (settled) pr rooted where "v = Inr (Settled pr rooted)"
    by (metis outcome.exhaust sum.exhaust)
  then show ?thesis
  proof cases
    case err
    then show ?thesis using inv p v run(2) by (auto simp: loop_step_def loop_inv_def covered_def uniques_def)
  next
    case split
    with process_region_split v obtain mid where "x = Bounds (lo b) mid" "y = Bounds mid (hi b)" by blast
    with split inv p v run(2) split_covers[of b mid] show ?thesis
      by (auto simp: loop_step_def loop_inv_def covered_def uniques_def)
  next
    case settled
    with process_region_settled v have r: "settled_right f spec target b pr rooted" by blast
    have step: "loop_step f spec target s = s\<lparr>pending := rest, current := None, counts := st,
                  proofs := proofs s @ [pr],
                  roots := roots s @ (case rooted of None \<Rightarrow> [] | Some (b', _) \<Rightarrow> [b']),
                  residuals := residuals s @ (case rooted of None \<Rightarrow> [] | Some (_, r) \<Rightarrow> [r]),
                  unresolved := (unresolved s \<or> pr_disposition pr = Unresolved)\<rparr>"
      using settled p v by (simp add: loop_step_def)
    have cover: "covered (loop_step f spec target s) = covered s"
      using r p run(2) by (auto simp: step covered_def settled_right_def)
    show ?thesis
    proof (cases rooted)
      case None
      with r inv show ?thesis unfolding loop_inv_def cover
        by (auto simp: step settled_right_def uniques_def)
    next
      case (Some q)
      with r inv show ?thesis unfolding loop_inv_def cover
        by (cases q) (auto simp: step settled_right_def uniques_def intro: list_all2_appendI)
    qed
  qed
qed

lemma loop_step_current: "raised (loop_step f spec target s) = None \<Longrightarrow> loop_running s \<Longrightarrow> current (loop_step f spec target s) = None"
  by (auto simp: loop_step_def loop_running_def neq_Nil_conv split: prod.splits sum.splits outcome.splits)

lemma run_loop_inv:
  assumes "run_loop f spec target = Some s" "dec_lt (lower spec) (upper spec)"
  shows "loop_inv f spec target s \<and> (raised s = None \<longrightarrow> current s = None)"
proof (rule run_loop_invariant[OF assms(1)])
  show "loop_inv f spec target (loop_start spec) \<and> (raised (loop_start spec) = None \<longrightarrow> current (loop_start spec) = None)"
    using loop_start_inv[OF assms(2)] by (auto simp: loop_start_def Let_def split: option.splits)
next
  fix s assume "loop_inv f spec target s \<and> (raised s = None \<longrightarrow> current s = None)" "loop_running s"
  then show "loop_inv f spec target (loop_step f spec target s)
      \<and> (raised (loop_step f spec target s) = None \<longrightarrow> current (loop_step f spec target s) = None)"
    using loop_step_inv loop_step_current by (auto simp: loop_running_def)
qed

section \<open>The published result\<close>

lemma public_all_Inr: "public_all bs = Inr is \<Longrightarrow> is = map iv_of bs"
  by (induction bs arbitrary: "is") (auto simp: public_Inr iv_of_def split: sum.splits)

lemma scalar_requires_certificate_Inr:
  "scalar_requires_certificate r = Inr r' \<Longrightarrow> r' = r"
  by (simp add: scalar_requires_certificate_def)

lemma solve_summary_Inr:
  assumes "solve_summary s = Inr r"
  shows "sr_state r = final_state s" "sr_proof r = proofs s" "sr_root_intervals r = map iv_of (roots s)"
    "sr_unresolved_domains r = map iv_of (remaining_regions s)
       @ map pr_domain (filter (\<lambda>p. pr_disposition p = Unresolved) (proofs s))"
    "sr_evaluations r = evaluations (counts s)" "sr_subdivisions r = subdivisions (counts s)"
    "sr_reasons r = final_reasons s"
    "sr_interval r = (if final_state s = Converged then Some (iv_of (hd (roots s))) else None)"
    "sr_residual r = (if final_state s = Converged then Some (iv_of (hd (residuals s))) else None)"
  using assms
  by (auto simp: solve_summary_def Let_def split: sum.splits option.splits if_splits
      dest!: public_all_Inr scalar_requires_certificate_Inr)

lemma solve_InrE:
  assumes "solve f spec target = Inr r"
  obtains t s where "target = Finite t" "forecast_domains f" "spec_domain spec"
    "run_loop f spec t = Some s" "solve_summary s = Inr r"
  using assms by (auto simp: solve_def run_solver_def split: if_splits decimal.splits option.splits)

lemma spec_domain_order: "spec_domain spec \<Longrightarrow> dec_lt (lower spec) (upper spec)"
  by (simp add: spec_domain_def)

definition domain_of :: "solve_spec \<Rightarrow> real set" where
  "domain_of spec = {dval (lower spec)..dval (upper spec)}"

text \<open>Every root of the domain lies in a region certified to hold exactly one root, or in a reported gap.\<close>

lemma run_loop_roots:
  assumes "run_loop f spec t = Some s" "spec_domain spec" "x \<in> domain_of spec" "exact_residual f spec t x = 0"
  shows "(\<exists>p\<in>set (uniques s). x \<in> iv_region (pr_domain p))
    \<or> (\<exists>p\<in>set (proofs s). pr_disposition p = Unresolved \<and> x \<in> iv_region (pr_domain p))
    \<or> (\<exists>b\<in>set (remaining_regions s). x \<in> region b)"
proof -
  have inv: "loop_inv f spec t s" using run_loop_inv[OF assms(1) spec_domain_order[OF assms(2)]] by simp
  then have "x \<in> covered s" using assms(3) by (auto simp: loop_inv_def domain_of_def)
  then consider (rem) b where "b \<in> set (remaining_regions s)" "x \<in> region b"
    | (settled) p where "p \<in> set (proofs s)" "x \<in> iv_region (pr_domain p)"
    by (fastforce simp: covered_def remaining_regions_def split: option.splits)
  then show ?thesis
  proof cases
    case settled
    with inv have "region_right f spec t p" by (auto simp: loop_inv_def list_all_iff)
    with assms(4) settled(2) have "pr_disposition p \<noteq> Excluded" by (auto simp: region_right_def)
    with settled show ?thesis by (cases "pr_disposition p") (auto simp: uniques_def)
  qed blast
qed

lemma final_reasons_Nil:
  "final_reasons s = [] \<longleftrightarrow> raised s = None \<and> \<not> unresolved s \<and> remaining_regions s = []"
  by (auto simp: final_reasons_def)

lemma certified_roots:
  assumes "run_loop f spec t = Some s" "spec_domain spec" "final_reasons s = []"
    and "x \<in> domain_of spec" "exact_residual f spec t x = 0"
  shows "\<exists>p\<in>set (uniques s). x \<in> iv_region (pr_domain p)"
proof -
  have "loop_inv f spec t s" using run_loop_inv[OF assms(1) spec_domain_order[OF assms(2)]] by simp
  with run_loop_roots[OF assms(1,2,4,5)] assms(3) show ?thesis
    by (auto simp: final_reasons_Nil loop_inv_def)
qed

lemma uniques_roots_length: "loop_inv f spec t s \<Longrightarrow> length (uniques s) = length (roots s)"
  unfolding loop_inv_def by (metis length_map)

lemma converged_at_most_one:
  assumes run: "run_loop f spec t = Some s" "spec_domain spec" and conv: "final_state s = Converged"
    and x: "x \<in> domain_of spec" "exact_residual f spec t x = 0"
    and y: "y \<in> domain_of spec" "exact_residual f spec t y = 0"
  shows "x = y"
proof -
  have inv: "loop_inv f spec t s" using run_loop_inv[OF run(1) spec_domain_order[OF run(2)]] by simp
  have fin: "final_reasons s = []" "length (roots s) \<le> 1" using conv by (auto simp: final_state_def split: if_splits)
  obtain p where p: "p \<in> set (uniques s)" "x \<in> iv_region (pr_domain p)"
    using certified_roots[OF run fin(1) x] by blast
  obtain q where q: "q \<in> set (uniques s)" "y \<in> iv_region (pr_domain q)"
    using certified_roots[OF run fin(1) y] by blast
  have "length (uniques s) \<le> 1" using fin(2) uniques_roots_length[OF inv] by simp
  then have "p = q" using p(1) q(1) by (cases "uniques s") auto
  moreover have "region_right f spec t p" "pr_disposition p = Unique_root"
    using inv p(1) by (auto simp: loop_inv_def list_all_iff uniques_def)
  ultimately show ?thesis using p(2) q(2) x(2) y(2) by (auto simp: region_right_def)
qed

lemma accepted_root:
  assumes "accepted f spec t b r" "dec_le (lo b) (hi b)"
  shows "\<exists>x\<in>region b. exact_residual f spec t x = 0"
  using assms res.root_between[of "dval (lo b)" "dval (hi b)" f spec t]
  by (auto simp: accepted_def sign_change_def region_def in_bounds_def dec_le_iff[where 'a=real])

lemma converged_root:
  assumes "run_loop f spec t = Some s" "spec_domain spec" "final_state s = Converged"
  shows "accepted f spec t (hd (roots s)) (hd (residuals s)) \<and> dec_le (lo (hd (roots s))) (hi (hd (roots s)))"
proof -
  have "loop_inv f spec t s" using run_loop_inv[OF assms(1) spec_domain_order[OF assms(2)]] by simp
  moreover have "roots s \<noteq> []" using assms(3) by (auto simp: final_state_def split: if_splits)
  ultimately show ?thesis by (auto simp: loop_inv_def neq_Nil_conv list_all2_Cons1)
qed

end
