(* ===== verification/Decimal_Eval.thy ===== *)
theory Decimal_Eval
  imports Decimal_Laws "HOL-Library.Code_Target_Numeral"
begin

text \<open>
  A second way to compute an exact quotient: when \<open>10 ^ m\<close> times the dividend is a multiple of
  the divisor for a small \<open>m\<close>, the long division and the removal of trailing zeros end in that
  multiple.  Concrete evaluations of the valuation model use it as the code equation of \<open>dec_div\<close>.
\<close>

lemma strip_zeros_power:
  assumes "c mod 10 \<noteq> 0 \<or> e = ideal" "e \<le> ideal"
  shows "strip_zeros (c * 10 ^ j) (e - int j) ideal = (c, e)"
proof (induction j)
  case 0
  then show ?case using assms(1) by (subst strip_zeros.simps) auto
next
  case (Suc j)
  have "strip_zeros (c * 10 ^ Suc j) (e - int (Suc j)) ideal = strip_zeros (c * 10 ^ j) (e - int j) ideal"
    using assms(2) by (subst strip_zeros.simps) (simp add: algebra_simps)
  with Suc show ?case by simp
qed

lemma dec_div_exact:
  assumes nz: "dcoeff a \<noteq> 0" "dcoeff b \<noteq> 0" and q: "dcoeff a * 10 ^ m = c * dcoeff b"
    and last: "m = 0 \<or> c mod 10 \<noteq> 0" and fits: "ndigits c \<le> prec ctx" and p: "0 < prec ctx"
  shows "dec_div ctx a b = dec_fix ctx (dsign a \<noteq> dsign b) c (dexp a - dexp b - int m) False"
proof -
  define shift where "shift = int (ndigits (dcoeff b)) - int (ndigits (dcoeff a)) + int (prec ctx) + 1"
  define n where "n = dcoeff a * 10 ^ nat shift"
  define d where "d = dcoeff b * 10 ^ nat (- shift)"
  have d: "0 < d" using nz by (simp add: d_def)
  have dig: "prec ctx < ndigits (n div d)"
    unfolding n_def d_def using nz by (intro quotient_digits) (simp_all add: shift_def)
  have m: "m \<le> nat shift"
  proof (rule ccontr)
    assume "\<not> m \<le> nat shift"
    then have "n \<le> dcoeff a * 10 ^ m" unfolding n_def by (intro mult_le_mono) simp_all
    also have "\<dots> \<le> c * d" using q by (simp add: d_def)
    finally have "n div d \<le> c" using d div_le_mono[of n "c * d" d] by simp
    then have "ndigits (n div d) \<le> prec ctx" using fits p by (auto simp: ndigits_le_iff)
    with dig show False by simp
  qed
  have sh: "0 \<le> shift"
  proof (rule ccontr)
    assume neg: "\<not> 0 \<le> shift"
    with m q have "dcoeff a = c * dcoeff b" by simp
    then have "n div d \<le> c" using neg d div_le_mono[of n "c * d" d] by (simp add: n_def d_def)
    then have "ndigits (n div d) \<le> prec ctx" using fits p by (auto simp: ndigits_le_iff)
    with dig show False by simp
  qed
  then have dd: "d = dcoeff b" by (simp add: d_def)
  have "n = dcoeff a * 10 ^ m * 10 ^ (nat shift - m)"
    using m by (simp add: n_def mult.assoc flip: power_add)
  then have nn: "n = c * 10 ^ (nat shift - m) * d" by (simp add: q dd mult.assoc mult.left_commute)
  have q0: "n mod d = 0" "n div d = c * 10 ^ (nat shift - m)" using nn d by simp_all
  have ex: "dexp a - dexp b - shift = (dexp a - dexp b - int m) - int (nat shift - m)"
    using m sh by simp
  have st: "strip_zeros (n div d) (dexp a - dexp b - shift) (dexp a - dexp b) = (c, dexp a - dexp b - int m)"
    unfolding q0 ex using last by (intro strip_zeros_power) auto
  have "dec_div ctx a b =
      (case strip_zeros (n div d) (dexp a - dexp b - shift) (dexp a - dexp b) of
         (q', e') \<Rightarrow> dec_fix ctx (dsign a \<noteq> dsign b) q' e' False)"
    unfolding dec_div_def Let_def shift_def[symmetric] n_def[symmetric] d_def[symmetric]
    using nz q0(1) by simp
  then show ?thesis by (simp only: st prod.case)
qed

definition dec_div_long :: "dctx \<Rightarrow> dec \<Rightarrow> dec \<Rightarrow> dec option" where
  "dec_div_long = dec_div"

lemmas dec_div_long_code [code] = dec_div_def[folded dec_div_long_def]

fun dec_div_try :: "dctx \<Rightarrow> dec \<Rightarrow> dec \<Rightarrow> nat \<Rightarrow> nat \<Rightarrow> dec option" where
  "dec_div_try ctx a b m 0 = dec_div_long ctx a b"
| "dec_div_try ctx a b m (Suc k) =
     (let n = dcoeff a * 10 ^ m; c = n div dcoeff b in
      if dcoeff a \<noteq> 0 \<and> dcoeff b \<noteq> 0 \<and> n = c * dcoeff b \<and> (m = 0 \<or> c mod 10 \<noteq> 0)
         \<and> 0 < prec ctx \<and> ndigits c \<le> prec ctx
      then dec_fix ctx (dsign a \<noteq> dsign b) c (dexp a - dexp b - int m) False
      else dec_div_try ctx a b (Suc m) k)"

lemma dec_div_try: "dec_div_try ctx a b m k = dec_div ctx a b"
proof (induction k arbitrary: m)
  case (Suc k)
  let ?c = "dcoeff a * 10 ^ m div dcoeff b"
  show ?case
    using Suc dec_div_exact[of a b m ?c ctx] unfolding dec_div_try.simps Let_def by auto
qed (simp add: dec_div_long_def)

lemma dec_div_code [code]: "dec_div ctx a b = dec_div_try ctx a b 0 16"
  by (simp add: dec_div_try)

end
