(* ===== verification/Solver_Properties.thy ===== *)
theory Solver_Properties
  imports Solver_Loop Decimal_Eval
begin

text \<open>
  The guarantees of \<open>solve\<close>, stated on its published result and on the exact model
  \<open>exact_residual\<close>, with a concrete forecast on which each of them applies.
\<close>

section \<open>Sample data\<close>

definition sample_forecast :: forecast where
  "sample_forecast = \<lparr>revenue_anchor = dec_of_int 100, growth = [dec_zero], margins = [Dec False 2 (- 1)],
     taxes = [Dec False 5 (- 1)], reinvestment = [dec_zero], wacc = Dec False 25 (- 2),
     risk_free = Dec False 1 (- 1), terminal_growth = dec_zero, terminal_margin = Dec False 2 (- 1),
     terminal_tax = Dec False 5 (- 1), terminal_roic = dec_one\<rparr>"

definition sample_spec :: "dec \<Rightarrow> nat \<Rightarrow> solve_spec" where
  "sample_spec tol evals = \<lparr>solve_variable = Revenue_cagr, lower = dec_zero, upper = dec_one,
     absolute_tolerance = tol, relative_tolerance = dec_zero, width_tolerance = dec_one,
     max_iterations = 1, max_subdivisions = 1, max_evaluations = evals, margin_weights = [],
     anchor_margin = None\<rparr>"

definition result_state :: "solve_result result \<Rightarrow> solve_state option" where
  "result_state m = (case m of Inl _ \<Rightarrow> None | Inr r \<Rightarrow> Some (sr_state r))"

lemma result_stateE:
  assumes "result_state m = Some st"
  obtains r where "m = Inr r" "sr_state r = st"
  using assms by (auto simp: result_state_def split: sum.splits)

definition wide_spec :: solve_spec where
  "wide_spec = sample_spec (dec_of_int 50) 10"

lemma wide_residual0:
  "residual sample_forecast wide_spec (dec_of_int 60) (Bounds dec_zero dec_one)
     = Some (Dual (Bounds (Dec True 28 0) (Dec False 28 0)) (Bounds (Dec False 40 0) (Dec False 40 0)))"
  by code_simp

lemma wide_residual1:
  "residual sample_forecast wide_spec (dec_of_int 60) (point dec_zero)
     = Some (Dual (Bounds (Dec True 20 0) (Dec True 20 0)) (Bounds (Dec False 40 0) (Dec False 40 0)))"
  by code_simp

lemma wide_residual2:
  "residual sample_forecast wide_spec (dec_of_int 60) (point dec_one)
     = Some (Dual (Bounds (Dec False 20 0) (Dec False 20 0)) (Bounds (Dec False 40 0) (Dec False 40 0)))"
  by code_simp

lemma wide_numbers:
  "tolerance wide_spec (dec_of_int 60) = Some (dec_of_int 50)"
  "accepts wide_spec (dec_of_int 50) (Bounds dec_zero dec_one) (Bounds (Dec True 28 0) (Dec False 28 0)) = Some True"
  "partition_cuts wide_spec = Some [dec_zero, dec_one]" "max_iterations wide_spec = 1" "max_evaluations wide_spec = 10"
  "max_subdivisions wide_spec = 1"
  "bsign (Bounds (Dec True 28 0) (Dec False 28 0)) = 0" "bsign (Bounds (Dec True 20 0) (Dec True 20 0)) = - 1"
  "bsign (Bounds (Dec False 20 0) (Dec False 20 0)) = 1" "bsign (Bounds (Dec False 40 0) (Dec False 40 0)) = 1"
  "solve_variable wide_spec = Revenue_cagr"
  "public (Bounds dec_zero dec_one) = Inr \<lparr>iv_lower = dec_zero, iv_upper = dec_one\<rparr>"
  "public (Bounds (Dec True 28 0) (Dec False 28 0)) = Inr \<lparr>iv_lower = Dec True 28 0, iv_upper = Dec False 28 0\<rparr>"
  "public (Bounds (Dec False 20 0) (Dec False 20 0)) = Inr \<lparr>iv_lower = Dec False 20 0, iv_upper = Dec False 20 0\<rparr>"
  "public (Bounds (Dec True 20 0) (Dec True 20 0)) = Inr \<lparr>iv_lower = Dec True 20 0, iv_upper = Dec True 20 0\<rparr>"
  "public (Bounds (Dec False 40 0) (Dec False 40 0)) = Inr \<lparr>iv_lower = Dec False 40 0, iv_upper = Dec False 40 0\<rparr>"
  by code_simp+

lemma sample_process:
  "process_region sample_forecast wide_spec (dec_of_int 60) (Bounds dec_zero dec_one) (initial_counts\<lparr>subdivisions := 0\<rparr>)
    = (Inr (Settled \<lparr>pr_domain = \<lparr>iv_lower = dec_zero, iv_upper = dec_one\<rparr>,
         pr_residual = \<lparr>iv_lower = Dec True 28 0, iv_upper = Dec False 28 0\<rparr>,
         pr_derivative = \<lparr>iv_lower = Dec False 40 0, iv_upper = Dec False 40 0\<rparr>,
         pr_disposition = Unique_root,
         pr_left_residual = Some \<lparr>iv_lower = Dec True 20 0, iv_upper = Dec True 20 0\<rparr>,
         pr_right_residual = Some \<lparr>iv_lower = Dec False 20 0, iv_upper = Dec False 20 0\<rparr>,
         pr_root = Some \<lparr>iv_lower = dec_zero, iv_upper = dec_one\<rparr>\<rparr>
        (Some (Bounds dec_zero dec_one, Bounds (Dec True 28 0) (Dec False 28 0)))),
      \<lparr>evaluations = 4, iterations = 1, subdivisions = 0\<rparr>)"
  by (simp add: process_region_def process_bracket_def act_bind_def at_bounds_def value_at_def refine_def
     act_numeric_def act_return_def act_result_def count_iteration_def settle_def region_record_def initial_counts_def wide_numbers wide_residual0 wide_residual1 wide_residual2)

lemma sample_solved:
  "\<exists>r. solve sample_forecast wide_spec (Finite (dec_of_int 60)) = Inr r \<and> sr_state r = Converged \<and> sr_representative r = Some (Dec False 5 (- 1))"
proof -
  have "forecast_domains sample_forecast" "spec_domain wide_spec" "midpoint dec_zero dec_one = Some (Dec False 5 (- 1))"
     "dec_le dec_zero (Dec False 5 (- 1))" "dec_le (Dec False 5 (- 1)) dec_one"
    by code_simp+
  note this [simp] 
  have "run_loop sample_forecast wide_spec (dec_of_int 60) = Some (loop_step sample_forecast wide_spec (dec_of_int 60) (loop_start wide_spec))"
   by (simp add: run_loop_def while_option_unfold loop_running_def loop_start_def wide_numbers pieces_def loop_step_def sample_process)
  then show ?thesis
   by (simp add: solve_def run_solver_def loop_start_def wide_numbers pieces_def loop_step_def sample_process
    solve_summary_def final_state_def final_reasons_def remaining_regions_def scalar_requires_certificate_def guard_value_def)
qed

lemma sample_converged:
  "result_state (solve sample_forecast wide_spec (Finite (dec_of_int 60))) = Some Converged"
  using sample_solved by (auto simp: result_state_def)

lemma sample_excluded:
  "result_state (solve sample_forecast (sample_spec dec_one 10) (Finite (dec_of_int 100))) = Some No_solution_in_domain"
  by code_simp

lemma sample_exhausted:
  "result_state (solve sample_forecast (sample_spec dec_one 2) (Finite (dec_of_int 60))) = Some Inconclusive"
  by code_simp

section \<open>Shared facts\<close>

lemma iv_of_simps [simp]: "iv_lower (iv_of b) = lo b" "iv_upper (iv_of b) = hi b"
  by (simp_all add: iv_of_def)

lemma residual_storable:
  assumes "residual f spec t b = Some d"
  shows "storable ctx_floor (lo (dvalue d)) \<and> storable ctx_ceiling (hi (dvalue d))"
  using assms
  by (auto simp: residual_def dual_sub_def bounds_sub_def bounds_add_def bind_eq_Some_conv Let_def CONTEXT_def
      intro!: dec_add_storable)

lemma storable_abs:
  assumes "storable (CONTEXT\<lparr>rounding_mode := m\<rparr>) d" "dec_abs CONTEXT d = Some r"
  shows "dval r = (\<bar>dval d\<bar> :: real)"
  using assms by (intro dec_abs_storable[of CONTEXT]) (simp_all add: storable_def)

lemma accepted_tolerance:
  assumes "accepted f spec t b r" "x \<in> region b"
  shows "\<exists>tol w. tolerance spec t = Some tol \<and> \<bar>exact_residual f spec t x\<bar> \<le> dval tol
    \<and> dec_sub CONTEXT (hi b) (lo b) = Some w \<and> dec_le w (width_tolerance spec)"
proof -
  obtain d tol where d: "residual f spec t b = Some d" "r = dvalue d" and tol: "tolerance spec t = Some tol"
    and acc: "accepts spec tol b r = Some True" using assms(1) by (auto simp: accepted_def)
  obtain w l h where w: "dec_sub CONTEXT (hi b) (lo b) = Some w" "dec_le w (width_tolerance spec)"
    and lh: "dec_abs CONTEXT (lo r) = Some l" "dec_abs CONTEXT (hi r) = Some h" "dec_le (dec_max l h) tol"
    using acc by (auto simp: accepts_def bind_eq_Some_conv split: if_splits)
  have "in_bounds (exact_residual f spec t x) r"
    using encloses_value[OF res.encloses_at[OF d(1)] assms(2)] d(2) by simp
  moreover have "\<bar>dval (lo r)\<bar> \<le> (dval tol :: real)" "\<bar>dval (hi r)\<bar> \<le> (dval tol :: real)"
    using residual_storable[OF d(1)] lh storable_abs[of ROUND_FLOOR "lo r" l] storable_abs[of ROUND_CEILING "hi r" h] d(2)
    by (auto simp: dec_le_iff[where 'a=real] dval_dec_max)
  ultimately show ?thesis using tol w by (auto simp: in_bounds_def)
qed

section \<open>Guarantees\<close>

lemma converged_facts:
  assumes "solve f spec (Finite t) = Inr r" "sr_state r = Converged"
  shows "\<exists>iv tol w. sr_interval r = Some iv
    \<and> (\<exists>x\<in>iv_region iv. exact_residual f spec t x = 0)
    \<and> tolerance spec t = Some tol \<and> (\<forall>x\<in>iv_region iv. \<bar>exact_residual f spec t x\<bar> \<le> dval tol)
    \<and> dec_sub CONTEXT (iv_upper iv) (iv_lower iv) = Some w \<and> dec_le w (width_tolerance spec)
    \<and> (\<forall>x\<in>domain_of spec. \<forall>y\<in>domain_of spec.
         exact_residual f spec t x = 0 \<longrightarrow> exact_residual f spec t y = 0 \<longrightarrow> x = y)
    \<and> (iv_region iv \<subseteq> domain_of spec \<longrightarrow>
         (\<exists>x\<in>iv_region iv. \<forall>y\<in>domain_of spec. exact_residual f spec t y = 0 \<longleftrightarrow> y = x))"
proof -
  obtain s where s: "spec_domain spec" "run_loop f spec t = Some s" "solve_summary s = Inr r"
    using solve_InrE[OF assms(1)] by blast
  note pub = solve_summary_Inr[OF s(3)]
  have conv: "final_state s = Converged" using assms(2) pub(1) by simp
  let ?b = "hd (roots s)"
  have acc: "accepted f spec t ?b (hd (residuals s))" "dec_le (lo ?b) (hi ?b)"
    using converged_root[OF s(2,1) conv] by blast+
  obtain x where x: "x \<in> region ?b" "exact_residual f spec t x = 0" using accepted_root[OF acc] by blast
  obtain tol w where tol: "tolerance spec t = Some tol" "dec_sub CONTEXT (hi ?b) (lo ?b) = Some w"
    "dec_le w (width_tolerance spec)" using accepted_tolerance[OF acc(1) x(1)] by blast
  have all: "\<bar>exact_residual f spec t y\<bar> \<le> dval tol" if "y \<in> region ?b" for y
    using accepted_tolerance[OF acc(1) that] tol(1) by auto
  note one = converged_at_most_one[OF s(2,1) conv]
  have inside: "\<exists>x\<in>region ?b. \<forall>y\<in>domain_of spec. exact_residual f spec t y = 0 \<longleftrightarrow> y = x"
    if "region ?b \<subseteq> domain_of spec"
  proof (intro bexI[OF _ x(1)] ballI iffI)
    fix y assume "y \<in> domain_of spec" "exact_residual f spec t y = 0"
    then show "y = x" using one that x by blast
  qed (simp add: x(2))
  have "sr_interval r = Some (iv_of ?b)" using pub(8) conv by simp
  then show ?thesis
    using x tol all one inside by (intro exI[of _ "iv_of ?b"] exI[of _ tol] exI[of _ w]) (simp, blast)
qed

text \<open>C1: a converged solve is right: the published interval holds a root of the exact discounted
cash flow equation, the representative lies in the interval, the exact residual stays within the
requested tolerance on all of it, its width passes the width test, and the searched domain has at
most one root; when the interval lies in the domain, that one root is in the interval.\<close>

theorem solve_converged_sound:
  assumes "solve f spec (Finite t) = Inr r" "sr_state r = Converged"
  shows "\<exists>iv tol w. sr_interval r = Some iv
    \<and> (\<exists>x\<in>iv_region iv. exact_residual f spec t x = 0)
    \<and> tolerance spec t = Some tol \<and> (\<forall>x\<in>iv_region iv. \<bar>exact_residual f spec t x\<bar> \<le> dval tol)
    \<and> dec_sub CONTEXT (iv_upper iv) (iv_lower iv) = Some w \<and> dec_le w (width_tolerance spec)
    \<and> (\<forall>x\<in>domain_of spec. \<forall>y\<in>domain_of spec.
         exact_residual f spec t x = 0 \<longrightarrow> exact_residual f spec t y = 0 \<longrightarrow> x = y)
    \<and> (iv_region iv \<subseteq> domain_of spec \<longrightarrow>
         (\<exists>x\<in>iv_region iv. \<forall>y\<in>domain_of spec. exact_residual f spec t y = 0 \<longleftrightarrow> y = x))"
  using assms by (rule converged_facts)

theorem solve_converged_sound_witness:
  "\<exists>r iv. solve sample_forecast wide_spec (Finite (dec_of_int 60)) = Inr r \<and> sr_interval r = Some iv
     \<and> (\<exists>x\<in>iv_region iv. exact_residual sample_forecast wide_spec (dec_of_int 60) x = 0)"
proof -
  obtain r where r: "solve sample_forecast wide_spec (Finite (dec_of_int 60)) = Inr r" "sr_state r = Converged"
    using sample_converged by (rule result_stateE)
  from solve_converged_sound[OF r] r(1) show ?thesis by blast
qed

text \<open>C2: when the solver reports that the domain has no solution, the exact equation has no root there.\<close>

theorem solve_no_solution_sound:
  assumes "solve f spec (Finite t) = Inr r" "sr_state r = No_solution_in_domain" "x \<in> domain_of spec"
  shows "exact_residual f spec t x \<noteq> 0"
proof
  assume x: "exact_residual f spec t x = 0"
  obtain s where s: "spec_domain spec" "run_loop f spec t = Some s" "solve_summary s = Inr r"
    using solve_InrE[OF assms(1)] by blast
  have fin: "final_reasons s = []" "roots s = []"
    using assms(2) solve_summary_Inr(1)[OF s(3)] by (auto simp: final_state_def split: if_splits)
  have inv: "loop_inv f spec t s" using run_loop_inv[OF s(2) spec_domain_order[OF s(1)]] by simp
  have "uniques s = []" using uniques_roots_length[OF inv] fin(2) by simp
  then show False using certified_roots[OF s(2,1) fin(1) assms(3) x] by simp
qed

theorem solve_no_solution_sound_witness:
  "exact_residual sample_forecast (sample_spec dec_one 10) (dec_of_int 100) 1 \<noteq> 0"
proof -
  obtain r where r: "solve sample_forecast (sample_spec dec_one 10) (Finite (dec_of_int 100)) = Inr r"
      "sr_state r = No_solution_in_domain"
    using sample_excluded by (rule result_stateE)
  have "1 \<in> domain_of (sample_spec dec_one 10)" by (simp add: domain_of_def sample_spec_def)
  from solve_no_solution_sound[OF r this] show ?thesis .
qed

text \<open>C3: no part of the domain is dropped, whatever the outcome: every point of the domain lies in a
retained proof region or in a reported unresolved domain, every proof region marked excluded has no
root, every one marked as holding a unique root has exactly one, and hence every root of the domain
lies in a unique-root region or in a reported unresolved domain.\<close>

theorem solve_cover:
  assumes "solve f spec (Finite t) = Inr r"
  shows "list_all (region_right f spec t) (sr_proof r)
    \<and> domain_of spec \<subseteq> \<Union> (iv_region ` set (sr_unresolved_domains r)) \<union> \<Union> ((\<lambda>p. iv_region (pr_domain p)) ` set (sr_proof r))
    \<and> (\<forall>x\<in>domain_of spec. exact_residual f spec t x = 0 \<longrightarrow>
         (\<exists>i\<in>set (sr_unresolved_domains r). x \<in> iv_region i)
         \<or> (\<exists>p\<in>set (sr_proof r). pr_disposition p = Unique_root \<and> x \<in> iv_region (pr_domain p)))"
proof -
  obtain s where s: "spec_domain spec" "run_loop f spec t = Some s" "solve_summary s = Inr r"
    using solve_InrE[OF assms(1)] by blast
  note pub = solve_summary_Inr[OF s(3)]
  have inv: "loop_inv f spec t s" using run_loop_inv[OF s(2) spec_domain_order[OF s(1)]] by simp
  have rem: "\<Union> (region ` set (pending s)) \<union> \<Union> (region ` set_option (current s)) \<subseteq> \<Union> (iv_region ` set (sr_unresolved_domains r))"
    unfolding pub(4) by (auto simp: remaining_regions_def split: option.splits)
  have cover: "domain_of spec \<subseteq> \<Union> (iv_region ` set (sr_unresolved_domains r)) \<union> \<Union> ((\<lambda>p. iv_region (pr_domain p)) ` set (sr_proof r))"
    using inv rem unfolding loop_inv_def covered_def domain_of_def pub(2) by blast
  have root: "(\<exists>i\<in>set (sr_unresolved_domains r). x \<in> iv_region i)
         \<or> (\<exists>p\<in>set (sr_proof r). pr_disposition p = Unique_root \<and> x \<in> iv_region (pr_domain p))"
    if "x \<in> domain_of spec" "exact_residual f spec t x = 0" for x
    using run_loop_roots[OF s(2,1) that] unfolding pub(2,4) by (auto simp: uniques_def bex_Un)
  show ?thesis using inv cover root by (auto simp: loop_inv_def pub(2))
qed

theorem solve_cover_witness:
  "\<exists>r. solve sample_forecast (sample_spec dec_one 2) (Finite (dec_of_int 60)) = Inr r \<and> sr_state r = Inconclusive
     \<and> domain_of (sample_spec dec_one 2) \<subseteq> \<Union> (iv_region ` set (sr_unresolved_domains r)) \<union> \<Union> ((\<lambda>p. iv_region (pr_domain p)) ` set (sr_proof r))"
proof -
  obtain r where r: "solve sample_forecast (sample_spec dec_one 2) (Finite (dec_of_int 60)) = Inr r" "sr_state r = Inconclusive"
    using sample_exhausted by (rule result_stateE)
  from solve_cover[OF r(1)] r show ?thesis by blast
qed

text \<open>C4: the search always ends: for every forecast, specification and target the loop over pending
regions stops in a state where it was exhausted or raised, with the evaluation and subdivision
budgets respected.\<close>

theorem solver_terminates_within_budget:
  "\<exists>s. run_loop f spec target = Some s \<and> \<not> loop_running s
     \<and> evaluations (counts s) \<le> max_evaluations spec \<and> subdivisions (counts s) \<le> max_subdivisions spec"
  using run_loop_total[of f spec target] run_loop_stops run_loop_budget[unfolded within_budget_def] by blast

section \<open>Refinement\<close>

text \<open>
  C40.  The interval evaluator refines the exact model.  Wherever the residual of the discounted cash flow
  equation is computed on a domain, its value part contains the exact real residual at every point of the
  domain, and its derivative part contains the slope of the exact residual between any two points of it,
  although every operation is rounded.
\<close>

theorem residual_refines_exact:
  assumes "residual f spec target b = Some d" "dval (lo b) \<le> x" "x < y" "y \<le> dval (hi b)"
  shows "dval (lo (dvalue d)) \<le> exact_residual f spec target x \<and> exact_residual f spec target x \<le> dval (hi (dvalue d))
    \<and> dval (lo (derivative d)) * (y - x) \<le> exact_residual f spec target y - exact_residual f spec target x
    \<and> exact_residual f spec target y - exact_residual f spec target x \<le> dval (hi (derivative d)) * (y - x)"
proof -
  have "x \<in> region b" "y \<in> region b" using assms by (auto simp: region_def in_bounds_def)
  with residual_encloses[OF assms(1)] assms(3)
  have "in_bounds (exact_residual f spec target x) (dvalue d)"
    "in_bounds ((exact_residual f spec target y - exact_residual f spec target x) / (y - x)) (derivative d)"
    by (auto simp: encloses_def)
  then show ?thesis using assms(3) by (simp add: in_bounds_def field_simps)
qed

theorem residual_refines_exact_witness:
  "exact_residual sample_forecast wide_spec (dec_of_int 60) (1 / 2) \<le> 28
   \<and> exact_residual sample_forecast wide_spec (dec_of_int 60) 1 - exact_residual sample_forecast wide_spec (dec_of_int 60) (1 / 2) = 20"
  using residual_refines_exact[OF wide_residual0, of "1 / 2" 1] by (simp add: dval_Dec)

section \<open>An edge of the arithmetic\<close>

text \<open>
  Behaviour at the edge of the arithmetic that the solver's comments do not foresee.

  The midpoint of a bracket is computed with eighty digits.  For two neighbouring bounds just below a power
  of ten the sum needs one digit more, so the rounded midpoint lies above both of them: it is neither end,
  the test for a collapsed bracket does not see it, and the bracket that replaces this one is not ordered.
\<close>

abbreviation near_one :: "nat \<Rightarrow> dec" where
  "near_one k \<equiv> Dec False (10 ^ 80 - k) (- 80)"

lemma ndigits_eqI: "10 ^ k \<le> n \<Longrightarrow> n < 10 ^ Suc k \<Longrightarrow> 0 < k \<Longrightarrow> ndigits n = Suc k"
  using less_ndigits_iff[of k n] ndigits_le_iff[of "Suc k" n] by simp

lemma near_one_sum: "dec_add CONTEXT (near_one 3) (near_one 2) = Some (Dec False (2 * 10 ^ 79) (- 79))"
proof -
  have digits: "ndigits (2 * 10 ^ 80 - 5) = Suc 80" by (rule ndigits_eqI) simp_all
  have carried: "ndigits (2 * 10 ^ 79) = Suc 79" by (rule ndigits_eqI) simp_all
  have half: "rounded_coeff CONTEXT False (2 * 10 ^ 80 - 5) (10 ^ nat 1) False = 2 * 10 ^ 79"
    by (simp add: rounded_coeff_def round_up_def CONTEXT_def)
  have limits: "prec CONTEXT = 80" "Emin CONTEXT = - 9999" "Emax CONTEXT = 9999" "\<not> trap_inexact CONTEXT"
    "\<not> trap_subnormal CONTEXT" "\<not> trap_underflow CONTEXT"
    by (simp_all add: CONTEXT_def)
  have round: "dec_fix CONTEXT False c (- 80) False = Some (Dec False d (- 79))"
    if "ndigits c = 81" "rounded_coeff CONTEXT False c (10 ^ nat 1) False = d" "ndigits d = 80" "c \<noteq> 0" for c d
    using that by (simp add: dec_fix_def Let_def limits)
  have "dec_add CONTEXT (near_one 3) (near_one 2) = dec_fix CONTEXT False (2 * 10 ^ 80 - 5) (- 80) False"
    by (simp add: dec_add_def aligned_def dint_def)
  also have "\<dots> = Some (Dec False (2 * 10 ^ 79) (- 79))"
    using digits carried half by (intro round) simp_all
  finally show ?thesis .
qed

lemma near_one_midpoint: "midpoint (near_one 3) (near_one 2) = Some (Dec False (10 ^ 79) (- 79))"
proof -
  have "ndigits (10 ^ 79) = Suc 79" by (rule ndigits_eqI) simp_all
  then have "dec_div CONTEXT (Dec False (2 * 10 ^ 79) (- 79)) (dec_of_int 2) = Some (Dec False (10 ^ 79) (- 79))"
    using dec_div_exact[of "Dec False (2 * 10 ^ 79) (- 79)" "dec_of_int 2" 0 "10 ^ 79" CONTEXT]
    by (simp add: dec_of_int_def CONTEXT_def dec_fix_def Let_def)
  then show ?thesis by (simp only: midpoint_def near_one_sum Option.bind.bind_lunit)
qed

lemma midpoint_leaves_bracket:
  "case midpoint (near_one 3) (near_one 2) of
     None \<Rightarrow> False
   | Some m \<Rightarrow> dec_lt (near_one 2) m \<and> \<not> same_as_end m (Bounds (near_one 3) (near_one 2))
       \<and> public (Bounds m (near_one 2)) = Inl ValueError"
  unfolding near_one_midpoint
  by (simp add: dec_lt_def dec_le_def dec_eq_def aligned_def dint_def same_as_end_def public_def mk_interval_def
      guard_value_def)

end
