(* ===== verification/Dates.thy ===== *)
theory Dates
  imports Prelude
begin

text \<open>
  Python's \<open>date\<close> and aware \<open>datetime\<close>, as far as the analysis code uses them.  A date is
  its year, month and day; \<open>toordinal\<close> is the proleptic Gregorian ordinal.  An instant is the
  number of microseconds since the day of ordinal zero in UTC, with the offset of its zone; a naive
  datetime has no offset.  The order of valid dates is the order of their ordinals.
\<close>

datatype date = Date (yr: nat) (mo: nat) (dy: nat)

instantiation date :: linorder
begin

definition less_eq_date :: "date \<Rightarrow> date \<Rightarrow> bool" where
  "less_eq_date a b = (yr a < yr b \<or> yr a = yr b \<and> (mo a < mo b \<or> mo a = mo b \<and> dy a \<le> dy b))"

definition less_date :: "date \<Rightarrow> date \<Rightarrow> bool" where
  "less_date a b = (yr a < yr b \<or> yr a = yr b \<and> (mo a < mo b \<or> mo a = mo b \<and> dy a < dy b))"

instance
  by standard (auto simp: less_eq_date_def less_date_def date.expand)

end

definition is_leap :: "nat \<Rightarrow> bool" where
  "is_leap y = (y mod 4 = 0 \<and> (y mod 100 \<noteq> 0 \<or> y mod 400 = 0))"

text \<open>\<open>calendar.monthrange(y, m)[1]\<close>.\<close>

definition days_in_month :: "nat \<Rightarrow> nat \<Rightarrow> nat" where
  "days_in_month y m =
     (if m = 2 then (if is_leap y then 29 else 28) else if m \<in> {4, 6, 9, 11} then 30 else 31)"

definition days_before_month :: "nat \<Rightarrow> nat \<Rightarrow> nat" where
  "days_before_month y m = (\<Sum>k\<leftarrow>[1..<m]. days_in_month y k)"

definition days_before_year :: "nat \<Rightarrow> nat" where
  "days_before_year y = (let n = y - 1 in n * 365 + n div 4 - n div 100 + n div 400)"

definition toordinal :: "date \<Rightarrow> nat" where
  "toordinal d = days_before_year (yr d) + days_before_month (yr d) (mo d) + dy d"

definition valid_date :: "date \<Rightarrow> bool" where
  "valid_date d =
     (1 \<le> yr d \<and> yr d \<le> 9999 \<and> 1 \<le> mo d \<and> mo d \<le> 12 \<and> 1 \<le> dy d \<and> dy d \<le> days_in_month (yr d) (mo d))"

abbreviation date_min :: date where "date_min \<equiv> Date 1 1 1"
abbreviation date_max :: date where "date_max \<equiv> Date 9999 12 31"

definition month_end :: "date \<Rightarrow> bool" where
  "month_end d = (dy d = days_in_month (yr d) (mo d))"

text \<open>\<open>d + timedelta(days=1)\<close> and \<open>d - timedelta(days=1)\<close>.\<close>

definition next_day :: "date \<Rightarrow> date" where
  "next_day d =
     (if \<not> month_end d then Date (yr d) (mo d) (dy d + 1)
      else if mo d = 12 then Date (yr d + 1) 1 1
      else Date (yr d) (mo d + 1) 1)"

definition prev_day :: "date \<Rightarrow> date" where
  "prev_day d =
     (if dy d \<noteq> 1 then Date (yr d) (mo d) (dy d - 1)
      else if mo d = 1 then Date (yr d - 1) 12 31
      else Date (yr d) (mo d - 1) (days_in_month (yr d) (mo d - 1)))"

text \<open>\<open>(b - a).days\<close>.\<close>

definition day_difference :: "date \<Rightarrow> date \<Rightarrow> int" where
  "day_difference a b = int (toordinal b) - int (toordinal a)"

text \<open>The number of months from the month of \<open>a\<close> to the month of \<open>b\<close>, both included.\<close>

definition months_between :: "date \<Rightarrow> date \<Rightarrow> int" where
  "months_between a b = (int (yr b) - int (yr a)) * 12 + int (mo b) - int (mo a) + 1"

datatype datetime = Datetime (instant: int) (utc_offset: "int option")

definition aware :: "datetime \<Rightarrow> bool" where
  "aware t = (utc_offset t \<noteq> None)"

definition micros_per_day :: int where
  "micros_per_day = 86400000000"

text \<open>The ordinals of \<open>t.astimezone(UTC).date()\<close> and of \<open>t.date()\<close>.\<close>

definition utc_day :: "datetime \<Rightarrow> int" where
  "utc_day t = instant t div micros_per_day"

definition local_day :: "datetime \<Rightarrow> int" where
  "local_day t = (instant t + (case utc_offset t of None \<Rightarrow> 0 | Some z \<Rightarrow> z)) div micros_per_day"

section \<open>Ordinals\<close>

lemma leap_counts:
  fixes n :: nat
  shows "n div 100 \<le> n div 4" and "n mod 100 = 0 \<Longrightarrow> n mod 4 = 0" and "n mod 400 = 0 \<Longrightarrow> n mod 100 = 0"
proof -
  show "n div 100 \<le> n div 4" by (rule div_le_mono2) simp_all
  have "(4::nat) dvd 100" "(100::nat) dvd 400" by simp_all
  then show "n mod 100 = 0 \<Longrightarrow> n mod 4 = 0" "n mod 400 = 0 \<Longrightarrow> n mod 100 = 0"
    unfolding mod_eq_0_iff_dvd by (metis dvd_trans)+
qed

lemma leap_step:
  fixes n a b c :: nat
  assumes "b \<le> a" "q \<longrightarrow> p" "r \<longrightarrow> q"
  shows "Suc n * 365 + (if p then Suc a else a) - (if q then Suc b else b) + (if r then Suc c else c)
    = n * 365 + a - b + c + (if p \<and> (\<not> q \<or> r) then 366 else 365)"
  using assms by (cases p; cases q; cases r) simp_all

lemma days_before_year_Suc:
  assumes "1 \<le> y"
  shows "days_before_year (y + 1) = days_before_year y + (if is_leap y then 366 else 365)"
proof -
  obtain n where y: "y = Suc n" using assms by (cases y) auto
  have "days_before_year (y + 1) = Suc n * 365 + Suc n div 4 - Suc n div 100 + Suc n div 400"
    by (simp add: days_before_year_def y)
  also have "\<dots> = Suc n * 365 + (if Suc n mod 4 = 0 then Suc (n div 4) else n div 4)
      - (if Suc n mod 100 = 0 then Suc (n div 100) else n div 100)
      + (if Suc n mod 400 = 0 then Suc (n div 400) else n div 400)"
    by (simp only: div_Suc)
  also have "\<dots> = n * 365 + n div 4 - n div 100 + n div 400
      + (if Suc n mod 4 = 0 \<and> (\<not> Suc n mod 100 = 0 \<or> Suc n mod 400 = 0) then 366 else 365)"
    by (intro leap_step leap_counts(1) impI) (erule leap_counts)+
  finally show ?thesis by (simp only: days_before_year_def is_leap_def y Let_def diff_Suc_1)
qed

lemma days_before_year_mono: "1 \<le> y \<Longrightarrow> y < z \<Longrightarrow> days_before_year (y + 1) \<le> days_before_year z"
proof (induction z)
  case (Suc z)
  then show ?case using days_before_year_Suc[of z] by (cases "y = z") auto
qed simp

lemma days_before_month_Suc: "1 \<le> m \<Longrightarrow> days_before_month y (m + 1) = days_before_month y m + days_in_month y m"
  by (simp add: days_before_month_def)

lemma days_before_month_mono: "1 \<le> m \<Longrightarrow> m < k \<Longrightarrow> days_before_month y (m + 1) \<le> days_before_month y k"
proof (induction k)
  case (Suc k)
  then show ?case using days_before_month_Suc[of k y] by (cases "m = k") auto
qed simp

lemma days_in_year: "days_before_month y 13 = (if is_leap y then 366 else 365)"
  by (simp add: days_before_month_def days_in_month_def upt_rec)

lemma day_of_year_le:
  assumes "valid_date d"
  shows "days_before_month (yr d) (mo d) + dy d \<le> days_before_month (yr d) (mo d + 1)"
    and "days_before_month (yr d) (mo d) + dy d \<le> (if is_leap (yr d) then 366 else 365)"
proof -
  show 1: "days_before_month (yr d) (mo d) + dy d \<le> days_before_month (yr d) (mo d + 1)"
    using assms days_before_month_Suc by (simp add: valid_date_def)
  have "days_before_month (yr d) (mo d + 1) \<le> days_before_month (yr d) 13"
    using days_before_month_mono[of "mo d" 13] assms by (simp add: valid_date_def)
  with 1 show "days_before_month (yr d) (mo d) + dy d \<le> (if is_leap (yr d) then 366 else 365)"
    by (simp add: days_in_year)
qed

lemma toordinal_strict_mono:
  assumes "valid_date a" "valid_date b" "a < b"
  shows "toordinal a < toordinal b"
proof -
  have v: "1 \<le> yr a" "1 \<le> mo a" "1 \<le> dy b" using assms by (auto simp: valid_date_def)
  consider (year) "yr a < yr b" | (month) "yr a = yr b" "mo a < mo b" | (day) "yr a = yr b" "mo a = mo b" "dy a < dy b"
    using assms(3) by (auto simp: less_date_def)
  then show ?thesis
  proof cases
    case year
    then have "days_before_year (yr a) + (if is_leap (yr a) then 366 else 365) \<le> days_before_year (yr b)"
      using days_before_year_mono[OF v(1) year] days_before_year_Suc[OF v(1)] by simp
    with day_of_year_le(2)[OF assms(1)] v(3) show ?thesis by (simp add: toordinal_def split: if_splits)
  next
    case month
    with day_of_year_le(1)[OF assms(1)] days_before_month_mono[OF v(2) month(2), of "yr a"] v(3)
    show ?thesis by (simp add: toordinal_def)
  qed (simp add: toordinal_def)
qed

lemma toordinal_less_iff:
  "valid_date a \<Longrightarrow> valid_date b \<Longrightarrow> toordinal a < toordinal b \<longleftrightarrow> a < b"
  using toordinal_strict_mono[of a b] toordinal_strict_mono[of b a] by (cases a b rule: linorder_cases) auto

lemma toordinal_inj: "valid_date a \<Longrightarrow> valid_date b \<Longrightarrow> toordinal a = toordinal b \<longleftrightarrow> a = b"
  using toordinal_strict_mono[of a b] toordinal_strict_mono[of b a] by (cases a b rule: linorder_cases) auto

lemma days_in_month_pos: "1 \<le> days_in_month y m"
  by (simp add: days_in_month_def)

lemma days_in_December: "days_in_month y 12 = 31"
  by (simp add: days_in_month_def)

lemma valid_next_day: "valid_date d \<Longrightarrow> d \<noteq> date_max \<Longrightarrow> valid_date (next_day d)"
  by (cases d) (auto simp: valid_date_def next_day_def month_end_def days_in_December
      intro: days_in_month_pos[simplified])

lemma toordinal_next_day:
  assumes "valid_date d"
  shows "toordinal (next_day d) = toordinal d + 1"
proof -
  have y: "days_before_year (yr d + 1) = days_before_year (yr d) + days_before_month (yr d) 13"
    using assms days_before_year_Suc by (simp add: days_in_year valid_date_def)
  have m1: "days_before_month y 1 = 0" for y by (simp add: days_before_month_def)
  have m: "days_before_month (yr d) (Suc (mo d)) = days_before_month (yr d) (mo d) + days_in_month (yr d) (mo d)"
    using assms days_before_month_Suc[of "mo d" "yr d"] by (simp add: valid_date_def)
  show ?thesis
  proof (cases "month_end d \<and> mo d = 12")
    case True
    with y m m1 show ?thesis by (simp add: next_day_def toordinal_def month_end_def)
  next
    case False
    with m show ?thesis by (auto simp: next_day_def toordinal_def month_end_def)
  qed
qed

text \<open>Contiguity by ordinals is the next calendar day.\<close>

lemma toordinal_Suc_iff:
  assumes "valid_date a" "valid_date b" "a \<noteq> date_max"
  shows "toordinal a + 1 = toordinal b \<longleftrightarrow> b = next_day a"
  using toordinal_next_day[OF assms(1)] toordinal_inj[OF valid_next_day[OF assms(1,3)] assms(2)] by auto

lemma valid_le_date_max: "valid_date d \<Longrightarrow> d \<le> date_max"
  by (auto simp: valid_date_def less_eq_date_def days_in_month_def split: if_splits)

end
