(* ===== verification/Evidence.thy ===== *)
theory Evidence
  imports Dates Decimals
begin

text \<open>
  The evidence that the analysis core receives: the concept vocabulary of \<open>schema/concepts.py\<close>, the
  period, unit and scope of \<open>ingest/financial_types.py\<close>, and the query, fact and selection of
  \<open>schema/pit.py\<close>.  Identifiers are natural numbers (a UUID is a 128-bit number whose text order is
  its numeric order).  What the code asks of \<open>json\<close>, \<open>hashlib\<close>, \<open>urllib\<close> and
  \<open>uuid\<close> is a record of functions that every operation takes as an argument, so each theorem holds
  for whatever these functions return.
\<close>

section \<open>Concepts\<close>

datatype (plugins del: quickcheck_random quickcheck_exhaustive quickcheck_bounded_forall quickcheck_full_exhaustive quickcheck_narrowing) concept =
  REVENUE
| COST_OF_REVENUE
| GROSS_PROFIT
| RESEARCH_AND_DEVELOPMENT_EXPENSE
| SELLING_GENERAL_AND_ADMINISTRATIVE_EXPENSE
| OPERATING_EXPENSES
| OPERATING_INCOME
| INTEREST_EXPENSE
| PRETAX_INCOME
| INCOME_TAX_EXPENSE
| NET_INCOME_PARENT
| NET_INCOME_CONSOLIDATED
| EPS_BASIC
| EPS_DILUTED
| WEIGHTED_AVERAGE_SHARES_BASIC
| WEIGHTED_AVERAGE_SHARES_DILUTED
| COMMON_SHARES_OUTSTANDING
| CASH_AND_CASH_EQUIVALENTS
| SHORT_TERM_INVESTMENTS
| ACCOUNTS_RECEIVABLE_NET
| INVENTORY_NET
| CURRENT_ASSETS
| PROPERTY_PLANT_EQUIPMENT_NET
| GOODWILL
| INTANGIBLE_ASSETS_NET_EXCLUDING_GOODWILL
| TOTAL_ASSETS
| ACCOUNTS_PAYABLE_CURRENT
| CURRENT_DEBT
| LONG_TERM_DEBT_NONCURRENT
| CURRENT_LIABILITIES
| TOTAL_LIABILITIES
| EQUITY_PARENT
| EQUITY_INCLUDING_NONCONTROLLING_INTERESTS
| NONCONTROLLING_INTERESTS
| CASH_FROM_OPERATING_ACTIVITIES
| CAPITAL_EXPENDITURES_PPE
| DEPRECIATION_AND_AMORTIZATION
| SHARE_BASED_COMPENSATION
| DIVIDENDS_PAID
| SHARE_REPURCHASES

fun concept_value :: "concept \<Rightarrow> string" where
  "concept_value REVENUE = ''revenue''"
| "concept_value COST_OF_REVENUE = ''cost_of_revenue''"
| "concept_value GROSS_PROFIT = ''gross_profit''"
| "concept_value RESEARCH_AND_DEVELOPMENT_EXPENSE = ''research_and_development_expense''"
| "concept_value SELLING_GENERAL_AND_ADMINISTRATIVE_EXPENSE = ''selling_general_and_administrative_expense''"
| "concept_value OPERATING_EXPENSES = ''operating_expenses''"
| "concept_value OPERATING_INCOME = ''operating_income''"
| "concept_value INTEREST_EXPENSE = ''interest_expense''"
| "concept_value PRETAX_INCOME = ''pretax_income''"
| "concept_value INCOME_TAX_EXPENSE = ''income_tax_expense''"
| "concept_value NET_INCOME_PARENT = ''net_income_parent''"
| "concept_value NET_INCOME_CONSOLIDATED = ''net_income_consolidated''"
| "concept_value EPS_BASIC = ''eps_basic''"
| "concept_value EPS_DILUTED = ''eps_diluted''"
| "concept_value WEIGHTED_AVERAGE_SHARES_BASIC = ''weighted_average_shares_basic''"
| "concept_value WEIGHTED_AVERAGE_SHARES_DILUTED = ''weighted_average_shares_diluted''"
| "concept_value COMMON_SHARES_OUTSTANDING = ''common_shares_outstanding''"
| "concept_value CASH_AND_CASH_EQUIVALENTS = ''cash_and_cash_equivalents''"
| "concept_value SHORT_TERM_INVESTMENTS = ''short_term_investments''"
| "concept_value ACCOUNTS_RECEIVABLE_NET = ''accounts_receivable_net''"
| "concept_value INVENTORY_NET = ''inventory_net''"
| "concept_value CURRENT_ASSETS = ''current_assets''"
| "concept_value PROPERTY_PLANT_EQUIPMENT_NET = ''property_plant_equipment_net''"
| "concept_value GOODWILL = ''goodwill''"
| "concept_value INTANGIBLE_ASSETS_NET_EXCLUDING_GOODWILL = ''intangible_assets_net_excluding_goodwill''"
| "concept_value TOTAL_ASSETS = ''total_assets''"
| "concept_value ACCOUNTS_PAYABLE_CURRENT = ''accounts_payable_current''"
| "concept_value CURRENT_DEBT = ''current_debt''"
| "concept_value LONG_TERM_DEBT_NONCURRENT = ''long_term_debt_noncurrent''"
| "concept_value CURRENT_LIABILITIES = ''current_liabilities''"
| "concept_value TOTAL_LIABILITIES = ''total_liabilities''"
| "concept_value EQUITY_PARENT = ''equity_parent''"
| "concept_value EQUITY_INCLUDING_NONCONTROLLING_INTERESTS = ''equity_including_noncontrolling_interests''"
| "concept_value NONCONTROLLING_INTERESTS = ''noncontrolling_interests''"
| "concept_value CASH_FROM_OPERATING_ACTIVITIES = ''cash_from_operating_activities''"
| "concept_value CAPITAL_EXPENDITURES_PPE = ''capital_expenditures_ppe''"
| "concept_value DEPRECIATION_AND_AMORTIZATION = ''depreciation_and_amortization''"
| "concept_value SHARE_BASED_COMPENSATION = ''share_based_compensation''"
| "concept_value DIVIDENDS_PAID = ''dividends_paid''"
| "concept_value SHARE_REPURCHASES = ''share_repurchases''"

text \<open>\<open>tuple(Concept)\<close>\<close>

definition all_concepts :: "concept list" where
  "all_concepts = [REVENUE, COST_OF_REVENUE, GROSS_PROFIT, RESEARCH_AND_DEVELOPMENT_EXPENSE,
     SELLING_GENERAL_AND_ADMINISTRATIVE_EXPENSE, OPERATING_EXPENSES, OPERATING_INCOME, INTEREST_EXPENSE,
     PRETAX_INCOME, INCOME_TAX_EXPENSE, NET_INCOME_PARENT, NET_INCOME_CONSOLIDATED, EPS_BASIC, EPS_DILUTED,
     WEIGHTED_AVERAGE_SHARES_BASIC, WEIGHTED_AVERAGE_SHARES_DILUTED, COMMON_SHARES_OUTSTANDING,
     CASH_AND_CASH_EQUIVALENTS, SHORT_TERM_INVESTMENTS, ACCOUNTS_RECEIVABLE_NET, INVENTORY_NET, CURRENT_ASSETS,
     PROPERTY_PLANT_EQUIPMENT_NET, GOODWILL, INTANGIBLE_ASSETS_NET_EXCLUDING_GOODWILL, TOTAL_ASSETS,
     ACCOUNTS_PAYABLE_CURRENT, CURRENT_DEBT, LONG_TERM_DEBT_NONCURRENT, CURRENT_LIABILITIES, TOTAL_LIABILITIES,
     EQUITY_PARENT, EQUITY_INCLUDING_NONCONTROLLING_INTERESTS, NONCONTROLLING_INTERESTS,
     CASH_FROM_OPERATING_ACTIVITIES, CAPITAL_EXPENDITURES_PPE, DEPRECIATION_AND_AMORTIZATION,
     SHARE_BASED_COMPENSATION, DIVIDENDS_PAID, SHARE_REPURCHASES]"

section \<open>Library functions\<close>

datatype json = JNull | JBool bool | JNumber decimal | JString string | JArray "json list" | JObject "(string \<times> json) list"

record split_url =
  url_scheme :: string
  url_hostname :: "string option"
  url_username :: "string option"
  url_password :: "string option"

text \<open>\<open>None\<close> stands for a raised \<open>ValueError\<close>.\<close>

record runtime =
  json_loads :: "string \<Rightarrow> json option"
  sha256_hex :: "string \<Rightarrow> string"
  urlsplit :: "string \<Rightarrow> split_url option"
  uuid_text :: "uuid \<Rightarrow> string"

definition json_get :: "json \<Rightarrow> string \<Rightarrow> json option" where
  "json_get j k = (case j of JObject kvs \<Rightarrow> map_of kvs k | _ \<Rightarrow> None)"

definition is_object :: "json \<Rightarrow> bool" where
  "is_object j = (case j of JObject _ \<Rightarrow> True | _ \<Rightarrow> False)"

section \<open>Periods, units, scopes\<close>

record period_spec =
  pd_id :: uuid
  period_kind :: string
  pd_start :: "date option"
  pd_end :: date

record unit_spec =
  ut_id :: uuid
  unit_key :: string
  numerator_measures :: "string list"
  denominator_measures :: "string list"

record scope_spec =
  sc_id :: uuid
  sc_issuer :: uuid
  sc_instrument :: "uuid option"
  scope_kind :: string
  descriptor_schema_version :: nat
  descriptor_json :: string
  content_sha256 :: string

section \<open>Queries and selections\<close>

datatype history_mode = AS_FILED_BY_DATE | ORIGINAL_AS_FILED | LATEST_REPORTED

record pit_query =
  q_issuer :: uuid
  q_period :: uuid
  q_scope :: uuid
  q_unit :: uuid
  statement_family :: string
  q_concepts :: "concept list"
  q_batches :: "uuid list"
  q_captures :: "uuid list"
  q_events :: "uuid list"
  q_mapping_revision :: uuid
  normalizer_revision :: string
  authority_policy_revision :: string
  captured_before :: datetime
  q_mode :: history_mode
  filed_cutoff :: "date option"
  q_instrument :: "uuid option"
  q_security :: "uuid option"
  q_reporting_currency :: "uuid option"
  q_quality_flags :: "uuid list"
  audited_required :: bool
  allow_reviewed_equivalent :: bool
  original_history_complete :: bool

definition pit_query_valid :: "pit_query \<Rightarrow> bool" where
  "pit_query_valid q =
     (aware (captured_before q)
      \<and> \<not> (q_mode q = AS_FILED_BY_DATE \<and> filed_cutoff q = None)
      \<and> q_concepts q \<noteq> [] \<and> distinct (q_concepts q)
      \<and> q_batches q \<noteq> [] \<and> distinct (q_batches q)
      \<and> q_captures q \<noteq> [] \<and> distinct (q_captures q)
      \<and> distinct (q_events q) \<and> distinct (q_quality_flags q)
      \<and> normalizer_revision q \<noteq> [] \<and> authority_policy_revision q \<noteq> [])"

record selected_fact =
  f_concept :: concept
  f_value :: "decimal option"
  f_status :: string
  f_resolutions :: "uuid list"
  f_observations :: "uuid list"
  f_accession :: "string option"
  f_filed :: "date option"
  f_source_url :: "string option"
  f_source_locator :: "string option"
  f_captures :: "uuid list"
  f_source_hashes :: "string list"
  f_source_tag :: "string option"
  f_numeric_text :: "string option"
  f_transform_json :: "string option"
  f_reason :: "string option"
  f_flags :: "flag list"

record statement_selection =
  sel_query :: pit_query
  sel_coverage :: "uuid list"
  sel_filing_versions :: "uuid list"
  sel_facts :: "selected_fact list"
  sel_flags :: "flag list"
  sel_quality_flags :: "uuid list"
  sel_events :: "uuid list"
  usable_for_valuation :: bool
  reporting_basis :: "string option"
  input_hash :: string

text \<open>A \<open>str | None\<close> that is neither absent nor blank.\<close>

definition opt_nonblank :: "string option \<Rightarrow> bool" where
  "opt_nonblank s = (case s of None \<Rightarrow> False | Some t \<Rightarrow> nonblank t)"

text \<open>\<open>a or b\<close> where \<open>a\<close> may be absent.\<close>

definition or_else :: "'a option \<Rightarrow> 'a \<Rightarrow> 'a" where
  "or_else a b = (case a of None \<Rightarrow> b | Some x \<Rightarrow> x)"

text \<open>The regular expression \<open>\<close>\<^verbatim>\<open>\d{10}-\d{2}-\d{6}\<close>, as a full match.\<close>

definition accession_text :: "string \<Rightarrow> bool" where
  "accession_text s =
     (length s = 20 \<and> list_all is_digit (take 10 s) \<and> s ! 10 = CHR ''-''
      \<and> list_all is_digit (take 2 (drop 11 s)) \<and> s ! 13 = CHR ''-'' \<and> list_all is_digit (drop 14 s))"

end
