(* ===== verification/Inputs.thy ===== *)
theory Inputs
  imports Evidence
begin

text \<open>
  \<open>packages/core/inputs.py\<close>: one concept of a selection, with the flags that say why its value
  may not be used.  The value of an input is present only when no blocking flag is.
\<close>

definition valid_ids :: "bool \<Rightarrow> uuid list \<Rightarrow> bool" where
  "valid_ids allow_empty ids = ((allow_empty \<or> ids \<noteq> []) \<and> distinct ids)"

section \<open>Precision\<close>

record precision_evidence =
  absolute_error :: dec
  pe_observations :: "uuid list"
  pe_refs :: "string list"
  pe_method :: string

definition mk_precision :: "decimal \<Rightarrow> uuid list \<Rightarrow> string list \<Rightarrow> string \<Rightarrow> precision_evidence result" where
  "mk_precision err ids refs method =
     (case err of
        Finite d \<Rightarrow>
          guard_value
            (dec_le dec_zero d \<and> valid_ids False ids \<and> refs \<noteq> [] \<and> list_all nonblank refs \<and> nonblank method)
            \<lparr>absolute_error = d, pe_observations = ids, pe_refs = refs, pe_method = method\<rparr>
      | _ \<Rightarrow> Inl ValueError)"

section \<open>Financial inputs\<close>

record financial_input =
  fi_selection :: statement_selection
  fi_concept :: concept
  fi_period :: period_spec
  fi_unit :: unit_spec
  fi_scope :: scope_spec
  fi_precision :: "precision_evidence option"

abbreviation fi_query :: "financial_input \<Rightarrow> pit_query" where
  "fi_query x \<equiv> sel_query (fi_selection x)"

definition fi_fact :: "financial_input \<Rightarrow> selected_fact option" where
  "fi_fact x =
     (case filter (\<lambda>f. f_concept f = fi_concept x) (sel_facts (fi_selection x)) of
        [f] \<Rightarrow> Some f
      | _ \<Rightarrow> None)"

definition scope_valid :: "runtime \<Rightarrow> scope_spec \<Rightarrow> bool" where
  "scope_valid rt s =
     (case json_loads rt (descriptor_json s) of
        None \<Rightarrow> False
      | Some d \<Rightarrow>
          descriptor_schema_version s = 1
          \<and> is_object d
          \<and> sha256_hex rt (descriptor_json s) = content_sha256 s
          \<and> json_get d ''consolidation'' = Some (JString (scope_kind s))
          \<and> scope_kind s \<noteq> []
          \<and> json_get d ''instrument''
              = Some (case sc_instrument s of None \<Rightarrow> JNull | Some i \<Rightarrow> JString (uuid_text rt i))
          \<and> (case json_get d ''scope_evidence'' of Some (JString e) \<Rightarrow> nonblank e | _ \<Rightarrow> False))"

definition per_share_key :: "string \<Rightarrow> bool" where
  "per_share_key k = (length k = 10 \<and> list_all is_upper (take 3 k) \<and> drop 3 k = ''/shares'')"

definition unit_valid :: "unit_spec \<Rightarrow> bool" where
  "unit_valid u =
     (let k = unit_key u; m = (numerator_measures u, denominator_measures u) in
      if k = ''shares'' then m = ([''xbrli:shares''], [])
      else if iso_currency k then m = ([''iso4217:'' @ k], [])
      else if per_share_key k then m = ([''iso4217:'' @ take 3 k], [''xbrli:shares''])
      else False)"

definition period_valid :: "period_spec \<Rightarrow> bool" where
  "period_valid p =
     ((period_kind p = ''instant'' \<and> pd_start p = None)
      \<or> (period_kind p = ''duration'' \<and> (case pd_start p of None \<Rightarrow> False | Some s \<Rightarrow> s \<le> pd_end p)))"

definition context_flags :: "runtime \<Rightarrow> financial_input \<Rightarrow> flag list" where
  "context_flags rt x =
     (let q = fi_query x in
      flag_if (\<not> (valid_ids False (q_batches q) \<and> valid_ids False (q_captures q)
                 \<and> valid_ids True (q_events q) \<and> valid_ids True (q_quality_flags q)))
        ''input_identity_invalid''
      @ flag_if (fi_concept x \<notin> set (q_concepts q)) ''input_concept_mismatch''
      @ flag_if (pd_id (fi_period x) \<noteq> q_period q) ''input_period_mismatch''
      @ flag_if (ut_id (fi_unit x) \<noteq> q_unit q) ''input_unit_mismatch''
      @ flag_if (iso_currency (unit_key (fi_unit x))
                 \<and> or_else (q_reporting_currency q) (q_unit q) \<noteq> ut_id (fi_unit x))
          ''input_reporting_currency_mismatch''
      @ flag_if (sc_id (fi_scope x) \<noteq> q_scope q \<or> sc_issuer (fi_scope x) \<noteq> q_issuer q
                 \<or> sc_instrument (fi_scope x) \<noteq> q_instrument q)
          ''input_scope_mismatch''
      @ flag_if (\<not> period_valid (fi_period x)) ''input_period_invalid''
      @ flag_if (\<not> scope_valid rt (fi_scope x)) ''input_scope_invalid''
      @ flag_if (\<not> unit_valid (fi_unit x)) ''input_unit_invalid'')"

definition selection_evidence_valid :: "statement_selection \<Rightarrow> bool" where
  "selection_evidence_valid s =
     (valid_ids False (sel_coverage s)
      \<and> valid_ids False (sel_filing_versions s) \<and> length (sel_filing_versions s) = 1
      \<and> valid_ids True (sel_quality_flags s) \<and> valid_ids True (sel_events s)
      \<and> set (sel_events s) \<subseteq> set (q_events (sel_query s))
      \<and> sha256_text (input_hash s)
      \<and> (reporting_basis s = Some ''us_gaap'' \<or> reporting_basis s = Some ''ifrs''))"

definition source_url_valid :: "runtime \<Rightarrow> string \<Rightarrow> bool" where
  "source_url_valid rt u =
     (case urlsplit rt u of
        None \<Rightarrow> False
      | Some p \<Rightarrow>
          url_scheme p \<in> {''http'', ''https''}
          \<and> (case url_hostname p of None \<Rightarrow> False | Some h \<Rightarrow> h \<noteq> [])
          \<and> url_username p = None \<and> url_password p = None)"

definition provenance_valid :: "runtime \<Rightarrow> pit_query \<Rightarrow> selected_fact \<Rightarrow> bool" where
  "provenance_valid rt q f =
     (valid_ids False (f_resolutions f)
      \<and> valid_ids False (f_observations f) \<and> length (f_observations f) = 1
      \<and> valid_ids False (f_captures f) \<and> length (f_captures f) = 1
      \<and> set (f_captures f) \<subseteq> set (q_captures q)
      \<and> (case f_accession f of None \<Rightarrow> False | Some a \<Rightarrow> accession_text a)
      \<and> (case f_filed f of
           None \<Rightarrow> False
         | Some d \<Rightarrow>
             int (toordinal d) \<le> utc_day (captured_before q)
             \<and> (case filed_cutoff q of None \<Rightarrow> True | Some c \<Rightarrow> d \<le> c))
      \<and> source_url_valid rt (or_else (f_source_url f) [])
      \<and> opt_nonblank (f_source_locator f)
      \<and> length (f_source_hashes f) = 1 \<and> list_all sha256_text (f_source_hashes f)
      \<and> opt_nonblank (f_source_tag f) \<and> opt_nonblank (f_numeric_text f)
      \<and> (case json_loads rt (or_else (f_transform_json f) []) of None \<Rightarrow> False | Some j \<Rightarrow> is_object j))"

definition is_finite_value :: "decimal option \<Rightarrow> bool" where
  "is_finite_value v = (case v of Some (Finite _) \<Rightarrow> True | _ \<Rightarrow> False)"

definition fact_flags :: "runtime \<Rightarrow> financial_input \<Rightarrow> selected_fact \<Rightarrow> flag list" where
  "fact_flags rt x f =
     f_flags f
     @ flag_if (case fi_precision x of
                  None \<Rightarrow> False
                | Some p \<Rightarrow> set (pe_observations p) \<noteq> set (f_observations f)) ''input_precision_mismatch''
     @ flag_if (\<not> provenance_valid rt (fi_query x) f) ''input_provenance_invalid''
     @ flag_if (\<not> is_finite_value (f_value f)) ''input_value_invalid''
     @ flag_if (f_status f \<noteq> ''observed'') ''input_fact_not_observed''"

definition fi_flags :: "runtime \<Rightarrow> financial_input \<Rightarrow> flag list" where
  "fi_flags rt x =
     sorted_set
       (sel_flags (fi_selection x) @ context_flags rt x
        @ flag_if (\<not> usable_for_valuation (fi_selection x)) ''input_selection_unusable''
        @ flag_if (\<not> selection_evidence_valid (fi_selection x)) ''input_selection_evidence_invalid''
        @ (case fi_fact x of
             None \<Rightarrow> [''input_fact_not_unique'']
           | Some f \<Rightarrow> fact_flags rt x f))"

definition nonblocking :: "flag \<Rightarrow> bool" where
  "nonblocking fl = (fl = ''revised_view'' \<or> fl = ''earliest_available'')"

definition blocking :: "flag list \<Rightarrow> flag list" where
  "blocking fls = filter (\<lambda>fl. \<not> nonblocking fl) fls"

definition fi_blocking_flags :: "runtime \<Rightarrow> financial_input \<Rightarrow> flag list" where
  "fi_blocking_flags rt x = blocking (fi_flags rt x)"

definition fi_value :: "runtime \<Rightarrow> financial_input \<Rightarrow> decimal option" where
  "fi_value rt x =
     (case fi_fact x of
        None \<Rightarrow> None
      | Some f \<Rightarrow> if fi_blocking_flags rt x = [] then f_value f else None)"

record history_key =
  hk_issuer :: uuid
  hk_security :: "uuid option"
  hk_currency :: uuid
  hk_mode :: history_mode
  hk_cutoff :: "date option"
  hk_captured_before :: int
  hk_batches :: "uuid list"
  hk_captures :: "uuid list"
  hk_events :: "uuid list"
  hk_mapping :: uuid
  hk_normalizer :: string
  hk_policy :: string
  hk_quality :: "uuid list"
  hk_audited :: bool
  hk_equivalent :: bool
  hk_complete :: bool

definition fi_history_key :: "financial_input \<Rightarrow> history_key" where
  "fi_history_key x =
     (let q = fi_query x in
      \<lparr>hk_issuer = q_issuer q, hk_security = q_security q,
       hk_currency = or_else (q_reporting_currency q) (q_unit q), hk_mode = q_mode q,
       hk_cutoff = filed_cutoff q, hk_captured_before = instant (captured_before q),
       hk_batches = sort (q_batches q), hk_captures = sort (q_captures q),
       hk_events = sort (q_events q), hk_mapping = q_mapping_revision q,
       hk_normalizer = normalizer_revision q, hk_policy = authority_policy_revision q,
       hk_quality = sort (q_quality_flags q), hk_audited = audited_required q,
       hk_equivalent = allow_reviewed_equivalent q, hk_complete = original_history_complete q\<rparr>)"

section \<open>Lemmas\<close>

lemma set_blocking: "set (blocking fls) = {fl \<in> set fls. \<not> nonblocking fl}"
  by (auto simp: blocking_def)

lemma blocking_Nil_iff: "blocking fls = [] \<longleftrightarrow> (\<forall>fl\<in>set fls. nonblocking fl)"
  by (auto simp: blocking_def filter_empty_conv)

text \<open>A flag list passes when none of its flags blocks.\<close>

definition passes :: "flag list \<Rightarrow> bool" where
  "passes fls \<longleftrightarrow> (\<forall>fl\<in>set fls. nonblocking fl)"

lemma passes_simps [flag_simps]:
  "passes []" "passes (fl # fls) \<longleftrightarrow> nonblocking fl \<and> passes fls"
  "passes (xs @ ys) \<longleftrightarrow> passes xs \<and> passes ys"
  "passes (flag_if b fl) \<longleftrightarrow> (b \<longrightarrow> nonblocking fl)"
  "passes (sorted_set xs) \<longleftrightarrow> passes xs"
  by (auto simp: passes_def)

lemma blocking_Nil_passes: "blocking fls = [] \<longleftrightarrow> passes fls"
  by (simp add: passes_def blocking_Nil_iff)

lemma context_flags_pass: "passes (context_flags rt x) \<longleftrightarrow> context_flags rt x = []"
  unfolding context_flags_def Let_def by (simp only: flag_simps append_is_Nil_conv) (simp only: nonblocking_def list.inject char.inject, simp)

lemma fact_flags_pass:
  "passes (fact_flags rt x f) \<longleftrightarrow> passes (f_flags f)
     \<and> (\<forall>p. fi_precision x = Some p \<longrightarrow> set (pe_observations p) = set (f_observations f))
     \<and> provenance_valid rt (fi_query x) f \<and> is_finite_value (f_value f) \<and> f_status f = ''observed''"
  unfolding fact_flags_def by (simp add: flag_simps nonblocking_def split: option.splits)

lemma fi_flags_pass:
  "passes (fi_flags rt x) \<longleftrightarrow> passes (sel_flags (fi_selection x)) \<and> context_flags rt x = []
     \<and> usable_for_valuation (fi_selection x) \<and> selection_evidence_valid (fi_selection x)
     \<and> (\<exists>f. fi_fact x = Some f \<and> passes (fact_flags rt x f))"
  unfolding fi_flags_def
  by (simp add: flag_simps context_flags_pass nonblocking_def split: option.splits)

lemma fi_fact_unique:
  assumes "fi_fact x = Some f"
  shows "f \<in> set (sel_facts (fi_selection x)) \<and> f_concept f = fi_concept x
    \<and> (\<forall>g\<in>set (sel_facts (fi_selection x)). f_concept g = fi_concept x \<longrightarrow> g = f)"
proof -
  have "filter (\<lambda>f. f_concept f = fi_concept x) (sel_facts (fi_selection x)) = [f]"
    using assms by (simp add: fi_fact_def split: list.splits)
  then have "set (filter (\<lambda>f. f_concept f = fi_concept x) (sel_facts (fi_selection x))) = {f}" by simp
  then show ?thesis by auto
qed

lemma fi_value_SomeE:
  assumes "fi_value rt x = Some v"
  obtains f where "fi_fact x = Some f" "f_value f = Some v" "fi_blocking_flags rt x = []"
  using assms by (auto simp: fi_value_def split: option.splits if_splits)

text \<open>Every flag that the input itself raises is blocking, so a present value passed every check.\<close>

lemma fi_value_checks:
  assumes "fi_value rt x = Some v"
  shows "\<exists>f d. fi_fact x = Some f \<and> v = Finite d \<and> f_value f = Some v
    \<and> f_status f = ''observed'' \<and> provenance_valid rt (fi_query x) f
    \<and> usable_for_valuation (fi_selection x) \<and> selection_evidence_valid (fi_selection x)
    \<and> context_flags rt x = []
    \<and> (\<forall>p. fi_precision x = Some p \<longrightarrow> set (pe_observations p) = set (f_observations f))"
proof -
  from assms obtain f where f: "fi_fact x = Some f" "f_value f = Some v" "passes (fi_flags rt x)"
    by (rule fi_value_SomeE) (simp add: fi_blocking_flags_def blocking_Nil_passes)
  moreover from this obtain d where "v = Finite d"
    by (auto simp: fi_flags_pass fact_flags_pass is_finite_value_def split: decimal.splits)
  ultimately show ?thesis by (auto simp: fi_flags_pass fact_flags_pass)
qed

end
