(* ===== verification/Fiscal.thy ===== *)
theory Fiscal
  imports Inputs
begin

text \<open>
  \<open>packages/core/fiscal.py\<close>: reviewed fiscal years with four explicit quarter ends, and the
  evidence that ties a calendar to exactly the inputs it was reviewed for.
\<close>

record fiscal_year =
  fy_label :: string
  fy_start :: date
  quarter_ends :: "date list"
  fy_kind :: string

definition fiscal_year_valid :: "fiscal_year \<Rightarrow> bool" where
  "fiscal_year_valid y =
     (nonblank (fy_label y) \<and> fy_start y \<noteq> date_min
      \<and> length (quarter_ends y) = 4 \<and> date_max \<notin> set (quarter_ends y)
      \<and> sorted_set (quarter_ends y) = quarter_ends y
      \<and> fy_start y \<le> quarter_ends y ! 0
      \<and> fy_kind y \<in> {''months'', ''weeks'', ''transition''})"

definition mk_fiscal_year :: "string \<Rightarrow> date \<Rightarrow> date list \<Rightarrow> string \<Rightarrow> fiscal_year result" where
  "mk_fiscal_year label start ends kind =
     (let y = \<lparr>fy_label = label, fy_start = start, quarter_ends = ends, fy_kind = kind\<rparr>
      in guard_value (fiscal_year_valid y) y)"

definition quarter_starts :: "fiscal_year \<Rightarrow> date list" where
  "quarter_starts y = fy_start y # map next_day (butlast (quarter_ends y))"

definition calendar_quarter :: "date \<Rightarrow> date \<Rightarrow> bool" where
  "calendar_quarter s e = (dy s = 1 \<and> month_end e \<and> months_between s e = 3)"

definition fy_supported :: "fiscal_year \<Rightarrow> bool" where
  "fy_supported y =
     (let quarters = zip (quarter_starts y) (quarter_ends y) in
      if fy_kind y = ''weeks'' then
        (let days = map (\<lambda>(s, e). day_difference s e + 1) quarters in
         list_all (\<lambda>n. n = 91 \<or> n = 98) days \<and> (sum_list days = 364 \<or> sum_list days = 371))
      else if fy_kind y = ''months'' then list_all (\<lambda>(s, e). calendar_quarter s e) quarters
      else False)"

record fiscal_calendar =
  fc_issuer :: uuid
  fc_years :: "fiscal_year list"
  fc_input_hashes :: "string list"
  known_on :: date
  captured_at :: datetime
  fc_refs :: "string list"
  fc_review :: string

definition fiscal_calendar_valid :: "fiscal_calendar \<Rightarrow> bool" where
  "fiscal_calendar_valid c =
     (fc_years c \<noteq> [] \<and> distinct (map fy_label (fc_years c))
      \<and> list_all (\<lambda>(l, r). last (quarter_ends l) < fy_start r) (zip (fc_years c) (tl (fc_years c)))
      \<and> fc_input_hashes c \<noteq> [] \<and> distinct (fc_input_hashes c) \<and> list_all sha256_text (fc_input_hashes c)
      \<and> aware (captured_at c) \<and> int (toordinal (known_on c)) \<le> local_day (captured_at c)
      \<and> fc_refs c \<noteq> [] \<and> list_all nonblank (fc_refs c) \<and> nonblank (fc_review c))"

definition mk_fiscal_calendar :: "fiscal_calendar \<Rightarrow> fiscal_calendar result" where
  "mk_fiscal_calendar c = guard_value (fiscal_calendar_valid c) c"

text \<open>All calendar facts and the review policy, without the selection hashes.\<close>

definition comparison_key ::
  "fiscal_calendar \<Rightarrow> uuid \<times> fiscal_year list \<times> date \<times> int \<times> string list \<times> string" where
  "comparison_key c =
     (fc_issuer c, fc_years c, known_on c, instant (captured_at c), fc_refs c, fc_review c)"

definition known_at_cutoff :: "fiscal_calendar \<Rightarrow> financial_input \<Rightarrow> bool" where
  "known_at_cutoff c x =
     (instant (captured_at c) \<le> instant (captured_before (fi_query x))
      \<and> (case filed_cutoff (fi_query x) of
           None \<Rightarrow> int (toordinal (known_on c)) \<le> local_day (captured_before (fi_query x))
         | Some d \<Rightarrow> known_on c \<le> d))"

definition fc_problems :: "fiscal_calendar \<Rightarrow> financial_input list \<Rightarrow> flag list" where
  "fc_problems c xs =
     flag_if (set (fc_input_hashes c) \<noteq> set (map (\<lambda>x. input_hash (fi_selection x)) xs))
       ''fiscal_calendar_input_mismatch''
     @ flag_if (list_ex (\<lambda>x. q_issuer (fi_query x) \<noteq> fc_issuer c) xs) ''fiscal_calendar_issuer_mismatch''
     @ flag_if (list_ex (\<lambda>x. \<not> known_at_cutoff c x) xs) ''fiscal_calendar_not_known_at_cutoff''
     @ flag_if (list_ex (\<lambda>y. \<not> fy_supported y) (fc_years c) \<or> \<not> all_same (map fy_kind (fc_years c)))
         ''unsupported_fiscal_calendar''"

definition quarter_start :: "bool \<Rightarrow> fiscal_year \<Rightarrow> nat \<Rightarrow> date" where
  "quarter_start cumulative y k =
     (if cumulative \<or> k = 0 then fy_start y else next_day (quarter_ends y ! (k - 1)))"

definition covers_quarter :: "bool \<Rightarrow> period_spec \<Rightarrow> fiscal_year \<Rightarrow> nat \<Rightarrow> bool" where
  "covers_quarter cumulative p y k =
     (pd_start p = Some (quarter_start cumulative y k) \<and> pd_end p = quarter_ends y ! k)"

fun match_from :: "bool \<Rightarrow> period_spec \<Rightarrow> nat \<Rightarrow> fiscal_year list \<Rightarrow> (nat \<times> nat) option" where
  "match_from cumulative p i [] = None"
| "match_from cumulative p i (y # ys) =
     (case find (covers_quarter cumulative p y) [0..<length (quarter_ends y)] of
        Some k \<Rightarrow> Some (i, k + 1)
      | None \<Rightarrow> match_from cumulative p (i + 1) ys)"

definition fc_match :: "fiscal_calendar \<Rightarrow> bool \<Rightarrow> financial_input \<Rightarrow> (nat \<times> nat) option" where
  "fc_match c cumulative x =
     (if period_kind (fi_period x) \<noteq> ''duration'' then None
      else match_from cumulative (fi_period x) 0 (fc_years c))"

definition period_days :: "period_spec \<Rightarrow> int option" where
  "period_days p = map_option (\<lambda>s. day_difference s (pd_end p)) (pd_start p)"

definition comparable_at :: "fiscal_calendar \<Rightarrow> bool \<Rightarrow> financial_input \<Rightarrow> financial_input \<Rightarrow> bool" where
  "comparable_at c cumulative current prior =
     (case (fc_match c cumulative current, fc_match c cumulative prior) of
        (Some (ci, cq), Some (pj, pq)) \<Rightarrow>
          ci = pj + 1 \<and> cq = pq \<and> \<not> (cumulative \<and> cq \<noteq> 4)
          \<and> (let old = fc_years c ! pj; new = fc_years c ! ci in
             toordinal (last (quarter_ends old)) + 1 = toordinal (fy_start new)
             \<and> fy_kind old = fy_kind new
             \<and> (fy_kind new = ''weeks'' \<longrightarrow>
                  period_days (fi_period current) \<noteq> None
                  \<and> period_days (fi_period current) = period_days (fi_period prior)))
      | _ \<Rightarrow> False)"

definition fc_comparable :: "fiscal_calendar \<Rightarrow> financial_input \<Rightarrow> financial_input \<Rightarrow> bool" where
  "fc_comparable c current prior =
     (comparable_at c False current prior \<or> comparable_at c True current prior)"

section \<open>Lemmas\<close>

lemma match_from_SomeD:
  "match_from cumulative p i ys = Some (j, q) \<Longrightarrow>
     i \<le> j \<and> j - i < length ys \<and> 1 \<le> q \<and> q \<le> length (quarter_ends (ys ! (j - i)))
     \<and> covers_quarter cumulative p (ys ! (j - i)) (q - 1)"
proof (induction ys arbitrary: i)
  case (Cons y ys)
  show ?case
  proof (cases "find (covers_quarter cumulative p y) [0..<length (quarter_ends y)]")
    case None
    with Cons.prems have "match_from cumulative p (i + 1) ys = Some (j, q)" by simp
    from Cons.IH[OF this] show ?thesis by (auto simp: nth_Cons' Suc_diff_le)
  next
    case (Some k)
    with Cons.prems show ?thesis by (auto simp: find_Some_iff)
  qed
qed simp

lemma fc_match_SomeD:
  assumes "fc_match c cumulative x = Some (j, q)"
  shows "j < length (fc_years c) \<and> 1 \<le> q \<and> q \<le> length (quarter_ends (fc_years c ! j))
    \<and> period_kind (fi_period x) = ''duration''
    \<and> pd_start (fi_period x) = Some (quarter_start cumulative (fc_years c ! j) (q - 1))
    \<and> pd_end (fi_period x) = quarter_ends (fc_years c ! j) ! (q - 1)"
  using assms match_from_SomeD[of cumulative "fi_period x" 0 "fc_years c" j q]
  by (auto simp: fc_match_def covers_quarter_def split: if_splits)

lemma sorted_quarter_ends:
  assumes "fiscal_year_valid y" "k < l" "l < 4"
  shows "quarter_ends y ! k < quarter_ends y ! l"
proof -
  have "sorted_wrt (<) (quarter_ends y)"
    using assms(1) strict_sorted_sorted_set[of "quarter_ends y"] by (simp add: fiscal_year_valid_def)
  then show ?thesis using assms by (simp add: fiscal_year_valid_def sorted_wrt_nth_less)
qed

end
