(* ===== verification/Operands.thy ===== *)
theory Operands
  imports Fiscal Decimal_Laws
begin

text \<open>
  The operands of a calculation: a selected input or an amount assembled from several of them
  (\<open>PeriodAmount\<close> of \<open>packages/core/periods.py\<close>), and the compatibility checks of
  \<open>packages/core/metrics.py\<close> that every calculation runs on them before it computes anything.
\<close>

section \<open>Amounts\<close>

text \<open>A present value is finite (\<open>fi_value_checks\<close>), so the amount is a number.\<close>

definition fi_amount :: "runtime \<Rightarrow> financial_input \<Rightarrow> dec option" where
  "fi_amount rt x = (case fi_value rt x of Some (Finite d) \<Rightarrow> Some d | _ \<Rightarrow> None)"

record revision_compatibility =
  rc_input_hashes :: "string list"
  rc_refs :: "string list"
  rc_review :: string

definition mk_revision_compatibility :: "revision_compatibility \<Rightarrow> revision_compatibility result" where
  "mk_revision_compatibility r =
     guard_value
       (rc_input_hashes r \<noteq> [] \<and> list_all sha256_text (rc_input_hashes r) \<and> distinct (rc_input_hashes r)
        \<and> rc_refs r \<noteq> [] \<and> list_all nonblank (rc_refs r) \<and> nonblank (rc_review r))
       r"

record period_window =
  pw_start :: "date option"
  pw_end :: date
  pw_kind :: string

record period_amount =
  pa_value :: "dec option"
  pa_operands :: "financial_input list"
  pa_coefficients :: "int list"
  pa_period :: period_window
  pa_precision :: "precision_evidence option"
  pa_flags :: "flag list"
  pa_formula :: string
  pa_formula_revision :: string
  pa_compatibility :: "revision_compatibility option"
  pa_calendar :: "fiscal_calendar option"

datatype operand = Selected financial_input | Derived period_amount

definition pa_concept :: "period_amount \<Rightarrow> concept" where
  "pa_concept a = fi_concept (hd (pa_operands a))"

definition pa_blocking_flags :: "period_amount \<Rightarrow> flag list" where
  "pa_blocking_flags a = blocking (pa_flags a)"

fun op_value :: "runtime \<Rightarrow> operand \<Rightarrow> dec option" where
  "op_value rt (Selected x) = fi_amount rt x"
| "op_value rt (Derived a) = pa_value a"

fun op_flags :: "runtime \<Rightarrow> operand \<Rightarrow> flag list" where
  "op_flags rt (Selected x) = fi_flags rt x"
| "op_flags rt (Derived a) = pa_flags a"

definition op_blocking_flags :: "runtime \<Rightarrow> operand \<Rightarrow> flag list" where
  "op_blocking_flags rt p = blocking (op_flags rt p)"

fun op_precision :: "operand \<Rightarrow> precision_evidence option" where
  "op_precision (Selected x) = fi_precision x"
| "op_precision (Derived a) = pa_precision a"

fun op_concept :: "operand \<Rightarrow> concept" where
  "op_concept (Selected x) = fi_concept x"
| "op_concept (Derived a) = pa_concept a"

fun op_unit :: "operand \<Rightarrow> unit_spec" where
  "op_unit (Selected x) = fi_unit x"
| "op_unit (Derived a) = fi_unit (hd (pa_operands a))"

fun op_start :: "operand \<Rightarrow> date option" where
  "op_start (Selected x) = pd_start (fi_period x)"
| "op_start (Derived a) = pw_start (pa_period a)"

fun op_end :: "operand \<Rightarrow> date" where
  "op_end (Selected x) = pd_end (fi_period x)"
| "op_end (Derived a) = pw_end (pa_period a)"

text \<open>The selected inputs below an operand.\<close>

fun op_leaves :: "operand \<Rightarrow> financial_input list" where
  "op_leaves (Selected x) = [x]"
| "op_leaves (Derived a) = pa_operands a"

fun is_selected :: "operand \<Rightarrow> bool" where
  "is_selected (Selected _) = True"
| "is_selected (Derived _) = False"

text \<open>The \<open>assembly_key\<close> of a derived amount, and the tuple that stands for it for a selected input.\<close>

datatype assembly =
  Selection "date option" date "uuid list"
| Assembly string string
    "(uuid \<times> fiscal_year list \<times> date \<times> int \<times> string list \<times> string) option"
    "(date option \<times> date \<times> int \<times> uuid list) list"

definition assembly_key :: "period_amount \<Rightarrow> assembly" where
  "assembly_key a =
     Assembly (pa_formula a) (pa_formula_revision a) (map_option comparison_key (pa_calendar a))
       (map (\<lambda>(x, k). (pd_start (fi_period x), pd_end (fi_period x), k,
               sort (sel_filing_versions (fi_selection x))))
          (zip (pa_operands a) (pa_coefficients a)))"

fun op_assembly :: "operand \<Rightarrow> assembly" where
  "op_assembly (Selected x) =
     Selection (pd_start (fi_period x)) (pd_end (fi_period x)) (sel_filing_versions (fi_selection x))"
| "op_assembly (Derived a) = assembly_key a"

section \<open>Checks\<close>

definition denominator :: "runtime \<Rightarrow> operand \<Rightarrow> flag list" where
  "denominator rt p =
     (case op_value rt p of
        None \<Rightarrow> [''source_input_unavailable'']
      | Some v \<Rightarrow>
          if dec_le v dec_zero then [''denominator_nonpositive'']
          else (case op_precision p of
                  None \<Rightarrow> [''denominator_precision_unknown'']
                | Some e \<Rightarrow>
                    if dec_le v (absolute_error e) then [''denominator_indistinguishable_from_zero'']
                    else []))"

definition currency_unit :: "unit_spec \<Rightarrow> bool" where
  "currency_unit u =
     (iso_currency (unit_key u) \<and> numerator_measures u = [''iso4217:'' @ unit_key u]
      \<and> denominator_measures u = [])"

definition supported_basis :: "string option \<Rightarrow> bool" where
  "supported_basis b = (b = Some ''us_gaap'' \<or> b = Some ''ifrs'')"

definition selection_issues :: "runtime \<Rightarrow> financial_input list \<Rightarrow> concept list \<Rightarrow> flag list" where
  "selection_issues rt xs expected =
     concat (map (fi_blocking_flags rt) xs)
     @ flag_if (list_ex (\<lambda>x. fi_value rt x = None) xs) ''source_input_unavailable''
     @ flag_if (map fi_concept xs \<noteq> expected) ''unexpected_concept''
     @ flag_if (\<not> all_same (map fi_history_key xs)) ''incompatible_history_policy''
     @ flag_if (\<not> all_same (map (\<lambda>x. reporting_basis (fi_selection x)) xs)) ''incompatible_reporting_basis''
     @ flag_if (list_ex (\<lambda>x. \<not> supported_basis (reporting_basis (fi_selection x))) xs)
         ''unsupported_reporting_basis''
     @ flag_if (\<not> all_same (map (\<lambda>x. (unit_key (fi_unit x), numerator_measures (fi_unit x),
                   denominator_measures (fi_unit x))) xs)
                \<or> list_ex (\<lambda>x. \<not> currency_unit (fi_unit x)) xs)
         ''incompatible_units''"

definition expected_family :: "bool \<Rightarrow> concept \<Rightarrow> string" where
  "expected_family balance_sheet k =
     (if balance_sheet then ''balance_sheet''
      else if k = CASH_FROM_OPERATING_ACTIVITIES \<or> k = CAPITAL_EXPENDITURES_PPE then ''cash_flow''
      else ''income'')"

definition scope_keys :: "string list" where
  "scope_keys = [''consolidation'', ''instrument'', ''context_knowledge'', ''scope_evidence'',
     ''cash_scope'', ''payment_basis'', ''revenue_basis'']"

definition semantic_scope :: "runtime \<Rightarrow> financial_input \<Rightarrow> bool" where
  "semantic_scope rt x =
     (let payment = (if fi_concept x = CAPITAL_EXPENDITURES_PPE then ''actual_cash_payment''
                     else ''as_reported'');
          descriptor = (case json_loads rt (descriptor_json (fi_scope x)) of
                          None \<Rightarrow> JObject [] | Some j \<Rightarrow> j) in
      case descriptor of
        JObject kvs \<Rightarrow>
          set (map fst kvs) = set scope_keys
          \<and> scope_kind (fi_scope x) = ''consolidated'' \<and> sc_instrument (fi_scope x) = None
          \<and> map_of kvs ''consolidation'' = Some (JString ''consolidated'')
          \<and> (map_of kvs ''instrument'' = None \<or> map_of kvs ''instrument'' = Some JNull)
          \<and> map_of kvs ''payment_basis'' = Some (JString payment)
          \<and> map_of kvs ''cash_scope'' = Some (JString ''not_applicable'')
          \<and> map_of kvs ''revenue_basis'' = Some (JString ''reported_complete_scope'')
      | _ \<Rightarrow> False)"

definition source_issues ::
  "runtime \<Rightarrow> bool \<Rightarrow> bool \<Rightarrow> financial_input list \<Rightarrow> concept list \<Rightarrow> flag list" where
  "source_issues rt same_period balance_sheet xs expected =
     selection_issues rt xs expected
     @ (if balance_sheet
        then flag_if (list_ex (\<lambda>x. period_kind (fi_period x) \<noteq> ''instant'' \<or> pd_start (fi_period x) \<noteq> None) xs)
               ''instant_period_required''
        else flag_if (list_ex (\<lambda>x. period_kind (fi_period x) \<noteq> ''duration'' \<or> pd_start (fi_period x) = None) xs)
               ''flow_period_required'')
     @ (if same_period
        then flag_if (\<not> all_same (map (\<lambda>x. (pd_start (fi_period x), pd_end (fi_period x))) xs))
               ''incompatible_periods''
             @ flag_if (\<not> all_same (map (\<lambda>x. sorted_set (sel_filing_versions (fi_selection x))) xs))
                 ''incompatible_filing_editions''
        else [])
     @ concat (map (\<lambda>x.
         flag_if (statement_family (fi_query x) \<noteq> expected_family balance_sheet (fi_concept x))
           ''incompatible_statement_family''
         @ flag_if (\<not> semantic_scope rt x) ''unsupported_semantic_scope'') xs)"

definition issues :: "runtime \<Rightarrow> bool \<Rightarrow> operand list \<Rightarrow> concept list \<Rightarrow> flag list" where
  "issues rt same_period ps expected =
     (let leaves = concat (map op_leaves ps);
          concepts = concat (map (\<lambda>(p, k). replicate (length (op_leaves p)) k) (zip ps expected)) in
      if list_all is_selected ps then source_issues rt same_period False leaves expected
      else
        source_issues rt False False leaves concepts
        @ concat (map (op_blocking_flags rt) ps)
        @ flag_if (list_ex (\<lambda>p. op_value rt p = None) ps) ''source_input_unavailable''
        @ flag_if (map op_concept ps \<noteq> expected) ''unexpected_concept''
        @ (if same_period
           then flag_if (\<not> all_same (map (\<lambda>p. (op_start p, op_end p)) ps)) ''incompatible_periods''
                @ flag_if (\<not> all_same (map op_assembly ps)) ''incompatible_period_assemblies''
           else []))"

section \<open>Lemmas\<close>

lemma fi_amount_value: "fi_value rt x = map_option Finite (fi_amount rt x)"
proof (cases "fi_value rt x")
  case (Some v)
  then obtain d where "v = Finite d" using fi_value_checks by blast
  with Some show ?thesis by (simp add: fi_amount_def)
qed (simp add: fi_amount_def)

lemma fi_value_None_iff [simp]: "fi_value rt x = None \<longleftrightarrow> fi_amount rt x = None"
  by (simp add: fi_amount_value)

lemma denominator_Nil:
  assumes "denominator rt p = []"
  shows "\<exists>v e. op_value rt p = Some v \<and> op_precision p = Some e \<and> dec_lt dec_zero v \<and> dec_lt (absolute_error e) v"
  using assms by (auto simp: denominator_def dec_lt_iff[where 'a=rat] dec_le_iff[where 'a=rat] split: option.splits if_splits)

lemma concat_map_Nil_iff: "concat (map f xs) = [] \<longleftrightarrow> (\<forall>x\<in>set xs. f x = [])"
  by auto

lemma list_ex_not_iff: "\<not> list_ex P xs \<longleftrightarrow> (\<forall>x\<in>set xs. \<not> P x)"
  by (simp add: list_ex_iff)

text \<open>What an empty problem list promises about the inputs of a calculation.\<close>

definition coherent :: "runtime \<Rightarrow> financial_input list \<Rightarrow> bool" where
  "coherent rt xs \<longleftrightarrow>
     (\<forall>x\<in>set xs. \<exists>d. fi_value rt x = Some (Finite d))
     \<and> (\<forall>x\<in>set xs. \<forall>y\<in>set xs. fi_history_key x = fi_history_key y
          \<and> reporting_basis (fi_selection x) = reporting_basis (fi_selection y)
          \<and> unit_key (fi_unit x) = unit_key (fi_unit y))
     \<and> (\<forall>x\<in>set xs. currency_unit (fi_unit x) \<and> supported_basis (reporting_basis (fi_selection x)))"

lemma selection_issues_Nil:
  assumes "selection_issues rt xs expected = []"
  shows "coherent rt xs \<and> map fi_concept xs = expected"
proof -
  have parts: "\<forall>x\<in>set xs. fi_value rt x \<noteq> None" "map fi_concept xs = expected"
    "all_same (map fi_history_key xs)" "all_same (map (\<lambda>x. reporting_basis (fi_selection x)) xs)"
    "all_same (map (\<lambda>x. (unit_key (fi_unit x), numerator_measures (fi_unit x), denominator_measures (fi_unit x))) xs)"
    "\<forall>x\<in>set xs. supported_basis (reporting_basis (fi_selection x))" "\<forall>x\<in>set xs. currency_unit (fi_unit x)"
    using assms[unfolded selection_issues_def append_is_Nil_conv flag_if_Nil_iff list_ex_not_iff not_not
        de_Morgan_disj]
    by - (elim conjE; assumption)+
  have fin: "\<exists>d. fi_value rt x = Some (Finite d)" if "x \<in> set xs" for x
    using parts(1) that by (simp add: fi_amount_value)
  have same: "fi_history_key x = fi_history_key y \<and> reporting_basis (fi_selection x) = reporting_basis (fi_selection y)
      \<and> unit_key (fi_unit x) = unit_key (fi_unit y)" if "x \<in> set xs" "y \<in> set xs" for x y
    by (intro conjI all_sameD[OF parts(3) that] all_sameD[OF parts(4) that]
        all_sameD[OF parts(5) that, THEN prod.inject[THEN iffD1], THEN conjunct1])
  show ?thesis
    unfolding coherent_def by (intro conjI ballI fin same parts parts(6)[rule_format] parts(7)[rule_format])
qed

lemma source_issues_Nil:
  assumes "source_issues rt same bal xs expected = []"
  shows "coherent rt xs \<and> map fi_concept xs = expected
    \<and> (\<forall>x\<in>set xs. semantic_scope rt x \<and> statement_family (fi_query x) = expected_family bal (fi_concept x))
    \<and> (same \<longrightarrow> (\<forall>x\<in>set xs. \<forall>y\<in>set xs. pd_start (fi_period x) = pd_start (fi_period y) \<and> pd_end (fi_period x) = pd_end (fi_period y)
         \<and> set (sel_filing_versions (fi_selection x)) = set (sel_filing_versions (fi_selection y))))
    \<and> (\<not> bal \<longrightarrow> (\<forall>x\<in>set xs. pd_start (fi_period x) \<noteq> None))"
proof -
  have sel: "selection_issues rt xs expected = []"
    and per: "same \<longrightarrow> all_same (map (\<lambda>x. (pd_start (fi_period x), pd_end (fi_period x))) xs)
      \<and> all_same (map (\<lambda>x. sorted_set (sel_filing_versions (fi_selection x))) xs)"
    and flow: "\<not> bal \<longrightarrow> (\<forall>x\<in>set xs. pd_start (fi_period x) \<noteq> None)"
    and each: "\<forall>x\<in>set xs. semantic_scope rt x \<and> statement_family (fi_query x) = expected_family bal (fi_concept x)"
    using assms unfolding source_issues_def append_is_Nil_conv concat_map_Nil_iff
    by (auto simp: list_ex_not_iff split: if_splits)
  have "pd_start (fi_period x) = pd_start (fi_period y) \<and> pd_end (fi_period x) = pd_end (fi_period y)
      \<and> set (sel_filing_versions (fi_selection x)) = set (sel_filing_versions (fi_selection y))"
    if "same" "x \<in> set xs" "y \<in> set xs" for x y
    using all_sameD[OF _ that(2,3)] per that(1) by (metis (no_types, lifting) prod.inject sorted_set_eq_iff)
  then show ?thesis using selection_issues_Nil[OF sel] each flow by blast
qed

lemma issues_Nil_coherent:
  assumes "issues rt same ps expected = []"
  shows "coherent rt (concat (map op_leaves ps))"
  using assms source_issues_Nil unfolding issues_def Let_def by (auto split: if_splits)

lemma all_selected_conv: "list_all is_selected ps \<Longrightarrow> \<exists>xs. ps = map Selected xs"
proof (induction ps)
  case (Cons p ps)
  then obtain xs where "ps = map Selected xs" by auto
  moreover from Cons.prems obtain x where "p = Selected x" by (cases p) auto
  ultimately show ?case by (intro exI[of _ "x # xs"]) simp
qed simp

lemma op_leaves_Selected [simp]: "concat (map op_leaves (map Selected xs)) = xs"
  by (induction xs) auto

text \<open>Without problems every operand has a value.\<close>

lemma issues_Nil_values:
  assumes "issues rt same ps expected = []"
  shows "\<forall>p\<in>set ps. op_value rt p \<noteq> None"
proof (cases "list_all is_selected ps")
  case True
  then obtain xs where xs: "ps = map Selected xs" using all_selected_conv by blast
  have "coherent rt (concat (map op_leaves ps))" using assms by (rule issues_Nil_coherent)
  then have "coherent rt xs" by (simp only: xs op_leaves_Selected)
  then show ?thesis by (auto simp: xs coherent_def fi_amount_value)
next
  case False
  then show ?thesis using assms by (auto simp: issues_def Let_def list_ex_iff)
qed

lemma issues_Nil_concepts:
  assumes "issues rt same ps expected = []"
  shows "map op_concept ps = expected"
proof (cases "list_all is_selected ps")
  case True
  then obtain xs where xs: "ps = map Selected xs" using all_selected_conv by blast
  have "source_issues rt same False xs expected = []"
    using assms True unfolding issues_def Let_def xs op_leaves_Selected by simp
  from source_issues_Nil[OF this] show ?thesis by (simp add: xs comp_def)
next
  case False
  then show ?thesis using assms by (auto simp: issues_def Let_def)
qed

lemma source_issues_same_period:
  assumes "source_issues rt True bal xs expected = []" "x \<in> set xs" "y \<in> set xs"
  shows "pd_start (fi_period x) = pd_start (fi_period y)" "pd_end (fi_period x) = pd_end (fi_period y)"
  using source_issues_Nil[OF assms(1), THEN conjunct2, THEN conjunct2, THEN conjunct2, THEN conjunct1,
      rule_format, OF TrueI assms(2,3)] by - (elim conjE; assumption)+

lemma issues_Nil_periods:
  assumes "issues rt True ps expected = []" "p \<in> set ps" "q \<in> set ps"
  shows "op_start p = op_start q \<and> op_end p = op_end q"
proof (cases "list_all is_selected ps")
  case True
  then obtain xs where xs: "ps = map Selected xs" using all_selected_conv by blast
  have none: "source_issues rt True False xs expected = []"
    using assms(1) True unfolding issues_def Let_def xs op_leaves_Selected by simp
  obtain x y where xy: "p = Selected x" "q = Selected y" "x \<in> set xs" "y \<in> set xs"
    using assms(2,3) unfolding xs by auto
  show ?thesis unfolding xy(1,2) op_start.simps op_end.simps
    by (rule conjI[OF source_issues_same_period[OF none xy(3,4)]])
next
  case False
  then have "all_same (map (\<lambda>p. (op_start p, op_end p)) ps)"
    using assms(1) unfolding issues_def Let_def by simp
  from all_sameD[OF this assms(2,3)] show ?thesis by simp
qed

end
