(* ===== verification/Exact_Sum.thy ===== *)
theory Exact_Sum
  imports Decimal_Laws
begin

text \<open>
  \<open>_exact_sum\<close> of \<open>packages/core/periods.py\<close>: a signed sum in a context that traps every
  inexact result, with a precision chosen from the operands.  The theorem of this theory is that the
  precision is always enough: the sum of at most a thousand supported numbers never traps.
\<close>

definition sum_context :: "nat \<Rightarrow> dctx" where
  "sum_context p = \<lparr>prec = p, rounding_mode = ROUND_HALF_EVEN, Emin = - 9999, Emax = 9999,
     trap_inexact = True, trap_subnormal = False, trap_underflow = False\<rparr>"

definition signed_value :: "dec \<Rightarrow> int \<Rightarrow> dec" where
  "signed_value v k = (if k = 1 then v else copy_negate v)"

definition sum_precision :: "dec list \<Rightarrow> nat" where
  "sum_precision vs = nat (max 50 (Max (set (map adjusted vs)) - Min (set (map dexp vs)) + 4))"

definition exact_sum :: "dec list \<Rightarrow> int list \<Rightarrow> dec option" where
  "exact_sum vs ks =
     (if vs = [] \<or> \<not> list_all within_limits vs \<or> length vs \<noteq> length ks then None
      else dec_sum (sum_context (sum_precision vs)) dec_zero (map2 signed_value vs ks))"

section \<open>When rounding is exact\<close>

lemma dec_fix_fits:
  assumes c: "c \<noteq> 0" and p: "0 < prec ctx" and tiny: "Emin ctx - int (prec ctx) + 1 \<le> e"
    and need: "int (ndigits c) + e - int (prec ctx) \<le> g" and dvd: "10 ^ nat (g - e) dvd c"
    and top: "g \<le> Emax ctx - int (prec ctx) + 1" and sub: "\<not> trap_subnormal ctx" "\<not> trap_underflow ctx"
  shows "\<exists>r. dec_fix ctx s c e False = Some r \<and> e \<le> dexp r
    \<and> dval r = with_sign s (of_nat c * 10 powi e :: 'a::linordered_field)"
proof -
  define n where "n = int (ndigits c) + e - int (prec ctx)"
  show ?thesis
  proof (cases "n \<le> e")
    case True
    then have "\<not> e < max n (Emin ctx - int (prec ctx) + 1)" "\<not> Emax ctx - int (prec ctx) + 1 < n"
      using tiny need top by (simp_all add: n_def)
    then have "dec_fix ctx s c e False = Some (Dec s c e)"
      using c sub unfolding dec_fix_def Let_def n_def[symmetric] by simp
    then show ?thesis by (simp add: dval_Dec with_sign_def)
  next
    case False
    define u where "u = (10::nat) ^ nat (n - e)"
    have n: "e < n" "n \<le> g" using False need by (simp_all add: n_def)
    then have "u dvd 10 ^ nat (g - e)" unfolding u_def by (intro le_imp_power_dvd) simp
    then have ud: "u dvd c" using dvd by (rule dvd_trans)
    have up: "0 < u" by (simp add: u_def)
    have rc: "rounded_coeff ctx s c u False = c div u"
      using ud up by (auto simp: rounded_coeff_def round_up_def split: rounding.splits)
    have "c < 10 ^ ndigits c" by (rule less_10_pow_ndigits)
    also have "ndigits c = prec ctx + nat (n - e)" using n by (simp add: n_def)
    finally have "c div u < 10 ^ prec ctx"
      using up by (simp add: u_def power_add less_mult_imp_div_less)
    then have dig: "\<not> prec ctx < ndigits (c div u)" using p by (simp add: less_ndigits_iff not_le)
    have "dec_fix ctx s c e False = Some (Dec s (c div u) n)"
    proof -
      have "max n (Emin ctx - int (prec ctx) + 1) = n" "\<not> Emax ctx - int (prec ctx) + 1 < n"
        using n tiny top by linarith+
      then show ?thesis
        using c n sub ud dig rc
        unfolding dec_fix_def Let_def n_def[symmetric] by (simp add: u_def[symmetric] mod_eq_0_iff_dvd)
    qed
    moreover have "of_nat (c div u) * 10 powi n = (of_nat c * 10 powi e :: 'a)"
    proof -
      have "(10 powi n :: 'a) = 10 powi e * of_nat u"
        using ten_powi_diff[of e n, where 'a='a] n by (simp add: u_def)
      then have "of_nat (c div u) * 10 powi n = (of_nat (c div u * u) * 10 powi e :: 'a)"
        by (simp add: algebra_simps)
      with ud show ?thesis by simp
    qed
    ultimately show ?thesis using n by (simp add: dval_Dec with_sign_def mult.assoc)
  qed
qed

lemma ndigits_times_power: "0 < k \<Longrightarrow> ndigits (k * 10 ^ j) = ndigits k + j"
proof (induction j)
  case (Suc j)
  have "ndigits (k * 10 ^ Suc j) = Suc (ndigits (k * 10 ^ Suc j div 10))"
    using Suc.prems by (subst ndigits.simps) (simp add: Suc_leI)
  with Suc show ?case by simp
qed simp

lemma with_sign_int: "with_sign (i < 0) (of_nat (nat \<bar>i\<bar>) * w) = (of_int i * w :: 'a::linordered_field)"
  by (simp add: with_sign_def)

lemma scale_cancel:
  assumes "(of_int i * 10 powi m :: rat) = of_int K * 10 powi g" "m \<le> g"
  shows "i = K * 10 ^ nat (g - m)"
proof -
  have "(of_int i * 10 powi m :: rat) = of_int (K * 10 ^ nat (g - m)) * 10 powi m"
    using assms ten_powi_diff[of m g, where 'a=rat] by (simp add: mult.assoc mult.left_commute mult.commute)
  then have "(of_int i :: rat) = of_int (K * 10 ^ nat (g - m))" by (simp only: mult_right_cancel[OF ten_powi_pos[THEN less_imp_neq, symmetric]])
  then show ?thesis by (simp only: of_int_eq_iff)
qed

text \<open>A sum that is a multiple of \<open>10 ^ g\<close> with few enough digits is computed exactly.\<close>

lemma dec_add_fits:
  assumes val: "dval a + dval b = (of_int K * 10 powi g :: rat)" and K: "\<bar>K\<bar> < 10 ^ prec ctx"
    and p: "0 < prec ctx" and tiny: "Emin ctx - int (prec ctx) + 1 \<le> min (dexp a) (dexp b)"
    and le: "min (dexp a) (dexp b) \<le> Emax ctx"
    and top: "g \<le> Emax ctx - int (prec ctx) + 1" and sub: "\<not> trap_subnormal ctx" "\<not> trap_underflow ctx"
  shows "\<exists>r. dec_add ctx a b = Some r \<and> dval r = (of_int K * 10 powi g :: rat) \<and> min (dexp a) (dexp b) \<le> dexp r"
proof -
  let ?m = "min (dexp a) (dexp b)"
  let ?i = "aligned ?m a + aligned ?m b"
  have i: "(of_int ?i * 10 powi ?m :: rat) = of_int K * 10 powi g"
    using val dval_aligned[of ?m a, where 'a=rat] dval_aligned[of ?m b, where 'a=rat] by (simp add: algebra_simps)
  show ?thesis
  proof (cases "?i = 0")
    case True
    with i have "K = 0" by simp
    with True tiny le show ?thesis by (auto simp: dec_add_def Let_def dec_fix_def)
  next
    case False
    define c where "c = nat \<bar>?i\<bar>"
    have c: "c \<noteq> 0" using False by (simp add: c_def)
    have fit: "int (ndigits c) + ?m - int (prec ctx) \<le> g \<and> 10 ^ nat (g - ?m) dvd c"
    proof (cases "?m \<le> g")
      case True
      have eq: "?i = K * 10 ^ nat (g - ?m)" by (rule scale_cancel[OF i True])
      then have cK: "c = nat \<bar>K\<bar> * 10 ^ nat (g - ?m)" by (simp add: c_def abs_mult nat_mult_distrib nat_power_eq)
      have "0 < nat \<bar>K\<bar>" using c cK by (cases "K = 0") auto
      then have "ndigits c = ndigits (nat \<bar>K\<bar>) + nat (g - ?m)" unfolding cK by (rule ndigits_times_power)
      moreover have "ndigits (nat \<bar>K\<bar>) \<le> prec ctx" using K p by (simp add: ndigits_le_iff nat_less_iff)
      ultimately show ?thesis using True cK by simp
    next
      case gm: False
      have "K = ?i * 10 ^ nat (?m - g)" by (rule scale_cancel[OF i[symmetric]]) (use gm in linarith)
      then have "nat \<bar>K\<bar> = c * 10 ^ nat (?m - g)" by (simp add: c_def abs_mult nat_mult_distrib nat_power_eq)
      then have "ndigits (nat \<bar>K\<bar>) = ndigits c + nat (?m - g)" using c by (simp add: ndigits_times_power)
      moreover have "ndigits (nat \<bar>K\<bar>) \<le> prec ctx" using K p by (simp add: ndigits_le_iff nat_less_iff)
      moreover have "nat (g - ?m) = 0" using gm by linarith
      ultimately show ?thesis using gm by (intro conjI) (linarith, simp)
    qed
    obtain r where "dec_fix ctx (?i < 0) c ?m False = Some r" "?m \<le> dexp r"
      "dval r = with_sign (?i < 0) (of_nat c * 10 powi ?m :: rat)"
      using dec_fix_fits[OF c p tiny conjunct1[OF fit] conjunct2[OF fit] top sub] by blast
    moreover have "with_sign (?i < 0) (of_nat c * 10 powi ?m :: rat) = of_int ?i * 10 powi ?m"
      unfolding c_def by (rule with_sign_int)
    ultimately show ?thesis using False i by (auto simp: dec_add_def Let_def c_def)
  qed
qed

section \<open>The sum never traps\<close>

lemma dec_sum_fits:
  assumes "dval acc = (of_int A * 10 powi g :: rat)" "\<forall>v\<in>set vs. g \<le> dexp v"
    "\<bar>A\<bar> + (\<Sum>v\<leftarrow>vs. \<bar>aligned g v\<bar>) < 10 ^ prec ctx"
    and p: "0 < prec ctx" and acc: "Emin ctx - int (prec ctx) + 1 \<le> dexp acc" "dexp acc \<le> Emax ctx \<or> (\<forall>v\<in>set vs. dexp v \<le> Emax ctx)"
    and "\<forall>v\<in>set vs. Emin ctx - int (prec ctx) + 1 \<le> dexp v \<and> dexp v \<le> Emax ctx"
    and top: "g \<le> Emax ctx - int (prec ctx) + 1" and sub: "\<not> trap_subnormal ctx" "\<not> trap_underflow ctx"
  shows "\<exists>r. dec_sum ctx acc vs = Some r \<and> dval r = (dval acc + (\<Sum>v\<leftarrow>vs. dval v) :: rat)"
  using assms(1-3) acc assms(7)
proof (induction vs arbitrary: acc A)
  case Nil
  then show ?case by simp
next
  case (Cons v vs)
  have v: "dval v = (of_int (aligned g v) * 10 powi g :: rat)" using Cons.prems by (intro dval_aligned) simp
  have sum: "dval acc + dval v = (of_int (A + aligned g v) * 10 powi g :: rat)"
    using Cons.prems(1) v by (simp add: algebra_simps)
  have "0 \<le> (\<Sum>v\<leftarrow>vs. \<bar>aligned g v\<bar>)" by (rule sum_list_nonneg) auto
  then have small: "\<bar>A + aligned g v\<bar> < 10 ^ prec ctx" using Cons.prems(3) by simp
  obtain r where r: "dec_add ctx acc v = Some r" "dval r = (of_int (A + aligned g v) * 10 powi g :: rat)"
    "min (dexp acc) (dexp v) \<le> dexp r"
    using dec_add_fits[OF sum small p _ _ top sub] Cons.prems by (auto simp: min_le_iff_disj)
  have "\<exists>r'. dec_sum ctx r vs = Some r' \<and> dval r' = (dval r + (\<Sum>v\<leftarrow>vs. dval v) :: rat)"
    by (rule Cons.IH[OF r(2)]) (use Cons.prems r(3) in auto)
  with r sum show ?case by (auto simp: algebra_simps)
qed

lemma within_limits_exponents: "within_limits v \<Longrightarrow> - 1000 \<le> dexp v \<and> dexp v \<le> 1000 \<and> adjusted v \<le> 1000"
  by (auto simp: within_limits_def)

lemma aligned_bound:
  assumes "g \<le> dexp v" "adjusted v \<le> cap"
  shows "\<bar>aligned g v\<bar> < 10 ^ nat (cap + 1 - g)"
proof -
  have "dcoeff v * 10 ^ nat (dexp v - g) < 10 ^ ndigits (dcoeff v) * 10 ^ nat (dexp v - g)"
    using less_10_pow_ndigits by simp
  also have "\<dots> = (10::nat) ^ (ndigits (dcoeff v) + nat (dexp v - g))" by (simp add: power_add)
  also have "\<dots> \<le> 10 ^ nat (cap + 1 - g)"
    using assms by (intro power_increasing) (simp_all add: adjusted_def)
  finally have "int (dcoeff v * 10 ^ nat (dexp v - g)) < int (10 ^ nat (cap + 1 - g))"
    by (simp only: of_nat_less_iff)
  then show ?thesis by (simp add: aligned_def abs_mult dint_def)
qed

lemma sum_list_abs_bound:
  fixes B :: int
  assumes "\<forall>x\<in>set xs. f x < B" "xs \<noteq> []"
  shows "(\<Sum>x\<leftarrow>xs. f x) < int (length xs) * B"
  using assms
proof (induction xs)
  case (Cons x xs)
  then show ?case by (cases "xs = []") (auto simp: algebra_simps)
qed simp

lemma dexp_signed_value [simp]: "dexp (signed_value v k) = dexp v"
  by (simp add: signed_value_def copy_negate_def)

lemma adjusted_signed_value [simp]: "adjusted (signed_value v k) = adjusted v"
  by (simp add: signed_value_def copy_negate_def adjusted_def)

lemma dval_signed_value:
  "k = 1 \<or> k = - 1 \<Longrightarrow> dval (signed_value v k) = (of_int k * dval v :: 'a::linordered_field)"
  by (auto simp: signed_value_def)

lemma exact_sum_defined:
  assumes lim: "list_all within_limits vs" "vs \<noteq> []" "length vs \<le> 1000" and len: "length vs = length ks"
  shows "\<exists>r. exact_sum vs ks = Some r \<and> dval r = (\<Sum>v\<leftarrow>map2 signed_value vs ks. dval v :: rat)"
proof -
  define g0 where "g0 = Min (set (map dexp vs))"
  define t where "t = Max (set (map adjusted vs))"
  define p where "p = sum_precision vs"
  let ?ws = "map2 signed_value vs ks"
  have p: "p = nat (max 50 (t - g0 + 4))" by (simp add: p_def sum_precision_def t_def g0_def)
  have in_range: "g0 \<le> dexp w" "adjusted w \<le> t" "within_limits v"
    if "w \<in> set ?ws" "w = signed_value v k" "v \<in> set vs" for w v k
    using that lim(1) by (auto simp: g0_def t_def list_all_iff)
  have mem: "\<exists>v k. w = signed_value v k \<and> v \<in> set vs" if "w \<in> set ?ws" for w
    using that by (auto dest: set_zip_leftD)
  have ws: "g0 \<le> dexp w" "adjusted w \<le> t" "- 1000 \<le> dexp w" "dexp w \<le> 1000" if "w \<in> set ?ws" for w
    using mem[OF that] in_range[OF that] within_limits_exponents by fastforce+
  have g0_mem: "g0 \<in> set (map dexp vs)" "t \<in> set (map adjusted vs)"
    unfolding g0_def t_def using lim(2) by (auto intro: Min_in Max_in)
  then have g0: "- 1000 \<le> g0" "g0 \<le> 1000" "t \<le> 1000"
    using lim(1) within_limits_exponents by (auto simp: list_all_iff)
  have "g0 \<le> t" 
  proof -
    obtain v where "v \<in> set vs" "g0 = dexp v" using g0_mem(1) by auto
    moreover from this have "adjusted v \<le> t" by (simp add: t_def)
    moreover have "dexp v \<le> adjusted v" using ndigits_pos[of "dcoeff v"] unfolding adjusted_def by linarith
    ultimately show ?thesis by linarith
  qed
  have pb: "t - g0 + 4 \<le> int p" "0 < p" "p \<le> 2004" using p g0 by auto
  have bound: "\<forall>w\<in>set ?ws. \<bar>aligned g0 w\<bar> < 10 ^ nat (t + 1 - g0)"
    using ws by (auto intro: aligned_bound)
  have "?ws \<noteq> []" "length ?ws \<le> 1000" using lim len by auto
  then have "(\<Sum>w\<leftarrow>?ws. \<bar>aligned g0 w\<bar>) < int (length ?ws) * 10 ^ nat (t + 1 - g0)"
    using sum_list_abs_bound[OF bound] by blast
  also have "\<dots> \<le> 1000 * 10 ^ nat (t + 1 - g0)" using \<open>length ?ws \<le> 1000\<close> by (intro mult_right_mono) simp_all
  also have "\<dots> = 10 ^ (nat (t + 1 - g0) + 3)" by (simp add: power_add)
  also have "\<dots> \<le> 10 ^ p" using pb \<open>g0 \<le> t\<close> by (intro power_increasing) auto
  finally have total: "\<bar>0\<bar> + (\<Sum>w\<leftarrow>?ws. \<bar>aligned g0 w\<bar>) < 10 ^ prec (sum_context p)" by (simp add: sum_context_def)
  have "\<exists>r. dec_sum (sum_context p) dec_zero ?ws = Some r \<and> dval r = (dval dec_zero + (\<Sum>v\<leftarrow>?ws. dval v) :: rat)"
  proof (rule dec_sum_fits[OF _ _ total])
    show "\<forall>v\<in>set ?ws. g0 \<le> dexp v" using ws(1) by blast
    show "\<forall>v\<in>set ?ws. Emin (sum_context p) - int (prec (sum_context p)) + 1 \<le> dexp v \<and> dexp v \<le> Emax (sum_context p)"
    proof
      fix v assume "v \<in> set ?ws"
      with ws(3,4) have "- 1000 \<le> dexp v" "dexp v \<le> 1000" by blast+
      then show "Emin (sum_context p) - int (prec (sum_context p)) + 1 \<le> dexp v \<and> dexp v \<le> Emax (sum_context p)"
        by (simp add: sum_context_def)
    qed
  qed (use pb g0 in \<open>simp_all add: sum_context_def dec_zero_def\<close>)
  then show ?thesis using lim len by (simp add: exact_sum_def p_def)
qed

lemma signed_sum_value:
  assumes "length vs = length ks" "\<forall>k\<in>set ks. k = 1 \<or> k = - 1"
  shows "(\<Sum>v\<leftarrow>map2 signed_value vs ks. dval v :: 'a::linordered_field) = (\<Sum>(v, k)\<leftarrow>zip vs ks. of_int k * dval v)"
  using assms by (induction vs ks rule: list_induct2) (auto simp: dval_signed_value)

lemma dec_sum_exact:
  assumes "dec_sum ctx acc vs = Some r" "trap_inexact ctx" "0 < prec ctx"
  shows "dval r = (dval acc + (\<Sum>v\<leftarrow>vs. dval v) :: 'a::linordered_field)"
  using assms(1)
proof (induction vs arbitrary: acc)
  case (Cons v vs)
  then obtain a where a: "dec_add ctx acc v = Some a" "dec_sum ctx a vs = Some r" by (auto split: option.splits)
  have "dval a = (dval acc + dval v :: 'a)"
    using dec_add_rounds_to[OF a(1) assms(3), where 'a='a] assms(2) by (simp add: rounds_to_def)
  with Cons.IH[OF a(2)] show ?case by simp
qed simp

lemma exact_sum_value:
  assumes "exact_sum vs ks = Some r" "\<forall>k\<in>set ks. k = 1 \<or> k = - 1"
  shows "dval r = (\<Sum>(v, k)\<leftarrow>zip vs ks. of_int k * dval v :: 'a::linordered_field)"
proof -
  have len: "length vs = length ks"
    and sum: "dec_sum (sum_context (sum_precision vs)) dec_zero (map2 signed_value vs ks) = Some r"
    using assms(1) by (auto simp: exact_sum_def split: if_splits)
  have "0 < prec (sum_context (sum_precision vs))" by (simp add: sum_context_def sum_precision_def)
  from dec_sum_exact[OF sum _ this, where 'a='a] signed_sum_value[OF len assms(2), where 'a='a]
  show ?thesis by (simp add: sum_context_def)
qed

end
