(* ===== verification/Periods.thy ===== *)
theory Periods
  imports Operands Exact_Sum
begin

text \<open>
  \<open>packages/core/periods.py\<close>: annual, trailing-twelve-month and quarterly amounts assembled from
  selected inputs by exact signed sums.  An amount has a value only when no problem was found.
\<close>

section \<open>Operations\<close>

definition supported_flows :: "concept list" where
  "supported_flows = [REVENUE, COST_OF_REVENUE, GROSS_PROFIT, OPERATING_INCOME, NET_INCOME_CONSOLIDATED,
     CASH_FROM_OPERATING_ACTIVITIES, CAPITAL_EXPENDITURES_PPE]"

definition month_span :: "financial_input \<Rightarrow> int option" where
  "month_span x =
     (case pd_start (fi_period x) of
        None \<Rightarrow> None
      | Some s \<Rightarrow>
          let e = pd_end (fi_period x) in
          if period_kind (fi_period x) \<noteq> ''duration'' \<or> e < s \<or> dy s \<noteq> 1 \<or> \<not> month_end e then None
          else Some (months_between s e))"

definition period_problems :: "runtime \<Rightarrow> financial_input list \<Rightarrow> flag list" where
  "period_problems rt xs =
     issues rt False (map Selected xs) (replicate (length xs) (fi_concept (hd xs)))
     @ flag_if (list_ex (\<lambda>x. fi_concept x \<notin> set supported_flows) xs) ''unsupported_period_concept''
     @ flag_if (list_ex (\<lambda>x. fi_concept x = CAPITAL_EXPENDITURES_PPE
                   \<and> (case fi_amount rt x of None \<Rightarrow> False | Some v \<Rightarrow> dec_lt v dec_zero)) xs)
         ''negative_cash_ppe_capex''
     @ flag_if (\<not> all_same (map (\<lambda>x. (sc_id (fi_scope x), content_sha256 (fi_scope x))) xs))
         ''incompatible_period_scope''
     @ flag_if (\<not> distinct (concat (map (\<lambda>x. case fi_fact x of None \<Rightarrow> [] | Some f \<Rightarrow> f_observations f) xs)))
         ''duplicate_period_observation''"

definition annual_amount :: "runtime \<Rightarrow> financial_input \<Rightarrow> fiscal_calendar option \<Rightarrow> period_amount" where
  "annual_amount rt x cal =
     (let annual = (case cal of
                      None \<Rightarrow> month_span x = Some 12
                    | Some c \<Rightarrow> (case fc_match c True x of None \<Rightarrow> False | Some (_, q) \<Rightarrow> q = 4));
          problems = period_problems rt [x]
            @ (case cal of None \<Rightarrow> [] | Some c \<Rightarrow> fc_problems c [x])
            @ flag_if (\<not> annual) ''unsupported_annual_period'' in
      \<lparr>pa_value = (if problems \<noteq> [] then None else fi_amount rt x), pa_operands = [x],
       pa_coefficients = [1],
       pa_period = \<lparr>pw_start = pd_start (fi_period x), pw_end = pd_end (fi_period x), pw_kind = ''duration''\<rparr>,
       pa_precision = fi_precision x, pa_flags = sorted_set (fi_flags rt x @ problems),
       pa_formula = ''direct_annual'', pa_formula_revision = ''s5-period-amounts-v1'',
       pa_compatibility = None, pa_calendar = cal\<rparr>)"

definition combined_precision :: "precision_evidence list \<Rightarrow> precision_evidence option" where
  "combined_precision ps =
     (case exact_sum (map absolute_error ps) (replicate (length ps) 1) of
        None \<Rightarrow> None
      | Some err \<Rightarrow>
          (case mk_precision (Finite err) (sorted_set (concat (map pe_observations ps)))
                  (sorted_set (concat (map pe_refs ps))) ''sum_absolute_errors:s5-period-amounts-v1'' of
             Inl _ \<Rightarrow> None
           | Inr p \<Rightarrow> Some p))"

text \<open>The body of the \<open>try\<close> block: the value and the precision, or an exception.\<close>

definition assembled_value ::
  "runtime \<Rightarrow> financial_input list \<Rightarrow> int list \<Rightarrow> (dec \<times> precision_evidence option) option" where
  "assembled_value rt xs ks =
     (let precisions = List.map_filter fi_precision xs in
      case exact_sum (List.map_filter (fi_amount rt) xs) ks of
        None \<Rightarrow> None
      | Some v \<Rightarrow>
          if length precisions = length xs
          then (case combined_precision precisions of None \<Rightarrow> None | Some p \<Rightarrow> Some (v, Some p))
          else Some (v, None))"

definition assemble ::
  "runtime \<Rightarrow> financial_input list \<Rightarrow> int list \<Rightarrow> period_window \<Rightarrow> string \<Rightarrow> flag list
     \<Rightarrow> revision_compatibility option \<Rightarrow> fiscal_calendar option \<Rightarrow> period_amount" where
  "assemble rt xs ks window formula problems rc cal =
     (let computed = (if problems = [] then assembled_value rt xs ks else None);
          value0 = map_option fst computed;
          negative = (fi_concept (hd xs) = CAPITAL_EXPENDITURES_PPE
                      \<and> (case value0 of None \<Rightarrow> False | Some v \<Rightarrow> dec_lt v dec_zero)) in
      \<lparr>pa_value = (if negative then None else value0), pa_operands = xs, pa_coefficients = ks,
       pa_period = window, pa_precision = Option.bind computed snd,
       pa_flags = sorted_set (problems @ concat (map (fi_flags rt) xs)
         @ flag_if (problems = [] \<and> computed = None) ''unsupported_numeric_range''
         @ flag_if negative ''negative_cash_ppe_capex''),
       pa_formula = formula, pa_formula_revision = ''s5-period-amounts-v1'',
       pa_compatibility = rc, pa_calendar = cal\<rparr>)"

definition revision_problems :: "financial_input list \<Rightarrow> revision_compatibility option \<Rightarrow> flag list" where
  "revision_problems xs proof =
     (case proof of
        Some r \<Rightarrow>
          flag_if (set (rc_input_hashes r) \<noteq> set (map (\<lambda>x. input_hash (fi_selection x)) xs))
            ''revision_compatibility_mismatch''
      | None \<Rightarrow>
          flag_if (\<not> all_same (map (\<lambda>x. sel_filing_versions (fi_selection x)) xs))
            ''revision_compatibility_unproven'')"

definition calendar_problems :: "fiscal_calendar option \<Rightarrow> financial_input list \<Rightarrow> flag list" where
  "calendar_problems cal xs = (case cal of None \<Rightarrow> [] | Some c \<Rightarrow> fc_problems c xs)"

definition quarter_period :: "fiscal_calendar option \<Rightarrow> financial_input \<Rightarrow> bool" where
  "quarter_period cal x =
     (case cal of
        Some c \<Rightarrow> fc_match c False x \<noteq> None
      | None \<Rightarrow>
          month_span x = Some 3
          \<and> (case pd_start (fi_period x) of None \<Rightarrow> False | Some s \<Rightarrow> mo s \<in> {1, 4, 7, 10}))"

definition follows :: "financial_input \<Rightarrow> financial_input \<Rightarrow> bool" where
  "follows l r =
     (case pd_start (fi_period r) of
        None \<Rightarrow> False
      | Some s \<Rightarrow> toordinal (pd_end (fi_period l)) + 1 = toordinal s)"

definition ttm_from_quarters ::
  "runtime \<Rightarrow> financial_input list \<Rightarrow> revision_compatibility option \<Rightarrow> fiscal_calendar option
     \<Rightarrow> period_amount result" where
  "ttm_from_quarters rt xs rc cal =
     (if xs = [] then Inl ValueError
      else
        let problems = period_problems rt xs @ revision_problems xs rc
              @ flag_if (length xs \<noteq> 4) ''four_quarters_required''
              @ calendar_problems cal xs
              @ flag_if (list_ex (\<lambda>x. \<not> quarter_period cal x) xs) ''unsupported_quarter_period'';
            contiguous = flag_if (problems = [] \<and> list_ex (\<lambda>(l, r). \<not> follows l r) (zip xs (tl xs)))
              ''noncontiguous_quarters'' in
        Inr (assemble rt xs (replicate (length xs) 1)
               \<lparr>pw_start = pd_start (fi_period (hd xs)), pw_end = pd_end (fi_period (last xs)),
                pw_kind = ''duration''\<rparr>
               ''sum_four_quarters'' (problems @ contiguous) rc cal))"

definition ytd_pair :: "fiscal_calendar option \<Rightarrow> financial_input \<Rightarrow> financial_input \<Rightarrow> bool" where
  "ytd_pair cal current prior =
     (case cal of
        None \<Rightarrow>
          (case (month_span current, month_span prior) of
             (Some c, Some p) \<Rightarrow>
               c \<in> {6, 9, 12} \<and> p \<in> {3, 6, 9} \<and> c - p = 3
               \<and> pd_start (fi_period current) = pd_start (fi_period prior)
           | _ \<Rightarrow> False)
      | Some cl \<Rightarrow>
          (case (fc_match cl True current, fc_match cl True prior) of
             (Some (cy, cq), Some (py, pq)) \<Rightarrow> cy = py \<and> cq = pq + 1
           | _ \<Rightarrow> False))"

definition quarter_from_ytd ::
  "runtime \<Rightarrow> financial_input \<Rightarrow> financial_input \<Rightarrow> fiscal_calendar option \<Rightarrow> period_amount" where
  "quarter_from_ytd rt current prior cal =
     (let xs = [current, prior]; valid = ytd_pair cal current prior;
          problems = period_problems rt xs @ calendar_problems cal xs
            @ flag_if (\<not> valid) ''incompatible_ytd_periods''
            @ flag_if (sel_filing_versions (fi_selection current) \<noteq> sel_filing_versions (fi_selection prior))
                ''incompatible_filing_editions'' in
      assemble rt xs [1, - 1]
        \<lparr>pw_start = (if valid then Some (next_day (pd_end (fi_period prior))) else None),
         pw_end = pd_end (fi_period current), pw_kind = ''duration''\<rparr>
        ''ytd_difference'' problems None cal)"

definition annual_ytd :: "fiscal_calendar option \<Rightarrow> financial_input \<Rightarrow> financial_input \<Rightarrow> financial_input \<Rightarrow> bool" where
  "annual_ytd cal annual current prior =
     (case cal of
        None \<Rightarrow>
          month_span annual = Some 12 \<and> month_span current \<in> {Some 3, Some 6, Some 9}
          \<and> month_span prior = month_span current
          \<and> pd_start (fi_period prior) = pd_start (fi_period annual)
          \<and> pd_end (fi_period annual) < date_max
          \<and> pd_start (fi_period current) = Some (next_day (pd_end (fi_period annual)))
      | Some cl \<Rightarrow>
          (case (fc_match cl True annual, fc_match cl True current, fc_match cl True prior) of
             (Some (ay, aq), Some (cy, cq), Some (py, pq)) \<Rightarrow>
               aq = 4 \<and> ay = py \<and> cy = ay + 1 \<and> cq = pq \<and> cq \<in> {1, 2, 3} \<and> follows annual current
           | _ \<Rightarrow> False))"

definition ttm_from_annual_ytd ::
  "runtime \<Rightarrow> financial_input \<Rightarrow> financial_input \<Rightarrow> financial_input \<Rightarrow> revision_compatibility option
     \<Rightarrow> fiscal_calendar option \<Rightarrow> period_amount" where
  "ttm_from_annual_ytd rt annual current prior rc cal =
     (let xs = [annual, current, prior]; valid = annual_ytd cal annual current prior;
          problems = period_problems rt xs @ revision_problems xs rc @ calendar_problems cal xs
            @ flag_if (\<not> valid) ''incompatible_annual_ytd_periods'' in
      assemble rt xs [1, 1, - 1]
        \<lparr>pw_start = (if valid then Some (next_day (pd_end (fi_period prior))) else None),
         pw_end = pd_end (fi_period current), pw_kind = ''duration''\<rparr>
        ''annual_ytd_bridge'' problems rc cal)"

section \<open>What a present value says\<close>

definition amounts :: "runtime \<Rightarrow> financial_input list \<Rightarrow> rat list" where
  "amounts rt xs = map (\<lambda>x. dval (the (fi_amount rt x))) xs"

lemma period_problems_Nil:
  assumes "period_problems rt xs = []"
  shows "coherent rt xs \<and> (\<forall>x\<in>set xs. fi_concept x = fi_concept (hd xs) \<and> fi_concept x \<in> set supported_flows)"
proof -
  let ?e = "replicate (length xs) (fi_concept (hd xs))"
  have i: "issues rt False (map Selected xs) ?e = []" and s: "\<forall>x\<in>set xs. fi_concept x \<in> set supported_flows"
    using assms unfolding period_problems_def by (auto simp: list_ex_iff)
  have "coherent rt xs" using issues_Nil_coherent[OF i] by (simp only: op_leaves_Selected)
  moreover have "map fi_concept xs = ?e" using issues_Nil_concepts[OF i] by (simp add: comp_def)
  then have "\<forall>x\<in>set xs. fi_concept x = fi_concept (hd xs)"
    by (metis (no_types, lifting) in_set_replicate list.set_map imageI)
  ultimately show ?thesis using s by blast
qed

lemma coherent_amounts:
  assumes "coherent rt xs"
  shows "List.map_filter (fi_amount rt) xs = map (\<lambda>x. the (fi_amount rt x)) xs"
proof -
  have "\<forall>x\<in>set xs. fi_amount rt x \<noteq> None" using assms by (auto simp: coherent_def fi_amount_value)
  then show ?thesis by (induction xs) (auto simp: List.map_filter_simps)
qed

lemma assemble_value:
  assumes "pa_value (assemble rt xs ks w fm ps rc cal) = Some v"
  shows "ps = [] \<and> exact_sum (List.map_filter (fi_amount rt) xs) ks = Some v"
proof -
  have "ps = []" using assms by (auto simp: assemble_def Let_def split: if_splits)
  moreover have "\<exists>p. assembled_value rt xs ks = Some (v, p)"
    using assms \<open>ps = []\<close> by (auto simp: assemble_def Let_def split: if_splits)
  ultimately show ?thesis by (auto simp: assembled_value_def Let_def split: option.splits if_splits)
qed

lemma assemble_exact:
  assumes "pa_value (assemble rt xs ks w fm (period_problems rt xs @ ps) rc cal) = Some v"
    and "\<forall>k\<in>set ks. k = 1 \<or> k = - 1"
  shows "coherent rt xs \<and> ps = [] \<and> dval v = (\<Sum>(a, k)\<leftarrow>zip (amounts rt xs) ks. of_int k * a)"
proof -
  have none: "period_problems rt xs = []" "ps = []" and sum: "exact_sum (List.map_filter (fi_amount rt) xs) ks = Some v"
    using assemble_value[OF assms(1)] by auto
  have coh: "coherent rt xs" using period_problems_Nil[OF none(1)] by blast
  have "exact_sum (map (\<lambda>x. the (fi_amount rt x)) xs) ks = Some v" using sum by (simp only: coherent_amounts[OF coh])
  from exact_sum_value[OF this assms(2), where 'a=rat] coh none(2) show ?thesis
    by (simp add: amounts_def zip_map1 comp_def case_prod_beta)
qed

lemma assemble_fields [simp]:
  "pa_period (assemble rt xs ks w fm ps rc cal) = w" "pa_operands (assemble rt xs ks w fm ps rc cal) = xs"
  "pa_coefficients (assemble rt xs ks w fm ps rc cal) = ks"
  by (simp_all add: assemble_def Let_def)

text \<open>No value is withheld without a reason: with no problem and supported numbers the sum exists.\<close>

lemma assembled_value_exists:
  assumes "coherent rt xs" "xs \<noteq> []" "length xs \<le> 1000" "length xs = length ks"
    and "\<forall>x\<in>set xs. within_limits (the (fi_amount rt x))" "\<forall>x\<in>set xs. fi_precision x = None"
  shows "\<exists>v. assembled_value rt xs ks = Some (v, None)"
proof -
  have "\<exists>r. exact_sum (map (\<lambda>x. the (fi_amount rt x)) xs) ks = Some r"
    using exact_sum_defined[of "map (\<lambda>x. the (fi_amount rt x)) xs" ks] assms by (auto simp: list_all_iff)
  moreover have "List.map_filter fi_precision xs = []"
    using assms(6) by (induction xs) (auto simp: List.map_filter_simps)
  ultimately show ?thesis using assms(2) coherent_amounts[OF assms(1)] by (auto simp: assembled_value_def)
qed

section \<open>Windows\<close>

definition month_index :: "date \<Rightarrow> int" where
  "month_index d = 12 * int (yr d) + int (mo d)"

lemma months_between_index: "months_between a b = month_index b - month_index a + 1"
  by (simp add: months_between_def month_index_def)

lemma month_index_next: "month_end d \<Longrightarrow> month_index (next_day d) = month_index d + 1"
  by (simp add: month_index_def next_day_def)

lemma month_span_SomeD:
  assumes "month_span x = Some n"
  obtains s where "pd_start (fi_period x) = Some s" "month_end (pd_end (fi_period x))" "dy s = 1"
    "s \<le> pd_end (fi_period x)" "n = months_between s (pd_end (fi_period x))"
  using assms by (auto simp: month_span_def Let_def not_less split: option.splits if_splits)

definition valid_period :: "financial_input \<Rightarrow> bool" where
  "valid_period x \<longleftrightarrow> valid_date (pd_end (fi_period x)) \<and> (\<forall>s. pd_start (fi_period x) = Some s \<longrightarrow> valid_date s)"

lemma follows_next_day:
  assumes "follows l r" "valid_period l" "valid_period r"
  shows "pd_start (fi_period r) = Some (next_day (pd_end (fi_period l)))"
proof -
  obtain s where s: "pd_start (fi_period r) = Some s" "toordinal (pd_end (fi_period l)) + 1 = toordinal s"
    using assms(1) by (auto simp: follows_def split: option.splits)
  have v: "valid_date (pd_end (fi_period l))" "valid_date s" using assms s by (auto simp: valid_period_def)
  have "pd_end (fi_period l) \<noteq> date_max"
  proof
    assume "pd_end (fi_period l) = date_max"
    then have "toordinal date_max < toordinal s" "valid_date date_max" using s(2) v by auto
    then have "date_max < s" using toordinal_less_iff v(2) by blast
    then show False using valid_le_date_max[OF v(2)] by simp
  qed
  with toordinal_Suc_iff[OF v] s show ?thesis by simp
qed

lemma contiguous_months:
  assumes "\<forall>x\<in>set (x0 # xs). month_span x = Some 3 \<and> valid_period x"
    and "list_all (\<lambda>(l, r). follows l r) (zip (x0 # xs) xs)" "pd_start (fi_period x0) = Some s"
  shows "months_between s (pd_end (fi_period (last (x0 # xs)))) = 3 * int (length (x0 # xs))"
  using assms
proof (induction xs arbitrary: x0 s)
  case Nil
  then show ?case by (auto elim: month_span_SomeD)
next
  case (Cons x1 xs)
  have span: "month_span x0 = Some 3" using Cons.prems by simp
  then have x0: "month_end (pd_end (fi_period x0))" "months_between s (pd_end (fi_period x0)) = 3"
    using Cons.prems(3) by (auto elim: month_span_SomeD)
  have nxt: "pd_start (fi_period x1) = Some (next_day (pd_end (fi_period x0)))"
    using Cons.prems by (intro follows_next_day) auto
  have "months_between (next_day (pd_end (fi_period x0))) (pd_end (fi_period (last (x1 # xs)))) = 3 * int (length (x1 # xs))"
    using Cons.prems by (intro Cons.IH[OF _ _ nxt]) auto
  with x0 show ?case by (simp add: months_between_index month_index_next)
qed

end
