(* ===== verification/Samples.thy ===== *)
theory Samples
  imports Periods "HOL-Library.Code_Target_Numeral"
begin

text \<open>
  A small body of evidence on which the guarantees are exercised: a runtime with constant library
  functions, and inputs of one issuer with complete provenance.
\<close>

definition hex64 :: "char \<Rightarrow> string" where
  "hex64 c = replicate 64 c"

definition sample_descriptor :: "string \<Rightarrow> json" where
  "sample_descriptor payment = JObject
     [(''consolidation'', JString ''consolidated''), (''instrument'', JNull),
      (''context_knowledge'', JString ''reviewed''), (''scope_evidence'', JString ''note 1''),
      (''cash_scope'', JString ''not_applicable''), (''payment_basis'', JString payment),
      (''revenue_basis'', JString ''reported_complete_scope'')]"

definition sample_rt :: runtime where
  "sample_rt = \<lparr>json_loads = (\<lambda>s. Some (sample_descriptor (if s = ''cash'' then ''actual_cash_payment'' else ''as_reported''))),
     sha256_hex = (\<lambda>_. hex64 (CHR ''a'')),
     urlsplit = (\<lambda>_. Some \<lparr>url_scheme = ''https'', url_hostname = Some ''sec.gov'', url_username = None, url_password = None\<rparr>),
     uuid_text = (\<lambda>_. [])\<rparr>"

definition sample_unit :: unit_spec where
  "sample_unit = \<lparr>ut_id = 3, unit_key = ''USD'', numerator_measures = [''iso4217:USD''], denominator_measures = []\<rparr>"

definition sample_scope :: "concept \<Rightarrow> scope_spec" where
  "sample_scope k = \<lparr>sc_id = 4, sc_issuer = 1, sc_instrument = None, scope_kind = ''consolidated'',
     descriptor_schema_version = 1,
     descriptor_json = (if k = CAPITAL_EXPENDITURES_PPE then ''cash'' else ''accrual''),
     content_sha256 = hex64 (CHR ''a'')\<rparr>"

definition sample_query :: "concept \<Rightarrow> string \<Rightarrow> pit_query" where
  "sample_query k family = \<lparr>q_issuer = 1, q_period = 2, q_scope = 4, q_unit = 3,
     statement_family = family, q_concepts = [k], q_batches = [5], q_captures = [6], q_events = [],
     q_mapping_revision = 7, normalizer_revision = ''n1'', authority_policy_revision = ''p1'',
     captured_before = Datetime (738000 * micros_per_day) (Some 0), q_mode = LATEST_REPORTED,
     filed_cutoff = None, q_instrument = None, q_security = None, q_reporting_currency = None,
     q_quality_flags = [], audited_required = False, allow_reviewed_equivalent = False,
     original_history_complete = False\<rparr>"

definition sample_fact :: "concept \<Rightarrow> nat \<Rightarrow> dec \<Rightarrow> selected_fact" where
  "sample_fact k n v = \<lparr>f_concept = k, f_value = Some (Finite v), f_status = ''observed'',
     f_resolutions = [8], f_observations = [100 + n], f_accession = Some ''0000000001-21-000001'',
     f_filed = Some (Date 2021 2 1), f_source_url = Some ''https://sec.gov/a'',
     f_source_locator = Some ''fact'', f_captures = [6], f_source_hashes = [hex64 (CHR ''b'')],
     f_source_tag = Some ''us-gaap:Tag'', f_numeric_text = Some ''1'', f_transform_json = Some ''t'',
     f_reason = None, f_flags = []\<rparr>"

text \<open>An income or cash-flow input of period \<open>s\<close> to \<open>e\<close>; \<open>n\<close> tells observations apart.\<close>

definition sample_input :: "concept \<Rightarrow> nat \<Rightarrow> date option \<Rightarrow> date \<Rightarrow> dec \<Rightarrow> financial_input" where
  "sample_input k n s e v =
     \<lparr>fi_selection =
        \<lparr>sel_query = sample_query k (expected_family (s = None) k), sel_coverage = [9], sel_filing_versions = [10],
         sel_facts = [sample_fact k n v], sel_flags = [], sel_quality_flags = [], sel_events = [],
         usable_for_valuation = True, reporting_basis = Some ''us_gaap'', input_hash = hex64 (CHR ''c'')\<rparr>,
      fi_concept = k,
      fi_period = \<lparr>pd_id = 2, period_kind = (if s = None then ''instant'' else ''duration''), pd_start = s, pd_end = e\<rparr>,
      fi_unit = sample_unit, fi_scope = sample_scope k,
      fi_precision = Some \<lparr>absolute_error = dec_of_int 1, pe_observations = [100 + n], pe_refs = [''r''], pe_method = ''m''\<rparr>\<rparr>"

definition sample_quarter :: "concept \<Rightarrow> nat \<Rightarrow> nat \<Rightarrow> int \<Rightarrow> financial_input" where
  "sample_quarter k y q v =
     sample_input k q (Some (Date y (3 * q - 2) 1)) (Date y (3 * q) (days_in_month y (3 * q))) (dec_of_int v)"

section \<open>The checks on sample inputs\<close>

text \<open>Every check of a sample input is decided here once; \<open>sample_simps\<close> then evaluates calculations on them.\<close>

named_theorems sample_simps

lemma sample_fields [sample_simps]:
  "fi_concept (sample_input k n s e v) = k"
  "fi_unit (sample_input k n s e v) = sample_unit"
  "fi_scope (sample_input k n s e v) = sample_scope k"
  "fi_query (sample_input k n s e v) = sample_query k (expected_family (s = None) k)"
  "fi_fact (sample_input k n s e v) = Some (sample_fact k n v)"
  "fi_precision (sample_input k n s e v) =
     Some \<lparr>absolute_error = dec_of_int 1, pe_observations = [100 + n], pe_refs = [''r''], pe_method = ''m''\<rparr>"
  "fi_period (sample_input k n s e v) =
     \<lparr>pd_id = 2, period_kind = (if s = None then ''instant'' else ''duration''), pd_start = s, pd_end = e\<rparr>"
  "sel_filing_versions (fi_selection (sample_input k n s e v)) = [10]"
  "reporting_basis (fi_selection (sample_input k n s e v)) = Some ''us_gaap''"
  "input_hash (fi_selection (sample_input k n s e v)) = hex64 (CHR ''c'')"
  by (simp_all add: sample_input_def fi_fact_def sample_fact_def)

lemma sample_query_fields [sample_simps]:
  "statement_family (sample_query k fam) = fam" "q_issuer (sample_query k fam) = 1"
  "filed_cutoff (sample_query k fam) = None" "captured_before (sample_query k fam) = Datetime (738000 * micros_per_day) (Some 0)"
  "unit_key sample_unit = ''USD''" "f_observations (sample_fact k n v) = [100 + n]" "f_value (sample_fact k n v) = Some (Finite v)"
  "sc_id (sample_scope k) = 4" "content_sha256 (sample_scope k) = hex64 (CHR ''a'')"
  "f_filed (sample_fact k n v) = Some (Date 2021 2 1)"
  "numerator_measures sample_unit = [''iso4217:USD'']" "denominator_measures sample_unit = []"
  by (simp_all add: sample_query_def sample_unit_def sample_fact_def sample_scope_def)

lemma sample_unit_checks: "unit_valid sample_unit" "currency_unit sample_unit" "iso_currency ''USD''"
  by code_simp+

lemma sample_scope_valid: "scope_valid sample_rt (sample_scope k)"
proof -
  have "scope_valid sample_rt (sample_scope REVENUE)" "scope_valid sample_rt (sample_scope CAPITAL_EXPENDITURES_PPE)"
    by code_simp+
  moreover have "sample_scope k = sample_scope (if k = CAPITAL_EXPENDITURES_PPE then CAPITAL_EXPENDITURES_PPE else REVENUE)"
    by (simp add: sample_scope_def)
  ultimately show ?thesis by (simp split: if_splits)
qed

lemma sample_provenance: "provenance_valid sample_rt (sample_query k fam) (sample_fact k n v)"
proof -
  have "provenance_valid sample_rt (sample_query REVENUE []) (sample_fact REVENUE 0 dec_zero)" by code_simp
  then show ?thesis
    by (simp add: provenance_valid_def sample_fact_def sample_query_def source_url_valid_def valid_ids_def)
qed

lemma sample_evidence: "selection_evidence_valid (fi_selection (sample_input k n s e v))"
proof -
  have "sha256_text (hex64 (CHR ''c''))" by code_simp
  then show ?thesis by (simp add: selection_evidence_valid_def sample_input_def valid_ids_def)
qed

lemma sample_context:
  assumes "case s of None \<Rightarrow> True | Some d \<Rightarrow> d \<le> e"
  shows "context_flags sample_rt (sample_input k n s e v) = []"
  using assms sample_unit_checks sample_scope_valid
  by (auto simp: context_flags_def Let_def sample_fields sample_query_def valid_ids_def period_valid_def
      sample_unit_def or_else_def sample_scope_def split: option.splits)

lemma sample_flags [sample_simps]:
  assumes "case s of None \<Rightarrow> True | Some d \<Rightarrow> d \<le> e"
  shows "fi_flags sample_rt (sample_input k n s e v) = []"
  unfolding fi_flags_def sorted_set_Nil_iff append_is_Nil_conv flag_if_Nil_iff not_not
  using sample_context[OF assms] sample_evidence sample_provenance
  by (simp add: sample_fields fact_flags_def) (simp add: sample_input_def sample_fact_def is_finite_value_def)

lemma sample_blocking [sample_simps]:
  "case s of None \<Rightarrow> True | Some d \<Rightarrow> d \<le> e \<Longrightarrow> fi_blocking_flags sample_rt (sample_input k n s e v) = []"
  by (simp add: fi_blocking_flags_def sample_flags blocking_def)

lemma sample_value [sample_simps]:
  "case s of None \<Rightarrow> True | Some d \<Rightarrow> d \<le> e \<Longrightarrow> fi_value sample_rt (sample_input k n s e v) = Some (Finite v)"
  by (simp add: fi_value_def sample_blocking sample_fields sample_query_fields)

lemma sample_amount [sample_simps]:
  "case s of None \<Rightarrow> True | Some d \<Rightarrow> d \<le> e \<Longrightarrow> fi_amount sample_rt (sample_input k n s e v) = Some v"
  by (simp add: fi_amount_def sample_value)

definition sample_key :: history_key where
  "sample_key = fi_history_key (sample_input REVENUE 0 None date_min dec_zero)"

lemma sample_history_key [sample_simps]: "fi_history_key (sample_input k n s e v) = sample_key"
  by (simp add: sample_key_def fi_history_key_def sample_fields sample_query_def)

lemma sample_semantic_scope [sample_simps]: "semantic_scope sample_rt (sample_input k n s e v)"
proof -
  have "semantic_scope sample_rt (sample_input REVENUE 0 None date_min dec_zero)"
    "semantic_scope sample_rt (sample_input CAPITAL_EXPENDITURES_PPE 0 None date_min dec_zero)" by code_simp+
  then show ?thesis
    by (cases "k = CAPITAL_EXPENDITURES_PPE")
      (simp_all add: semantic_scope_def sample_fields sample_scope_def sample_rt_def sample_descriptor_def)
qed

lemma sample_supported_basis [sample_simps]: "supported_basis (Some ''us_gaap'')"
  by (simp add: supported_basis_def)

lemmas sample_evals = sample_simps sample_unit_checks selection_issues_def source_issues_def issues_def
  all_same_def Let_def less_eq_date_def less_date_def expected_family_def sorted_set_def

lemma sample_quarter_values:
  "fi_flags sample_rt (sample_quarter REVENUE 2020 1 10) = []"
  "fi_value sample_rt (sample_quarter REVENUE 2020 1 10) = Some (Finite (dec_of_int 10))"
  by code_simp+

end
