(* ===== verification/Period_Properties.thy ===== *)
theory Period_Properties
  imports Samples
begin

text \<open>
  Guarantees of the inputs and the period amounts: which evidence stands behind a value, that sums
  are exact and are not refused for lack of precision, and which window an amount covers.
\<close>

section \<open>Inputs\<close>



section \<open>Exact sums\<close>

text \<open>C10: the exact sum is total on supported numbers: for up to a thousand finite decimals of at most
a thousand digits, whatever their exponents, the precision chosen from the operands is enough, no
signal is trapped, and the result is the exact signed sum.\<close>

theorem exact_sum_total:
  assumes "list_all within_limits vs" "vs \<noteq> []" "length vs \<le> 1000" "length vs = length ks"
    and "\<forall>k\<in>set ks. k = 1 \<or> k = - 1"
  shows "\<exists>r. exact_sum vs ks = Some r \<and> dval r = (\<Sum>(v, k)\<leftarrow>zip vs ks. of_int k * dval v :: rat)"
  using exact_sum_defined[OF assms(1-4)] exact_sum_value[OF _ assms(5)] by blast

theorem exact_sum_total_witness:
  "\<exists>r. exact_sum [Dec False 1 900, Dec False 1 (- 900)] [1, - 1] = Some r
     \<and> dval r = (\<Sum>(v, k)\<leftarrow>zip [Dec False 1 900, Dec False 1 (- 900)] [1, - 1]. of_int k * dval v :: rat)"
proof -
  have "list_all within_limits [Dec False 1 900, Dec False 1 (- 900)]" by code_simp
  then show ?thesis by (rule exact_sum_total) simp_all
qed

section \<open>Period amounts\<close>





text \<open>A quarter derived from two cumulative amounts is exactly their difference; both amounts come
from the same filing edition, and the window starts on the day after the earlier amount ends.\<close>

theorem quarter_from_ytd_exact:
  assumes "pa_value (quarter_from_ytd rt current prior cal) = Some v"
  shows "coherent rt [current, prior]
    \<and> dval v = (dval (the (fi_amount rt current)) - dval (the (fi_amount rt prior)) :: rat)
    \<and> sel_filing_versions (fi_selection current) = sel_filing_versions (fi_selection prior)
    \<and> ytd_pair cal current prior
    \<and> pw_start (pa_period (quarter_from_ytd rt current prior cal)) = Some (next_day (pd_end (fi_period prior)))
    \<and> pw_end (pa_period (quarter_from_ytd rt current prior cal)) = pd_end (fi_period current)"
proof -
  have "coherent rt [current, prior]
    \<and> calendar_problems cal [current, prior] @ flag_if (\<not> ytd_pair cal current prior) ''incompatible_ytd_periods''
      @ flag_if (sel_filing_versions (fi_selection current) \<noteq> sel_filing_versions (fi_selection prior)) ''incompatible_filing_editions'' = []
    \<and> dval v = (\<Sum>(a, k)\<leftarrow>zip (amounts rt [current, prior]) [1, - 1]. of_int k * a)"
    using assms unfolding quarter_from_ytd_def Let_def by (intro assemble_exact) auto
  then show ?thesis by (simp add: amounts_def quarter_from_ytd_def Let_def)
qed

definition sample_ytd :: "nat \<Rightarrow> nat \<Rightarrow> nat \<Rightarrow> int \<Rightarrow> financial_input" where
  "sample_ytd n y m v =
     sample_input REVENUE n (Some (Date y 1 1)) (Date y m (days_in_month y m)) (dec_of_int v)"

lemma sample_ytd_values:
  "pa_value (quarter_from_ytd sample_rt (sample_ytd 1 2020 6 50) (sample_ytd 2 2020 3 20) None) = Some (dec_of_int 30)"
  "pa_value (ttm_from_annual_ytd sample_rt (sample_ytd 1 2019 12 90) (sample_ytd 2 2020 3 30) (sample_ytd 3 2019 3 20) None None)
     = Some (dec_of_int 100)"
  by code_simp+

theorem quarter_from_ytd_exact_witness:
  "pw_start (pa_period (quarter_from_ytd sample_rt (sample_ytd 1 2020 6 50) (sample_ytd 2 2020 3 20) None))
     = Some (next_day (pd_end (fi_period (sample_ytd 2 2020 3 20))))"
  using quarter_from_ytd_exact[OF sample_ytd_values(1)] by blast



section \<open>Well-formed amounts\<close>










end
