(* ===== verification/Metrics.thy ===== *)
theory Metrics
  imports Periods
begin

text \<open>
  \<open>packages/core/metrics.py\<close>: margins, cash flow, balance-sheet and growth figures with their
  input lineage.  A calculation runs its operation only when the compatibility checks of
  \<open>Operands\<close> found nothing, in a 50-digit context that traps subnormal results.
\<close>

record calculation =
  calc_metric :: string
  calc_value :: "dec option"
  calc_unit :: string
  calc_operands :: "operand list"
  calc_flags :: "flag list"
  calc_revision :: string
  calc_review :: "(fiscal_calendar option \<times> revision_compatibility option) option"

definition metric_context :: "bool \<Rightarrow> dctx" where
  "metric_context exact = \<lparr>prec = 50, rounding_mode = ROUND_HALF_EVEN, Emin = - 999, Emax = 999,
     trap_inexact = exact, trap_subnormal = True, trap_underflow = True\<rparr>"

definition difference :: "dec \<Rightarrow> dec \<Rightarrow> dec option" where
  "difference l r = dec_sub (metric_context True) l r"

definition calculate ::
  "runtime \<Rightarrow> string \<Rightarrow> operand list \<Rightarrow> flag list \<Rightarrow> (dec list \<Rightarrow> dec option) \<Rightarrow> string \<Rightarrow> bool \<Rightarrow> flag list
     \<Rightarrow> calculation" where
  "calculate rt metric ps problems operation unit_name margin extra =
     (let problems1 = problems @ flag_if (list_ex (\<lambda>p. op_value rt p = None) ps) ''source_input_unavailable'';
          value = (if problems1 = [] then operation (List.map_filter (op_value rt) ps) else None);
          problems2 = problems1 @ flag_if (problems1 = [] \<and> value = None) ''unsupported_numeric_range'';
          extreme = (margin \<and> (case value of None \<Rightarrow> False | Some v \<Rightarrow> dec_lt (dec_of_int 1) (copy_abs v))) in
      \<lparr>calc_metric = metric, calc_value = value, calc_unit = unit_name, calc_operands = ps,
       calc_flags = sorted_set (concat (map (op_flags rt) ps) @ extra @ flag_if extreme ''extreme_margin'' @ problems2),
       calc_revision = ''s5-source-metrics-v1'', calc_review = None\<rparr>)"

fun quotient2 :: "dec list \<Rightarrow> dec option" where
  "quotient2 [a, b] = dec_div (metric_context False) a b"
| "quotient2 _ = None"

fun difference2 :: "dec list \<Rightarrow> dec option" where
  "difference2 [a, b] = difference a b"
| "difference2 _ = None"

section \<open>Margins\<close>

definition reported_margin :: "runtime \<Rightarrow> string \<Rightarrow> concept \<Rightarrow> operand \<Rightarrow> operand \<Rightarrow> calculation" where
  "reported_margin rt metric k numerator revenue =
     calculate rt metric [numerator, revenue]
       (issues rt True [numerator, revenue] [k, REVENUE] @ denominator rt revenue)
       quotient2 ''fraction'' True []"

definition operating_margin :: "runtime \<Rightarrow> operand \<Rightarrow> operand \<Rightarrow> calculation" where
  "operating_margin rt income revenue = reported_margin rt ''operating_margin'' OPERATING_INCOME income revenue"

definition gross_margin :: "runtime \<Rightarrow> operand \<Rightarrow> operand \<Rightarrow> calculation" where
  "gross_margin rt profit revenue = reported_margin rt ''gross_margin'' GROSS_PROFIT profit revenue"

definition net_margin :: "runtime \<Rightarrow> operand \<Rightarrow> operand \<Rightarrow> calculation" where
  "net_margin rt income revenue =
     reported_margin rt ''net_margin_consolidated'' NET_INCOME_CONSOLIDATED income revenue"

fun derived_margin_op :: "dec list \<Rightarrow> dec option" where
  "derived_margin_op [a, b] =
     (case difference a b of None \<Rightarrow> None | Some d \<Rightarrow> dec_div (metric_context False) d a)"
| "derived_margin_op _ = None"

definition derived_gross_margin :: "runtime \<Rightarrow> operand \<Rightarrow> operand \<Rightarrow> calculation" where
  "derived_gross_margin rt revenue cost =
     calculate rt ''gross_margin_derived'' [revenue, cost]
       (issues rt True [revenue, cost] [REVENUE, COST_OF_REVENUE] @ denominator rt revenue)
       derived_margin_op ''fraction'' True [''gross_profit_derived'']"

section \<open>Cash flow\<close>

definition negative_value :: "runtime \<Rightarrow> operand \<Rightarrow> bool" where
  "negative_value rt p = (case op_value rt p of None \<Rightarrow> False | Some v \<Rightarrow> dec_lt v dec_zero)"

definition cash_issues :: "runtime \<Rightarrow> operand \<Rightarrow> operand \<Rightarrow> flag list" where
  "cash_issues rt cfo capex =
     issues rt True [cfo, capex] [CASH_FROM_OPERATING_ACTIVITIES, CAPITAL_EXPENDITURES_PPE]
     @ flag_if (negative_value rt capex) ''negative_cash_ppe_capex''"

definition free_cash_flow :: "runtime \<Rightarrow> operand \<Rightarrow> operand \<Rightarrow> calculation" where
  "free_cash_flow rt cfo capex =
     calculate rt ''free_cash_flow_ppe'' [cfo, capex] (cash_issues rt cfo capex) difference2
       (unit_key (op_unit cfo)) False []"

fun fcf_margin_op :: "dec list \<Rightarrow> dec option" where
  "fcf_margin_op [a, b, c] =
     (case difference a b of None \<Rightarrow> None | Some d \<Rightarrow> dec_div (metric_context False) d c)"
| "fcf_margin_op _ = None"

definition free_cash_flow_margin :: "runtime \<Rightarrow> operand \<Rightarrow> operand \<Rightarrow> operand \<Rightarrow> calculation" where
  "free_cash_flow_margin rt cfo capex revenue =
     calculate rt ''free_cash_flow_margin_ppe'' [cfo, capex, revenue]
       (cash_issues rt cfo capex
        @ issues rt True [cfo, capex, revenue]
            [CASH_FROM_OPERATING_ACTIVITIES, CAPITAL_EXPENDITURES_PPE, REVENUE]
        @ denominator rt revenue)
       fcf_margin_op ''fraction'' True []"

section \<open>Balance sheet\<close>

definition current_balance_issues :: "runtime \<Rightarrow> financial_input \<Rightarrow> financial_input \<Rightarrow> flag list" where
  "current_balance_issues rt assets liabilities =
     source_issues rt True True [assets, liabilities] [CURRENT_ASSETS, CURRENT_LIABILITIES]
     @ flag_if (negative_value rt (Selected assets) \<or> negative_value rt (Selected liabilities))
         ''negative_current_balance''"

definition current_ratio :: "runtime \<Rightarrow> financial_input \<Rightarrow> financial_input \<Rightarrow> calculation" where
  "current_ratio rt assets liabilities =
     calculate rt ''current_ratio'' [Selected assets, Selected liabilities]
       (current_balance_issues rt assets liabilities @ denominator rt (Selected liabilities))
       quotient2 ''multiple'' False []"

definition net_working_capital :: "runtime \<Rightarrow> financial_input \<Rightarrow> financial_input \<Rightarrow> calculation" where
  "net_working_capital rt assets liabilities =
     calculate rt ''net_working_capital'' [Selected assets, Selected liabilities]
       (current_balance_issues rt assets liabilities) difference2 (unit_key (fi_unit assets)) False []"

definition average_balance :: "dec \<Rightarrow> dec \<Rightarrow> dec option" where
  "average_balance l r =
     (case dec_add (metric_context True) l r of
        None \<Rightarrow> None
      | Some s \<Rightarrow> dec_div (metric_context True) s (dec_of_int 2))"

fun roa_op :: "dec list \<Rightarrow> dec option" where
  "roa_op [a, b, c] =
     (case average_balance b c of None \<Rightarrow> None | Some d \<Rightarrow> dec_div (metric_context False) a d)"
| "roa_op _ = None"

definition balance_dates :: "financial_input \<Rightarrow> financial_input \<Rightarrow> financial_input \<Rightarrow> bool" where
  "balance_dates income opening closing =
     (case pd_start (fi_period income) of
        None \<Rightarrow> False
      | Some s \<Rightarrow>
          s \<noteq> date_min \<and> pd_end (fi_period opening) = prev_day s
          \<and> pd_end (fi_period closing) = pd_end (fi_period income))"

definition return_on_assets ::
  "runtime \<Rightarrow> financial_input \<Rightarrow> financial_input \<Rightarrow> financial_input \<Rightarrow> calculation" where
  "return_on_assets rt income opening closing =
     (let xs = [income, opening, closing];
          problems =
            selection_issues rt xs [NET_INCOME_CONSOLIDATED, TOTAL_ASSETS, TOTAL_ASSETS]
            @ pa_blocking_flags (annual_amount rt income None)
            @ source_issues rt False True [opening, closing] [TOTAL_ASSETS, TOTAL_ASSETS]
            @ denominator rt (Selected opening) @ denominator rt (Selected closing)
            @ flag_if (\<not> all_same (map (\<lambda>x. sorted_set (sel_filing_versions (fi_selection x))) xs))
                ''incompatible_filing_editions''
            @ flag_if (\<not> balance_dates income opening closing) ''incompatible_balance_dates'' in
      calculate rt ''return_on_assets'' (map Selected xs) problems roa_op ''fraction'' False [])"

section \<open>Reported amounts and growth\<close>

definition reported_amount :: "runtime \<Rightarrow> operand \<Rightarrow> calculation" where
  "reported_amount rt p =
     \<lparr>calc_metric = ''reported.'' @ concept_value (op_concept p), calc_value = op_value rt p,
      calc_unit = unit_key (op_unit p), calc_operands = [p],
      calc_flags = sorted_set (op_flags rt p @ flag_if (op_value rt p = None) ''source_input_unavailable''),
      calc_revision = ''s5-source-metrics-v1'', calc_review = None\<rparr>"

definition comparison_period :: "operand \<Rightarrow> operand \<Rightarrow> bool" where
  "comparison_period current prior =
     (case (op_start current, op_start prior) of
        (Some s, Some old_s) \<Rightarrow>
          let e = op_end current; months = months_between s e in
          1 < yr s
          \<and> dy s = 1 \<and> months \<in> {3, 12} \<and> month_end e
          \<and> (months = 3 \<longrightarrow> mo s \<in> {1, 4, 7, 10})
          \<and> old_s = Date (yr s - 1) (mo s) 1
          \<and> op_end prior = Date (yr e - 1) (mo e) (days_in_month (yr e - 1) (mo e))
      | _ \<Rightarrow> False)"

fun comparison_basis :: "operand \<Rightarrow> string" where
  "comparison_basis (Selected _) = ''selected''"
| "comparison_basis (Derived a) = pa_formula a"

fun growth_op :: "dec list \<Rightarrow> dec option" where
  "growth_op [a, b] =
     (case difference a b of None \<Rightarrow> None | Some d \<Rightarrow> dec_div (metric_context False) d b)"
| "growth_op _ = None"

definition growth_comparable :: "fiscal_calendar option \<Rightarrow> operand \<Rightarrow> operand \<Rightarrow> bool" where
  "growth_comparable cal current prior =
     (case cal of
        None \<Rightarrow> comparison_period current prior
      | Some c \<Rightarrow>
          (case (current, prior) of
             (Selected x, Selected y) \<Rightarrow> fc_comparable c x y
           | _ \<Rightarrow> False))"

definition revenue_growth ::
  "runtime \<Rightarrow> operand \<Rightarrow> operand \<Rightarrow> fiscal_calendar option \<Rightarrow> revision_compatibility option \<Rightarrow> calculation" where
  "revenue_growth rt current prior cal rc =
     (let ps = [current, prior]; leaves = op_leaves current @ op_leaves prior;
          problems =
            issues rt False ps [REVENUE, REVENUE] @ denominator rt prior
            @ revision_problems leaves rc
            @ flag_if (comparison_basis current \<noteq> comparison_basis prior) ''incompatible_comparison_basis''
            @ calendar_problems cal leaves
            @ flag_if (\<not> growth_comparable cal current prior) ''unsupported_comparison_periods'';
          calculation = calculate rt ''revenue_growth_yoy'' ps problems growth_op ''fraction'' False [] in
      if cal \<noteq> None \<or> rc \<noteq> None then calculation\<lparr>calc_review := Some (cal, rc)\<rparr> else calculation)"

section \<open>Lemmas\<close>

lemma map_filter_values:
  assumes "\<forall>p\<in>set ps. op_value rt p \<noteq> None"
  shows "List.map_filter (op_value rt) ps = map (\<lambda>p. the (op_value rt p)) ps"
  using assms by (induction ps) (auto simp: List.map_filter_simps)

lemma calculate_value:
  assumes "calc_value (calculate rt metric ps problems operation u margin extra) = Some r"
  shows "problems = [] \<and> (\<forall>p\<in>set ps. op_value rt p \<noteq> None)
    \<and> operation (map (\<lambda>p. the (op_value rt p)) ps) = Some r"
proof -
  have none: "problems = []" "\<forall>p\<in>set ps. op_value rt p \<noteq> None"
    using assms by (auto simp: calculate_def Let_def list_ex_iff split: if_splits)
  moreover have "operation (List.map_filter (op_value rt) ps) = Some r"
    using assms none by (auto simp: calculate_def Let_def list_ex_iff split: if_splits)
  ultimately show ?thesis by (simp add: map_filter_values)
qed

lemma calculate_missing_flagged:
  assumes "calc_value (calculate rt metric ps problems operation u margin extra) = None"
  shows "problems \<noteq> [] \<and> set problems \<subseteq> set (calc_flags (calculate rt metric ps problems operation u margin extra))
    \<or> ''source_input_unavailable'' \<in> set (calc_flags (calculate rt metric ps problems operation u margin extra))
    \<or> ''unsupported_numeric_range'' \<in> set (calc_flags (calculate rt metric ps problems operation u margin extra))"
  using assms by (cases "problems = []") (auto simp: calculate_def Let_def split: if_splits)

lemma metric_context_prec [simp]: "0 < prec (metric_context exact)"
  by (simp add: metric_context_def)

text \<open>Exact differences and averages, half-even quotients.\<close>

lemma difference_exact: "difference a b = Some d \<Longrightarrow> dval d = (dval a - dval b :: 'a::linordered_field)"
  using dec_sub_rounds_to[of "metric_context True" a b d, where 'a='a]
  by (simp add: difference_def rounds_to_def metric_context_def)

lemma average_balance_exact:
  assumes "average_balance a b = Some d"
  shows "dval d = ((dval a + dval b) / 2 :: 'a::linordered_field)"
proof -
  obtain s where s: "dec_add (metric_context True) a b = Some s" "dec_div (metric_context True) s (dec_of_int 2) = Some d"
    using assms by (auto simp: average_balance_def split: option.splits)
  have "dval s = (dval a + dval b :: 'a)"
    using dec_add_rounds_to[OF s(1), where 'a='a] by (simp add: rounds_to_def metric_context_def)
  moreover have "dval d = (dval s / 2 :: 'a)"
    using dec_div_rounds_to[OF s(2), where 'a='a] by (simp add: rounds_to_def metric_context_def)
  ultimately show ?thesis by simp
qed

definition half_ulp :: "dec \<Rightarrow> rat \<Rightarrow> bool" where
  "half_ulp r V \<longleftrightarrow> 2 * \<bar>dval r - V\<bar> \<le> 10 powi dexp r"

lemma metric_quotient:
  assumes "dec_div (metric_context False) a b = Some r"
  shows "half_ulp r (dval a / dval b)"
  using dec_div_rounds_to[OF assms, where 'a=rat] by (simp add: rounds_to_def metric_context_def half_ulp_def)

end
