(* ===== verification/Metric_Properties.thy ===== *)
theory Metric_Properties
  imports Metrics Samples Decimal_Eval
begin

text \<open>
  Guarantees of the metrics: a published figure is the rounded (or exact) value of its formula on
  compatible inputs with a denominator that is positive beyond its own uncertainty.
\<close>

lemma denominator_positive:
  assumes "denominator rt p = []"
  shows "0 < (dval (the (op_value rt p)) :: rat)
    \<and> (\<exists>e. op_precision p = Some e \<and> dval (absolute_error e) < (dval (the (op_value rt p)) :: rat))"
  using denominator_Nil[OF assms] by (auto simp: dec_lt_iff[where 'a=rat])


definition sample_op :: "concept \<Rightarrow> int \<Rightarrow> operand" where
  "sample_op k v = Selected (sample_quarter k 2020 1 v)"



text \<open>Published free cash flow is exactly operating cash flow less capital expenditures, and the
capital expenditures are not negative.\<close>

theorem free_cash_flow_exact:
  assumes "calc_value (free_cash_flow rt cfo capex) = Some r"
  shows "dval r = (dval (the (op_value rt cfo)) - dval (the (op_value rt capex)) :: rat)
    \<and> 0 \<le> (dval (the (op_value rt capex)) :: rat)
    \<and> op_concept cfo = CASH_FROM_OPERATING_ACTIVITIES \<and> op_concept capex = CAPITAL_EXPENDITURES_PPE
    \<and> op_start cfo = op_start capex \<and> op_end cfo = op_end capex
    \<and> coherent rt (op_leaves cfo @ op_leaves capex)"
proof -
  note v = calculate_value[OF assms[unfolded free_cash_flow_def]]
  have i: "issues rt True [cfo, capex] [CASH_FROM_OPERATING_ACTIVITIES, CAPITAL_EXPENDITURES_PPE] = []"
    and n: "\<not> negative_value rt capex" using v by (simp_all add: cash_issues_def)
  have "difference (the (op_value rt cfo)) (the (op_value rt capex)) = Some r" using v by simp
  from difference_exact[OF this, where 'a=rat] show ?thesis
    using n v issues_Nil_concepts[OF i] issues_Nil_periods[OF i, of cfo capex] issues_Nil_coherent[OF i]
    by (auto simp: negative_value_def dec_lt_iff[where 'a=rat] not_less split: option.splits)
qed

lemma sample_fcf:
  "calc_value (free_cash_flow sample_rt (sample_op CASH_FROM_OPERATING_ACTIVITIES 70)
     (Selected (sample_input CAPITAL_EXPENDITURES_PPE 2 (Some (Date 2020 1 1)) (Date 2020 3 31) (dec_of_int 30)))) = Some (dec_of_int 40)"
  by code_simp

theorem free_cash_flow_exact_witness:
  "dval (dec_of_int 40) = (dval (the (op_value sample_rt (sample_op CASH_FROM_OPERATING_ACTIVITIES 70)))
     - dval (the (op_value sample_rt (Selected (sample_input CAPITAL_EXPENDITURES_PPE 2 (Some (Date 2020 1 1)) (Date 2020 3 31) (dec_of_int 30))))) :: rat)"
  using free_cash_flow_exact[OF sample_fcf] by blast




text \<open>A published return on assets is annual consolidated net income over the exact average of
opening and closing assets, correctly rounded; the closing balance is dated at the end of the income
period and the opening balance on the day before it starts, and both balances are positive.\<close>

theorem return_on_assets_sound:
  assumes "calc_value (return_on_assets rt income opening closing) = Some r"
  shows "half_ulp r (dval (the (fi_amount rt income)) / ((dval (the (fi_amount rt opening)) + dval (the (fi_amount rt closing))) / 2))
    \<and> 0 < (dval (the (fi_amount rt opening)) :: rat) \<and> 0 < (dval (the (fi_amount rt closing)) :: rat)
    \<and> (\<exists>s. pd_start (fi_period income) = Some s \<and> pd_end (fi_period opening) = prev_day s)
    \<and> pd_end (fi_period closing) = pd_end (fi_period income)
    \<and> coherent rt [income, opening, closing]"
proof -
  note v = calculate_value[OF assms[unfolded return_on_assets_def Let_def]]
  have sel: "selection_issues rt [income, opening, closing] [NET_INCOME_CONSOLIDATED, TOTAL_ASSETS, TOTAL_ASSETS] = []"
    and d: "denominator rt (Selected opening) = []" "denominator rt (Selected closing) = []"
    and b: "balance_dates income opening closing" using v by simp_all
  obtain m where m: "average_balance (the (fi_amount rt opening)) (the (fi_amount rt closing)) = Some m"
      "dec_div (metric_context False) (the (fi_amount rt income)) m = Some r"
    using v by (auto split: option.splits)
  show ?thesis
    using metric_quotient[OF m(2)] average_balance_exact[OF m(1), where 'a=rat] denominator_positive[OF d(1)]
      denominator_positive[OF d(2)] b selection_issues_Nil[OF sel]
    by (auto simp: balance_dates_def split: option.splits)
qed

lemma sample_roa:
  "calc_value (return_on_assets sample_rt
     (sample_input NET_INCOME_CONSOLIDATED 1 (Some (Date 2019 1 1)) (Date 2019 12 31) (dec_of_int 10))
     (sample_input TOTAL_ASSETS 2 None (Date 2018 12 31) (dec_of_int 90))
     (sample_input TOTAL_ASSETS 3 None (Date 2019 12 31) (dec_of_int 110))) = Some (Dec False 1 (- 1))"
  by code_simp

theorem return_on_assets_sound_witness:
  "0 < (dval (the (fi_amount sample_rt (sample_input TOTAL_ASSETS 2 None (Date 2018 12 31) (dec_of_int 90)))) :: rat)"
  using return_on_assets_sound[OF sample_roa] by blast

end
