(* ===== verification/Texts.thy ===== *)
theory Texts
  imports Dates Decimals
begin

text \<open>
  The texts that Python makes of values: \<open>repr\<close> and \<open>str\<close> of decimals, strings and dates.
\<close>

text \<open>\<open>repr\<close> of a \<open>Decimal | None\<close> and of a \<open>str\<close>, which order samples of one quarter.\<close>

fun nat_text :: "nat \<Rightarrow> string" where
  "nat_text n = (if n < 10 then [char_of (48 + n)] else nat_text (n div 10) @ [char_of (48 + n mod 10)])"

declare nat_text.simps [simp del]

definition int_text :: "int \<Rightarrow> string" where
  "int_text i = (if i < 0 then ''-'' else ''+'') @ nat_text (nat \<bar>i\<bar>)"

definition dec_text :: "dec \<Rightarrow> string" where
  "dec_text d =
     (let digits = nat_text (dcoeff d); n = int (length digits); leftdigits = dexp d + n;
          dotplace = (if dexp d \<le> 0 \<and> - 6 < leftdigits then leftdigits else 1);
          body = (if dotplace \<le> 0 then ''0.'' @ replicate (nat (- dotplace)) (CHR ''0'') @ digits
                  else if n \<le> dotplace then digits @ replicate (nat (dotplace - n)) (CHR ''0'')
                  else take (nat dotplace) digits @ ''.'' @ drop (nat dotplace) digits);
          expo = (if leftdigits = dotplace then [] else ''E'' @ int_text (leftdigits - dotplace))
      in (if dsign d then ''-'' else []) @ body @ expo)"

definition value_repr :: "decimal option \<Rightarrow> string" where
  "value_repr v =
     (case v of
        None \<Rightarrow> ''None''
      | Some (Finite d) \<Rightarrow> ''Decimal('' @ [char_of (39 :: nat)] @ dec_text d @ [char_of (39 :: nat)] @ '')''
      | Some (Infinity neg) \<Rightarrow>
          ''Decimal('' @ [char_of (39 :: nat)] @ (if neg then ''-'' else []) @ ''Infinity'' @ [char_of (39 :: nat)] @ '')''
      | Some NaN \<Rightarrow> ''Decimal('' @ [char_of (39 :: nat)] @ ''NaN'' @ [char_of (39 :: nat)] @ '')'')"

definition hex_digit :: "nat \<Rightarrow> char" where
  "hex_digit n = char_of (if n < 10 then 48 + n else 87 + n)"

definition escape_char :: "char \<Rightarrow> char \<Rightarrow> string" where
  "escape_char quote c =
     (let n = (of_char c :: nat); slash = char_of (92 :: nat) in
      if c = quote \<or> c = slash then [slash, c]
      else if n = 9 then [slash, CHR ''t'']
      else if n = 10 then [slash, CHR ''n'']
      else if n = 13 then [slash, CHR ''r'']
      else if n < 32 \<or> (127 \<le> n \<and> n \<le> 160) \<or> n = 173
      then [slash, CHR ''x'', hex_digit (n div 16), hex_digit (n mod 16)]
      else [c])"

definition text_repr :: "string \<Rightarrow> string" where
  "text_repr s =
     (let single = char_of (39 :: nat); double = char_of (34 :: nat);
          quote = (if single \<in> set s \<and> double \<notin> set s then double else single)
      in [quote] @ concat (map (escape_char quote) s) @ [quote])"

text \<open>\<open>str.zfill\<close> of a numeral, and \<open>date.isoformat()\<close>.\<close>

definition padded :: "nat \<Rightarrow> nat \<Rightarrow> string" where
  "padded width n = (let t = nat_text n in replicate (width - length t) (CHR ''0'') @ t)"

definition isoformat :: "date \<Rightarrow> string" where
  "isoformat d = padded 4 (yr d) @ ''-'' @ padded 2 (mo d) @ ''-'' @ padded 2 (dy d)"

end
