(* ===== verification/History.thy ===== *)
theory History
  imports Decimal_Laws Texts Exact_Sum "HOL-Library.Product_Lexorder" "HOL-Library.Multiset"
begin

text \<open>
  \<open>packages/core/history.py\<close>: the band of a metric's own history.  Samples are sorted, each is
  kept or excluded with reasons, and the quartiles interpolate exactly between the kept values.
\<close>

section \<open>Data\<close>

record history_point =
  hp_quarter_end :: date
  hp_value :: "decimal option"
  hp_series :: string
  hp_hash :: string
  hp_flags :: "flag list"

text \<open>The check of \<open>HistoryPoint\<close> and of the comparison's own flags.\<close>

definition flags_ok :: "flag list \<Rightarrow> bool" where
  "flags_ok fls = list_all nonblank fls"

record history_policy =
  hpol_years :: nat
  minimum_samples :: nat
  hpol_revision :: string

definition history_policy_valid :: "history_policy \<Rightarrow> bool" where
  "history_policy_valid p =
     (hpol_years p \<in> {3, 5, 10} \<and> 1 \<le> minimum_samples p \<and> minimum_samples p \<le> 4 * hpol_years p
      \<and> nonblank (hpol_revision p))"

record excluded_point =
  ex_point :: history_point
  ex_reasons :: "flag list"

record history_band =
  hb_years :: nat
  hb_start :: date
  hb_end :: date
  hb_series :: string
  hb_policy_revision :: string
  hb_minimum :: nat
  hb_eligible :: "history_point list"
  hb_excluded :: "excluded_point list"
  hb_expected :: "date list"
  hb_missing :: "date list"
  hb_p25 :: "dec option"
  hb_p50 :: "dec option"
  hb_p75 :: "dec option"
  hb_flags :: "flag list"

section \<open>Quartiles\<close>

definition plain_context :: "nat \<Rightarrow> bool \<Rightarrow> dctx" where
  "plain_context p exact = \<lparr>prec = p, rounding_mode = ROUND_HALF_EVEN, Emin = - 999999, Emax = 999999,
     trap_inexact = exact, trap_subnormal = False, trap_underflow = False\<rparr>"

text \<open>\<open>int(x)\<close> of a nonnegative decimal.\<close>

definition dec_trunc :: "dec \<Rightarrow> nat" where
  "dec_trunc d = (if 0 \<le> dexp d then dcoeff d * 10 ^ nat (dexp d) else dcoeff d div 10 ^ nat (- dexp d))"

definition span_precision :: "dec \<Rightarrow> dec \<Rightarrow> nat" where
  "span_precision l r = nat (max 50 (max (adjusted l) (adjusted r) - min (dexp l) (dexp r) + 4))"

definition interpolate :: "dec \<Rightarrow> dec \<Rightarrow> dec \<Rightarrow> dec option" where
  "interpolate l r weight =
     (let ctx = plain_context (span_precision l r) True in
      case dec_sub ctx (dec_of_int 1) weight of
        None \<Rightarrow> None
      | Some rest \<Rightarrow>
          (case (dec_mul ctx l rest, dec_mul ctx r weight) of
             (Some a, Some b) \<Rightarrow> dec_add ctx a b
           | _ \<Rightarrow> None))"

definition quantile :: "dec list \<Rightarrow> dec \<Rightarrow> dec option" where
  "quantile vs p =
     (let ctx = plain_context 50 False in
      case dec_mul ctx (dec_of_int (int (length vs) - 1)) p of
        None \<Rightarrow> None
      | Some position \<Rightarrow>
          let low = dec_trunc position in
          (case dec_sub ctx position (dec_of_int (int low)) of
             None \<Rightarrow> None
           | Some weight \<Rightarrow>
               if dcoeff weight = 0 then Some (vs ! low)
               else interpolate (vs ! low) (vs ! (low + 1)) weight))"

abbreviation dec_25 :: dec where "dec_25 \<equiv> Dec False 25 (- 2)"
abbreviation dec_5 :: dec where "dec_5 \<equiv> Dec False 5 (- 1)"
abbreviation dec_75 :: dec where "dec_75 \<equiv> Dec False 75 (- 2)"

section \<open>The band\<close>

definition hp_identity :: "history_point \<Rightarrow> string \<times> string \<times> string \<times> flag list" where
  "hp_identity p = (hp_series p, value_repr (hp_value p), text_repr (hp_hash p), hp_flags p)"

definition quarter_end_day :: "date \<Rightarrow> bool" where
  "quarter_end_day d = ((mo d, dy d) \<in> {(3, 31), (6, 30), (9, 30), (12, 31)})"

definition in_window :: "date \<Rightarrow> date \<Rightarrow> date \<Rightarrow> bool" where
  "in_window start as_of d = (start < d \<and> d \<le> as_of)"

definition conflicting :: "history_point list \<Rightarrow> date \<Rightarrow> date \<Rightarrow> string \<Rightarrow> date \<Rightarrow> bool" where
  "conflicting pts start as_of series d =
     (in_window start as_of d
      \<and> 1 < length (remdups (map hp_identity
               (filter (\<lambda>p. hp_series p = series \<and> hp_quarter_end p = d) pts))))"

definition value_reasons :: "decimal option \<Rightarrow> flag list" where
  "value_reasons v =
     (case v of
        None \<Rightarrow> [''missing_value'']
      | Some (Finite d) \<Rightarrow> flag_if (\<not> within_limits d) ''numeric_range_exceeded''
      | Some _ \<Rightarrow> [''nonfinite_value''])"

definition point_reasons :: "date \<Rightarrow> date \<Rightarrow> string \<Rightarrow> history_point \<Rightarrow> flag list" where
  "point_reasons start as_of series p =
     hp_flags p
     @ (if hp_quarter_end p \<le> start then [''outside_window'']
        else flag_if (as_of < hp_quarter_end p) ''after_as_of'')
     @ flag_if (\<not> quarter_end_day (hp_quarter_end p)) ''not_quarter_end''
     @ flag_if (hp_series p \<noteq> series) ''incompatible_series''
     @ flag_if (\<not> nonblank (hp_hash p)) ''missing_lineage''
     @ value_reasons (hp_value p)"

definition sample_reasons ::
  "history_point list \<Rightarrow> date \<Rightarrow> date \<Rightarrow> string \<Rightarrow> date list \<Rightarrow> history_point \<Rightarrow> flag list" where
  "sample_reasons pts start as_of series seen p =
     (let base = point_reasons start as_of series p in
      base @ (if hp_series p = series \<and> conflicting pts start as_of series (hp_quarter_end p)
              then [''conflicting_quarter'']
              else flag_if (base = [] \<and> hp_quarter_end p \<in> set seen) ''duplicate_sample''))"

fun select_samples ::
  "(date list \<Rightarrow> history_point \<Rightarrow> flag list) \<Rightarrow> date list \<Rightarrow> history_point list
     \<Rightarrow> history_point list \<times> excluded_point list" where
  "select_samples reasons seen [] = ([], [])"
| "select_samples reasons seen (p # ps) =
     (let rs = reasons seen p in
      if rs \<noteq> [] then
        (case select_samples reasons seen ps of
           (el, ex) \<Rightarrow> (el, \<lparr>ex_point = p, ex_reasons = sorted_set rs\<rparr> # ex))
      else
        (case select_samples reasons (hp_quarter_end p # seen) ps of (el, ex) \<Rightarrow> (p # el, ex)))"

definition window_start :: "date \<Rightarrow> nat \<Rightarrow> date" where
  "window_start as_of years =
     (let y = yr as_of - years in Date y (mo as_of) (min (dy as_of) (days_in_month y (mo as_of))))"

definition quarter_ends_between :: "date \<Rightarrow> date \<Rightarrow> date list" where
  "quarter_ends_between start as_of =
     filter (in_window start as_of)
       (concat (map (\<lambda>y. map (\<lambda>(m, d). Date y m d) [(3, 31), (6, 30), (9, 30), (12, 31)])
          [yr start..<yr as_of + 1]))"

definition historical_band ::
  "history_point list \<Rightarrow> date \<Rightarrow> string \<Rightarrow> history_policy \<Rightarrow> history_band result" where
  "historical_band pts as_of series policy =
     (if \<not> history_policy_valid policy \<or> yr as_of \<le> hpol_years policy \<or> \<not> nonblank series
      then Inl ValueError
      else
        let start = window_start as_of (hpol_years policy);
            ordered = sort_key (\<lambda>p. (hp_quarter_end p, hp_identity p)) pts;
            expected = quarter_ends_between start as_of in
        case select_samples (sample_reasons pts start as_of series) [] ordered of
          (eligible, excluded) \<Rightarrow>
            let missing = filter (\<lambda>d. d \<notin> set (map hp_quarter_end eligible)) expected;
                vs = dec_sort (List.map_filter (\<lambda>p. Option.bind (hp_value p) finite_value) eligible);
                sufficient = minimum_samples policy \<le> length vs;
                quartile = (\<lambda>p. if sufficient then map_option Some (quantile vs p) else Some None) in
            (case (quartile dec_25, quartile dec_5, quartile dec_75) of
              (Some q1, Some q2, Some q3) \<Rightarrow>
                Inr \<lparr>hb_years = hpol_years policy, hb_start = start, hb_end = as_of, hb_series = series,
                  hb_policy_revision = hpol_revision policy, hb_minimum = minimum_samples policy,
                  hb_eligible = eligible, hb_excluded = excluded, hb_expected = expected,
                  hb_missing = missing, hb_p25 = q1, hb_p50 = q2, hb_p75 = q3,
                  hb_flags = flag_if (\<not> sufficient) ''insufficient_history''\<rparr>
            | _ \<Rightarrow> Inl NumericError))"

section \<open>Comparison\<close>

datatype relation = Below | Within | Above

record history_comparison =
  hc_relation :: "relation option"
  hc_value :: "decimal option"
  hc_hash :: string
  hc_series :: string
  hc_band :: history_band
  hc_flags :: "flag list"

definition compare_to_history ::
  "decimal option \<Rightarrow> history_band \<Rightarrow> string \<Rightarrow> string \<Rightarrow> flag list \<Rightarrow> history_comparison result" where
  "compare_to_history v band series hash fls =
     (if \<not> flags_ok fls then Inl ValueError
      else
        let reasons = fls @ hb_flags band
              @ flag_if (series \<noteq> hb_series band) ''incompatible_series''
              @ flag_if (\<not> nonblank hash) ''missing_lineage''
              @ value_reasons v
              @ flag_if (hb_p25 band = None \<or> hb_p75 band = None) ''comparison_unavailable'' in
        Inr (if reasons \<noteq> []
             then \<lparr>hc_relation = None,
                    hc_value = (case v of Some (Finite d) \<Rightarrow> v | _ \<Rightarrow> None),
                    hc_hash = hash, hc_series = series, hc_band = band, hc_flags = sorted_set reasons\<rparr>
             else
               \<lparr>hc_relation =
                  (case (v, hb_p25 band, hb_p75 band) of
                     (Some (Finite d), Some q1, Some q3) \<Rightarrow>
                       Some (if dec_lt d q1 then Below else if dec_lt q3 d then Above else Within)
                   | _ \<Rightarrow> None),
                hc_value = v, hc_hash = hash, hc_series = series, hc_band = band, hc_flags = []\<rparr>))"

end
