(* ===== verification/History_Laws.thy ===== *)
theory History_Laws
  imports History
begin

text \<open>
  The quartiles of \<open>historical_band\<close> are computed without rounding, are ordered, and lie between the
  smallest and the largest sample; the selection keeps at most one sample per quarter.
\<close>

section \<open>Exact interpolation\<close>

lemma plain_context_simps [simp]:
  "prec (plain_context p x) = p" "Emin (plain_context p x) = - 999999" "Emax (plain_context p x) = 999999"
  "trap_inexact (plain_context p x) = x" "\<not> trap_subnormal (plain_context p x)" "\<not> trap_underflow (plain_context p x)"
  by (simp_all add: plain_context_def)

lemma dec_fix_plain:
  assumes "ndigits c \<le> p" "p \<le> 3000" "- 3000 \<le> e" "e \<le> 3000"
  shows "dec_fix (plain_context p x) s c e False = Some (Dec s c e)"
proof -
  have "\<not> e < max (int (ndigits c) + e - int p) (- 999999 - int p + 1)" "\<not> 999999 - int p + 1 < int (ndigits c) + e - int p"
    using assms by linarith+
  then show ?thesis using assms by (cases "c = 0") (simp_all add: dec_fix_def Let_def plain_context_def)
qed

lemma dec_mul_fits:
  assumes p: "0 < p" "ndigits (dcoeff a * dcoeff b) \<le> p" "p \<le> 3000"
    and e: "- 3000 \<le> dexp a + dexp b" "dexp a + dexp b \<le> 3000"
  shows "\<exists>r. dec_mul (plain_context p x) a b = Some r \<and> dval r = (dval a * dval b :: rat) \<and> dexp r = dexp a + dexp b"
proof (cases "dcoeff a * dcoeff b = 0")
  case True
  then have "dval a * dval b = (0 :: rat)" using dval_eq_0_iff[where 'a=rat] by auto
  with True p e show ?thesis by (auto simp: dec_mul_def dec_fix_def Let_def)
next
  case False
  let ?e = "dexp a + dexp b"
  have "dec_mul (plain_context p x) a b = Some (Dec (dsign a \<noteq> dsign b) (dcoeff a * dcoeff b) ?e)"
    unfolding dec_mul_def by (rule dec_fix_plain[OF p(2,3) e])
  moreover have "dval (Dec (dsign a \<noteq> dsign b) (dcoeff a * dcoeff b) ?e) = (dval a * dval b :: rat)"
    by (simp add: dval_def dint_def power_int_add)
  ultimately show ?thesis by simp
qed

lemma small_factor_digits: "b < 100 \<Longrightarrow> ndigits a + 2 \<le> p \<Longrightarrow> ndigits (a * b) \<le> p"
proof -
  assume b: "b < 100" and p: "ndigits a + 2 \<le> p"
  have "a * b \<le> a * 100" using b by simp
  also have "a * 100 < 10 ^ ndigits a * 100" using less_10_pow_ndigits[of a] by simp
  also have "\<dots> = 10 ^ (ndigits a + 2)" by (simp add: power_add)
  also have "\<dots> \<le> 10 ^ p" using p by (intro power_increasing) auto
  finally show ?thesis using p by (simp add: ndigits_le_iff)
qed

text \<open>The weights are quarters: one or two decimal places.\<close>

definition quarter_weight :: "dec \<Rightarrow> nat \<Rightarrow> bool" where
  "quarter_weight w k \<longleftrightarrow> (w = Dec False (25 * k) (- 2) \<or> w = Dec False 5 (- 1) \<and> k = 2) \<and> 0 < k \<and> k < 4"

lemma quarter_weight_value: "quarter_weight w k \<Longrightarrow> dval w = (of_nat k / 4 :: rat)"
  by (auto simp: quarter_weight_def dval_def dint_def power_int_minus)

lemma quarter_weight_shape:
  "quarter_weight w k \<Longrightarrow> dcoeff w < 100 \<and> dcoeff w \<noteq> 0 \<and> - 2 \<le> dexp w \<and> dexp w \<le> 0"
  by (auto simp: quarter_weight_def)

lemma complement_weight:
  assumes "quarter_weight w k" "2 \<le> p" "p \<le> 3000"
  shows "\<exists>v. dec_sub (plain_context p x) (dec_of_int 1) w = Some v \<and> quarter_weight v (4 - k)"
proof -
  have k: "k = 1 \<or> k = 2 \<or> k = 3" using assms(1) by (auto simp: quarter_weight_def)
  have "ndigits 75 = 2" "ndigits 50 = 2" "ndigits 25 = 2" "ndigits 5 = 1" by (simp_all add: ndigits.simps)
  then have nd: "ndigits c \<le> p" if "c \<in> {75, 50, 25, 5}" for c using that assms(2) by auto
  consider "w = Dec False (25 * k) (- 2)" | "w = Dec False 5 (- 1)" "k = 2" using assms(1) by (auto simp: quarter_weight_def)
  then show ?thesis
  proof cases
    case 1
    have "dec_sub (plain_context p x) (dec_of_int 1) w = dec_fix (plain_context p x) False (25 * (4 - k)) (- 2) False"
      using k by (elim disjE) (simp_all add: dec_sub_def dec_add_def 1 dec_of_int_def copy_negate_def aligned_def dint_def)
    also have "\<dots> = Some (Dec False (25 * (4 - k)) (- 2))"
    proof (rule dec_fix_plain)
      have "25 * (4 - k) \<in> {75, 50, 25, 5}" using k by (elim disjE) simp_all
      then show "ndigits (25 * (4 - k)) \<le> p" by (rule nd)
    qed (use assms(3) in simp_all)
    finally show ?thesis using k by (auto simp: quarter_weight_def)
  next
    case 2
    have "dec_sub (plain_context p x) (dec_of_int 1) w = dec_fix (plain_context p x) False 5 (- 1) False"
      by (simp add: dec_sub_def dec_add_def 2 dec_of_int_def copy_negate_def aligned_def dint_def Let_def)
    also have "\<dots> = Some (Dec False 5 (- 1))" using nd assms(3) by (intro dec_fix_plain) auto
    finally show ?thesis using 2 by (simp add: quarter_weight_def)
  qed
qed

lemma weighted_value:
  assumes "quarter_weight w k" "within_limits l" "ndigits (dcoeff l) + 2 \<le> p" "p \<le> 3000"
  shows "\<exists>a. dec_mul (plain_context p x) l w = Some a \<and> dval a = (dval l * of_nat k / 4 :: rat)
    \<and> dexp l - 2 \<le> dexp a \<and> dexp a \<le> dexp l"
proof -
  note sh = quarter_weight_shape[OF assms(1)]
  have e: "\<bar>dexp l\<bar> \<le> 1000" using assms(2) by (simp add: within_limits_def)
  have "\<exists>a. dec_mul (plain_context p x) l w = Some a \<and> dval a = (dval l * dval w :: rat) \<and> dexp a = dexp l + dexp w"
    using sh e assms(3,4) by (intro dec_mul_fits small_factor_digits) auto
  then show ?thesis using sh quarter_weight_value[OF assms(1)] by fastforce
qed

lemma interpolate_exact:
  assumes l: "within_limits l" and r: "within_limits r" and w: "quarter_weight w k"
  shows "\<exists>x. interpolate l r w = Some x \<and> dval x = (dval l * (1 - of_nat k / 4) + dval r * (of_nat k / 4) :: rat)"
proof -
  define p where "p = span_precision l r"
  define ctx where "ctx = plain_context p True"
  define m where "m = min (dexp l) (dexp r)"
  define t where "t = max (adjusted l) (adjusted r)"
  have k: "0 < k" "k < 4" using w by (simp_all add: quarter_weight_def)
  have p: "p = nat (max 50 (t - m + 4))" by (simp add: p_def span_precision_def t_def m_def)
  have lim: "- 1000 \<le> m" "m \<le> 1000" "t \<le> 1000" using l r by (auto simp: within_limits_def m_def t_def)
  have pb: "t - m + 4 \<le> int p" "50 \<le> p" "p \<le> 2004" using p lim by auto
  have bounds: "m \<le> dexp l" "m \<le> dexp r" "adjusted l \<le> t" "adjusted r \<le> t" by (simp_all add: m_def t_def)
  have dig: "ndigits (dcoeff l) + 2 \<le> p" "ndigits (dcoeff r) + 2 \<le> p"
    using pb(1) bounds unfolding adjusted_def by linarith+
  obtain v where v: "dec_sub ctx (dec_of_int 1) w = Some v" "quarter_weight v (4 - k)"
    using complement_weight[OF w, of p True] pb by (auto simp: ctx_def)
  obtain a where a: "dec_mul ctx l v = Some a" "dval a = (dval l * of_nat (4 - k) / 4 :: rat)" "dexp l - 2 \<le> dexp a" "dexp a \<le> dexp l"
    using weighted_value[OF v(2) l dig(1)] pb by (auto simp: ctx_def)
  obtain b where b: "dec_mul ctx r w = Some b" "dval b = (dval r * of_nat k / 4 :: rat)" "dexp r - 2 \<le> dexp b"
    using weighted_value[OF w r dig(2)] pb by (auto simp: ctx_def)
  let ?K = "(aligned m l * int (4 - k) + aligned m r * int k) * 25"
  have val: "dval a + dval b = (of_int ?K * 10 powi (m - 2) :: rat)"
    using a(2) b(2) dval_aligned[OF bounds(1), where 'a=rat] dval_aligned[OF bounds(2), where 'a=rat]
    by (simp add: power_int_diff algebra_simps add_divide_distrib)
  have al: "\<bar>aligned m l\<bar> < 10 ^ nat (t + 1 - m)" "\<bar>aligned m r\<bar> < 10 ^ nat (t + 1 - m)"
    using aligned_bound bounds by auto
  have "\<bar>?K\<bar> < 10 ^ p"
  proof -
    define B where "B = (10::int) ^ nat (t + 1 - m)"
    have "\<bar>aligned m l * int (4 - k) + aligned m r * int k\<bar> \<le> \<bar>aligned m l\<bar> * int (4 - k) + \<bar>aligned m r\<bar> * int k"
      by (metis abs_mult abs_of_nat abs_triangle_ineq)
    also have "\<dots> < B * int (4 - k) + B * int k"
      using al k by (intro add_strict_mono mult_strict_right_mono) (auto simp: B_def)
    also have "\<dots> = 4 * B" using k by (simp add: algebra_simps of_nat_diff)
    finally have "\<bar>?K\<bar> < 100 * B" by (simp add: abs_mult)
    also have "100 * B = 10 ^ (nat (t + 1 - m) + 2)" by (simp add: B_def power_add)
    also have "\<dots> \<le> 10 ^ p" using pb by (intro power_increasing) auto
    finally show ?thesis .
  qed
  moreover have "m - 2 \<le> min (dexp a) (dexp b)" using a(3) b(3) bounds by simp
  moreover have "min (dexp a) (dexp b) \<le> 999999"
    using a(4) l unfolding within_limits_def by linarith
  ultimately obtain x where "dec_add ctx a b = Some x" "dval x = (of_int ?K * 10 powi (m - 2) :: rat)"
    using dec_add_fits[OF val, of ctx] pb lim by (auto simp: ctx_def)
  then show ?thesis
    using v(1) a b val k by (auto simp: interpolate_def Let_def ctx_def p_def of_nat_diff diff_divide_distrib algebra_simps)
qed

section \<open>Quartiles\<close>

text \<open>The specification: linear interpolation at position \<open>(n - 1) * k / 4\<close> of a sorted list.\<close>

definition exact_quantile :: "rat list \<Rightarrow> nat \<Rightarrow> rat" where
  "exact_quantile vs pos =
     vs ! (pos div 4) * (1 - of_nat (pos mod 4) / 4)
     + (if pos mod 4 = 0 then 0 else vs ! (pos div 4 + 1) * (of_nat (pos mod 4) / 4))"

lemma exact_quantile_step:
  assumes "sorted vs" "pos < 4 * (length vs - 1)"
  shows "exact_quantile vs pos \<le> exact_quantile vs (pos + 1)"
proof -
  let ?i = "pos div 4"
  define a b where "a = vs ! ?i" and "b = vs ! Suc ?i"
  have "Suc ?i < length vs" using assms(2) by linarith
  then have ab: "a \<le> b" using assms(1) by (simp add: a_def b_def sorted_nth_mono)
  have "pos mod 4 = 0 \<or> pos mod 4 = 1 \<or> pos mod 4 = 2 \<or> pos mod 4 = 3" by linarith
  then show ?thesis
  proof (elim disjE)
    assume m: "pos mod 4 = 3"
    then have "(pos + 1) mod 4 = 0" "(pos + 1) div 4 = ?i + 1" by presburger+
    with m ab show ?thesis by (simp add: exact_quantile_def flip: a_def b_def)
  qed (use ab in \<open>simp_all add: exact_quantile_def mod_Suc div_Suc field_simps flip: a_def b_def\<close>)
qed

lemma exact_quantile_mono:
  assumes "sorted vs" "p \<le> q" "q \<le> 4 * (length vs - 1)"
  shows "exact_quantile vs p \<le> exact_quantile vs q"
  using assms(2,3)
proof (induction q rule: dec_induct)
  case (step n)
  then show ?case using exact_quantile_step[OF assms(1), of n] by simp
qed simp

lemma exact_quantile_ends:
  assumes "vs \<noteq> []"
  shows "exact_quantile vs 0 = hd vs" "exact_quantile vs (4 * (length vs - 1)) = last vs"
  using assms by (simp_all add: exact_quantile_def hd_conv_nth last_conv_nth)

text \<open>Position and weight of a quartile: no rounding happens.\<close>

lemma position_value:
  assumes "m * c < 10 ^ 50" "0 \<le> j" "j \<le> 2"
  shows "dec_mul (plain_context 50 False) (dec_of_int (int m)) (Dec False c (- j)) = Some (Dec False (m * c) (- j))"
  using assms by (simp add: dec_mul_def dec_of_int_def dec_fix_plain ndigits_le_iff)

lemma weight_value:
  assumes "c < 10 ^ 50" "1 \<le> j" "j \<le> 2"
  shows "dec_sub (plain_context 50 False) (Dec False c (- j)) (dec_of_int (int (c div 10 ^ nat j)))
    = Some (Dec False (c mod 10 ^ nat j) (- j))"
proof -
  let ?u = "(10::nat) ^ nat j"
  have "int c = int (c div ?u * ?u + c mod ?u)" by (simp only: div_mult_mod_eq)
  then have diff: "int c + - int (c div ?u) * 10 ^ nat j = int (c mod ?u)" by simp
  have "c mod ?u < 10 ^ 50" using assms(1) by (meson mod_less_eq_dividend order.strict_trans1)
  then have "ndigits (c mod ?u) \<le> 50" by (simp add: ndigits_le_iff)
  then have fx: "dec_fix (plain_context 50 False) False (c mod ?u) (- j) False = Some (Dec False (c mod ?u) (- j))"
    using assms by (intro dec_fix_plain) auto
  have al: "aligned (- j) (Dec False c (- j)) + aligned (- j) (copy_negate (dec_of_int (int (c div ?u)))) = int (c mod ?u)"
    using diff by (simp add: aligned_def copy_negate_def dec_of_int_def)
  have m: "min (dexp (Dec False c (- j))) (dexp (copy_negate (dec_of_int (int (c div ?u))))) = - j"
    using assms(2) by (simp add: copy_negate_def dec_of_int_def)
  have sg: "dsign (copy_negate (dec_of_int (int (c div ?u))))" by (simp add: copy_negate_def dec_of_int_def)
  have rm: "rounding_mode (plain_context 50 False) \<noteq> ROUND_FLOOR" by (simp add: plain_context_def)
  show ?thesis
    unfolding dec_sub_def dec_add_def Let_def m al using fx sg rm by (cases "c mod ?u = 0") auto
qed

lemma quantile_position:
  assumes vs: "length vs = Suc m" "m < 1000" and c: "c < 100" "1 \<le> j" "j \<le> 2"
    and pos: "m * c div 10 ^ nat j = pos div 4"
    and wt: "pos mod 4 = 0 \<longrightarrow> m * c mod 10 ^ nat j = 0"
      "pos mod 4 \<noteq> 0 \<longrightarrow> quarter_weight (Dec False (m * c mod 10 ^ nat j) (- j)) (pos mod 4)"
    and lim: "list_all within_limits vs" and len: "pos \<le> 4 * m"
  shows "\<exists>r. quantile vs (Dec False c (- j)) = Some r \<and> dval r = exact_quantile (map dval vs) pos"
proof -
  have "m * c < 1000 * 100" using vs(2) c(1) by (intro mult_strict_mono) auto
  then have mc: "m * c < 10 ^ 50" by simp
  have tr: "dec_trunc (Dec False (m * c) (- j)) = pos div 4" using c pos by (simp add: dec_trunc_def)
  have wv: "dec_sub (plain_context 50 False) (Dec False (m * c) (- j)) (dec_of_int (int (pos div 4)))
      = Some (Dec False (m * c mod 10 ^ nat j) (- j))"
    using weight_value[OF mc c(2,3)] pos by simp
  have i: "pos div 4 < length vs" using len vs by simp
  have q: "quantile vs (Dec False c (- j)) =
      (if m * c mod 10 ^ nat j = 0 then Some (vs ! (pos div 4))
       else interpolate (vs ! (pos div 4)) (vs ! (pos div 4 + 1)) (Dec False (m * c mod 10 ^ nat j) (- j)))"
    using position_value[OF mc, of j] c vs(1) by (simp add: quantile_def Let_def tr wv)
  show ?thesis
  proof (cases "pos mod 4 = 0")
    case True
    with q wt i show ?thesis by (simp add: exact_quantile_def)
  next
    case False
    then have i1: "pos div 4 + 1 < length vs" using len vs by presburger
    have "within_limits (vs ! (pos div 4))" "within_limits (vs ! (pos div 4 + 1))"
      using lim i i1 by (simp_all add: list_all_length)
    from interpolate_exact[OF this wt(2)[rule_format, OF False]] q False i i1 wt(2) show ?thesis
      by (auto simp: exact_quantile_def quarter_weight_def)
  qed
qed

lemma quartiles_exact:
  assumes vs: "vs \<noteq> []" "length vs \<le> 1000" and lim: "list_all within_limits vs"
  shows "\<exists>r. quantile vs dec_25 = Some r \<and> dval r = exact_quantile (map dval vs) (length vs - 1)"
    and "\<exists>r. quantile vs dec_5 = Some r \<and> dval r = exact_quantile (map dval vs) (2 * (length vs - 1))"
    and "\<exists>r. quantile vs dec_75 = Some r \<and> dval r = exact_quantile (map dval vs) (3 * (length vs - 1))"
proof -
  obtain m where m: "length vs = Suc m" "m < 1000" using vs by (cases vs) auto
  have a: "m * 25 div 100 = m div 4" "m * 25 mod 100 = 25 * (m mod 4)"
    using div_mult_mult2[of 25 m 4] mod_mult_mult2[of m 25 4] by simp_all
  have b: "m * 5 div 10 = 2 * m div 4" "m * 5 mod 10 = 5 * (m mod 2)" "2 * m mod 4 = 2 * (m mod 2)"
    using div_mult_mult2[of 5 m 2] mod_mult_mult2[of m 5 2] div_mult_mult1[of 2 m 2] mod_mult_mult1[of 2 m 2] by simp_all
  have c: "m * 75 div 100 = 3 * m div 4" "m * 75 mod 100 = 25 * (3 * m mod 4)"
    using div_mult_mult2[of 25 "3 * m" 4] mod_mult_mult2[of "3 * m" 25 4] by (simp_all add: mult.commute)
  show "\<exists>r. quantile vs dec_25 = Some r \<and> dval r = exact_quantile (map dval vs) (length vs - 1)"
    unfolding m(1) diff_Suc_1
    by (rule quantile_position[OF m, of 25 2]) (use a lim in \<open>simp_all add: quarter_weight_def\<close>)
  show "\<exists>r. quantile vs dec_5 = Some r \<and> dval r = exact_quantile (map dval vs) (2 * (length vs - 1))"
    unfolding m(1) diff_Suc_1
    by (rule quantile_position[OF m, of 5 1]) (use b lim in \<open>auto simp: quarter_weight_def\<close>)
  show "\<exists>r. quantile vs dec_75 = Some r \<and> dval r = exact_quantile (map dval vs) (3 * (length vs - 1))"
    unfolding m(1) diff_Suc_1
    by (rule quantile_position[OF m, of 75 2]) (use c lim in \<open>simp_all add: quarter_weight_def\<close>)
qed

end
