(* ===== verification/History_Properties.thy ===== *)
theory History_Properties
  imports History_Laws "HOL-Library.Code_Target_Numeral"
begin

text \<open>
  Guarantees of the history bands: no sample is lost, kept samples are clean and unambiguous, quartiles
  are exact and ordered, and the comparison says what its name says.
\<close>

section \<open>Selection\<close>

lemma select_samples_partition:
  "select_samples reasons seen ps = (el, ex) \<Longrightarrow> mset el + mset (map ex_point ex) = mset ps"
proof (induction ps arbitrary: seen el ex)
  case (Cons p ps)
  then show ?case
    by (cases "reasons seen p = []") (auto simp: Let_def split: prod.splits dest!: Cons.IH)
qed simp

lemma select_samples_reasons:
  "select_samples reasons seen ps = (el, ex) \<Longrightarrow> \<forall>x\<in>set ex. ex_reasons x \<noteq> []"
proof (induction ps arbitrary: seen el ex)
  case (Cons p ps)
  then show ?case
    by (cases "reasons seen p = []") (auto simp: Let_def split: prod.splits dest!: Cons.IH)
qed simp

lemma select_samples_distinct:
  assumes "\<And>seen p. reasons seen p = [] \<Longrightarrow> hp_quarter_end p \<notin> set seen"
  shows "select_samples reasons seen ps = (el, ex) \<Longrightarrow>
    distinct (map hp_quarter_end el) \<and> set (map hp_quarter_end el) \<inter> set seen = {}
    \<and> (\<forall>p\<in>set el. p \<in> set ps \<and> (\<exists>seen. reasons seen p = []))"
proof (induction ps arbitrary: seen el ex)
  case (Cons p ps)
  show ?case
  proof (cases "reasons seen p = []")
    case True
    then obtain el' where r: "select_samples reasons (hp_quarter_end p # seen) ps = (el', ex)" "el = p # el'"
      using Cons.prems by (auto simp: Let_def split: prod.splits)
    from Cons.IH[OF r(1)] assms[OF True] True show ?thesis by (auto simp: r(2))
  next
    case False
    then obtain ex' where "select_samples reasons seen ps = (el, ex')"
      using Cons.prems by (auto simp: Let_def split: prod.splits)
    from Cons.IH[OF this] show ?thesis by auto
  qed
qed simp

lemma select_samples_set:
  "select_samples reasons seen ps = (el, ex) \<Longrightarrow> set el \<subseteq> set ps"
  using select_samples_partition[of reasons seen ps el ex] by (metis mset_subset_eq_add_left set_mset_mono set_mset_mset)

lemma select_samples_subseq:
  "select_samples reasons seen ps = (el, ex) \<Longrightarrow> sorted (map hp_quarter_end ps) \<Longrightarrow> sorted (map hp_quarter_end el)"
proof (induction ps arbitrary: seen el ex)
  case (Cons p ps)
  show ?case
  proof (cases "reasons seen p = []")
    case True
    then obtain el' where r: "select_samples reasons (hp_quarter_end p # seen) ps = (el', ex)" "el = p # el'"
      using Cons.prems(1) by (auto simp: Let_def split: prod.splits)
    have "sorted (map hp_quarter_end el')" using Cons.IH[OF r(1)] Cons.prems(2) by simp
    moreover have "\<forall>q\<in>set el'. hp_quarter_end p \<le> hp_quarter_end q"
      using select_samples_set[OF r(1)] Cons.prems(2) by auto
    ultimately show ?thesis by (simp add: r(2))
  next
    case False
    then obtain ex' where "select_samples reasons seen ps = (el, ex')"
      using Cons.prems(1) by (auto simp: Let_def split: prod.splits)
    from Cons.IH[OF this] Cons.prems(2) show ?thesis by simp
  qed
qed simp

lemma sample_reasons_Nil:
  assumes "sample_reasons pts start as_of series seen p = []"
  shows "hp_quarter_end p \<notin> set seen" "hp_flags p = []" "in_window start as_of (hp_quarter_end p)"
    "quarter_end_day (hp_quarter_end p)" "hp_series p = series" "nonblank (hp_hash p)"
    "\<exists>d. hp_value p = Some (Finite d) \<and> within_limits d"
    "\<not> conflicting pts start as_of series (hp_quarter_end p)"
proof -
  have base: "point_reasons start as_of series p = []" and
    rest: "(if hp_series p = series \<and> conflicting pts start as_of series (hp_quarter_end p)
              then [''conflicting_quarter'']
              else flag_if (point_reasons start as_of series p = [] \<and> hp_quarter_end p \<in> set seen) ''duplicate_sample'') = []"
    using assms by (simp_all add: sample_reasons_def Let_def)
  show s: "hp_flags p = []" "in_window start as_of (hp_quarter_end p)"
    "quarter_end_day (hp_quarter_end p)" "hp_series p = series" "nonblank (hp_hash p)"
    using base by (auto simp: point_reasons_def in_window_def split: if_splits)
  show "\<exists>d. hp_value p = Some (Finite d) \<and> within_limits d"
    using base by (auto simp: point_reasons_def value_reasons_def split: if_splits option.splits decimal.splits)
  show "hp_quarter_end p \<notin> set seen" "\<not> conflicting pts start as_of series (hp_quarter_end p)"
    using rest base s by (auto split: if_splits)
qed

lemma not_conflicting_same:
  assumes "\<not> conflicting pts start as_of series d" "in_window start as_of d"
    and "p \<in> set pts" "q \<in> set pts" "hp_series p = series" "hp_series q = series" "hp_quarter_end p = d" "hp_quarter_end q = d"
  shows "hp_identity p = hp_identity q"
proof -
  let ?ids = "map hp_identity (filter (\<lambda>p. hp_series p = series \<and> hp_quarter_end p = d) pts)"
  have "card (set ?ids) \<le> 1" using assms(1,2) by (simp add: conflicting_def length_remdups_card_conv)
  then have le: "card (set ?ids) \<le> Suc 0" by (simp only: One_nat_def)
  have p: "hp_identity p \<in> set ?ids" using assms(3,5,7) by auto
  have q: "hp_identity q \<in> set ?ids" using assms(4,6,8) by auto
  from iffD1[OF card_le_Suc0_iff_eq[OF List.finite_set] le] p q show ?thesis by blast
qed

lemma window_expected:
  assumes "in_window start as_of d" "quarter_end_day d"
  shows "d \<in> set (quarter_ends_between start as_of)"
proof -
  have y: "yr d \<in> set [yr start..<yr as_of + 1]"
    using assms(1) by (auto simp: in_window_def less_date_def less_eq_date_def)
  let ?f = "\<lambda>y. map (\<lambda>(m, d). Date y m d) [(3, 31), (6, 30), (9, 30), (12, 31)]"
  have d: "d \<in> set (?f (yr d))" using assms(2) by (cases d) (auto simp: quarter_end_day_def)
  from y have "?f (yr d) \<in> set (map ?f [yr start..<yr as_of + 1])" unfolding set_map by (rule imageI)
  then have "set (?f (yr d)) \<subseteq> set (concat (map ?f [yr start..<yr as_of + 1]))"
    unfolding set_concat by (rule SUP_upper)
  then have "d \<in> set (concat (map ?f [yr start..<yr as_of + 1]))" using d by (rule subsetD)
  with assms(1) show ?thesis by (simp only: quarter_ends_between_def set_filter mem_Collect_eq simp_thms)
qed

lemma expected_length: "length (quarter_ends_between start as_of) \<le> 4 * (yr as_of + 1 - yr start)"
proof -
  have "length (concat (map (\<lambda>y. map (\<lambda>(m, d). Date y m d) [(3, 31), (6, 30), (9, 30), (12, 31)]) ys)) = 4 * length ys" for ys
    by (induction ys) simp_all
  from this[of "[yr start..<yr as_of + 1]"] show ?thesis
    unfolding quarter_ends_between_def using length_filter_le by (metis length_upt)
qed

section \<open>The band\<close>

definition band_values :: "history_band \<Rightarrow> dec list" where
  "band_values b = dec_sort (List.map_filter (\<lambda>p. Option.bind (hp_value p) finite_value) (hb_eligible b))"

definition uncontested :: "history_point list \<Rightarrow> string \<Rightarrow> history_point \<Rightarrow> bool" where
  "uncontested pts series p \<longleftrightarrow>
     (\<forall>q\<in>set pts. hp_series q = series \<and> hp_quarter_end q = hp_quarter_end p \<longrightarrow> hp_identity q = hp_identity p)"

definition clean_sample :: "history_point list \<Rightarrow> history_band \<Rightarrow> history_point \<Rightarrow> bool" where
  "clean_sample pts b p \<longleftrightarrow>
     p \<in> set pts \<and> hp_flags p = [] \<and> hb_start b < hp_quarter_end p \<and> hp_quarter_end p \<le> hb_end b
     \<and> quarter_end_day (hp_quarter_end p) \<and> hp_series p = hb_series b \<and> nonblank (hp_hash p)
     \<and> (\<exists>d. hp_value p = Some (Finite d) \<and> within_limits d)
     \<and> uncontested pts (hb_series b) p"

definition band_selection :: "history_point list \<Rightarrow> date \<Rightarrow> string \<Rightarrow> history_policy \<Rightarrow> history_point list \<times> excluded_point list" where
  "band_selection pts as_of series policy =
     select_samples (sample_reasons pts (window_start as_of (hpol_years policy)) as_of series) []
       (sort_key (\<lambda>p. (hp_quarter_end p, hp_identity p)) pts)"

lemma band_selection_clean:
  assumes "band_selection pts as_of series policy = (el, ex)"
  shows "mset el + mset (map ex_point ex) = mset pts" "\<forall>x\<in>set ex. ex_reasons x \<noteq> []"
    "sorted_wrt (<) (map hp_quarter_end el)"
    "\<forall>p\<in>set el. p \<in> set pts \<and> (\<exists>seen. sample_reasons pts (window_start as_of (hpol_years policy)) as_of series seen p = [])"
proof -
  let ?k = "\<lambda>p. (hp_quarter_end p, hp_identity p)"
  note sel = assms[unfolded band_selection_def]
  show "mset el + mset (map ex_point ex) = mset pts" using select_samples_partition[OF sel] by simp
  show "\<forall>x\<in>set ex. ex_reasons x \<noteq> []" by (rule select_samples_reasons[OF sel])
  have d: "distinct (map hp_quarter_end el)"
    "\<forall>p\<in>set el. p \<in> set (sort_key ?k pts) \<and> (\<exists>seen. sample_reasons pts (window_start as_of (hpol_years policy)) as_of series seen p = [])"
    using select_samples_distinct[OF _ sel] sample_reasons_Nil(1) by blast+
  have "sorted (map ?k (sort_key ?k pts))" by simp
  then have "sorted (map hp_quarter_end (sort_key ?k pts))"
    unfolding sorted_map by (rule sorted_wrt_mono_rel[rotated]) (auto simp: less_eq_prod_def)
  from select_samples_subseq[OF sel this] d(1) show "sorted_wrt (<) (map hp_quarter_end el)"
    by (simp add: strict_sorted_iff)
  show "\<forall>p\<in>set el. p \<in> set pts \<and> (\<exists>seen. sample_reasons pts (window_start as_of (hpol_years policy)) as_of series seen p = [])"
    using d(2) by simp
qed

lemma map_filter_all:
  assumes "\<forall>x\<in>set xs. f x \<noteq> None"
  shows "List.map_filter f xs = map (\<lambda>x. the (f x)) xs"
  using assms by (induction xs) (auto simp: List.map_filter_simps)

lemma dec_sort_props: "set (dec_sort vs) = set vs" "length (dec_sort vs) = length vs" "sorted (map dval (dec_sort vs) :: rat list)"
  by (simp_all add: dec_sort_def)

lemma historical_band_InrE:
  assumes "historical_band pts as_of series policy = Inr b"
  obtains el ex where "band_selection pts as_of series policy = (el, ex)" "history_policy_valid policy"
    "hb_eligible b = el" "hb_excluded b = ex" "hb_start b = window_start as_of (hpol_years policy)" "hb_end b = as_of"
    "hb_series b = series" "hb_expected b = quarter_ends_between (hb_start b) as_of"
    "hb_missing b = filter (\<lambda>d. d \<notin> set (map hp_quarter_end el)) (hb_expected b)"
    "hb_flags b = flag_if (length (band_values b) < minimum_samples policy) ''insufficient_history''"
    "hb_p25 b = (if length (band_values b) < minimum_samples policy then None else quantile (band_values b) dec_25)"
    "hb_p50 b = (if length (band_values b) < minimum_samples policy then None else quantile (band_values b) dec_5)"
    "hb_p75 b = (if length (band_values b) < minimum_samples policy then None else quantile (band_values b) dec_75)"
proof -
  obtain el ex where sel: "band_selection pts as_of series policy = (el, ex)" by fastforce
  show ?thesis
    using assms sel[unfolded band_selection_def]
    by (intro that[OF sel]) (auto simp: historical_band_def band_values_def Let_def not_le split: if_splits option.splits)
qed

lemma eligible_values:
  assumes "band_selection pts as_of series policy = (el, ex)"
  shows "length (List.map_filter (\<lambda>p. Option.bind (hp_value p) finite_value) el) = length el"
    "list_all within_limits (List.map_filter (\<lambda>p. Option.bind (hp_value p) finite_value) el)"
proof -
  have v: "\<exists>d. hp_value p = Some (Finite d) \<and> within_limits d" if "p \<in> set el" for p
    using band_selection_clean(4)[OF assms] that sample_reasons_Nil(7) by blast
  then have "\<forall>p\<in>set el. Option.bind (hp_value p) finite_value \<noteq> None" by fastforce
  note mf = map_filter_all[OF this]
  show "length (List.map_filter (\<lambda>p. Option.bind (hp_value p) finite_value) el) = length el" by (simp add: mf)
  show "list_all within_limits (List.map_filter (\<lambda>p. Option.bind (hp_value p) finite_value) el)"
    unfolding mf list_all_iff using v by fastforce
qed

lemma eligible_count:
  assumes "band_selection pts as_of series policy = (el, ex)" "history_policy_valid policy"
  shows "length el \<le> 44"
proof -
  let ?start = "window_start as_of (hpol_years policy)"
  have "set (map hp_quarter_end el) \<subseteq> set (quarter_ends_between ?start as_of)"
    using band_selection_clean(4)[OF assms(1)] sample_reasons_Nil(3,4) window_expected by fastforce
  moreover have "distinct (map hp_quarter_end el)"
    using band_selection_clean(3)[OF assms(1)] by (simp add: strict_sorted_iff)
  ultimately have "length (map hp_quarter_end el) \<le> length (quarter_ends_between ?start as_of)"
    by (metis List.finite_set card_length card_mono distinct_card order_trans)
  also have "\<dots> \<le> 4 * (yr as_of + 1 - yr ?start)" by (rule expected_length)
  also have "\<dots> \<le> 44" using assms(2) by (auto simp: window_start_def Let_def history_policy_valid_def)
  finally show ?thesis by simp
qed

text \<open>A clean sample is never passed over: its quarter is taken by it or by an identical twin.\<close>

lemma select_samples_keeps:
  assumes "\<And>seen. hp_quarter_end p \<notin> set seen \<Longrightarrow> reasons seen p = []"
  shows "select_samples reasons seen ps = (el, ex) \<Longrightarrow> p \<in> set ps \<Longrightarrow>
    hp_quarter_end p \<in> set seen \<union> set (map hp_quarter_end el)"
proof (induction ps arbitrary: seen el ex)
  case (Cons a ps)
  show ?case
  proof (cases "reasons seen a = []")
    case True
    then obtain el' where r: "select_samples reasons (hp_quarter_end a # seen) ps = (el', ex)" "el = a # el'"
      using Cons.prems(1) by (auto simp: Let_def split: prod.splits)
    from Cons.IH[OF r(1)] Cons.prems(2) show ?thesis by (auto simp: r(2))
  next
    case False
    then obtain ex' where r: "select_samples reasons seen ps = (el, ex')"
      using Cons.prems(1) by (auto simp: Let_def split: prod.splits)
    from Cons.IH[OF r] Cons.prems(2) assms[of seen] False show ?thesis by auto
  qed
qed simp

lemma clean_sample_reasons:
  assumes "clean_sample pts b p" "hp_quarter_end p \<notin> set seen"
  shows "sample_reasons pts (hb_start b) (hb_end b) (hb_series b) seen p = []"
proof -
  let ?ids = "map hp_identity (filter (\<lambda>q. hp_series q = hb_series b \<and> hp_quarter_end q = hp_quarter_end p) pts)"
  have "uncontested pts (hb_series b) p" using assms(1) by (simp add: clean_sample_def)
  then have "set ?ids \<subseteq> {hp_identity p}" unfolding uncontested_def by auto
  then have "card (set ?ids) \<le> card {hp_identity p}" by (intro card_mono) auto
  then have "card (set ?ids) \<le> 1" by simp
  then have "\<not> conflicting pts (hb_start b) (hb_end b) (hb_series b) (hp_quarter_end p)"
    unfolding conflicting_def length_remdups_card_conv by linarith
  with assms show ?thesis
    by (auto simp: sample_reasons_def point_reasons_def value_reasons_def clean_sample_def Let_def)
qed

lemma reasons_clean_sample:
  assumes "sample_reasons pts (hb_start b) (hb_end b) (hb_series b) seen p = []" "p \<in> set pts"
  shows "clean_sample pts b p"
proof -
  note r = sample_reasons_Nil[OF assms(1)]
  have "uncontested pts (hb_series b) p"
    unfolding uncontested_def using not_conflicting_same[OF r(8,3)] assms(2) r(5) by blast
  with r assms(2) show ?thesis by (auto simp: clean_sample_def in_window_def)
qed

lemma quartiles_ordered:
  assumes "vs \<noteq> []" "dval q1 = exact_quantile (map dval (dec_sort vs)) (length vs - 1)"
    "dval q2 = exact_quantile (map dval (dec_sort vs)) (2 * (length vs - 1))"
    "dval q3 = exact_quantile (map dval (dec_sort vs)) (3 * (length vs - 1))"
  shows "dval q1 \<le> (dval q2 :: rat)" "dval q2 \<le> (dval q3 :: rat)"
  using exact_quantile_mono[OF dec_sort_props(3)[of vs]] by (simp_all add: assms(2-4) dec_sort_props(2))

text \<open>
  C25.  The band loses no observation and keeps only clean ones: kept and excluded samples together are
  the samples given, every exclusion carries a reason, kept samples are usable (in window, at a quarter end,
  of the series, finite and bounded, without quality flag, not contradicted by another observation of the
  quarter), there is one for each quarter, in order; every quarter with a clean sample is represented; and
  the missing quarters are the expected ones without a kept sample.
\<close>

theorem historical_band_partition:
  assumes "historical_band pts as_of series policy = Inr b"
  shows "mset (hb_eligible b) + mset (map ex_point (hb_excluded b)) = mset pts
    \<and> (\<forall>x\<in>set (hb_excluded b). ex_reasons x \<noteq> [])
    \<and> (\<forall>p\<in>set (hb_eligible b). clean_sample pts b p)
    \<and> sorted_wrt (<) (map hp_quarter_end (hb_eligible b))
    \<and> (\<forall>p. clean_sample pts b p \<longrightarrow> hp_quarter_end p \<in> set (map hp_quarter_end (hb_eligible b)))
    \<and> set (hb_missing b) \<union> set (map hp_quarter_end (hb_eligible b)) = set (hb_expected b)
    \<and> set (hb_missing b) \<inter> set (map hp_quarter_end (hb_eligible b)) = {}"
proof -
  from historical_band_InrE[OF assms] obtain el ex where
    sel: "band_selection pts as_of series policy = (el, ex)" and eq: "hb_eligible b = el" "hb_excluded b = ex"
      "hb_start b = window_start as_of (hpol_years policy)" "hb_end b = as_of" "hb_series b = series"
      "hb_expected b = quarter_ends_between (hb_start b) as_of"
      "hb_missing b = filter (\<lambda>d. d \<notin> set (map hp_quarter_end el)) (hb_expected b)"
    by blast
  note cl = band_selection_clean[OF sel, folded eq]
  have clean: "\<forall>p\<in>set el. clean_sample pts b p"
    using cl(4) eq reasons_clean_sample[of pts b] by metis
  have kept: "hp_quarter_end p \<in> set (map hp_quarter_end el)" if "clean_sample pts b p" for p
    using select_samples_keeps[OF clean_sample_reasons[OF that] sel[unfolded band_selection_def, folded eq]] that eq(1)
    by (simp add: clean_sample_def)
  have "set (map hp_quarter_end el) \<subseteq> set (hb_expected b)"
    using clean window_expected[of "hb_start b" "hb_end b"] eq(4,6)
    by (auto simp: clean_sample_def in_window_def)
  then have "set (hb_missing b) \<union> set (map hp_quarter_end el) = set (hb_expected b)" by (auto simp: eq(7))
  moreover have "set (hb_missing b) \<inter> set (map hp_quarter_end el) = {}" by (auto simp: eq(7))
  ultimately show ?thesis using cl(1,2,3) clean kept unfolding eq(1,2) by blast
qed

definition sample_point :: "nat \<Rightarrow> nat \<Rightarrow> nat \<Rightarrow> int \<Rightarrow> history_point" where
  "sample_point y m d v = \<lparr>hp_quarter_end = Date y m d, hp_value = Some (Finite (dec_of_int v)), hp_series = ''pe'',
     hp_hash = ''h'', hp_flags = []\<rparr>"

definition sample_points :: "history_point list" where
  "sample_points = [sample_point 2023 12 31 12, sample_point 2023 9 30 10, sample_point 2024 3 31 16,
     sample_point 2024 6 30 20, sample_point 2024 6 30 20, sample_point 2010 6 30 20]"

definition sample_policy :: history_policy where
  "sample_policy = \<lparr>hpol_years = 3, minimum_samples = 4, hpol_revision = ''v1''\<rparr>"

lemma sample_band_result:
  "map_sum id (\<lambda>b. (map hp_quarter_end (hb_eligible b), length (hb_excluded b), length (hb_missing b), hb_p25 b, hb_p50 b, hb_p75 b, hb_flags b))
     (historical_band sample_points (Date 2024 8 1) ''pe'' sample_policy)
   = Inr ([Date 2023 9 30, Date 2023 12 31, Date 2024 3 31, Date 2024 6 30], 2, 8,
       Some (Dec False 1150 (- 2)), Some (Dec False 140 (- 1)), Some (Dec False 1700 (- 2)), [])"
  by code_simp

theorem historical_band_partition_witness:
  "\<exists>b. historical_band sample_points (Date 2024 8 1) ''pe'' sample_policy = Inr b
     \<and> mset (hb_eligible b) + mset (map ex_point (hb_excluded b)) = mset sample_points"
proof -
  obtain b where b: "historical_band sample_points (Date 2024 8 1) ''pe'' sample_policy = Inr b"
    using sample_band_result by (cases "historical_band sample_points (Date 2024 8 1) ''pe'' sample_policy") auto
  from historical_band_partition[OF b] b show ?thesis by blast
qed

lemma band_quartiles:
  assumes sel: "band_selection pts as_of series policy = (el, ex)" and pol: "history_policy_valid policy" and ne: "el \<noteq> []"
  defines "vs \<equiv> List.map_filter (\<lambda>p. Option.bind (hp_value p) finite_value) el"
  shows "\<exists>q1 q2 q3. quantile (dec_sort vs) dec_25 = Some q1 \<and> quantile (dec_sort vs) dec_5 = Some q2
      \<and> quantile (dec_sort vs) dec_75 = Some q3
      \<and> dval q1 = exact_quantile (map dval (dec_sort vs)) (length el - 1)
      \<and> dval q2 = exact_quantile (map dval (dec_sort vs)) (2 * (length el - 1))
      \<and> dval q3 = exact_quantile (map dval (dec_sort vs)) (3 * (length el - 1))
      \<and> dval q1 \<le> (dval q2 :: rat) \<and> dval q2 \<le> (dval q3 :: rat)"
proof -
  note ev = eligible_values[OF sel, folded vs_def]
  have "length vs \<le> 1000" "vs \<noteq> []" using eligible_count[OF sel pol] ev(1) ne by auto
  then have "dec_sort vs \<noteq> []" "length (dec_sort vs) \<le> 1000" "list_all within_limits (dec_sort vs)"
    using ev(2) dec_sort_props[of vs] by (auto simp: list_all_iff)
  from quartiles_exact[OF this] obtain q1 q2 q3 where q: "quantile (dec_sort vs) dec_25 = Some q1" "quantile (dec_sort vs) dec_5 = Some q2"
      "quantile (dec_sort vs) dec_75 = Some q3"
    and qv: "dval q1 = exact_quantile (map dval (dec_sort vs)) (length vs - 1)"
      "dval q2 = exact_quantile (map dval (dec_sort vs)) (2 * (length vs - 1))"
      "dval q3 = exact_quantile (map dval (dec_sort vs)) (3 * (length vs - 1))"
    unfolding dec_sort_props(2) by blast
  from q qv quartiles_ordered[OF \<open>vs \<noteq> []\<close> qv] show ?thesis by (simp add: ev(1))
qed

lemma historical_band_defined:
  assumes "history_policy_valid policy" "hpol_years policy < yr as_of" "nonblank series"
  shows "\<exists>b. historical_band pts as_of series policy = Inr b"
proof -
  obtain el ex where sel: "band_selection pts as_of series policy = (el, ex)" by fastforce
  let ?vs = "List.map_filter (\<lambda>p. Option.bind (hp_value p) finite_value) el"
  note ev = eligible_values(1)[OF sel]
  show ?thesis
  proof (cases "minimum_samples policy \<le> length ?vs")
    case False
    then show ?thesis using assms sel by (auto simp: historical_band_def band_selection_def Let_def dec_sort_props)
  next
    case True
    have "1 \<le> minimum_samples policy" using assms(1) by (simp add: history_policy_valid_def)
    then have "el \<noteq> []" using True ev by auto
    from band_quartiles[OF sel assms(1) this] show ?thesis
      using assms sel by (auto simp: historical_band_def band_selection_def Let_def dec_sort_props)
  qed
qed

text \<open>
  C26.  For every valid request the band is computed: no decimal trap fires.  With the required number of
  samples its quartiles are exactly the linear interpolations of the sorted sample values at a quarter, a
  half and three quarters of the index range, and they are ordered; with fewer there are no quartiles and
  the band says so.
\<close>

theorem historical_band_quartiles:
  assumes "history_policy_valid policy" "hpol_years policy < yr as_of" "nonblank series"
  shows "\<exists>b. historical_band pts as_of series policy = Inr b
    \<and> (if length (hb_eligible b) < minimum_samples policy
       then hb_p25 b = None \<and> hb_p50 b = None \<and> hb_p75 b = None \<and> hb_flags b = [''insufficient_history'']
       else \<exists>q1 q2 q3. hb_p25 b = Some q1 \<and> hb_p50 b = Some q2 \<and> hb_p75 b = Some q3 \<and> hb_flags b = []
         \<and> dval q1 = exact_quantile (map dval (band_values b)) (length (hb_eligible b) - 1)
         \<and> dval q2 = exact_quantile (map dval (band_values b)) (2 * (length (hb_eligible b) - 1))
         \<and> dval q3 = exact_quantile (map dval (band_values b)) (3 * (length (hb_eligible b) - 1))
         \<and> dval q1 \<le> (dval q2 :: rat) \<and> dval q2 \<le> (dval q3 :: rat))"
proof -
  obtain b where b: "historical_band pts as_of series policy = Inr b" using historical_band_defined[OF assms] by blast
  from historical_band_InrE[OF b] obtain el ex where sel: "band_selection pts as_of series policy = (el, ex)"
    and f: "hb_eligible b = el" "hb_flags b = flag_if (length (band_values b) < minimum_samples policy) ''insufficient_history''"
      "hb_p25 b = (if length (band_values b) < minimum_samples policy then None else quantile (band_values b) dec_25)"
      "hb_p50 b = (if length (band_values b) < minimum_samples policy then None else quantile (band_values b) dec_5)"
      "hb_p75 b = (if length (band_values b) < minimum_samples policy then None else quantile (band_values b) dec_75)"
    by blast
  have len: "length (band_values b) = length el" by (simp add: band_values_def f(1) dec_sort_props eligible_values(1)[OF sel])
  show ?thesis
  proof (cases "length el < minimum_samples policy")
    case True
    then show ?thesis using b f len by simp
  next
    case False
    have "1 \<le> minimum_samples policy" using assms(1) by (simp add: history_policy_valid_def)
    then have "el \<noteq> []" using False by auto
    from band_quartiles[OF sel assms(1) this] show ?thesis using False b f len by (auto simp: band_values_def)
  qed
qed

theorem historical_band_quartiles_witness:
  "history_policy_valid sample_policy
    \<and> (\<exists>b. historical_band sample_points (Date 2024 8 1) ''pe'' sample_policy = Inr b \<and> hb_p50 b = Some (Dec False 140 (- 1))
        \<and> dval (Dec False 140 (- 1)) = exact_quantile (map dval (band_values b)) 6)"
proof -
  have v: "history_policy_valid sample_policy" "hpol_years sample_policy < yr (Date 2024 8 1)" "nonblank ''pe''"
    by code_simp+
  from historical_band_quartiles[OF v, of sample_points] sample_band_result v(1) show ?thesis
    by (auto simp: sample_policy_def dest: arg_cong[of _ _ length] split: if_splits)
qed

lemma value_reasons_Nil: "value_reasons v = [] \<longleftrightarrow> (\<exists>d. v = Some (Finite d) \<and> within_limits d)"
  by (auto simp: value_reasons_def split: option.splits decimal.splits)

lemma compare_cases [consumes 1, case_names withheld stated]:
  assumes "compare_to_history v band series hash fls = Inr c"
  obtains "hc_relation c = None" "hc_flags c \<noteq> []"
  | d q1 q3 where "fls = []" "hb_flags band = []" "series = hb_series band" "nonblank hash" "v = Some (Finite d)"
      "hb_p25 band = Some q1" "hb_p75 band = Some q3" "hc_flags c = []"
      "hc_relation c = Some (if dec_lt d q1 then Below else if dec_lt q3 d then Above else Within)"
proof -
  define reasons where "reasons = fls @ hb_flags band @ flag_if (series \<noteq> hb_series band) ''incompatible_series''
      @ flag_if (\<not> nonblank hash) ''missing_lineage'' @ value_reasons v
      @ flag_if (hb_p25 band = None \<or> hb_p75 band = None) ''comparison_unavailable''"
  note c = assms[unfolded compare_to_history_def Let_def, folded reasons_def]
  show ?thesis
  proof (cases "reasons = []")
    case False
    with c show ?thesis by (intro that(1)) (auto split: if_splits)
  next
    case True
    then have f: "fls = []" "hb_flags band = []" "series = hb_series band" "nonblank hash" "value_reasons v = []"
      "hb_p25 band \<noteq> None" "hb_p75 band \<noteq> None"
      unfolding reasons_def by (auto split: if_splits)
    then obtain d q1 q3 where "v = Some (Finite d)" "hb_p25 band = Some q1" "hb_p75 band = Some q3"
      by (auto simp: value_reasons_Nil)
    with f(1-4) c True show ?thesis by (intro that(2)) (auto split: if_splits)
  qed
qed

text \<open>
  A comparison reports a position only when nothing is in doubt, and then the position is the true
  one of the exact values: below the first quartile, above the third, or between them.  Otherwise the
  relation is withheld and at least one reason is given.  Only blank reason flags are refused.
\<close>

theorem compare_to_history_sound:
  "(compare_to_history v band series hash fls = Inl e \<longrightarrow> \<not> list_all nonblank fls)
   \<and> (compare_to_history v band series hash fls = Inr c \<longrightarrow>
       (hc_relation c = None \<longleftrightarrow> hc_flags c \<noteq> [])
       \<and> (\<forall>r. hc_relation c = Some r \<longrightarrow>
           fls = [] \<and> hb_flags band = [] \<and> series = hb_series band \<and> nonblank hash
           \<and> (\<exists>d q1 q3. v = Some (Finite d) \<and> hb_p25 band = Some q1 \<and> hb_p75 band = Some q3
             \<and> (r = Below \<longleftrightarrow> dval d < (dval q1 :: rat))
             \<and> (r = Above \<longleftrightarrow> dval q1 \<le> (dval d :: rat) \<and> dval q3 < (dval d :: rat))
             \<and> (r = Within \<longleftrightarrow> dval q1 \<le> (dval d :: rat) \<and> dval d \<le> (dval q3 :: rat)))))"
proof (intro conjI impI)
  show "\<not> list_all nonblank fls" if "compare_to_history v band series hash fls = Inl e"
    using that by (auto simp: compare_to_history_def flags_ok_def Let_def split: if_splits)
next
  assume "compare_to_history v band series hash fls = Inr c"
  then show "hc_relation c = None \<longleftrightarrow> hc_flags c \<noteq> []" by (cases rule: compare_cases) auto
next
  assume c: "compare_to_history v band series hash fls = Inr c"
  show "\<forall>r. hc_relation c = Some r \<longrightarrow>
      fls = [] \<and> hb_flags band = [] \<and> series = hb_series band \<and> nonblank hash
      \<and> (\<exists>d q1 q3. v = Some (Finite d) \<and> hb_p25 band = Some q1 \<and> hb_p75 band = Some q3
        \<and> (r = Below \<longleftrightarrow> dval d < (dval q1 :: rat))
        \<and> (r = Above \<longleftrightarrow> dval q1 \<le> (dval d :: rat) \<and> dval q3 < (dval d :: rat))
        \<and> (r = Within \<longleftrightarrow> dval q1 \<le> (dval d :: rat) \<and> dval d \<le> (dval q3 :: rat)))"
    using c by (cases rule: compare_cases) (auto simp: dec_lt_iff[where 'a=rat] not_less)
qed

definition sample_band :: history_band where
  "sample_band = \<lparr>hb_years = 3, hb_start = Date 2021 8 1, hb_end = Date 2024 8 1, hb_series = ''pe'',
     hb_policy_revision = ''v1'', hb_minimum = 4, hb_eligible = [], hb_excluded = [], hb_expected = [], hb_missing = [],
     hb_p25 = Some (Dec False 1150 (- 2)), hb_p50 = Some (Dec False 140 (- 1)), hb_p75 = Some (Dec False 1700 (- 2)),
     hb_flags = []\<rparr>"

theorem compare_to_history_sound_witness:
  "\<exists>c. compare_to_history (Some (Finite (dec_of_int 11))) sample_band ''pe'' ''h'' [] = Inr c
     \<and> hc_relation c = Some Below \<and> dval (dec_of_int 11) < (dval (Dec False 1150 (- 2)) :: rat)"
proof -
  have "map_sum id hc_relation (compare_to_history (Some (Finite (dec_of_int 11))) sample_band ''pe'' ''h'' []) = Inr (Some Below)"
    by code_simp
  then obtain c where c: "compare_to_history (Some (Finite (dec_of_int 11))) sample_band ''pe'' ''h'' [] = Inr c"
    "hc_relation c = Some Below"
    by (cases "compare_to_history (Some (Finite (dec_of_int 11))) sample_band ''pe'' ''h'' []") auto
  then show ?thesis
    using compare_to_history_sound[of "Some (Finite (dec_of_int 11))" sample_band "''pe''" "''h''" "[]" ValueError c]
    by (auto simp: sample_band_def)
qed

end
