(* ===== verification/Reconciliation.thy ===== *)
theory Reconciliation
  imports Metrics Samples
begin

text \<open>
  \<open>packages/core/reconciliation.py\<close>: the balance-sheet identity, checked exactly within the
  uncertainty that the sources state.  No reported fact is changed.
\<close>

record accounting_check =
  ac_calculation :: calculation
  ac_tolerance :: "dec option"
  ac_matches :: "bool option"
  ac_revision :: string

text \<open>Residual and tolerance: the body of the \<open>try\<close> block, or an exception.\<close>

definition identity_figures :: "runtime \<Rightarrow> financial_input list \<Rightarrow> (dec \<times> dec) option" where
  "identity_figures rt xs =
     (case exact_sum (List.map_filter (fi_amount rt) xs) [1, - 1, - 1] of
        None \<Rightarrow> None
      | Some residual \<Rightarrow>
          map_option (Pair residual) (exact_sum (map absolute_error (List.map_filter fi_precision xs)) [1, 1, 1]))"

definition balance_sheet_identity ::
  "runtime \<Rightarrow> financial_input \<Rightarrow> financial_input \<Rightarrow> financial_input \<Rightarrow> accounting_check" where
  "balance_sheet_identity rt assets liabilities equity =
     (let xs = [assets, liabilities, equity];
          problems =
            source_issues rt True True xs
              [TOTAL_ASSETS, TOTAL_LIABILITIES, EQUITY_INCLUDING_NONCONTROLLING_INTERESTS]
            @ flag_if (list_ex (\<lambda>x. fi_precision x = None) xs) ''accounting_precision_unknown''
            @ flag_if (negative_value rt (Selected assets) \<or> negative_value rt (Selected liabilities))
                ''negative_accounting_balance'';
          figures = (if problems = [] then identity_figures rt xs else None);
          matches = map_option (\<lambda>(r, t). dec_le (copy_abs r) t) figures;
          flags = concat (map (fi_flags rt) xs) @ problems
            @ flag_if (matches = Some False) ''balance_sheet_identity_mismatch''
            @ flag_if (problems = [] \<and> figures = None) ''unsupported_numeric_range'' in
      \<lparr>ac_calculation =
         \<lparr>calc_metric = ''balance_sheet_residual'', calc_value = map_option fst figures,
          calc_unit = unit_key (fi_unit assets), calc_operands = map Selected xs,
          calc_flags = sorted_set flags, calc_revision = ''s5-accounting-checks-v1'', calc_review = None\<rparr>,
       ac_tolerance = map_option snd figures, ac_matches = matches,
       ac_revision = ''s5-accounting-checks-v1''\<rparr>)"

section \<open>Lemmas\<close>

lemma identity_figures_exact:
  assumes "identity_figures rt xs = Some (r, t)" "xs = [assets, liabilities, equity]"
    "fi_amount rt assets = Some a" "fi_amount rt liabilities = Some l" "fi_amount rt equity = Some e"
    "fi_precision assets = Some pa" "fi_precision liabilities = Some pl" "fi_precision equity = Some pe"
  shows "dval r = (dval a - dval l - dval e :: rat)"
    and "dval t = (dval (absolute_error pa) + dval (absolute_error pl) + dval (absolute_error pe) :: rat)"
proof -
  have s: "exact_sum [a, l, e] [1, - 1, - 1] = Some r"
    "exact_sum [absolute_error pa, absolute_error pl, absolute_error pe] [1, 1, 1] = Some t"
    using assms by (auto simp: identity_figures_def List.map_filter_simps split: option.splits)
  show "dval r = (dval a - dval l - dval e :: rat)" using exact_sum_value[OF s(1), where 'a=rat] by simp
  show "dval t = (dval (absolute_error pa) + dval (absolute_error pl) + dval (absolute_error pe) :: rat)"
    using exact_sum_value[OF s(2), where 'a=rat] by simp
qed

lemma coherent_amount: "coherent rt xs \<Longrightarrow> x \<in> set xs \<Longrightarrow> \<exists>d. fi_amount rt x = Some d"
  by (auto simp: coherent_def fi_amount_value)

lemma balance_sheet_identity_cases [consumes 0, case_names undecided decided]:
  obtains "ac_matches (balance_sheet_identity rt assets liabilities equity) = None"
      "calc_value (ac_calculation (balance_sheet_identity rt assets liabilities equity)) = None"
      "calc_flags (ac_calculation (balance_sheet_identity rt assets liabilities equity)) \<noteq> []"
  | r t where "source_issues rt True True [assets, liabilities, equity]
        [TOTAL_ASSETS, TOTAL_LIABILITIES, EQUITY_INCLUDING_NONCONTROLLING_INTERESTS] = []"
      "fi_precision assets \<noteq> None" "fi_precision liabilities \<noteq> None" "fi_precision equity \<noteq> None"
      "\<not> negative_value rt (Selected assets)" "\<not> negative_value rt (Selected liabilities)"
      "identity_figures rt [assets, liabilities, equity] = Some (r, t)"
      "calc_value (ac_calculation (balance_sheet_identity rt assets liabilities equity)) = Some r"
      "ac_tolerance (balance_sheet_identity rt assets liabilities equity) = Some t"
      "ac_matches (balance_sheet_identity rt assets liabilities equity) = Some (dec_le (copy_abs r) t)"
      "\<not> dec_le (copy_abs r) t \<Longrightarrow>
         ''balance_sheet_identity_mismatch'' \<in> set (calc_flags (ac_calculation (balance_sheet_identity rt assets liabilities equity)))"
proof -
  define problems where "problems = source_issues rt True True [assets, liabilities, equity]
        [TOTAL_ASSETS, TOTAL_LIABILITIES, EQUITY_INCLUDING_NONCONTROLLING_INTERESTS]
      @ flag_if (list_ex (\<lambda>x. fi_precision x = None) [assets, liabilities, equity]) ''accounting_precision_unknown''
      @ flag_if (negative_value rt (Selected assets) \<or> negative_value rt (Selected liabilities)) ''negative_accounting_balance''"
  note d = balance_sheet_identity_def[of rt assets liabilities equity, unfolded Let_def, folded problems_def]
  show ?thesis
  proof (cases "problems = [] \<and> identity_figures rt [assets, liabilities, equity] \<noteq> None")
    case False
    then have "problems \<noteq> [] \<or> identity_figures rt [assets, liabilities, equity] = None" by blast
    then show ?thesis by (intro that(1)) (auto simp: d)
  next
    case True
    then obtain r t where f: "identity_figures rt [assets, liabilities, equity] = Some (r, t)" by auto
    from True have p: "source_issues rt True True [assets, liabilities, equity]
        [TOTAL_ASSETS, TOTAL_LIABILITIES, EQUITY_INCLUDING_NONCONTROLLING_INTERESTS] = []"
      "fi_precision assets \<noteq> None" "fi_precision liabilities \<noteq> None" "fi_precision equity \<noteq> None"
      "\<not> negative_value rt (Selected assets)" "\<not> negative_value rt (Selected liabilities)"
      by (simp_all add: problems_def)
    show ?thesis by (rule that(2)[OF p f]) (use True f in \<open>simp_all add: d\<close>)
  qed
qed

section \<open>Guarantee\<close>

text \<open>
  A decided balance-sheet check is exact: the residual is assets less liabilities less total equity,
  the tolerance is the sum of the three stated uncertainties, and the verdict says whether the residual
  lies within it.  The three inputs are coherent balances of one date, assets and liabilities are not
  negative, a mismatch is flagged, and an undecided check publishes no residual and at least one flag.
\<close>

theorem balance_sheet_identity_exact:
  fixes rt assets liabilities equity
  defines "chk \<equiv> balance_sheet_identity rt assets liabilities equity"
  shows "case ac_matches chk of
     None \<Rightarrow> calc_value (ac_calculation chk) = None \<and> calc_flags (ac_calculation chk) \<noteq> []
   | Some ok \<Rightarrow>
       (\<exists>a l e pa pl pe r t. fi_amount rt assets = Some a \<and> fi_amount rt liabilities = Some l \<and> fi_amount rt equity = Some e
         \<and> fi_precision assets = Some pa \<and> fi_precision liabilities = Some pl \<and> fi_precision equity = Some pe
         \<and> calc_value (ac_calculation chk) = Some r \<and> ac_tolerance chk = Some t
         \<and> dval r = (dval a - dval l - dval e :: rat)
         \<and> dval t = (dval (absolute_error pa) + dval (absolute_error pl) + dval (absolute_error pe) :: rat)
         \<and> (ok \<longleftrightarrow> \<bar>dval r\<bar> \<le> (dval t :: rat)) \<and> 0 \<le> (dval a :: rat) \<and> 0 \<le> (dval l :: rat))
       \<and> coherent rt [assets, liabilities, equity]
       \<and> pd_end (fi_period assets) = pd_end (fi_period liabilities) \<and> pd_end (fi_period assets) = pd_end (fi_period equity)
       \<and> (ok \<or> ''balance_sheet_identity_mismatch'' \<in> set (calc_flags (ac_calculation chk)))"
proof (cases rule: balance_sheet_identity_cases[of rt assets liabilities equity])
  case undecided
  then show ?thesis by (simp add: chk_def)
next
  case (decided r t)
  note src = source_issues_Nil[OF decided(1)]
  have coh: "coherent rt [assets, liabilities, equity]" using src by blast
  obtain a l e where v: "fi_amount rt assets = Some a" "fi_amount rt liabilities = Some l" "fi_amount rt equity = Some e"
    using coherent_amount[OF coh] by (metis list.set_intros)
  obtain pa pl pe where p: "fi_precision assets = Some pa" "fi_precision liabilities = Some pl" "fi_precision equity = Some pe"
    using decided(2-4) by blast
  note ex = identity_figures_exact[OF decided(7) refl v p]
  have nn: "0 \<le> (dval a :: rat)" "0 \<le> (dval l :: rat)"
    using decided(5,6) v by (simp_all add: negative_value_def dec_lt_iff[where 'a=rat] not_less)
  have verdict: "dec_le (copy_abs r) t \<longleftrightarrow> \<bar>dval r\<bar> \<le> (dval t :: rat)" by (simp add: dec_le_iff[where 'a=rat])
  have ends: "pd_end (fi_period assets) = pd_end (fi_period liabilities)" "pd_end (fi_period assets) = pd_end (fi_period equity)"
    using source_issues_same_period(2)[OF decided(1)] by simp_all
  show ?thesis
    unfolding chk_def decided(8,9,10) option.case
    using v p ex verdict nn coh ends decided(11) by blast
qed

definition sample_balance :: "concept \<Rightarrow> nat \<Rightarrow> int \<Rightarrow> financial_input" where
  "sample_balance k n v = sample_input k n None (Date 2020 12 31) (dec_of_int v)"

theorem balance_sheet_identity_exact_witness:
  "ac_matches (balance_sheet_identity sample_rt (sample_balance TOTAL_ASSETS 1 100) (sample_balance TOTAL_LIABILITIES 2 60)
     (sample_balance EQUITY_INCLUDING_NONCONTROLLING_INTERESTS 3 39)) = Some True
   \<and> \<bar>dval (dec_of_int 1)\<bar> \<le> (dval (dec_of_int 3) :: rat)"
proof -
  let ?c = "balance_sheet_identity sample_rt (sample_balance TOTAL_ASSETS 1 100) (sample_balance TOTAL_LIABILITIES 2 60)
     (sample_balance EQUITY_INCLUDING_NONCONTROLLING_INTERESTS 3 39)"
  have p: "source_issues sample_rt True True [sample_balance TOTAL_ASSETS 1 100, sample_balance TOTAL_LIABILITIES 2 60,
      sample_balance EQUITY_INCLUDING_NONCONTROLLING_INTERESTS 3 39]
      [TOTAL_ASSETS, TOTAL_LIABILITIES, EQUITY_INCLUDING_NONCONTROLLING_INTERESTS] = []"
    by (simp add: sample_balance_def sample_evals)
  have f: "identity_figures sample_rt [sample_balance TOTAL_ASSETS 1 100, sample_balance TOTAL_LIABILITIES 2 60,
      sample_balance EQUITY_INCLUDING_NONCONTROLLING_INTERESTS 3 39] = Some (dec_of_int 1, dec_of_int 3)"
  proof -
    have "exact_sum [dec_of_int 100, dec_of_int 60, dec_of_int 39] [1, - 1, - 1] = Some (dec_of_int 1)"
      "exact_sum [dec_of_int 1, dec_of_int 1, dec_of_int 1] [1, 1, 1] = Some (dec_of_int 3)" by code_simp+
    then show ?thesis by (simp add: identity_figures_def sample_balance_def sample_simps List.map_filter_simps)
  qed
  have n: "\<not> negative_value sample_rt (Selected (sample_balance TOTAL_ASSETS 1 100))"
    "\<not> negative_value sample_rt (Selected (sample_balance TOTAL_LIABILITIES 2 60))"
    by (simp_all add: negative_value_def sample_balance_def sample_simps dec_lt_iff[where 'a=rat])
  have v: "dec_le (copy_abs (dec_of_int 1)) (dec_of_int 3)" by code_simp
  have e: "ac_matches ?c = Some True" "calc_value (ac_calculation ?c) = Some (dec_of_int 1)" "ac_tolerance ?c = Some (dec_of_int 3)"
    using p f n v by (simp_all add: balance_sheet_identity_def Let_def sample_balance_def sample_fields)
  show ?thesis
    using balance_sheet_identity_exact[of sample_rt "sample_balance TOTAL_ASSETS 1 100" "sample_balance TOTAL_LIABILITIES 2 60"
        "sample_balance EQUITY_INCLUDING_NONCONTROLLING_INTERESTS 3 39"] unfolding e option.case by auto
qed

end
