(* ===== verification/Company.thy ===== *)
theory Company
  imports Metrics
begin

text \<open>
  \<open>packages/core/company.py\<close>: evaluated company evidence, its checks, the equity multiples and the
  projections of operands and calculations into evidence.  A projected amount is recomputed from its own
  inputs before it is believed.  The manifest text that \<open>json.dumps\<close> makes of a payload is the
  parameter \<open>mt\<close>; its digest is taken by the runtime's SHA-256.
\<close>

section \<open>Python equality\<close>

text \<open>
  Decimals compare by value, and a NaN equals nothing.  Recomputed amounts carry the very operands they
  were recomputed from, so operands compare by identity.
\<close>

fun decimal_eq :: "decimal \<Rightarrow> decimal \<Rightarrow> bool" where
  "decimal_eq (Finite a) (Finite b) = dec_eq a b"
| "decimal_eq (Infinity s) (Infinity t) = (s = t)"
| "decimal_eq _ _ = False"

definition same_precision :: "precision_evidence \<Rightarrow> precision_evidence \<Rightarrow> bool" where
  "same_precision p q =
     (dec_eq (absolute_error p) (absolute_error q) \<and> pe_observations p = pe_observations q
      \<and> pe_refs p = pe_refs q \<and> pe_method p = pe_method q)"

definition same_amount :: "period_amount \<Rightarrow> period_amount \<Rightarrow> bool" where
  "same_amount a b =
     (rel_option dec_eq (pa_value a) (pa_value b) \<and> pa_operands a = pa_operands b
      \<and> pa_coefficients a = pa_coefficients b \<and> pa_period a = pa_period b
      \<and> rel_option same_precision (pa_precision a) (pa_precision b) \<and> pa_flags a = pa_flags b
      \<and> pa_formula a = pa_formula b \<and> pa_formula_revision a = pa_formula_revision b
      \<and> pa_compatibility a = pa_compatibility b \<and> pa_calendar a = pa_calendar b)"

definition same_calculation :: "calculation \<Rightarrow> calculation \<Rightarrow> bool" where
  "same_calculation a b =
     (calc_metric a = calc_metric b \<and> rel_option dec_eq (calc_value a) (calc_value b)
      \<and> calc_unit a = calc_unit b \<and> calc_operands a = calc_operands b \<and> calc_flags a = calc_flags b
      \<and> calc_revision a = calc_revision b \<and> calc_review a = calc_review b)"

section \<open>Evidence\<close>

record evidence_value =
  ev_value :: "decimal option"
  ev_error :: "decimal option"
  ev_hash :: string
  ev_start :: "date option"
  ev_end :: "date option"
  ev_usable :: bool
  ev_flags :: "flag list"
  ev_currency :: string
  ev_basis :: string

record company_metric =
  cm_id :: string
  cm_value :: "decimal option"
  cm_hash :: string
  cm_operand_hashes :: "string list"
  cm_usable :: bool
  cm_flags :: "flag list"

definition same_evidence :: "evidence_value \<Rightarrow> evidence_value \<Rightarrow> bool" where
  "same_evidence a b =
     (rel_option decimal_eq (ev_value a) (ev_value b) \<and> rel_option decimal_eq (ev_error a) (ev_error b)
      \<and> ev_hash a = ev_hash b \<and> ev_start a = ev_start b \<and> ev_end a = ev_end b \<and> ev_usable a = ev_usable b
      \<and> ev_flags a = ev_flags b \<and> ev_currency a = ev_currency b \<and> ev_basis a = ev_basis b)"

text \<open>What a manifest is made of, by kind.\<close>

datatype payload =
  Multiple_Payload string evidence_value evidence_value date
| Operand_Payload operand
| Fcf_Payload calculation
| Metric_Payload string calculation "evidence_value list"

definition digest :: "runtime \<Rightarrow> (string \<Rightarrow> payload \<Rightarrow> string) \<Rightarrow> string \<Rightarrow> payload \<Rightarrow> string" where
  "digest rt mt kind payload = sha256_hex rt (mt kind payload)"

definition informational :: "flag list" where
  "informational = [''revised_view'', ''earliest_available'', ''extreme_margin'', ''gross_profit_derived'']"

definition concerning :: "flag list \<Rightarrow> flag list" where
  "concerning fls = filter (\<lambda>f. f \<notin> set informational) fls"

definition numeric :: "decimal option \<Rightarrow> bool" where
  "numeric v = (case v of Some (Finite d) \<Rightarrow> within_limits d | _ \<Rightarrow> False)"

text \<open>A comparison that the code makes only of numbers.\<close>

definition number_test :: "(dec \<Rightarrow> bool) \<Rightarrow> decimal option \<Rightarrow> bool" where
  "number_test P v = (case v of Some (Finite d) \<Rightarrow> within_limits d \<and> P d | _ \<Rightarrow> False)"

definition twelve_months :: "date option \<Rightarrow> date option \<Rightarrow> date \<Rightarrow> bool" where
  "twelve_months start stop evaluation_date =
     (case (start, stop) of
        (Some s, Some e) \<Rightarrow>
          s \<le> e \<and> e \<le> evaluation_date \<and> dy s = 1 \<and> month_end e \<and> months_between s e = 12
      | _ \<Rightarrow> False)"

definition evidence_issues ::
  "evidence_value \<Rightarrow> string \<Rightarrow> date \<Rightarrow> bool \<Rightarrow> bool \<Rightarrow> flag list" where
  "evidence_issues amount basis evaluation_date is_instant require_precision =
     sorted_set
       (concerning (ev_flags amount)
        @ flag_if (\<not> ev_usable amount) ''evidence_unusable''
        @ flag_if (\<not> sha256_text (ev_hash amount)) ''evidence_hash_invalid''
        @ flag_if (\<not> numeric (ev_value amount)) ''evidence_value_invalid''
        @ flag_if (ev_currency amount \<noteq> ''USD'') ''unsupported_currency''
        @ flag_if (ev_basis amount \<noteq> basis) ''incompatible_evidence_basis''
        @ (if ev_error amount = None then flag_if require_precision ''source_precision_unknown''
           else flag_if (\<not> number_test (\<lambda>d. \<not> dec_lt d dec_zero) (ev_error amount)) ''source_precision_invalid'')
        @ (if is_instant
           then flag_if (ev_start amount \<noteq> None \<or> ev_end amount \<noteq> Some evaluation_date) ''incompatible_equity_date''
           else flag_if (\<not> twelve_months (ev_start amount) (ev_end amount) evaluation_date) ''unsupported_flow_period''))"

section \<open>Equity multiples\<close>

definition multiple_basis :: "string \<Rightarrow> string option" where
  "multiple_basis metric =
     map_of [(''pe'', ''income_available_common''), (''ps'', ''consolidated_flow''), (''pfcf'', ''cash_ppe_fcf'')] metric"

definition indistinct :: "evidence_value \<Rightarrow> bool" where
  "indistinct den =
     number_test (\<lambda>v. number_test (\<lambda>e. dec_le v e) (ev_error den)) (ev_value den)"

definition evidence_quotient :: "decimal option \<Rightarrow> decimal option \<Rightarrow> dec option" where
  "evidence_quotient a b =
     (case (a, b) of (Some (Finite x), Some (Finite y)) \<Rightarrow> dec_div (metric_context False) x y | _ \<Rightarrow> None)"

definition equity_multiple ::
  "runtime \<Rightarrow> (string \<Rightarrow> payload \<Rightarrow> string) \<Rightarrow> string \<Rightarrow> evidence_value \<Rightarrow> evidence_value \<Rightarrow> date \<Rightarrow> company_metric" where
  "equity_multiple rt mt metric cap den as_of =
     (let problems1 =
            evidence_issues cap ''common_equity'' as_of True False
            @ evidence_issues den (or_else (multiple_basis metric) ''unsupported'') as_of False True
            @ flag_if (multiple_basis metric = None) ''unsupported_equity_multiple''
            @ flag_if (number_test (\<lambda>d. dec_le d dec_zero) (ev_value cap)) ''nonpositive_equity_value''
            @ (if number_test (\<lambda>d. dec_le d dec_zero) (ev_value den) then [''denominator_nonpositive'']
               else flag_if (indistinct den) ''denominator_indistinguishable_from_zero'');
          value = (if problems1 = [] then evidence_quotient (ev_value cap) (ev_value den) else None);
          problems = problems1 @ flag_if (problems1 = [] \<and> value = None) ''unsupported_numeric_range'' in
      \<lparr>cm_id = metric, cm_value = map_option Finite value,
       cm_hash = digest rt mt ''equity_multiple'' (Multiple_Payload metric cap den as_of),
       cm_operand_hashes = [ev_hash cap, ev_hash den],
       cm_usable = (value \<noteq> None \<and> problems = []),
       cm_flags = sorted_set (ev_flags cap @ ev_flags den @ problems)\<rparr>)"

section \<open>Projections\<close>

definition rebuild_amount :: "runtime \<Rightarrow> period_amount \<Rightarrow> period_amount option" where
  "rebuild_amount rt a =
     (let xs = pa_operands a; cal = pa_calendar a; rc = pa_compatibility a in
      if pa_formula a = ''direct_annual'' \<and> length xs = 1 then Some (annual_amount rt (xs ! 0) cal)
      else if pa_formula a = ''sum_four_quarters''
      then (case ttm_from_quarters rt xs rc cal of Inl _ \<Rightarrow> None | Inr b \<Rightarrow> Some b)
      else if pa_formula a = ''ytd_difference'' \<and> length xs = 2
      then Some (quarter_from_ytd rt (xs ! 0) (xs ! 1) cal)
      else if pa_formula a = ''annual_ytd_bridge'' \<and> length xs = 3
      then Some (ttm_from_annual_ytd rt (xs ! 0) (xs ! 1) (xs ! 2) rc cal)
      else None)"

definition projection_honest :: "runtime \<Rightarrow> operand \<Rightarrow> bool" where
  "projection_honest rt p =
     (case p of
        Selected _ \<Rightarrow> True
      | Derived a \<Rightarrow> (case rebuild_amount rt a of None \<Rightarrow> False | Some b \<Rightarrow> same_amount b a))"

definition operand_problems :: "runtime \<Rightarrow> operand \<Rightarrow> flag list" where
  "operand_problems rt p =
     issues rt False [p] [op_concept p]
     @ flag_if (op_concept p \<notin> set supported_flows) ''unsupported_evidence_concept''
     @ flag_if (\<not> projection_honest rt p) ''period_projection_mismatch''"

definition evidence_from_operand :: "runtime \<Rightarrow> (string \<Rightarrow> payload \<Rightarrow> string) \<Rightarrow> operand \<Rightarrow> evidence_value" where
  "evidence_from_operand rt mt p =
     (let problems = operand_problems rt p;
          value = (if problems = [] then op_value rt p else None) in
      \<lparr>ev_value = map_option Finite value,
       ev_error = map_option (\<lambda>e. Finite (absolute_error e)) (op_precision p),
       ev_hash = digest rt mt ''financial_operand'' (Operand_Payload p),
       ev_start = op_start p, ev_end = Some (op_end p), ev_usable = (value \<noteq> None \<and> problems = []),
       ev_flags = sorted_set (op_flags rt p @ problems), ev_currency = unit_key (op_unit p),
       ev_basis = ''consolidated_flow''\<rparr>)"

definition fcf_problems :: "runtime \<Rightarrow> calculation \<Rightarrow> flag list" where
  "fcf_problems rt c =
     (let ps = calc_operands c in
      (if calc_metric c \<noteq> ''free_cash_flow_ppe'' \<or> length ps \<noteq> 2 then [''unsupported_fcf_projection'']
       else flag_if (\<not> same_calculation (free_cash_flow rt (ps ! 0) (ps ! 1)) c) ''fcf_projection_mismatch'')
      @ concat (map (operand_problems rt) ps)
      @ concerning (calc_flags c)
      @ flag_if (\<not> numeric (map_option Finite (calc_value c))) ''calculation_value_unavailable'')"

definition evidence_from_fcf :: "runtime \<Rightarrow> (string \<Rightarrow> payload \<Rightarrow> string) \<Rightarrow> calculation \<Rightarrow> evidence_value" where
  "evidence_from_fcf rt mt c =
     (let ps = calc_operands c; problems1 = fcf_problems rt c;
          known = (problems1 = [] \<and> list_all (\<lambda>p. op_precision p \<noteq> None) ps);
          error = (if known
                   then dec_sum (metric_context True) dec_zero (map absolute_error (List.map_filter op_precision ps))
                   else None);
          problems = problems1 @ flag_if (known \<and> error = None) ''unsupported_numeric_range'';
          value = (if problems = [] then calc_value c else None) in
      \<lparr>ev_value = map_option Finite value, ev_error = map_option Finite error,
       ev_hash = digest rt mt ''fcf_calculation'' (Fcf_Payload c),
       ev_start = (case ps of [] \<Rightarrow> None | p # _ \<Rightarrow> op_start p),
       ev_end = (case ps of [] \<Rightarrow> None | p # _ \<Rightarrow> Some (op_end p)),
       ev_usable = (value \<noteq> None \<and> problems = []), ev_flags = sorted_set (calc_flags c @ problems),
       ev_currency = calc_unit c, ev_basis = ''cash_ppe_fcf''\<rparr>)"

definition metric_target :: "string \<Rightarrow> string" where
  "metric_target metric =
     or_else (map_of [(''revenue_yoy'', ''revenue_growth_yoy''), (''revenue_growth'', ''revenue_growth_yoy''),
        (''net_margin'', ''net_margin_consolidated''), (''fcf_margin'', ''free_cash_flow_margin_ppe'')] metric) metric"

definition projected_metrics :: "string list" where
  "projected_metrics = [''revenue_growth_yoy'', ''gross_margin'', ''gross_margin_derived'', ''operating_margin'',
     ''net_margin_consolidated'', ''free_cash_flow_margin_ppe'']"

definition expected_evidence ::
  "runtime \<Rightarrow> (string \<Rightarrow> payload \<Rightarrow> string) \<Rightarrow> string \<Rightarrow> operand list \<Rightarrow> evidence_value list" where
  "expected_evidence rt mt target ps =
     (if target = ''free_cash_flow_margin_ppe'' \<and> length ps = 3
      then [evidence_from_fcf rt mt (free_cash_flow rt (ps ! 0) (ps ! 1)), evidence_from_operand rt mt (ps ! 2)]
      else map (evidence_from_operand rt mt) ps)"

definition metric_problems ::
  "runtime \<Rightarrow> (string \<Rightarrow> payload \<Rightarrow> string) \<Rightarrow> calculation \<Rightarrow> string \<Rightarrow> evidence_value list \<Rightarrow> flag list" where
  "metric_problems rt mt c metric evs =
     (let target = metric_target metric; expected = expected_evidence rt mt target (calc_operands c) in
      concerning (calc_flags c)
      @ flag_if (target \<notin> set projected_metrics \<or> calc_metric c \<noteq> target) ''calculation_metric_mismatch''
      @ flag_if (calc_unit c \<noteq> ''fraction'' \<or> calc_revision c \<noteq> ''s5-source-metrics-v1'')
          ''unsupported_calculation_projection''
      @ flag_if (\<not> list_all2 same_evidence evs expected) ''calculation_operand_mismatch''
      @ flag_if (expected = [] \<or> list_ex (\<lambda>e. \<not> ev_usable e) expected) ''calculation_operand_unavailable''
      @ flag_if (\<not> numeric (map_option Finite (calc_value c))) ''calculation_value_unavailable'')"

definition metric_from_calculation ::
  "runtime \<Rightarrow> (string \<Rightarrow> payload \<Rightarrow> string) \<Rightarrow> calculation \<Rightarrow> string \<Rightarrow> evidence_value list \<Rightarrow> company_metric" where
  "metric_from_calculation rt mt c metric evs =
     (let problems = metric_problems rt mt c metric evs;
          value = (if problems = [] then calc_value c else None) in
      \<lparr>cm_id = metric, cm_value = map_option Finite value,
       cm_hash = digest rt mt ''metric_projection'' (Metric_Payload metric c evs),
       cm_operand_hashes = map ev_hash evs, cm_usable = (value \<noteq> None \<and> problems = []),
       cm_flags = sorted_set (calc_flags c @ problems)\<rparr>)"

end
