(* ===== verification/Company_Properties.thy ===== *)
theory Company_Properties
  imports Company Samples Decimal_Eval
begin

text \<open>
  Guarantees of the company evidence: multiples divide positive, dated, distinguishable amounts; an
  assembled amount is believed exactly when recomputing it from its own inputs gives it again.
\<close>

section \<open>Python equality\<close>

lemma dec_eq_refl [simp]: "dec_eq a a"
  by (simp add: dec_eq_def)

lemma rel_option_reflI: "(\<And>x. R x x) \<Longrightarrow> rel_option R v v"
  by (cases v) simp_all

lemma same_precision_refl [simp]: "same_precision p p"
  by (simp add: same_precision_def)

lemma same_amount_refl [simp]: "same_amount a a"
  by (simp add: same_amount_def rel_option_reflI)

lemma same_calculation_refl [simp]: "same_calculation c c"
  by (simp add: same_calculation_def rel_option_reflI)

section \<open>Evidence checks\<close>

lemma number_test_iff: "number_test P v \<longleftrightarrow> (\<exists>d. v = Some (Finite d) \<and> within_limits d \<and> P d)"
  by (auto simp: number_test_def split: option.splits decimal.splits)

lemma numeric_iff: "numeric v \<longleftrightarrow> (\<exists>d. v = Some (Finite d) \<and> within_limits d)"
  by (auto simp: numeric_def split: option.splits decimal.splits)

lemma evidence_issues_Nil:
  assumes "evidence_issues amount basis day is_instant need = []"
  shows "ev_usable amount" "sha256_text (ev_hash amount)" "\<exists>d. ev_value amount = Some (Finite d) \<and> within_limits d"
    "ev_currency amount = ''USD''" "ev_basis amount = basis" "concerning (ev_flags amount) = []"
    "need \<Longrightarrow> \<exists>e. ev_error amount = Some (Finite e) \<and> within_limits e \<and> dec_le dec_zero e"
    "is_instant \<Longrightarrow> ev_start amount = None \<and> ev_end amount = Some day"
    "\<not> is_instant \<Longrightarrow> twelve_months (ev_start amount) (ev_end amount) day"
  using assms
  by (auto simp: evidence_issues_def numeric_iff number_test_iff dec_le_iff[where 'a=rat] dec_lt_iff[where 'a=rat] not_less
      split: if_splits)

lemma twelve_monthsD:
  assumes "twelve_months start stop day"
  obtains s e where "start = Some s" "stop = Some e" "s \<le> e" "e \<le> day" "dy s = 1" "month_end e" "months_between s e = 12"
  using assms by (auto simp: twelve_months_def split: option.splits)

text \<open>
  A usable multiple is the correctly rounded quotient of a capitalization of exactly the evaluation
  day and a twelve-month flow that ended by then; both are positive and the flow exceeds its own stated
  uncertainty.  A multiple that is not usable publishes no value and at least one flag.
\<close>

theorem equity_multiple_sound:
  fixes rt mt metric cap den as_of
  defines "r \<equiv> equity_multiple rt mt metric cap den as_of"
  shows "if cm_usable r
     then (\<exists>c d e q s t. ev_value cap = Some (Finite c) \<and> ev_value den = Some (Finite d) \<and> ev_error den = Some (Finite e)
         \<and> cm_value r = Some (Finite q) \<and> half_ulp q (dval c / dval d)
         \<and> 0 < (dval c :: rat) \<and> 0 < (dval d :: rat) \<and> dval e < (dval d :: rat)
         \<and> ev_end cap = Some as_of \<and> ev_start den = Some s \<and> ev_end den = Some t \<and> t \<le> as_of
         \<and> dy s = 1 \<and> month_end t \<and> months_between s t = 12)
       \<and> multiple_basis metric = Some (ev_basis den) \<and> ev_usable cap \<and> ev_usable den
     else cm_value r = None \<and> cm_flags r \<noteq> []"
proof -
  define ps where "ps = evidence_issues cap ''common_equity'' as_of True False
      @ evidence_issues den (or_else (multiple_basis metric) ''unsupported'') as_of False True
      @ flag_if (multiple_basis metric = None) ''unsupported_equity_multiple''
      @ flag_if (number_test (\<lambda>d. dec_le d dec_zero) (ev_value cap)) ''nonpositive_equity_value''
      @ (if number_test (\<lambda>d. dec_le d dec_zero) (ev_value den) then [''denominator_nonpositive'']
         else flag_if (indistinct den) ''denominator_indistinguishable_from_zero'')"
  note r = equity_multiple_def[of rt mt metric cap den as_of, unfolded Let_def, folded ps_def r_def]
  show ?thesis
  proof (cases "ps = [] \<and> evidence_quotient (ev_value cap) (ev_value den) \<noteq> None")
    case False
    then have "ps \<noteq> [] \<or> evidence_quotient (ev_value cap) (ev_value den) = None" by blast
    then show ?thesis by (auto simp: r)
  next
    case True
    then obtain q where q: "evidence_quotient (ev_value cap) (ev_value den) = Some q" by blast
    from True have i1: "evidence_issues cap ''common_equity'' as_of True False = []"
      and i2: "evidence_issues den (or_else (multiple_basis metric) ''unsupported'') as_of False True = []"
      and known: "multiple_basis metric \<noteq> None"
      and pos: "\<not> number_test (\<lambda>d. dec_le d dec_zero) (ev_value cap)" "\<not> number_test (\<lambda>d. dec_le d dec_zero) (ev_value den)"
      and dist: "\<not> indistinct den"
      by (simp_all add: ps_def split: if_splits)
    note a = evidence_issues_Nil[OF i1] and b = evidence_issues_Nil[OF i2]
    obtain c d e where v: "ev_value cap = Some (Finite c)" "within_limits c" "ev_value den = Some (Finite d)" "within_limits d"
        "ev_error den = Some (Finite e)" "within_limits e"
      using a(3) b(3) b(7) by blast
    obtain s t where w: "ev_start den = Some s" "ev_end den = Some t" "t \<le> as_of" "dy s = 1" "month_end t" "months_between s t = 12"
      using b(9) by (blast elim: twelve_monthsD)
    have "half_ulp q (dval c / dval d)" using q v by (intro metric_quotient) (simp add: evidence_quotient_def)
    moreover have "0 < (dval c :: rat)" "0 < (dval d :: rat)" "dval e < (dval d :: rat)"
      using pos dist v by (auto simp: number_test_iff indistinct_def dec_le_iff[where 'a=rat] not_le)
    moreover have "cm_usable r" "cm_value r = Some (Finite q)" using True q by (simp_all add: r)
    moreover have "multiple_basis metric = Some (ev_basis den)" using known b(5) by (auto simp: or_else_def)
    ultimately show ?thesis using v(1,3,5) w a(1,8) b(1) by auto
  qed
qed

section \<open>Recomputed amounts\<close>

lemmas amount_fields = annual_amount_def assemble_def ttm_from_quarters_def quarter_from_ytd_def ttm_from_annual_ytd_def Let_def

lemma rebuild_annual: "rebuild_amount rt (annual_amount rt x cal) = Some (annual_amount rt x cal)"
  by (simp add: rebuild_amount_def Let_def annual_amount_def)

lemma rebuild_ytd: "rebuild_amount rt (quarter_from_ytd rt x y cal) = Some (quarter_from_ytd rt x y cal)"
  by (simp add: rebuild_amount_def Let_def quarter_from_ytd_def assemble_def)

lemma rebuild_bridge: "rebuild_amount rt (ttm_from_annual_ytd rt x y z rc cal) = Some (ttm_from_annual_ytd rt x y z rc cal)"
  by (simp add: rebuild_amount_def Let_def ttm_from_annual_ytd_def assemble_def)

lemma rebuild_quarters:
  assumes "ttm_from_quarters rt xs rc cal = Inr a"
  shows "rebuild_amount rt a = Some a"
proof -
  have "pa_operands a = xs" "pa_formula a = ''sum_four_quarters''" "pa_compatibility a = rc" "pa_calendar a = cal"
    using assms by (auto simp: ttm_from_quarters_def assemble_def Let_def split: if_splits)
  then show ?thesis using assms by (simp add: rebuild_amount_def)
qed

text \<open>
  Recomputation is a round trip: every amount that the period functions return is recomputed to
  itself from the inputs, calendar and compatibility proof it carries, so an untouched amount is never
  reported as a projection mismatch; and an amount that passes has the recomputed value, to the number.
\<close>

theorem projection_roundtrip:
  "projection_honest rt (Derived (annual_amount rt x cal))
   \<and> projection_honest rt (Derived (quarter_from_ytd rt x y cal))
   \<and> projection_honest rt (Derived (ttm_from_annual_ytd rt x y z rc cal))
   \<and> (case ttm_from_quarters rt xs rc cal of Inl _ \<Rightarrow> xs = [] | Inr a \<Rightarrow> projection_honest rt (Derived a))
   \<and> (case rebuild_amount rt b of
        None \<Rightarrow> \<not> projection_honest rt (Derived b)
      | Some c \<Rightarrow> projection_honest rt (Derived b) = same_amount c b)"
proof -
  have "case ttm_from_quarters rt xs rc cal of Inl _ \<Rightarrow> xs = [] | Inr a \<Rightarrow> projection_honest rt (Derived a)"
  proof (cases "ttm_from_quarters rt xs rc cal")
    case (Inl e)
    then show ?thesis by (simp add: ttm_from_quarters_def Let_def split: if_splits)
  next
    case (Inr a)
    then show ?thesis by (simp add: projection_honest_def rebuild_quarters)
  qed
  then show ?thesis
    by (simp add: projection_honest_def rebuild_annual rebuild_ytd rebuild_bridge split: option.splits)
qed

section \<open>Projected evidence\<close>

lemma evidence_from_operand_usable:
  assumes "ev_usable (evidence_from_operand rt mt p)"
  shows "operand_problems rt p = []" "\<exists>v. op_value rt p = Some v \<and> ev_value (evidence_from_operand rt mt p) = Some (Finite v)"
  using assms by (auto simp: evidence_from_operand_def Let_def split: if_splits)

text \<open>
  A free cash flow that is projected as usable evidence is the exact difference of its two amounts,
  both of them honest projections of coherent inputs of one period; and its stated uncertainty, when there
  is one, is exactly the sum of the operands' uncertainties.
\<close>

theorem evidence_from_fcf_sound:
  assumes "ev_usable (evidence_from_fcf rt mt c)"
  shows "\<exists>cfo capex v w. calc_operands c = [cfo, capex] \<and> op_value rt cfo = Some v \<and> op_value rt capex = Some w
    \<and> (\<exists>x. ev_value (evidence_from_fcf rt mt c) = Some (Finite x) \<and> dval x = (dval v - dval w :: rat))
    \<and> op_concept cfo = CASH_FROM_OPERATING_ACTIVITIES \<and> op_concept capex = CAPITAL_EXPENDITURES_PPE
    \<and> op_start cfo = op_start capex \<and> op_end cfo = op_end capex
    \<and> projection_honest rt cfo \<and> projection_honest rt capex
    \<and> (\<forall>p q. op_precision cfo = Some p \<and> op_precision capex = Some q \<longrightarrow>
         (\<exists>e. ev_error (evidence_from_fcf rt mt c) = Some (Finite e)
            \<and> dval e = (dval (absolute_error p) + dval (absolute_error q) :: rat)))"
proof -
  have ps: "fcf_problems rt c = []"
    and val: "ev_value (evidence_from_fcf rt mt c) = map_option Finite (calc_value c)" "calc_value c \<noteq> None"
    and err: "list_all (\<lambda>p. op_precision p \<noteq> None) (calc_operands c) \<Longrightarrow>
      ev_error (evidence_from_fcf rt mt c) = map_option Finite (dec_sum (metric_context True) dec_zero
        (map absolute_error (List.map_filter op_precision (calc_operands c))))
      \<and> dec_sum (metric_context True) dec_zero (map absolute_error (List.map_filter op_precision (calc_operands c))) \<noteq> None"
    using assms by (auto simp: evidence_from_fcf_def Let_def split: if_splits)
  obtain cfo capex where ops: "calc_operands c = [cfo, capex]"
    using ps by (auto simp: fcf_problems_def Let_def numeral_2_eq_2 length_Suc_conv split: if_splits)
  have same: "same_calculation (free_cash_flow rt cfo capex) c" and opp: "operand_problems rt cfo = []" "operand_problems rt capex = []"
    using ps by (auto simp: fcf_problems_def Let_def ops split: if_splits)
  obtain x where x: "calc_value c = Some x" using val(2) by blast
  obtain x' where x': "calc_value (free_cash_flow rt cfo capex) = Some x'" "dec_eq x' x"
    using same x by (auto simp: same_calculation_def elim: option.rel_cases)
  note v = calculate_value[OF x'(1)[unfolded free_cash_flow_def]]
  have i: "issues rt True [cfo, capex] [CASH_FROM_OPERATING_ACTIVITIES, CAPITAL_EXPENDITURES_PPE] = []"
    using v by (simp add: cash_issues_def)
  obtain a b where ab: "op_value rt cfo = Some a" "op_value rt capex = Some b" using issues_Nil_values[OF i] by auto
  have "difference a b = Some x'" using v ab by simp
  from difference_exact[OF this, where 'a=rat] x'(2) have num: "dval x = (dval a - dval b :: rat)"
    by (simp add: dec_eq_iff[where 'a=rat])
  have e: "\<exists>e. ev_error (evidence_from_fcf rt mt c) = Some (Finite e)
      \<and> dval e = (dval (absolute_error p) + dval (absolute_error q) :: rat)"
    if "op_precision cfo = Some p" "op_precision capex = Some q" for p q
  proof -
    have "list_all (\<lambda>p. op_precision p \<noteq> None) [cfo, capex]" using that by simp
    from err[unfolded ops, OF this] that obtain s where
      s: "dec_sum (metric_context True) dec_zero [absolute_error p, absolute_error q] = Some s"
      "ev_error (evidence_from_fcf rt mt c) = Some (Finite s)"
      by (auto simp: List.map_filter_simps simp del: dec_sum.simps)
    from dec_sum_exact[OF s(1), where 'a=rat] s(2) show ?thesis by (simp add: metric_context_def)
  qed
  have h: "projection_honest rt cfo" "projection_honest rt capex" using opp by (auto simp: operand_problems_def)
  from num x val(1) have "\<exists>x. ev_value (evidence_from_fcf rt mt c) = Some (Finite x) \<and> dval x = (dval a - dval b :: rat)" by simp
  with ops ab e h issues_Nil_concepts[OF i] issues_Nil_periods[OF i, of cfo capex] show ?thesis by auto
qed

abbreviation sample_cfo :: operand where
  "sample_cfo \<equiv> Selected (sample_input CASH_FROM_OPERATING_ACTIVITIES 1 (Some (Date 2020 1 1)) (Date 2020 3 31) (dec_of_int 70))"

abbreviation sample_capex :: operand where
  "sample_capex \<equiv> Selected (sample_input CAPITAL_EXPENDITURES_PPE 2 (Some (Date 2020 1 1)) (Date 2020 3 31) (dec_of_int 30))"

abbreviation sample_revenue :: operand where
  "sample_revenue \<equiv> Selected (sample_input REVENUE 3 (Some (Date 2020 1 1)) (Date 2020 3 31) (dec_of_int 100))"

abbreviation sample_income :: operand where
  "sample_income \<equiv> Selected (sample_input OPERATING_INCOME 1 (Some (Date 2020 1 1)) (Date 2020 3 31) (dec_of_int 25))"

lemma sample_operand_problems:
  "operand_problems sample_rt sample_cfo = []" "operand_problems sample_rt sample_capex = []" "operand_problems sample_rt sample_revenue = []"
  "operand_problems sample_rt sample_income = []"
  by (simp_all add: operand_problems_def projection_honest_def supported_flows_def sample_evals del: One_nat_def)

lemma sample_fcf_calculation:
  "calc_operands (free_cash_flow sample_rt sample_cfo sample_capex) = [sample_cfo, sample_capex]"
  "calc_metric (free_cash_flow sample_rt sample_cfo sample_capex) = ''free_cash_flow_ppe''"
  "calc_value (free_cash_flow sample_rt sample_cfo sample_capex) = Some (dec_of_int 40)"
  "calc_flags (free_cash_flow sample_rt sample_cfo sample_capex) = []"
proof -
  have d: "difference (dec_of_int 70) (dec_of_int 30) = Some (dec_of_int 40)" by code_simp
  have c: "cash_issues sample_rt sample_cfo sample_capex = []"
    by (simp add: cash_issues_def negative_value_def dec_lt_iff[where 'a=rat] sample_evals del: One_nat_def)
  show "calc_operands (free_cash_flow sample_rt sample_cfo sample_capex) = [sample_cfo, sample_capex]"
    "calc_metric (free_cash_flow sample_rt sample_cfo sample_capex) = ''free_cash_flow_ppe''"
    by (simp_all add: free_cash_flow_def calculate_def Let_def)
  show "calc_value (free_cash_flow sample_rt sample_cfo sample_capex) = Some (dec_of_int 40)"
    "calc_flags (free_cash_flow sample_rt sample_cfo sample_capex) = []"
    using d by (simp_all add: free_cash_flow_def calculate_def c sample_evals List.map_filter_simps del: One_nat_def)
qed

lemma sample_fcf_usable: "ev_usable (evidence_from_fcf sample_rt (\<lambda>_ _. []) (free_cash_flow sample_rt sample_cfo sample_capex))"
proof -
  have "within_limits (dec_of_int 40)"
    "dec_sum (metric_context True) dec_zero [dec_of_int 1, dec_of_int 1] = Some (dec_of_int 2)" by code_simp+
  then show ?thesis
    by (simp add: evidence_from_fcf_def fcf_problems_def Let_def sample_fcf_calculation sample_operand_problems
        numeric_def concerning_def sample_simps List.map_filter_simps del: One_nat_def dec_sum.simps)
qed

theorem evidence_from_fcf_sound_witness:
  "\<exists>x. ev_value (evidence_from_fcf sample_rt (\<lambda>_ _. []) (free_cash_flow sample_rt sample_cfo sample_capex)) = Some (Finite x)
     \<and> dval x = (40 :: rat)"
  using evidence_from_fcf_sound[OF sample_fcf_usable] by (auto simp: sample_fcf_calculation sample_simps less_eq_date_def less_date_def simp del: One_nat_def)

text \<open>
  A usable company metric is bound to its evidence: the calculation has the requested metric, the
  supplied operands are the projections of the calculation's own inputs, each of them usable, and the
  recorded operand hashes are the digests of exactly these.
\<close>

theorem metric_from_calculation_bound:
  assumes "cm_usable (metric_from_calculation rt mt c metric evs)"
  shows "calc_metric c = metric_target metric \<and> metric_target metric \<in> set projected_metrics
    \<and> cm_value (metric_from_calculation rt mt c metric evs) = map_option Finite (calc_value c) \<and> calc_value c \<noteq> None
    \<and> cm_operand_hashes (metric_from_calculation rt mt c metric evs)
        = map ev_hash (expected_evidence rt mt (metric_target metric) (calc_operands c))
    \<and> (\<forall>e\<in>set evs. ev_usable e) \<and> concerning (calc_flags c) = []"
proof -
  let ?ex = "expected_evidence rt mt (metric_target metric) (calc_operands c)"
  have ps: "metric_problems rt mt c metric evs = []" and v: "calc_value c \<noteq> None"
    using assms by (auto simp: metric_from_calculation_def Let_def split: if_splits)
  have l: "list_all2 same_evidence evs ?ex" and u: "\<forall>e\<in>set ?ex. ev_usable e"
    using ps by (auto simp: metric_problems_def Let_def list_ex_iff)
  have "map ev_hash evs = map ev_hash ?ex" "\<forall>e\<in>set evs. ev_usable e"
    using l u by (induction rule: list_all2_induct) (auto simp: same_evidence_def)
  then show ?thesis using ps v by (auto simp: metric_from_calculation_def metric_problems_def Let_def)
qed

lemma sample_margin_calculation:
  "calc_operands (operating_margin sample_rt sample_income sample_revenue)
     = [sample_income, sample_revenue]"
  "calc_value (operating_margin sample_rt sample_income sample_revenue)
     = Some (Dec False 25 (- 2))"
  "calc_flags (operating_margin sample_rt sample_income sample_revenue) = []"
proof -
  have d: "dec_div (metric_context False) (dec_of_int 25) (dec_of_int 100) = Some (Dec False 25 (- 2))" by code_simp
  have c: "dec_lt (dec_of_int 1) (copy_abs (Dec False 25 (- 2))) = False" by code_simp
  have n: "dec_le (dec_of_int 100) dec_zero = False" "dec_le (dec_of_int 100) (dec_of_int 1) = False" by code_simp+
  show "calc_operands (operating_margin sample_rt sample_income sample_revenue)
     = [sample_income, sample_revenue]"
    by (simp add: operating_margin_def reported_margin_def calculate_def Let_def)
  show "calc_value (operating_margin sample_rt sample_income sample_revenue)
     = Some (Dec False 25 (- 2))"
    "calc_flags (operating_margin sample_rt sample_income sample_revenue) = []"
    using d c n by (simp_all add: operating_margin_def reported_margin_def calculate_def denominator_def sample_evals List.map_filter_simps del: One_nat_def)
qed

lemma sample_metric_usable:
  "cm_usable (metric_from_calculation sample_rt (\<lambda>_ _. []) (operating_margin sample_rt sample_income sample_revenue) ''operating_margin''
     (map (evidence_from_operand sample_rt (\<lambda>_ _. [])) [sample_income, sample_revenue]))"
proof -
  have e: "ev_usable (evidence_from_operand sample_rt (\<lambda>_ _. []) p) \<and> same_evidence (evidence_from_operand sample_rt (\<lambda>_ _. []) p) (evidence_from_operand sample_rt (\<lambda>_ _. []) p)"
    if "p \<in> {sample_income, sample_revenue}" for p
    using that by (auto simp: evidence_from_operand_def Let_def sample_operand_problems same_evidence_def sample_evals
        simp del: One_nat_def)
  have t: "metric_target ''operating_margin'' = ''operating_margin''" "within_limits (Dec False 25 (- 2))"
    "calc_metric (operating_margin sample_rt sample_income sample_revenue) = ''operating_margin''"
    "calc_unit (operating_margin sample_rt sample_income sample_revenue) = ''fraction''"
    "calc_revision (operating_margin sample_rt sample_income sample_revenue) = ''s5-source-metrics-v1''"
    by (simp add: metric_target_def or_else_def, code_simp, simp_all add: operating_margin_def reported_margin_def calculate_def Let_def)
  show ?thesis
    using e[of sample_income] e[of sample_revenue]
    by (simp add: metric_from_calculation_def metric_problems_def expected_evidence_def Let_def sample_margin_calculation t
        numeric_def concerning_def projected_metrics_def del: One_nat_def)
qed

theorem metric_from_calculation_bound_witness:
  "cm_value (metric_from_calculation sample_rt (\<lambda>_ _. []) (operating_margin sample_rt sample_income sample_revenue) ''operating_margin''
     (map (evidence_from_operand sample_rt (\<lambda>_ _. [])) [sample_income, sample_revenue])) = Some (Finite (Dec False 25 (- 2)))"
  using metric_from_calculation_bound[OF sample_metric_usable] unfolding sample_margin_calculation by simp

end
