(* ===== verification/Assessment.thy ===== *)
theory Assessment
  imports Company "HOL-Library.Product_Lexorder"
begin

text \<open>
  \<open>packages/core/assessment.py\<close>: a calculation is recomputed from its operands, judged against a
  reviewed profile and a freshness policy, and given one of seven statuses; the assessments of a company
  are then counted against the profile's roster and summarised in at most three review items.
\<close>

section \<open>Policies\<close>

record metric_applicability =
  ma_metric :: string
  ma_applicable :: "bool option"
  ma_rationale :: string

definition mk_applicability :: "metric_applicability \<Rightarrow> metric_applicability result" where
  "mk_applicability r = guard_value (nonblank (ma_metric r) \<and> nonblank (ma_rationale r)) r"

definition references :: "string list \<Rightarrow> bool" where
  "references refs = (refs \<noteq> [] \<and> list_all nonblank refs)"

record profile_policy =
  pp_issuer :: uuid
  pp_business_model :: string
  pp_lifecycle :: string
  pp_instrument_basis :: string
  pp_revision :: string
  pp_effective_on :: date
  pp_known_on :: date
  pp_refs :: "string list"
  pp_rules :: "metric_applicability list"

definition mk_profile :: "profile_policy \<Rightarrow> profile_policy result" where
  "mk_profile p =
     guard_value
       (list_all nonblank [pp_business_model p, pp_lifecycle p, pp_instrument_basis p, pp_revision p]
        \<and> references (pp_refs p) \<and> distinct (map ma_metric (pp_rules p)))
       p"

record freshness_policy =
  fp_revision :: string
  fp_max_age_days :: int
  fp_refs :: "string list"
  fp_expected_end :: "date option"
  fp_expected_by :: "date option"

definition mk_freshness :: "freshness_policy \<Rightarrow> freshness_policy result" where
  "mk_freshness p =
     guard_value
       (nonblank (fp_revision p) \<and> references (fp_refs p) \<and> 0 \<le> fp_max_age_days p
        \<and> (case (fp_expected_end p, fp_expected_by p) of
             (None, None) \<Rightarrow> True
           | (Some stop, Some by) \<Rightarrow> stop \<le> by
           | _ \<Rightarrow> False))
       p"

record evaluation_context =
  ctx_as_of :: date
  ctx_profile :: profile_policy
  ctx_freshness :: freshness_policy

section \<open>Assessments\<close>

datatype status = Valid | Not_Meaningful | Stale | Missing | Invalid | Unsupported | Inapplicable

record metric_assessment =
  as_calculation :: calculation
  as_context :: evaluation_context
  as_applicability :: "bool option"
  as_status :: status
  as_value :: "dec option"
  as_reasons :: "flag list"
  as_revision :: string

definition usable :: "metric_assessment \<Rightarrow> bool" where
  "usable a = (as_status a = Valid \<and> as_applicability a = Some True)"

section \<open>The registry of calculators\<close>

text \<open>A calculator refuses operands of the wrong number or, for balances, of the wrong kind.\<close>

fun on_pair :: "(operand \<Rightarrow> operand \<Rightarrow> calculation) \<Rightarrow> operand list \<Rightarrow> calculation option" where
  "on_pair f [a, b] = Some (f a b)"
| "on_pair f _ = None"

fun on_triple :: "(operand \<Rightarrow> operand \<Rightarrow> operand \<Rightarrow> calculation) \<Rightarrow> operand list \<Rightarrow> calculation option" where
  "on_triple f [a, b, c] = Some (f a b c)"
| "on_triple f _ = None"

fun on_balances :: "(financial_input \<Rightarrow> financial_input \<Rightarrow> calculation) \<Rightarrow> operand list \<Rightarrow> calculation option" where
  "on_balances f [Selected a, Selected b] = Some (f a b)"
| "on_balances f _ = None"

fun on_balances3 ::
  "(financial_input \<Rightarrow> financial_input \<Rightarrow> financial_input \<Rightarrow> calculation) \<Rightarrow> operand list \<Rightarrow> calculation option" where
  "on_balances3 f [Selected a, Selected b, Selected c] = Some (f a b c)"
| "on_balances3 f _ = None"

definition calculators :: "runtime \<Rightarrow> (string \<times> (operand list \<Rightarrow> calculation option)) list" where
  "calculators rt =
     [(''revenue_growth_yoy'', on_pair (\<lambda>a b. revenue_growth rt a b None None)),
      (''gross_margin'', on_pair (gross_margin rt)),
      (''gross_margin_derived'', on_pair (derived_gross_margin rt)),
      (''operating_margin'', on_pair (operating_margin rt)),
      (''net_margin_consolidated'', on_pair (net_margin rt)),
      (''free_cash_flow_ppe'', on_pair (free_cash_flow rt)),
      (''free_cash_flow_margin_ppe'', on_triple (free_cash_flow_margin rt)),
      (''current_ratio'', on_balances (current_ratio rt)),
      (''net_working_capital'', on_balances (net_working_capital rt)),
      (''return_on_assets'', on_balances3 (return_on_assets rt))]"

definition supported_metrics :: "string list" where
  "supported_metrics = [''revenue_growth_yoy'', ''gross_margin'', ''gross_margin_derived'', ''operating_margin'',
     ''net_margin_consolidated'', ''free_cash_flow_ppe'', ''free_cash_flow_margin_ppe'', ''current_ratio'',
     ''net_working_capital'', ''return_on_assets'']"

definition known_metric :: "string \<Rightarrow> bool" where
  "known_metric metric =
     (metric \<in> set supported_metrics \<or> metric \<in> set (map (\<lambda>k. ''reported.'' @ concept_value k) all_concepts))"

text \<open>The recomputed calculation, or the reason why there is none.\<close>

definition recompute :: "runtime \<Rightarrow> calculation \<Rightarrow> flag + calculation" where
  "recompute rt c =
     (let ps = calc_operands c; metric = calc_metric c in
      if \<not> known_metric metric then Inl ''unsupported_metric_definition''
      else if ps = [] then Inl ''calculation_inputs_invalid''
      else if starts_with ''reported.'' metric
      then (case ps of [p] \<Rightarrow> Inr (reported_amount rt p) | _ \<Rightarrow> Inl ''calculation_inputs_invalid'')
      else
        (case Option.bind (map_of (calculators rt) metric) (\<lambda>f. f ps) of
           None \<Rightarrow> Inl ''calculation_inputs_invalid''
         | Some r \<Rightarrow>
             (case calc_review c of
                None \<Rightarrow> Inr r
              | Some (cal, rc) \<Rightarrow>
                  if metric \<noteq> ''revenue_growth_yoy'' then Inl ''calculation_projection_mismatch''
                  else Inr (revenue_growth rt (ps ! 0) (ps ! 1) cal rc))))"

definition projection_flags :: "runtime \<Rightarrow> operand list \<Rightarrow> flag list" where
  "projection_flags rt ps =
     concat (map (\<lambda>p. if is_selected p then []
       else filter (\<lambda>f. f = ''period_projection_mismatch'') (operand_problems rt p)) ps)"

definition rebuild :: "runtime \<Rightarrow> calculation \<Rightarrow> calculation option \<times> flag list" where
  "rebuild rt c =
     (case recompute rt c of
        Inl reason \<Rightarrow> (None, [reason])
      | Inr r \<Rightarrow>
          (Some r, projection_flags rt (calc_operands c)
             @ flag_if (\<not> same_calculation r c) ''calculation_projection_mismatch''))"

section \<open>Evaluation\<close>

definition leaves_of :: "calculation \<Rightarrow> financial_input list" where
  "leaves_of c = concat (map op_leaves (calc_operands c))"

definition rule_of :: "profile_policy \<Rightarrow> string \<Rightarrow> metric_applicability option" where
  "rule_of p metric = find (\<lambda>r. ma_metric r = metric) (pp_rules p)"

text \<open>\<open>filed_cutoff or captured_before.date()\<close> is after the day, or the period ends after it.\<close>

definition after_cutoff :: "date \<Rightarrow> financial_input \<Rightarrow> bool" where
  "after_cutoff day x =
     ((case filed_cutoff (fi_query x) of
         Some d \<Rightarrow> day < d
       | None \<Rightarrow> int (toordinal day) < local_day (captured_before (fi_query x)))
      \<or> day < pd_end (fi_period x))"

definition context_problems :: "evaluation_context \<Rightarrow> financial_input list \<Rightarrow> flag list" where
  "context_problems ctx xs =
     flag_if (pp_instrument_basis (ctx_profile ctx) \<noteq> ''consolidated_issuer'') ''unsupported_profile_instrument_basis''
     @ flag_if (ctx_as_of ctx < pp_effective_on (ctx_profile ctx) \<or> ctx_as_of ctx < pp_known_on (ctx_profile ctx))
         ''profile_not_available_at_cutoff''
     @ flag_if (list_ex (\<lambda>x. q_issuer (fi_query x) \<noteq> pp_issuer (ctx_profile ctx)) xs) ''profile_issuer_mismatch''
     @ flag_if (list_ex (after_cutoff (ctx_as_of ctx)) xs) ''input_after_evaluation_cutoff''"

definition not_meaningful_flags :: "flag list" where
  "not_meaningful_flags = [''denominator_nonpositive'', ''denominator_indistinguishable_from_zero'']"

definition fact_missing :: "financial_input \<Rightarrow> bool" where
  "fact_missing x = (case fi_fact x of None \<Rightarrow> True | Some f \<Rightarrow> f_value f = None)"

definition unsupported_flag :: "flag \<Rightarrow> bool" where
  "unsupported_flag f = starts_with ''unsupported_'' f"

text \<open>The status of an applicable metric without a value, and the reason it adds.\<close>

definition absent_status :: "flag list \<Rightarrow> financial_input list \<Rightarrow> status \<times> flag list" where
  "absent_status fls xs =
     (let missing = list_ex fact_missing xs; nm = set fls \<subseteq> set not_meaningful_flags;
          imprecise = list_ex (\<lambda>x. fi_precision x = None) xs in
      if fls \<noteq> [] \<and> nm \<and> \<not> imprecise then (Not_Meaningful, [])
      else if missing \<or> ''denominator_precision_unknown'' \<in> set fls \<or> (nm \<and> imprecise)
      then (Missing, flag_if (\<not> missing) ''required_source_precision_unknown'')
      else if list_ex (\<lambda>f. unsupported_flag f \<or> f = ''revision_compatibility_unproven''
                 \<or> f = ''incompatible_comparison_basis'') fls
      then (Unsupported, [])
      else (Invalid, []))"

text \<open>Status, value and added reasons before freshness is considered.\<close>

definition base_status ::
  "flag list \<Rightarrow> bool option \<Rightarrow> dec option \<Rightarrow> flag list \<Rightarrow> financial_input list \<Rightarrow> status \<times> dec option \<times> flag list" where
  "base_status problems applicability value fls xs =
     (if problems \<noteq> [] then (if list_all unsupported_flag problems then Unsupported else Invalid, None, [])
      else case applicability of
        None \<Rightarrow> (Unsupported, value, [''profile_applicability_unreviewed''])
      | Some False \<Rightarrow> (Inapplicable, value, [''profile_metric_inapplicable''])
      | Some True \<Rightarrow>
          (case value of
             None \<Rightarrow> (case absent_status fls xs of (st, rs) \<Rightarrow> (st, None, rs))
           | Some v \<Rightarrow> if fls = [] then (Valid, Some v, []) else (Invalid, None, [])))"

definition newest_end :: "financial_input list \<Rightarrow> date" where
  "newest_end xs = Max (set (map (\<lambda>x. pd_end (fi_period x)) xs))"

definition staleness :: "evaluation_context \<Rightarrow> financial_input list \<Rightarrow> flag list" where
  "staleness ctx xs =
     (let policy = ctx_freshness ctx in
      flag_if (fp_max_age_days policy < day_difference (newest_end xs) (ctx_as_of ctx)) ''financial_period_stale''
      @ flag_if (case (fp_expected_by policy, fp_expected_end policy) of
                   (Some by, Some stop) \<Rightarrow> by < ctx_as_of ctx \<and> newest_end xs < stop
                 | _ \<Rightarrow> False) ''expected_filing_missing'')"

definition evaluate_metric :: "runtime \<Rightarrow> calculation \<Rightarrow> evaluation_context \<Rightarrow> metric_assessment" where
  "evaluate_metric rt c ctx =
     (let applicability = Option.bind (rule_of (ctx_profile ctx) (calc_metric c)) ma_applicable;
          xs = leaves_of c in
      case rebuild rt c of
        (rebuilt, problems0) \<Rightarrow>
          let value0 = (if problems0 = [] then Option.bind rebuilt calc_value else None);
              context = context_problems ctx xs; problems = problems0 @ context in
          (case base_status problems applicability value0 (concerning (calc_flags c)) xs of
             (status0, value, added) \<Rightarrow>
               let stale = (if status0 \<in> {Valid, Not_Meaningful} \<and> xs \<noteq> [] then staleness ctx xs else []) in
               \<lparr>as_calculation = c, as_context = ctx, as_applicability = applicability,
                as_status = (if stale = [] then status0 else Stale), as_value = value,
                as_reasons = sorted_set (calc_flags c @ problems @ added @ stale),
                as_revision = ''s5-assessment-v1''\<rparr>))"

section \<open>Coherent rosters\<close>

definition same_assessment :: "metric_assessment \<Rightarrow> metric_assessment \<Rightarrow> bool" where
  "same_assessment a b =
     (as_calculation a = as_calculation b \<and> as_context a = as_context b \<and> as_applicability a = as_applicability b
      \<and> as_status a = as_status b \<and> rel_option dec_eq (as_value a) (as_value b) \<and> as_reasons a = as_reasons b
      \<and> as_revision a = as_revision b)"

definition reproducible :: "runtime \<Rightarrow> evaluation_context \<Rightarrow> metric_assessment \<Rightarrow> bool" where
  "reproducible rt ctx a =
     (as_context a = ctx \<and> same_assessment (evaluate_metric rt (as_calculation a) ctx) a)"

definition metric_of :: "metric_assessment \<Rightarrow> string" where
  "metric_of a = calc_metric (as_calculation a)"

text \<open>At most one value: \<open>len(set(xs)) <= 1\<close>.\<close>

definition at_most_one :: "'a list \<Rightarrow> bool" where
  "at_most_one xs = (length (remdups xs) \<le> 1)"

definition flow_method :: "operand \<Rightarrow> string" where
  "flow_method p =
     (case p of
        Selected _ \<Rightarrow> ''reported''
      | Derived a \<Rightarrow> if pa_formula a = ''direct_annual'' then ''reported'' else pa_formula a)"

definition edition_of :: "calculation \<Rightarrow> uuid list" where
  "edition_of c =
     sorted_set (concat (map (\<lambda>x. sel_filing_versions (fi_selection x))
       (filter (\<lambda>x. pd_end (fi_period x) = op_end (hd (calc_operands c))) (leaves_of c))))"

definition coherent_roster :: "metric_assessment list \<Rightarrow> bool" where
  "coherent_roster as =
     (let cs = map as_calculation (filter (\<lambda>a. as_status a \<noteq> Invalid \<and> calc_operands (as_calculation a) \<noteq> []) as) in
      at_most_one (concat (map (\<lambda>c. map fi_history_key (leaves_of c)) cs))
      \<and> at_most_one (map (\<lambda>c. op_end (hd (calc_operands c))) cs)
      \<and> at_most_one (List.map_filter (\<lambda>c. let p = hd (calc_operands c) in
           map_option (\<lambda>s. (s, op_end p, flow_method p)) (op_start p)) cs)
      \<and> at_most_one (map edition_of cs))"

definition checked :: "runtime \<Rightarrow> metric_assessment list \<Rightarrow> evaluation_context \<Rightarrow> bool" where
  "checked rt as ctx =
     (distinct (map metric_of as) \<and> list_all (reproducible rt ctx) as \<and> coherent_roster as)"

section \<open>Coverage\<close>

record metric_coverage =
  mc_applicable :: nat
  mc_covered :: nat
  mc_unresolved :: nat
  mc_coverage :: "dec option"
  mc_counts :: "(status \<times> nat) list"
  mc_context :: evaluation_context
  mc_revision :: string

definition statuses :: "status list" where
  "statuses = [Valid, Not_Meaningful, Stale, Missing, Invalid, Unsupported, Inapplicable]"

definition rule_status :: "metric_assessment list \<Rightarrow> metric_applicability \<Rightarrow> status" where
  "rule_status as r =
     (case ma_applicable r of
        None \<Rightarrow> Unsupported
      | Some False \<Rightarrow> Inapplicable
      | Some True \<Rightarrow>
          (case find (\<lambda>a. metric_of a = ma_metric r) as of
             Some a \<Rightarrow> as_status a
           | None \<Rightarrow> if known_metric (ma_metric r) then Missing else Unsupported))"

definition coverage :: "runtime \<Rightarrow> metric_assessment list \<Rightarrow> evaluation_context \<Rightarrow> metric_coverage result" where
  "coverage rt as ctx =
     (let rules = pp_rules (ctx_profile ctx) in
      if \<not> checked rt as ctx \<or> \<not> set (map metric_of as) \<subseteq> set (map ma_metric rules) then Inl ValueError
      else
        let due = filter (\<lambda>r. ma_applicable r = Some True) rules;
            open_rules = filter (\<lambda>r. ma_applicable r = None) rules;
            covered = length (filter (\<lambda>r. rule_status as r \<in> {Valid, Not_Meaningful}) due) in
        Inr \<lparr>mc_applicable = length due, mc_covered = covered, mc_unresolved = length open_rules,
             mc_coverage = (if due \<noteq> [] \<and> open_rules = []
                then dec_div (metric_context False) (dec_of_int (int covered)) (dec_of_int (int (length due)))
                else None),
             mc_counts = map (\<lambda>s. (s, length (filter (\<lambda>r. rule_status as r = s) rules))) statuses,
             mc_context = ctx, mc_revision = ''s5-coverage-v1''\<rparr>)"

section \<open>Observations\<close>

record observation =
  ob_rule :: string
  ob_topic :: string
  ob_category :: string
  ob_text :: string
  ob_metrics :: "metric_assessment list"

definition mk_observation :: "string \<times> string \<times> string \<times> string \<Rightarrow> metric_assessment list \<Rightarrow> observation" where
  "mk_observation d ms =
     (case d of (rule, topic, category, txt) \<Rightarrow>
        \<lparr>ob_rule = rule, ob_topic = topic, ob_category = category, ob_text = txt, ob_metrics = ms\<rparr>)"

definition observation_rule :: "string \<Rightarrow> dec \<Rightarrow> (string \<times> string \<times> string \<times> string) option" where
  "observation_rule metric v =
     (let neg = dec_lt v dec_zero in
      if metric = ''revenue_growth_yoy''
      then Some (if dec_lt dec_zero v
                 then (''revenue_grew'', ''revenue'', ''operating'', ''Revenue grew year over year.'')
                 else if neg
                 then (''revenue_declined'', ''revenue'', ''operating'', ''Revenue fell year over year.'')
                 else (''revenue_unchanged'', ''revenue'', ''operating'', ''Revenue was unchanged year over year.''))
      else if metric \<in> {''free_cash_flow_ppe'', ''free_cash_flow_margin_ppe''} \<and> neg
      then Some (''cash_spending_gap'', ''cash_generation'', ''cash'', ''Operating cash flow did not cover cash PPE spending.'')
      else if metric = ''operating_margin'' \<and> neg
      then Some (''operating_loss'', ''earnings'', ''operating'', ''Operating income was negative for this period.'')
      else if metric \<in> {''net_margin_consolidated'', ''return_on_assets''} \<and> neg
      then Some (''consolidated_loss'', ''earnings'', ''operating'', ''Consolidated net income was negative for this period.'')
      else None)"

definition observe :: "metric_assessment \<Rightarrow> observation option" where
  "observe a =
     (if usable a then
        Option.bind (as_value a) (\<lambda>v. map_option (\<lambda>d. mk_observation d [a]) (observation_rule (metric_of a) v))
      else None)"

definition observations :: "runtime \<Rightarrow> metric_assessment list \<Rightarrow> observation list result" where
  "observations rt as =
     (if as = [] then Inr []
      else if \<not> checked rt as (as_context (hd as)) then Inl ValueError
      else Inr (List.map_filter observe (sort_key metric_of as)))"

definition data_candidate :: "metric_assessment \<Rightarrow> observation option" where
  "data_candidate a =
     (if \<not> usable a
      then Some (mk_observation (''data_review'', ''data_availability'', ''data'', ''Review metric availability and its evidence.'') [a])
      else if ''extreme_margin'' \<in> set (as_reasons a)
      then Some (mk_observation (''extreme_margin_review'', ''extreme_margin'', ''data'', ''Review the reported amounts and the margin calculation.'') [a])
      else None)"

definition priority :: "string \<Rightarrow> nat" where
  "priority category = (if category = ''data'' then 0 else if category = ''cash'' then 1 else 2)"

definition candidate_key :: "observation \<Rightarrow> nat \<times> string \<times> string" where
  "candidate_key ob = (priority (ob_category ob), ob_rule ob, metric_of (hd (ob_metrics ob)))"

text \<open>A dictionary keeps the last value of a key; its values are then sorted by key.\<close>

definition related :: "observation list \<Rightarrow> string \<Rightarrow> metric_assessment list" where
  "related cs topic =
     (let ms = concat (map ob_metrics (filter (\<lambda>ob. ob_topic ob = topic) cs));
          latest = map_of (rev (map (\<lambda>a. (metric_of a, a)) ms)) in
      List.map_filter latest (sorted_set (map metric_of ms)))"

fun first_of_topic :: "string list \<Rightarrow> observation list \<Rightarrow> observation list" where
  "first_of_topic seen [] = []"
| "first_of_topic seen (ob # obs) =
     (if ob_topic ob \<in> set seen then first_of_topic seen obs
      else ob # first_of_topic (ob_topic ob # seen) obs)"

definition review_items :: "runtime \<Rightarrow> metric_assessment list \<Rightarrow> observation list result" where
  "review_items rt as =
     (case observations rt as of
        Inl e \<Rightarrow> Inl e
      | Inr facts \<Rightarrow>
          let candidates = filter (\<lambda>ob. ob_rule ob \<noteq> ''revenue_grew'' \<and> ob_rule ob \<noteq> ''revenue_unchanged'') facts
                @ List.map_filter data_candidate as in
          Inr (take 3 (map (\<lambda>ob. ob\<lparr>ob_metrics := related candidates (ob_topic ob)\<rparr>)
                 (first_of_topic [] (sort_key candidate_key candidates)))))"

end
