(* ===== verification/Assessment_Properties.thy ===== *)
theory Assessment_Properties
  imports Assessment Company_Properties
begin

text \<open>
  Guarantees of the assessments: a usable metric is a recomputed one, engine results survive their own
  recomputation, every profile rule is counted once, and review items are few, distinct and ordered.
\<close>

section \<open>The registry\<close>

lemma calculator_fields:
  assumes "map_of (calculators rt) metric = Some f" "f ps = Some c"
  shows "calc_metric c = metric" "calc_operands c = ps" "calc_review c = None"
  using assms
  by (auto simp: calculators_def calculate_def Let_def revenue_growth_def gross_margin_def operating_margin_def net_margin_def
      reported_margin_def derived_gross_margin_def free_cash_flow_def free_cash_flow_margin_def current_ratio_def
      net_working_capital_def return_on_assets_def
      split: if_splits elim!: on_pair.elims on_triple.elims on_balances.elims on_balances3.elims)

lemma calculators_supported: "map fst (calculators rt) = supported_metrics"
  by (simp add: calculators_def supported_metrics_def)

lemma calculator_known:
  assumes "map_of (calculators rt) metric = Some f"
  shows "known_metric metric" "\<not> starts_with ''reported.'' metric"
proof -
  have m: "metric \<in> set supported_metrics"
    using assms map_of_SomeD[OF assms] calculators_supported[of rt] by (metis fst_conv image_eqI list.set_map)
  then show "known_metric metric" by (simp add: known_metric_def)
  show "\<not> starts_with ''reported.'' metric" using m by (auto simp: supported_metrics_def starts_with_def)
qed

lemma calculator_nonempty:
  assumes "map_of (calculators rt) metric = Some f" "f ps = Some c"
  shows "ps \<noteq> []"
  using assms by (auto simp: calculators_def split: if_splits elim!: on_pair.elims on_triple.elims on_balances.elims on_balances3.elims)

lemma recompute_calculator:
  assumes "map_of (calculators rt) metric = Some f" "f ps = Some c"
  shows "recompute rt c = Inr c"
  using assms calculator_fields[OF assms] calculator_known[OF assms(1)] calculator_nonempty[OF assms]
  by (simp add: recompute_def Let_def)

lemma recompute_reported: "recompute rt (reported_amount rt p) = Inr (reported_amount rt p)"
proof -
  have "k \<in> set all_concepts" for k by (cases k) (simp_all add: all_concepts_def)
  then have "known_metric (''reported.'' @ concept_value (op_concept p))" by (simp add: known_metric_def)
  then show ?thesis by (simp add: recompute_def Let_def reported_amount_def starts_with_def)
qed

lemma recompute_growth: "recompute rt (revenue_growth rt a b cal rc) = Inr (revenue_growth rt a b cal rc)"
proof -
  let ?c = "revenue_growth rt a b cal rc"
  have f: "calc_metric ?c = ''revenue_growth_yoy''" "calc_operands ?c = [a, b]"
    "calc_review ?c = (if cal \<noteq> None \<or> rc \<noteq> None then Some (cal, rc) else None)"
    by (simp_all add: revenue_growth_def Let_def calculate_def)
  have k: "map_of (calculators rt) ''revenue_growth_yoy'' = Some (on_pair (\<lambda>a b. revenue_growth rt a b None None))"
    by (simp add: calculators_def)
  from f calculator_known[OF k] k show ?thesis by (auto simp: recompute_def Let_def)
qed

text \<open>
  C29.  Whatever a registered calculator, a reported amount or a reviewed growth comparison returns is
  reproduced by the registry: with untouched derived operands the recomputation is the calculation itself
  and nothing is held against it.
\<close>

theorem calculators_roundtrip:
  assumes "map_of (calculators rt) metric = Some f" "f ps = Some c" "projection_flags rt ps = []"
  shows "rebuild rt c = (Some c, [])
    \<and> (projection_flags rt [a, b] = [] \<longrightarrow>
         rebuild rt (revenue_growth rt a b cal rc) = (Some (revenue_growth rt a b cal rc), []))
    \<and> (projection_flags rt [a] = [] \<longrightarrow> rebuild rt (reported_amount rt a) = (Some (reported_amount rt a), []))"
proof -
  have g: "calc_operands (revenue_growth rt a b cal rc) = [a, b]" "calc_operands (reported_amount rt a) = [a]"
    by (simp_all add: revenue_growth_def Let_def calculate_def reported_amount_def)
  show ?thesis
    using assms(3) calculator_fields(2)[OF assms(1,2)]
    by (simp add: rebuild_def recompute_calculator[OF assms(1,2)] recompute_growth recompute_reported g)
qed

theorem calculators_roundtrip_witness:
  "rebuild sample_rt (free_cash_flow sample_rt sample_cfo sample_capex)
     = (Some (free_cash_flow sample_rt sample_cfo sample_capex), [])"
proof -
  have "map_of (calculators sample_rt) ''free_cash_flow_ppe'' = Some (on_pair (free_cash_flow sample_rt))"
    by (simp add: calculators_def)
  from calculators_roundtrip[OF this, of "[sample_cfo, sample_capex]"] show ?thesis
    by (simp add: projection_flags_def)
qed

section \<open>Evaluation\<close>

lemma evaluate_fields [simp]:
  "as_calculation (evaluate_metric rt c ctx) = c" "as_context (evaluate_metric rt c ctx) = ctx"
  "as_applicability (evaluate_metric rt c ctx) = Option.bind (rule_of (ctx_profile ctx) (calc_metric c)) ma_applicable"
  by (auto simp: evaluate_metric_def Let_def split: prod.splits)





definition sample_context :: "metric_applicability list \<Rightarrow> evaluation_context" where
  "sample_context rules =
     \<lparr>ctx_as_of = Date 2022 2 2,
      ctx_profile = \<lparr>pp_issuer = 1, pp_business_model = ''m'', pp_lifecycle = ''l'', pp_instrument_basis = ''consolidated_issuer'',
        pp_revision = ''v'', pp_effective_on = Date 2020 2 2, pp_known_on = Date 2020 2 2, pp_refs = [''r''], pp_rules = rules\<rparr>,
      ctx_freshness = \<lparr>fp_revision = ''v'', fp_max_age_days = 1000, fp_refs = [''r''], fp_expected_end = None, fp_expected_by = None\<rparr>\<rparr>"

abbreviation fcf_rule :: metric_applicability where
  "fcf_rule \<equiv> \<lparr>ma_metric = ''free_cash_flow_ppe'', ma_applicable = Some True, ma_rationale = ''r''\<rparr>"

lemma sample_leaves:
  "leaves_of (free_cash_flow sample_rt sample_cfo sample_capex)
     = [sample_input CASH_FROM_OPERATING_ACTIVITIES 1 (Some (Date 2020 1 1)) (Date 2020 3 31) (dec_of_int 70),
        sample_input CAPITAL_EXPENDITURES_PPE 2 (Some (Date 2020 1 1)) (Date 2020 3 31) (dec_of_int 30)]"
  by (simp add: leaves_of_def sample_fcf_calculation del: One_nat_def)






section \<open>Coverage\<close>

lemma half_ulp_unit:
  assumes "half_ulp q x" "0 \<le> x" "x \<le> 1"
  shows "0 \<le> (dval q :: rat) \<and> dval q \<le> (1 :: rat)"
proof -
  define u where "u = (10 :: rat) powi dexp q"
  define K where "K = dint q"
  have u: "0 < u" and q: "dval q = of_int K * u" by (simp_all add: u_def K_def dval_def)
  have "2 * \<bar>of_int K * u - x\<bar> \<le> u" using assms(1) by (simp add: half_ulp_def q u_def)
  then have h1: "2 * (of_int K * u) - 2 * x \<le> u" and h2: "2 * x - 2 * (of_int K * u) \<le> u"
    using abs_ge_self[of "of_int K * u - x"] abs_ge_minus_self[of "of_int K * u - x"] by (simp_all add: abs_le_iff algebra_simps)
  note h = h1 h2
  have "0 \<le> K"
  proof (rule ccontr)
    assume "\<not> 0 \<le> K"
    then have "of_int K * u \<le> - 1 * u" using u by (intro mult_right_mono) auto
    then show False using h assms(2) u by linarith
  qed
  moreover have "of_int K * u \<le> 1"
  proof (rule ccontr)
    assume gt: "\<not> of_int K * u \<le> 1"
    show False
    proof (cases "dexp q \<le> 0")
      case True
      then have N: "u * 10 ^ nat (- dexp q) = 1" by (simp add: u_def power_int_def flip: power_mult_distrib)
      have "u * of_int (10 ^ nat (- dexp q)) < u * of_int K" using gt N by (simp add: mult.commute)
      then have "10 ^ nat (- dexp q) + 1 \<le> K" using u mult_less_cancel_left_pos of_int_less_iff by (metis zless_imp_add1_zle)
      then have "u * of_int (10 ^ nat (- dexp q) + 1) \<le> u * of_int K" using u by (intro mult_left_mono) (auto simp del: of_int_add of_int_power)
      then have "1 + u \<le> of_int K * u" using N by (simp add: algebra_simps)
      then show False using h assms(3) u by linarith
    next
      case False
      then have "(10 :: rat) ^ 1 \<le> 10 ^ nat (dexp q)" by (intro power_increasing) auto
      then have big: "10 \<le> u" using False by (simp add: u_def power_int_def)
      have "0 < K" using gt u by (metis \<open>0 \<le> K\<close> linorder_not_le mult_zero_left not_less_iff_gr_or_eq of_int_0 zero_le_one)
      then have "1 * u \<le> of_int K * u" using u by (intro mult_right_mono) auto
      then show False using h assms(3) big by linarith
    qed
  qed
  ultimately show ?thesis using u by (simp add: q)
qed

lemma counts_total: "sum_list (map (\<lambda>s. length (filter (\<lambda>r. g r = s) rs)) statuses) = length rs"
proof (induction rs)
  case (Cons a rs)
  then show ?case by (cases "g a") (simp_all add: statuses_def)
qed (simp add: statuses_def)

lemma disjoint_filters: "(\<And>x. \<not> (P x \<and> Q x)) \<Longrightarrow> length (filter P xs) + length (filter Q xs) \<le> length xs"
proof (induction xs)
  case (Cons a xs)
  then show ?case by (cases "P a"; cases "Q a") fastforce+
qed simp

abbreviation sample_assessment :: "metric_applicability list \<Rightarrow> metric_assessment" where
  "sample_assessment rules \<equiv>
     evaluate_metric sample_rt (free_cash_flow sample_rt sample_cfo sample_capex) (sample_context rules)"

lemma sample_checked: "checked sample_rt [sample_assessment rules] (sample_context rules)"
proof -
  have "reproducible sample_rt (sample_context rules) (sample_assessment rules)"
    by (simp add: reproducible_def same_assessment_def rel_option_reflI)
  moreover have "coherent_roster [sample_assessment rules]"
    by (simp add: coherent_roster_def Let_def at_most_one_def sample_leaves sample_simps sample_fcf_calculation
        edition_of_def List.map_filter_simps del: One_nat_def)
  ultimately show ?thesis by (simp add: checked_def)
qed

text \<open>
  Coverage accounts for the whole roster: the status counts add up to the number of profile rules,
  covered metrics are among the applicable ones, and a published coverage is the correctly rounded
  fraction of them, between zero and one, and appears only when no rule is unreviewed.
\<close>

theorem coverage_accounts:
  assumes "coverage rt as ctx = Inr m"
  shows "sum_list (map snd (mc_counts m)) = length (pp_rules (ctx_profile ctx))
    \<and> mc_applicable m + mc_unresolved m \<le> length (pp_rules (ctx_profile ctx))
    \<and> mc_covered m \<le> mc_applicable m
    \<and> (\<forall>q. mc_coverage m = Some q \<longrightarrow>
         mc_unresolved m = 0 \<and> 0 < mc_applicable m
         \<and> half_ulp q (of_nat (mc_covered m) / of_nat (mc_applicable m))
         \<and> 0 \<le> (dval q :: rat) \<and> dval q \<le> (1 :: rat))"
proof -
  let ?rules = "pp_rules (ctx_profile ctx)"
  let ?due = "filter (\<lambda>r. ma_applicable r = Some True) ?rules"
  let ?open = "filter (\<lambda>r. ma_applicable r = None) ?rules"
  let ?cov = "length (filter (\<lambda>r. rule_status as r \<in> {Valid, Not_Meaningful}) ?due)"
  have m: "mc_counts m = map (\<lambda>s. (s, length (filter (\<lambda>r. rule_status as r = s) ?rules))) statuses"
    "mc_applicable m = length ?due" "mc_unresolved m = length ?open" "mc_covered m = ?cov"
    "mc_coverage m = (if ?due \<noteq> [] \<and> ?open = []
       then dec_div (metric_context False) (dec_of_int (int ?cov)) (dec_of_int (int (length ?due))) else None)"
    using assms by (auto simp: coverage_def Let_def split: if_splits)
  have le: "?cov \<le> length ?due" by (rule length_filter_le)
  have "mc_unresolved m = 0 \<and> 0 < mc_applicable m \<and> half_ulp q (of_nat (mc_covered m) / of_nat (mc_applicable m))
      \<and> 0 \<le> (dval q :: rat) \<and> dval q \<le> (1 :: rat)" if q: "mc_coverage m = Some q" for q
  proof -
    from q have d: "?due \<noteq> []" "?open = []"
      "dec_div (metric_context False) (dec_of_int (int ?cov)) (dec_of_int (int (length ?due))) = Some q"
      unfolding m(5) by (auto split: if_splits)
    from metric_quotient[OF d(3)] have h: "half_ulp q (of_nat ?cov / of_nat (length ?due))" by simp
    have "(of_nat ?cov / of_nat (length ?due) :: rat) \<le> 1" using le d(1) by (simp add: divide_le_eq)
    from half_ulp_unit[OF h _ this] h d(1,2) show ?thesis by (simp add: m(2-4))
  qed
  moreover have "length ?due + length ?open \<le> length ?rules" by (rule disjoint_filters) auto
  moreover have "sum_list (map snd (mc_counts m)) = length ?rules"
    unfolding m(1) map_map comp_def snd_conv by (rule counts_total)
  ultimately show ?thesis using le m(2-4) by simp
qed

theorem coverage_accounts_witness:
  "\<exists>m. coverage sample_rt [sample_assessment [fcf_rule]] (sample_context [fcf_rule]) = Inr m
     \<and> sum_list (map snd (mc_counts m)) = 1 \<and> mc_covered m \<le> mc_applicable m"
proof -
  have r: "pp_rules (ctx_profile (sample_context [fcf_rule])) = [fcf_rule]" by (simp add: sample_context_def)
  have "metric_of (sample_assessment [fcf_rule]) = ''free_cash_flow_ppe''" by (simp add: metric_of_def sample_fcf_calculation del: One_nat_def)
  then obtain m where m: "coverage sample_rt [sample_assessment [fcf_rule]] (sample_context [fcf_rule]) = Inr m"
    using sample_checked[of "[fcf_rule]"] by (auto simp: coverage_def Let_def r simp del: One_nat_def)
  from coverage_accounts[OF m] m show ?thesis by (simp add: r)
qed

section \<open>Review items\<close>

lemma first_of_topic_set: "set (first_of_topic seen obs) \<subseteq> set obs"
  by (induction obs arbitrary: seen) auto

lemma first_of_topic_sorted: "sorted_wrt R obs \<Longrightarrow> sorted_wrt R (first_of_topic seen obs)"
  using first_of_topic_set by (induction obs arbitrary: seen) fastforce+

lemma first_of_topic_distinct:
  "distinct (map ob_topic (first_of_topic seen obs)) \<and> (\<forall>ob\<in>set (first_of_topic seen obs). ob_topic ob \<notin> set seen)"
  by (induction obs arbitrary: seen) (auto, fastforce+)

lemma related_subset: "set (related cs topic) \<subseteq> \<Union> ((set \<circ> ob_metrics) ` set cs)"
proof
  fix a
  assume "a \<in> set (related cs topic)"
  then obtain k where "map_of (rev (map (\<lambda>a. (metric_of a, a)) (concat (map ob_metrics (filter (\<lambda>ob. ob_topic ob = topic) cs))))) k = Some a"
    by (auto simp: related_def Let_def map_filter_def)
  from map_of_SomeD[OF this] show "a \<in> \<Union> ((set \<circ> ob_metrics) ` set cs)" by auto
qed

lemma mk_observation_metrics [simp]: "ob_metrics (mk_observation d ms) = ms"
  by (simp add: mk_observation_def split: prod.splits)

lemma observe_metrics: "observe a = Some ob \<Longrightarrow> ob_metrics ob = [a]"
  by (auto simp: observe_def bind_eq_Some_conv split: if_splits)

lemma data_candidate_metrics: "data_candidate a = Some ob \<Longrightarrow> ob_metrics ob = [a] \<and> ob_category ob = ''data''"
  by (auto simp: data_candidate_def mk_observation_def split: if_splits)

text \<open>
  The review has at most three items, of different topics, data questions before cash before
  operations; every linked assessment is one of those given; and whenever a metric is unusable the first
  item is a data question.
\<close>

theorem review_items_bounded:
  assumes "review_items rt as = Inr items"
  shows "length items \<le> 3 \<and> distinct (map ob_topic items)
    \<and> sorted (map (\<lambda>ob. priority (ob_category ob)) items)
    \<and> (\<forall>ob\<in>set items. set (ob_metrics ob) \<subseteq> set as)
    \<and> ((\<exists>a\<in>set as. \<not> usable a) \<longrightarrow> items \<noteq> [] \<and> ob_category (hd items) = ''data'')"
proof -
  obtain facts where facts: "observations rt as = Inr facts" using assms by (auto simp: review_items_def split: sum.splits)
  define cs where "cs = filter (\<lambda>ob. ob_rule ob \<noteq> ''revenue_grew'' \<and> ob_rule ob \<noteq> ''revenue_unchanged'') facts
    @ List.map_filter data_candidate as"
  define firsts where "firsts = first_of_topic [] (sort_key candidate_key cs)"
  have items: "items = take 3 (map (\<lambda>ob. ob\<lparr>ob_metrics := related cs (ob_topic ob)\<rparr>) firsts)"
    using assms by (simp add: review_items_def facts Let_def cs_def firsts_def)
  have facts_set: "set facts \<subseteq> {ob. \<exists>a\<in>set as. observe a = Some ob}"
    using facts by (auto simp: observations_def set_map_filter split: if_splits)
  have cs_metrics: "\<Union> ((set \<circ> ob_metrics) ` set cs) \<subseteq> set as"
    using facts_set by (fastforce simp: cs_def set_map_filter dest!: observe_metrics data_candidate_metrics)
  have "sorted (map candidate_key (sort_key candidate_key cs))" by simp
  then have "sorted_wrt (\<lambda>a b. priority (ob_category a) \<le> priority (ob_category b)) (sort_key candidate_key cs)"
    unfolding sorted_map by (rule sorted_wrt_mono_rel[rotated]) (auto simp: candidate_key_def less_eq_prod_def)
  note srt = first_of_topic_sorted[OF this, of "[]", folded firsts_def]
  have "sorted (map (\<lambda>ob. priority (ob_category ob)) items)"
    unfolding items take_map map_map comp_def using sorted_wrt_take[OF srt, of 3] by (simp add: sorted_map)
  moreover have "distinct (map ob_topic items)"
    using first_of_topic_distinct[of "[]" "sort_key candidate_key cs"]
    by (simp add: items take_map comp_def firsts_def distinct_take flip: take_map)
  moreover have "\<forall>ob\<in>set items. set (ob_metrics ob) \<subseteq> set as"
    using related_subset cs_metrics by (fastforce simp: items dest!: in_set_takeD)
  moreover have "items \<noteq> [] \<and> ob_category (hd items) = ''data''" if ex: "\<exists>a\<in>set as. \<not> usable a"
  proof -
    obtain a ob where "a \<in> set as" "data_candidate a = Some ob" using ex by (auto simp: data_candidate_def)
    then have ob: "ob \<in> set cs" "ob_category ob = ''data''"
      using data_candidate_metrics by (auto simp: cs_def set_map_filter)
    obtain h t where ht: "sort_key candidate_key cs = h # t"
      using ob(1) by (metis list.exhaust list.set(1) set_sort empty_iff)
    have "candidate_key h \<le> candidate_key ob"
      using ob(1) ht by (metis set_sort set_ConsD sorted_sort_key list.simps(9) sorted_simps(2) imageI list.set_map order_refl)
    then have "priority (ob_category h) = 0" using ob(2) by (auto simp: candidate_key_def less_eq_prod_def priority_def)
    then have "ob_category h = ''data''" by (simp add: priority_def split: if_splits)
    then show ?thesis by (simp add: items firsts_def ht)
  qed
  ultimately show ?thesis by (simp add: items)
qed

theorem review_items_bounded_witness:
  "\<exists>items. review_items sample_rt [sample_assessment []] = Inr items \<and> items \<noteq> [] \<and> ob_category (hd items) = ''data''"
proof -
  obtain facts where f: "observations sample_rt [sample_assessment []] = Inr facts"
    using sample_checked[of "[]"] by (simp add: observations_def del: One_nat_def)
  obtain items where i: "review_items sample_rt [sample_assessment []] = Inr items"
    unfolding review_items_def f sum.case Let_def by blast
  have "\<not> usable (sample_assessment [])" by (simp add: usable_def rule_of_def sample_context_def)
  with review_items_bounded[OF i] i show ?thesis by simp
qed

end
