(* ===== verification/Sectors.thy ===== *)
theory Sectors
  imports Company History
begin

text \<open>
  \<open>packages/core/sectors.py\<close> (without its histogram): one metric aggregated over the declared
  roster of a sector.  The loop over the selected companies is a fold of \<open>sector_step\<close> over a
  record of what it accumulates; the two \<open>try\<close> blocks are functions that return what had been
  assigned when an exception stopped them.
\<close>

section \<open>Data\<close>

datatype sector_field = Market_Cap | Common_Income | Revenue | Prior_Revenue | Operating_Income | Fcf

record company_snapshot =
  cs_issuer :: string
  cs_snapshot :: string
  cs_context :: string
  cs_applicable :: "string list"
  cs_market_cap :: evidence_value
  cs_prior_market_cap :: evidence_value
  cs_common_income :: evidence_value
  cs_revenue :: evidence_value
  cs_prior_revenue :: evidence_value
  cs_operating_income :: evidence_value
  cs_fcf :: evidence_value
  cs_metrics :: "company_metric list"

text \<open>\<open>getattr(company, field)\<close>.\<close>

fun field_evidence :: "sector_field \<Rightarrow> company_snapshot \<Rightarrow> evidence_value" where
  "field_evidence Market_Cap c = cs_market_cap c"
| "field_evidence Common_Income c = cs_common_income c"
| "field_evidence Revenue c = cs_revenue c"
| "field_evidence Prior_Revenue c = cs_prior_revenue c"
| "field_evidence Operating_Income c = cs_operating_income c"
| "field_evidence Fcf c = cs_fcf c"

fun field_name :: "sector_field \<Rightarrow> string" where
  "field_name Market_Cap = ''market_cap''"
| "field_name Common_Income = ''common_income''"
| "field_name Revenue = ''revenue''"
| "field_name Prior_Revenue = ''prior_revenue''"
| "field_name Operating_Income = ''operating_income''"
| "field_name Fcf = ''fcf''"

record sector_roster =
  sr_issuers :: "string list"
  sr_context :: string
  sr_complete :: bool
  sr_date :: date
  sr_hash :: string
  sr_refs :: "string list"
  sr_prior_date :: "date option"

definition mk_roster :: "sector_roster \<Rightarrow> sector_roster result" where
  "mk_roster r =
     guard_value
       (list_all nonblank (sr_issuers r) \<and> nonblank (sr_context r) \<and> nonblank (sr_hash r)
        \<and> sr_refs r \<noteq> [] \<and> list_all nonblank (sr_refs r)
        \<and> (case sr_prior_date r of None \<Rightarrow> True | Some d \<Rightarrow> d < sr_date r))
       r"

record sector_policy =
  sp_minimum :: int
  sp_issuer_coverage :: dec
  sp_cap_coverage :: dec
  sp_revision :: string

definition unit_fraction :: "dec \<Rightarrow> bool" where
  "unit_fraction d = (dec_le dec_zero d \<and> dec_le d (dec_of_int 1))"

definition mk_policy :: "sector_policy \<Rightarrow> sector_policy result" where
  "mk_policy p =
     guard_value
       (1 \<le> sp_minimum p \<and> unit_fraction (sp_issuer_coverage p) \<and> unit_fraction (sp_cap_coverage p)
        \<and> nonblank (sp_revision p))
       p"

record company_observation =
  co_issuer :: string
  co_snapshot :: string
  co_value :: dec
  co_hash :: string

type_synonym exclusion = "string \<times> flag list"

datatype sector_method = Total | Median | Mean

fun method_name :: "sector_method \<Rightarrow> string" where
  "method_name Total = ''total''"
| "method_name Median = ''median''"
| "method_name Mean = ''mean''"

record sector_metric =
  sm_metric :: string
  sm_method :: sector_method
  sm_value :: "dec option"
  sm_numerator :: "dec option"
  sm_denominator :: "dec option"
  sm_n :: nat
  sm_k :: nat
  sm_v :: nat
  sm_issuer_coverage :: "dec option"
  sm_cap_coverage :: "dec option"
  sm_ratio_eligibility :: "dec option"
  sm_meaningful :: nat
  sm_full_cap :: "dec option"
  sm_contributing_cap :: "dec option"
  sm_eligible :: "string list"
  sm_contributing :: "string list"
  sm_excluded :: "exclusion list"
  sm_distribution_excluded :: "exclusion list"
  sm_distribution :: "company_observation list"
  sm_p25 :: "dec option"
  sm_p50 :: "dec option"
  sm_p75 :: "dec option"
  sm_positive :: nat
  sm_zero :: nat
  sm_negative :: nat
  sm_sign_basis :: string
  sm_zero_denominators :: nat
  sm_allowed :: bool
  sm_flags :: "flag list"
  sm_financial_dates :: "(date \<times> date) option"
  sm_quote_dates :: "(date \<times> date) option"
  sm_context :: string
  sm_cohort :: string
  sm_policy_revision :: string
  sm_roster :: sector_roster
  sm_companies :: "company_snapshot list"

section \<open>Arithmetic\<close>

definition sum_all :: "dec list \<Rightarrow> dec option" where
  "sum_all vs = (if vs = [] then Some dec_zero else exact_sum vs (replicate (length vs) 1))"

definition fraction :: "dec \<Rightarrow> dec \<Rightarrow> dec option" where
  "fraction a b = dec_div (metric_context False) a b"

abbreviation dec_of_nat :: "nat \<Rightarrow> dec" where
  "dec_of_nat n \<equiv> dec_of_int (int n)"

text \<open>Numbers of evidence that has passed its checks.\<close>

definition ev_number :: "evidence_value \<Rightarrow> dec" where
  "ev_number e = (case ev_value e of Some (Finite d) \<Rightarrow> d | _ \<Rightarrow> dec_zero)"

definition ev_uncertainty :: "evidence_value \<Rightarrow> dec" where
  "ev_uncertainty e = (case ev_error e of Some (Finite d) \<Rightarrow> d | _ \<Rightarrow> dec_zero)"

section \<open>Selecting the snapshots\<close>

definition same_metric :: "company_metric \<Rightarrow> company_metric \<Rightarrow> bool" where
  "same_metric a b =
     (cm_id a = cm_id b \<and> rel_option decimal_eq (cm_value a) (cm_value b) \<and> cm_hash a = cm_hash b
      \<and> cm_operand_hashes a = cm_operand_hashes b \<and> cm_usable a = cm_usable b \<and> cm_flags a = cm_flags b)"

definition same_snapshot :: "company_snapshot \<Rightarrow> company_snapshot \<Rightarrow> bool" where
  "same_snapshot a b =
     (cs_issuer a = cs_issuer b \<and> cs_snapshot a = cs_snapshot b \<and> cs_context a = cs_context b
      \<and> cs_applicable a = cs_applicable b
      \<and> list_all (\<lambda>f. same_evidence (f a) (f b))
          [cs_market_cap, cs_prior_market_cap, cs_common_income, cs_revenue, cs_prior_revenue, cs_operating_income, cs_fcf]
      \<and> list_all2 same_metric (cs_metrics a) (cs_metrics b))"

text \<open>The first match equals itself, so only the others are compared with it.\<close>

definition classify_issuer ::
  "sector_roster \<Rightarrow> company_snapshot list \<Rightarrow> string \<Rightarrow> flag list + company_snapshot" where
  "classify_issuer roster companies issuer =
     (case filter (\<lambda>c. cs_issuer c = issuer) companies of
        [] \<Rightarrow> Inl [''company_snapshot_missing'']
      | c # rest \<Rightarrow>
          if list_ex (\<lambda>d. \<not> same_snapshot d c) rest then Inl [''conflicting_issuer_snapshots'']
          else if cs_snapshot c = [] \<or> cs_context c \<noteq> sr_context roster then Inl [''company_context_mismatch'']
          else Inr c)"

definition selected_companies ::
  "sector_roster \<Rightarrow> company_snapshot list \<Rightarrow> (string \<times> company_snapshot) list" where
  "selected_companies roster companies =
     List.map_filter (\<lambda>i. case classify_issuer roster companies i of Inl _ \<Rightarrow> None | Inr c \<Rightarrow> Some (i, c))
       (sorted_set (sr_issuers roster))"

definition rejected_issuers :: "sector_roster \<Rightarrow> company_snapshot list \<Rightarrow> exclusion list" where
  "rejected_issuers roster companies =
     List.map_filter (\<lambda>i. case classify_issuer roster companies i of Inl rs \<Rightarrow> Some (i, rs) | Inr _ \<Rightarrow> None)
       (sorted_set (sr_issuers roster))"

definition cap_of :: "sector_roster \<Rightarrow> bool \<Rightarrow> company_snapshot \<Rightarrow> dec option" where
  "cap_of roster prior c =
     (let amount = (if prior then cs_prior_market_cap c else cs_market_cap c) in
      case (if prior then sr_prior_date roster else Some (sr_date roster)) of
        None \<Rightarrow> None
      | Some cutoff \<Rightarrow>
          if evidence_issues amount ''common_equity'' cutoff True False \<noteq> [] then None
          else (case ev_value amount of
                  Some (Finite d) \<Rightarrow> if dec_lt dec_zero d then Some d else None
                | _ \<Rightarrow> None))"

section \<open>Metric specifications\<close>

definition sector_metrics :: "string list" where
  "sector_metrics = [''pe'', ''ps'', ''pfcf'', ''revenue_yoy'', ''operating_margin'', ''fcf_margin'',
     ''growth_breadth'', ''profit_breadth'', ''cash_breadth'']"

record metric_spec =
  ms_fields :: "sector_field list"
  ms_numerator :: "sector_field option"
  ms_denominator :: "sector_field option"
  ms_company_metric :: "string option"

definition metric_pairs :: "(string \<times> sector_field \<times> sector_field) list" where
  "metric_pairs =
     [(''pe'', Market_Cap, Common_Income), (''ps'', Market_Cap, Revenue), (''pfcf'', Market_Cap, Fcf),
      (''operating_margin'', Operating_Income, Revenue), (''fcf_margin'', Fcf, Revenue),
      (''revenue_yoy'', Revenue, Prior_Revenue), (''growth_breadth'', Revenue, Prior_Revenue)]"

definition spec_of :: "string \<Rightarrow> metric_spec" where
  "spec_of metric =
     (case map_of metric_pairs metric of
        Some (a, b) \<Rightarrow>
          \<lparr>ms_fields = [a, b], ms_numerator = Some a, ms_denominator = Some b,
           ms_company_metric = Some (if metric = ''growth_breadth'' then ''revenue_yoy'' else metric)\<rparr>
      | None \<Rightarrow>
          \<lparr>ms_fields = [if metric = ''profit_breadth'' then Common_Income else Fcf], ms_numerator = None,
           ms_denominator = None, ms_company_metric = None\<rparr>)"

fun field_basis :: "sector_field \<Rightarrow> string" where
  "field_basis Market_Cap = ''common_equity''"
| "field_basis Common_Income = ''income_available_common''"
| "field_basis Fcf = ''cash_ppe_fcf''"
| "field_basis _ = ''consolidated_flow''"

text \<open>The issues of the fields, in order; the sign of the capitalization is tested only while there are none.\<close>

fun field_issues ::
  "sector_roster \<Rightarrow> sector_field option \<Rightarrow> company_snapshot \<Rightarrow> sector_field list \<Rightarrow> flag list \<Rightarrow> flag list" where
  "field_issues roster den c [] acc = acc"
| "field_issues roster den c (f # fs) acc =
     (let e = field_evidence f c;
          acc1 = acc @ evidence_issues e (field_basis f) (sr_date roster) (f = Market_Cap) (Some f = den);
          acc2 = acc1 @ flag_if (f = Market_Cap \<and> acc1 = [] \<and> dec_le (ev_number e) dec_zero) ''market_cap_nonpositive''
      in field_issues roster den c fs acc2)"

definition input_issues :: "sector_roster \<Rightarrow> string \<Rightarrow> company_snapshot \<Rightarrow> flag list" where
  "input_issues roster metric c =
     (let sp = spec_of metric;
          periods = map (\<lambda>f. (ev_start (field_evidence f c), ev_end (field_evidence f c)))
            (filter (\<lambda>f. f \<noteq> Market_Cap \<and> f \<noteq> Prior_Revenue) (ms_fields sp)) in
      sorted_set
        (field_issues roster (ms_denominator sp) c (ms_fields sp) (flag_if (metric \<notin> set (cs_applicable c)) ''unsupported_profile'')
         @ flag_if (1 < length (remdups periods)) ''incompatible_periods''))"

definition find_company_metric ::
  "company_snapshot \<Rightarrow> string \<Rightarrow> sector_field list \<Rightarrow> flag list + company_observation" where
  "find_company_metric c metric fs =
     (case filter (\<lambda>m. cm_id m = metric) (cs_metrics c) of
        [m] \<Rightarrow>
          if cm_operand_hashes m \<noteq> map (\<lambda>f. ev_hash (field_evidence f c)) fs
          then Inl [''company_metric_input_mismatch'']
          else
            let reasons0 = concerning (cm_flags m)
                  @ flag_if (\<not> cm_usable m \<or> \<not> numeric (cm_value m) \<or> \<not> sha256_text (cm_hash m))
                      ''company_metric_unavailable'';
                reasons = reasons0
                  @ flag_if (reasons0 = [] \<and> metric \<in> {''pe'', ''ps'', ''pfcf''}
                      \<and> number_test (\<lambda>d. dec_le d dec_zero) (cm_value m)) ''company_multiple_nonpositive'' in
            (case (reasons, cm_value m) of
               ([], Some (Finite d)) \<Rightarrow>
                 Inr \<lparr>co_issuer = cs_issuer c, co_snapshot = cs_snapshot c, co_value = d, co_hash = cm_hash m\<rparr>
             | _ \<Rightarrow> Inl (sorted_set reasons))
      | _ \<Rightarrow> Inl [''company_metric_not_unique''])"

text \<open>The company's own ratio, when the metric has one; \<open>Inr None\<close> when it has none.\<close>

definition company_ratio :: "string \<Rightarrow> company_snapshot \<Rightarrow> flag list + company_observation option" where
  "company_ratio metric c =
     (let sp = spec_of metric in
      case ms_company_metric sp of
        None \<Rightarrow> Inr None
      | Some cm \<Rightarrow>
          (case ms_denominator sp of
             None \<Rightarrow> map_sum id Some (find_company_metric c cm (ms_fields sp))
           | Some den \<Rightarrow>
               let e = field_evidence den c in
               if dec_le (ev_number e) dec_zero then Inl [''company_denominator_nonpositive'']
               else if dec_le (ev_number e) (ev_uncertainty e)
               then Inl [''company_denominator_indistinguishable_from_zero'']
               else map_sum id Some (find_company_metric c cm (ms_fields sp))))"

section \<open>The loop over the companies\<close>

record sector_tally =
  t_complete :: "(string \<times> company_snapshot) list"
  t_contributions :: "(string \<times> company_snapshot) list"
  t_excluded :: "exclusion list"
  t_distribution_excluded :: "exclusion list"
  t_distribution :: "company_observation list"
  t_flags :: "flag list"
  t_positive :: nat
  t_zero :: nat
  t_negative :: nat
  t_zero_denominators :: nat

definition margin_metric :: "string \<Rightarrow> bool" where
  "margin_metric metric = (metric = ''operating_margin'' \<or> metric = ''fcf_margin'')"

definition growth_metric :: "string \<Rightarrow> bool" where
  "growth_metric metric = (metric = ''revenue_yoy'' \<or> metric = ''growth_breadth'')"

definition breadth_metric :: "string \<Rightarrow> bool" where
  "breadth_metric metric = (metric \<in> {''profit_breadth'', ''cash_breadth'', ''growth_breadth''})"

definition sign_field :: "string \<Rightarrow> sector_field" where
  "sign_field metric =
     (let sp = spec_of metric in
      if margin_metric metric then (case ms_numerator sp of Some f \<Rightarrow> f | None \<Rightarrow> hd (ms_fields sp))
      else (case ms_denominator sp of Some f \<Rightarrow> f | None \<Rightarrow> hd (ms_fields sp)))"

definition sign_basis :: "string \<Rightarrow> string" where
  "sign_basis metric = (if growth_metric metric then ''revenue_yoy'' else field_name (sign_field metric))"

definition of_bool_nat :: "bool \<Rightarrow> nat" where
  "of_bool_nat b = (if b then 1 else 0)"

definition count_sign :: "dec \<Rightarrow> sector_tally \<Rightarrow> sector_tally" where
  "count_sign v t =
     t\<lparr>t_positive := t_positive t + of_bool_nat (dec_lt dec_zero v),
       t_zero := t_zero t + of_bool_nat (dec_eq v dec_zero),
       t_negative := t_negative t + of_bool_nat (dec_lt v dec_zero)\<rparr>"

definition note_complete :: "string \<Rightarrow> string \<Rightarrow> company_snapshot \<Rightarrow> sector_tally \<Rightarrow> sector_tally" where
  "note_complete metric issuer c t =
     (let sp = spec_of metric in
      t\<lparr>t_complete := t_complete t @ [(issuer, c)],
        t_flags := t_flags t @ filter (\<lambda>f. f \<in> set informational)
          (concat (map (\<lambda>f. ev_flags (field_evidence f c)) (ms_fields sp))),
        t_zero_denominators := t_zero_denominators t
          + (case ms_denominator sp of
               None \<Rightarrow> 0
             | Some den \<Rightarrow> of_bool_nat (dec_eq (ev_number (field_evidence den c)) dec_zero))\<rparr>)"

definition sector_step ::
  "sector_roster \<Rightarrow> string \<Rightarrow> sector_method \<Rightarrow> string \<times> company_snapshot \<Rightarrow> sector_tally \<Rightarrow> sector_tally" where
  "sector_step roster metric method entry t =
     (case entry of (issuer, c) \<Rightarrow>
        let found = input_issues roster metric c in
        if found \<noteq> [] then
          t\<lparr>t_excluded := t_excluded t @ [(issuer, found)],
            t_distribution_excluded := t_distribution_excluded t @ [(issuer, found)]\<rparr>
        else
          let t1 = note_complete metric issuer c t in
          (case company_ratio metric c of
             Inr None \<Rightarrow>
               (count_sign (ev_number (field_evidence (sign_field metric) c)) t1)
                 \<lparr>t_contributions := t_contributions t1 @ [(issuer, c)]\<rparr>
           | Inr (Some ob) \<Rightarrow>
               let t2 = t1\<lparr>t_distribution := t_distribution t1 @ [ob]\<rparr>;
                   v = (if growth_metric metric then co_value ob
                        else ev_number (field_evidence (sign_field metric) c)) in
               (count_sign v t2)\<lparr>t_contributions := t_contributions t2 @ [(issuer, c)]\<rparr>
           | Inl reasons \<Rightarrow>
               let t2 = t1\<lparr>t_distribution_excluded := t_distribution_excluded t1 @ [(issuer, reasons)]\<rparr> in
               if growth_metric metric then t2\<lparr>t_excluded := t_excluded t2 @ [(issuer, reasons)]\<rparr>
               else
                 let t3 = count_sign (ev_number (field_evidence (sign_field metric) c)) t2 in
                 if method = Total then t3\<lparr>t_contributions := t_contributions t3 @ [(issuer, c)]\<rparr>
                 else t3\<lparr>t_excluded := t_excluded t3 @ [(issuer, reasons)]\<rparr>))"

definition sector_tally_of ::
  "sector_roster \<Rightarrow> company_snapshot list \<Rightarrow> string \<Rightarrow> sector_method \<Rightarrow> sector_tally" where
  "sector_tally_of roster companies metric method =
     fold (sector_step roster metric method) (selected_companies roster companies)
       \<lparr>t_complete = [], t_contributions = [], t_excluded = rejected_issuers roster companies,
        t_distribution_excluded = rejected_issuers roster companies, t_distribution = [], t_flags = [],
        t_positive = 0, t_zero = 0, t_negative = 0, t_zero_denominators = 0\<rparr>"

section \<open>The figures\<close>

text \<open>
  What the first \<open>try\<close> block has assigned when it ends or is stopped: \<open>fg_stopped\<close> says
  that an exception stopped it, which clears the value and raises a flag.
\<close>

record sector_figures =
  fg_value :: "dec option"
  fg_numerator :: "dec option"
  fg_denominator :: "dec option"
  fg_flags :: "flag list"
  fg_stopped :: bool

definition figures :: "dec option \<Rightarrow> dec option \<Rightarrow> dec option \<Rightarrow> flag list \<Rightarrow> bool \<Rightarrow> sector_figures" where
  "figures v n d fls stopped =
     \<lparr>fg_value = v, fg_numerator = n, fg_denominator = d, fg_flags = fls, fg_stopped = stopped\<rparr>"

text \<open>The fraction of two totals that are already assigned.\<close>

definition ratio_figures :: "dec \<Rightarrow> dec \<Rightarrow> dec \<Rightarrow> sector_figures" where
  "ratio_figures dividend n d =
     (case fraction dividend d of
        None \<Rightarrow> figures None (Some n) (Some d) [] True
      | Some q \<Rightarrow> figures (Some q) (Some n) (Some d) [] False)"

definition total_figures ::
  "string \<Rightarrow> sector_field \<Rightarrow> sector_field \<Rightarrow> company_snapshot list \<Rightarrow> sector_figures" where
  "total_figures metric num den cs =
     (case sum_all (map (\<lambda>c. ev_number (field_evidence num c)) cs) of
        None \<Rightarrow> figures None None None [] True
      | Some n \<Rightarrow>
          (case sum_all (map (\<lambda>c. ev_number (field_evidence den c)) cs) of
             None \<Rightarrow> figures None (Some n) None [] True
           | Some d \<Rightarrow>
               (case sum_all (map (\<lambda>c. ev_uncertainty (field_evidence den c)) cs) of
                  None \<Rightarrow> figures None (Some n) (Some d) [] True
                | Some err \<Rightarrow>
                    if dec_le d dec_zero then figures None (Some n) (Some d) [''denominator_nonpositive''] False
                    else if dec_le d err
                    then figures None (Some n) (Some d) [''denominator_indistinguishable_from_zero''] False
                    else
                      (case (if metric = ''revenue_yoy'' then exact_sum [n, d] [1, - 1] else Some n) of
                         None \<Rightarrow> figures None (Some n) (Some d) [] True
                       | Some dividend \<Rightarrow> ratio_figures dividend n d))))"

definition value_figures ::
  "string \<Rightarrow> sector_method \<Rightarrow> sector_tally \<Rightarrow> dec list \<Rightarrow> dec option \<Rightarrow> sector_figures" where
  "value_figures metric method t vs p50 =
     (let v = length (t_contributions t); sp = spec_of metric in
      if v = 0 then figures None None None [''no_contributors''] False
      else if breadth_metric metric then
        ratio_figures (dec_of_nat (t_positive t)) (dec_of_nat (t_positive t)) (dec_of_nat v)
      else
        (case method of
           Median \<Rightarrow> figures p50 None None [] False
         | Mean \<Rightarrow>
             (case sum_all vs of
                None \<Rightarrow> figures None None None [] True
              | Some s \<Rightarrow> ratio_figures s s (dec_of_nat v))
         | Total \<Rightarrow>
             (case (ms_numerator sp, ms_denominator sp) of
                (Some num, Some den) \<Rightarrow> total_figures metric num den (map snd (t_contributions t))
              | _ \<Rightarrow> figures None None None [] True)))"

text \<open>The three quartiles are assigned together or not at all.\<close>

definition quartiles :: "dec list \<Rightarrow> (dec option \<times> dec option \<times> dec option) option" where
  "quartiles vs =
     (if vs = [] then Some (None, None, None)
      else
        (case (quantile vs dec_25, quantile vs dec_5, quantile vs dec_75) of
           (Some a, Some b, Some c) \<Rightarrow> Some (Some a, Some b, Some c)
         | _ \<Rightarrow> None))"

record cap_figures =
  cf_full :: "dec option"
  cf_contributing :: "dec option"
  cf_coverage :: "dec option"
  cf_issuer_coverage :: "dec option"
  cf_eligibility :: "dec option"
  cf_flags :: "flag list"

definition cap_totals ::
  "sector_roster \<Rightarrow> (string \<times> company_snapshot) list \<Rightarrow> string list \<Rightarrow> nat
     \<Rightarrow> (dec option \<times> dec option \<times> dec option \<times> flag list) \<times> bool" where
  "cap_totals roster selected contributing n =
     (let caps = map (\<lambda>(i, c). (i, cap_of roster False c)) selected in
      if 0 < n \<and> length caps = n \<and> list_all (\<lambda>(i, c). c \<noteq> None) caps then
        (case sum_all (List.map_filter snd caps) of
           None \<Rightarrow> ((None, None, None, []), True)
         | Some full \<Rightarrow>
             (case sum_all (List.map_filter snd (filter (\<lambda>(i, c). i \<in> set contributing) caps)) of
                None \<Rightarrow> ((Some full, None, None, []), True)
              | Some part \<Rightarrow>
                  (case fraction part full of
                     None \<Rightarrow> ((Some full, Some part, None, []), True)
                   | Some q \<Rightarrow> ((Some full, Some part, Some q, []), False))))
      else ((None, None, None, [''full_capitalization_unknown'']), False))"

definition coverage_figures ::
  "sector_roster \<Rightarrow> (string \<times> company_snapshot) list \<Rightarrow> string \<Rightarrow> sector_tally \<Rightarrow> nat \<Rightarrow> cap_figures" where
  "coverage_figures roster selected metric t n =
     (case cap_totals roster selected (map fst (t_contributions t)) n of
        ((full, part, cover, fls), stopped) \<Rightarrow>
          let k = length (t_complete t);
              issuer = (if n = 0 then Some None else map_option Some (fraction (dec_of_nat k) (dec_of_nat n)));
              eligible = (if 0 < k \<and> ms_company_metric (spec_of metric) \<noteq> None
                          then map_option Some (fraction (dec_of_nat (length (t_distribution t))) (dec_of_nat k))
                          else Some None) in
          (case (stopped, issuer, eligible) of
             (False, Some a, Some b) \<Rightarrow>
               \<lparr>cf_full = full, cf_contributing = part, cf_coverage = cover, cf_issuer_coverage = a,
                cf_eligibility = b, cf_flags = fls\<rparr>
           | _ \<Rightarrow>
               \<lparr>cf_full = full, cf_contributing = part, cf_coverage = cover, cf_issuer_coverage = None,
                cf_eligibility = None, cf_flags = fls @ [''unsupported_numeric_range'']\<rparr>))"

section \<open>The sector metric\<close>

definition date_range :: "date list \<Rightarrow> (date \<times> date) option" where
  "date_range ds = (if ds = [] then None else Some (Min (set ds), Max (set ds)))"

definition joined :: "string list \<Rightarrow> string" where
  "joined parts = (case parts of [] \<Rightarrow> [] | p # ps \<Rightarrow> p @ concat (map (\<lambda>q. CHR ''|'' # q) ps))"

definition cohort_text :: "sector_roster \<Rightarrow> string \<Rightarrow> sector_method \<Rightarrow> (string \<times> company_snapshot) list \<Rightarrow> string" where
  "cohort_text roster metric method contributions =
     joined ([sr_hash roster, metric, method_name method]
       @ map (\<lambda>(i, c). i @ '':'' @ cs_snapshot c) contributions)"

definition at_least :: "dec option \<Rightarrow> dec \<Rightarrow> bool" where
  "at_least v bound = (case v of None \<Rightarrow> False | Some d \<Rightarrow> dec_le bound d)"

definition calculate_sector ::
  "runtime \<Rightarrow> sector_roster \<Rightarrow> company_snapshot list \<Rightarrow> string \<Rightarrow> sector_method \<Rightarrow> sector_policy
     \<Rightarrow> sector_metric result" where
  "calculate_sector rt roster companies metric method policy =
     (if metric \<notin> set sector_metrics then Inl ValueError
      else
        let sp = spec_of metric;
            selected = selected_companies roster companies;
            t = sector_tally_of roster companies metric method;
            n = length (remdups (sr_issuers roster)); k = length (t_complete t); v = length (t_contributions t);
            vs = dec_sort (map co_value (t_distribution t));
            (p25, p50, p75) = (case quartiles vs of None \<Rightarrow> (None, None, None) | Some q \<Rightarrow> q);
            fg = (case quartiles vs of
                    None \<Rightarrow> figures None None None [] True
                  | Some q \<Rightarrow> value_figures metric method t vs (fst (snd q)));
            cf = coverage_figures roster selected metric t n;
            gate = (sr_complete roster \<and> fg_value fg \<noteq> None \<and> sp_minimum policy \<le> int v
                    \<and> at_least (cf_issuer_coverage cf) (sp_issuer_coverage policy)
                    \<and> at_least (cf_coverage cf) (sp_cap_coverage policy));
            contributors = map snd (t_contributions t);
            finance_dates = List.map_filter id (concat (map (\<lambda>c. map (\<lambda>f. ev_end (field_evidence f c))
              (filter (\<lambda>f. f \<noteq> Market_Cap) (ms_fields sp))) contributors));
            quote_dates = List.map_filter (\<lambda>c. ev_end (cs_market_cap c)) contributors in
        Inr \<lparr>sm_metric = metric, sm_method = method, sm_value = fg_value fg, sm_numerator = fg_numerator fg,
          sm_denominator = fg_denominator fg, sm_n = n, sm_k = k, sm_v = v,
          sm_issuer_coverage = cf_issuer_coverage cf, sm_cap_coverage = cf_coverage cf,
          sm_ratio_eligibility = cf_eligibility cf, sm_meaningful = length (t_distribution t),
          sm_full_cap = cf_full cf, sm_contributing_cap = cf_contributing cf,
          sm_eligible = map fst (t_complete t), sm_contributing = map fst (t_contributions t),
          sm_excluded = sort_key fst (t_excluded t),
          sm_distribution_excluded = sort_key fst (t_distribution_excluded t),
          sm_distribution = sort_key (\<lambda>ob. (dval (co_value ob) :: rat, co_issuer ob)) (t_distribution t),
          sm_p25 = p25, sm_p50 = p50, sm_p75 = p75,
          sm_positive = t_positive t, sm_zero = t_zero t, sm_negative = t_negative t,
          sm_sign_basis = sign_basis metric, sm_zero_denominators = t_zero_denominators t, sm_allowed = gate,
          sm_flags = sorted_set (t_flags t @ fg_flags fg @ cf_flags cf
            @ flag_if (fg_stopped fg) ''unsupported_numeric_range''
            @ flag_if (int v < sp_minimum policy) ''small_sample''
            @ flag_if (\<not> sr_complete roster) ''partial_sector_universe''
            @ flag_if (\<not> gate) ''limited_coverage''),
          sm_financial_dates = date_range finance_dates, sm_quote_dates = date_range quote_dates,
          sm_context = sr_context roster, sm_cohort = sha256_hex rt (cohort_text roster metric method (t_contributions t)),
          sm_policy_revision = sp_revision policy, sm_roster = roster, sm_companies = companies\<rparr>)"

section \<open>Concentration\<close>

record concentration =
  cn_current :: "string list option"
  cn_prior :: "string list option"
  cn_share :: "dec option"
  cn_current_cap :: "dec option"
  cn_full_cap :: "dec option"
  cn_growth :: "sector_metric option"
  cn_current_date :: date
  cn_prior_date :: "date option"
  cn_flags :: "flag list"
  cn_roster :: sector_roster
  cn_companies :: "company_snapshot list"

text \<open>Largest first, ties by issuer; \<open>None\<close> when a capitalization is unknown.\<close>

definition known_caps :: "sector_roster \<Rightarrow> bool \<Rightarrow> (string \<times> company_snapshot) list \<Rightarrow> (string \<times> dec) list option" where
  "known_caps roster prior selected =
     opt_all (map (\<lambda>(i, c). map_option (Pair i) (cap_of roster prior c)) selected)"

definition top_five :: "(string \<times> dec) list \<Rightarrow> (string \<times> dec) list" where
  "top_five caps = take 5 (sort_key (\<lambda>(i, d). (- dval d :: rat, i)) caps)"

text \<open>Full capitalization, that of the leaders, and their share; \<open>None\<close> for an exception.\<close>

definition share_figures :: "(string \<times> dec) list \<Rightarrow> (dec \<times> dec \<times> dec) option" where
  "share_figures caps =
     (case (sum_all (map snd caps), sum_all (map snd (top_five caps))) of
        (Some full, Some part) \<Rightarrow> map_option (\<lambda>q. (full, part, q)) (fraction part full)
      | _ \<Rightarrow> None)"

definition without_leaders :: "runtime \<Rightarrow> sector_roster \<Rightarrow> string list \<Rightarrow> sector_roster" where
  "without_leaders rt roster leaders =
     roster\<lparr>sr_issuers := filter (\<lambda>i. i \<notin> set leaders) (sorted_set (sr_issuers roster)),
       sr_hash := sha256_hex rt (sr_hash roster @ ''|exclude-prior-top-five|'' @ joined leaders),
       sr_refs := sr_refs roster @ [''prior-top-five:''
         @ (case leaders of [] \<Rightarrow> [] | l # ls \<Rightarrow> l @ concat (map (\<lambda>q. CHR '','' # q) ls))]\<rparr>"

definition calculate_concentration ::
  "runtime \<Rightarrow> sector_roster \<Rightarrow> company_snapshot list \<Rightarrow> sector_policy \<Rightarrow> concentration" where
  "calculate_concentration rt roster companies policy =
     (let selected = selected_companies roster companies;
          eligible = (sr_complete roster \<and> sr_issuers roster \<noteq> [] \<and> rejected_issuers roster companies = []);
          current = (if eligible then known_caps roster False selected else None);
          prior = (if eligible then known_caps roster True selected else None);
          share = Option.bind current share_figures;
          leaders = map_option (\<lambda>caps. map fst (top_five caps)) prior in
      \<lparr>cn_current = (if share = None then None else map_option (\<lambda>caps. map fst (top_five caps)) current),
       cn_prior = leaders, cn_share = map_option (\<lambda>(full, part, q). q) share,
       cn_current_cap = map_option (\<lambda>(full, part, q). part) share,
       cn_full_cap = map_option (\<lambda>(full, part, q). full) share,
       cn_growth = Option.bind leaders (\<lambda>ls.
         (case calculate_sector rt (without_leaders rt roster ls) companies ''revenue_yoy'' Total policy of
            Inl _ \<Rightarrow> None | Inr m \<Rightarrow> Some m)),
       cn_current_date = sr_date roster, cn_prior_date = sr_prior_date roster,
       cn_flags = sorted_set
         (if \<not> sr_complete roster then [''partial_sector_universe'']
          else if \<not> eligible then [''current_capitalization_unknown'', ''prior_capitalization_unknown'']
          else flag_if (current = None) ''current_capitalization_unknown''
               @ flag_if (prior = None) ''prior_capitalization_unknown''
               @ flag_if (current \<noteq> None \<and> share = None) ''unsupported_numeric_range''),
       cn_roster = roster, cn_companies = companies\<rparr>)"

end
