(* ===== verification/Sector_Properties.thy ===== *)
theory Sector_Properties
  imports Sectors Company_Properties
begin

text \<open>
  Guarantees of the sector metrics: every declared issuer is accounted for exactly once, totals are exact
  before the one division, and a comparison is allowed only over a complete and sufficiently covered roster.
\<close>

section \<open>Selection\<close>

lemma mset_split_sum:
  "mset (List.map_filter (\<lambda>i. case g i of Inl r \<Rightarrow> Some i | Inr c \<Rightarrow> None) xs)
   + mset (List.map_filter (\<lambda>i. case g i of Inl r \<Rightarrow> None | Inr c \<Rightarrow> Some i) xs) = mset xs"
  by (induction xs) (auto simp: List.map_filter_simps split: sum.splits)

lemma map_fst_map_filter:
  "map fst (List.map_filter (\<lambda>i. case g i of Inl r \<Rightarrow> None | Inr c \<Rightarrow> Some (i, c)) xs)
   = List.map_filter (\<lambda>i. case g i of Inl r \<Rightarrow> None | Inr c \<Rightarrow> Some i) xs"
  "map fst (List.map_filter (\<lambda>i. case g i of Inl r \<Rightarrow> Some (i, r) | Inr c \<Rightarrow> None) xs)
   = List.map_filter (\<lambda>i. case g i of Inl r \<Rightarrow> Some i | Inr c \<Rightarrow> None) xs"
  by (induction xs) (auto simp: List.map_filter_simps split: sum.splits)

lemma selection_partition:
  "mset (map fst (rejected_issuers roster cs)) + mset (map fst (selected_companies roster cs))
     = mset (sorted_set (sr_issuers roster))"
  unfolding rejected_issuers_def selected_companies_def map_fst_map_filter by (rule mset_split_sum)

lemma classify_reasons: "classify_issuer roster cs i = Inl rs \<Longrightarrow> rs \<noteq> []"
  by (auto simp: classify_issuer_def split: list.splits if_splits)

lemma rejected_reasons: "\<forall>(i, rs)\<in>set (rejected_issuers roster cs). rs \<noteq> []"
proof clarify
  fix i
  assume "(i, []) \<in> set (rejected_issuers roster cs)"
  then obtain j where "(case classify_issuer roster cs j of Inl rs \<Rightarrow> Some (j, rs) | Inr c \<Rightarrow> None) = Some (i, [])"
    unfolding rejected_issuers_def set_map_filter by blast
  then have "classify_issuer roster cs j = Inl []" by (cases "classify_issuer roster cs j") simp_all
  then show False by (rule classify_reasons[THEN notE]) simp
qed

lemma find_company_metric_reasons: "find_company_metric c metric fs = Inl rs \<Longrightarrow> rs \<noteq> []"
  by (auto simp: find_company_metric_def Let_def numeric_def split: list.splits if_splits option.splits decimal.splits)

lemma company_ratio_reasons: "company_ratio metric c = Inl rs \<Longrightarrow> rs \<noteq> []"
  by (auto simp: company_ratio_def Let_def dest: find_company_metric_reasons split: option.splits if_splits sum.splits)
    (metis find_company_metric_reasons map_sum.simps sum.exhaust sum.inject(1) id_apply sum.distinct(1))+

section \<open>The loop\<close>

definition signs :: "sector_tally \<Rightarrow> nat" where
  "signs t = t_positive t + t_zero t + t_negative t"

definition tally_ok :: "string \<Rightarrow> sector_method \<Rightarrow> exclusion list \<Rightarrow> (string \<times> company_snapshot) list \<Rightarrow> sector_tally \<Rightarrow> bool" where
  "tally_ok metric method base processed t \<longleftrightarrow>
     mset (map fst (t_contributions t)) + mset (map fst (t_excluded t)) = mset (map fst base) + mset (map fst processed)
     \<and> set (t_contributions t) \<subseteq> set (t_complete t) \<and> set (t_complete t) \<subseteq> set processed
     \<and> length (t_contributions t) \<le> length (t_complete t) \<and> length (t_complete t) \<le> length processed
     \<and> (\<forall>(i, rs)\<in>set (t_excluded t). rs \<noteq> [])
     \<and> signs t \<le> length (t_complete t)
     \<and> length (t_contributions t) \<le> signs t
     \<and> (method = Total \<longrightarrow> signs t = length (t_contributions t))"

lemma one_sign:
  "of_bool_nat (dec_lt dec_zero v) + of_bool_nat (dec_eq v dec_zero) + of_bool_nat (dec_lt v dec_zero) = 1"
  by (auto simp: of_bool_nat_def dec_lt_iff[where 'a=rat] dec_eq_iff[where 'a=rat])

lemma signs_simps [simp]:
  "signs (count_sign v t) = Suc (signs t)" "signs (t\<lparr>t_contributions := xs\<rparr>) = signs t"
  "signs (t\<lparr>t_excluded := ys\<rparr>) = signs t" "signs (t\<lparr>t_distribution_excluded := ys\<rparr>) = signs t"
  "signs (t\<lparr>t_distribution := obs\<rparr>) = signs t" "signs (note_complete metric i c t) = signs t"
  using one_sign[of v] by (simp_all add: signs_def count_sign_def note_complete_def Let_def)

lemma count_sign_fields [simp]:
  "t_complete (count_sign v t) = t_complete t" "t_contributions (count_sign v t) = t_contributions t"
  "t_excluded (count_sign v t) = t_excluded t" "t_distribution (count_sign v t) = t_distribution t"
  by (simp_all add: count_sign_def)

lemma note_complete_fields [simp]:
  "t_complete (note_complete metric i c t) = t_complete t @ [(i, c)]"
  "t_contributions (note_complete metric i c t) = t_contributions t" "t_excluded (note_complete metric i c t) = t_excluded t"
  by (simp_all add: note_complete_def Let_def)

lemma sector_step_ok:
  assumes "tally_ok metric method base ps t"
  shows "tally_ok metric method base (ps @ [(i, c)]) (sector_step roster metric method (i, c) t)"
proof (cases "input_issues roster metric c = []")
  case False
  then show ?thesis using assms by (auto simp: tally_ok_def sector_step_def Let_def)
next
  case True
  show ?thesis
  proof (cases "company_ratio metric c")
    case (Inl rs)
    then have "rs \<noteq> []" by (rule company_ratio_reasons)
    then show ?thesis using assms True Inl
      by (cases "growth_metric metric"; cases "method = Total") (auto simp: tally_ok_def sector_step_def Let_def)
  next
    case (Inr ob)
    then show ?thesis using assms True
      by (cases ob) (auto simp: tally_ok_def sector_step_def Let_def)
  qed
qed

lemma fold_tally_ok:
  "tally_ok metric method base ps t \<Longrightarrow>
     tally_ok metric method base (ps @ xs) (fold (sector_step roster metric method) xs t)"
proof (induction xs arbitrary: ps t)
  case (Cons x xs)
  obtain i c where x: "x = (i, c)" by (cases x)
  from Cons.IH[OF sector_step_ok[OF Cons.prems, of i c roster]] show ?case by (simp add: x)
qed simp

lemma sector_tally_ok:
  "tally_ok metric method (rejected_issuers roster cs) (selected_companies roster cs) (sector_tally_of roster cs metric method)"
proof -
  have "tally_ok metric method (rejected_issuers roster cs) []
      \<lparr>t_complete = [], t_contributions = [], t_excluded = rejected_issuers roster cs,
        t_distribution_excluded = rejected_issuers roster cs, t_distribution = [], t_flags = [],
        t_positive = 0, t_zero = 0, t_negative = 0, t_zero_denominators = 0\<rparr>"
    using rejected_reasons by (simp add: tally_ok_def signs_def)
  from fold_tally_ok[OF this, of "selected_companies roster cs" roster] show ?thesis
    by (simp add: sector_tally_of_def)
qed

section \<open>The result\<close>

lemma calculate_sector_total: "metric \<in> set sector_metrics \<Longrightarrow> \<exists>m. calculate_sector rt roster cs metric method policy = Inr m"
  by (cases "calculate_sector rt roster cs metric method policy")
    (auto simp: calculate_sector_def Let_def split: prod.splits)

lemma calculate_sector_Inr:
  assumes "calculate_sector rt roster cs metric method policy = Inr m"
  defines "t \<equiv> sector_tally_of roster cs metric method"
  shows "metric \<in> set sector_metrics" "sm_contributing m = map fst (t_contributions t)" "sm_eligible m = map fst (t_complete t)"
    "sm_excluded m = sort_key fst (t_excluded t)" "sm_n m = card (set (sr_issuers roster))" "sm_k m = length (t_complete t)"
    "sm_v m = length (t_contributions t)" "sm_positive m = t_positive t" "sm_zero m = t_zero t" "sm_negative m = t_negative t"
    "sm_value m = fg_value (case quartiles (dec_sort (map co_value (t_distribution t))) of
       None \<Rightarrow> figures None None None [] True
     | Some q \<Rightarrow> value_figures metric method t (dec_sort (map co_value (t_distribution t))) (fst (snd q)))"
    "sm_issuer_coverage m = cf_issuer_coverage (coverage_figures roster (selected_companies roster cs) metric t (card (set (sr_issuers roster))))"
    "sm_cap_coverage m = cf_coverage (coverage_figures roster (selected_companies roster cs) metric t (card (set (sr_issuers roster))))"
    "sm_full_cap m = cf_full (coverage_figures roster (selected_companies roster cs) metric t (card (set (sr_issuers roster))))"
    "sm_contributing_cap m = cf_contributing (coverage_figures roster (selected_companies roster cs) metric t (card (set (sr_issuers roster))))"
    "sm_allowed m \<longleftrightarrow> sr_complete roster \<and> sm_value m \<noteq> None \<and> sp_minimum policy \<le> int (sm_v m)
       \<and> at_least (sm_issuer_coverage m) (sp_issuer_coverage policy) \<and> at_least (sm_cap_coverage m) (sp_cap_coverage policy)"
    "''limited_coverage'' \<in> set (sm_flags m) \<or> sm_allowed m"
  using assms(1) unfolding calculate_sector_def Let_def t_def[symmetric]
  by (auto simp: length_remdups_card_conv split: if_splits prod.splits)

text \<open>
  C32.  No issuer is lost or counted twice: contributing and excluded issuers together are exactly the
  declared roster, every exclusion carries a reason, contributors are among the issuers with complete
  inputs, and the sign counts lie between the number of contributors and of complete issuers; for totals
  they are exactly the number of contributors.
\<close>

theorem sector_roster_partition:
  assumes "calculate_sector rt roster cs metric method policy = Inr m"
  shows "mset (sm_contributing m) + mset (map fst (sm_excluded m)) = mset (sorted_set (sr_issuers roster))
    \<and> (\<forall>x\<in>set (sm_excluded m). snd x \<noteq> [])
    \<and> set (sm_contributing m) \<subseteq> set (sm_eligible m)
    \<and> sm_v m = length (sm_contributing m) \<and> sm_v m \<le> sm_k m \<and> sm_k m \<le> sm_n m
    \<and> sm_v m \<le> sm_positive m + sm_zero m + sm_negative m
    \<and> sm_positive m + sm_zero m + sm_negative m \<le> sm_k m
    \<and> (method = Total \<longrightarrow> sm_positive m + sm_zero m + sm_negative m = sm_v m)"
proof -
  let ?t = "sector_tally_of roster cs metric method"
  note f = calculate_sector_Inr[OF assms] and ok = sector_tally_ok[of "metric" "method" "roster" "cs", unfolded tally_ok_def signs_def]
  have "mset (map fst (sort_key fst (t_excluded ?t))) = mset (map fst (t_excluded ?t))" by simp
  then have "mset (sm_contributing m) + mset (map fst (sm_excluded m)) = mset (sorted_set (sr_issuers roster))"
    using ok selection_partition[of roster cs] unfolding f(2,4) by argo
  moreover have "length (selected_companies roster cs) \<le> card (set (sr_issuers roster))"
  proof -
    have "size (mset (map fst (selected_companies roster cs))) \<le> size (mset (sorted_set (sr_issuers roster)))"
      unfolding selection_partition[symmetric, of roster cs] by simp
    then show ?thesis by (simp add: sorted_set_def length_remdups_card_conv)
  qed
  moreover have "\<forall>x\<in>set (sm_excluded m). snd x \<noteq> []" using ok by (auto simp: f(4))
  ultimately show ?thesis using ok unfolding f(2,3,5-10) by auto
qed

lemma sum_all_value: "sum_all vs = Some s \<Longrightarrow> dval s = (\<Sum>v\<leftarrow>vs. dval v :: rat)"
proof (cases "vs = []")
  case False
  assume "sum_all vs = Some s"
  with False have "exact_sum vs (replicate (length vs) 1) = Some s" by (simp add: sum_all_def)
  from exact_sum_value[OF this, where 'a=rat] have "dval s = (\<Sum>(v, k)\<leftarrow>zip vs (replicate (length vs) 1). of_int k * dval v :: rat)" by simp
  also have "\<dots> = (\<Sum>v\<leftarrow>vs. dval v)" by (induction vs) simp_all
  finally show ?thesis .
qed (simp add: sum_all_def)

lemma fraction_half_ulp: "fraction a b = Some q \<Longrightarrow> half_ulp q (dval a / dval b)"
  unfolding fraction_def by (rule metric_quotient)

lemma total_figures_value:
  assumes "fg_value (total_figures metric num den cs) = Some q"
  defines "N \<equiv> \<Sum>c\<leftarrow>cs. dval (ev_number (field_evidence num c)) :: rat"
    and "D \<equiv> \<Sum>c\<leftarrow>cs. dval (ev_number (field_evidence den c)) :: rat"
    and "E \<equiv> \<Sum>c\<leftarrow>cs. dval (ev_uncertainty (field_evidence den c)) :: rat"
  shows "0 < D \<and> E < D \<and> half_ulp q ((if metric = ''revenue_yoy'' then N - D else N) / D)"
proof -
  obtain n d err x where
    s: "sum_all (map (\<lambda>c. ev_number (field_evidence num c)) cs) = Some n"
      "sum_all (map (\<lambda>c. ev_number (field_evidence den c)) cs) = Some d"
      "sum_all (map (\<lambda>c. ev_uncertainty (field_evidence den c)) cs) = Some err"
    and gt: "\<not> dec_le d dec_zero" "\<not> dec_le d err"
    and x: "(if metric = ''revenue_yoy'' then exact_sum [n, d] [1, - 1] else Some n) = Some x" and q: "fraction x d = Some q"
    using assms(1) unfolding total_figures_def
    by (auto simp: figures_def ratio_figures_def split: option.splits if_splits)
  have v: "dval n = N" "dval d = D" "dval err = E"
    using s[THEN sum_all_value] by (simp_all add: N_def D_def E_def comp_def)
  have "dval x = (if metric = ''revenue_yoy'' then N - D else N)"
    using x exact_sum_value[of "[n, d]" "[1, - 1]" x, where 'a=rat] v by (auto split: if_splits)
  then show ?thesis using gt v fraction_half_ulp[OF q] by (simp add: dec_le_iff[where 'a=rat] not_le)
qed

definition contributors :: "sector_roster \<Rightarrow> company_snapshot list \<Rightarrow> string \<Rightarrow> sector_method \<Rightarrow> company_snapshot list" where
  "contributors roster cs metric method = map snd (t_contributions (sector_tally_of roster cs metric method))"

lemma sector_metric_pairs:
  assumes "metric \<in> set sector_metrics" "\<not> breadth_metric metric"
  shows "metric \<in> set (map fst metric_pairs)"
proof -
  have "set sector_metrics \<subseteq> set (map fst metric_pairs) \<union> {''profit_breadth'', ''cash_breadth'', ''growth_breadth''}"
    by (simp add: sector_metrics_def metric_pairs_def)
  with assms show ?thesis unfolding breadth_metric_def by blast
qed

lemma coverage_issuer:
  assumes "cf_issuer_coverage (coverage_figures roster sel metric t n) = Some ic"
  shows "fraction (dec_of_nat (length (t_complete t))) (dec_of_nat n) = Some ic"
proof -
  obtain full part cover fls st where ct: "cap_totals roster sel (map fst (t_contributions t)) n = ((full, part, cover, fls), st)"
    by (metis prod.exhaust)
  show ?thesis
    using assms unfolding coverage_figures_def ct Let_def prod.case
    by (simp split: bool.splits option.splits if_splits)
qed

lemma coverage_caps:
  "cf_full (coverage_figures roster sel metric t n) = fst (fst (cap_totals roster sel (map fst (t_contributions t)) n))"
  "cf_contributing (coverage_figures roster sel metric t n) = fst (snd (fst (cap_totals roster sel (map fst (t_contributions t)) n)))"
  "cf_coverage (coverage_figures roster sel metric t n) = fst (snd (snd (fst (cap_totals roster sel (map fst (t_contributions t)) n))))"
proof -
  obtain full part cover fls st where ct: "cap_totals roster sel (map fst (t_contributions t)) n = ((full, part, cover, fls), st)"
    by (metis prod.exhaust)
  show "cf_full (coverage_figures roster sel metric t n) = fst (fst (cap_totals roster sel (map fst (t_contributions t)) n))"
    "cf_contributing (coverage_figures roster sel metric t n) = fst (snd (fst (cap_totals roster sel (map fst (t_contributions t)) n)))"
    "cf_coverage (coverage_figures roster sel metric t n) = fst (snd (snd (fst (cap_totals roster sel (map fst (t_contributions t)) n))))"
    unfolding coverage_figures_def ct Let_def prod.case by (simp_all split: bool.splits option.splits)
qed

lemma cap_totals_coverage:
  assumes "fst (snd (snd (fst (cap_totals roster sel ids n)))) = Some cc"
  shows "\<exists>full part. fst (fst (cap_totals roster sel ids n)) = Some full \<and> fst (snd (fst (cap_totals roster sel ids n))) = Some part
    \<and> fraction part full = Some cc"
  using assms unfolding cap_totals_def Let_def by (auto split: option.splits if_splits)

definition sample_flow :: "int \<Rightarrow> string \<Rightarrow> evidence_value" where
  "sample_flow v basis = \<lparr>ev_value = Some (Finite (dec_of_int v)), ev_error = Some (Finite (dec_of_int 1)), ev_hash = hex64 (CHR ''a''),
     ev_start = Some (Date 2020 1 1), ev_end = Some (Date 2020 12 31), ev_usable = True, ev_flags = [],
     ev_currency = ''USD'', ev_basis = basis\<rparr>"

definition sample_cap :: "int \<Rightarrow> date \<Rightarrow> evidence_value" where
  "sample_cap v d = \<lparr>ev_value = Some (Finite (dec_of_int v)), ev_error = None, ev_hash = hex64 (CHR ''a''),
     ev_start = None, ev_end = Some d, ev_usable = True, ev_flags = [], ev_currency = ''USD'', ev_basis = ''common_equity''\<rparr>"

definition sample_company :: "string \<Rightarrow> int \<Rightarrow> int \<Rightarrow> company_snapshot" where
  "sample_company i cap income =
     \<lparr>cs_issuer = i, cs_snapshot = ''s'', cs_context = ''c'', cs_applicable = [''operating_margin''],
      cs_market_cap = sample_cap cap (Date 2021 6 30), cs_prior_market_cap = sample_cap cap (Date 2020 6 30),
      cs_common_income = sample_flow income ''income_available_common'', cs_revenue = sample_flow 100 ''consolidated_flow'',
      cs_prior_revenue = sample_flow 80 ''consolidated_flow'', cs_operating_income = sample_flow income ''consolidated_flow'',
      cs_fcf = sample_flow income ''cash_ppe_fcf'', cs_metrics = []\<rparr>"

definition sample_roster :: sector_roster where
  "sample_roster = \<lparr>sr_issuers = [''b'', ''a'', ''z''], sr_context = ''c'', sr_complete = True, sr_date = Date 2021 6 30,
     sr_hash = ''h'', sr_refs = [''r''], sr_prior_date = Some (Date 2020 6 30)\<rparr>"

definition sample_companies :: "company_snapshot list" where
  "sample_companies = [sample_company ''a'' 300 30, sample_company ''b'' 100 20]"

definition sample_sector_policy :: sector_policy where
  "sample_sector_policy = \<lparr>sp_minimum = 1, sp_issuer_coverage = Dec False 5 (- 1), sp_cap_coverage = Dec False 5 (- 1), sp_revision = ''v''\<rparr>"

abbreviation sample_selected :: "(string \<times> company_snapshot) list" where
  "sample_selected \<equiv> [(''a'', sample_company ''a'' 300 30), (''b'', sample_company ''b'' 100 20)]"

lemma sample_selection:
  "selected_companies sample_roster sample_companies = sample_selected"
  "rejected_issuers sample_roster sample_companies = [(''z'', [''company_snapshot_missing''])]"
  by (code_simp, code_simp)

lemma sample_issuers: "card (set (sr_issuers sample_roster)) = 3"
  by (simp add: sample_roster_def)

lemma sample_sector_inputs:
  "input_issues sample_roster ''operating_margin'' (sample_company ''a'' 300 30) = []"
  "input_issues sample_roster ''operating_margin'' (sample_company ''b'' 100 20) = []"
  "company_ratio ''operating_margin'' (sample_company ''a'' 300 30) = Inl [''company_metric_not_unique'']"
  "company_ratio ''operating_margin'' (sample_company ''b'' 100 20) = Inl [''company_metric_not_unique'']"
  by (code_simp, code_simp, code_simp, code_simp)

lemma sample_tally:
  "t_contributions (sector_tally_of sample_roster sample_companies ''operating_margin'' Total) = sample_selected"
  "t_distribution (sector_tally_of sample_roster sample_companies ''operating_margin'' Total) = []"
  by (simp_all add: sector_tally_of_def sample_selection sector_step_def sample_sector_inputs growth_metric_def note_complete_def Let_def)

lemma sample_total:
  "fg_value (total_figures ''operating_margin'' Operating_Income Revenue (map snd sample_selected)) = Some (Dec False 25 (- 2))"
  by code_simp

lemma sample_sector:
  obtains m where "calculate_sector sample_rt sample_roster sample_companies ''operating_margin'' Total sample_sector_policy = Inr m"
    "sm_value m = Some (Dec False 25 (- 2))" "\<not> sm_allowed m" "sm_v m = 2"
proof -
  obtain m where m: "calculate_sector sample_rt sample_roster sample_companies ''operating_margin'' Total sample_sector_policy = Inr m"
    using calculate_sector_total[of "''operating_margin''" sample_rt sample_roster sample_companies Total sample_sector_policy]
    by (auto simp: sector_metrics_def)
  note f = calculate_sector_Inr[OF m]
  have sp: "ms_numerator (spec_of ''operating_margin'') = Some Operating_Income" "ms_denominator (spec_of ''operating_margin'') = Some Revenue"
    by (simp_all add: spec_of_def metric_pairs_def)
  have "sm_value m = Some (Dec False 25 (- 2))"
    using sample_total by (simp add: f(11) sample_tally quartiles_def dec_sort_def value_figures_def breadth_metric_def sp Let_def)
  moreover have "sm_cap_coverage m = None"
    using sample_issuers by (simp add: f(13) coverage_caps cap_totals_def sample_selection Let_def)
  then have "\<not> sm_allowed m" unfolding f(16) by (simp add: at_least_def)
  moreover have "sm_v m = 2" by (simp add: f(7) sample_tally)
  ultimately show ?thesis using m that by blast
qed

theorem sector_roster_partition_witness:
  "\<exists>m. calculate_sector sample_rt sample_roster sample_companies ''operating_margin'' Total sample_sector_policy = Inr m
     \<and> mset (sm_contributing m) + mset (map fst (sm_excluded m)) = mset (sorted_set [''b'', ''a'', ''z''])
     \<and> sm_positive m + sm_zero m + sm_negative m = 2"
proof -
  obtain m where m: "calculate_sector sample_rt sample_roster sample_companies ''operating_margin'' Total sample_sector_policy = Inr m"
    "sm_v m = 2" by (rule sample_sector)
  from sector_roster_partition[OF m(1)] m show ?thesis by (simp add: sample_roster_def)
qed

text \<open>
  A total ratio is the quotient of the exact sums over the contributing companies, rounded once: the
  numerators' sum (for revenue growth, its excess over the denominators' sum) divided by the denominators'
  sum, which is positive and larger than the sum of the stated uncertainties.
\<close>

theorem sector_total_exact:
  assumes "calculate_sector rt roster cs metric Total policy = Inr m" "sm_value m = Some q" "\<not> breadth_metric metric"
  shows "\<exists>num den. map_of metric_pairs metric = Some (num, den)
    \<and> (let xs = contributors roster cs metric Total;
           N = (\<Sum>c\<leftarrow>xs. dval (ev_number (field_evidence num c)) :: rat);
           D = (\<Sum>c\<leftarrow>xs. dval (ev_number (field_evidence den c)) :: rat);
           E = (\<Sum>c\<leftarrow>xs. dval (ev_uncertainty (field_evidence den c)) :: rat)
       in 0 < D \<and> E < D \<and> half_ulp q ((if metric = ''revenue_yoy'' then N - D else N) / D))"
proof -
  note f = calculate_sector_Inr[OF assms(1)]
  obtain num den where pr: "map_of metric_pairs metric = Some (num, den)"
    using sector_metric_pairs[OF f(1) assms(3)] by (metis map_of_eq_None_iff list.set_map option.exhaust prod.exhaust)
  then have sp: "ms_numerator (spec_of metric) = Some num" "ms_denominator (spec_of metric) = Some den"
    by (simp_all add: spec_of_def)
  have "fg_value (total_figures metric num den (contributors roster cs metric Total)) = Some q"
    using assms(2,3) f(11) sp
    by (auto simp: value_figures_def Let_def figures_def contributors_def split: option.splits if_splits)
  from total_figures_value[OF this] pr show ?thesis by (simp add: Let_def)
qed

theorem sector_total_exact_witness:
  "\<exists>D. 0 < D \<and> D = (\<Sum>c\<leftarrow>contributors sample_roster sample_companies ''operating_margin'' Total.
      dval (ev_number (field_evidence Revenue c)) :: rat)"
proof -
  obtain m where m: "calculate_sector sample_rt sample_roster sample_companies ''operating_margin'' Total sample_sector_policy = Inr m"
    "sm_value m = Some (Dec False 25 (- 2))" by (rule sample_sector)
  have "\<not> breadth_metric ''operating_margin''" by (simp add: breadth_metric_def)
  from sector_total_exact[OF m this] show ?thesis by (auto simp: Let_def metric_pairs_def)
qed

text \<open>
  A sector comparison is allowed only over a complete roster, with a value, with the policy's number
  of contributors, and with coverages that reach the policy's thresholds, where the issuer coverage is the
  rounded share of issuers with complete inputs and the capitalization coverage the rounded share of the
  contributors' capitalization in that of the whole roster; otherwise the coverage is flagged as limited.
\<close>

theorem sector_comparison_gate:
  assumes "calculate_sector rt roster cs metric method policy = Inr m"
  shows "if sm_allowed m
    then sr_complete roster \<and> sm_value m \<noteq> None \<and> sp_minimum policy \<le> int (sm_v m)
      \<and> (\<exists>ic. sm_issuer_coverage m = Some ic \<and> half_ulp ic (of_nat (sm_k m) / of_nat (sm_n m))
          \<and> dval (sp_issuer_coverage policy) \<le> (dval ic :: rat))
      \<and> (\<exists>cc full part. sm_cap_coverage m = Some cc \<and> sm_full_cap m = Some full \<and> sm_contributing_cap m = Some part
          \<and> half_ulp cc (dval part / dval full) \<and> dval (sp_cap_coverage policy) \<le> (dval cc :: rat))
    else ''limited_coverage'' \<in> set (sm_flags m)"
proof (cases "sm_allowed m")
  case True
  note f = calculate_sector_Inr[OF assms]
  from True have g: "sr_complete roster" "sm_value m \<noteq> None" "sp_minimum policy \<le> int (sm_v m)"
    "at_least (sm_issuer_coverage m) (sp_issuer_coverage policy)" "at_least (sm_cap_coverage m) (sp_cap_coverage policy)"
    unfolding f(16) by blast+
  obtain ic cc where c: "sm_issuer_coverage m = Some ic" "dec_le (sp_issuer_coverage policy) ic"
      "sm_cap_coverage m = Some cc" "dec_le (sp_cap_coverage policy) cc"
    using g(4,5) by (auto simp: at_least_def split: option.splits)
  have ic: "half_ulp ic (of_nat (sm_k m) / of_nat (sm_n m))"
    using fraction_half_ulp[OF coverage_issuer[OF c(1)[unfolded f(12)]]] by (simp add: f(5,6))
  have "\<exists>full part. sm_full_cap m = Some full \<and> sm_contributing_cap m = Some part \<and> half_ulp cc (dval part / dval full)"
    using cap_totals_coverage[OF c(3)[unfolded f(13) coverage_caps]] fraction_half_ulp
    unfolding f(14,15) coverage_caps by blast
  then show ?thesis using True g(1-3) c ic by (auto simp: dec_le_iff[where 'a=rat])
next
  case False
  then show ?thesis using calculate_sector_Inr(17)[OF assms] by simp
qed

theorem sector_comparison_gate_witness:
  "\<exists>m. calculate_sector sample_rt sample_roster sample_companies ''operating_margin'' Total sample_sector_policy = Inr m
     \<and> ''limited_coverage'' \<in> set (sm_flags m)"
proof -
  obtain m where m: "calculate_sector sample_rt sample_roster sample_companies ''operating_margin'' Total sample_sector_policy = Inr m"
    "\<not> sm_allowed m" by (rule sample_sector)
  from sector_comparison_gate[OF m(1)] m show ?thesis by auto
qed

section \<open>Concentration\<close>

lemma sort_key_take_le:
  assumes "x \<in> set (take n (sort_key f xs))" "y \<in> set (drop n (sort_key f xs))"
  shows "f x \<le> f y"
proof -
  have "sorted (map f (take n (sort_key f xs) @ drop n (sort_key f xs)))" by (simp del: map_append)
  then show ?thesis using assms unfolding map_append sorted_append by auto
qed

lemma known_caps_fst: "known_caps roster prior sel = Some caps \<Longrightarrow> map fst caps = map fst sel"
proof -
  assume "known_caps roster prior sel = Some caps"
  then have e: "map (\<lambda>(i, c). map_option (Pair i) (cap_of roster prior c)) sel = map Some caps"
    by (simp add: known_caps_def opt_all_Some_iff)
  then have "length sel = length caps" by (metis length_map)
  then show ?thesis using e by (induction sel caps rule: list_induct2) (auto simp: map_option_case split: option.splits)
qed

text \<open>
  The prior leaders are at most five issuers with the largest prior capitalizations of the whole
  roster (no other issuer's is larger), and the growth shown without them is computed over contributors
  none of which is a leader.
\<close>

theorem concentration_leaders:
  assumes "cn_prior (calculate_concentration rt roster cs policy) = Some leaders"
  shows "length leaders \<le> 5
    \<and> (\<exists>caps. known_caps roster True (selected_companies roster cs) = Some caps \<and> leaders = map fst (top_five caps)
        \<and> (\<forall>x\<in>set (top_five caps). \<forall>y\<in>set caps - set (top_five caps). dval (snd y) \<le> (dval (snd x) :: rat)))
    \<and> (\<forall>m. cn_growth (calculate_concentration rt roster cs policy) = Some m \<longrightarrow> set (sm_contributing m) \<inter> set leaders = {})"
proof -
  obtain caps where caps: "known_caps roster True (selected_companies roster cs) = Some caps" "leaders = map fst (top_five caps)"
    using assms by (auto simp: calculate_concentration_def Let_def split: if_splits)
  let ?k = "\<lambda>(i, d). (- dval d :: rat, i)"
  have dom: "dval (snd y) \<le> (dval (snd x) :: rat)" if "x \<in> set (top_five caps)" "y \<in> set caps - set (top_five caps)" for x y
  proof -
    have "set caps = set (take 5 (sort_key ?k caps)) \<union> set (drop 5 (sort_key ?k caps))"
      by (metis append_take_drop_id set_append set_sort)
    then have "y \<in> set (drop 5 (sort_key ?k caps))" using that(2) by (auto simp: top_five_def)
    from sort_key_take_le[OF that(1)[unfolded top_five_def] this] show ?thesis
      by (auto simp: less_eq_prod_def split: prod.splits)
  qed
  have "set (sm_contributing m) \<inter> set leaders = {}" if "cn_growth (calculate_concentration rt roster cs policy) = Some m" for m
  proof -
    have g: "calculate_sector rt (without_leaders rt roster leaders) cs ''revenue_yoy'' Total policy = Inr m"
      using that assms by (auto simp: calculate_concentration_def Let_def split: sum.splits)
    have "mset (sm_contributing m) + mset (map fst (sm_excluded m)) = mset (sorted_set (sr_issuers (without_leaders rt roster leaders)))"
      using sector_tally_ok[of "''revenue_yoy''" Total "without_leaders rt roster leaders" cs, unfolded tally_ok_def]
        selection_partition[of "without_leaders rt roster leaders" cs] by (simp add: calculate_sector_Inr(2,4)[OF g])
    then have "set (sm_contributing m) \<subseteq> set (sr_issuers (without_leaders rt roster leaders))"
      by (metis mset_subset_eq_add_left set_mset_mono set_mset_mset set_sorted_set)
    then show ?thesis by (auto simp: without_leaders_def)
  qed
  moreover have "length leaders \<le> 5" by (simp add: caps(2) top_five_def)
  ultimately show ?thesis using caps dom by blast
qed

theorem concentration_leaders_witness:
  "\<exists>leaders. cn_prior (calculate_concentration sample_rt (sample_roster\<lparr>sr_issuers := [''a'', ''b'']\<rparr>) sample_companies sample_sector_policy)
     = Some leaders \<and> length leaders \<le> 5"
proof -
  have k: "known_caps (sample_roster\<lparr>sr_issuers := [''a'', ''b'']\<rparr>) True
      (selected_companies (sample_roster\<lparr>sr_issuers := [''a'', ''b'']\<rparr>) sample_companies) = Some [(''a'', dec_of_int 300), (''b'', dec_of_int 100)]"
    "rejected_issuers (sample_roster\<lparr>sr_issuers := [''a'', ''b'']\<rparr>) sample_companies = []"
    by code_simp+
  then have "cn_prior (calculate_concentration sample_rt (sample_roster\<lparr>sr_issuers := [''a'', ''b'']\<rparr>) sample_companies sample_sector_policy)
      = Some (map fst (top_five [(''a'', dec_of_int 300), (''b'', dec_of_int 100)]))"
    by (simp add: calculate_concentration_def Let_def sample_roster_def)
  from concentration_leaders[OF this] this show ?thesis by blast
qed

end
