(* ===== verification/Trends.thy ===== *)
theory Trends
  imports Assessment_Properties
begin

text \<open>
  \<open>packages/core/trends.py\<close>: the direction of three consecutive quarterly growth rates, judged with
  an explicit tolerance over reproduced assessments.
\<close>

record trend_policy =
  tp_tolerance :: dec
  tp_revision :: string
  tp_refs :: "string list"

definition mk_trend_policy :: "decimal \<Rightarrow> string \<Rightarrow> string list \<Rightarrow> trend_policy result" where
  "mk_trend_policy tol revision refs =
     (case tol of
        Finite d \<Rightarrow>
          guard_value (\<not> dec_lt d dec_zero \<and> nonblank revision \<and> references refs)
            \<lparr>tp_tolerance = d, tp_revision = revision, tp_refs = refs\<rparr>
      | _ \<Rightarrow> Inl ValueError)"

datatype trend = Rising | Falling | Broadly_Stable | Mixed

record growth_trend_result =
  gt_relation :: "trend option"
  gt_changes :: "dec list"
  gt_metrics :: "metric_assessment list"
  gt_policy :: trend_policy
  gt_flags :: "flag list"
  gt_compatibility :: "revision_compatibility option"

definition calendar_of :: "calculation \<Rightarrow> fiscal_calendar option" where
  "calendar_of c = (case calc_review c of Some (cal, _) \<Rightarrow> cal | None \<Rightarrow> None)"

definition trend_quarter :: "metric_assessment \<Rightarrow> financial_input option" where
  "trend_quarter a =
     (let c = as_calculation a in
      if calc_metric c \<noteq> ''revenue_growth_yoy'' then None
      else
        (case calc_operands c of
           Selected x # _ \<Rightarrow>
             (case calendar_of c of
                Some cal \<Rightarrow> if fc_match cal False x \<noteq> None then Some x else None
              | None \<Rightarrow>
                  (case pd_start (fi_period x) of
                     None \<Rightarrow> None
                   | Some s \<Rightarrow>
                       if dy s = 1 \<and> mo s \<in> {1, 4, 7, 10} \<and> month_end (pd_end (fi_period x))
                          \<and> months_between s (pd_end (fi_period x)) = 3
                       then Some x else None))
         | _ \<Rightarrow> None))"

definition selected_leaf :: "operand \<Rightarrow> financial_input option" where
  "selected_leaf p = (case p of Selected x \<Rightarrow> Some x | Derived _ \<Rightarrow> None)"

definition trend_flags ::
  "runtime \<Rightarrow> metric_assessment list \<Rightarrow> revision_compatibility option \<Rightarrow> flag list" where
  "trend_flags rt ms rc =
     (let leaves = concat (map (\<lambda>a. List.map_filter selected_leaf (calc_operands (as_calculation a))) ms) in
      flag_if (length ms \<noteq> 3) ''three_quarterly_rates_required''
      @ flag_if (list_ex (\<lambda>a. trend_quarter a = None) ms) ''unsupported_trend_periods''
      @ flag_if (\<not> at_most_one (map (\<lambda>a. map_option comparison_key (calendar_of (as_calculation a))) ms))
          ''incompatible_trend_calendar''
      @ flag_if (ms \<noteq> [] \<and> list_ex (\<lambda>a. as_context a \<noteq> as_context (hd ms)) ms) ''incompatible_trend_context''
      @ flag_if (list_ex (\<lambda>a. \<not> usable a \<or> \<not> same_assessment (evaluate_metric rt (as_calculation a) (as_context a)) a) ms)
          ''trend_input_unavailable''
      @ (if leaves = [] then []
         else selection_issues rt leaves (replicate (length leaves) REVENUE) @ revision_problems leaves rc))"

definition consecutive :: "metric_assessment list \<Rightarrow> bool" where
  "consecutive ms =
     (let xs = List.map_filter trend_quarter ms in list_all (\<lambda>(l, r). follows l r) (zip xs (tl xs)))"

definition trend_changes :: "dec list \<Rightarrow> dec list option" where
  "trend_changes vs = opt_all [difference (vs ! 1) (vs ! 0), difference (vs ! 2) (vs ! 1)]"

definition direction :: "dec \<Rightarrow> dec list \<Rightarrow> trend" where
  "direction tol changes =
     (if list_all (\<lambda>d. dec_lt tol d) changes then Rising
      else if list_all (\<lambda>d. dec_lt d (copy_negate tol)) changes then Falling
      else if list_all (\<lambda>d. dec_le (copy_abs d) tol) changes then Broadly_Stable
      else Mixed)"

definition growth_trend ::
  "runtime \<Rightarrow> metric_assessment list \<Rightarrow> trend_policy \<Rightarrow> revision_compatibility option \<Rightarrow> growth_trend_result" where
  "growth_trend rt ms policy rc =
     (let flags0 = trend_flags rt ms rc;
          flags1 = flags0 @ flag_if (flags0 = [] \<and> \<not> consecutive ms) ''nonconsecutive_trend_quarters'';
          vs = List.map_filter as_value ms;
          changes = (if flags1 = [] \<and> length vs = 3 then trend_changes vs else None);
          flags2 = flags1 @ flag_if (flags1 = [] \<and> length vs \<noteq> 3) ''trend_input_unavailable''
            @ flag_if (flags1 = [] \<and> length vs = 3 \<and> changes = None) ''unsupported_numeric_range'' in
      \<lparr>gt_relation = map_option (direction (tp_tolerance policy)) changes,
       gt_changes = (case changes of None \<Rightarrow> [] | Some ds \<Rightarrow> ds), gt_metrics = ms, gt_policy = policy,
       gt_flags = sorted_set flags2, gt_compatibility = rc\<rparr>)"

text \<open>
  A stated trend rests on three usable, reproducible assessments of consecutive quarters; its two
  changes are the exact differences of the rates, and the relation says exactly how they lie to the
  tolerance.  Without a relation there is a flag and no change is published.
\<close>

theorem growth_trend_sound:
  fixes rt ms policy rc
  defines "g \<equiv> growth_trend rt ms policy rc" and "tol \<equiv> dval (tp_tolerance policy) :: rat"
  shows "case gt_relation g of
     None \<Rightarrow> gt_flags g \<noteq> [] \<and> gt_changes g = []
   | Some r \<Rightarrow>
       gt_flags g = [] \<and> length ms = 3 \<and> consecutive ms \<and> list_all (\<lambda>a. usable a \<and> trend_quarter a \<noteq> None) ms
       \<and> (\<exists>u v w d e. map as_value ms = [Some u, Some v, Some w] \<and> gt_changes g = [d, e]
           \<and> dval d = (dval v - dval u :: rat) \<and> dval e = (dval w - dval v :: rat)
           \<and> (r = Rising \<longleftrightarrow> tol < dval d \<and> tol < dval e)
           \<and> (r = Falling \<longleftrightarrow> \<not> (tol < dval d \<and> tol < dval e) \<and> dval d < - tol \<and> dval e < - tol)
           \<and> (r = Broadly_Stable \<longleftrightarrow> r \<noteq> Rising \<and> r \<noteq> Falling \<and> \<bar>dval d\<bar> \<le> tol \<and> \<bar>dval e\<bar> \<le> tol))"
proof -
  define fl where "fl = trend_flags rt ms rc @ flag_if (trend_flags rt ms rc = [] \<and> \<not> consecutive ms) ''nonconsecutive_trend_quarters''"
  define vs where "vs = List.map_filter as_value ms"
  note g = growth_trend_def[of rt ms policy rc, unfolded Let_def, folded fl_def vs_def g_def]
  show ?thesis
  proof (cases "fl = [] \<and> length vs = 3 \<and> trend_changes vs \<noteq> None")
    case False
    then have "fl \<noteq> [] \<or> length vs \<noteq> 3 \<or> trend_changes vs = None" by blast
    then show ?thesis by (auto simp: g)
  next
    case True
    then obtain ds where ds: "trend_changes vs = Some ds" by blast
    have f: "trend_flags rt ms rc = []" "consecutive ms" using True by (auto simp: fl_def)
    have ok: "length ms = 3" "list_all (\<lambda>a. usable a \<and> trend_quarter a \<noteq> None) ms"
      using f(1) by (auto simp: trend_flags_def Let_def list_ex_iff list_all_iff)
    obtain a b c where abc: "ms = [a, b, c]" using ok(1) by (auto simp: numeral_3_eq_3 length_Suc_conv)
    then obtain u v w where uvw: "map as_value ms = [Some u, Some v, Some w]"
      using True by (auto simp: vs_def List.map_filter_simps split: option.splits)
    then have vs3: "vs = [u, v, w]" using abc by (auto simp: vs_def List.map_filter_simps)
    then obtain d e where de: "difference v u = Some d" "difference w v = Some e" "ds = [d, e]"
      using ds by (auto simp: trend_changes_def opt_all_Some_iff)
    note x = difference_exact[OF de(1), where 'a=rat] difference_exact[OF de(2), where 'a=rat]
    have res: "gt_relation g = Some (direction (tp_tolerance policy) [d, e])" "gt_changes g = [d, e]" "gt_flags g = []"
      using True ds de(3) by (simp_all add: g)
    define r where "r = direction (tp_tolerance policy) [d, e]"
    have r: "r = Rising \<longleftrightarrow> tol < dval d \<and> tol < dval e"
      "r = Falling \<longleftrightarrow> \<not> (tol < dval d \<and> tol < dval e) \<and> dval d < - tol \<and> dval e < - tol"
      "r = Broadly_Stable \<longleftrightarrow> r \<noteq> Rising \<and> r \<noteq> Falling \<and> \<bar>dval d\<bar> \<le> tol \<and> \<bar>dval e\<bar> \<le> tol"
      by (auto simp: r_def direction_def tol_def dec_lt_iff[where 'a=rat] dec_le_iff[where 'a=rat] split: if_splits)
    show ?thesis unfolding res option.case r_def[symmetric]
      by (intro conjI exI[of _ u] exI[of _ v] exI[of _ w] exI[of _ d] exI[of _ e] refl ok f(2) uvw x r)
  qed
qed

end
