(* ===== verification/Sector_History.thy ===== *)
theory Sector_History
  imports History_Properties Evidence
begin

text \<open>
  \<open>packages/core/sector_history.py\<close>: dated classification of issuers, and the sector's own history
  as a band and a series of displayed quarters with explicit gaps.
\<close>

section \<open>Membership\<close>

record membership_assignment =
  mb_issuer :: string
  mb_sector :: "string option"
  mb_industry :: "string option"
  mb_from :: date
  mb_to :: "date option"
  mb_known :: datetime
  mb_refs :: "string list"

definition opt_text_ok :: "string option \<Rightarrow> bool" where
  "opt_text_ok s = (case s of None \<Rightarrow> True | Some t \<Rightarrow> nonblank t)"

definition mk_membership :: "membership_assignment \<Rightarrow> membership_assignment result" where
  "mk_membership a =
     guard_value
       (nonblank (mb_issuer a) \<and> opt_text_ok (mb_sector a) \<and> opt_text_ok (mb_industry a)
        \<and> \<not> (mb_industry a \<noteq> None \<and> mb_sector a = None)
        \<and> (case mb_to a of None \<Rightarrow> True | Some d \<Rightarrow> mb_from a < d)
        \<and> aware (mb_known a) \<and> mb_refs a \<noteq> [] \<and> list_all nonblank (mb_refs a))
       a"

record selected_membership =
  sel_issuer :: string
  sel_sector :: "string option"
  sel_industry :: "string option"
  sel_evidence :: "membership_assignment list"
  sel_membership_flags :: "flag list"

text \<open>The last microsecond of a UTC day, and the earlier of it and the caller's cutoff.\<close>

definition end_of_day :: "date \<Rightarrow> int" where
  "end_of_day d = int (toordinal d) * micros_per_day + (micros_per_day - 1)"

definition knowledge_cutoff :: "date \<Rightarrow> datetime \<Rightarrow> int" where
  "knowledge_cutoff as_of known_before = min (instant known_before) (end_of_day as_of)"

definition in_force :: "date \<Rightarrow> int \<Rightarrow> membership_assignment \<Rightarrow> bool" where
  "in_force as_of cutoff a =
     (mb_from a \<le> as_of \<and> (case mb_to a of None \<Rightarrow> True | Some d \<Rightarrow> as_of < d) \<and> instant (mb_known a) \<le> cutoff)"

text \<open>Equal assignments have equal instants of knowledge, whatever their offsets.\<close>

definition assignment_key ::
  "membership_assignment \<Rightarrow> string \<times> string option \<times> string option \<times> date \<times> date option \<times> int \<times> string list" where
  "assignment_key a =
     (mb_issuer a, mb_sector a, mb_industry a, mb_from a, mb_to a, instant (mb_known a), mb_refs a)"

text \<open>\<open>tuple(dict.fromkeys(xs))\<close>: the first of equal elements, in order.\<close>

fun first_occurrences :: "('a \<Rightarrow> 'b) \<Rightarrow> 'a list \<Rightarrow> 'a list" where
  "first_occurrences key [] = []"
| "first_occurrences key (x # xs) =
     x # first_occurrences key (filter (\<lambda>y. key y \<noteq> key x) xs)"

definition membership_evidence ::
  "membership_assignment list \<Rightarrow> date \<Rightarrow> datetime \<Rightarrow> string \<Rightarrow> membership_assignment list" where
  "membership_evidence assignments as_of known_before issuer =
     first_occurrences assignment_key
       (filter (\<lambda>a. mb_issuer a = issuer \<and> in_force as_of (knowledge_cutoff as_of known_before) a) assignments)"

definition select_one ::
  "membership_assignment list \<Rightarrow> date \<Rightarrow> datetime \<Rightarrow> string \<Rightarrow> selected_membership" where
  "select_one assignments as_of known_before issuer =
     (let evidence = membership_evidence assignments as_of known_before issuer;
          classes = remdups (map (\<lambda>a. (mb_sector a, mb_industry a)) evidence) in
      case classes of
        [] \<Rightarrow> \<lparr>sel_issuer = issuer, sel_sector = None, sel_industry = None, sel_evidence = [],
               sel_membership_flags = [''classification_unavailable'']\<rparr>
      | [(sector, industry)] \<Rightarrow>
          \<lparr>sel_issuer = issuer, sel_sector = sector, sel_industry = industry, sel_evidence = evidence,
           sel_membership_flags = flag_if (sector = None \<or> sector = Some []) ''classification_unavailable''\<rparr>
      | _ \<Rightarrow> \<lparr>sel_issuer = issuer, sel_sector = None, sel_industry = None, sel_evidence = evidence,
             sel_membership_flags = [''classification_conflict'']\<rparr>)"

definition select_membership ::
  "string list \<Rightarrow> membership_assignment list \<Rightarrow> date \<Rightarrow> datetime \<Rightarrow> selected_membership list result" where
  "select_membership issuers assignments as_of known_before =
     (if \<not> list_all nonblank issuers \<or> \<not> aware known_before then Inl ValueError
      else Inr (map (select_one assignments as_of known_before) (sorted_set issuers)))"

section \<open>Sector history\<close>

record sector_history_point =
  shp_quarter_end :: date
  shp_value :: "decimal option"
  shp_series :: string
  shp_input_hash :: string
  shp_membership_hash :: string
  shp_mode :: string
  shp_allowed :: bool
  shp_flags :: "flag list"

definition membership_mode_ok :: "string \<Rightarrow> bool" where
  "membership_mode_ok m = (m = ''historical'' \<or> m = ''current_members'')"

definition mk_sector_history_point :: "sector_history_point \<Rightarrow> sector_history_point result" where
  "mk_sector_history_point p =
     guard_value
       (nonblank (shp_series p) \<and> sha256_text (shp_input_hash p) \<and> sha256_text (shp_membership_hash p)
        \<and> membership_mode_ok (shp_mode p) \<and> list_all nonblank (shp_flags p))
       p"

record sector_history_series =
  shs_points :: "history_point list"
  shs_band :: history_band
  shs_mode :: string
  shs_years :: nat
  shs_snapshot :: string
  shs_source :: "sector_history_point list"

definition project_point :: "runtime \<Rightarrow> string \<Rightarrow> sector_history_point \<Rightarrow> history_point" where
  "project_point rt mode p =
     \<lparr>hp_quarter_end = shp_quarter_end p, hp_value = shp_value p, hp_series = shp_series p,
      hp_hash = sha256_hex rt (shp_input_hash p @ shp_membership_hash p),
      hp_flags = sorted_set (shp_flags p @ flag_if (\<not> shp_allowed p) ''coverage_gate_failed''
        @ flag_if (shp_mode p \<noteq> mode) ''membership_mode_mismatch'')\<rparr>"

text \<open>\<open>repr\<close> of the lists and tuples that are hashed.\<close>

definition comma_separated :: "string list \<Rightarrow> string" where
  "comma_separated parts = (case parts of [] \<Rightarrow> [] | p # ps \<Rightarrow> p @ concat (map (\<lambda>q. '', '' @ q) ps))"

definition list_repr :: "string list \<Rightarrow> string" where
  "list_repr parts = ''['' @ comma_separated parts @ '']''"

definition tuple_repr :: "string list \<Rightarrow> string" where
  "tuple_repr parts = ''('' @ comma_separated parts @ (if length parts = 1 then '','' else []) @ '')''"

definition date_repr :: "date \<Rightarrow> string" where
  "date_repr d = ''datetime.date'' @ tuple_repr [nat_text (yr d), nat_text (mo d), nat_text (dy d)]"

definition canonical_key ::
  "sector_history_point \<Rightarrow> string \<times> string \<times> string \<times> string \<times> string \<times> string \<times> bool \<times> flag list" where
  "canonical_key p =
     (isoformat (shp_quarter_end p), value_repr (shp_value p), shp_series p, shp_input_hash p, shp_membership_hash p,
      shp_mode p, shp_allowed p, shp_flags p)"

definition canonical_repr ::
  "string \<times> string \<times> string \<times> string \<times> string \<times> string \<times> bool \<times> flag list \<Rightarrow> string" where
  "canonical_repr k =
     (case k of (day, v, series, h, mh, mode, allowed, fls) \<Rightarrow>
        tuple_repr (map text_repr [day, v, series, h, mh, mode]
          @ [if allowed then ''True'' else ''False'', tuple_repr (map text_repr fls)]))"

definition snapshot_id ::
  "runtime \<Rightarrow> sector_history_point list \<Rightarrow> date \<Rightarrow> string \<Rightarrow> nat \<Rightarrow> string \<Rightarrow> string \<Rightarrow> string" where
  "snapshot_id rt pts as_of series years mode revision =
     sha256_hex rt (tuple_repr
       [date_repr as_of, text_repr series, nat_text years, text_repr mode, text_repr revision,
        tuple_repr (map canonical_repr (sort (map canonical_key pts)))])"

text \<open>A quarter without an eligible sample: its exclusions' reasons, or that there was no observation.\<close>

definition gap_point :: "runtime \<Rightarrow> string \<Rightarrow> excluded_point list \<Rightarrow> date \<Rightarrow> history_point" where
  "gap_point rt series excluded day =
     (let xs = filter (\<lambda>x. hp_quarter_end (ex_point x) = day \<and> hp_series (ex_point x) = series) excluded;
          reasons = sorted_set (concat (map ex_reasons xs)) in
      \<lparr>hp_quarter_end = day, hp_value = None, hp_series = series,
       hp_hash = sha256_hex rt (list_repr (map text_repr (sort (map (\<lambda>x. hp_hash (ex_point x)) xs)))),
       hp_flags = (if reasons = [] then [''missing_observation''] else reasons)\<rparr>)"

definition displayed_point :: "runtime \<Rightarrow> string \<Rightarrow> history_band \<Rightarrow> date \<Rightarrow> history_point" where
  "displayed_point rt series selection day =
     (case find (\<lambda>p. hp_quarter_end p = day) (hb_eligible selection) of
        Some p \<Rightarrow> p
      | None \<Rightarrow> gap_point rt series (hb_excluded selection) day)"

definition withhold_band :: "string \<Rightarrow> history_band \<Rightarrow> history_band" where
  "withhold_band mode band =
     (if mode = ''current_members''
      then band\<lparr>hb_p25 := None, hb_p50 := None, hb_p75 := None,
             hb_flags := sorted_set (hb_flags band @ [''current_members_history''])\<rparr>
      else band)"

definition sector_history ::
  "runtime \<Rightarrow> sector_history_point list \<Rightarrow> date \<Rightarrow> string \<Rightarrow> nat \<Rightarrow> string \<Rightarrow> string
     \<Rightarrow> sector_history_series result" where
  "sector_history rt pts as_of series years mode revision =
     (if years \<notin> {1, 3, 5} \<or> \<not> membership_mode_ok mode \<or> yr as_of \<le> max 3 years then Inl ValueError
      else
        let samples = map (project_point rt mode) pts in
        case historical_band samples as_of series
               \<lparr>hpol_years = max 3 years, minimum_samples = 1, hpol_revision = revision\<rparr> of
          Inl e \<Rightarrow> Inl e
        | Inr selection \<Rightarrow>
            (case historical_band samples as_of series
                    \<lparr>hpol_years = 3, minimum_samples = 12, hpol_revision = revision\<rparr> of
               Inl e \<Rightarrow> Inl e
             | Inr band \<Rightarrow>
                 let start = window_start as_of years in
                 Inr \<lparr>shs_points = map (displayed_point rt series selection)
                        (filter (\<lambda>d. start < d) (hb_expected selection)),
                      shs_band = withhold_band mode band, shs_mode = mode, shs_years = years,
                      shs_snapshot = snapshot_id rt pts as_of series years mode revision, shs_source = pts\<rparr>))"

section \<open>Guarantees\<close>

lemma first_occurrences_set: "set (first_occurrences key xs) \<subseteq> set xs"
  by (induction key xs rule: first_occurrences.induct) auto

lemma first_occurrences_Nil_iff [simp]: "first_occurrences key xs = [] \<longleftrightarrow> xs = []"
  by (cases xs) auto

text \<open>
  C34.  Classification never looks ahead: each requested issuer gets one membership, in order; the evidence
  behind it was in force on the day and known both by the caller's cutoff and by the end of that day; a
  sector is stated only when all such evidence agrees on it, and a missing or contested one is flagged.
\<close>

theorem select_membership_no_lookahead:
  assumes "select_membership issuers assignments as_of known_before = Inr ms"
  shows "map sel_issuer ms = sorted_set issuers
    \<and> (\<forall>m\<in>set ms.
         (\<forall>a\<in>set (sel_evidence m). a \<in> set assignments \<and> mb_issuer a = sel_issuer m \<and> mb_from a \<le> as_of
            \<and> (case mb_to a of None \<Rightarrow> True | Some d \<Rightarrow> as_of < d)
            \<and> instant (mb_known a) \<le> instant known_before \<and> utc_day (mb_known a) \<le> int (toordinal as_of)
            \<and> (sel_sector m \<noteq> None \<longrightarrow> mb_sector a = sel_sector m \<and> mb_industry a = sel_industry m))
         \<and> (sel_sector m \<noteq> None \<longrightarrow> sel_evidence m \<noteq> [])
         \<and> (sel_sector m = None \<longrightarrow> sel_membership_flags m \<noteq> []))"
proof -
  have ms: "ms = map (select_one assignments as_of known_before) (sorted_set issuers)"
    using assms by (simp add: select_membership_def split: if_splits)
  have iss: "sel_issuer (select_one assignments as_of known_before i) = i" for i
    by (simp add: select_one_def Let_def split: list.splits)
  have day: "utc_day t \<le> int (toordinal d)" if "instant t \<le> end_of_day d" for t d
    using that by (simp add: utc_day_def end_of_day_def micros_per_day_def)
  define ev where "ev = membership_evidence assignments as_of known_before"
  have in_ev: "a \<in> set assignments \<and> mb_issuer a = i \<and> mb_from a \<le> as_of
      \<and> (case mb_to a of None \<Rightarrow> True | Some d \<Rightarrow> as_of < d)
      \<and> instant (mb_known a) \<le> instant known_before \<and> utc_day (mb_known a) \<le> int (toordinal as_of)"
    if "a \<in> set (ev i)" for a i
    using that first_occurrences_set[of assignment_key] day[of "mb_known a" as_of]
    by (fastforce simp: ev_def membership_evidence_def in_force_def knowledge_cutoff_def)
  define cl where "cl i = remdups (map (\<lambda>a. (mb_sector a, mb_industry a)) (ev i))" for i
  have one: "(\<forall>a\<in>set (sel_evidence m). a \<in> set (ev i) \<and> (sel_sector m \<noteq> None \<longrightarrow> mb_sector a = sel_sector m \<and> mb_industry a = sel_industry m))
      \<and> (sel_sector m \<noteq> None \<longrightarrow> sel_evidence m \<noteq> []) \<and> (sel_sector m = None \<longrightarrow> sel_membership_flags m \<noteq> [])"
    if m: "m = select_one assignments as_of known_before i" for m i
  proof (cases "\<exists>s d. cl i = [(s, d)]")
    case True
    then obtain s d where c: "cl i = [(s, d)]" by blast
    then have "set (map (\<lambda>a. (mb_sector a, mb_industry a)) (ev i)) = {(s, d)}" unfolding cl_def by (metis empty_set list.simps(15) set_remdups)
    then have "ev i \<noteq> []" "\<forall>a\<in>set (ev i). mb_sector a = s \<and> mb_industry a = d" by auto
    then show ?thesis using c by (simp add: m select_one_def Let_def flip: ev_def cl_def)
  next
    case False
    then have "sel_sector m = None \<and> sel_membership_flags m \<noteq> [] \<and> set (sel_evidence m) \<subseteq> set (ev i)"
      by (auto simp: m select_one_def Let_def simp flip: ev_def cl_def split: list.splits prod.splits)
    then show ?thesis by auto
  qed
  show ?thesis
  proof (intro conjI ballI)
    show "map sel_issuer ms = sorted_set issuers" by (simp add: ms iss comp_def)
  next
    fix m a
    assume "m \<in> set ms" "a \<in> set (sel_evidence m)"
    then obtain i where i: "m = select_one assignments as_of known_before i" by (auto simp: ms)
    from one[OF i] \<open>a \<in> set (sel_evidence m)\<close> have a: "a \<in> set (ev i)"
      "sel_sector m \<noteq> None \<longrightarrow> mb_sector a = sel_sector m \<and> mb_industry a = sel_industry m" by blast+
    from in_ev[OF a(1)] a(2) iss[of i] show "a \<in> set assignments" "mb_issuer a = sel_issuer m" "mb_from a \<le> as_of"
      "case mb_to a of None \<Rightarrow> True | Some d \<Rightarrow> as_of < d" "instant (mb_known a) \<le> instant known_before"
      "utc_day (mb_known a) \<le> int (toordinal as_of)"
      "sel_sector m \<noteq> None \<longrightarrow> mb_sector a = sel_sector m \<and> mb_industry a = sel_industry m"
      unfolding i by simp_all
  next
    fix m
    assume "m \<in> set ms"
    then obtain i where "m = select_one assignments as_of known_before i" by (auto simp: ms)
    from one[OF this] show "sel_sector m \<noteq> None \<longrightarrow> sel_evidence m \<noteq> []" "sel_sector m = None \<longrightarrow> sel_membership_flags m \<noteq> []"
      by blast+
  qed
qed

definition sample_assignment :: "string \<Rightarrow> nat \<Rightarrow> membership_assignment" where
  "sample_assignment sector y = \<lparr>mb_issuer = ''i'', mb_sector = Some sector, mb_industry = None, mb_from = Date 2020 1 1, mb_to = None,
     mb_known = Datetime (int (toordinal (Date y 2 2)) * micros_per_day) (Some 0), mb_refs = [''r'']\<rparr>"

theorem select_membership_no_lookahead_witness:
  "\<exists>ms. select_membership [''i''] [sample_assignment ''tech'' 2020, sample_assignment ''banks'' 2022] (Date 2021 6 30)
      (Datetime (800000 * micros_per_day) (Some 0)) = Inr ms
     \<and> map sel_issuer ms = [''i''] \<and> map sel_sector ms = [Some ''tech'']"
proof -
  have "map_sum id (map sel_sector) (select_membership [''i''] [sample_assignment ''tech'' 2020, sample_assignment ''banks'' 2022] (Date 2021 6 30)
      (Datetime (800000 * micros_per_day) (Some 0))) = Inr [Some ''tech'']" by code_simp
  then obtain ms where ms: "select_membership [''i''] [sample_assignment ''tech'' 2020, sample_assignment ''banks'' 2022] (Date 2021 6 30)
      (Datetime (800000 * micros_per_day) (Some 0)) = Inr ms" "map sel_sector ms = [Some ''tech'']"
    by (cases "select_membership [''i''] [sample_assignment ''tech'' 2020, sample_assignment ''banks'' 2022] (Date 2021 6 30)
      (Datetime (800000 * micros_per_day) (Some 0))") auto
  from select_membership_no_lookahead[OF ms(1)] ms show ?thesis by (simp add: sorted_set_def)
qed

lemma sector_history_Inr:
  assumes "years \<in> {1, 3, 5}" "membership_mode_ok mode" "max 3 years < yr as_of" "nonblank series" "nonblank revision"
  obtains selection band where
    "historical_band (map (project_point rt mode) pts) as_of series
       \<lparr>hpol_years = max 3 years, minimum_samples = 1, hpol_revision = revision\<rparr> = Inr selection"
    "historical_band (map (project_point rt mode) pts) as_of series
       \<lparr>hpol_years = 3, minimum_samples = 12, hpol_revision = revision\<rparr> = Inr band"
    "sector_history rt pts as_of series years mode revision =
       Inr \<lparr>shs_points = map (displayed_point rt series selection) (filter (\<lambda>d. window_start as_of years < d) (hb_expected selection)),
            shs_band = withhold_band mode band, shs_mode = mode, shs_years = years,
            shs_snapshot = snapshot_id rt pts as_of series years mode revision, shs_source = pts\<rparr>"
proof -
  have v: "history_policy_valid \<lparr>hpol_years = max 3 years, minimum_samples = 1, hpol_revision = revision\<rparr>"
    "history_policy_valid \<lparr>hpol_years = 3, minimum_samples = 12, hpol_revision = revision\<rparr>"
    using assms(1,5) by (auto simp: history_policy_valid_def)
  obtain selection where s: "historical_band (map (project_point rt mode) pts) as_of series
       \<lparr>hpol_years = max 3 years, minimum_samples = 1, hpol_revision = revision\<rparr> = Inr selection"
    using historical_band_defined[OF v(1) _ assms(4)] assms(3) by fastforce
  obtain band where b: "historical_band (map (project_point rt mode) pts) as_of series
       \<lparr>hpol_years = 3, minimum_samples = 12, hpol_revision = revision\<rparr> = Inr band"
    using historical_band_defined[OF v(2) _ assms(4)] assms(3) by fastforce
  show ?thesis
    by (rule that[OF s b]) (use assms(1-3) in \<open>simp add: sector_history_def s b Let_def not_le del: One_nat_def\<close>)
qed

lemma eligible_projected:
  assumes "historical_band pts as_of series policy = Inr b" "p \<in> set (hb_eligible b)"
  shows "p \<in> set pts" "hp_flags p = []" "hp_series p = series" "\<exists>d. hp_value p = Some (Finite d)"
proof -
  from historical_band_InrE[OF assms(1)] obtain el ex where
    sel: "band_selection pts as_of series policy = (el, ex)" "hb_eligible b = el" by blast
  have m: "p \<in> set pts \<and> (\<exists>seen. sample_reasons pts (window_start as_of (hpol_years policy)) as_of series seen p = [])"
    using band_selection_clean(4)[OF sel(1)] assms(2) unfolding sel(2) by (rule bspec)
  then obtain seen where "sample_reasons pts (window_start as_of (hpol_years policy)) as_of series seen p = []" by blast
  note r = sample_reasons_Nil[OF this]
  show "p \<in> set pts" "hp_flags p = []" "hp_series p = series" "\<exists>d. hp_value p = Some (Finite d)"
    using m r(2,5,7) by blast+
qed

text \<open>
  For every valid request the sector history is produced.  It shows each expected quarter of the
  window once, in order; a quarter shows a value only from a supplied observation of the requested
  membership mode whose comparison was allowed, and every gap carries a reason.  A history of current
  members never publishes quartiles.
\<close>

theorem sector_history_gaps:
  assumes "years \<in> {1, 3, 5}" "membership_mode_ok mode" "max 3 years < yr as_of" "nonblank series" "nonblank revision"
  shows "\<exists>h. sector_history rt pts as_of series years mode revision = Inr h
    \<and> map hp_quarter_end (shs_points h) = filter (\<lambda>d. window_start as_of years < d) (quarter_ends_between (window_start as_of (max 3 years)) as_of)
    \<and> (\<forall>q\<in>set (shs_points h).
         if hp_value q = None then hp_flags q \<noteq> []
         else hp_flags q = [] \<and> (\<exists>p\<in>set pts. q = project_point rt mode p \<and> shp_mode p = mode \<and> shp_allowed p \<and> shp_series p = series))
    \<and> (mode = ''current_members'' \<longrightarrow> hb_p25 (shs_band h) = None \<and> hb_p50 (shs_band h) = None \<and> hb_p75 (shs_band h) = None
         \<and> ''current_members_history'' \<in> set (hb_flags (shs_band h)))"
proof -
  obtain selection band where
    s: "historical_band (map (project_point rt mode) pts) as_of series
       \<lparr>hpol_years = max 3 years, minimum_samples = 1, hpol_revision = revision\<rparr> = Inr selection"
    and h: "sector_history rt pts as_of series years mode revision =
       Inr \<lparr>shs_points = map (displayed_point rt series selection) (filter (\<lambda>d. window_start as_of years < d) (hb_expected selection)),
            shs_band = withhold_band mode band, shs_mode = mode, shs_years = years,
            shs_snapshot = snapshot_id rt pts as_of series years mode revision, shs_source = pts\<rparr>"
    using assms by (rule sector_history_Inr)
  have ex: "hb_expected selection = quarter_ends_between (window_start as_of (max 3 years)) as_of"
    using historical_band_InrE[OF s] by (metis history_policy.select_convs(1))
  have day: "hp_quarter_end (displayed_point rt series selection d) = d" for d
    by (auto simp: displayed_point_def gap_point_def Let_def find_Some_iff split: option.splits)
  have pt: "if hp_value q = None then hp_flags q \<noteq> []
      else hp_flags q = [] \<and> (\<exists>p\<in>set pts. q = project_point rt mode p \<and> shp_mode p = mode \<and> shp_allowed p \<and> shp_series p = series)"
    if q: "q = displayed_point rt series selection d" for q d
  proof (cases "find (\<lambda>p. hp_quarter_end p = d) (hb_eligible selection)")
    case None
    then show ?thesis by (simp add: q displayed_point_def gap_point_def Let_def)
  next
    case (Some r)
    then have r: "q = r" "r \<in> set (hb_eligible selection)"
      by (simp add: q displayed_point_def) (use Some in \<open>auto simp: find_Some_iff\<close>)
    note e = eligible_projected[OF s r(2)]
    obtain p where p: "p \<in> set pts" "r = project_point rt mode p" using e(1) by auto
    have "hp_flags (project_point rt mode p) = []" using e(2) p(2) by simp
    then have "shp_mode p = mode" "shp_allowed p" by (simp_all add: project_point_def)
    moreover have "shp_series p = series" using e(3) p(2) by (simp add: project_point_def)
    ultimately show ?thesis using e(2,4) p r(1) by auto
  qed
  define hh where "hh = \<lparr>shs_points = map (displayed_point rt series selection) (filter (\<lambda>d. window_start as_of years < d) (hb_expected selection)),
            shs_band = withhold_band mode band, shs_mode = mode, shs_years = years,
            shs_snapshot = snapshot_id rt pts as_of series years mode revision, shs_source = pts\<rparr>"
  have "map hp_quarter_end (shs_points hh) = filter (\<lambda>d. window_start as_of years < d) (quarter_ends_between (window_start as_of (max 3 years)) as_of)"
    by (simp add: hh_def comp_def day ex)
  moreover have "if hp_value q = None then hp_flags q \<noteq> []
      else hp_flags q = [] \<and> (\<exists>p\<in>set pts. q = project_point rt mode p \<and> shp_mode p = mode \<and> shp_allowed p \<and> shp_series p = series)"
    if q: "q \<in> set (shs_points hh)" for q
  proof -
    obtain d where "q = displayed_point rt series selection d" using q by (auto simp: hh_def)
    then show ?thesis by (rule pt)
  qed
  moreover have "mode = ''current_members'' \<longrightarrow> hb_p25 (shs_band hh) = None \<and> hb_p50 (shs_band hh) = None \<and> hb_p75 (shs_band hh) = None
      \<and> ''current_members_history'' \<in> set (hb_flags (shs_band hh))"
    by (simp add: hh_def withhold_band_def)
  ultimately show ?thesis using h[folded hh_def] by (intro exI[of _ hh] conjI ballI)
qed

theorem sector_history_gaps_witness:
  "\<exists>h. sector_history \<lparr>json_loads = (\<lambda>_. None), sha256_hex = id, urlsplit = (\<lambda>_. None), uuid_text = (\<lambda>_. [])\<rparr>
         [] (Date 2024 8 1) ''pe'' 1 ''current_members'' ''v1'' = Inr h
     \<and> map hp_quarter_end (shs_points h) = [Date 2023 9 30, Date 2023 12 31, Date 2024 3 31, Date 2024 6 30]
     \<and> hb_p50 (shs_band h) = None"
proof -
  have v: "(1::nat) \<in> {1, 3, 5}" "membership_mode_ok ''current_members''" "max 3 1 < yr (Date 2024 8 1)" "nonblank ''pe''" "nonblank ''v1''"
    by (simp, simp add: membership_mode_ok_def, simp, code_simp, code_simp)
  have "filter (\<lambda>d. window_start (Date 2024 8 1) 1 < d) (quarter_ends_between (window_start (Date 2024 8 1) (max 3 1)) (Date 2024 8 1))
      = [Date 2023 9 30, Date 2023 12 31, Date 2024 3 31, Date 2024 6 30]" by code_simp
  with sector_history_gaps[OF v] show ?thesis by metis
qed

end
