(* ===== verification/Histogram.thy ===== *)
theory Histogram
  imports Sectors Decimal_Eval
begin

text \<open>
  The histogram of \<open>packages/core/sectors.py\<close>: equal-width bins over the full range of the company
  observations, each observation placed by binary search among the computed boundaries.
\<close>

record histogram_bin =
  bin_lower :: dec
  bin_upper :: dec
  bin_count :: nat
  bin_ids :: "string list"
  bin_upper_inclusive :: bool

text \<open>Python's \<open>min\<close> and \<open>max\<close> of a nonempty sequence keep the first of equal elements.\<close>

fun dec_minimum :: "dec list \<Rightarrow> dec" where
  "dec_minimum [] = dec_zero"
| "dec_minimum (x # xs) = fold (\<lambda>y m. dec_min m y) xs x"

fun dec_maximum :: "dec list \<Rightarrow> dec" where
  "dec_maximum [] = dec_zero"
| "dec_maximum (x # xs) = fold (\<lambda>y m. dec_max m y) xs x"

text \<open>\<open>bisect.bisect_right\<close>, as the standard library writes it.\<close>

function bisect_right :: "dec list \<Rightarrow> dec \<Rightarrow> nat \<Rightarrow> nat \<Rightarrow> nat" where
  "bisect_right bs x lo hi =
     (if lo < hi then
        let mid = (lo + hi) div 2 in
        if dec_lt x (bs ! mid) then bisect_right bs x lo mid else bisect_right bs x (mid + 1) hi
      else lo)"
  by pat_completeness auto
termination
  by (relation "measure (\<lambda>(bs, x, lo, hi). hi - lo)") auto

declare bisect_right.simps [simp del]

definition histogram_context :: "dec \<Rightarrow> dec \<Rightarrow> dctx" where
  "histogram_context lo hi =
     \<lparr>prec = nat (max 50 (max (adjusted lo) (adjusted hi) - min (dexp lo) (dexp hi) + 10)),
      rounding_mode = ROUND_HALF_EVEN, Emin = - 9999, Emax = 9999,
      trap_inexact = False, trap_subnormal = False, trap_underflow = False\<rparr>"

definition boundary :: "dctx \<Rightarrow> dec \<Rightarrow> dec \<Rightarrow> nat \<Rightarrow> nat \<Rightarrow> dec option" where
  "boundary ctx lo width n i =
     Option.bind (dec_mul ctx width (dec_of_nat i))
       (\<lambda>p. Option.bind (dec_div ctx p (dec_of_nat n)) (dec_add ctx lo))"

definition boundaries :: "dec \<Rightarrow> dec \<Rightarrow> nat \<Rightarrow> dec list option" where
  "boundaries lo hi n =
     (let ctx = histogram_context lo hi in
      Option.bind (dec_sub ctx hi lo)
        (\<lambda>width. map_option (\<lambda>bs. bs @ [hi]) (opt_all (map (boundary ctx lo width n) [0..<n]))))"

text \<open>The index of an observation; a negative index counts from the end.\<close>

definition bin_index :: "dec list \<Rightarrow> nat \<Rightarrow> dec \<Rightarrow> nat" where
  "bin_index bs n v =
     (let k = min (int (bisect_right bs v 0 (length bs)) - 1) (int n - 1) in nat (if k < 0 then k + int n else k))"

definition observation_ok :: "company_observation \<Rightarrow> bool" where
  "observation_ok p = (within_limits (co_value p) \<and> co_issuer p \<noteq> [] \<and> co_snapshot p \<noteq> [] \<and> co_hash p \<noteq> [])"

definition bins_of :: "dec list \<Rightarrow> nat \<Rightarrow> company_observation list \<Rightarrow> histogram_bin list" where
  "bins_of bs n obs =
     map (\<lambda>i. let ids = map co_issuer (filter (\<lambda>p. bin_index bs n (co_value p) = i) obs) in
       \<lparr>bin_lower = bs ! i, bin_upper = bs ! (i + 1), bin_count = length ids, bin_ids = sort ids,
        bin_upper_inclusive = (i = n - 1)\<rparr>) [0..<n]"

definition histogram :: "company_observation list \<Rightarrow> nat \<Rightarrow> histogram_bin list result" where
  "histogram obs n =
     (if \<not> (1 \<le> n \<and> n \<le> 100) \<or> \<not> list_all observation_ok obs \<or> \<not> distinct (map co_issuer obs) then Inl ValueError
      else if obs = [] then Inr []
      else
        let lo = dec_minimum (map co_value obs); hi = dec_maximum (map co_value obs) in
        if dec_eq lo hi
        then let ids = sort (map co_issuer obs) in
             Inr [\<lparr>bin_lower = lo, bin_upper = hi, bin_count = length ids, bin_ids = ids, bin_upper_inclusive = True\<rparr>]
        else
          (case boundaries lo hi n of
             None \<Rightarrow> Inl NumericError
           | Some bs \<Rightarrow> Inr (bins_of bs n obs)))"

section \<open>Binary search\<close>






section \<open>Bins\<close>

lemma bin_index_less:
  assumes "1 \<le> n"
  shows "bin_index bs n v < n"
  using assms by (auto simp: bin_index_def Let_def)

lemma mset_concat_buckets:
  assumes "\<forall>x\<in>set xs. f x < n"
  shows "mset (concat (map (\<lambda>i. filter (\<lambda>x. f x = i) xs) [0..<n])) = mset xs"
  using assms
proof (induction n arbitrary: xs)
  case (Suc n)
  have eq: "map (\<lambda>i. filter (\<lambda>x. f x = i) (filter (\<lambda>x. f x < n) xs)) [0..<n] = map (\<lambda>i. filter (\<lambda>x. f x = i) xs) [0..<n]"
    by (auto simp: filter_filter intro: filter_cong)
  have "mset (concat (map (\<lambda>i. filter (\<lambda>x. f x = i) (filter (\<lambda>x. f x < n) xs)) [0..<n])) = mset (filter (\<lambda>x. f x < n) xs)"
    by (rule Suc.IH) simp
  then have "mset (concat (map (\<lambda>i. filter (\<lambda>x. f x = i) xs) [0..<n])) = mset (filter (\<lambda>x. f x < n) xs)" by (simp only: eq)
  moreover have "mset (filter (\<lambda>x. f x < n) xs) + mset (filter (\<lambda>x. f x = n) xs) = mset xs"
  proof -
    have "filter (\<lambda>x. f x = n) xs = filter (\<lambda>x. \<not> f x < n) xs" using Suc.prems by (intro filter_cong refl) (auto simp: less_Suc_eq)
    then show ?thesis by simp
  qed
  ultimately show ?case by simp
qed simp

text \<open>
  The histogram of valid observations loses none of them and counts none twice: the issuers of all
  bins together are exactly the issuers given, and every bin's count is the number of its issuers.
\<close>

theorem histogram_conserves:
  assumes "histogram obs n = Inr bins"
  shows "mset (concat (map bin_ids bins)) = mset (map co_issuer obs)
    \<and> (\<forall>b\<in>set bins. bin_count b = length (bin_ids b))
    \<and> sum_list (map bin_count bins) = length obs"
proof -
  have ids: "mset (concat (map bin_ids bins)) = mset (map co_issuer obs) \<and> (\<forall>b\<in>set bins. bin_count b = length (bin_ids b))"
  proof (cases "obs = [] \<or> dec_eq (dec_minimum (map co_value obs)) (dec_maximum (map co_value obs))")
    case True
    then show ?thesis using assms by (auto simp: histogram_def Let_def split: if_splits)
  next
    case False
    then obtain bs where b: "bins = bins_of bs n obs" "1 \<le> n"
      using assms by (auto simp: histogram_def Let_def split: if_splits option.splits)
    let ?f = "\<lambda>p. bin_index bs n (co_value p)"
    have "mset (concat (map bin_ids bins)) = mset (map co_issuer (concat (map (\<lambda>i. filter (\<lambda>p. ?f p = i) obs) [0..<n])))"
      unfolding b(1) bins_of_def by (induction "[0..<n]") (auto simp: Let_def mset_concat comp_def map_concat)
    also have "\<dots> = mset (map co_issuer obs)"
      using mset_concat_buckets[of obs ?f n] bin_index_less[OF b(2)] by (metis mset_map)
    finally show ?thesis unfolding b(1) by (auto simp: bins_of_def Let_def)
  qed
  have "sum_list (map bin_count bins) = length (concat (map bin_ids bins))"
    using ids by (simp add: length_concat comp_def cong: map_cong)
  also have "\<dots> = length obs" using ids by (metis length_map size_mset)
  finally show ?thesis using ids by simp
qed

definition sample_observations :: "company_observation list" where
  "sample_observations =
     map (\<lambda>(i, v). \<lparr>co_issuer = i, co_snapshot = ''s'', co_value = dec_of_int v, co_hash = ''h''\<rparr>)
       [(''a'', 1), (''b'', 9), (''c'', 4), (''d'', 10)]"

theorem histogram_conserves_witness:
  "\<exists>bins. histogram sample_observations 2 = Inr bins \<and> mset (concat (map bin_ids bins)) = mset (map co_issuer sample_observations)"
proof -
  have e: "\<not> dec_eq (dec_minimum (map co_value sample_observations)) (dec_maximum (map co_value sample_observations))"
    "list_all observation_ok sample_observations" "distinct (map co_issuer sample_observations)" "sample_observations \<noteq> []"
    "boundaries (dec_minimum (map co_value sample_observations)) (dec_maximum (map co_value sample_observations)) 2 \<noteq> None"
    by (code_simp, code_simp, code_simp, code_simp, code_simp)
  obtain bins where b: "histogram sample_observations 2 = Inr bins" using e by (auto simp: histogram_def Let_def)
  from histogram_conserves[OF b] b show ?thesis by blast
qed

end
