(* ===== verification/Sensitivity.thy ===== *)
theory Sensitivity
  imports Valuation Decimal_Laws
begin

text \<open>
  \<open>packages/core/valuation_sensitivity.py\<close>: finite-difference elasticity and the ranking of
  sensitivities by magnitude, in the valuation's 80-digit context.  An uncaught decimal exception is the
  left result.
\<close>

definition elasticity_value :: "dec \<Rightarrow> dec \<Rightarrow> dec \<Rightarrow> dec \<Rightarrow> dec \<Rightarrow> dec \<Rightarrow> dec option" where
  "elasticity_value a b c low reference high = do {
     change \<leftarrow> dec_sub CONTEXT high low;
     relative \<leftarrow> dec_div CONTEXT change reference;
     step \<leftarrow> dec_sub CONTEXT c a;
     relative_step \<leftarrow> dec_div CONTEXT step b;
     dec_div CONTEXT relative relative_step }"

definition elasticity :: "dec list \<Rightarrow> dec option list \<Rightarrow> dec option result" where
  "elasticity inputs outputs =
     (case (inputs, outputs) of
        ([a, b, c], [Some low, Some reference, Some high]) \<Rightarrow>
          if \<not> (dec_lt a b \<and> dec_lt b c) \<or> dec_eq b dec_zero \<or> dec_eq reference dec_zero then Inr None
          else (case elasticity_value a b c low reference high of
                  None \<Rightarrow> Inl NumericError
                | Some e \<Rightarrow> Inr (Some e))
      | _ \<Rightarrow> Inr None)"

text \<open>\<open>abs(x)\<close> of a present value; every present value is measured when one is ranked.\<close>

definition magnitudes :: "dec option list \<Rightarrow> dec list option" where
  "magnitudes vs = opt_all (map (dec_abs CONTEXT) (List.map_filter id vs))"

definition rank_of :: "dec list \<Rightarrow> dec option \<Rightarrow> nat option" where
  "rank_of ms v =
     Option.bind (Option.bind v (dec_abs CONTEXT)) (\<lambda>m. Some (1 + length (filter (\<lambda>o'. dec_lt m o') ms)))"

definition ranks :: "dec option list \<Rightarrow> nat option list result" where
  "ranks vs =
     (case magnitudes vs of
        None \<Rightarrow> Inl NumericError
      | Some ms \<Rightarrow> Inr (map (rank_of ms) vs))"

section \<open>Guarantee\<close>

lemma magnitudes_set:
  assumes "magnitudes vs = Some ms" "Some v \<in> set vs"
  shows "\<exists>m. dec_abs CONTEXT v = Some m \<and> m \<in> set ms"
proof -
  have "map (dec_abs CONTEXT) (List.map_filter id vs) = map Some ms" using assms(1) by (simp add: magnitudes_def opt_all_Some_iff)
  then have "dec_abs CONTEXT ` set (List.map_filter id vs) = Some ` set ms" by (metis list.set_map)
  moreover have "v \<in> set (List.map_filter id vs)" using assms(2) by (auto simp: set_map_filter)
  ultimately show ?thesis by blast
qed

lemma filter_length_subset: "(\<And>x. P x \<Longrightarrow> Q x) \<Longrightarrow> length (filter P xs) \<le> length (filter Q xs)"
  by (induction xs) (auto intro: le_SucI)

text \<open>
  Ranking gives every present sensitivity, and only those, a rank between one and the number of
  present values; the largest magnitude has rank one, and a strictly smaller magnitude never ranks better.
\<close>

lemma ranks_bounded:
  assumes "ranks vs = Inr rs"
  shows "length rs = length vs
    \<and> (\<forall>i<length vs. case vs ! i of
         None \<Rightarrow> rs ! i = None
       | Some v \<Rightarrow> (\<exists>r. rs ! i = Some r \<and> 1 \<le> r \<and> r \<le> length (List.map_filter id vs)))
    \<and> (\<forall>i<length vs. \<forall>j<length vs. \<forall>a b m n. vs ! i = Some a \<and> vs ! j = Some b
         \<and> dec_abs CONTEXT a = Some m \<and> dec_abs CONTEXT b = Some n \<and> dval m \<le> (dval n :: rat)
         \<longrightarrow> the (rs ! j) \<le> the (rs ! i))"
proof -
  obtain ms where ms: "magnitudes vs = Some ms" "rs = map (rank_of ms) vs"
    using assms by (auto simp: ranks_def split: option.splits)
  have len: "length ms = length (List.map_filter id vs)"
    using ms(1) by (metis length_map magnitudes_def opt_all_Some_iff)
  have present: "\<exists>r. rank_of ms (Some v) = Some r \<and> 1 \<le> r \<and> r \<le> length (List.map_filter id vs)" if v: "Some v \<in> set vs" for v
  proof -
    obtain m where m: "dec_abs CONTEXT v = Some m" "m \<in> set ms" using magnitudes_set[OF ms(1) v] by blast
    then have "length (filter (\<lambda>o'. dec_lt m o') ms) < length ms"
      by (intro length_filter_less[of m]) (auto simp: dec_lt_iff[where 'a=rat])
    then show ?thesis using m(1) len by (simp add: rank_of_def)
  qed
  have mono: "the (rank_of ms (Some b)) \<le> the (rank_of ms (Some a))"
    if "dec_abs CONTEXT a = Some m" "dec_abs CONTEXT b = Some n" "dval m \<le> (dval n :: rat)" for a b m n
    using that by (auto simp: rank_of_def dec_lt_iff[where 'a=rat] intro!: filter_length_subset)
  show ?thesis
  proof (intro conjI allI impI)
    show "length rs = length vs" by (simp add: ms(2))
    show "case vs ! i of None \<Rightarrow> rs ! i = None
       | Some v \<Rightarrow> (\<exists>r. rs ! i = Some r \<and> 1 \<le> r \<and> r \<le> length (List.map_filter id vs))" if i: "i < length vs" for i
    proof (cases "vs ! i")
      case (Some v)
      then show ?thesis using present[of v] i by (simp add: ms(2)) (metis nth_mem)
    qed (simp add: ms(2) i rank_of_def)
  qed (use mono in \<open>auto simp: ms(2)\<close>)
qed

lemma ranks_sample:
  "\<exists>rs. ranks [Some (dec_of_int 2), None, Some (dec_of_int (- 5))] = Inr rs \<and> rs ! 1 = None"
proof -
  have "ranks [Some (dec_of_int 2), None, Some (dec_of_int (- 5))] = Inr [Some 2, None, Some 1]" by code_simp
  from ranks_bounded[OF this] this show ?thesis by fastforce
qed

end
