(* ===== verification/Anchors.thy ===== *)
theory Anchors
  imports Operands Samples
begin

text \<open>
  \<open>packages/core/valuation_source.py\<close>: whether a reported annual revenue may anchor a valuation.
  The selector is the key of \<open>schema/fundamentals.py\<close>.
\<close>

record selection_key =
  sk_issuer :: uuid
  sk_security :: uuid
  sk_quote_identifier :: uuid
  sk_period_basis :: string
  sk_period_start :: "date option"
  sk_period_end :: date
  sk_reporting_basis :: string
  sk_currency :: string
  sk_history_mode :: history_mode
  sk_filed_cutoff :: "date option"
  sk_captured_before :: datetime
  sk_as_of :: date
  sk_evaluated_at :: datetime
  sk_profile_revision :: string
  sk_freshness_revision :: string
  sk_history_revision :: string
  sk_trend_revision :: string
  sk_policy_content_hash :: string
  sk_history_years :: nat
  sk_engine_revision :: string

definition published_before :: "financial_input \<Rightarrow> datetime \<Rightarrow> bool" where
  "published_before x valuation_at =
     (case Option.bind (fi_fact x) f_filed of
        None \<Rightarrow> False
      | Some d \<Rightarrow> int (toordinal d) < utc_day valuation_at)"

definition anchor_calendar :: "financial_input \<Rightarrow> selection_key \<Rightarrow> bool" where
  "anchor_calendar x sel =
     (case pd_start (fi_period x) of
        None \<Rightarrow> False
      | Some s \<Rightarrow>
          dy s = 1 \<and> month_end (pd_end (fi_period x)) \<and> months_between s (pd_end (fi_period x)) = 12
          \<and> sk_period_start sel = Some s \<and> pd_end (fi_period x) = sk_period_end sel)"

definition anchor_reasons :: "runtime \<Rightarrow> financial_input \<Rightarrow> selection_key \<Rightarrow> datetime \<Rightarrow> flag list" where
  "anchor_reasons rt x sel valuation_at =
     sorted_set
       (source_issues rt True False [x] [REVENUE]
        @ flag_if (\<not> published_before x valuation_at) ''anchor_intraday_publication_unproven''
        @ flag_if (\<not> anchor_calendar x sel) ''unsupported_anchor_calendar''
        @ (case fi_precision x of
             None \<Rightarrow> [''anchor_precision_unknown'']
           | Some e \<Rightarrow>
               flag_if (case fi_amount rt x of None \<Rightarrow> False | Some v \<Rightarrow> dec_le v (absolute_error e))
                 ''anchor_not_distinguishable_from_zero''))"

text \<open>
  An input without objections anchors a valuation safely: it is a published consolidated revenue of
  the selector's twelve calendar months, filed on a day before the valuation's UTC day, and larger than its
  stated uncertainty.
\<close>

theorem anchor_sound:
  assumes "anchor_reasons rt x sel valuation_at = []"
  shows "\<exists>v e s d. fi_amount rt x = Some v \<and> fi_precision x = Some e \<and> dval (absolute_error e) < (dval v :: rat)
    \<and> fi_concept x = REVENUE \<and> semantic_scope rt x
    \<and> pd_start (fi_period x) = Some s \<and> sk_period_start sel = Some s \<and> dy s = 1
    \<and> pd_end (fi_period x) = sk_period_end sel \<and> month_end (sk_period_end sel) \<and> months_between s (sk_period_end sel) = 12
    \<and> Option.bind (fi_fact x) f_filed = Some d \<and> int (toordinal d) < utc_day valuation_at"
proof -
  have src: "source_issues rt True False [x] [REVENUE] = []" and pub: "published_before x valuation_at"
    and cal: "anchor_calendar x sel" and prec: "fi_precision x \<noteq> None"
    using assms by (auto simp: anchor_reasons_def split: option.splits)
  note s = source_issues_Nil[OF src]
  obtain v where v: "fi_amount rt x = Some v" using s by (auto simp: coherent_def fi_amount_value)
  obtain e where e: "fi_precision x = Some e" using prec by blast
  have "\<not> dec_le v (absolute_error e)" using assms v e by (simp add: anchor_reasons_def)
  moreover obtain st where st: "pd_start (fi_period x) = Some st" "dy st = 1" "month_end (pd_end (fi_period x))"
      "months_between st (pd_end (fi_period x)) = 12" "sk_period_start sel = Some st" "pd_end (fi_period x) = sk_period_end sel"
    using cal by (auto simp: anchor_calendar_def split: option.splits)
  moreover obtain d where d: "Option.bind (fi_fact x) f_filed = Some d" "int (toordinal d) < utc_day valuation_at"
    using pub by (auto simp: published_before_def split: option.splits)
  moreover have "fi_concept x = REVENUE" "semantic_scope rt x" using s by (simp_all add: coherent_def)
  ultimately show ?thesis using v e by (intro exI[of _ v] exI[of _ e] exI[of _ st] exI[of _ d]) (simp add: dec_le_iff[where 'a=rat])
qed

definition sample_selector :: selection_key where
  "sample_selector = \<lparr>sk_issuer = 1, sk_security = 2, sk_quote_identifier = 3, sk_period_basis = ''annual'',
     sk_period_start = Some (Date 2020 1 1), sk_period_end = Date 2020 12 31, sk_reporting_basis = ''us_gaap'',
     sk_currency = ''USD'', sk_history_mode = LATEST_REPORTED, sk_filed_cutoff = None,
     sk_captured_before = Datetime 0 (Some 0), sk_as_of = Date 2021 6 30, sk_evaluated_at = Datetime 0 (Some 0),
     sk_profile_revision = ''v'', sk_freshness_revision = ''v'', sk_history_revision = ''v'', sk_trend_revision = ''v'',
     sk_policy_content_hash = hex64 (CHR ''a''), sk_history_years = 3, sk_engine_revision = ''v''\<rparr>"

theorem anchor_sound_witness:
  "\<exists>v. fi_amount sample_rt (sample_input REVENUE 2 (Some (Date 2020 1 1)) (Date 2020 12 31) (dec_of_int 100)) = Some v
     \<and> 0 < (dval v :: rat)"
proof -
  let ?x = "sample_input REVENUE 2 (Some (Date 2020 1 1)) (Date 2020 12 31) (dec_of_int 100)"
  have t: "int (toordinal (Date 2021 2 1)) < utc_day (Datetime (738000 * micros_per_day) (Some 0))" "month_end (Date 2020 12 31)"
    "months_between (Date 2020 1 1) (Date 2020 12 31) = 12" "\<not> dec_le (dec_of_int 100) (dec_of_int 1)"
    by (code_simp, code_simp, code_simp, code_simp)
  then have "anchor_reasons sample_rt ?x sample_selector (Datetime (738000 * micros_per_day) (Some 0)) = []"
    by (simp add: anchor_reasons_def published_before_def anchor_calendar_def sample_selector_def sample_evals del: One_nat_def)
  from anchor_sound[OF this] show ?thesis by (auto simp: sample_simps)
qed

end
