(* ===== verification/Limiter.thy ===== *)
theory Limiter
  imports Prelude
begin

text \<open>
  \<open>packages/ingest/limiter.py\<close>: one dispatch budget that all workers share in Redis.  The three Lua
  scripts run atomically on the server, so each is a function on the two shared keys and the server's time;
  the Python methods call them and turn their replies into permits and exceptions.  The workers, the clock
  and the scripts together are a step relation, in which any number of workers interleave in any order.
  Time is an exact number of seconds; a hash field that is not set is \<open>None\<close>.
\<close>

section \<open>The shared keys\<close>

record rate_hash =
  h_rate :: "nat option"
  h_blocked :: "rat option"
  h_last :: "rat option"
  h_pending :: "string option"
  h_expires :: "rat option"

text \<open>The second key is a sorted set of tokens, scored by the time of dispatch.\<close>

record limiter =
  lim_hash :: rate_hash
  lim_starts :: "(string \<times> rat) list"

definition empty_hash :: rate_hash where
  "empty_hash = \<lparr>h_rate = None, h_blocked = None, h_last = None, h_pending = None, h_expires = None\<rparr>"

definition hash_exists :: "rate_hash \<Rightarrow> bool" where
  "hash_exists h = (h \<noteq> empty_hash)"

text \<open>\<open>tonumber(redis.call('HGET',KEYS[1],f) or '0')\<close>\<close>

definition num_or_zero :: "rat option \<Rightarrow> rat" where
  "num_or_zero v = (case v of None \<Rightarrow> 0 | Some x \<Rightarrow> x)"

section \<open>The scripts\<close>

datatype reserve_reply = Disagreement | Wait rat rat | Granted rat

definition reserve_init :: "nat \<Rightarrow> rat \<Rightarrow> rate_hash \<Rightarrow> rate_hash" where
  "reserve_init rate now h =
     (if hash_exists h then h
      else h\<lparr>h_rate := Some rate, h_blocked := Some (now + 1), h_last := Some 0\<rparr>)"

definition ready_at :: "nat \<Rightarrow> rate_hash \<Rightarrow> rat" where
  "ready_at rate h =
     max (num_or_zero (h_blocked h)) (max (num_or_zero (h_last h) + 1 / of_nat rate) (num_or_zero (h_expires h)))"

definition reserve :: "nat \<Rightarrow> string \<Rightarrow> rat \<Rightarrow> limiter \<Rightarrow> limiter \<times> reserve_reply" where
  "reserve rate token now s =
     (let h = reserve_init rate now (lim_hash s) in
      if h_rate h \<noteq> Some rate then (s\<lparr>lim_hash := h\<rparr>, Disagreement)
      else if now < ready_at rate h then (s\<lparr>lim_hash := h\<rparr>, Wait (ready_at rate h - now) (ready_at rate h))
      else (s\<lparr>lim_hash := h\<lparr>h_pending := Some token, h_expires := Some (now + 1 / 20)\<rparr>\<rparr>, Granted now))"

definition clear_pending :: "rate_hash \<Rightarrow> rate_hash" where
  "clear_pending h = h\<lparr>h_pending := None, h_expires := None\<rparr>"



datatype cooldown_request = Review | Seconds rat

definition cooldown_target :: "cooldown_request \<Rightarrow> rat \<Rightarrow> rat" where
  "cooldown_target req now = (case req of Review \<Rightarrow> 253370764800 | Seconds d \<Rightarrow> now + d)"

definition cooldown_script :: "cooldown_request \<Rightarrow> nat \<Rightarrow> rat \<Rightarrow> limiter \<Rightarrow> limiter \<times> rat" where
  "cooldown_script req rate now s =
     (let h = lim_hash s;
          until = max (cooldown_target req now) (num_or_zero (h_blocked h));
          h' = (if hash_exists h then h else h\<lparr>h_rate := Some rate, h_last := Some 0\<rparr>) in
      (s\<lparr>lim_hash := clear_pending (h'\<lparr>h_blocked := Some until\<rparr>)\<rparr>, until))"

section \<open>The client\<close>

datatype limiter_error = InvalidArgument | CoordinationUnavailable | PermitExpired | RateDeferred rat

definition mk_rate :: "int \<Rightarrow> string \<Rightarrow> (limiter_error, nat) sum" where
  "mk_rate rate key =
     (if rate < 1 \<or> 10 < rate then Inl InvalidArgument
      else if key = [] \<or> CHR ''{'' \<in> set key \<or> CHR ''}'' \<in> set key then Inl InvalidArgument
      else Inr (nat rate))"

text \<open>
  \<open>acquire\<close> loops over the script's replies, each with the monotonic clock's reading after it.
  It returns a permit, raises, or sleeps and tries again; \<open>None\<close> means that the observed replies
  ended before the loop did.
\<close>

record attempt =
  at_token :: string
  at_reply :: reserve_reply
  at_clock :: rat

fun acquire :: "rat \<Rightarrow> attempt list \<Rightarrow> (limiter_error, string) sum option" where
  "acquire deadline [] = None"
| "acquire deadline (a # as) =
     (case at_reply a of
        Disagreement \<Rightarrow> Some (Inl CoordinationUnavailable)
      | Granted now \<Rightarrow> Some (if deadline \<le> at_clock a then Inl (RateDeferred now) else Inr (at_token a))
      | Wait delay ready \<Rightarrow>
          if deadline \<le> at_clock a + delay then Some (Inl (RateDeferred ready)) else acquire deadline as)"

definition sleep_time :: "reserve_reply \<Rightarrow> rat" where
  "sleep_time r = (case r of Wait delay _ \<Rightarrow> max (1 / 1000) delay | _ \<Rightarrow> 0)"


text \<open>A Python float: \<open>nan\<close>, an infinity, or a number.\<close>

datatype duration = Not_A_Number | Infinite bool | Number rat

definition cooldown_request_of :: "duration \<Rightarrow> rat \<Rightarrow> (limiter_error, cooldown_request) sum" where
  "cooldown_request_of d maximum =
     (case d of
        Not_A_Number \<Rightarrow> Inl InvalidArgument
      | Infinite positive \<Rightarrow> if positive then Inr Review else Inl InvalidArgument
      | Number x \<Rightarrow>
          if x < 0 then Inl InvalidArgument
          else Inr (if maximum \<le> x then Review else Seconds x))"

definition cooldown :: "duration \<Rightarrow> rat \<Rightarrow> nat \<Rightarrow> rat \<Rightarrow> limiter \<Rightarrow> limiter \<times> (limiter_error, rat) sum" where
  "cooldown d maximum rate now s =
     (case cooldown_request_of d maximum of
        Inl e \<Rightarrow> (s, Inl e)
      | Inr req \<Rightarrow> case cooldown_script req rate now s of (t, until) \<Rightarrow> (t, Inr until))"

section \<open>The system\<close>

text \<open>
  What the outside observes, newest first: a dispatch at a time, or that a server asked for silence until
  a time.
\<close>

datatype entry = Dispatched rat | Silence rat





definition dispatches :: "entry list \<Rightarrow> rat list" where
  "dispatches es = List.map_filter (\<lambda>e. case e of Dispatched t \<Rightarrow> Some t | Silence _ \<Rightarrow> None) es"

text \<open>Each dispatch is at least \<open>gap\<close> after the one before it.\<close>

definition spaced :: "rat \<Rightarrow> rat list \<Rightarrow> bool" where
  "spaced gap ts \<longleftrightarrow> sorted_wrt (\<lambda>later earlier. earlier + gap \<le> later) ts"

text \<open>No dispatch comes before the end of a silence that was asked for earlier.\<close>

definition silent :: "entry list \<Rightarrow> bool" where
  "silent es \<longleftrightarrow>
     sorted_wrt (\<lambda>later earlier. case (later, earlier) of (Dispatched t, Silence u) \<Rightarrow> u \<le> t | _ \<Rightarrow> True) es"

section \<open>The invariant\<close>


lemma dispatches_simps [simp]:
  "dispatches [] = []" "dispatches (Dispatched t # es) = t # dispatches es" "dispatches (Silence u # es) = dispatches es"
  by (simp_all add: dispatches_def)




lemma silent_Silence [simp]: "silent (Silence u # es) \<longleftrightarrow> silent es"
  by (auto simp: silent_def)

lemma silent_Dispatched [simp]: "silent (Dispatched t # es) \<longleftrightarrow> (\<forall>u. Silence u \<in> set es \<longrightarrow> u \<le> t) \<and> silent es"
  by (auto simp: silent_def split: entry.splits)

lemma silent_Nil [simp]: "silent []"
  by (simp add: silent_def)


lemma spaced_Nil [simp]: "spaced g []"
  by (simp add: spaced_def)






section \<open>Spacing and windows\<close>




section \<open>Acquisition ends\<close>

text \<open>Between two tries the monotonic clock advances by at least the time slept.\<close>

definition clock_advances :: "attempt list \<Rightarrow> bool" where
  "clock_advances as \<longleftrightarrow>
     (\<forall>i. Suc i < length as \<longrightarrow> at_clock (as ! i) + sleep_time (at_reply (as ! i)) \<le> at_clock (as ! Suc i))"

lemma reserve_wait_positive: "reserve rate token now s = (t, Wait delay ready) \<Longrightarrow> 0 < delay \<and> ready = now + delay"
  by (auto simp: reserve_def Let_def split: if_splits)

lemma acquire_None_waits:
  assumes "acquire deadline as = None" "a \<in> set as"
  shows "\<exists>delay ready. at_reply a = Wait delay ready \<and> at_clock a + delay < deadline"
  using assms
  by (induction deadline as rule: acquire.induct) (auto split: reserve_reply.splits if_splits)

lemma clock_progress:
  assumes "clock_advances as" "acquire deadline as = None" "i < length as"
  shows "at_clock (as ! 0) + of_nat i / 1000 \<le> at_clock (as ! i)"
  using assms(3)
proof (induction i)
  case (Suc i)
  then have "at_clock (as ! i) + sleep_time (at_reply (as ! i)) \<le> at_clock (as ! Suc i)"
    using assms(1) by (simp add: clock_advances_def)
  moreover have "1 / 1000 \<le> sleep_time (at_reply (as ! i))"
    using acquire_None_waits[OF assms(2), of "as ! i"] Suc.prems by (auto simp: sleep_time_def)
  ultimately show ?case using Suc by (simp add: add_divide_distrib)
qed simp

lemma late_clock:
  "c + x / 1000 \<le> e \<Longrightarrow> e + d < D \<Longrightarrow> 0 < d \<Longrightarrow> (D - c) * 1000 + 1 \<le> x + 1 \<Longrightarrow> False" for c x e d D :: rat
  by (auto simp: field_simps)

text \<open>
  Acquisition returns: with waits as the script reports them, at most one try per millisecond up to the
  deadline is left unanswered.
\<close>

lemma acquire_ends:
  assumes "clock_advances as" "\<forall>a\<in>set as. \<forall>d r. at_reply a = Wait d r \<longrightarrow> 0 < d"
    and "as \<noteq> []" "(deadline - at_clock (as ! 0)) * 1000 + 1 \<le> of_nat (length as)"
  shows "\<exists>out. acquire deadline as = Some out"
proof (rule ccontr)
  assume "\<nexists>out. acquire deadline as = Some out"
  then have none: "acquire deadline as = None" by (cases "acquire deadline as") auto
  let ?i = "length as - 1"
  have i: "?i < length as" using assms(3) by (cases as) auto
  obtain d r where "at_reply (as ! ?i) = Wait d r" "at_clock (as ! ?i) + d < deadline"
    using acquire_None_waits[OF none] i nth_mem by blast
  moreover from this have "0 < d" using assms(2) i nth_mem by blast
  moreover note clock_progress[OF assms(1) none i]
  moreover have "(of_nat (length as) :: rat) = of_nat ?i + 1" using i by (simp add: of_nat_diff)
  ultimately show False using assms(4) by (metis late_clock)
qed

text \<open>
  The quiet second after the loss of the shared state does not survive a cooldown: when the first call
  after the loss is a cooldown of zero seconds, the next reservation is granted at once.
\<close>

lemma cooldown_skips_quiet_second:
  "let lost = \<lparr>lim_hash = empty_hash, lim_starts = []\<rparr>;
       cooled = fst (cooldown (Number 0) 1000 5 100 lost) in
   snd (reserve 5 ''t'' 100 lost) = Wait 1 101 \<and> snd (reserve 5 ''t'' 100 cooled) = Granted 100"
  by (simp add: Let_def cooldown_def cooldown_request_of_def cooldown_script_def cooldown_target_def reserve_def
      reserve_init_def hash_exists_def empty_hash_def ready_at_def num_or_zero_def clear_pending_def)

section \<open>A run\<close>




end
