(* ===== verification/Pit.thy ===== *)
theory Pit
  imports Evidence
begin

text \<open>
  \<open>packages/schema/pit.py\<close>: point-in-time reads of frozen evidence.  A read sees one snapshot of the
  tables, in which every query of the source is a selection over rows; the tables are the ones the first
  migration creates, with the columns that the read uses.  Time stamps are instants in microseconds.
\<close>

section \<open>The tables\<close>

record batch_row =
  b_id :: uuid
  b_issuer :: uuid
  b_mapping :: uuid
  b_normalizer :: string
  b_policy :: string
  b_state :: string
  b_input_hash :: "string option"
  b_output_hash :: "string option"

record input_row =
  ni_batch :: uuid
  ni_capture :: uuid
  ni_role :: string

record capture_row =
  cap_id :: uuid
  cap_source :: uuid
  cap_object :: string
  cap_url :: string
  cap_completed :: "int option"
  cap_fetched :: "int option"
  cap_sha256 :: "string option"

record filing_row =
  fl_id :: uuid
  fl_accession :: string

record version_row =
  fv_id :: uuid
  fv_filing :: uuid
  fv_metadata :: uuid
  fv_filed :: date
  fv_accepted :: "int option"
  fv_time_basis :: "string option"

record coverage_row =
  cv_id :: uuid
  cv_batch :: uuid
  cv_version :: uuid
  cv_period :: uuid
  cv_family :: string
  cv_basis :: string
  cv_scope :: uuid
  cv_currency :: "uuid option"
  cv_authority :: string
  cv_assurance :: string
  cv_state :: string

record observation_row =
  so_id :: uuid
  so_capture :: uuid
  so_locator :: string
  so_namespace :: string
  so_tag :: string
  so_value :: "dec option"
  so_text :: "string option"
  so_transform :: json

record resolution_row =
  fr_id :: uuid
  fr_coverage :: uuid
  fr_concept :: string
  fr_scope :: uuid
  fr_instrument :: "uuid option"
  fr_unit :: uuid
  fr_status :: string
  fr_observation :: "uuid option"
  fr_reason :: "string option"

record quality_row =
  qf_id :: uuid
  qf_batch :: "uuid option"
  qf_resolution :: "uuid option"
  qf_issuer :: uuid
  qf_security :: "uuid option"
  qf_period :: "uuid option"
  qf_severity :: string

record event_row =
  fe_id :: uuid
  fe_issuer :: uuid
  fe_kind :: string
  fe_announced :: date
  fe_version :: uuid

record event_scope_row =
  fs_event :: uuid
  fs_filing :: "uuid option"
  fs_period :: "uuid option"
  fs_concept :: "string option"

record evidence_db =
  db_batches :: "batch_row list"
  db_inputs :: "input_row list"
  db_captures :: "capture_row list"
  db_filings :: "filing_row list"
  db_versions :: "version_row list"
  db_coverage :: "coverage_row list"
  db_observations :: "observation_row list"
  db_resolutions :: "resolution_row list"
  db_quality :: "quality_row list"
  db_events :: "event_row list"
  db_event_scopes :: "event_scope_row list"

text \<open>A join along a foreign key finds the one row with that primary key.\<close>

definition by_key :: "('r \<Rightarrow> 'k) \<Rightarrow> 'r list \<Rightarrow> 'k \<Rightarrow> 'r option" where
  "by_key key rows k = find (\<lambda>r. key r = k) rows"

definition joined_rows :: "('r \<Rightarrow> 's option) \<Rightarrow> 'r list \<Rightarrow> ('r \<times> 's) list" where
  "joined_rows other rows = List.map_filter (\<lambda>r. map_option (Pair r) (other r)) rows"

text \<open>\<open>len(set(xs)) > 1\<close>\<close>

definition differ :: "'a list \<Rightarrow> bool" where
  "differ xs = (1 < length (remdups xs))"

section \<open>The capture bundle\<close>

type_synonym input_join = "input_row \<times> capture_row"

definition source_key :: "input_join \<Rightarrow> uuid \<times> string \<times> string" where
  "source_key r = (cap_source (snd r), cap_object (snd r), ni_role (fst r))"

definition fetched_at :: "input_join \<Rightarrow> int" where
  "fetched_at r = (case cap_fetched (snd r) of None \<Rightarrow> 0 | Some t \<Rightarrow> t)"

definition group_of :: "input_join list \<Rightarrow> input_join \<Rightarrow> input_join list" where
  "group_of rows r = filter (\<lambda>s. source_key s = source_key r) rows"

definition newest_fetch :: "input_join list \<Rightarrow> input_join \<Rightarrow> bool" where
  "newest_fetch rows r = list_all (\<lambda>s. fetched_at s \<le> fetched_at r) (group_of rows r)"

definition ambiguous_vintage :: "input_join list \<Rightarrow> bool" where
  "ambiguous_vintage rows =
     list_ex (\<lambda>r. differ (map (\<lambda>s. cap_sha256 (snd s)) (filter (newest_fetch rows) (group_of rows r)))) rows"

definition select_source_captures :: "input_join list \<Rightarrow> uuid list \<times> flag list" where
  "select_source_captures rows =
     (if ambiguous_vintage rows then ([], [''ambiguous_capture_vintage''])
      else
        let chosen = map (\<lambda>r. ni_capture (fst r)) (filter (newest_fetch rows) rows);
            superseded = map (\<lambda>r. ni_capture (fst r)) (filter (\<lambda>r. \<not> newest_fetch rows r) rows) in
        if list_ex (\<lambda>c. c \<in> set superseded) chosen then ([], [''incompatible_source_roles''])
        else (chosen, []))"

definition batch_compatible :: "pit_query \<Rightarrow> batch_row \<Rightarrow> bool" where
  "batch_compatible q b =
     (b_issuer b = q_issuer q \<and> b_mapping b = q_mapping_revision q
      \<and> b_normalizer b = normalizer_revision q \<and> b_policy b = authority_policy_revision q)"

definition batch_rows :: "evidence_db \<Rightarrow> pit_query \<Rightarrow> batch_row list" where
  "batch_rows db q = filter (\<lambda>b. b_id b \<in> set (q_batches q)) (db_batches db)"

definition nondeterministic :: "batch_row list \<Rightarrow> bool" where
  "nondeterministic bs =
     list_ex (\<lambda>b. differ (map b_output_hash (filter (\<lambda>c. b_input_hash c = b_input_hash b) bs))) bs"

definition input_rows :: "evidence_db \<Rightarrow> pit_query \<Rightarrow> input_join list" where
  "input_rows db q =
     joined_rows (\<lambda>i. by_key cap_id (db_captures db) (ni_capture i))
       (filter (\<lambda>i. ni_batch i \<in> set (q_batches q)) (db_inputs db))"

definition known_by :: "int option \<Rightarrow> datetime \<Rightarrow> bool" where
  "known_by t cutoff = (case t of None \<Rightarrow> False | Some x \<Rightarrow> x \<le> instant cutoff)"

definition input_available :: "pit_query \<Rightarrow> input_join \<Rightarrow> bool" where
  "input_available q r =
     (known_by (cap_fetched (snd r)) (captured_before q) \<and> known_by (cap_completed (snd r)) (captured_before q))"

definition event_rows :: "evidence_db \<Rightarrow> pit_query \<Rightarrow> (event_row \<times> version_row) list" where
  "event_rows db q =
     joined_rows (\<lambda>e. by_key fv_id (db_versions db) (fe_version e))
       (filter (\<lambda>e. fe_id e \<in> set (q_events q)) (db_events db))"

definition quality_rows :: "evidence_db \<Rightarrow> pit_query \<Rightarrow> quality_row list" where
  "quality_rows db q = filter (\<lambda>f. qf_id f \<in> set (q_quality_flags q)) (db_quality db)"

definition quality_compatible :: "pit_query \<Rightarrow> quality_row \<Rightarrow> bool" where
  "quality_compatible q f =
     (qf_issuer f = q_issuer q \<and> (qf_period f = None \<or> qf_period f = Some (q_period q))
      \<and> (qf_security f = None \<or> qf_security f = q_security q)
      \<and> (case qf_batch f of None \<Rightarrow> True | Some b \<Rightarrow> b \<in> set (q_batches q)))"

text \<open>Each test of the bundle returns at once; the flags tell which one failed.\<close>

definition capture_bundle :: "evidence_db \<Rightarrow> pit_query \<Rightarrow> uuid list \<times> flag list" where
  "capture_bundle db q =
     (let batches = batch_rows db q; inputs = input_rows db q; events = event_rows db q; quality = quality_rows db q in
      if length batches \<noteq> length (q_batches q) \<or> \<not> list_all (\<lambda>b. b_state b = ''published'') batches
      then ([], [''unpublished_or_missing_batch''])
      else if \<not> list_all (batch_compatible q) batches then ([], [''incompatible_batch_revision''])
      else if nondeterministic batches then ([], [''nondeterministic_normalization''])
      else if set (map (\<lambda>r. ni_capture (fst r)) inputs) \<noteq> set (q_captures q) then ([], [''incompatible_capture_manifest''])
      else if \<not> list_all (input_available q) inputs then ([], [''capture_unavailable''])
      else if length events \<noteq> length (q_events q)
        \<or> \<not> list_all (\<lambda>(e, v). fe_issuer e = q_issuer q \<and> fv_metadata v \<in> set (q_captures q)) events
      then ([], [''incompatible_event_manifest''])
      else if length quality \<noteq> length (q_quality_flags q) \<or> \<not> list_all (quality_compatible q) quality
      then ([], [''incompatible_quality_manifest''])
      else
        case select_source_captures inputs of (selected, flags) \<Rightarrow>
          if flags = [] \<and> \<not> list_all (\<lambda>(e, v). fv_metadata v \<in> set selected) events
          then ([], [''incompatible_event_vintage''])
          else (selected, flags))"

section \<open>Eligible coverage and its edition\<close>

record edition_row =
  ed_coverage :: coverage_row
  ed_version :: version_row
  ed_accession :: string

definition coverage_join :: "evidence_db \<Rightarrow> coverage_row \<Rightarrow> edition_row option" where
  "coverage_join db c =
     Option.bind (by_key fv_id (db_versions db) (cv_version c)) (\<lambda>v.
       map_option (\<lambda>x. \<lparr>ed_coverage = c, ed_version = v, ed_accession = fl_accession x\<rparr>)
         (by_key fl_id (db_filings db) (fv_filing v)))"

definition coverage_matches :: "pit_query \<Rightarrow> coverage_row \<Rightarrow> bool" where
  "coverage_matches q c =
     (cv_batch c \<in> set (q_batches q) \<and> cv_period c = q_period q \<and> cv_family c = statement_family q
      \<and> cv_scope c = q_scope q
      \<and> (cv_currency c = None \<or> cv_currency c = Some (or_else (q_reporting_currency q) (q_unit q))))"

definition allowed_authority :: "pit_query \<Rightarrow> string list" where
  "allowed_authority q =
     ''periodic_complete'' # (if allow_reviewed_equivalent q then [''reviewed_equivalent''] else [])"

definition row_eligible :: "pit_query \<Rightarrow> uuid list \<Rightarrow> edition_row \<Rightarrow> bool" where
  "row_eligible q captures r =
     (fv_metadata (ed_version r) \<in> set captures \<and> cv_authority (ed_coverage r) \<in> set (allowed_authority q)
      \<and> (audited_required q \<longrightarrow> cv_assurance (ed_coverage r) = ''audited'')
      \<and> (case filed_cutoff q of None \<Rightarrow> True | Some d \<Rightarrow> fv_filed (ed_version r) \<le> d))"

definition eligible_coverage :: "evidence_db \<Rightarrow> pit_query \<Rightarrow> uuid list \<Rightarrow> edition_row list" where
  "eligible_coverage db q captures =
     filter (row_eligible q captures)
       (List.map_filter (coverage_join db) (filter (coverage_matches q) (db_coverage db)))"

text \<open>\<open>choose = min if query.mode == ORIGINAL_AS_FILED else max\<close>\<close>

fun least :: "'a::linorder list \<Rightarrow> 'a" where
  "least [] = undefined"
| "least [x] = x"
| "least (x # y # xs) = min x (least (y # xs))"

fun greatest :: "'a::linorder list \<Rightarrow> 'a" where
  "greatest [] = undefined"
| "greatest [x] = x"
| "greatest (x # y # xs) = max x (greatest (y # xs))"

definition pick :: "history_mode \<Rightarrow> 'a::linorder list \<Rightarrow> 'a" where
  "pick mode xs = (if mode = ORIGINAL_AS_FILED then least xs else greatest xs)"

definition accepted_at :: "edition_row \<Rightarrow> int" where
  "accepted_at r = (case fv_accepted (ed_version r) of None \<Rightarrow> 0 | Some t \<Rightarrow> t)"

definition timed :: "edition_row \<Rightarrow> bool" where
  "timed r = (fv_accepted (ed_version r) \<noteq> None \<and> fv_time_basis (ed_version r) = Some ''verified_timezone'')"

definition version_ids :: "edition_row list \<Rightarrow> uuid list" where
  "version_ids rows = map (\<lambda>r. cv_version (ed_coverage r)) rows"

definition filed_finalists :: "history_mode \<Rightarrow> edition_row list \<Rightarrow> edition_row list" where
  "filed_finalists mode rows =
     (let day = pick mode (map (\<lambda>r. fv_filed (ed_version r)) rows) in filter (\<lambda>r. fv_filed (ed_version r) = day) rows)"

definition timed_finalists :: "history_mode \<Rightarrow> edition_row list \<Rightarrow> edition_row list" where
  "timed_finalists mode rows =
     (let t = pick mode (map accepted_at rows) in filter (\<lambda>r. accepted_at r = t) rows)"

definition settled_edition :: "edition_row list \<Rightarrow> edition_row list \<times> flag list" where
  "settled_edition rows =
     (if differ (map (\<lambda>r. cv_basis (ed_coverage r)) rows) then (rows, [''incompatible_reporting_basis''])
      else if list_ex (\<lambda>r. cv_currency (ed_coverage r) = None \<or> cv_state (ed_coverage r) \<noteq> ''covered'') rows
      then (rows, [''unresolved_coverage''])
      else (rows, []))"

definition edition :: "edition_row list \<Rightarrow> pit_query \<Rightarrow> edition_row list \<times> flag list" where
  "edition rows q =
     (let finalists = filed_finalists (q_mode q) rows in
      if differ (version_ids finalists) then
        if \<not> list_all timed finalists then (finalists, [''ambiguous_filing_order''])
        else
          let latest = timed_finalists (q_mode q) finalists in
          if differ (version_ids latest) then (latest, [''ambiguous_filing_order'']) else settled_edition latest
      else settled_edition finalists)"

section \<open>Facts\<close>

type_synonym fact_row = "resolution_row \<times> (observation_row \<times> capture_row option) option"

definition fact_rows :: "evidence_db \<Rightarrow> pit_query \<Rightarrow> edition_row list \<Rightarrow> fact_row list" where
  "fact_rows db q editions =
     map (\<lambda>r. (r, map_option (\<lambda>s. (s, by_key cap_id (db_captures db) (so_capture s)))
                   (Option.bind (fr_observation r) (by_key so_id (db_observations db)))))
       (filter (\<lambda>r. fr_coverage r \<in> set (map (\<lambda>e. cv_id (ed_coverage e)) editions) \<and> fr_scope r = q_scope q
                     \<and> fr_unit r = q_unit q \<and> fr_instrument r = q_instrument q)
         (db_resolutions db))"

definition row_value :: "fact_row \<Rightarrow> dec option" where
  "row_value m = Option.bind (snd m) (\<lambda>(s, c). so_value s)"

definition row_capture :: "fact_row \<Rightarrow> uuid option" where
  "row_capture m = map_option (\<lambda>(s, c). so_capture s) (snd m)"

definition row_sha256 :: "fact_row \<Rightarrow> string option" where
  "row_sha256 m = Option.bind (snd m) (\<lambda>(s, c). Option.bind c cap_sha256)"

definition same_signature :: "fact_row \<Rightarrow> fact_row \<Rightarrow> bool" where
  "same_signature m n =
     (fr_status (fst m) = fr_status (fst n) \<and> rel_option dec_eq (row_value m) (row_value n)
      \<and> fr_observation (fst m) = fr_observation (fst n))"

definition empty_fact :: "concept \<Rightarrow> string \<Rightarrow> selected_fact" where
  "empty_fact k status =
     \<lparr>f_concept = k, f_value = None, f_status = status, f_resolutions = [], f_observations = [], f_accession = None,
      f_filed = None, f_source_url = None, f_source_locator = None, f_captures = [], f_source_hashes = [],
      f_source_tag = None, f_numeric_text = None, f_transform_json = None, f_reason = None, f_flags = []\<rparr>"

definition stale_row :: "uuid list \<Rightarrow> fact_row \<Rightarrow> bool" where
  "stale_row captures m =
     (fr_observation (fst m) \<noteq> None
      \<and> (case row_capture m of None \<Rightarrow> True | Some c \<Rightarrow> c \<notin> set captures))"

definition fact_status :: "uuid list \<Rightarrow> fact_row \<Rightarrow> string" where
  "fact_status captures m = (if stale_row captures m then ''stale_source'' else fr_status (fst m))"

definition resolved_fact ::
  "(json \<Rightarrow> string) \<Rightarrow> concept \<Rightarrow> edition_row list \<Rightarrow> uuid list \<Rightarrow> fact_row list \<Rightarrow> fact_row \<Rightarrow> selected_fact" where
  "resolved_fact dumps k editions captures matches m =
     \<lparr>f_concept = k,
      f_value = (if fact_status captures m = ''observed'' then map_option Finite (row_value m) else None),
      f_status = fact_status captures m,
      f_resolutions = sorted_set (map (\<lambda>x. fr_id (fst x)) matches),
      f_observations = sorted_set (List.map_filter (\<lambda>x. fr_observation (fst x)) matches),
      f_accession = Some (ed_accession (hd editions)),
      f_filed = Some (fv_filed (ed_version (hd editions))),
      f_source_url = Option.bind (snd m) (\<lambda>(s, c). map_option cap_url c),
      f_source_locator = map_option (\<lambda>(s, c). so_locator s) (snd m),
      f_captures = sorted_set (List.map_filter row_capture matches),
      f_source_hashes = sorted_set (filter (\<lambda>h. h \<noteq> []) (List.map_filter row_sha256 matches)),
      f_source_tag = Option.bind (snd m) (\<lambda>(s, c).
        if so_tag s = [] then None else Some (so_namespace s @ '':'' @ so_tag s)),
      f_numeric_text = Option.bind (snd m) (\<lambda>(s, c). so_text s),
      f_transform_json = Option.bind (snd m) (\<lambda>(s, c).
        if so_transform s = JNull then None else Some (dumps (so_transform s))),
      f_reason = fr_reason (fst m), f_flags = []\<rparr>"

text \<open>One fact per requested concept, with the flag it raises.\<close>

definition concept_fact ::
  "(json \<Rightarrow> string) \<Rightarrow> fact_row list \<Rightarrow> edition_row list \<Rightarrow> uuid list \<Rightarrow> concept \<Rightarrow> selected_fact \<times> flag list" where
  "concept_fact dumps rows editions captures k =
     (case filter (\<lambda>m. fr_concept (fst m) = concept_value k) rows of
        [] \<Rightarrow> ((empty_fact k ''missing'')\<lparr>f_reason := Some ''Selected edition has no resolution''\<rparr>, [''unresolved_concept''])
      | m # ms \<Rightarrow>
          if \<not> list_all (same_signature m) ms
          then ((empty_fact k ''ambiguous'')\<lparr>f_resolutions := sorted_set (map (\<lambda>x. fr_id (fst x)) (m # ms))\<rparr>,
                [''ambiguous_resolution''])
          else
            (resolved_fact dumps k editions captures (m # ms) m,
             flag_if (fact_status captures m \<noteq> ''observed'') ''unresolved_concept''))"

definition quality_applies :: "evidence_db \<Rightarrow> pit_query \<Rightarrow> uuid list \<Rightarrow> quality_row \<Rightarrow> bool" where
  "quality_applies db q resolutions f =
     (qf_id f \<in> set (q_quality_flags q)
      \<or> (case qf_batch f of None \<Rightarrow> False | Some b \<Rightarrow> b \<in> set (q_batches q))
        \<and> (case qf_resolution f of
             None \<Rightarrow> qf_period f = None \<or> qf_period f = Some (q_period q)
           | Some r \<Rightarrow> by_key fr_id (db_resolutions db) r \<noteq> None \<and> r \<in> set resolutions))"

definition statement_facts ::
  "(json \<Rightarrow> string) \<Rightarrow> evidence_db \<Rightarrow> pit_query \<Rightarrow> edition_row list \<Rightarrow> uuid list
     \<Rightarrow> selected_fact list \<times> flag list \<times> uuid list" where
  "statement_facts dumps db q editions captures =
     (let results = map (concept_fact dumps (fact_rows db q editions) editions captures) (q_concepts q);
          facts = map fst results;
          quality = filter (quality_applies db q (concat (map f_resolutions facts))) (db_quality db) in
      (facts,
       concat (map snd results)
         @ flag_if (list_ex (\<lambda>f. qf_severity f \<in> {''error'', ''blocking''}) quality) ''blocking_quality_flag'',
       sorted_set (map qf_id quality)))"

definition scope_affects :: "pit_query \<Rightarrow> edition_row list \<Rightarrow> event_scope_row \<Rightarrow> bool" where
  "scope_affects q editions s =
     ((case fs_filing s of None \<Rightarrow> False | Some f \<Rightarrow> f \<in> set (map (\<lambda>r. fv_filing (ed_version r)) editions))
      \<and> (fs_period s = None \<or> fs_period s = Some (q_period q))
      \<and> (case fs_concept s of None \<Rightarrow> True | Some k \<Rightarrow> k \<in> set (map concept_value (q_concepts q))))"

definition affecting_events :: "evidence_db \<Rightarrow> pit_query \<Rightarrow> edition_row list \<Rightarrow> uuid list \<Rightarrow> (uuid \<times> string) list" where
  "affecting_events db q editions captures =
     remdups (map (\<lambda>(e, v). (fe_id e, fe_kind e))
       (filter (\<lambda>(e, v). fe_issuer e = q_issuer q
            \<and> list_ex (\<lambda>s. fs_event s = fe_id e \<and> scope_affects q editions s) (db_event_scopes db)
            \<and> (case filed_cutoff q of None \<Rightarrow> True | Some d \<Rightarrow> fe_announced e \<le> d)
            \<and> fv_metadata v \<in> set captures \<and> fe_kind e \<in> {''non_reliance'', ''withdrawal''})
         (event_rows db q)))"

section \<open>The read\<close>

text \<open>
  The result of a read.  Its hash is taken over the JSON text of everything else in it, which the parameter
  \<open>mt\<close> makes of the selection without its hash.
\<close>

definition harmless_flags :: "flag list" where
  "harmless_flags = [''earliest_available'', ''revised_view'']"

definition statement_result ::
  "runtime \<Rightarrow> (statement_selection \<Rightarrow> string) \<Rightarrow> pit_query \<Rightarrow> flag list \<Rightarrow> edition_row list
     \<Rightarrow> selected_fact list option \<Rightarrow> uuid list \<Rightarrow> uuid list \<Rightarrow> statement_selection" where
  "statement_result rt mt q flags rows facts quality_ids event_ids =
     (let values = (case facts of
            Some fs \<Rightarrow> fs
          | None \<Rightarrow> map (\<lambda>k. (empty_fact k ''unavailable'')\<lparr>f_flags := sorted_set flags\<rparr>) (q_concepts q));
          content = \<lparr>sel_query = q, sel_coverage = sorted_set (map (\<lambda>r. cv_id (ed_coverage r)) rows),
            sel_filing_versions = sorted_set (version_ids rows), sel_facts = values, sel_flags = sorted_set flags,
            sel_quality_flags = quality_ids, sel_events = event_ids,
            usable_for_valuation =
              list_all (\<lambda>f. f \<in> set harmless_flags) flags \<and> list_all (\<lambda>f. f_status f = ''observed'') values,
            reporting_basis = (case rows of [] \<Rightarrow> None | r # _ \<Rightarrow> Some (cv_basis (ed_coverage r))), input_hash = []\<rparr> in
      content\<lparr>input_hash := sha256_hex rt (mt content)\<rparr>)"

definition mode_flags :: "pit_query \<Rightarrow> flag list" where
  "mode_flags q =
     flag_if (q_mode q = ORIGINAL_AS_FILED \<and> \<not> original_history_complete q) ''earliest_available''
     @ flag_if (q_mode q = LATEST_REPORTED) ''revised_view''"

definition read_snapshot ::
  "runtime \<Rightarrow> (json \<Rightarrow> string) \<Rightarrow> (statement_selection \<Rightarrow> string) \<Rightarrow> evidence_db \<Rightarrow> pit_query \<Rightarrow> statement_selection" where
  "read_snapshot rt dumps mt db q =
     (case capture_bundle db q of (captures, bad) \<Rightarrow>
        if bad \<noteq> [] then statement_result rt mt q bad [] None [] []
        else
          let rows = eligible_coverage db q captures in
          if rows = [] then statement_result rt mt q [''coverage_unavailable''] [] None [] []
          else
            case edition rows q of (editions, unsettled) \<Rightarrow>
              if unsettled \<noteq> [] then statement_result rt mt q unsettled editions None [] []
              else
                case statement_facts dumps db q editions captures of (facts, doubts, quality_ids) \<Rightarrow>
                  let events = affecting_events db q editions captures in
                  statement_result rt mt q (doubts @ map snd events @ mode_flags q) editions (Some facts) quality_ids
                    (sorted_set (map fst events)))"

text \<open>A read needs a connection with no transaction of its own, so that its snapshot is consistent.\<close>

definition read_statement ::
  "runtime \<Rightarrow> (json \<Rightarrow> string) \<Rightarrow> (statement_selection \<Rightarrow> string) \<Rightarrow> bool \<Rightarrow> evidence_db \<Rightarrow> pit_query
     \<Rightarrow> statement_selection result" where
  "read_statement rt dumps mt idle db q = guard_value idle (read_snapshot rt dumps mt db q)"

record financial_selection =
  fs_statements :: "statement_selection list"
  fs_flags :: "flag list"
  fs_usable :: bool

definition source_policy ::
  "pit_query \<Rightarrow> uuid \<times> history_mode \<times> date option \<times> int \<times> uuid \<times> string \<times> string
     \<times> uuid set \<times> uuid set \<times> uuid set \<times> bool \<times> bool" where
  "source_policy q =
     (q_issuer q, q_mode q, filed_cutoff q, instant (captured_before q), q_mapping_revision q, normalizer_revision q,
      authority_policy_revision q, set (q_batches q), set (q_captures q), set (q_events q), audited_required q,
      allow_reviewed_equivalent q)"

text \<open>The statements of one period must be compatible with each other.\<close>

definition period_flags :: "statement_selection list \<Rightarrow> flag list" where
  "period_flags members =
     flag_if (differ (filter (\<lambda>b. b \<noteq> []) (List.map_filter reporting_basis members))) ''incompatible_reporting_basis''
     @ (if differ (map (\<lambda>m. statement_family (sel_query m)) members) then
          flag_if (differ (map set (filter (\<lambda>vs. vs \<noteq> []) (map sel_filing_versions members)))) ''mixed_statement_editions''
          @ flag_if (differ (map (\<lambda>m. q_scope (sel_query m)) members)) ''incompatible_semantic_scopes''
          @ flag_if (differ (map (\<lambda>m. or_else (q_reporting_currency (sel_query m)) (q_unit (sel_query m))) members))
              ''incompatible_statement_currencies''
        else [])"

definition read_statements ::
  "runtime \<Rightarrow> (json \<Rightarrow> string) \<Rightarrow> (statement_selection \<Rightarrow> string) \<Rightarrow> bool \<Rightarrow> evidence_db \<Rightarrow> pit_query list
     \<Rightarrow> financial_selection result" where
  "read_statements rt dumps mt idle db qs =
     (if qs = [] \<or> \<not> idle \<or> differ (map source_policy qs) then Inl ValueError
      else
        let results = map (read_snapshot rt dumps mt db) qs;
            flags = concat (map (\<lambda>p. period_flags (filter (\<lambda>r. q_period (sel_query r) = p) results))
                      (remdups (map q_period qs))) in
        Inr \<lparr>fs_statements = results, fs_flags = sorted_set flags,
             fs_usable = (flags = [] \<and> list_all usable_for_valuation results)\<rparr>)"

end
