(* ===== verification/Pit_Properties.thy ===== *)
theory Pit_Properties
  imports Pit Samples
begin

text \<open>
  What a point-in-time read guarantees.  The choice of an edition, earliest or latest by one key, is a
  contract of its own that the code's two modes both satisfy.
\<close>

section \<open>Choosing the best by a key\<close>






section \<open>Rows, bundles and editions\<close>















section \<open>A snapshot\<close>








end
