(* ===== verification/Market.thy ===== *)
theory Market
  imports Pit "HOL-Library.Product_Lexorder"
begin

text \<open>
  \<open>packages/schema/market_selection.py\<close>: reading one price or macro observation from the immutable
  batches of provider responses.  As in \<open>Pit\<close>, a read sees one snapshot of the tables and its SQL
  is a selection over their rows.  Fields of the result that the code always sets together form a group,
  absent until it sets them.
\<close>

section \<open>The tables\<close>

record manifest_meta =
  mm_input_hash :: string
  mm_output_hash :: string
  mm_blob_key :: string
  mm_parser :: string
  mm_normalizer :: string
  mm_selection_policy :: string

record market_batch =
  bt_id :: uuid
  bt_kind :: string
  bt_source :: uuid
  bt_quote :: "uuid option"
  bt_series :: "string option"
  bt_start :: date
  bt_end :: date
  bt_as_of :: "date option"
  bt_state :: string
  bt_coverage :: string
  bt_published :: int
  bt_manifest :: manifest_meta

record batch_input =
  bi_batch :: uuid
  bi_capture :: "uuid option"
  bi_attempt :: "uuid option"
  bi_role :: string

record market_capture = capture_row +
  cap_blob :: "string option"

record fetch_attempt =
  fa_id :: uuid
  fa_prepared :: int
  fa_finished :: "int option"

record market_quality_flag =
  mq_id :: uuid
  mq_rule :: string
  mq_severity :: string
  mq_message :: string
  mq_date :: "date option"
  mq_field :: "string option"
  mq_capture :: "uuid option"
  mq_attempt :: "uuid option"
  mq_locator :: "string option"

record row_meta =
  rm_locator :: string
  rm_date_text :: string
  rm_transform :: string
  rm_precision :: string
  rm_published_date :: "date option"
  rm_published_at :: "int option"

record cell =
  cell_value :: "dec option"
  cell_state :: string
  cell_text :: "string option"

record price_meta =
  pm_security :: uuid
  pm_binding :: uuid
  pm_adjustment :: string
  pm_vintage_basis :: string
  pm_vintage_date :: "date option"
  pm_session_basis :: string
  pm_timezone :: "string option"

record price_row =
  pr_id :: uuid
  pr_day :: date
  pr_batch :: uuid
  pr_capture :: uuid
  pr_meta :: row_meta
  pr_cells :: "(string \<times> cell) list"
  pr_currency :: string
  pr_dividend_currency :: "string option"
  pr_price :: price_meta

record vintage_meta =
  vm_basis :: string
  vm_start :: "date option"
  vm_end :: "date option"
  vm_reference_end :: "date option"
  vm_status :: "string option"

record macro_row =
  mo_id :: uuid
  mo_day :: date
  mo_batch :: uuid
  mo_definition :: uuid
  mo_capture :: uuid
  mo_meta :: row_meta
  mo_cell :: cell
  mo_requested_as_of :: "date option"
  mo_vintage :: vintage_meta

record definition_meta =
  md_unit_code :: string
  md_units_text :: string
  md_multiplier :: dec
  md_frequency :: string
  md_adjustment :: string
  md_basis :: string
  md_as_of :: "date option"

record market_db =
  mdb_batches :: "market_batch list"
  mdb_inputs :: "batch_input list"
  mdb_captures :: "market_capture list"
  mdb_attempts :: "fetch_attempt list"
  mdb_quality :: "(uuid \<times> market_quality_flag) list"
  mdb_prices :: "price_row list"
  mdb_macro :: "macro_row list"
  mdb_definitions :: "(uuid \<times> definition_meta) list"

section \<open>The result\<close>

record provenance =
  pv_role :: string
  pv_capture :: market_capture

record market_selection =
  ms_kind :: string
  ms_source :: uuid
  ms_date :: date
  ms_field :: string
  ms_cell :: "cell option"
  ms_usable :: bool
  ms_batch :: "uuid option"
  ms_candidates :: "uuid list"
  ms_observation :: "uuid option"
  ms_observations :: "uuid list"
  ms_provenance :: "provenance list"
  ms_attempts :: "uuid list"
  ms_flags :: "flag list"
  ms_quality :: "market_quality_flag list"
  ms_coverage :: "string option"
  ms_captured_at :: "int option"
  ms_known_at :: "int option"
  ms_response_at :: "int option"
  ms_capture_age :: "int option"
  ms_age_days :: "int option"
  ms_selection_date :: "date option"
  ms_max_age :: "nat option"
  ms_cutoff :: "datetime option"
  ms_as_of :: "date option"
  ms_source_known :: "datetime option"
  ms_manifest :: "manifest_meta option"
  ms_row :: "row_meta option"
  ms_currency :: "string option"
  ms_quote :: "uuid option"
  ms_price :: "price_meta option"
  ms_series :: "string option"
  ms_definition :: "(uuid \<times> definition_meta) option"
  ms_vintage :: "vintage_meta option"

definition market_query :: "string \<Rightarrow> uuid \<Rightarrow> date \<Rightarrow> string \<Rightarrow> market_selection" where
  "market_query kind source day field =
     \<lparr>ms_kind = kind, ms_source = source, ms_date = day, ms_field = field, ms_cell = None, ms_usable = False,
      ms_batch = None, ms_candidates = [], ms_observation = None, ms_observations = [], ms_provenance = [],
      ms_attempts = [], ms_flags = [], ms_quality = [], ms_coverage = None, ms_captured_at = None,
      ms_known_at = None, ms_response_at = None, ms_capture_age = None, ms_age_days = None,
      ms_selection_date = None, ms_max_age = None, ms_cutoff = None, ms_as_of = None, ms_source_known = None,
      ms_manifest = None, ms_row = None, ms_currency = None, ms_quote = None, ms_price = None, ms_series = None,
      ms_definition = None, ms_vintage = None\<rparr>"

section \<open>Ranking the batches\<close>

definition input_time :: "market_db \<Rightarrow> batch_input \<Rightarrow> int option" where
  "input_time db i =
     (case Option.bind (Option.bind (bi_capture i) (by_key cap_id (mdb_captures db))) cap_completed of
        Some t \<Rightarrow> Some t
      | None \<Rightarrow>
          (case Option.bind (bi_attempt i) (by_key fa_id (mdb_attempts db)) of
             None \<Rightarrow> None
           | Some a \<Rightarrow> Some (case fa_finished a of Some t \<Rightarrow> t | None \<Rightarrow> fa_prepared a)))"

definition response_role :: "batch_input \<Rightarrow> bool" where
  "response_role i = (bi_role i \<in> {''observations'', ''fetch_outcome''})"

definition input_identity :: "batch_input \<Rightarrow> uuid option" where
  "input_identity i = (case bi_capture i of Some c \<Rightarrow> Some c | None \<Rightarrow> bi_attempt i)"

definition maximum :: "'a::linorder list \<Rightarrow> 'a option" where
  "maximum xs = (if xs = [] then None else Some (greatest xs))"

record ranked_batch =
  rb_batch :: market_batch
  rb_response :: int
  rb_known :: "int option"
  rb_ids :: "uuid list"

definition input_eligible :: "market_db \<Rightarrow> datetime option \<Rightarrow> batch_input \<Rightarrow> bool" where
  "input_eligible db cutoff i =
     (case input_time db i of
        None \<Rightarrow> False
      | Some t \<Rightarrow> (case cutoff of None \<Rightarrow> True | Some c \<Rightarrow> t \<le> instant c))"

definition rank :: "market_db \<Rightarrow> datetime option \<Rightarrow> market_batch \<Rightarrow> ranked_batch option" where
  "rank db cutoff b =
     (let inputs = filter (\<lambda>i. bi_batch i = bt_id b) (mdb_inputs db);
          responses = filter response_role inputs in
      if list_all (input_eligible db cutoff) inputs
      then map_option (\<lambda>t. \<lparr>rb_batch = b, rb_response = t, rb_known = maximum (List.map_filter (input_time db) inputs),
               rb_ids = sort (List.map_filter input_identity responses)\<rparr>)
             (maximum (List.map_filter (input_time db) responses))
      else None)"

definition batch_requested :: "market_selection \<Rightarrow> uuid option \<Rightarrow> int \<Rightarrow> market_batch \<Rightarrow> bool" where
  "batch_requested q batch window_start b =
     (bt_state b = ''published'' \<and> bt_source b = ms_source q \<and> bt_kind b = ms_kind q \<and> bt_quote b = ms_quote q
      \<and> bt_series b = ms_series q \<and> bt_start b \<le> ms_date q \<and> window_start \<le> int (toordinal (bt_end b))
      \<and> bt_as_of b = ms_as_of q \<and> (case batch of None \<Rightarrow> True | Some k \<Rightarrow> bt_id b = k))"

text \<open>Newest response first; among equal responses the one published last.\<close>

definition eligible_batches :: "market_db \<Rightarrow> market_selection \<Rightarrow> uuid option \<Rightarrow> int \<Rightarrow> ranked_batch list" where
  "eligible_batches db q batch window_start =
     sort_key (\<lambda>r. (- rb_response r, - bt_published (rb_batch r)))
       (List.map_filter (rank db (ms_cutoff q)) (filter (batch_requested q batch window_start) (mdb_batches db)))"

section \<open>The checks on the selected row\<close>

definition publication_problem :: "date option \<Rightarrow> row_meta \<Rightarrow> datetime \<Rightarrow> date option \<Rightarrow> flag option" where
  "publication_problem realtime_start m cutoff as_of =
     (let late = (\<lambda>d. case d of None \<Rightarrow> False | Some x \<Rightarrow> utc_day cutoff \<le> int (toordinal x)) in
      if late as_of \<or> late realtime_start then Some ''ambiguous_source_vintage_at_instant''
      else if rm_precision m = ''instant'' then
        if known_by (rm_published_at m) cutoff then None else Some ''source_publication_after_cutoff''
      else if rm_precision m = ''date'' then
        if rm_published_date m \<noteq> None \<and> \<not> late (rm_published_date m) then None
        else Some ''ambiguous_source_publication_date''
      else Some ''unknown_source_publication_time'')"

definition future_definition :: "market_selection \<Rightarrow> definition_meta \<Rightarrow> bool" where
  "future_definition q d =
     (case md_as_of d of
        None \<Rightarrow> False
      | Some day \<Rightarrow>
          (case ms_as_of q of None \<Rightarrow> False | Some a \<Rightarrow> a < day)
          \<or> (case ms_source_known q of None \<Rightarrow> False | Some t \<Rightarrow> utc_day t \<le> int (toordinal day)))"

definition vintage_mismatch :: "date option \<Rightarrow> macro_row \<Rightarrow> bool" where
  "vintage_mismatch as_of r =
     (case as_of of
        None \<Rightarrow> False
      | Some a \<Rightarrow>
          mo_requested_as_of r \<noteq> Some a \<or> vm_basis (mo_vintage r) \<notin> {''source_interval'', ''requested_as_of''}
          \<or> (case vm_start (mo_vintage r) of
               None \<Rightarrow> False
             | Some s \<Rightarrow> \<not> (s \<le> a \<and> (case vm_end (mo_vintage r) of None \<Rightarrow> False | Some e \<Rightarrow> a \<le> e))))"

text \<open>
  A request that is refused, and the two lookups along foreign keys that would raise if the tables broke
  their constraints.
\<close>

datatype market_error = Bad_Request | Definition_Missing | Capture_Missing

definition macro_metadata ::
  "market_db \<Rightarrow> market_selection \<Rightarrow> macro_row \<Rightarrow> (market_error, market_selection \<times> flag option) sum" where
  "macro_metadata db q r =
     (case map_of (mdb_definitions db) (mo_definition r) of
        None \<Rightarrow> Inl Definition_Missing
      | Some d \<Rightarrow> Inr
          (if future_definition q d then (q, Some ''future_series_definition'')
           else if vintage_mismatch (ms_as_of q) r then (q, Some ''source_vintage_mismatch'')
           else (q\<lparr>ms_definition := Some (mo_definition r, d), ms_vintage := Some (mo_vintage r)\<rparr>, None)))"

section \<open>Selecting\<close>

definition quality_of :: "market_db \<Rightarrow> uuid \<Rightarrow> date \<Rightarrow> string \<Rightarrow> market_quality_flag list" where
  "quality_of db batch day field =
     sort_key (\<lambda>f. (mq_rule f, mq_id f))
       (map snd (filter (\<lambda>(b, f). b = batch \<and> (mq_date f = None \<or> mq_date f = Some day)
                           \<and> (mq_field f = None \<or> mq_field f = Some field)) (mdb_quality db)))"

definition provenance_of :: "market_db \<Rightarrow> uuid \<Rightarrow> provenance list" where
  "provenance_of db batch =
     sort_key (\<lambda>p. (pv_role p, cap_id (pv_capture p)))
       (List.map_filter (\<lambda>i. map_option (\<lambda>c. \<lparr>pv_role = bi_role i, pv_capture = c\<rparr>)
                              (Option.bind (bi_capture i) (by_key cap_id (mdb_captures db))))
         (filter (\<lambda>i. bi_batch i = batch) (mdb_inputs db)))"

definition attempts_of :: "market_db \<Rightarrow> uuid \<Rightarrow> uuid list" where
  "attempts_of db batch = sort (List.map_filter bi_attempt (filter (\<lambda>i. bi_batch i = batch) (mdb_inputs db)))"

datatype market_row = Price price_row | Macro macro_row

definition row_id :: "market_row \<Rightarrow> uuid" where
  "row_id r = (case r of Price p \<Rightarrow> pr_id p | Macro m \<Rightarrow> mo_id m)"

definition source_capture :: "market_row \<Rightarrow> uuid" where
  "source_capture r = (case r of Price p \<Rightarrow> pr_capture p | Macro m \<Rightarrow> mo_capture m)"

definition row_metadata :: "market_row \<Rightarrow> row_meta" where
  "row_metadata r = (case r of Price p \<Rightarrow> pr_meta p | Macro m \<Rightarrow> mo_meta m)"

definition realtime_start :: "market_row \<Rightarrow> date option" where
  "realtime_start r = (case r of Price p \<Rightarrow> None | Macro m \<Rightarrow> vm_start (mo_vintage m))"

definition rows_of :: "market_db \<Rightarrow> market_selection \<Rightarrow> uuid \<Rightarrow> market_row list" where
  "rows_of db q batch =
     sort_key row_id
       (if ms_kind q = ''price''
        then map Price (filter (\<lambda>p. pr_batch p = batch \<and> pr_day p = ms_date q) (mdb_prices db))
        else map Macro (filter (\<lambda>m. mo_batch m = batch \<and> mo_day m = ms_date q) (mdb_macro db)))"

definition chosen_batch :: "market_db \<Rightarrow> market_selection \<Rightarrow> ranked_batch \<Rightarrow> market_selection" where
  "chosen_batch db q r =
     (let b = rb_batch r in
      q\<lparr>ms_batch := Some (bt_id b), ms_candidates := [bt_id b], ms_coverage := Some (bt_coverage b),
        ms_response_at := Some (rb_response r), ms_known_at := rb_known r,
        ms_provenance := provenance_of db (bt_id b), ms_attempts := attempts_of db (bt_id b),
        ms_quality := quality_of db (bt_id b) (ms_date q) (ms_field q), ms_manifest := Some (bt_manifest b)\<rparr>)"

definition with_flags :: "market_selection \<Rightarrow> flag list \<Rightarrow> market_selection" where
  "with_flags q flags = q\<lparr>ms_flags := sorted_set flags\<rparr>"

definition described_row :: "datetime \<Rightarrow> market_selection \<Rightarrow> market_row \<Rightarrow> int \<Rightarrow> market_selection" where
  "described_row now q r captured =
     (let age_at = or_else (ms_cutoff q) now in
      q\<lparr>ms_observation := Some (row_id r), ms_captured_at := Some captured,
        ms_capture_age := Some (instant age_at - captured),
        ms_age_days := Some (utc_day age_at - int (toordinal (ms_date q))), ms_row := Some (row_metadata r)\<rparr>)"

definition price_currency :: "string \<Rightarrow> price_row \<Rightarrow> string option" where
  "price_currency field p =
     (if field = ''div_cash'' then pr_dividend_currency p
      else if field \<in> {''volume'', ''adj_volume'', ''split_factor''} then None else Some (pr_currency p))"

text \<open>The value, with the flags that its kind of row adds, or the problem that withholds it.\<close>

definition valued_row ::
  "market_db \<Rightarrow> market_selection \<Rightarrow> market_row \<Rightarrow> (market_error, (market_selection \<times> flag list) + (market_selection \<times> flag)) sum" where
  "valued_row db q row =
     (case row of
        Macro m \<Rightarrow>
          (case macro_metadata db q m of
             Inl e \<Rightarrow> Inl e
           | Inr (q', Some problem) \<Rightarrow> Inr (Inr (q', problem))
           | Inr (q', None) \<Rightarrow> Inr (Inl (q'\<lparr>ms_cell := Some (mo_cell m)\<rparr>,
               flag_if (ms_as_of q' \<noteq> None \<and> map_option (\<lambda>d. md_basis (snd d)) (ms_definition q') \<noteq> Some ''source_supplied'')
                 ''definition_history_unavailable'')))
      | Price p \<Rightarrow> Inr (Inl (q\<lparr>ms_cell := map_of (pr_cells p) (ms_field q),
            ms_currency := price_currency (ms_field q) p, ms_price := Some (pr_price p)\<rparr>, [])))"

definition observed :: "market_selection \<Rightarrow> bool" where
  "observed q = (case ms_cell q of None \<Rightarrow> False | Some c \<Rightarrow> cell_state c = ''observed'')"

definition concluded :: "market_selection \<Rightarrow> flag list \<Rightarrow> market_selection" where
  "concluded q flags =
     (let all = flags @ map mq_rule (ms_quality q)
            @ (case ms_cell q of None \<Rightarrow> [''unavailable''] | Some c \<Rightarrow> flag_if (cell_state c \<noteq> ''observed'') (cell_state c))
            @ flag_if (ms_coverage q \<noteq> Some ''complete'') ''incomplete_coverage'';
          blocking = ''definition_history_unavailable'' \<in> set (flags @ map mq_rule (ms_quality q))
            \<or> list_ex (\<lambda>f. mq_severity f \<in> {''error'', ''blocking''}) (ms_quality q)
            \<or> ms_coverage q \<noteq> Some ''complete'' in
      (with_flags q all)\<lparr>ms_usable := (observed q \<and> \<not> blocking)\<rparr>)"

definition row_selection ::
  "market_db \<Rightarrow> datetime \<Rightarrow> market_selection \<Rightarrow> flag list \<Rightarrow> market_row \<Rightarrow> (market_error, market_selection) sum" where
  "row_selection db now q flags r =
     (case Option.bind (find (\<lambda>p. cap_id (pv_capture p) = source_capture r) (ms_provenance q)) (\<lambda>p. cap_completed (pv_capture p)) of
        None \<Rightarrow> Inl Capture_Missing
      | Some captured \<Rightarrow>
          let q' = described_row now q r captured in
          case Option.bind (ms_source_known q) (\<lambda>t. publication_problem (realtime_start r) (row_metadata r) t (ms_as_of q)) of
            Some problem \<Rightarrow> Inr (with_flags q' (problem # flags))
          | None \<Rightarrow>
              case valued_row db q' r of
                Inl e \<Rightarrow> Inl e
              | Inr (Inr (q'', problem)) \<Rightarrow> Inr (with_flags q'' (problem # flags))
              | Inr (Inl (q'', added)) \<Rightarrow> Inr (concluded q'' (flags @ added)))"

definition select_from ::
  "market_db \<Rightarrow> datetime \<Rightarrow> market_selection \<Rightarrow> uuid option \<Rightarrow> ranked_batch list \<Rightarrow> (market_error, market_selection) sum" where
  "select_from db now q batch ranked =
     (case ranked of
        [] \<Rightarrow> Inr (with_flags q [''no_eligible_batch''])
      | r # _ \<Rightarrow>
          let tied = filter (\<lambda>s. rb_response s = rb_response r) ranked in
          if differ (map rb_ids tied)
          then Inr (with_flags (q\<lparr>ms_candidates := map (\<lambda>s. bt_id (rb_batch s)) tied\<rparr>) [''ambiguous_batch''])
          else
            let flags = flag_if (batch \<noteq> None) ''explicit_batch'';
                rows = rows_of db q (bt_id (rb_batch r));
                q' = (chosen_batch db q r)\<lparr>ms_observations := map row_id rows\<rparr> in
            case rows of
              [] \<Rightarrow> Inr (with_flags q' (''missing_observation'' # flags))
            | [row] \<Rightarrow> row_selection db now q' flags row
            | _ \<Rightarrow> Inr (with_flags q' (''ambiguous_observation'' # flags)))"

definition day_window :: "market_selection \<Rightarrow> nat \<Rightarrow> int" where
  "day_window q age = int (toordinal (ms_date q)) - int age"

definition latest_day :: "market_db \<Rightarrow> market_selection \<Rightarrow> int \<Rightarrow> ranked_batch list \<Rightarrow> date option" where
  "latest_day db q first ranked =
     maximum (map mo_day (filter (\<lambda>m. mo_batch m \<in> set (map (\<lambda>r. bt_id (rb_batch r)) ranked)
                                     \<and> first \<le> int (toordinal (mo_day m)) \<and> mo_day m \<le> ms_date q) (mdb_macro db)))"

definition dated :: "market_selection \<Rightarrow> date option \<Rightarrow> market_selection" where
  "dated q day = (case day of None \<Rightarrow> q | Some d \<Rightarrow> q\<lparr>ms_date := d\<rparr>)"

definition reaching :: "date option \<Rightarrow> ranked_batch list \<Rightarrow> ranked_batch list" where
  "reaching day ranked = (case day of None \<Rightarrow> ranked | Some d \<Rightarrow> filter (\<lambda>r. d \<le> bt_end (rb_batch r)) ranked)"

definition carried_back :: "market_selection \<Rightarrow> market_selection \<Rightarrow> market_selection" where
  "carried_back q res =
     (if ms_observation res = None then res
      else (with_flags res (ms_flags res @ flag_if (ms_date res \<noteq> ms_date q) ''backward_selected''))
             \<lparr>ms_age_days := Some (int (toordinal (ms_date q)) - int (toordinal (ms_date res)))\<rparr>)"

definition select_backward ::
  "market_db \<Rightarrow> datetime \<Rightarrow> market_selection \<Rightarrow> uuid option \<Rightarrow> nat \<Rightarrow> (market_error, market_selection) sum" where
  "select_backward db now q batch age =
     (let first = day_window q age; ranked = eligible_batches db q batch first in
      if ranked = [] then Inr (with_flags q [''no_eligible_batch''])
      else
        let day = latest_day db q first ranked in
        map_sum id (carried_back q) (select_from db now (dated q day) batch (reaching day ranked)))"

definition select_exact ::
  "market_db \<Rightarrow> datetime \<Rightarrow> market_selection \<Rightarrow> uuid option \<Rightarrow> (market_error, market_selection) sum" where
  "select_exact db now q batch =
     select_from db now q batch (eligible_batches db q batch (int (toordinal (ms_date q))))"

section \<open>The interface\<close>

text \<open>An idle connection and aware cutoffs are required; then the query runs on one snapshot.\<close>

definition read_market ::
  "bool \<Rightarrow> market_db \<Rightarrow> datetime \<Rightarrow> market_selection \<Rightarrow> uuid option \<Rightarrow> (market_error, market_selection) sum" where
  "read_market idle db now q batch =
     (if \<not> (case ms_cutoff q of None \<Rightarrow> True | Some t \<Rightarrow> aware t) \<or> \<not> (case ms_source_known q of None \<Rightarrow> True | Some t \<Rightarrow> aware t)
       \<or> \<not> idle
      then Inl Bad_Request
      else case ms_max_age q of None \<Rightarrow> select_exact db now q batch | Some age \<Rightarrow> select_backward db now q batch age)"

definition price_fields :: "string list" where
  "price_fields = [''open'', ''high'', ''low'', ''close'', ''volume'', ''adj_open'', ''adj_high'', ''adj_low'', ''adj_close'',
     ''adj_volume'', ''div_cash'', ''split_factor'']"

definition select_price ::
  "bool \<Rightarrow> market_db \<Rightarrow> datetime \<Rightarrow> uuid \<Rightarrow> uuid \<Rightarrow> date \<Rightarrow> string \<Rightarrow> datetime option \<Rightarrow> uuid option \<Rightarrow> datetime option
     \<Rightarrow> (market_error, market_selection) sum" where
  "select_price idle db now source quote day field cutoff batch known =
     (if field \<notin> set price_fields then Inl Bad_Request
      else read_market idle db now
        ((market_query ''price'' source day field)\<lparr>ms_quote := Some quote, ms_cutoff := cutoff, ms_source_known := known\<rparr>) batch)"

text \<open>\<open>s.strip() and s == s.strip()\<close>: not empty, and no space at either end.\<close>

definition exact_key :: "string \<Rightarrow> bool" where
  "exact_key s = (s \<noteq> [] \<and> \<not> is_space (hd s) \<and> \<not> is_space (last s))"

definition select_macro ::
  "bool \<Rightarrow> market_db \<Rightarrow> datetime \<Rightarrow> uuid \<Rightarrow> string \<Rightarrow> date \<Rightarrow> date option \<Rightarrow> datetime option \<Rightarrow> uuid option \<Rightarrow> datetime option
     \<Rightarrow> (market_error, market_selection) sum" where
  "select_macro idle db now source series day as_of cutoff batch known =
     (if \<not> exact_key series then Inl Bad_Request
      else read_market idle db now
        ((market_query ''macro'' source day ''value'')\<lparr>ms_series := Some series, ms_cutoff := cutoff, ms_as_of := as_of,
           ms_source_known := known\<rparr>) batch)"

definition select_macro_at_or_before ::
  "bool \<Rightarrow> market_db \<Rightarrow> datetime \<Rightarrow> uuid \<Rightarrow> string \<Rightarrow> date \<Rightarrow> int \<Rightarrow> date option \<Rightarrow> datetime option \<Rightarrow> uuid option
     \<Rightarrow> datetime option \<Rightarrow> (market_error, market_selection) sum" where
  "select_macro_at_or_before idle db now source series day max_age as_of cutoff batch known =
     (if max_age < 0 \<or> int (toordinal day) \<le> max_age \<or> \<not> exact_key series then Inl Bad_Request
      else read_market idle db now
        ((market_query ''macro'' source day ''value'')\<lparr>ms_series := Some series, ms_selection_date := Some day,
           ms_max_age := Some (nat max_age), ms_cutoff := cutoff, ms_as_of := as_of, ms_source_known := known\<rparr>) batch)"

end
