(* ===== verification/Market_Properties.thy ===== *)
theory Market_Properties
  imports Market Pit_Properties
begin









lemma described_row_fields [simp]:
  "ms_batch (described_row now q r t) = ms_batch q" "ms_response_at (described_row now q r t) = ms_response_at q"
  "ms_date (described_row now q r t) = ms_date q" "ms_coverage (described_row now q r t) = ms_coverage q"
  "ms_quality (described_row now q r t) = ms_quality q" "ms_usable (described_row now q r t) = ms_usable q"
  by (simp_all add: described_row_def Let_def)









section \<open>A snapshot\<close>











end
