(* ===== verification/Source_Json.thy ===== *)
theory Source_Json
  imports Texts Evidence
begin

text \<open>
  Source documents and canonical manifests (\<open>sec_normalize.py\<close>, \<open>financial_types.py\<close>).  A source
  tree is what \<open>json.loads\<close> hands to the hooks: objects as lists of pairs, numbers as the tokens that
  the document spells.  The tokenizer itself, and the name-based UUID, are fields of the runtime record.
\<close>

section \<open>Trees of tokens\<close>

datatype source =
  SNull | SBool bool | SNumber string | SText string | SList "source list" | SDict "(string \<times> source) list"

record ingest_runtime = runtime +
  source_tree :: "string \<Rightarrow> source option"
  uuid5_url :: "string \<Rightarrow> uuid"

definition digits_value :: "string \<Rightarrow> nat" where
  "digits_value s = foldl (\<lambda>n c. 10 * n + (of_char c - 48)) 0 s"

definition signed_digits :: "string \<Rightarrow> int" where
  "signed_digits s =
     (case s of
        [] \<Rightarrow> 0
      | c # cs \<Rightarrow>
          if c = CHR ''-'' then - int (digits_value cs)
          else if c = CHR ''+'' then int (digits_value cs) else int (digits_value s))"

text \<open>\<open>Decimal(text)\<close> is exact: a numeral beyond the exponent limits of the module raises.\<close>

definition exact_decimal :: "dec \<Rightarrow> dec option" where
  "exact_decimal d =
     (if adjusted d \<le> 999999999999999999 \<and> - 1999999999999999997 \<le> dexp d \<and> dexp d \<le> 999999999999999999
      then Some d else None)"

definition fraction_of :: "string \<Rightarrow> string" where
  "fraction_of rest = (case rest of [] \<Rightarrow> [] | c # cs \<Rightarrow> if c = CHR ''.'' then takeWhile is_digit cs else [])"

definition exponent_of :: "string \<Rightarrow> int" where
  "exponent_of rest =
     (case dropWhile (\<lambda>c. c \<noteq> CHR ''e'' \<and> c \<noteq> CHR ''E'') rest of [] \<Rightarrow> 0 | c # cs \<Rightarrow> signed_digits cs)"

definition numeral_value :: "string \<Rightarrow> dec" where
  "numeral_value t =
     (let neg = (t \<noteq> [] \<and> hd t = CHR ''-''); u = (if neg then tl t else t);
          whole = takeWhile is_digit u; rest = dropWhile is_digit u; frac = fraction_of rest in
      Dec neg (digits_value (whole @ frac)) (exponent_of rest - int (length frac)))"

definition decimal_of_token :: "string \<Rightarrow> decimal option" where
  "decimal_of_token t =
     (if t = ''NaN'' then Some NaN
      else if t = ''Infinity'' then Some (Infinity False)
      else if t = ''-Infinity'' then Some (Infinity True)
      else map_option Finite (exact_decimal (numeral_value t)))"

text \<open>\<open>_object\<close> refuses duplicate keys at every level, and \<open>_number\<close> reads every token.\<close>

fun unique_keys :: "source \<Rightarrow> bool" where
  "unique_keys (SDict kvs) \<longleftrightarrow> distinct (map fst kvs) \<and> list_all (\<lambda>kv. unique_keys (snd kv)) kvs"
| "unique_keys (SList xs) \<longleftrightarrow> list_all unique_keys xs"
| "unique_keys _ \<longleftrightarrow> True"

fun readable_numbers :: "source \<Rightarrow> bool" where
  "readable_numbers (SDict kvs) \<longleftrightarrow> list_all (\<lambda>kv. readable_numbers (snd kv)) kvs"
| "readable_numbers (SList xs) \<longleftrightarrow> list_all readable_numbers xs"
| "readable_numbers (SNumber t) \<longleftrightarrow> decimal_of_token t \<noteq> None"
| "readable_numbers _ \<longleftrightarrow> True"

definition parse_source :: "'z ingest_runtime_scheme \<Rightarrow> string \<Rightarrow> (string \<times> source) list result" where
  "parse_source rt body =
     (case source_tree rt body of
        None \<Rightarrow> Inl ValueError
      | Some t \<Rightarrow>
          if \<not> readable_numbers t then Inl NumericError
          else if \<not> unique_keys t then Inl ValueError
          else (case t of SDict kvs \<Rightarrow> Inr kvs | _ \<Rightarrow> Inl ValueError))"

definition source_fields :: "source option \<Rightarrow> (string \<times> source) list option" where
  "source_fields s = (case s of Some (SDict kvs) \<Rightarrow> Some kvs | _ \<Rightarrow> None)"

section \<open>Writing JSON\<close>

definition join_with :: "string \<Rightarrow> string list \<Rightarrow> string" where
  "join_with sep parts = (case parts of [] \<Rightarrow> [] | p # ps \<Rightarrow> p @ concat (map (\<lambda>q. sep @ q) ps))"

definition json_char :: "bool \<Rightarrow> char \<Rightarrow> string" where
  "json_char ascii c =
     (let n = (of_char c :: nat); slash = char_of (92 :: nat) in
      if n = 34 \<or> n = 92 then [slash, c]
      else if n = 8 then [slash, CHR ''b''] else if n = 9 then [slash, CHR ''t'']
      else if n = 10 then [slash, CHR ''n''] else if n = 12 then [slash, CHR ''f'']
      else if n = 13 then [slash, CHR ''r'']
      else if n < 32 \<or> (ascii \<and> 126 < n) then [slash] @ ''u00'' @ [hex_digit (n div 16), hex_digit (n mod 16)]
      else [c])"

definition json_text :: "bool \<Rightarrow> string \<Rightarrow> string" where
  "json_text ascii s = [char_of (34 :: nat)] @ concat (map (json_char ascii) s) @ [char_of (34 :: nat)]"

definition bool_text :: "bool \<Rightarrow> string" where
  "bool_text b = (if b then ''true'' else ''false'')"

fun source_json :: "source \<Rightarrow> string" where
  "source_json (SNumber t) = t"
| "source_json (SDict kvs) =
     ''{'' @ join_with '','' (map (\<lambda>kv. json_text True (fst kv) @ '':'' @ source_json (snd kv)) kvs) @ ''}''"
| "source_json (SList xs) = ''['' @ join_with '','' (map source_json xs) @ '']''"
| "source_json SNull = ''null''"
| "source_json (SBool b) = bool_text b"
| "source_json (SText s) = json_text False s"

section \<open>Canonical manifests\<close>

text \<open>What \<open>canonical_json\<close> is given, after its encoder has turned identifiers, dates and decimals into text.\<close>

datatype manifest =
  MNull | MBool bool | MInt int | MText string | MList "manifest list" | MDict "(string \<times> manifest) list"

definition signed_text :: "int \<Rightarrow> string" where
  "signed_text i = (if i < 0 then ''-'' else []) @ nat_text (nat \<bar>i\<bar>)"

fun canonical_json :: "manifest \<Rightarrow> string" where
  "canonical_json MNull = ''null''"
| "canonical_json (MBool b) = bool_text b"
| "canonical_json (MInt i) = signed_text i"
| "canonical_json (MText s) = json_text True s"
| "canonical_json (MList xs) = ''['' @ join_with '','' (map canonical_json xs) @ '']''"
| "canonical_json (MDict kvs) =
     ''{'' @ join_with '','' (map (\<lambda>kt. json_text True (fst kt) @ '':'' @ snd kt)
        (sort_key fst (map (\<lambda>kv. (fst kv, canonical_json (snd kv))) kvs))) @ ''}''"

definition content_hash :: "'z ingest_runtime_scheme \<Rightarrow> manifest \<Rightarrow> string" where
  "content_hash rt v = sha256_hex rt (canonical_json v)"

definition evidence_id :: "'z ingest_runtime_scheme \<Rightarrow> string \<Rightarrow> manifest \<Rightarrow> uuid" where
  "evidence_id rt kind v = uuid5_url rt (''equityeval:'' @ kind @ '':'' @ canonical_json v)"

definition or_null :: "('a \<Rightarrow> manifest) \<Rightarrow> 'a option \<Rightarrow> manifest" where
  "or_null f v = (case v of None \<Rightarrow> MNull | Some x \<Rightarrow> f x)"

definition m_uuid :: "'z ingest_runtime_scheme \<Rightarrow> uuid \<Rightarrow> manifest" where
  "m_uuid rt i = MText (uuid_text rt i)"

definition m_date :: "date \<Rightarrow> manifest" where
  "m_date d = MText (isoformat d)"

definition m_texts :: "string list \<Rightarrow> manifest" where
  "m_texts xs = MList (map MText xs)"

definition decimal_text :: "decimal \<Rightarrow> string" where
  "decimal_text v =
     (case v of Finite d \<Rightarrow> dec_text d | Infinity neg \<Rightarrow> (if neg then ''-'' else []) @ ''Infinity'' | NaN \<Rightarrow> ''NaN'')"

text \<open>A parsed source value inside a manifest: a number is the dataclass of its token and its value.\<close>

fun source_manifest :: "source \<Rightarrow> manifest" where
  "source_manifest SNull = MNull"
| "source_manifest (SBool b) = MBool b"
| "source_manifest (SNumber t) =
     MDict [(''text'', MText t), (''value'', or_null (\<lambda>v. MText (decimal_text v)) (decimal_of_token t))]"
| "source_manifest (SText s) = MText s"
| "source_manifest (SList xs) = MList (map source_manifest xs)"
| "source_manifest (SDict kvs) = MDict (map (\<lambda>kv. (fst kv, source_manifest (snd kv))) kvs)"

section \<open>Dates in sources\<close>

text \<open>\<open>date.fromisoformat\<close>: \<open>YYYY-MM-DD\<close>, \<open>YYYYMMDD\<close>, and the week dates of ISO 8601.\<close>

definition number_at :: "nat \<Rightarrow> nat \<Rightarrow> string \<Rightarrow> nat option" where
  "number_at i n s =
     (let t = take n (drop i s) in if length t = n \<and> list_all is_digit t then Some (digits_value t) else None)"

definition calendar_date :: "nat \<Rightarrow> nat \<Rightarrow> nat \<Rightarrow> date option" where
  "calendar_date y m d = (if valid_date (Date y m d) then Some (Date y m d) else None)"

definition first_monday :: "nat \<Rightarrow> int" where
  "first_monday y =
     (let first = int (toordinal (Date y 1 1)); weekday = (first + 6) mod 7 in
      first - weekday + (if 3 < weekday then 7 else 0))"

definition shifted_date :: "date \<Rightarrow> int \<Rightarrow> date" where
  "shifted_date d k = (if k < 0 then (prev_day ^^ nat (- k)) d else (next_day ^^ nat k) d)"

definition week_date :: "nat \<Rightarrow> nat \<Rightarrow> nat \<Rightarrow> date option" where
  "week_date y w d =
     (if y < 1 \<or> 9999 < y then None
      else
        let start = first_monday y; weeks = (if first_monday (y + 1) - start = 371 then 53 else 52 :: nat);
            k = start + 7 * (int w - 1) + int d - 1 - int (toordinal (Date y 1 1));
            r = shifted_date (Date y 1 1) k in
        if w < 1 \<or> weeks < w \<or> d < 1 \<or> 7 < d \<or> int (toordinal (Date y 1 1)) + k < 1 \<or> \<not> valid_date r then None else Some r)"

definition fromisoformat :: "string \<Rightarrow> date option" where
  "fromisoformat s =
     (if length s \<notin> {7, 8, 10} then None
      else
        let sep = (s ! 4 = CHR ''-''); i = (if sep then 5 else 4) in
        case number_at 0 4 s of
          None \<Rightarrow> None
        | Some y \<Rightarrow>
            if s ! i = CHR ''W'' then
              (case number_at (i + 1) 2 s of
                 None \<Rightarrow> None
               | Some w \<Rightarrow>
                   if length s = i + 3 then week_date y w 1
                   else if sep \<and> s ! (i + 3) \<noteq> CHR ''-'' then None
                   else (case number_at (if sep then i + 4 else i + 3) 1 s of
                           None \<Rightarrow> None
                         | Some d \<Rightarrow> week_date y w d))
            else
              (case number_at i 2 s of
                 None \<Rightarrow> None
               | Some m \<Rightarrow>
                   if sep \<and> (length s \<noteq> 10 \<or> s ! 7 \<noteq> CHR ''-'') then None
                   else if \<not> sep \<and> length s \<noteq> 8 then None
                   else (case number_at (if sep then 8 else 6) 2 s of
                           None \<Rightarrow> None
                         | Some d \<Rightarrow> calendar_date y m d)))"

end
