(* ===== verification/Sec_Types.thy ===== *)
theory Sec_Types
  imports Source_Json
begin

text \<open>
  The transfer objects of \<open>packages/ingest/financial_types.py\<close> and the dictionaries that hold them.
\<close>

section \<open>Transfer objects\<close>

record evidence_capture =
  ec_id :: uuid
  ec_source :: uuid
  ec_object :: string
  ec_url :: string
  ec_sha256 :: string
  ec_bytes :: nat
  ec_fetched :: datetime
  ec_completed :: datetime
  ec_role :: string

record completeness =
  co_state :: string
  co_start :: date
  co_end :: date
  co_references :: "string list"

definition mk_completeness :: "completeness \<Rightarrow> completeness result" where
  "mk_completeness c = guard_value
     (co_state c \<in> {''complete'', ''incomplete'', ''unknown''} \<and> co_start c \<le> co_end c \<and> co_references c \<noteq> []) c"

record filing_metadata =
  fm_id :: uuid
  fm_filing :: uuid
  fm_issuer :: uuid
  fm_accession :: string
  fm_capture :: uuid
  fm_filed :: date
  fm_form :: string
  fm_url :: string
  fm_hash :: string
  fm_report_end :: "date option"
  fm_accepted :: "datetime option"
  fm_time_basis :: "string option"

record mapping_rule =
  mr_reference :: string
  mr_cik :: string
  mr_accessions :: "string list"
  mr_concept :: concept
  mr_tags :: "string list"
  mr_unit :: string
  mr_scope :: uuid
  mr_evidence :: "string list"
  mr_start :: "date option"
  mr_end :: date
  mr_sha256 :: string
  mr_kind :: string
  mr_instrument :: "uuid option"
  mr_family :: string
  mr_basis :: string
  mr_preferred :: "string option"
  mr_rejected :: "string list"
  mr_rationale :: string

record coverage_request =
  cr_id :: uuid
  cr_version :: uuid
  cr_period :: period_spec
  cr_scope :: scope_spec
  cr_currency :: unit_spec
  cr_family :: string
  cr_basis :: string
  cr_authority :: string
  cr_assurance :: string
  cr_state :: string
  cr_locator :: string
  cr_concepts :: "concept list"
  cr_label :: "string option"

record normalization_input =
  in_issuer :: uuid
  in_cik :: string
  in_facts_capture :: uuid
  in_captures :: "evidence_capture list"
  in_filings :: "filing_metadata list"
  in_requests :: "coverage_request list"
  in_rules :: "mapping_rule list"
  in_mapping_revision :: uuid
  in_parser :: string
  in_normalizer :: string
  in_policy :: string
  in_cutoff :: datetime
  in_inventory :: completeness
  in_events :: completeness
  in_event_ids :: "uuid list"
  in_flag_ids :: "uuid list"
  in_attempt_ids :: "uuid list"

record coverage_item =
  ci_id :: uuid
  ci_version :: uuid
  ci_period :: uuid
  ci_family :: string
  ci_basis :: string
  ci_scope :: uuid
  ci_currency :: "uuid option"
  ci_authority :: string
  ci_assurance :: string
  ci_state :: string
  ci_locator :: string
  ci_label :: "string option"

record source_observation =
  ob_id :: uuid
  ob_capture :: uuid
  ob_version :: uuid
  ob_locator :: string
  ob_namespace :: string
  ob_tag :: string
  ob_period :: uuid
  ob_unit :: uuid
  ob_scope :: "uuid option"
  ob_value :: "dec option"
  ob_state :: string
  ob_text :: "string option"
  ob_parser :: string
  ob_transform :: string
  ob_raw :: string

record resolution =
  rs_id :: uuid
  rs_coverage :: uuid
  rs_concept :: concept
  rs_scope :: uuid
  rs_instrument :: "uuid option"
  rs_unit :: uuid
  rs_status :: string
  rs_selected :: "uuid option"
  rs_reason :: "string option"

record candidate =
  ca_resolution :: uuid
  ca_observation :: uuid
  ca_rule :: string
  ca_disposition :: string
  ca_explanation :: string

record quality_flag =
  qu_id :: uuid
  qu_resolution :: "uuid option"
  qu_issuer :: uuid
  qu_period :: "uuid option"
  qu_rule :: string
  qu_severity :: string
  qu_message :: string
  qu_references :: string

record normalization_bundle =
  nb_inputs :: normalization_input
  nb_periods :: "period_spec list"
  nb_units :: "unit_spec list"
  nb_scopes :: "scope_spec list"
  nb_filings :: "filing_metadata list"
  nb_coverage :: "coverage_item list"
  nb_observations :: "source_observation list"
  nb_resolutions :: "resolution list"
  nb_candidates :: "candidate list"
  nb_flags :: "quality_flag list"
  nb_input_hash :: string
  nb_output_hash :: string
  nb_complete :: bool

text \<open>A dictionary keeps the place of a key that is written again.\<close>

definition dict_put :: "('r \<Rightarrow> uuid) \<Rightarrow> 'r \<Rightarrow> 'r list \<Rightarrow> 'r list" where
  "dict_put key r rows =
     (if key r \<in> set (map key rows) then map (\<lambda>s. if key s = key r then r else s) rows else rows @ [r])"

definition dict_of :: "('r \<Rightarrow> uuid) \<Rightarrow> 'r list \<Rightarrow> 'r list" where
  "dict_of key rows = foldl (\<lambda>d r. dict_put key r d) [] rows"

end
