(* ===== verification/Sec_Manifest.thy ===== *)
theory Sec_Manifest
  imports Sec_Types "HOL-Library.Monad_Syntax"
begin

text \<open>
  The digests of \<open>packages/ingest/sec_normalize.py\<close>: the input digest pins the evidence and the logical
  requests, the output digest replaces every generated identifier by a hash of the row it refers to.
\<close>

section \<open>Instants as text\<close>

text \<open>\<open>date.fromordinal\<close>, by cycles of 400, 100, 4 and 1 years.\<close>

fun month_of_day :: "nat \<Rightarrow> nat \<Rightarrow> nat list \<Rightarrow> nat \<times> nat" where
  "month_of_day y n [] = (12, n + 1)"
| "month_of_day y n (m # ms) = (if n < days_in_month y m then (m, n + 1) else month_of_day y (n - days_in_month y m) ms)"

definition from_ordinal :: "nat \<Rightarrow> date" where
  "from_ordinal ordinal =
     (let n = ordinal - 1; n400 = n div 146097; r400 = n mod 146097; n100 = r400 div 36524; r100 = r400 mod 36524;
          n4 = r100 div 1461; r4 = r100 mod 1461; n1 = r4 div 365; r1 = r4 mod 365;
          y = n400 * 400 + 1 + n100 * 100 + n4 * 4 + n1 in
      if n1 = 4 \<or> n100 = 4 then Date (y - 1) 12 31
      else case month_of_day y r1 [1..<13] of (m, d) \<Rightarrow> Date y m d)"

definition clock_text :: "int \<Rightarrow> bool \<Rightarrow> string" where
  "clock_text micros seconds =
     (let s = micros div 1000000; f = micros mod 1000000 in
      padded 2 (nat (s div 3600)) @ '':'' @ padded 2 (nat (s div 60 mod 60))
      @ (if seconds \<or> s mod 60 \<noteq> 0 \<or> f \<noteq> 0 then '':'' @ padded 2 (nat (s mod 60)) else [])
      @ (if f \<noteq> 0 then ''.'' @ padded 6 (nat f) else []))"

text \<open>\<open>str(datetime)\<close>\<close>

definition datetime_text :: "datetime \<Rightarrow> string" where
  "datetime_text t =
     (let offset = (case utc_offset t of None \<Rightarrow> 0 | Some z \<Rightarrow> z); wall = instant t + offset in
      isoformat (from_ordinal (nat (wall div micros_per_day))) @ '' '' @ clock_text (wall mod micros_per_day) True
      @ (case utc_offset t of None \<Rightarrow> [] | Some z \<Rightarrow> (if z < 0 then ''-'' else ''+'') @ clock_text \<bar>z\<bar> False))"

section \<open>Dictionaries of fields\<close>

definition m_time :: "datetime \<Rightarrow> manifest" where
  "m_time t = MText (datetime_text t)"

definition m_uuids :: "'z ingest_runtime_scheme \<Rightarrow> uuid list \<Rightarrow> manifest" where
  "m_uuids rt xs = MList (map (m_uuid rt) xs)"

text \<open>The value of the last row with a key.\<close>

definition dict_get :: "('r \<Rightarrow> uuid) \<Rightarrow> 'r list \<Rightarrow> uuid \<Rightarrow> 'r option" where
  "dict_get key rows k = find (\<lambda>r. key r = k) (rev rows)"

definition period_fields :: "period_spec \<Rightarrow> (string \<times> manifest) list" where
  "period_fields p =
     [(''period_kind'', MText (period_kind p)), (''start_date'', or_null m_date (pd_start p)), (''end_date'', m_date (pd_end p))]"

definition unit_fields :: "unit_spec \<Rightarrow> (string \<times> manifest) list" where
  "unit_fields u =
     [(''unit_key'', MText (unit_key u)), (''numerator_measures'', m_texts (numerator_measures u)),
      (''denominator_measures'', m_texts (denominator_measures u))]"

definition scope_fields :: "'z ingest_runtime_scheme \<Rightarrow> scope_spec \<Rightarrow> (string \<times> manifest) list" where
  "scope_fields rt s =
     [(''issuer_id'', m_uuid rt (sc_issuer s)), (''instrument_id'', or_null (m_uuid rt) (sc_instrument s)),
      (''scope_kind'', MText (scope_kind s)), (''descriptor_schema_version'', MInt (int (descriptor_schema_version s))),
      (''descriptor_json'', MText (descriptor_json s)), (''content_sha256'', MText (content_sha256 s))]"

definition filing_fields :: "'z ingest_runtime_scheme \<Rightarrow> filing_metadata \<Rightarrow> (string \<times> manifest) list" where
  "filing_fields rt f =
     [(''issuer_id'', m_uuid rt (fm_issuer f)), (''accession'', MText (fm_accession f)),
      (''metadata_capture_id'', m_uuid rt (fm_capture f)), (''filed_date'', m_date (fm_filed f)), (''form'', MText (fm_form f)),
      (''source_url'', MText (fm_url f)), (''metadata_hash'', MText (fm_hash f)),
      (''report_period_end'', or_null m_date (fm_report_end f)), (''acceptance_at'', or_null m_time (fm_accepted f)),
      (''acceptance_time_basis'', or_null MText (fm_time_basis f))]"

definition capture_fields :: "'z ingest_runtime_scheme \<Rightarrow> evidence_capture \<Rightarrow> (string \<times> manifest) list" where
  "capture_fields rt c =
     [(''id'', m_uuid rt (ec_id c)), (''source_id'', m_uuid rt (ec_source c)), (''source_object_key'', MText (ec_object c)),
      (''request_url'', MText (ec_url c)), (''body_sha256'', MText (ec_sha256 c)), (''byte_count'', MInt (int (ec_bytes c))),
      (''fetched_at'', m_time (ec_fetched c)), (''completed_at'', m_time (ec_completed c)), (''role'', MText (ec_role c))]"

definition completeness_fields :: "completeness \<Rightarrow> (string \<times> manifest) list" where
  "completeness_fields c =
     [(''state'', MText (co_state c)), (''boundary_start'', m_date (co_start c)), (''boundary_end'', m_date (co_end c)),
      (''evidence_references'', m_texts (co_references c))]"

section \<open>The input digest\<close>

text \<open>\<open>None\<close> is a reference to a row that is not there (a \<open>KeyError\<close>).\<close>

definition request_manifest :: "'z ingest_runtime_scheme \<Rightarrow> normalization_input \<Rightarrow> coverage_request \<Rightarrow> manifest option" where
  "request_manifest rt inp r = do {
     f \<leftarrow> dict_get fm_id (in_filings inp) (cr_version r);
     p \<leftarrow> dict_get pd_id (map cr_period (in_requests inp)) (pd_id (cr_period r));
     u \<leftarrow> dict_get ut_id (map cr_currency (in_requests inp)) (ut_id (cr_currency r));
     s \<leftarrow> dict_get sc_id (map cr_scope (in_requests inp)) (sc_id (cr_scope r));
     Some (MDict
       [(''filing_version_id'', MDict (filing_fields rt f)), (''period'', MDict (period_fields p)),
        (''scope'', MDict (scope_fields rt s)), (''currency'', MDict (unit_fields u)),
        (''statement_family'', MText (cr_family r)), (''reporting_basis'', MText (cr_basis r)),
        (''authority_class'', MText (cr_authority r)), (''assurance'', MText (cr_assurance r)),
        (''coverage_state'', MText (cr_state r)), (''evidence_locator'', MText (cr_locator r)),
        (''concepts'', m_texts (map concept_value (cr_concepts r))), (''period_label'', or_null MText (cr_label r))]) }"

definition rule_manifest :: "'z ingest_runtime_scheme \<Rightarrow> normalization_input \<Rightarrow> mapping_rule \<Rightarrow> manifest" where
  "rule_manifest rt inp m = MDict
     [(''reference'', MText (mr_reference m)), (''cik'', MText (mr_cik m)), (''accessions'', m_texts (mr_accessions m)),
      (''concept'', MText (concept_value (mr_concept m))), (''qualified_tags'', m_texts (mr_tags m)), (''unit_key'', MText (mr_unit m)),
      (''scope_id'', case dict_get sc_id (map cr_scope (in_requests inp)) (mr_scope m) of
          Some s \<Rightarrow> MDict (scope_fields rt s)
        | None \<Rightarrow> MDict [(''pinned_external_scope_id'', m_uuid rt (mr_scope m))]),
      (''evidence_references'', m_texts (mr_evidence m)), (''period_start'', or_null m_date (mr_start m)),
      (''period_end'', m_date (mr_end m)), (''scope_content_sha256'', MText (mr_sha256 m)), (''scope_kind'', MText (mr_kind m)),
      (''instrument_id'', or_null (m_uuid rt) (mr_instrument m)), (''statement_family'', MText (mr_family m)),
      (''reporting_basis'', MText (mr_basis m)), (''preferred_tag'', or_null MText (mr_preferred m)),
      (''rejected_tags'', m_texts (mr_rejected m)), (''rationale'', MText (mr_rationale m))]"

definition normalization_input_hash :: "'z ingest_runtime_scheme \<Rightarrow> normalization_input \<Rightarrow> string option" where
  "normalization_input_hash rt inp = do {
     requests \<leftarrow> opt_all (map (request_manifest rt inp) (in_requests inp));
     Some (content_hash rt (MDict
       [(''issuer_id'', m_uuid rt (in_issuer inp)), (''cik'', MText (in_cik inp)),
        (''companyfacts_capture_id'', m_uuid rt (in_facts_capture inp)),
        (''captures'', MList (map (\<lambda>c. MDict (capture_fields rt c)) (in_captures inp))),
        (''filings'', MList (map (\<lambda>f. MDict (filing_fields rt f)) (dict_of fm_id (in_filings inp)))),
        (''requests'', MList requests), (''rules'', MList (map (rule_manifest rt inp) (in_rules inp))),
        (''mapping_revision_id'', m_uuid rt (in_mapping_revision inp)), (''parser_revision'', MText (in_parser inp)),
        (''normalizer_revision'', MText (in_normalizer inp)), (''authority_policy_revision'', MText (in_policy inp)),
        (''captured_before'', m_time (in_cutoff inp)),
        (''inventory_completeness'', MDict (completeness_fields (in_inventory inp))),
        (''event_completeness'', MDict (completeness_fields (in_events inp))),
        (''filing_event_ids'', m_uuids rt (in_event_ids inp)), (''additional_quality_flag_ids'', m_uuids rt (in_flag_ids inp)),
        (''attempt_ids'', m_uuids rt (in_attempt_ids inp))])) }"

section \<open>The output digest\<close>

text \<open>The hash that stands for a reference to a row, and for an optional one.\<close>

definition row_hash :: "'z ingest_runtime_scheme \<Rightarrow> (uuid \<Rightarrow> (string \<times> manifest) list option) \<Rightarrow> uuid \<Rightarrow> manifest option" where
  "row_hash rt rows i = map_option (\<lambda>fs. MText (content_hash rt (MDict fs))) (rows i)"

definition opt_row_hash ::
  "'z ingest_runtime_scheme \<Rightarrow> (uuid \<Rightarrow> (string \<times> manifest) list option) \<Rightarrow> uuid option \<Rightarrow> manifest option" where
  "opt_row_hash rt rows i = (case i of None \<Rightarrow> Some MNull | Some x \<Rightarrow> row_hash rt rows x)"

definition period_row :: "normalization_bundle \<Rightarrow> uuid \<Rightarrow> (string \<times> manifest) list option" where
  "period_row b i = map_option period_fields (dict_get pd_id (nb_periods b) i)"

definition unit_row :: "normalization_bundle \<Rightarrow> uuid \<Rightarrow> (string \<times> manifest) list option" where
  "unit_row b i = map_option unit_fields (dict_get ut_id (nb_units b) i)"

definition scope_row :: "'z ingest_runtime_scheme \<Rightarrow> normalization_bundle \<Rightarrow> uuid \<Rightarrow> (string \<times> manifest) list option" where
  "scope_row rt b i = map_option (scope_fields rt) (dict_get sc_id (nb_scopes b) i)"

definition filing_row_of :: "'z ingest_runtime_scheme \<Rightarrow> normalization_bundle \<Rightarrow> uuid \<Rightarrow> (string \<times> manifest) list option" where
  "filing_row_of rt b i = map_option (filing_fields rt) (dict_get fm_id (nb_filings b) i)"

definition coverage_fields ::
  "'z ingest_runtime_scheme \<Rightarrow> normalization_bundle \<Rightarrow> coverage_item \<Rightarrow> (string \<times> manifest) list option" where
  "coverage_fields rt b c = do {
     f \<leftarrow> row_hash rt (filing_row_of rt b) (ci_version c);
     p \<leftarrow> row_hash rt (period_row b) (ci_period c);
     s \<leftarrow> row_hash rt (scope_row rt b) (ci_scope c);
     u \<leftarrow> opt_row_hash rt (unit_row b) (ci_currency c);
     Some [(''filing_version_id'', f), (''period_id'', p), (''statement_family'', MText (ci_family c)),
       (''reporting_basis'', MText (ci_basis c)), (''scope_id'', s), (''currency_unit_id'', u),
       (''authority_class'', MText (ci_authority c)), (''assurance'', MText (ci_assurance c)),
       (''coverage_state'', MText (ci_state c)), (''evidence_locator'', MText (ci_locator c)),
       (''period_label'', or_null MText (ci_label c))] }"

definition observation_fields ::
  "'z ingest_runtime_scheme \<Rightarrow> normalization_bundle \<Rightarrow> source_observation \<Rightarrow> (string \<times> manifest) list option" where
  "observation_fields rt b ob = do {
     f \<leftarrow> row_hash rt (filing_row_of rt b) (ob_version ob);
     p \<leftarrow> row_hash rt (period_row b) (ob_period ob);
     u \<leftarrow> row_hash rt (unit_row b) (ob_unit ob);
     s \<leftarrow> opt_row_hash rt (scope_row rt b) (ob_scope ob);
     Some [(''source_capture_id'', m_uuid rt (ob_capture ob)), (''filing_version_id'', f), (''source_locator'', MText (ob_locator ob)),
       (''namespace'', MText (ob_namespace ob)), (''tag'', MText (ob_tag ob)), (''period_id'', p), (''unit_id'', u),
       (''semantic_scope_id'', s), (''numeric_value'', or_null (\<lambda>d. MText (dec_text d)) (ob_value ob)),
       (''value_state'', MText (ob_state ob)), (''original_numeric_text'', or_null MText (ob_text ob)),
       (''parser_revision'', MText (ob_parser ob)), (''transform_metadata'', MText (ob_transform ob)),
       (''raw_metadata'', MText (ob_raw ob)), (''context_id'', MNull), (''raw_dimensions'', MNull),
       (''context_knowledge'', MText ''unknown'')] }"

definition resolution_fields ::
  "'z ingest_runtime_scheme \<Rightarrow> normalization_bundle \<Rightarrow> resolution \<Rightarrow> (string \<times> manifest) list option" where
  "resolution_fields rt b r = do {
     c \<leftarrow> row_hash rt (\<lambda>i. Option.bind (dict_get ci_id (nb_coverage b) i) (coverage_fields rt b)) (rs_coverage r);
     s \<leftarrow> row_hash rt (scope_row rt b) (rs_scope r);
     u \<leftarrow> row_hash rt (unit_row b) (rs_unit r);
     ob \<leftarrow> opt_row_hash rt (\<lambda>i. Option.bind (dict_get ob_id (nb_observations b) i) (observation_fields rt b)) (rs_selected r);
     Some [(''coverage_id'', c), (''concept_std'', MText (concept_value (rs_concept r))), (''semantic_scope_id'', s),
       (''instrument_id'', or_null (m_uuid rt) (rs_instrument r)), (''unit_id'', u), (''status'', MText (rs_status r)),
       (''selected_observation_id'', ob), (''reason'', or_null MText (rs_reason r))] }"

definition resolution_hash :: "'z ingest_runtime_scheme \<Rightarrow> normalization_bundle \<Rightarrow> uuid \<Rightarrow> manifest option" where
  "resolution_hash rt b = row_hash rt (\<lambda>i. Option.bind (dict_get rs_id (nb_resolutions b) i) (resolution_fields rt b))"

definition candidate_fields ::
  "'z ingest_runtime_scheme \<Rightarrow> normalization_bundle \<Rightarrow> candidate \<Rightarrow> (string \<times> manifest) list option" where
  "candidate_fields rt b c = do {
     r \<leftarrow> resolution_hash rt b (ca_resolution c);
     ob \<leftarrow> row_hash rt (\<lambda>i. Option.bind (dict_get ob_id (nb_observations b) i) (observation_fields rt b)) (ca_observation c);
     Some [(''resolution_id'', r), (''observation_id'', ob), (''rule_reference'', MText (ca_rule c)),
       (''disposition'', MText (ca_disposition c)), (''explanation'', MText (ca_explanation c))] }"

definition flag_fields ::
  "'z ingest_runtime_scheme \<Rightarrow> normalization_bundle \<Rightarrow> quality_flag \<Rightarrow> (string \<times> manifest) list option" where
  "flag_fields rt b q = do {
     r \<leftarrow> (case qu_resolution q of None \<Rightarrow> Some MNull | Some i \<Rightarrow> resolution_hash rt b i);
     p \<leftarrow> opt_row_hash rt (period_row b) (qu_period q);
     Some [(''resolution_id'', r), (''issuer_id'', m_uuid rt (qu_issuer q)), (''period_id'', p), (''rule_key'', MText (qu_rule q)),
       (''severity'', MText (qu_severity q)), (''message'', MText (qu_message q)),
       (''evidence_references'', MText (qu_references q)), (''security_id'', MNull)] }"

text \<open>Rows of one kind, in the order of their canonical text.\<close>

definition sorted_rows :: "(string \<times> manifest) list list \<Rightarrow> manifest" where
  "sorted_rows rows = MList (sort_key canonical_json (map MDict rows))"

definition bundle_output_hash :: "'z ingest_runtime_scheme \<Rightarrow> normalization_bundle \<Rightarrow> string option" where
  "bundle_output_hash rt b = do {
     coverage \<leftarrow> opt_all (map (coverage_fields rt b) (dict_of ci_id (nb_coverage b)));
     observations \<leftarrow> opt_all (map (observation_fields rt b) (dict_of ob_id (nb_observations b)));
     resolutions \<leftarrow> opt_all (map (resolution_fields rt b) (dict_of rs_id (nb_resolutions b)));
     candidates \<leftarrow> opt_all (map (candidate_fields rt b) (nb_candidates b));
     flags \<leftarrow> opt_all (map (flag_fields rt b) (nb_flags b));
     inputs \<leftarrow> normalization_input_hash rt (nb_inputs b);
     Some (content_hash rt (MDict
       [(''input_manifest_hash'', MText inputs), (''original_history_complete'', MBool (nb_complete b)),
        (''output'', MDict
          [(''periods'', sorted_rows (map period_fields (dict_of pd_id (nb_periods b)))),
           (''units'', sorted_rows (map unit_fields (dict_of ut_id (nb_units b)))),
           (''scopes'', sorted_rows (map (scope_fields rt) (dict_of sc_id (nb_scopes b)))),
           (''filings'', sorted_rows (map (filing_fields rt) (dict_of fm_id (nb_filings b)))),
           (''coverage'', sorted_rows coverage), (''observations'', sorted_rows observations),
           (''resolutions'', sorted_rows resolutions), (''candidates'', sorted_rows candidates),
           (''quality_flags'', sorted_rows flags)])])) }"

end
