(* ===== verification/Sec_Normalize.thy ===== *)
theory Sec_Normalize
  imports Sec_Manifest
begin

text \<open>
  \<open>packages/ingest/sec_normalize.py\<close>: one pinned Company Facts document is turned into observations, and each requested concept of each reviewed filing
  into a resolution that is either one directly reported number or a reason why there is none.
\<close>

section \<open>Identities, periods, units\<close>

definition canonical_cik_text :: "string \<Rightarrow> string result" where
  "canonical_cik_text s =
     guard_value (1 \<le> length s \<and> length s \<le> 10 \<and> list_all is_digit s \<and> 0 < digits_value s)
       (replicate (10 - length s) (CHR ''0'') @ s)"

definition canonical_cik :: "source option \<Rightarrow> string result" where
  "canonical_cik v =
     (case v of
        Some (SNumber t) \<Rightarrow>
          guard_value (t \<noteq> [] \<and> list_all is_digit t \<and> 0 < digits_value t \<and> digits_value t < 10000000000)
            (padded 10 (digits_value t))
      | Some (SText s) \<Rightarrow> canonical_cik_text s
      | _ \<Rightarrow> Inl ValueError)"

definition mk_period_spec :: "'z ingest_runtime_scheme \<Rightarrow> date option \<Rightarrow> date \<Rightarrow> period_spec result" where
  "mk_period_spec rt s e =
     (let kind = (if s = None then ''instant'' else ''duration'') in
      guard_value (case s of None \<Rightarrow> True | Some d \<Rightarrow> d \<le> e)
        \<lparr>pd_id = evidence_id rt ''period'' (MList [MText kind, or_null m_date s, m_date e]), period_kind = kind, pd_start = s, pd_end = e\<rparr>)"

definition mk_unit_spec :: "'z ingest_runtime_scheme \<Rightarrow> string \<Rightarrow> unit_spec result" where
  "mk_unit_spec rt key =
     (let spec = (\<lambda>n d. Inr \<lparr>ut_id = evidence_id rt ''unit'' (MText key), unit_key = key, numerator_measures = n, denominator_measures = d\<rparr>) in
      if key = ''shares'' then spec [''xbrli:shares''] []
      else if iso_currency key then spec [''iso4217:'' @ key] []
      else if iso_currency (take 3 key) \<and> drop 3 key = ''/shares'' then spec [''iso4217:'' @ take 3 key] [''xbrli:shares'']
      else Inl ValueError)"

definition concept_unit :: "concept \<Rightarrow> string \<Rightarrow> string" where
  "concept_unit k currency =
     (if k \<in> {EPS_BASIC, EPS_DILUTED} then currency @ ''/shares''
      else if k \<in> {WEIGHTED_AVERAGE_SHARES_BASIC, WEIGHTED_AVERAGE_SHARES_DILUTED, COMMON_SHARES_OUTSTANDING} then ''shares''
      else currency)"

section \<open>The pinned input\<close>

definition body_pinned :: "'z ingest_runtime_scheme \<Rightarrow> normalization_input \<Rightarrow> string \<Rightarrow> bool" where
  "body_pinned rt inp body =
     (case find (\<lambda>c. ec_id c = in_facts_capture inp) (in_captures inp) of
        None \<Rightarrow> False
      | Some c \<Rightarrow> length body = ec_bytes c \<and> sha256_hex rt body = ec_sha256 c)"

definition capture_ready :: "datetime \<Rightarrow> evidence_capture \<Rightarrow> bool" where
  "capture_ready cutoff c =
     (aware (ec_fetched c) \<and> aware (ec_completed c) \<and> instant (ec_fetched c) \<le> instant (ec_completed c)
      \<and> instant (ec_completed c) \<le> instant cutoff)"

definition filing_pinned :: "normalization_input \<Rightarrow> filing_metadata \<Rightarrow> bool" where
  "filing_pinned inp f = (fm_issuer f = in_issuer inp \<and> fm_capture f \<in> set (map ec_id (in_captures inp)))"

definition request_reviewed :: "'z ingest_runtime_scheme \<Rightarrow> normalization_input \<Rightarrow> coverage_request \<Rightarrow> bool" where
  "request_reviewed rt inp r =
     (cr_version r \<in> set (map fm_id (in_filings inp)) \<and> sc_issuer (cr_scope r) = in_issuer inp
      \<and> cr_concepts r \<noteq> [] \<and> distinct (cr_concepts r)
      \<and> (case pd_start (cr_period r) of None \<Rightarrow> True | Some d \<Rightarrow> d \<le> pd_end (cr_period r))
      \<and> cr_locator r \<noteq> [] \<and> descriptor_json (cr_scope r) \<noteq> []
      \<and> sha256_hex rt (descriptor_json (cr_scope r)) = content_sha256 (cr_scope r))"

definition input_valid :: "'z ingest_runtime_scheme \<Rightarrow> normalization_input \<Rightarrow> string \<Rightarrow> bool" where
  "input_valid rt inp body =
     (aware (in_cutoff inp) \<and> canonical_cik_text (in_cik inp) = Inr (in_cik inp)
      \<and> in_requests inp \<noteq> [] \<and> in_captures inp \<noteq> [] \<and> in_filings inp \<noteq> []
      \<and> in_parser inp \<noteq> [] \<and> in_normalizer inp \<noteq> [] \<and> in_policy inp \<noteq> []
      \<and> distinct (map ec_id (in_captures inp)) \<and> body_pinned rt inp body
      \<and> list_all (capture_ready (in_cutoff inp)) (in_captures inp)
      \<and> distinct (map fm_id (in_filings inp)) \<and> list_all (filing_pinned inp) (in_filings inp)
      \<and> distinct (map cr_id (in_requests inp)) \<and> list_all (request_reviewed rt inp) (in_requests inp)
      \<and> distinct (in_event_ids inp) \<and> distinct (in_flag_ids inp) \<and> distinct (in_attempt_ids inp))"

text \<open>A rule applies to exactly the filing, scope, period, family, basis and unit that it was reviewed for.\<close>

definition rule_applies ::
  "normalization_input \<Rightarrow> string \<Rightarrow> coverage_request \<Rightarrow> concept \<Rightarrow> mapping_rule \<Rightarrow> bool" where
  "rule_applies inp accession r k rule =
     (mr_cik rule = in_cik inp \<and> accession \<in> set (mr_accessions rule) \<and> mr_concept rule = k
      \<and> mr_scope rule = sc_id (cr_scope r) \<and> mr_sha256 rule = content_sha256 (cr_scope r)
      \<and> mr_kind rule = scope_kind (cr_scope r) \<and> mr_instrument rule = sc_instrument (cr_scope r)
      \<and> mr_start rule = pd_start (cr_period r) \<and> mr_end rule = pd_end (cr_period r)
      \<and> mr_family rule = cr_family r \<and> mr_basis rule = cr_basis r
      \<and> mr_unit rule = concept_unit k (unit_key (cr_currency r)) \<and> mr_evidence rule \<noteq> [] \<and> mr_reference rule \<noteq> [])"

definition matching_rules :: "normalization_input \<Rightarrow> filing_metadata \<Rightarrow> coverage_request \<Rightarrow> concept \<Rightarrow> mapping_rule list" where
  "matching_rules inp f r k = filter (rule_applies inp (fm_accession f) r k) (in_rules inp)"

definition mk_flag ::
  "'z ingest_runtime_scheme \<Rightarrow> normalization_input \<Rightarrow> coverage_request \<Rightarrow> string \<Rightarrow> string \<Rightarrow> uuid option \<Rightarrow> quality_flag" where
  "mk_flag rt inp r rule message res =
     \<lparr>qu_id = evidence_id rt ''flag'' (MList [m_uuid rt (cr_id r), or_null (m_uuid rt) res, MText rule, MText message]),
      qu_resolution = res, qu_issuer = in_issuer inp, qu_period = Some (pd_id (cr_period r)), qu_rule = rule,
      qu_severity = ''error'', qu_message = message,
      qu_references = canonical_json (MList [MText (cr_locator r), MText (uuid_text rt (in_facts_capture inp))])\<rparr>"

section \<open>Rows of the document\<close>

record source_row =
  sr_qualified :: string
  sr_namespace :: string
  sr_tag :: string
  sr_definition :: "(string \<times> source) list"
  sr_unit :: string
  sr_index :: nat
  sr_fields :: "(string \<times> source) list"

text \<open>\<open>qualified.split(":", 1)\<close>, which must have two parts.\<close>

definition split_tag :: "string \<Rightarrow> (string \<times> string) result" where
  "split_tag q =
     (case dropWhile (\<lambda>c. c \<noteq> CHR '':'') q of [] \<Rightarrow> Inl ValueError | _ # tag \<Rightarrow> Inr (takeWhile (\<lambda>c. c \<noteq> CHR '':'') q, tag))"

definition tag_definition :: "(string \<times> source) list \<Rightarrow> string \<Rightarrow> string \<Rightarrow> (string \<times> source) list" where
  "tag_definition taxonomies namespace tag =
     or_else (source_fields (Option.bind (source_fields (map_of taxonomies namespace)) (\<lambda>t. map_of t tag))) []"

definition filed_rows :: "string \<Rightarrow> source \<Rightarrow> (nat \<times> (string \<times> source) list) list" where
  "filed_rows accession rows =
     (case rows of
        SList xs \<Rightarrow> List.map_filter (\<lambda>(i, x). case x of
            SDict kvs \<Rightarrow> if map_of kvs ''accn'' = Some (SText accession) then Some (i, kvs) else None
          | _ \<Rightarrow> None) (enumerate 0 xs)
      | _ \<Rightarrow> [])"

definition tag_rows :: "(string \<times> source) list \<Rightarrow> string \<Rightarrow> string \<Rightarrow> source_row list result" where
  "tag_rows taxonomies accession q =
     (case split_tag q of
        Inl e \<Rightarrow> Inl e
      | Inr (namespace, tag) \<Rightarrow>
          let definition = tag_definition taxonomies namespace tag;
              units = or_else (source_fields (map_of definition ''units'')) [] in
          Inr (concat (map (\<lambda>(u, rows). map (\<lambda>(i, kvs).
            \<lparr>sr_qualified = q, sr_namespace = namespace, sr_tag = tag, sr_definition = definition, sr_unit = u,
             sr_index = i, sr_fields = kvs\<rparr>) (filed_rows accession rows)) units)))"

fun rows_of_tags :: "(string \<times> source) list \<Rightarrow> string \<Rightarrow> string list \<Rightarrow> source_row list result" where
  "rows_of_tags taxonomies accession [] = Inr []"
| "rows_of_tags taxonomies accession (q # qs) =
     (case tag_rows taxonomies accession q of
        Inl e \<Rightarrow> Inl e
      | Inr rows \<Rightarrow> map_sum id (\<lambda>rest. rows @ rest) (rows_of_tags taxonomies accession qs))"

definition pointer_escape :: "string \<Rightarrow> string" where
  "pointer_escape s = concat (map (\<lambda>c. if c = CHR ''~'' then ''~0'' else if c = CHR ''/'' then ''~1'' else [c]) s)"

definition row_locator :: "source_row \<Rightarrow> string" where
  "row_locator row =
     ''/facts/'' @ sr_namespace row @ ''/'' @ sr_tag row @ ''/units/'' @ pointer_escape (sr_unit row) @ ''/'' @ nat_text (sr_index row)"

definition row_period :: "'z ingest_runtime_scheme \<Rightarrow> (string \<times> source) list \<Rightarrow> period_spec result" where
  "row_period rt kvs =
     (case map_of kvs ''end'' of
        Some (SText e) \<Rightarrow>
          (case fromisoformat e of
             None \<Rightarrow> Inl ValueError
           | Some ends \<Rightarrow>
               (case map_of kvs ''start'' of
                  None \<Rightarrow> mk_period_spec rt None ends
                | Some (SText s) \<Rightarrow>
                    (case fromisoformat s of None \<Rightarrow> Inl ValueError | Some first \<Rightarrow> mk_period_spec rt (Some first) ends)
                | Some _ \<Rightarrow> Inl ValueError))
      | _ \<Rightarrow> Inl ValueError)"

text \<open>The value of a row, the text it was spelled with, and why it has no value.\<close>

definition row_numeric :: "(string \<times> source) list \<Rightarrow> dec option \<times> string option \<times> string option" where
  "row_numeric kvs =
     (case map_of kvs ''val'' of
        None \<Rightarrow> (None, None, Some ''missing_value_field'')
      | Some SNull \<Rightarrow> (None, Some ''null'', Some ''json_null_without_reviewed_nil_semantics'')
      | Some (SNumber t) \<Rightarrow>
          (case decimal_of_token t of
             Some (Finite d) \<Rightarrow> (Some d, Some t, None)
           | _ \<Rightarrow> (None, Some t, Some ''unparseable_source_value''))
      | Some v \<Rightarrow> (None, Some (source_json v), Some ''unparseable_source_value''))"

definition value_problems :: "string list" where
  "value_problems = [''missing_value_field'', ''json_null_without_reviewed_nil_semantics'', ''unparseable_source_value'']"

section \<open>Judging one row\<close>

record judged_row =
  jd_observation :: source_observation
  jd_rejection :: "string option"
  jd_raw :: string
  jd_index :: nat
  jd_period :: period_spec
  jd_unit :: unit_spec

definition row_rejection ::
  "filing_metadata \<Rightarrow> coverage_request \<Rightarrow> unit_spec \<Rightarrow> mapping_rule \<Rightarrow> source_row \<Rightarrow> period_spec \<Rightarrow> unit_spec \<Rightarrow> string option" where
  "row_rejection f r unit rule row p u =
     (if sr_qualified row \<in> set (mr_rejected rule) then Some (''excluded_economic_scope: '' @ mr_rationale rule)
      else if pd_id p \<noteq> pd_id (cr_period r) \<or> ut_id u \<noteq> ut_id unit then Some ''different_period_or_unit''
      else if map_of (sr_fields row) ''filed'' \<noteq> Some (SText (isoformat (fm_filed f)))
        \<or> map_of (sr_fields row) ''form'' \<noteq> Some (SText (fm_form f)) then Some ''filing_metadata_conflict''
      else snd (snd (row_numeric (sr_fields row))))"

definition row_metadata_json :: "(string \<times> source) list \<Rightarrow> source_row \<Rightarrow> string" where
  "row_metadata_json document row =
     (let cik = or_else (map_of document ''cik'') SNull in
      canonical_json (MDict
        [(''source_row_json'', MText (source_json (SDict (sr_fields row)))),
         (''source_label'', or_null source_manifest (map_of (sr_definition row) ''label'')),
         (''source_description'', or_null source_manifest (map_of (sr_definition row) ''description'')),
         (''source_cik_json'', MText (source_json cik)),
         (''source_cik_type'', MText (case cik of SText _ \<Rightarrow> ''string'' | _ \<Rightarrow> ''integer'')),
         (''api_unit'', MText (sr_unit row))]))"

definition row_observation ::
  "'z ingest_runtime_scheme \<Rightarrow> normalization_input \<Rightarrow> (string \<times> source) list \<Rightarrow> filing_metadata \<Rightarrow> coverage_request
     \<Rightarrow> mapping_rule \<Rightarrow> source_row \<Rightarrow> period_spec \<Rightarrow> unit_spec \<Rightarrow> source_observation" where
  "row_observation rt inp document f r rule row p u =
     (case row_numeric (sr_fields row) of (value, lexical, problem) \<Rightarrow>
        \<lparr>ob_id = evidence_id rt ''observation'' (MList [m_uuid rt (in_facts_capture inp), MText (row_locator row)]),
         ob_capture = in_facts_capture inp, ob_version = fm_id f, ob_locator = row_locator row,
         ob_namespace = sr_namespace row, ob_tag = sr_tag row, ob_period = pd_id p, ob_unit = ut_id u,
         ob_scope = (if sr_qualified row \<in> set (mr_rejected rule) then None else Some (sc_id (cr_scope r))),
         ob_value = value, ob_state = (if problem = None then ''numeric'' else ''unparseable''), ob_text = lexical,
         ob_parser = in_parser inp,
         ob_transform = canonical_json (MDict [(''operation'', MText ''identity_decimal''), (''scale_applied'', MBool False)]),
         ob_raw = row_metadata_json document row\<rparr>)"

text \<open>\<open>None\<close> when the row's period or unit cannot be read.\<close>

definition judge_row ::
  "'z ingest_runtime_scheme \<Rightarrow> normalization_input \<Rightarrow> (string \<times> source) list \<Rightarrow> filing_metadata \<Rightarrow> coverage_request
     \<Rightarrow> unit_spec \<Rightarrow> mapping_rule \<Rightarrow> source_row \<Rightarrow> judged_row option" where
  "judge_row rt inp document f r unit rule row =
     (case (row_period rt (sr_fields row), mk_unit_spec rt (sr_unit row)) of
        (Inr p, Inr u) \<Rightarrow> Some
          \<lparr>jd_observation = row_observation rt inp document f r rule row p u,
           jd_rejection = row_rejection f r unit rule row p u, jd_raw = source_json (SDict (sr_fields row)),
           jd_index = sr_index row, jd_period = p, jd_unit = u\<rparr>
      | _ \<Rightarrow> None)"

section \<open>Resolving one concept\<close>

definition observed_tag :: "judged_row \<Rightarrow> string" where
  "observed_tag j = ob_namespace (jd_observation j) @ '':'' @ ob_tag (jd_observation j)"

definition preferred_rows :: "mapping_rule \<Rightarrow> judged_row list \<Rightarrow> judged_row list" where
  "preferred_rows rule eligible =
     (case mr_preferred rule of
        None \<Rightarrow> eligible
      | Some p \<Rightarrow> if p = [] then eligible else filter (\<lambda>j. observed_tag j = p) eligible)"

definition same_value :: "judged_row \<Rightarrow> judged_row \<Rightarrow> bool" where
  "same_value i j = rel_option dec_eq (ob_value (jd_observation i)) (ob_value (jd_observation j))"

text \<open>
  The status, the reason and the chosen row.  The minimum of no rows raises: that happens when all eligible
  rows carry one tag and the rule prefers another.
\<close>

definition settle_rows ::
  "coverage_request \<Rightarrow> unit_spec \<Rightarrow> mapping_rule \<Rightarrow> judged_row list \<Rightarrow> (string \<times> string option \<times> judged_row option) result" where
  "settle_rows r unit rule considered =
     (let eligible = filter (\<lambda>j. jd_rejection j = None) considered;
          invalid = List.map_filter (\<lambda>j. if ob_period (jd_observation j) = pd_id (cr_period r) \<and> ob_unit (jd_observation j) = ut_id unit
            then (case jd_rejection j of Some w \<Rightarrow> if w \<in> set value_problems then Some w else None | None \<Rightarrow> None) else None) considered;
          preferred = preferred_rows rule eligible in
      if list_ex (\<lambda>j. jd_rejection j = Some ''filing_metadata_conflict'') considered
      then Inr (''ambiguous'', Some ''filing_metadata_conflict'', None)
      else if invalid \<noteq> [] then Inr (''missing'', Some (hd (sort invalid)), None)
      else if eligible = [] then Inr (''missing'', Some ''no_exact_reviewed_observation'', None)
      else if \<not> list_all (same_value (hd eligible)) eligible then Inr (''ambiguous'', Some ''conflicting_reviewed_observations'', None)
      else if 1 < length (remdups (map observed_tag eligible)) \<and> (mr_preferred rule = None \<or> preferred = [])
      then Inr (''ambiguous'', Some ''equivalent_tags_without_reviewed_preference'', None)
      else if 1 < length (remdups (map jd_raw preferred)) then Inr (''ambiguous'', Some ''same_value_different_source_metadata'', None)
      else if preferred = [] then Inl ValueError
      else Inr (''observed'', None, Some (hd (sort_key jd_index preferred))))"

definition disposition_of :: "string \<Rightarrow> judged_row option \<Rightarrow> judged_row \<Rightarrow> string" where
  "disposition_of status chosen j =
     (if map_option (\<lambda>c. ob_id (jd_observation c)) chosen = Some (ob_id (jd_observation j)) then ''selected''
      else if jd_rejection j = None \<and> status = ''ambiguous'' then ''conflicting'' else ''rejected'')"

definition mk_candidate ::
  "uuid \<Rightarrow> mapping_rule \<Rightarrow> string \<Rightarrow> string option \<Rightarrow> judged_row option \<Rightarrow> judged_row \<Rightarrow> candidate" where
  "mk_candidate res rule status reason chosen j =
     \<lparr>ca_resolution = res, ca_observation = ob_id (jd_observation j), ca_rule = mr_reference rule,
      ca_disposition = disposition_of status chosen j,
      ca_explanation =
        (if disposition_of status chosen j = ''selected'' then ''Selected directly reported observation''
         else case jd_rejection j of
             Some w \<Rightarrow> w
           | None \<Rightarrow> if chosen \<noteq> None then ''Equivalent duplicate retained; one reviewed representative selected''
                     else or_else reason ''Unresolved candidate'')\<rparr>"

section \<open>The state of a run\<close>

record norm_state =
  ns_periods :: "period_spec list"
  ns_units :: "unit_spec list"
  ns_observations :: "source_observation list"
  ns_resolutions :: "resolution list"
  ns_candidates :: "candidate list"
  ns_flags :: "quality_flag list"
  ns_coverage :: "coverage_item list"

definition add_flags :: "quality_flag list \<Rightarrow> norm_state \<Rightarrow> norm_state" where
  "add_flags fs st = st\<lparr>ns_flags := ns_flags st @ fs\<rparr>"

text \<open>A raw row keeps one observation; a second reading of it must agree.\<close>

definition record_row ::
  "'z ingest_runtime_scheme \<Rightarrow> normalization_input \<Rightarrow> coverage_request \<Rightarrow> uuid \<Rightarrow> source_row \<times> judged_row option
     \<Rightarrow> norm_state \<Rightarrow> norm_state result" where
  "record_row rt inp r res row st =
     (case row of
        (raw, None) \<Rightarrow>
          Inr (add_flags [mk_flag rt inp r ''unsupported_row_identity'' (''Unparseable period/unit at '' @ row_locator raw) (Some res)] st)
      | (raw, Some j) \<Rightarrow>
          (case find (\<lambda>p. ob_id p = ob_id (jd_observation j)) (ns_observations st) of
             Some p \<Rightarrow> if p \<noteq> jd_observation j then Inl ValueError
               else Inr (st\<lparr>ns_periods := dict_put pd_id (jd_period j) (ns_periods st), ns_units := dict_put ut_id (jd_unit j) (ns_units st)\<rparr>)
           | None \<Rightarrow>
               Inr (st\<lparr>ns_periods := dict_put pd_id (jd_period j) (ns_periods st), ns_units := dict_put ut_id (jd_unit j) (ns_units st),
                 ns_observations := ns_observations st @ [jd_observation j]\<rparr>)))"

definition conclude ::
  "'z ingest_runtime_scheme \<Rightarrow> normalization_input \<Rightarrow> coverage_request \<Rightarrow> concept \<Rightarrow> unit_spec \<Rightarrow> uuid
     \<Rightarrow> string \<times> string option \<times> judged_row option \<Rightarrow> norm_state \<Rightarrow> norm_state" where
  "conclude rt inp r k unit res verdict st =
     (case verdict of (status, reason, chosen) \<Rightarrow>
        add_flags
          (if status \<noteq> ''observed''
           then [mk_flag rt inp r (or_else reason status) (concept_value k @ '': '' @ or_else reason ''None'') (Some res)] else [])
          (st\<lparr>ns_resolutions := ns_resolutions st @
             [\<lparr>rs_id = res, rs_coverage = cr_id r, rs_concept = k, rs_scope = sc_id (cr_scope r),
               rs_instrument = sc_instrument (cr_scope r), rs_unit = ut_id unit, rs_status = status,
               rs_selected = map_option (\<lambda>c. ob_id (jd_observation c)) chosen, rs_reason = reason\<rparr>]\<rparr>))"

definition reviewed_concept ::
  "'z ingest_runtime_scheme \<Rightarrow> normalization_input \<Rightarrow> (string \<times> source) list \<Rightarrow> (string \<times> source) list \<Rightarrow> filing_metadata
     \<Rightarrow> coverage_request \<Rightarrow> concept \<Rightarrow> unit_spec \<Rightarrow> uuid \<Rightarrow> mapping_rule \<Rightarrow> norm_state \<Rightarrow> norm_state result" where
  "reviewed_concept rt inp document taxonomies f r k unit res rule st =
     (case rows_of_tags taxonomies (fm_accession f) (mr_tags rule @ mr_rejected rule) of
        Inl e \<Rightarrow> Inl e
      | Inr rows \<Rightarrow>
          let judged = map (\<lambda>row. (row, judge_row rt inp document f r unit rule row)) rows;
              considered = List.map_filter snd judged in
          case fold_result (record_row rt inp r res) judged st of
            Inl e \<Rightarrow> Inl e
          | Inr st' \<Rightarrow>
              (case settle_rows r unit rule considered of
                 Inl e \<Rightarrow> Inl e
               | Inr (status, reason, chosen) \<Rightarrow>
                   Inr (conclude rt inp r k unit res (status, reason, chosen)
                     (st'\<lparr>ns_candidates := ns_candidates st' @ map (mk_candidate res rule status reason chosen) considered\<rparr>))))"

definition resolution_id_of :: "'z ingest_runtime_scheme \<Rightarrow> coverage_request \<Rightarrow> concept \<Rightarrow> unit_spec \<Rightarrow> uuid" where
  "resolution_id_of rt r k unit =
     evidence_id rt ''resolution'' (MList [m_uuid rt (cr_id r), MText (concept_value k), m_uuid rt (ut_id unit)])"

definition resolve_concept ::
  "'z ingest_runtime_scheme \<Rightarrow> normalization_input \<Rightarrow> (string \<times> source) list \<Rightarrow> (string \<times> source) list \<Rightarrow> filing_metadata
     \<Rightarrow> coverage_request \<Rightarrow> concept \<Rightarrow> norm_state \<Rightarrow> norm_state result" where
  "resolve_concept rt inp document taxonomies f r k st =
     (case mk_unit_spec rt (concept_unit k (unit_key (cr_currency r))) of
        Inl e \<Rightarrow> Inl e
      | Inr unit \<Rightarrow>
          let st' = st\<lparr>ns_units := dict_put ut_id unit (ns_units st)\<rparr>; res = resolution_id_of rt r k unit in
          if cr_state r \<noteq> ''covered''
          then Inr (conclude rt inp r k unit res
                 (''missing'', Some (if cr_state r = ''source_missing'' then ''source_missing'' else ''unresolved_coverage''), None) st')
          else (case matching_rules inp f r k of
              [] \<Rightarrow> Inr (conclude rt inp r k unit res (''unsupported_scope'', Some ''no_reviewed_complete_scope_tag'', None) st')
            | [rule] \<Rightarrow>
                if mr_tags rule = []
                then Inr (conclude rt inp r k unit res (''unsupported_scope'', Some ''no_reviewed_complete_scope_tag'', None) st')
                else reviewed_concept rt inp document taxonomies f r k unit res rule st'
            | _ \<Rightarrow> Inr (conclude rt inp r k unit res (''ambiguous'', Some ''conflicting_mapping_rules'', None) st')))"

section \<open>A request, and the document\<close>

definition coverage_of :: "coverage_request \<Rightarrow> filing_metadata \<Rightarrow> coverage_item" where
  "coverage_of r f =
     \<lparr>ci_id = cr_id r, ci_version = fm_id f, ci_period = pd_id (cr_period r), ci_family = cr_family r, ci_basis = cr_basis r,
      ci_scope = sc_id (cr_scope r), ci_currency = Some (ut_id (cr_currency r)), ci_authority = cr_authority r,
      ci_assurance = cr_assurance r, ci_state = cr_state r, ci_locator = cr_locator r, ci_label = cr_label r\<rparr>"

definition history_reviewed :: "completeness \<Rightarrow> normalization_input \<Rightarrow> coverage_request \<Rightarrow> filing_metadata \<Rightarrow> bool" where
  "history_reviewed c inp r f =
     (co_state c = ''complete'' \<and> co_start c \<le> min (pd_end (cr_period r)) (fm_filed f)
      \<and> fm_filed f \<le> co_end c \<and> utc_day (in_cutoff inp) \<le> int (toordinal (co_end c)))"

definition request_flags ::
  "'z ingest_runtime_scheme \<Rightarrow> normalization_input \<Rightarrow> coverage_request \<Rightarrow> filing_metadata \<Rightarrow> quality_flag list" where
  "request_flags rt inp r f =
     (if history_reviewed (in_inventory inp) inp r f then []
      else [mk_flag rt inp r ''inventory_history_incomplete'' ''inventory review must cover period end through retrieval assessment'' None])
     @ (if history_reviewed (in_events inp) inp r f then []
        else [mk_flag rt inp r ''event_history_incomplete'' ''event review must cover period end through retrieval assessment'' None])
     @ (if cr_state r = ''unresolved'' \<or> cr_authority r = ''unknown''
        then [mk_flag rt inp r ''unresolved_coverage'' ''Unresolved coverage blocks usable fallback to an older edition'' None] else [])"

definition resolve_request ::
  "'z ingest_runtime_scheme \<Rightarrow> normalization_input \<Rightarrow> (string \<times> source) list \<Rightarrow> (string \<times> source) list
     \<Rightarrow> coverage_request \<Rightarrow> norm_state \<Rightarrow> norm_state result" where
  "resolve_request rt inp document taxonomies r st =
     (case find (\<lambda>f. fm_id f = cr_version r) (in_filings inp) of
        None \<Rightarrow> Inl ValueError
      | Some f \<Rightarrow>
          fold_result (resolve_concept rt inp document taxonomies f r) (cr_concepts r)
            (add_flags (request_flags rt inp r f) (st\<lparr>ns_coverage := ns_coverage st @ [coverage_of r f]\<rparr>)))"

definition start_state :: "normalization_input \<Rightarrow> norm_state" where
  "start_state inp =
     \<lparr>ns_periods = dict_of pd_id (map cr_period (in_requests inp)), ns_units = dict_of ut_id (map cr_currency (in_requests inp)),
      ns_observations = [], ns_resolutions = [], ns_candidates = [], ns_flags = [], ns_coverage = []\<rparr>"

definition ends_with :: "string \<Rightarrow> string \<Rightarrow> bool" where
  "ends_with suffix s = (length suffix \<le> length s \<and> drop (length s - length suffix) s = suffix)"

definition bundle_of :: "normalization_input \<Rightarrow> string \<Rightarrow> norm_state \<Rightarrow> normalization_bundle" where
  "bundle_of inp ih st =
     \<lparr>nb_inputs = inp, nb_periods = sort_key pd_id (ns_periods st), nb_units = sort_key ut_id (ns_units st),
      nb_scopes = sort_key sc_id (dict_of sc_id (map cr_scope (in_requests inp))), nb_filings = in_filings inp,
      nb_coverage = ns_coverage st, nb_observations = sort_key ob_id (ns_observations st), nb_resolutions = ns_resolutions st,
      nb_candidates = ns_candidates st, nb_flags = dict_of qu_id (ns_flags st), nb_input_hash = ih, nb_output_hash = [],
      nb_complete = (co_state (in_inventory inp) = ''complete'' \<and> co_state (in_events inp) = ''complete''
        \<and> \<not> list_ex (\<lambda>q. ends_with ''history_incomplete'' (qu_rule q)) (ns_flags st))\<rparr>"

definition normalize_verified_bytes ::
  "'z ingest_runtime_scheme \<Rightarrow> string \<Rightarrow> normalization_input \<Rightarrow> normalization_bundle result" where
  "normalize_verified_bytes rt body inp =
     (if \<not> input_valid rt inp body then Inl ValueError
      else case parse_source rt body of
        Inl e \<Rightarrow> Inl e
      | Inr document \<Rightarrow>
          if canonical_cik (map_of document ''cik'') \<noteq> Inr (in_cik inp) then Inl ValueError
          else case source_fields (map_of document ''facts'') of
            None \<Rightarrow> Inl ValueError
          | Some taxonomies \<Rightarrow>
              case fold_result (resolve_request rt inp document taxonomies) (in_requests inp) (start_state inp) of
                Inl e \<Rightarrow> Inl e
              | Inr st \<Rightarrow>
                  case normalization_input_hash rt inp of
                    None \<Rightarrow> Inl ValueError
                  | Some ih \<Rightarrow>
                      let b = bundle_of inp ih st in
                      case bundle_output_hash rt b of
                        None \<Rightarrow> Inl ValueError
                      | Some h \<Rightarrow> Inr (b\<lparr>nb_output_hash := h\<rparr>))"

end
