(* ===== verification/Sec_Rules.thy ===== *)
theory Sec_Rules
  imports Sec_Normalize
begin

text \<open>
  The reviewed cohort of \<open>packages/ingest/sec_normalize.py\<close>: which issuer, filing, period and scope each
  mapping rule was reviewed for, and that the normalization finds a rule for exactly its own request.
\<close>

section \<open>Reviewed tables\<close>

abbreviation "cik_apple \<equiv> ''0000320193''"
abbreviation "cik_jpm \<equiv> ''0000019617''"
abbreviation "cik_crcl \<equiv> ''0001876042''"
abbreviation "cik_tsm \<equiv> ''0001046179''"
abbreviation "cik_khc \<equiv> ''0001637459''"
abbreviation "cik_cost \<equiv> ''0000909832''"
abbreviation "cik_roblox \<equiv> ''0001315098''"

definition reviewed_anchors :: "(string \<times> string \<times> date \<times> date) list" where
  "reviewed_anchors =
     [(cik_apple, ''0000320193-25-000079'', Date 2024 9 29, Date 2025 9 27),
      (''0000789019'', ''0000950170-25-100235'', Date 2024 7 1, Date 2025 6 30),
      (cik_jpm, ''0001628280-26-008131'', Date 2025 1 1, Date 2025 12 31),
      (cik_crcl, ''0001876042-26-000062'', Date 2025 1 1, Date 2025 12 31),
      (cik_roblox, ''0001315098-26-000024'', Date 2025 1 1, Date 2025 12 31),
      (cik_tsm, ''0001628280-26-025362'', Date 2025 1 1, Date 2025 12 31),
      (cik_khc, ''0001637459-19-000049'', Date 2017 12 31, Date 2018 12 29),
      (cik_cost, ''0000909832-25-000101'', Date 2024 9 2, Date 2025 8 31)]"

definition us_tags :: "string list" where
  "us_tags =
     [''RevenueFromContractWithCustomerExcludingAssessedTax'', ''CostOfGoodsAndServicesSold'', ''GrossProfit'',
      ''ResearchAndDevelopmentExpense'', ''SellingGeneralAndAdministrativeExpense'', ''OperatingExpenses'',
      ''OperatingIncomeLoss'', ''InterestExpenseNonoperating'',
      ''IncomeLossFromContinuingOperationsBeforeIncomeTaxesExtraordinaryItemsNoncontrollingInterest'',
      ''IncomeTaxExpenseBenefit'', ''NetIncomeLoss'', ''ProfitLoss'', ''EarningsPerShareBasic'', ''EarningsPerShareDiluted'',
      ''WeightedAverageNumberOfSharesOutstandingBasic'', ''WeightedAverageNumberOfDilutedSharesOutstanding'',
      ''CommonStockSharesOutstanding'', ''CashAndCashEquivalentsAtCarryingValue'', ''ShortTermInvestments'',
      ''AccountsReceivableNetCurrent'', ''InventoryNet'', ''AssetsCurrent'', ''PropertyPlantAndEquipmentNet'', ''Goodwill'',
      ''IntangibleAssetsNetExcludingGoodwill'', ''Assets'', ''AccountsPayableCurrent'', [], ''LongTermDebtNoncurrent'',
      ''LiabilitiesCurrent'', ''Liabilities'', ''StockholdersEquity'',
      ''StockholdersEquityIncludingPortionAttributableToNoncontrollingInterest'', ''MinorityInterest'',
      ''NetCashProvidedByUsedInOperatingActivities'', ''PaymentsToAcquirePropertyPlantAndEquipment'',
      ''DepreciationDepletionAndAmortization'', ''ShareBasedCompensation'', ''PaymentsOfDividendsCommonStock'',
      ''PaymentsForRepurchaseOfCommonStock'']"

definition reviewed_overrides :: "((string \<times> concept) \<times> string list) list" where
  "reviewed_overrides =
     [((cik_apple, SHORT_TERM_INVESTMENTS), [''MarketableSecuritiesCurrent'']),
      ((cik_apple, DIVIDENDS_PAID), [''PaymentsOfDividends'']),
      ((cik_jpm, REVENUE), [''RevenuesNetOfInterestExpense'', ''Revenues'']),
      ((cik_jpm, INTEREST_EXPENSE), [''InterestExpenseOperating'']),
      ((cik_jpm, DIVIDENDS_PAID), [''PaymentsOfDividends'']),
      ((cik_crcl, REVENUE), [''Revenues'']),
      ((cik_crcl, DEPRECIATION_AND_AMORTIZATION), [''DepreciationAndAmortization'', ''DepreciationDepletionAndAmortization'']),
      ((cik_roblox, SHORT_TERM_INVESTMENTS), [''ShortTermInvestments'', ''MarketableSecuritiesCurrent'']),
      ((cik_roblox, DEPRECIATION_AND_AMORTIZATION), [''DepreciationAndAmortization'']),
      ((cik_khc, REVENUE), [''RevenueFromContractWithCustomerIncludingAssessedTax'']),
      ((cik_khc, INTEREST_EXPENSE), [''InterestExpense'']),
      ((cik_cost, REVENUE), [''RevenueFromContractWithCustomerExcludingAssessedTax'', ''Revenues'']),
      ((cik_cost, INTEREST_EXPENSE), [''InterestExpense''])]"

definition concept_index :: "concept \<Rightarrow> nat" where
  "concept_index k = length (takeWhile (\<lambda>c. c \<noteq> k) all_concepts)"

section \<open>The reviewed scope\<close>

definition share_concept :: "concept \<Rightarrow> bool" where
  "share_concept k = (13 \<le> concept_index k + 1 \<and> concept_index k + 1 \<le> 17)"

definition reviewed_kind :: "string \<Rightarrow> concept \<Rightarrow> string" where
  "reviewed_kind cik k =
     (if k \<in> {NET_INCOME_PARENT, EQUITY_PARENT} then ''parent''
      else if share_concept k then (if cik = cik_tsm then ''ordinary_common_shares'' else ''all_reported_common_classes'')
      else ''consolidated'')"

definition expected_descriptor :: "'z ingest_runtime_scheme \<Rightarrow> string \<Rightarrow> concept \<Rightarrow> uuid option \<Rightarrow> (string \<times> json) list" where
  "expected_descriptor rt cik k instrument =
     [(''consolidation'', JString (reviewed_kind cik k)),
      (''instrument'', case instrument of None \<Rightarrow> JNull | Some i \<Rightarrow> JString (uuid_text rt i)),
      (''context_knowledge'', JString ''unknown''), (''scope_evidence'', JString ''docs/research/s1/concept-map.md''),
      (''cash_scope'', JString (if cik = cik_crcl \<and> k = CASH_AND_CASH_EQUIVALENTS then ''corporate_cash_excluding_holder_reserves''
                               else ''not_applicable'')),
      (''payment_basis'', JString (if k = SHARE_BASED_COMPENSATION then ''cash_flow_addback''
                                  else if k \<in> {DIVIDENDS_PAID, SHARE_REPURCHASES, CAPITAL_EXPENDITURES_PPE} then ''actual_cash_payment''
                                  else ''as_reported'')),
      (''revenue_basis'', JString (if cik = cik_jpm \<and> k = REVENUE then ''net_of_operating_interest'' else ''reported_complete_scope''))]"

text \<open>Equality of a parsed object with a dictionary, whatever the order of the keys.\<close>

definition same_object :: "json \<Rightarrow> (string \<times> json) list \<Rightarrow> bool" where
  "same_object j expected =
     (case j of
        JObject kvs \<Rightarrow> set (map fst kvs) = set (map fst expected) \<and> list_all (\<lambda>(k, v). map_of kvs k = Some v) expected
      | _ \<Rightarrow> False)"

definition reviewed_family :: "concept \<Rightarrow> string" where
  "reviewed_family k =
     (let n = concept_index k + 1 in
      if n = 17 then ''other'' else if n \<le> 16 then ''income'' else if n \<le> 34 then ''balance_sheet'' else ''cash_flow'')"

definition cohort_currency :: "string \<Rightarrow> string" where
  "cohort_currency cik = (if cik = cik_tsm then ''TWD'' else ''USD'')"

definition reviewed_scope_matches :: "'z ingest_runtime_scheme \<Rightarrow> string \<Rightarrow> concept \<Rightarrow> coverage_request \<Rightarrow> bool" where
  "reviewed_scope_matches rt cik k r =
     (share_concept k = (sc_instrument (cr_scope r) \<noteq> None)
      \<and> (case json_loads rt (descriptor_json (cr_scope r)) of
           None \<Rightarrow> False
         | Some d \<Rightarrow>
             descriptor_schema_version (cr_scope r) = 1 \<and> scope_kind (cr_scope r) = reviewed_kind cik k
             \<and> same_object d (expected_descriptor rt cik k (sc_instrument (cr_scope r)))
             \<and> cr_family r = reviewed_family k \<and> cr_basis r = (if cik = cik_tsm then ''ifrs'' else ''us_gaap'')
             \<and> unit_key (cr_currency r) = cohort_currency cik
             \<and> (case mk_unit_spec rt (cohort_currency cik) of
                  Inl e \<Rightarrow> False
                | Inr u \<Rightarrow> numerator_measures (cr_currency r) = numerator_measures u
                    \<and> denominator_measures (cr_currency r) = denominator_measures u)))"

section \<open>Rules\<close>

definition flow_concept :: "concept \<Rightarrow> bool" where
  "flow_concept k = (concept_index k < 16 \<or> 34 \<le> concept_index k)"

definition anchored :: "string \<times> date \<times> date \<Rightarrow> filing_metadata \<Rightarrow> coverage_request \<Rightarrow> concept \<Rightarrow> bool" where
  "anchored anchor f r k =
     (case anchor of (accession, first, final) \<Rightarrow>
        fm_accession f = accession \<and> pd_start (cr_period r) = (if flow_concept k then Some first else None)
        \<and> pd_end (cr_period r) = final)"

definition default_tags :: "string \<Rightarrow> concept \<Rightarrow> string list" where
  "default_tags cik k =
     (let default = us_tags ! concept_index k in
      map (\<lambda>t. ''us-gaap:'' @ t) (or_else (map_of reviewed_overrides (cik, k)) (if default = [] then [] else [default])))"

definition historical_tags :: "(concept \<times> string) list" where
  "historical_tags =
     [(INTEREST_EXPENSE, ''FinanceCosts''), (SHARE_BASED_COMPENSATION, ''AdjustmentsForSharebasedPayments''),
      (DIVIDENDS_PAID, ''DividendsPaidClassifiedAsFinancingActivities''), (EPS_BASIC, ''BasicEarningsLossPerShare''),
      (EPS_DILUTED, ''DilutedEarningsLossPerShare'')]"

text \<open>The tags that a rule admits, or \<open>None\<close> when there is no reviewed rule.\<close>

definition reviewed_tags ::
  "string \<Rightarrow> string \<times> date \<times> date \<Rightarrow> filing_metadata \<Rightarrow> coverage_request \<Rightarrow> concept \<Rightarrow> string list option" where
  "reviewed_tags cik anchor f r k =
     (let valid = anchored anchor f r k; p = cr_period r in
      if valid \<and> cik \<noteq> cik_tsm then Some (default_tags cik k)
      else if valid \<and> k = COMMON_SHARES_OUTSTANDING then Some [''dei:EntityCommonStockSharesOutstanding'']
      else if cik = cik_khc \<and> fm_accession f \<in> {''0001637459-18-000015'', ''0001637459-19-000049''}
        \<and> pd_start p = Some (Date 2017 1 1) \<and> pd_end p = Date 2017 12 30 \<and> k \<in> {NET_INCOME_PARENT, NET_INCOME_CONSOLIDATED}
      then Some [if k = NET_INCOME_PARENT then ''us-gaap:NetIncomeLoss'' else ''us-gaap:ProfitLoss'']
      else if cik = cik_tsm \<and> fm_accession f = ''0001193125-25-083423'' \<and> pd_start p = Some (Date 2024 1 1)
        \<and> pd_end p = Date 2024 12 31
      then (case map_of historical_tags k of
              Some t \<Rightarrow> if unit_key (cr_currency r) = ''TWD'' then Some [''ifrs-full:'' @ t] else if valid then Some [] else None
            | None \<Rightarrow> if valid then Some [] else None)
      else if valid then Some [] else None)"

definition rejected_tags :: "string \<Rightarrow> concept \<Rightarrow> string list \<times> string" where
  "rejected_tags cik k =
     (if cik = cik_crcl \<and> k = REVENUE
      then ([''us-gaap:RevenueFromContractWithCustomerExcludingAssessedTax''],
            ''Customer-contract revenue is a component; total includes reserve income'')
      else if k = OPERATING_EXPENSES
      then ([''us-gaap:CostsAndExpenses'', ''us-gaap:NoninterestExpense''],
            ''Broader costs and bank noninterest expenses are not the reviewed industrial operating-expense subtotal'')
      else if k = SHARE_BASED_COMPENSATION
      then (if cik \<noteq> cik_tsm
            then [''us-gaap:AllocatedShareBasedCompensationExpense'', ''us-gaap:AllocatedShareBasedCompensationExpenseNetOfTax'']
            else [''ifrs-full:ExpenseFromSharebasedPaymentTransactionsInWhichGoodsOrServicesReceivedDidNotQualifyForRecognitionAsAssets''],
            ''P0 uses the cash-flow addback, not a separate expense or net-of-tax measure'')
      else if cik = cik_tsm \<and> k = DIVIDENDS_PAID
      then ([''ifrs-full:DividendsPaid''], ''The inspected TSM equity appropriation is not a cash-flow payment'')
      else ([], ''S1 reviewed directly reported concept scope; preference applies only to this accession and actual period''))"

definition rule_evidence :: "string \<Rightarrow> string list" where
  "rule_evidence cik =
     [''docs/research/s1/concept-map.md'', ''docs/research/s1/review-brief.md'',
      if cik = cik_tsm then ''docs/research/s1/ifrs-and-restatement-observations.md''
      else if cik \<in> {cik_jpm, cik_crcl} then ''docs/research/s1/special-sector-observations.md''
      else if cik = cik_khc then ''docs/research/s1/restatement-khc.md'' else ''docs/research/s1/baseline-observations.md'']"

definition cohort_rule :: "string \<Rightarrow> filing_metadata \<Rightarrow> coverage_request \<Rightarrow> concept \<Rightarrow> string list \<Rightarrow> mapping_rule" where
  "cohort_rule cik f r k tags =
     \<lparr>mr_reference = ''s3-reviewed-s1:'' @ cik @ '':'' @ fm_accession f @ '':'' @ concept_value k, mr_cik = cik,
      mr_accessions = [fm_accession f], mr_concept = k, mr_tags = tags, mr_unit = concept_unit k (unit_key (cr_currency r)),
      mr_scope = sc_id (cr_scope r), mr_evidence = rule_evidence cik, mr_start = pd_start (cr_period r),
      mr_end = pd_end (cr_period r), mr_sha256 = content_sha256 (cr_scope r), mr_kind = scope_kind (cr_scope r),
      mr_instrument = sc_instrument (cr_scope r), mr_family = cr_family r, mr_basis = cr_basis r,
      mr_preferred = (case tags of [] \<Rightarrow> None | t # _ \<Rightarrow> Some t), mr_rejected = fst (rejected_tags cik k),
      mr_rationale = snd (rejected_tags cik k)\<rparr>"

definition concept_rule ::
  "'z ingest_runtime_scheme \<Rightarrow> string \<Rightarrow> string \<times> date \<times> date \<Rightarrow> filing_metadata \<Rightarrow> coverage_request \<Rightarrow> concept \<Rightarrow> mapping_rule option" where
  "concept_rule rt cik anchor f r k =
     (if \<not> reviewed_scope_matches rt cik k r then None
      else map_option (cohort_rule cik f r k) (reviewed_tags cik anchor f r k))"

definition request_rules ::
  "'z ingest_runtime_scheme \<Rightarrow> string \<Rightarrow> string \<times> date \<times> date \<Rightarrow> filing_metadata list \<Rightarrow> coverage_request \<Rightarrow> mapping_rule list option" where
  "request_rules rt cik anchor filings r =
     map_option (\<lambda>f. List.map_filter (concept_rule rt cik anchor f r) (cr_concepts r)) (dict_get fm_id filings (cr_version r))"

definition reviewed_cohort_rules ::
  "'z ingest_runtime_scheme \<Rightarrow> source \<Rightarrow> filing_metadata list \<Rightarrow> coverage_request list \<Rightarrow> mapping_rule list result" where
  "reviewed_cohort_rules rt cik filings requests =
     (case canonical_cik (Some cik) of
        Inl e \<Rightarrow> Inl e
      | Inr c \<Rightarrow>
          (case map_of reviewed_anchors c of
             None \<Rightarrow> Inr []
           | Some anchor \<Rightarrow>
               (case opt_all (map (request_rules rt c anchor filings) requests) of
                  None \<Rightarrow> Inl ValueError
                | Some rules \<Rightarrow> Inr (concat rules))))"

section \<open>A rule is found for its own request\<close>

lemma concept_rule_applies:
  assumes "concept_rule rt cik anchor f r k = Some rule" "in_cik inp = cik"
  shows "rule_applies inp (fm_accession f) r k rule"
  using assms by (auto simp: concept_rule_def rule_applies_def cohort_rule_def rule_evidence_def split: if_splits)

lemma cohort_rule_origin:
  assumes "reviewed_cohort_rules rt (SText cik) filings requests = Inr rules" "rule \<in> set rules"
  obtains c anchor f r k where "canonical_cik_text cik = Inr c" "map_of reviewed_anchors c = Some anchor" "r \<in> set requests"
    "k \<in> set (cr_concepts r)" "f \<in> set filings" "fm_id f = cr_version r" "concept_rule rt c anchor f r k = Some rule"
proof -
  from assms obtain c anchor rs where c: "canonical_cik_text cik = Inr c" "map_of reviewed_anchors c = Some anchor"
      "opt_all (map (request_rules rt c anchor filings) requests) = Some rs" "rule \<in> set (concat rs)"
    by (auto simp: reviewed_cohort_rules_def canonical_cik_def split: sum.splits option.splits)
  then obtain xs where xs: "xs \<in> set rs" "rule \<in> set xs" by auto
  then have "Some xs \<in> set (map (request_rules rt c anchor filings) requests)"
    using c(3) by (auto simp: opt_all_Some_iff)
  then obtain r where r: "r \<in> set requests" "request_rules rt c anchor filings r = Some xs" by auto
  then obtain f where f: "dict_get fm_id filings (cr_version r) = Some f" "xs = List.map_filter (concept_rule rt c anchor f r) (cr_concepts r)"
    by (auto simp: request_rules_def)
  then obtain k where "k \<in> set (cr_concepts r)" "concept_rule rt c anchor f r k = Some rule"
    using xs(2) by (auto simp: set_map_filter)
  moreover have "f \<in> set filings" "fm_id f = cr_version r"
    using f(1) by (auto simp: dict_get_def find_Some_iff) (metis length_rev nth_mem set_rev)
  ultimately show thesis using that c r by blast
qed

end
