(* ===== verification/Sec_Properties.thy ===== *)
theory Sec_Properties
  imports Sec_Normalize Decimal_Laws
begin

text \<open>
  What a normalized Company Facts document guarantees: every resolution that claims to be observed is one
  number that the document spells, and every request has an outcome.
\<close>

section \<open>What the document says\<close>

text \<open>The row \<open>i\<close> under a taxonomy, a tag and a unit, read off the tree without the scan of the code.\<close>

definition document_row ::
  "(string \<times> source) list \<Rightarrow> string \<Rightarrow> string \<Rightarrow> string \<Rightarrow> nat \<Rightarrow> (string \<times> source) list \<Rightarrow> bool" where
  "document_row taxonomies namespace tag u i kvs \<longleftrightarrow>
     (\<exists>ts df us xs. map_of taxonomies namespace = Some (SDict ts) \<and> map_of ts tag = Some (SDict df)
        \<and> map_of df ''units'' = Some (SDict us) \<and> (u, SList xs) \<in> set us \<and> i < length xs \<and> xs ! i = SDict kvs)"

lemma source_fields_Some: "source_fields s = Some kvs \<longleftrightarrow> s = Some (SDict kvs)"
  by (auto simp: source_fields_def split: option.splits source.splits)

lemma or_else_Nil_set: "x \<in> set (or_else a []) \<longleftrightarrow> (\<exists>kvs. a = Some kvs \<and> x \<in> set kvs)"
  by (auto simp: or_else_def split: option.splits)

lemma map_of_or_else: "map_of (or_else a []) k = Some v \<longleftrightarrow> (\<exists>kvs. a = Some kvs \<and> map_of kvs k = Some v)"
  by (auto simp: or_else_def split: option.splits)

lemma filed_rows_set:
  "(i, kvs) \<in> set (filed_rows accession rows) \<longleftrightarrow>
     (\<exists>xs. rows = SList xs \<and> i < length xs \<and> xs ! i = SDict kvs \<and> map_of kvs ''accn'' = Some (SText accession))"
proof (cases rows)
  case (SList xs)
  have "(i, SDict kvs) \<in> set (enumerate 0 xs)" if "i < length xs" "xs ! i = SDict kvs"
    using that by (simp add: in_set_enumerate_eq)
  with SList show ?thesis
    by (auto simp: filed_rows_def set_map_filter in_set_enumerate_eq split: source.splits if_splits
        intro!: bexI[of _ "(i, SDict kvs)"])
qed (auto simp: filed_rows_def)

lemma tag_units:
  "(u, rows) \<in> set (or_else (source_fields (map_of (tag_definition taxonomies namespace tag) ''units'')) []) \<longleftrightarrow>
     (\<exists>ts df us. map_of taxonomies namespace = Some (SDict ts) \<and> map_of ts tag = Some (SDict df)
        \<and> map_of df ''units'' = Some (SDict us) \<and> (u, rows) \<in> set us)"
  by (auto simp: or_else_Nil_set source_fields_Some tag_definition_def map_of_or_else bind_eq_Some_conv)

lemma tag_rows_set:
  assumes "tag_rows taxonomies accession q = Inr rows"
  shows "row \<in> set rows \<longleftrightarrow>
    sr_qualified row = q \<and> split_tag q = Inr (sr_namespace row, sr_tag row)
    \<and> sr_definition row = tag_definition taxonomies (sr_namespace row) (sr_tag row)
    \<and> document_row taxonomies (sr_namespace row) (sr_tag row) (sr_unit row) (sr_index row) (sr_fields row)
    \<and> map_of (sr_fields row) ''accn'' = Some (SText accession)"
proof -
  obtain ns tag where q: "split_tag q = Inr (ns, tag)"
    using assms by (auto simp: tag_rows_def split: sum.splits)
  then have rows: "rows = concat (map (\<lambda>(u, rws). map (\<lambda>(i, kvs).
            \<lparr>sr_qualified = q, sr_namespace = ns, sr_tag = tag, sr_definition = tag_definition taxonomies ns tag, sr_unit = u,
             sr_index = i, sr_fields = kvs\<rparr>) (filed_rows accession rws))
        (or_else (source_fields (map_of (tag_definition taxonomies ns tag) ''units'')) []))"
    using assms by (simp add: tag_rows_def Let_def)
  show ?thesis
    unfolding rows document_row_def
    by (cases row) (auto simp: q tag_units filed_rows_set image_iff Bex_def; blast)
qed

lemma rows_of_tags_set:
  assumes "rows_of_tags taxonomies accession qs = Inr rows"
  shows "row \<in> set rows \<longleftrightarrow>
    sr_qualified row \<in> set qs \<and> split_tag (sr_qualified row) = Inr (sr_namespace row, sr_tag row)
    \<and> sr_definition row = tag_definition taxonomies (sr_namespace row) (sr_tag row)
    \<and> document_row taxonomies (sr_namespace row) (sr_tag row) (sr_unit row) (sr_index row) (sr_fields row)
    \<and> map_of (sr_fields row) ''accn'' = Some (SText accession)"
  using assms
proof (induction qs arbitrary: rows)
  case (Cons q qs)
  then obtain rs rest where "tag_rows taxonomies accession q = Inr rs" "rows_of_tags taxonomies accession qs = Inr rest"
      "rows = rs @ rest"
    by (auto split: sum.splits simp: map_sum_def elim: Inr_inject)
  with Cons.IH show ?case by (auto simp: tag_rows_set)
qed simp

section \<open>One row, one concept\<close>

lemma judge_row_Some:
  assumes "judge_row rt inp document f r unit rule row = Some j"
  obtains p u where "row_period rt (sr_fields row) = Inr p" "mk_unit_spec rt (sr_unit row) = Inr u"
    "jd_observation j = row_observation rt inp document f r rule row p u"
    "jd_rejection j = row_rejection f r unit rule row p u"
  using assms by (auto simp: judge_row_def split: sum.splits prod.splits)

lemma row_observation_fields [simp]:
  "ob_capture (row_observation rt inp document f r rule row p u) = in_facts_capture inp"
  "ob_version (row_observation rt inp document f r rule row p u) = fm_id f"
  "ob_namespace (row_observation rt inp document f r rule row p u) = sr_namespace row"
  "ob_tag (row_observation rt inp document f r rule row p u) = sr_tag row"
  "ob_period (row_observation rt inp document f r rule row p u) = pd_id p"
  "ob_unit (row_observation rt inp document f r rule row p u) = ut_id u"
  "ob_value (row_observation rt inp document f r rule row p u) = fst (row_numeric (sr_fields row))"
  "ob_text (row_observation rt inp document f r rule row p u) = fst (snd (row_numeric (sr_fields row)))"
  by (simp_all add: row_observation_def split: prod.splits)

lemma row_numeric_valued:
  "snd (snd (row_numeric kvs)) = None \<longleftrightarrow>
     (\<exists>t d. map_of kvs ''val'' = Some (SNumber t) \<and> decimal_of_token t = Some (Finite d) \<and> row_numeric kvs = (Some d, Some t, None))"
  by (auto simp: row_numeric_def split: option.splits source.splits decimal.splits)

lemma row_numeric_problem: "snd (snd (row_numeric kvs)) = Some w \<Longrightarrow> w \<in> set value_problems"
  by (auto simp: row_numeric_def value_problems_def split: option.splits source.splits decimal.splits)

lemma same_value_trans: "same_value h i \<Longrightarrow> same_value h j \<Longrightarrow> same_value i j"
  by (auto simp: same_value_def dec_eq_iff[where 'a = rat] elim!: option.rel_cases)

lemma preferred_rows_subset: "set (preferred_rows rule eligible) \<subseteq> set eligible"
  by (auto simp: preferred_rows_def split: option.splits if_splits)

lemma settle_observed:
  assumes "settle_rows r unit rule considered = Inr (''observed'', reason, chosen)"
  obtains j where "chosen = Some j" "reason = None" "j \<in> set considered" "jd_rejection j = None"
    "\<And>i. i \<in> set considered \<Longrightarrow> jd_rejection i \<noteq> Some ''filing_metadata_conflict''"
    "\<And>i w. i \<in> set considered \<Longrightarrow> jd_rejection i = Some w \<Longrightarrow> w \<in> set value_problems
        \<Longrightarrow> ob_period (jd_observation i) \<noteq> pd_id (cr_period r) \<or> ob_unit (jd_observation i) \<noteq> ut_id unit"
    "\<And>i. i \<in> set considered \<Longrightarrow> jd_rejection i = None \<Longrightarrow> same_value j i"
proof -
  define eligible where "eligible = filter (\<lambda>j. jd_rejection j = None) considered"
  define preferred where "preferred = preferred_rows rule eligible"
  define j where "j = hd (sort_key jd_index preferred)"
  define problems where "problems = List.map_filter (\<lambda>j. if ob_period (jd_observation j) = pd_id (cr_period r) \<and> ob_unit (jd_observation j) = ut_id unit
            then (case jd_rejection j of Some w \<Rightarrow> if w \<in> set value_problems then Some w else None | None \<Rightarrow> None) else None) considered"
  have unfolded: "settle_rows r unit rule considered =
     (if list_ex (\<lambda>j. jd_rejection j = Some ''filing_metadata_conflict'') considered
      then Inr (''ambiguous'', Some ''filing_metadata_conflict'', None)
      else if problems \<noteq> [] then Inr (''missing'', Some (hd (sort problems)), None)
      else if eligible = [] then Inr (''missing'', Some ''no_exact_reviewed_observation'', None)
      else if \<not> list_all (same_value (hd eligible)) eligible then Inr (''ambiguous'', Some ''conflicting_reviewed_observations'', None)
      else if 1 < length (remdups (map observed_tag eligible)) \<and> (mr_preferred rule = None \<or> preferred = [])
      then Inr (''ambiguous'', Some ''equivalent_tags_without_reviewed_preference'', None)
      else if 1 < length (remdups (map jd_raw preferred)) then Inr (''ambiguous'', Some ''same_value_different_source_metadata'', None)
      else if preferred = [] then Inl ValueError
      else Inr (''observed'', None, Some j))"
    unfolding settle_rows_def Let_def eligible_def preferred_def j_def problems_def by (rule refl)
  define conflict where "conflict \<longleftrightarrow> list_ex (\<lambda>j. jd_rejection j = Some ''filing_metadata_conflict'') considered"
  note res = assms[unfolded unfolded, folded conflict_def]
  have nc: "\<not> conflict" using res by (cases conflict) simp_all
  have v: "problems = []" using res nc by (cases "problems = []") simp_all
  have s: "preferred \<noteq> []" "reason = None" "chosen = Some j" "list_all (same_value (hd eligible)) eligible"
    using res nc v by (simp_all split: if_split_asm)
  have "j \<in> set (sort_key jd_index preferred)" unfolding j_def using s(1) by (metis hd_in_set set_empty set_sort)
  then have j: "j \<in> set eligible" using preferred_rows_subset[of rule eligible] by (auto simp: preferred_def)
  show ?thesis
  proof (rule that[of j])
    show "same_value j i" if "i \<in> set considered" "jd_rejection i = None" for i
      using that s(4) j by (auto simp: list_all_iff eligible_def intro: same_value_trans[of "hd eligible" j i])
    show "ob_period (jd_observation i) \<noteq> pd_id (cr_period r) \<or> ob_unit (jd_observation i) \<noteq> ut_id unit"
      if "i \<in> set considered" "jd_rejection i = Some w" "w \<in> set value_problems" for i w
    proof (rule ccontr)
      assume "\<not> ?thesis"
      then have "w \<in> set problems"
        using that by (force simp: set_map_filter problems_def)
      with v show False by simp
    qed
  qed (use s j nc in \<open>auto simp: eligible_def list_ex_iff conflict_def\<close>)
qed

section \<open>Running the steps\<close>

text \<open>Observations and flags are only ever added.\<close>

definition grows :: "norm_state \<Rightarrow> norm_state \<Rightarrow> bool" where
  "grows st st' \<longleftrightarrow> set (ns_observations st) \<subseteq> set (ns_observations st') \<and> set (ns_flags st) \<subseteq> set (ns_flags st')"

lemma grows_refl [simp]: "grows st st"
  by (simp add: grows_def)

lemma grows_trans: "grows a b \<Longrightarrow> grows b c \<Longrightarrow> grows a c"
  by (auto simp: grows_def)

lemma record_row_Inr:
  assumes "record_row rt inp r res row st = Inr st'"
  shows "grows st st' \<and> ns_resolutions st' = ns_resolutions st \<and> ns_coverage st' = ns_coverage st
    \<and> (\<forall>j. snd row = Some j \<longrightarrow> jd_observation j \<in> set (ns_observations st'))"
proof (cases row)
  case (Pair raw judged)
  show ?thesis
  proof (cases judged)
    case None
    then show ?thesis using assms by (auto simp: Pair record_row_def add_flags_def grows_def)
  next
    case (Some j)
    show ?thesis
    proof (cases "find (\<lambda>p. ob_id p = ob_id (jd_observation j)) (ns_observations st)")
      case None
      then show ?thesis using assms by (auto simp: Pair Some record_row_def grows_def)
    next
      case (Some p)
      then have "p \<in> set (ns_observations st)" by (auto simp: find_Some_iff)
      with Some show ?thesis using assms
        by (auto simp: Pair \<open>judged = Some j\<close> record_row_def grows_def split: if_split_asm)
    qed
  qed
qed

lemma record_rows_Inr:
  assumes "fold_result (record_row rt inp r res) rows st = Inr st'"
  shows "grows st st' \<and> ns_resolutions st' = ns_resolutions st \<and> ns_coverage st' = ns_coverage st
    \<and> (\<forall>j. Some j \<in> snd ` set rows \<longrightarrow> jd_observation j \<in> set (ns_observations st'))"
  using assms
proof (induction rows arbitrary: st)
  case (Cons row rows)
  then obtain s where s: "record_row rt inp r res row st = Inr s" "fold_result (record_row rt inp r res) rows s = Inr st'"
    by (auto split: sum.splits)
  from record_row_Inr[OF s(1)] Cons.IH[OF s(2)] show ?case by (auto simp: grows_def)
qed (simp add: grows_def)

section \<open>Directly reported numbers\<close>

text \<open>
  A source row of a filing spells the decimal \<open>d\<close> for the tag, and names the filing's own date and form.
\<close>

definition row_spells :: "filing_metadata \<Rightarrow> (string \<times> source) list \<Rightarrow> string \<Rightarrow> dec \<Rightarrow> bool" where
  "row_spells f kvs t d \<longleftrightarrow>
     map_of kvs ''accn'' = Some (SText (fm_accession f)) \<and> map_of kvs ''filed'' = Some (SText (isoformat (fm_filed f)))
     \<and> map_of kvs ''form'' = Some (SText (fm_form f))
     \<and> map_of kvs ''val'' = Some (SNumber t) \<and> decimal_of_token t = Some (Finite d)"

text \<open>A row of the filing for the requested period and unit, under a tag that the rule admits.\<close>

definition competing_row ::
  "'z ingest_runtime_scheme \<Rightarrow> (string \<times> source) list \<Rightarrow> filing_metadata \<Rightarrow> coverage_request \<Rightarrow> mapping_rule \<Rightarrow> uuid
     \<Rightarrow> string \<Rightarrow> string \<Rightarrow> string \<Rightarrow> (string \<times> source) list \<Rightarrow> bool" where
  "competing_row rt taxonomies f q rule unit tag namespace name kvs \<longleftrightarrow>
     tag \<in> set (mr_tags rule) \<and> tag \<notin> set (mr_rejected rule) \<and> split_tag tag = Inr (namespace, name)
     \<and> map_of kvs ''accn'' = Some (SText (fm_accession f))
     \<and> (\<exists>u i p w. document_row taxonomies namespace name u i kvs \<and> row_period rt kvs = Inr p \<and> pd_id p = pd_id (cr_period q)
          \<and> mk_unit_spec rt u = Inr w \<and> ut_id w = unit)"

definition reported ::
  "'z ingest_runtime_scheme \<Rightarrow> normalization_input \<Rightarrow> (string \<times> source) list \<Rightarrow> source_observation set \<Rightarrow> filing_metadata
     \<Rightarrow> coverage_request \<Rightarrow> resolution \<Rightarrow> bool" where
  "reported rt inp taxonomies obs f q r \<longleftrightarrow>
     cr_state q = ''covered''
     \<and> (\<exists>rule ob tag kvs t d. matching_rules inp f q (rs_concept r) = [rule]
          \<and> ob \<in> obs \<and> rs_selected r = Some (ob_id ob) \<and> ob_version ob = fm_id f \<and> ob_capture ob = in_facts_capture inp
          \<and> ob_period ob = pd_id (cr_period q) \<and> ob_unit ob = rs_unit r \<and> ob_value ob = Some d \<and> ob_text ob = Some t
          \<and> competing_row rt taxonomies f q rule (rs_unit r) tag (ob_namespace ob) (ob_tag ob) kvs \<and> row_spells f kvs t d
          \<and> (\<forall>tag' ns' name' kvs'. competing_row rt taxonomies f q rule (rs_unit r) tag' ns' name' kvs'
               \<longrightarrow> (\<exists>t' d'. row_spells f kvs' t' d' \<and> dec_eq d d')))"

lemma row_rejection_None:
  "row_rejection f r unit rule row p u = None \<longleftrightarrow>
     sr_qualified row \<notin> set (mr_rejected rule) \<and> pd_id p = pd_id (cr_period r) \<and> ut_id u = ut_id unit
     \<and> map_of (sr_fields row) ''filed'' = Some (SText (isoformat (fm_filed f)))
     \<and> map_of (sr_fields row) ''form'' = Some (SText (fm_form f)) \<and> snd (snd (row_numeric (sr_fields row))) = None"
  unfolding row_rejection_def by (simp split: if_split) blast

lemma settled_reported:
  assumes rows: "rows_of_tags taxonomies (fm_accession f) (mr_tags rule @ mr_rejected rule) = Inr rows"
    and considered: "considered = List.map_filter (judge_row rt inp document f q unit rule) rows"
    and settled: "settle_rows q unit rule considered = Inr (''observed'', reason, chosen)"
    and rule: "matching_rules inp f q (rs_concept r) = [rule]" "cr_state q = ''covered''"
    and r: "rs_selected r = map_option (\<lambda>c. ob_id (jd_observation c)) chosen" "rs_unit r = ut_id unit"
    and obs: "jd_observation ` set considered \<subseteq> obs"
  shows "reported rt inp taxonomies obs f q r"
proof -
  from settled obtain j where j: "chosen = Some j" "j \<in> set considered" "jd_rejection j = None"
    and noconflict: "\<And>i. i \<in> set considered \<Longrightarrow> jd_rejection i \<noteq> Some ''filing_metadata_conflict''"
    and valued: "\<And>i w. i \<in> set considered \<Longrightarrow> jd_rejection i = Some w \<Longrightarrow> w \<in> set value_problems
        \<Longrightarrow> ob_period (jd_observation i) \<noteq> pd_id (cr_period q) \<or> ob_unit (jd_observation i) \<noteq> ut_id unit"
    and agree: "\<And>i. i \<in> set considered \<Longrightarrow> jd_rejection i = None \<Longrightarrow> same_value j i"
    by (rule settle_observed) blast
  from j(2) obtain row where row: "row \<in> set rows" "judge_row rt inp document f q unit rule row = Some j"
    by (auto simp: considered set_map_filter)
  from row(2) obtain p u where pu: "row_period rt (sr_fields row) = Inr p" "mk_unit_spec rt (sr_unit row) = Inr u"
    "jd_observation j = row_observation rt inp document f q rule row p u" "jd_rejection j = row_rejection f q unit rule row p u"
    by (rule judge_row_Some)
  have free: "row_rejection f q unit rule row p u = None" using pu(4) j(3) by simp
  then obtain t d where td: "map_of (sr_fields row) ''val'' = Some (SNumber t)" "decimal_of_token t = Some (Finite d)"
      "row_numeric (sr_fields row) = (Some d, Some t, None)"
    by (auto simp: row_rejection_None row_numeric_valued)
  have others: "\<exists>t' d'. row_spells f kvs' t' d' \<and> dec_eq d d'"
    if c: "competing_row rt taxonomies f q rule (rs_unit r) tag' ns' name' kvs'" for tag' ns' name' kvs'
  proof -
    from c obtain u' i' p' w' where c': "tag' \<in> set (mr_tags rule)" "tag' \<notin> set (mr_rejected rule)" "split_tag tag' = Inr (ns', name')"
        "map_of kvs' ''accn'' = Some (SText (fm_accession f))" "document_row taxonomies ns' name' u' i' kvs'"
        "row_period rt kvs' = Inr p'" "pd_id p' = pd_id (cr_period q)" "mk_unit_spec rt u' = Inr w'" "ut_id w' = ut_id unit"
      by (auto simp: competing_row_def r(2))
    define row' where "row' = \<lparr>sr_qualified = tag', sr_namespace = ns', sr_tag = name',
      sr_definition = tag_definition taxonomies ns' name', sr_unit = u', sr_index = i', sr_fields = kvs'\<rparr>"
    have row': "row' \<in> set rows" using c' by (simp add: rows_of_tags_set[OF rows] row'_def)
    define i where "i = \<lparr>jd_observation = row_observation rt inp document f q rule row' p' w',
      jd_rejection = row_rejection f q unit rule row' p' w', jd_raw = source_json (SDict kvs'),
      jd_index = i', jd_period = p', jd_unit = w'\<rparr>"
    have "judge_row rt inp document f q unit rule row' = Some i"
      using c' by (simp add: judge_row_def row'_def i_def)
    then have i: "i \<in> set considered" using row' by (auto simp: considered set_map_filter)
    have meta: "map_of kvs' ''filed'' = Some (SText (isoformat (fm_filed f))) \<and> map_of kvs' ''form'' = Some (SText (fm_form f))"
      using noconflict[OF i] c' by (auto simp: i_def row_rejection_def row'_def split: if_split_asm)
    then have rej: "jd_rejection i = snd (snd (row_numeric kvs'))"
      using c' by (simp add: i_def row_rejection_def row'_def)
    have "jd_rejection i = None"
    proof (rule ccontr)
      assume "jd_rejection i \<noteq> None"
      then obtain w where w: "jd_rejection i = Some w" by auto
      have "w \<in> set value_problems" using w rej row_numeric_problem by simp
      from valued[OF i w this] show False using c' by (simp add: i_def row'_def)
    qed
    then have "snd (snd (row_numeric kvs')) = None" "same_value j i" using rej agree[OF i] by simp_all
    then obtain t' d' where "map_of kvs' ''val'' = Some (SNumber t')" "decimal_of_token t' = Some (Finite d')" "dec_eq d d'"
      using td(3) by (auto simp: row_numeric_valued same_value_def pu(3) i_def row'_def)
    with meta c'(4) show ?thesis by (auto simp: row_spells_def)
  qed
  have "competing_row rt taxonomies f q rule (rs_unit r) (sr_qualified row) (sr_namespace row) (sr_tag row) (sr_fields row)"
    using row(1) pu free by (auto simp: rows_of_tags_set[OF rows] competing_row_def row_rejection_None r(2))
  moreover have "row_spells f (sr_fields row) t d"
    using row(1) free td by (simp add: rows_of_tags_set[OF rows] row_spells_def row_rejection_None)
  moreover have "jd_observation j \<in> obs" using obs j(2) by blast
  moreover have "ob_period (jd_observation j) = pd_id (cr_period q)" "ob_unit (jd_observation j) = rs_unit r"
    using free by (simp_all add: pu(3) row_rejection_None r(2))
  ultimately show ?thesis
    unfolding reported_def using rule r(1) j(1) others td
    by (intro conjI exI[of _ rule] exI[of _ "jd_observation j"] exI[of _ "sr_qualified row"] exI[of _ "sr_fields row"] exI[of _ t] exI[of _ d])
      (simp_all add: pu(3))
qed

section \<open>Every request has an outcome\<close>

text \<open>
  The outcome of one concept: a directly reported number, or no selection, a reason, and a flag that carries
  the reason.
\<close>

definition outcome ::
  "'z ingest_runtime_scheme \<Rightarrow> normalization_input \<Rightarrow> (string \<times> source) list \<Rightarrow> source_observation set \<Rightarrow> quality_flag set
     \<Rightarrow> coverage_request \<Rightarrow> resolution \<Rightarrow> bool" where
  "outcome rt inp taxonomies obs fs q r \<longleftrightarrow>
     (if rs_status r = ''observed''
      then rs_reason r = None \<and> (\<exists>f\<in>set (in_filings inp). fm_id f = cr_version q \<and> reported rt inp taxonomies obs f q r)
      else rs_selected r = None
        \<and> (\<exists>why. rs_reason r = Some why \<and> mk_flag rt inp q why (concept_value (rs_concept r) @ '': '' @ why) (Some (rs_id r)) \<in> fs))"

lemma reported_mono: "reported rt inp taxonomies obs f q r \<Longrightarrow> obs \<subseteq> obs' \<Longrightarrow> reported rt inp taxonomies obs' f q r"
  unfolding reported_def by blast

lemma outcome_mono:
  "outcome rt inp taxonomies obs fs q r \<Longrightarrow> obs \<subseteq> obs' \<Longrightarrow> fs \<subseteq> fs' \<Longrightarrow> outcome rt inp taxonomies obs' fs' q r"
  unfolding outcome_def by (auto split: if_splits intro: reported_mono)

text \<open>A step for one concept appends one resolution, and its outcome holds from then on.\<close>

definition resolves ::
  "'z ingest_runtime_scheme \<Rightarrow> normalization_input \<Rightarrow> (string \<times> source) list \<Rightarrow> coverage_request \<Rightarrow> concept \<Rightarrow> norm_state \<Rightarrow> norm_state \<Rightarrow> bool" where
  "resolves rt inp taxonomies q k st st' \<longleftrightarrow>
     grows st st' \<and> ns_coverage st' = ns_coverage st
     \<and> (\<exists>r. ns_resolutions st' = ns_resolutions st @ [r] \<and> rs_coverage r = cr_id q \<and> rs_concept r = k
          \<and> outcome rt inp taxonomies (set (ns_observations st')) (set (ns_flags st')) q r)"

lemma resolves_from:
  "resolves rt inp taxonomies q k st st' \<Longrightarrow> grows s st \<Longrightarrow> ns_coverage st = ns_coverage s \<Longrightarrow> ns_resolutions st = ns_resolutions s
    \<Longrightarrow> resolves rt inp taxonomies q k s st'"
  by (auto simp: resolves_def intro: grows_trans)

lemma conclude_unobserved:
  assumes "status \<noteq> ''observed''"
  shows "resolves rt inp taxonomies q k st (conclude rt inp q k unit res (status, Some why, None) st)"
  using assms by (auto simp: resolves_def grows_def conclude_def add_flags_def or_else_def outcome_def)

lemma settle_unobserved:
  assumes "settle_rows r unit rule considered = Inr (status, reason, chosen)" "status \<noteq> ''observed''"
  shows "chosen = None \<and> reason \<noteq> None"
  using assms unfolding settle_rows_def Let_def by (auto split: if_split_asm)

lemma judged_map_filter: "List.map_filter snd (map (\<lambda>x. (x, g x)) xs) = List.map_filter g xs"
  by (induction xs) (simp_all add: List.map_filter_simps split: option.split)

lemma reviewed_concept_resolves:
  assumes "reviewed_concept rt inp document taxonomies f q k unit res rule st = Inr st'"
    and rule: "matching_rules inp f q k = [rule]" "cr_state q = ''covered''"
    and f: "f \<in> set (in_filings inp)" "fm_id f = cr_version q"
  shows "resolves rt inp taxonomies q k st st'"
proof -
  from assms(1) obtain rows where rows: "rows_of_tags taxonomies (fm_accession f) (mr_tags rule @ mr_rejected rule) = Inr rows"
    by (auto simp: reviewed_concept_def split: sum.splits)
  define judged where "judged = map (\<lambda>row. (row, judge_row rt inp document f q unit rule row)) rows"
  define considered where "considered = List.map_filter (judge_row rt inp document f q unit rule) rows"
  have c: "List.map_filter snd judged = considered" by (simp add: judged_def considered_def judged_map_filter)
  from assms(1) obtain s status reason chosen where s: "fold_result (record_row rt inp q res) judged st = Inr s"
      and settled: "settle_rows q unit rule considered = Inr (status, reason, chosen)"
      and st': "st' = conclude rt inp q k unit res (status, reason, chosen)
        (s\<lparr>ns_candidates := ns_candidates s @ map (mk_candidate res rule status reason chosen) considered\<rparr>)"
    by (auto simp: reviewed_concept_def rows Let_def c judged_def[symmetric] split: sum.splits)
  note run = record_rows_Inr[OF s]
  show ?thesis
  proof (cases "status = ''observed''")
    case False
    then obtain why where "chosen = None" "reason = Some why" using settle_unobserved[OF settled] by auto
    show ?thesis unfolding st' \<open>chosen = None\<close> \<open>reason = Some why\<close>
      by (rule resolves_from[OF conclude_unobserved[OF False]]) (use run in \<open>simp_all add: grows_def\<close>)
  next
    case True
    note settled' = settled[unfolded True]
    have reason: "reason = None" by (rule settle_observed[OF settled'])
    have obs: "jd_observation ` set considered \<subseteq> set (ns_observations st')"
    proof
      fix ob assume "ob \<in> jd_observation ` set considered"
      then obtain j row where "row \<in> set rows" "judge_row rt inp document f q unit rule row = Some j" "ob = jd_observation j"
        by (auto simp: considered_def set_map_filter)
      then show "ob \<in> set (ns_observations st')" using run by (force simp: st' conclude_def add_flags_def judged_def True)
    qed
    define r where "r = \<lparr>rs_id = res, rs_coverage = cr_id q, rs_concept = k, rs_scope = sc_id (cr_scope q),
               rs_instrument = sc_instrument (cr_scope q), rs_unit = ut_id unit, rs_status = status,
               rs_selected = map_option (\<lambda>c. ob_id (jd_observation c)) chosen, rs_reason = reason\<rparr>"
    have "reported rt inp taxonomies (set (ns_observations st')) f q r"
      by (rule settled_reported[OF rows considered_def settled' _ rule(2) _ _ obs]) (simp_all add: r_def rule)
    then have "outcome rt inp taxonomies (set (ns_observations st')) (set (ns_flags st')) q r"
      using True reason f by (auto simp: outcome_def r_def)
    then show ?thesis unfolding resolves_def using run True
      by (intro conjI exI[of _ r]) (simp_all add: r_def st' conclude_def add_flags_def grows_def)
  qed
qed

lemma resolve_concept_resolves:
  assumes "resolve_concept rt inp document taxonomies f q k st = Inr st'"
    and f: "f \<in> set (in_filings inp)" "fm_id f = cr_version q"
  shows "resolves rt inp taxonomies q k st st'"
proof -
  from assms(1) obtain unit where unit: "mk_unit_spec rt (concept_unit k (unit_key (cr_currency q))) = Inr unit"
    by (auto simp: resolve_concept_def split: sum.splits)
  define s where "s = st\<lparr>ns_units := dict_put ut_id unit (ns_units st)\<rparr>"
  have s: "grows st s" "ns_coverage s = ns_coverage st" "ns_resolutions s = ns_resolutions st" by (simp_all add: s_def grows_def)
  note step = assms(1)[unfolded resolve_concept_def unit sum.case Let_def s_def[symmetric]]
  have "resolves rt inp taxonomies q k s st'"
  proof (cases "cr_state q = ''covered''")
    case False
    then have "st' = conclude rt inp q k unit (resolution_id_of rt q k unit)
        (''missing'', Some (if cr_state q = ''source_missing'' then ''source_missing'' else ''unresolved_coverage''), None) s"
      using step by simp
    then show ?thesis by (simp only:) (rule conclude_unobserved, simp)
  next
    case True
    show ?thesis
    proof (cases "matching_rules inp f q k")
      case Nil
      then have "st' = conclude rt inp q k unit (resolution_id_of rt q k unit) (''unsupported_scope'', Some ''no_reviewed_complete_scope_tag'', None) s"
        using step True by simp
      then show ?thesis by (simp only:) (rule conclude_unobserved, simp)
    next
      case (Cons rule rest)
      show ?thesis
      proof (cases "rest = []")
        case False
        then have "st' = conclude rt inp q k unit (resolution_id_of rt q k unit) (''ambiguous'', Some ''conflicting_mapping_rules'', None) s"
          using step True Cons by (cases rest) simp_all
        then show ?thesis by (simp only:) (rule conclude_unobserved, simp)
      next
        case single: True
        show ?thesis
        proof (cases "mr_tags rule = []")
          case no_tags: True
          then have "st' = conclude rt inp q k unit (resolution_id_of rt q k unit) (''unsupported_scope'', Some ''no_reviewed_complete_scope_tag'', None) s"
            using step True Cons single by simp
          then show ?thesis by (simp only:) (rule conclude_unobserved, simp)
        next
          case False
          then have "reviewed_concept rt inp document taxonomies f q k unit (resolution_id_of rt q k unit) rule s = Inr st'"
            using step True Cons single by simp
          then show ?thesis using Cons single True f by (intro reviewed_concept_resolves) simp_all
        qed
      qed
    qed
  qed
  then show ?thesis using s by (rule resolves_from)
qed

text \<open>A stretch of steps: the resolutions it adds, in order, each with its outcome for one of the requests.\<close>

definition accounted ::
  "'z ingest_runtime_scheme \<Rightarrow> normalization_input \<Rightarrow> (string \<times> source) list \<Rightarrow> (uuid \<times> concept) list \<Rightarrow> norm_state \<Rightarrow> norm_state \<Rightarrow> bool" where
  "accounted rt inp taxonomies ks st st' \<longleftrightarrow>
     grows st st'
     \<and> (\<exists>rs. ns_resolutions st' = ns_resolutions st @ rs \<and> map (\<lambda>r. (rs_coverage r, rs_concept r)) rs = ks
          \<and> (\<forall>r\<in>set rs. \<exists>q\<in>set (in_requests inp). rs_coverage r = cr_id q \<and> rs_concept r \<in> set (cr_concepts q)
               \<and> outcome rt inp taxonomies (set (ns_observations st')) (set (ns_flags st')) q r))"

lemma accounted_trans:
  assumes "accounted rt inp taxonomies ks st s" "accounted rt inp taxonomies ks' s st'"
  shows "accounted rt inp taxonomies (ks @ ks') st st'"
proof -
  from assms(1) obtain rs where rs: "grows st s" "ns_resolutions s = ns_resolutions st @ rs"
      "map (\<lambda>r. (rs_coverage r, rs_concept r)) rs = ks"
      "\<forall>r\<in>set rs. \<exists>q\<in>set (in_requests inp). rs_coverage r = cr_id q \<and> rs_concept r \<in> set (cr_concepts q)
               \<and> outcome rt inp taxonomies (set (ns_observations s)) (set (ns_flags s)) q r"
    by (auto simp: accounted_def)
  from assms(2) obtain rs' where rs': "grows s st'" "ns_resolutions st' = ns_resolutions s @ rs'"
      "map (\<lambda>r. (rs_coverage r, rs_concept r)) rs' = ks'"
      "\<forall>r\<in>set rs'. \<exists>q\<in>set (in_requests inp). rs_coverage r = cr_id q \<and> rs_concept r \<in> set (cr_concepts q)
               \<and> outcome rt inp taxonomies (set (ns_observations st')) (set (ns_flags st')) q r"
    by (auto simp: accounted_def)
  have "\<exists>q\<in>set (in_requests inp). rs_coverage r = cr_id q \<and> rs_concept r \<in> set (cr_concepts q)
      \<and> outcome rt inp taxonomies (set (ns_observations st')) (set (ns_flags st')) q r" if "r \<in> set (rs @ rs')" for r
  proof (cases "r \<in> set rs'")
    case True
    then show ?thesis using rs'(4) by blast
  next
    case False
    with that have "r \<in> set rs" by simp
    from bspec[OF rs(4) this] obtain q where q: "q \<in> set (in_requests inp)" "rs_coverage r = cr_id q" "rs_concept r \<in> set (cr_concepts q)"
        "outcome rt inp taxonomies (set (ns_observations s)) (set (ns_flags s)) q r"
      by blast
    have "outcome rt inp taxonomies (set (ns_observations st')) (set (ns_flags st')) q r"
      using q(4) rs'(1) by (auto simp: grows_def intro: outcome_mono)
    with q show ?thesis by blast
  qed
  then show ?thesis
    unfolding accounted_def using rs rs' grows_trans
    by (intro conjI exI[of _ "rs @ rs'"]) auto
qed

lemma concepts_accounted:
  assumes "fold_result (resolve_concept rt inp document taxonomies f q) ks st = Inr st'"
    and "set ks \<subseteq> set (cr_concepts q)" "q \<in> set (in_requests inp)" "f \<in> set (in_filings inp)" "fm_id f = cr_version q"
  shows "accounted rt inp taxonomies (map (Pair (cr_id q)) ks) st st' \<and> ns_coverage st' = ns_coverage st"
  using assms(1,2)
proof (induction ks arbitrary: st)
  case Nil
  then show ?case by (simp add: accounted_def)
next
  case (Cons k ks)
  then obtain s where s: "resolve_concept rt inp document taxonomies f q k st = Inr s"
      "fold_result (resolve_concept rt inp document taxonomies f q) ks s = Inr st'"
    by (auto split: sum.splits)
  have one: "resolves rt inp taxonomies q k st s" using resolve_concept_resolves[OF s(1) assms(4,5)] .
  have "accounted rt inp taxonomies [(cr_id q, k)] st s"
    using one Cons.prems(2) assms(3) by (fastforce simp: resolves_def accounted_def)
  moreover have "accounted rt inp taxonomies (map (Pair (cr_id q)) ks) s st' \<and> ns_coverage st' = ns_coverage s"
    using Cons.IH[OF s(2)] Cons.prems(2) by simp
  ultimately show ?case using one by (auto simp: resolves_def dest: accounted_trans)
qed

definition requested_concepts :: "coverage_request list \<Rightarrow> (uuid \<times> concept) list" where
  "requested_concepts qs = concat (map (\<lambda>q. map (Pair (cr_id q)) (cr_concepts q)) qs)"

lemma requests_accounted:
  assumes "fold_result (resolve_request rt inp document taxonomies) qs st = Inr st'" "set qs \<subseteq> set (in_requests inp)"
  shows "accounted rt inp taxonomies (requested_concepts qs) st st'
    \<and> map ci_id (ns_coverage st') = map ci_id (ns_coverage st) @ map cr_id qs"
  using assms
proof (induction qs arbitrary: st)
  case Nil
  then show ?case by (simp add: accounted_def requested_concepts_def)
next
  case (Cons q qs)
  then obtain s where s: "resolve_request rt inp document taxonomies q st = Inr s"
      "fold_result (resolve_request rt inp document taxonomies) qs s = Inr st'"
    by (auto split: sum.splits)
  from s(1) obtain f where f: "find (\<lambda>f. fm_id f = cr_version q) (in_filings inp) = Some f"
    by (auto simp: resolve_request_def split: option.splits)
  define s0 where "s0 = add_flags (request_flags rt inp q f) (st\<lparr>ns_coverage := ns_coverage st @ [coverage_of q f]\<rparr>)"
  have run: "fold_result (resolve_concept rt inp document taxonomies f q) (cr_concepts q) s0 = Inr s"
    using s(1) by (simp add: resolve_request_def f s0_def)
  have mem: "f \<in> set (in_filings inp)" "fm_id f = cr_version q" using f by (auto simp: find_Some_iff)
  have acc: "accounted rt inp taxonomies (map (Pair (cr_id q)) (cr_concepts q)) s0 s" "ns_coverage s = ns_coverage s0"
    using concepts_accounted[OF run] Cons.prems(2) mem by auto
  have "accounted rt inp taxonomies [] st s0" by (simp add: accounted_def grows_def s0_def add_flags_def)
  from accounted_trans[OF this acc(1)] have "accounted rt inp taxonomies (map (Pair (cr_id q)) (cr_concepts q)) st s" by simp
  moreover have "accounted rt inp taxonomies (requested_concepts qs) s st'"
      "map ci_id (ns_coverage st') = map ci_id (ns_coverage s) @ map cr_id qs"
    using Cons.IH[OF s(2)] Cons.prems(2) by simp_all
  moreover have "map ci_id (ns_coverage s) = map ci_id (ns_coverage st) @ [cr_id q]"
    using acc(2) by (simp add: s0_def add_flags_def coverage_of_def)
  ultimately show ?case by (auto simp: requested_concepts_def dest: accounted_trans)
qed

section \<open>The bundle\<close>

lemma dict_put_keys: "key ` set (dict_put key r rows) = insert (key r) (key ` set rows)"
  by (auto simp: dict_put_def image_iff)

lemma dict_of_keys: "key ` set (dict_of key rows) = key ` set rows"
proof -
  have "key ` set (foldl (\<lambda>d r. dict_put key r d) ds rows) = key ` set ds \<union> key ` set rows" for ds
    by (induction rows arbitrary: ds) (auto simp: dict_put_keys)
  then show ?thesis by (simp add: dict_of_def)
qed

lemma normalize_InrE:
  assumes "normalize_verified_bytes rt body inp = Inr b"
  obtains document taxonomies st where "input_valid rt inp body" "parse_source rt body = Inr document"
    "canonical_cik (map_of document ''cik'') = Inr (in_cik inp)" "map_of document ''facts'' = Some (SDict taxonomies)"
    "fold_result (resolve_request rt inp document taxonomies) (in_requests inp) (start_state inp) = Inr st"
    "nb_resolutions b = ns_resolutions st" "set (nb_observations b) = set (ns_observations st)"
    "nb_coverage b = ns_coverage st" "nb_flags b = dict_of qu_id (ns_flags st)"
    "bundle_output_hash rt (b\<lparr>nb_output_hash := []\<rparr>) = Some (nb_output_hash b)"
  using assms
  by (auto simp: normalize_verified_bytes_def Let_def source_fields_Some bundle_of_def split: if_splits sum.splits option.splits)

end
