(* ===== verification/Sec_References.thy ===== *)
theory Sec_References
  imports Sec_Properties
begin

text \<open>
  No reference of a normalized bundle dangles: every identifier that a row of the run mentions is that of a
  row of the run, so the digests, which look every reference up, are always defined.
\<close>

section \<open>Closed states\<close>

definition scope_ids :: "normalization_input \<Rightarrow> uuid set" where
  "scope_ids inp = (\<lambda>q. sc_id (cr_scope q)) ` set (in_requests inp)"

definition observation_closed :: "normalization_input \<Rightarrow> uuid set \<Rightarrow> uuid set \<Rightarrow> source_observation \<Rightarrow> bool" where
  "observation_closed inp ps us ob \<longleftrightarrow>
     ob_period ob \<in> ps \<and> ob_unit ob \<in> us \<and> ob_version ob \<in> fm_id ` set (in_filings inp) \<and> set_option (ob_scope ob) \<subseteq> scope_ids inp"

definition flag_closed :: "uuid set \<Rightarrow> uuid set \<Rightarrow> quality_flag \<Rightarrow> bool" where
  "flag_closed ps rs q \<longleftrightarrow> set_option (qu_resolution q) \<subseteq> rs \<and> set_option (qu_period q) \<subseteq> ps"

definition coverage_closed :: "normalization_input \<Rightarrow> uuid set \<Rightarrow> uuid set \<Rightarrow> coverage_item \<Rightarrow> bool" where
  "coverage_closed inp ps us c \<longleftrightarrow>
     ci_version c \<in> fm_id ` set (in_filings inp) \<and> ci_period c \<in> ps \<and> ci_scope c \<in> scope_ids inp \<and> set_option (ci_currency c) \<subseteq> us"

definition resolution_closed :: "normalization_input \<Rightarrow> uuid set \<Rightarrow> uuid set \<Rightarrow> uuid set \<Rightarrow> resolution \<Rightarrow> bool" where
  "resolution_closed inp us cs obs r \<longleftrightarrow>
     rs_coverage r \<in> cs \<and> rs_scope r \<in> scope_ids inp \<and> rs_unit r \<in> us \<and> set_option (rs_selected r) \<subseteq> obs"

text \<open>While a concept is being resolved, its resolution, not yet added, may be referred to: \<open>extra\<close>.\<close>

definition closed :: "normalization_input \<Rightarrow> uuid set \<Rightarrow> norm_state \<Rightarrow> bool" where
  "closed inp extra st \<longleftrightarrow>
     (let ps = pd_id ` set (ns_periods st); us = ut_id ` set (ns_units st); obs = ob_id ` set (ns_observations st);
          rs = extra \<union> rs_id ` set (ns_resolutions st); cs = ci_id ` set (ns_coverage st) in
      (\<forall>q\<in>set (in_requests inp). pd_id (cr_period q) \<in> ps \<and> ut_id (cr_currency q) \<in> us)
      \<and> (\<forall>ob\<in>set (ns_observations st). observation_closed inp ps us ob)
      \<and> (\<forall>q\<in>set (ns_flags st). flag_closed ps rs q)
      \<and> (\<forall>c\<in>set (ns_coverage st). coverage_closed inp ps us c)
      \<and> (\<forall>r\<in>set (ns_resolutions st). resolution_closed inp us cs obs r)
      \<and> (\<forall>c\<in>set (ns_candidates st). ca_resolution c \<in> rs \<and> ca_observation c \<in> obs))"

lemmas closed_defs = observation_closed_def flag_closed_def coverage_closed_def resolution_closed_def

lemma closed_start: "closed inp {} (start_state inp)"
  by (auto simp: closed_def start_state_def Let_def dict_of_keys)

lemma closed_flag:
  "closed inp extra st \<Longrightarrow> (\<And>q. q \<in> set fs \<Longrightarrow> flag_closed (pd_id ` set (ns_periods st)) (extra \<union> rs_id ` set (ns_resolutions st)) q)
    \<Longrightarrow> closed inp extra (add_flags fs st)"
  by (auto simp: closed_def add_flags_def Let_def)

lemma closed_unit: "closed inp extra st \<Longrightarrow> closed inp extra (st\<lparr>ns_units := dict_put ut_id u (ns_units st)\<rparr>)"
  by (fastforce simp: closed_def Let_def dict_put_keys closed_defs)

lemma closed_period: "closed inp extra st \<Longrightarrow> closed inp extra (st\<lparr>ns_periods := dict_put pd_id p (ns_periods st)\<rparr>)"
  by (fastforce simp: closed_def Let_def dict_put_keys closed_defs)

lemma closed_observation:
  "closed inp extra st \<Longrightarrow> observation_closed inp (pd_id ` set (ns_periods st)) (ut_id ` set (ns_units st)) ob
    \<Longrightarrow> closed inp extra (st\<lparr>ns_observations := ns_observations st @ [ob]\<rparr>)"
  by (fastforce simp: closed_def Let_def closed_defs)

lemma closed_extra: "closed inp extra st \<Longrightarrow> extra \<subseteq> extra' \<Longrightarrow> closed inp extra' st"
  by (fastforce simp: closed_def Let_def flag_closed_def)

lemma mk_flag_closed:
  "pd_id (cr_period q) \<in> ps \<Longrightarrow> set_option res \<subseteq> rs \<Longrightarrow> flag_closed ps rs (mk_flag rt inp q rule message res)"
  by (simp add: flag_closed_def mk_flag_def)

lemma closed_requests: "closed inp extra st \<Longrightarrow> q \<in> set (in_requests inp)
    \<Longrightarrow> pd_id (cr_period q) \<in> pd_id ` set (ns_periods st) \<and> ut_id (cr_currency q) \<in> ut_id ` set (ns_units st)"
  by (auto simp: closed_def Let_def)

section \<open>The steps keep states closed\<close>

lemma record_row_closed:
  assumes step: "record_row rt inp q res row st = Inr st'" and closed: "closed inp {res} st"
    and q: "q \<in> set (in_requests inp)"
    and judged: "\<And>j. snd row = Some j \<Longrightarrow> ob_period (jd_observation j) = pd_id (jd_period j) \<and> ob_unit (jd_observation j) = ut_id (jd_unit j)
        \<and> ob_version (jd_observation j) \<in> fm_id ` set (in_filings inp) \<and> set_option (ob_scope (jd_observation j)) \<subseteq> scope_ids inp"
  shows "closed inp {res} st'"
proof (cases row)
  case (Pair raw jd)
  show ?thesis
  proof (cases jd)
    case None
    then have "st' = add_flags [mk_flag rt inp q ''unsupported_row_identity'' (''Unparseable period/unit at '' @ row_locator raw) (Some res)] st"
      using step by (simp add: Pair record_row_def)
    then show ?thesis using closed closed_requests[OF closed q] by (auto intro!: closed_flag mk_flag_closed)
  next
    case (Some j)
    define s where "s = st\<lparr>ns_periods := dict_put pd_id (jd_period j) (ns_periods st), ns_units := dict_put ut_id (jd_unit j) (ns_units st)\<rparr>"
    have s: "closed inp {res} s"
      using closed_unit[OF closed_period[OF closed, of "jd_period j"], of "jd_unit j"] by (simp add: s_def)
    have "observation_closed inp (pd_id ` set (ns_periods s)) (ut_id ` set (ns_units s)) (jd_observation j)"
      using judged[of j] by (simp add: Pair Some observation_closed_def s_def dict_put_keys)
    then have "closed inp {res} (s\<lparr>ns_observations := ns_observations s @ [jd_observation j]\<rparr>)"
      by (rule closed_observation[OF s])
    with s show ?thesis using step
      by (auto simp: Pair Some record_row_def s_def split: option.splits if_split_asm)
  qed
qed

lemma conclude_closed:
  assumes closed: "closed inp {res} st" and q: "q \<in> set (in_requests inp)"
    and u: "ut_id unit \<in> ut_id ` set (ns_units st)" and c: "cr_id q \<in> ci_id ` set (ns_coverage st)"
    and chosen: "\<And>j. chosen = Some j \<Longrightarrow> ob_id (jd_observation j) \<in> ob_id ` set (ns_observations st)"
  shows "closed inp {} (conclude rt inp q k unit res (status, reason, chosen) st)"
proof -
  define r where "r = \<lparr>rs_id = res, rs_coverage = cr_id q, rs_concept = k, rs_scope = sc_id (cr_scope q),
               rs_instrument = sc_instrument (cr_scope q), rs_unit = ut_id unit, rs_status = status,
               rs_selected = map_option (\<lambda>c. ob_id (jd_observation c)) chosen, rs_reason = reason\<rparr>"
  have "resolution_closed inp (ut_id ` set (ns_units st)) (ci_id ` set (ns_coverage st)) (ob_id ` set (ns_observations st)) r"
    using q u c chosen by (cases chosen) (auto simp: r_def resolution_closed_def scope_ids_def)
  then have "closed inp {} (st\<lparr>ns_resolutions := ns_resolutions st @ [r]\<rparr>)"
    using closed by (simp add: closed_def Let_def r_def)
  then show ?thesis
    using closed_requests[OF closed q]
    by (auto simp: conclude_def r_def[symmetric] intro!: closed_flag mk_flag_closed) (simp_all add: r_def)
qed

lemma judged_closed:
  assumes "judge_row rt inp document f q unit rule row = Some j" "f \<in> set (in_filings inp)" "q \<in> set (in_requests inp)"
  shows "ob_period (jd_observation j) = pd_id (jd_period j) \<and> ob_unit (jd_observation j) = ut_id (jd_unit j)
    \<and> ob_version (jd_observation j) \<in> fm_id ` set (in_filings inp) \<and> set_option (ob_scope (jd_observation j)) \<subseteq> scope_ids inp"
proof -
  from assms(1) obtain p u where "row_period rt (sr_fields row) = Inr p" "mk_unit_spec rt (sr_unit row) = Inr u"
      "jd_observation j = row_observation rt inp document f q rule row p u" "jd_period j = p" "jd_unit j = u"
    by (auto simp: judge_row_def split: sum.splits)
  then show ?thesis using assms(2,3) by (auto simp: row_observation_def scope_ids_def split: prod.splits)
qed

lemma record_rows_closed:
  assumes "fold_result (record_row rt inp q res) rows st = Inr st'" "closed inp {res} st" "q \<in> set (in_requests inp)"
    and "\<And>row j. row \<in> set rows \<Longrightarrow> snd row = Some j \<Longrightarrow> ob_period (jd_observation j) = pd_id (jd_period j) \<and> ob_unit (jd_observation j) = ut_id (jd_unit j)
        \<and> ob_version (jd_observation j) \<in> fm_id ` set (in_filings inp) \<and> set_option (ob_scope (jd_observation j)) \<subseteq> scope_ids inp"
  shows "closed inp {res} st'"
  using assms(1,2)
  by (rule fold_result_inv) (rule record_row_closed, assumption, assumption, rule assms(3), rule assms(4))

text \<open>Units are only ever added, too.\<close>

definition units_grow :: "norm_state \<Rightarrow> norm_state \<Rightarrow> bool" where
  "units_grow st st' \<longleftrightarrow> ut_id ` set (ns_units st) \<subseteq> ut_id ` set (ns_units st')"

lemma record_rows_units:
  assumes "fold_result (record_row rt inp q res) rows st = Inr st'"
  shows "units_grow st st'"
  using assms
proof (rule fold_result_inv[where P = "units_grow st"])
  show "units_grow st s'" if "record_row rt inp q res row s = Inr s'" "units_grow st s" for row s s'
    using that by (auto simp: record_row_def units_grow_def add_flags_def dict_put_keys split: prod.splits option.splits if_split_asm)
qed (simp add: units_grow_def)

lemma settled_chosen:
  assumes "settle_rows q unit rule considered = Inr (status, reason, Some j)"
  shows "j \<in> set considered"
proof -
  have "status = ''observed''" using settle_unobserved[OF assms] by auto
  with assms settle_observed[of q unit rule considered reason "Some j"] show ?thesis by (metis option.inject)
qed

lemma reviewed_concept_closed:
  assumes step: "reviewed_concept rt inp document taxonomies f q k unit res rule st = Inr st'"
    and closed: "closed inp {} st" and q: "q \<in> set (in_requests inp)" and f: "f \<in> set (in_filings inp)"
    and u: "ut_id unit \<in> ut_id ` set (ns_units st)" and c: "cr_id q \<in> ci_id ` set (ns_coverage st)"
  shows "closed inp {} st'"
proof -
  from step obtain rows where rows: "rows_of_tags taxonomies (fm_accession f) (mr_tags rule @ mr_rejected rule) = Inr rows"
    by (auto simp: reviewed_concept_def split: sum.splits)
  define judged where "judged = map (\<lambda>row. (row, judge_row rt inp document f q unit rule row)) rows"
  define considered where "considered = List.map_filter snd judged"
  from step obtain s status reason chosen where s: "fold_result (record_row rt inp q res) judged st = Inr s"
      and settled: "settle_rows q unit rule considered = Inr (status, reason, chosen)"
      and st': "st' = conclude rt inp q k unit res (status, reason, chosen)
        (s\<lparr>ns_candidates := ns_candidates s @ map (mk_candidate res rule status reason chosen) considered\<rparr>)"
    by (auto simp: reviewed_concept_def rows Let_def judged_def[symmetric] considered_def[symmetric] split: sum.splits)
  have "closed inp {res} s"
    by (rule record_rows_closed[OF s closed_extra[OF closed] q]) (auto simp: judged_def intro!: judged_closed[OF _ f q])
  moreover have seen: "ob_id (jd_observation j) \<in> ob_id ` set (ns_observations s)" if "j \<in> set considered" for j
  proof -
    have "Some j \<in> snd ` set judged" using that by (auto simp: considered_def set_map_filter image_iff Bex_def)
    then show ?thesis using record_rows_Inr[OF s] by blast
  qed
  ultimately have closed': "closed inp {res} (s\<lparr>ns_candidates := ns_candidates s @ map (mk_candidate res rule status reason chosen) considered\<rparr>)"
    by (auto simp: closed_def Let_def mk_candidate_def)
  show ?thesis
    unfolding st'
    by (rule conclude_closed[OF closed' q])
      (use u c record_rows_units[OF s] record_rows_Inr[OF s] settled settled_chosen seen in \<open>auto simp: units_grow_def\<close>)
qed

lemma resolve_concept_closed:
  assumes step: "resolve_concept rt inp document taxonomies f q k st = Inr st'"
    and closed: "closed inp {} st" and q: "q \<in> set (in_requests inp)" and f: "f \<in> set (in_filings inp)"
    and c: "cr_id q \<in> ci_id ` set (ns_coverage st)"
  shows "closed inp {} st'"
proof -
  from step obtain unit where unit: "mk_unit_spec rt (concept_unit k (unit_key (cr_currency q))) = Inr unit"
    by (auto simp: resolve_concept_def split: sum.splits)
  define s where "s = st\<lparr>ns_units := dict_put ut_id unit (ns_units st)\<rparr>"
  have s: "closed inp {} s" "ut_id unit \<in> ut_id ` set (ns_units s)" "cr_id q \<in> ci_id ` set (ns_coverage s)"
    using closed_unit[OF closed] c by (simp_all add: s_def dict_put_keys)
  have withheld: "closed inp {} (conclude rt inp q k unit res (status, reason, None) s)" for res status reason
    by (rule conclude_closed[OF closed_extra[OF s(1)] q s(2,3)]) simp_all
  note step' = step[unfolded resolve_concept_def unit sum.case Let_def s_def[symmetric]]
  show ?thesis
    using step' s withheld reviewed_concept_closed[OF _ s(1) q f s(2,3)]
    by (auto split: if_split_asm list.splits)
qed

lemma resolve_request_closed:
  assumes step: "resolve_request rt inp document taxonomies q st = Inr st'" and closed: "closed inp {} st" and q: "q \<in> set (in_requests inp)"
  shows "closed inp {} st'"
proof -
  from step obtain f where f: "find (\<lambda>f. fm_id f = cr_version q) (in_filings inp) = Some f"
    by (auto simp: resolve_request_def split: option.splits)
  then have mem: "f \<in> set (in_filings inp)" by (auto simp: find_Some_iff)
  define s where "s = add_flags (request_flags rt inp q f) (st\<lparr>ns_coverage := ns_coverage st @ [coverage_of q f]\<rparr>)"
  have run: "fold_result (resolve_concept rt inp document taxonomies f q) (cr_concepts q) s = Inr st'"
    using step by (simp add: resolve_request_def f s_def)
  have "coverage_closed inp (pd_id ` set (ns_periods st)) (ut_id ` set (ns_units st)) (coverage_of q f)"
    using closed_requests[OF closed q] mem q by (simp add: coverage_closed_def coverage_of_def scope_ids_def)
  then have "closed inp {} (st\<lparr>ns_coverage := ns_coverage st @ [coverage_of q f]\<rparr>)"
    using closed by (auto simp: closed_def Let_def resolution_closed_def)
  then have s: "closed inp {} s"
    unfolding s_def using closed_requests[OF closed q]
    by (intro closed_flag) (auto simp: request_flags_def intro!: mk_flag_closed split: if_split_asm)
  have "closed inp {} st' \<and> cr_id q \<in> ci_id ` set (ns_coverage st')"
    using run
  proof (rule fold_result_inv)
    show "closed inp {} s \<and> cr_id q \<in> ci_id ` set (ns_coverage s)"
      using s by (simp add: s_def add_flags_def coverage_of_def)
    show "closed inp {} t' \<and> cr_id q \<in> ci_id ` set (ns_coverage t')"
      if "resolve_concept rt inp document taxonomies f q k t = Inr t'" "closed inp {} t \<and> cr_id q \<in> ci_id ` set (ns_coverage t)" for k t t'
      using resolve_concept_closed[OF that(1) _ q mem] resolve_concept_resolves[OF that(1) mem] that(2) f
      by (auto simp: resolves_def find_Some_iff)
  qed
  then show ?thesis by simp
qed

section \<open>The digests are defined\<close>

lemma dict_get_defined: "dict_get key rows k \<noteq> None \<longleftrightarrow> k \<in> key ` set rows"
  by (auto simp: dict_get_def find_None_iff)

lemma dict_get_in: "dict_get key rows k = Some r \<Longrightarrow> r \<in> set rows"
  unfolding dict_get_def by (metis find_Some_iff in_set_conv_nth set_rev)

lemma dict_put_subset: "set (dict_put key r rows) \<subseteq> insert r (set rows)"
  by (auto simp: dict_put_def)

lemma dict_of_subset: "set (dict_of key rows) \<subseteq> set rows"
proof -
  have "set (foldl (\<lambda>d r. dict_put key r d) ds rows) \<subseteq> set ds \<union> set rows" for ds
  proof (induction rows arbitrary: ds)
    case (Cons r rows)
    then show ?case using dict_put_subset[of key r ds] by fastforce
  qed simp
  from this[of "[]"] show ?thesis by (simp add: dict_of_def)
qed

lemma opt_all_defined: "opt_all xs \<noteq> None \<longleftrightarrow> None \<notin> set xs"
  by (induction xs rule: opt_all.induct) auto

lemma row_hash_defined: "row_hash rt rows i \<noteq> None \<longleftrightarrow> rows i \<noteq> None"
  by (simp add: row_hash_def)

lemma opt_row_hash_defined: "opt_row_hash rt rows i \<noteq> None \<longleftrightarrow> (\<forall>k\<in>set_option i. rows k \<noteq> None)"
  by (cases i) (simp_all add: opt_row_hash_def row_hash_def)

lemma bind_defined: "x \<noteq> None \<Longrightarrow> (\<And>a. x = Some a \<Longrightarrow> f a \<noteq> None) \<Longrightarrow> Option.bind x f \<noteq> None"
  by (cases x) simp_all

lemma input_hash_defined:
  assumes "input_valid rt inp body"
  shows "normalization_input_hash rt inp \<noteq> None"
proof -
  have "request_manifest rt inp r \<noteq> None" if "r \<in> set (in_requests inp)" for r
  proof -
    have "cr_version r \<in> fm_id ` set (in_filings inp)"
      using assms that by (simp add: input_valid_def request_reviewed_def list_all_iff)
    then show ?thesis
      using that dict_get_defined[of fm_id "in_filings inp" "cr_version r"]
        dict_get_defined[of pd_id "map cr_period (in_requests inp)" "pd_id (cr_period r)"]
        dict_get_defined[of ut_id "map cr_currency (in_requests inp)" "ut_id (cr_currency r)"]
        dict_get_defined[of sc_id "map cr_scope (in_requests inp)" "sc_id (cr_scope r)"]
      by (auto simp: request_manifest_def)
  qed
  then have "opt_all (map (request_manifest rt inp) (in_requests inp)) \<noteq> None"
    unfolding opt_all_defined by (metis imageE list.set_map)
  then show ?thesis by (auto simp: normalization_input_hash_def)
qed

text \<open>The bundle holds the rows of a closed state.\<close>

definition holds_rows :: "normalization_input \<Rightarrow> norm_state \<Rightarrow> normalization_bundle \<Rightarrow> bool" where
  "holds_rows inp st b \<longleftrightarrow>
     closed inp {} st \<and> set (nb_periods b) = set (ns_periods st) \<and> set (nb_units b) = set (ns_units st)
     \<and> set (nb_observations b) = set (ns_observations st) \<and> nb_resolutions b = ns_resolutions st
     \<and> nb_coverage b = ns_coverage st \<and> nb_candidates b = ns_candidates st \<and> set (nb_flags b) \<subseteq> set (ns_flags st)
     \<and> sc_id ` set (nb_scopes b) = scope_ids inp \<and> nb_filings b = in_filings inp \<and> nb_inputs b = inp"

lemma known_rows:
  assumes "holds_rows inp st b"
  shows "period_row b i \<noteq> None \<longleftrightarrow> i \<in> pd_id ` set (ns_periods st)"
    "unit_row b i \<noteq> None \<longleftrightarrow> i \<in> ut_id ` set (ns_units st)"
    "scope_row rt b i \<noteq> None \<longleftrightarrow> i \<in> scope_ids inp"
    "filing_row_of rt b i \<noteq> None \<longleftrightarrow> i \<in> fm_id ` set (in_filings inp)"
  using assms dict_get_defined[of pd_id "nb_periods b" i] dict_get_defined[of ut_id "nb_units b" i]
    dict_get_defined[of sc_id "nb_scopes b" i] dict_get_defined[of fm_id "nb_filings b" i]
  by (simp_all add: period_row_def unit_row_def scope_row_def filing_row_of_def holds_rows_def)

lemma coverage_known:
  assumes "holds_rows inp st b" "c \<in> set (nb_coverage b)"
  shows "coverage_fields rt b c \<noteq> None"
proof -
  have "coverage_closed inp (pd_id ` set (ns_periods st)) (ut_id ` set (ns_units st)) c"
    using assms by (simp add: holds_rows_def closed_def Let_def)
  then show ?thesis
    unfolding coverage_fields_def
    by (intro bind_defined; (simp only: row_hash_defined opt_row_hash_defined known_rows[OF assms(1)])?) (auto simp: coverage_closed_def)
qed

lemma observation_known:
  assumes "holds_rows inp st b" "ob \<in> set (nb_observations b)"
  shows "observation_fields rt b ob \<noteq> None"
proof -
  have "observation_closed inp (pd_id ` set (ns_periods st)) (ut_id ` set (ns_units st)) ob"
    using assms by (simp add: holds_rows_def closed_def Let_def)
  then show ?thesis
    unfolding observation_fields_def
    by (intro bind_defined; (simp only: row_hash_defined opt_row_hash_defined known_rows[OF assms(1)])?) (auto simp: observation_closed_def)
qed

text \<open>A reference to a row whose own fields are defined.\<close>

lemma looked_up:
  assumes "\<And>r. r \<in> set rows \<Longrightarrow> g r \<noteq> None" "k \<in> key ` set rows"
  shows "Option.bind (dict_get key rows k) g \<noteq> None"
  using assms dict_get_defined[of key rows k] by (intro bind_defined) (auto dest: dict_get_in)

lemma resolution_known:
  assumes "holds_rows inp st b" "r \<in> set (nb_resolutions b)"
  shows "resolution_fields rt b r \<noteq> None"
proof -
  have "resolution_closed inp (ut_id ` set (ns_units st)) (ci_id ` set (nb_coverage b)) (ob_id ` set (nb_observations b)) r"
    using assms by (simp add: holds_rows_def closed_def Let_def)
  then have r: "rs_coverage r \<in> ci_id ` set (nb_coverage b)" "rs_scope r \<in> scope_ids inp" "rs_unit r \<in> ut_id ` set (ns_units st)"
      "set_option (rs_selected r) \<subseteq> ob_id ` set (nb_observations b)"
    by (simp_all add: resolution_closed_def)
  have "row_hash rt (\<lambda>i. Option.bind (dict_get ci_id (nb_coverage b) i) (coverage_fields rt b)) (rs_coverage r) \<noteq> None"
    unfolding row_hash_defined by (rule looked_up[OF coverage_known[OF assms(1)] r(1)])
  moreover have "opt_row_hash rt (\<lambda>i. Option.bind (dict_get ob_id (nb_observations b) i) (observation_fields rt b)) (rs_selected r) \<noteq> None"
    unfolding opt_row_hash_defined using r(4) by (intro ballI looked_up[OF observation_known[OF assms(1)]]) blast+
  moreover have "row_hash rt (scope_row rt b) (rs_scope r) \<noteq> None" "row_hash rt (unit_row b) (rs_unit r) \<noteq> None"
    unfolding row_hash_defined known_rows[OF assms(1)] by (rule r)+
  ultimately show ?thesis
    unfolding resolution_fields_def by (intro bind_defined) simp_all
qed

lemma resolution_hash_known:
  assumes "holds_rows inp st b" "i \<in> rs_id ` set (nb_resolutions b)"
  shows "resolution_hash rt b i \<noteq> None"
  unfolding resolution_hash_def row_hash_defined using assms(2) by (intro looked_up resolution_known[OF assms(1)])

lemma candidate_known:
  assumes "holds_rows inp st b" "c \<in> set (nb_candidates b)"
  shows "candidate_fields rt b c \<noteq> None"
proof -
  have c: "ca_resolution c \<in> rs_id ` set (nb_resolutions b)" "ca_observation c \<in> ob_id ` set (nb_observations b)"
    using assms by (simp_all add: holds_rows_def closed_def Let_def)
  have "row_hash rt (\<lambda>i. Option.bind (dict_get ob_id (nb_observations b) i) (observation_fields rt b)) (ca_observation c) \<noteq> None"
    unfolding row_hash_defined using c(2) by (intro looked_up observation_known[OF assms(1)])
  with resolution_hash_known[OF assms(1) c(1)] show ?thesis
    unfolding candidate_fields_def by (intro bind_defined) simp_all
qed

lemma flag_known:
  assumes "holds_rows inp st b" "q \<in> set (nb_flags b)"
  shows "flag_fields rt b q \<noteq> None"
proof -
  have q: "flag_closed (pd_id ` set (ns_periods st)) (rs_id ` set (nb_resolutions b)) q"
    using assms by (auto simp: holds_rows_def closed_def Let_def)
  have "(case qu_resolution q of None \<Rightarrow> Some MNull | Some i \<Rightarrow> resolution_hash rt b i) \<noteq> None"
    using q resolution_hash_known[OF assms(1)] by (cases "qu_resolution q") (auto simp: flag_closed_def simp del: not_None_eq)
  moreover have "opt_row_hash rt (period_row b) (qu_period q) \<noteq> None"
    unfolding opt_row_hash_defined known_rows[OF assms(1)] using q by (auto simp: flag_closed_def)
  ultimately show ?thesis unfolding flag_fields_def by (intro bind_defined) simp_all
qed

lemma opt_all_known:
  assumes "\<And>r. r \<in> set rows' \<Longrightarrow> g r \<noteq> None" "set rows \<subseteq> set rows'"
  shows "opt_all (map g rows) \<noteq> None"
  unfolding opt_all_defined using assms by (metis imageE list.set_map subsetD)

lemma output_hash_defined:
  assumes "holds_rows inp st b" "input_valid rt inp body"
  shows "bundle_output_hash rt b \<noteq> None"
proof -
  note known = opt_all_known[OF coverage_known[OF assms(1)] dict_of_subset] opt_all_known[OF observation_known[OF assms(1)] dict_of_subset]
    opt_all_known[OF resolution_known[OF assms(1)] dict_of_subset] opt_all_known[OF candidate_known[OF assms(1)] subset_refl]
    opt_all_known[OF flag_known[OF assms(1)] subset_refl]
  have "normalization_input_hash rt (nb_inputs b) \<noteq> None"
    using input_hash_defined[OF assms(2)] assms(1) by (simp add: holds_rows_def)
  then show ?thesis
    unfolding bundle_output_hash_def by (intro bind_defined known) simp_all
qed

text \<open>So a run that resolves every request gives a bundle: no digest fails.\<close>

lemma requests_closed:
  assumes "fold_result (resolve_request rt inp document taxonomies) (in_requests inp) (start_state inp) = Inr st"
  shows "closed inp {} st"
  using assms closed_start by (rule fold_result_inv) (rule resolve_request_closed)

lemma bundle_holds_rows:
  assumes "closed inp {} st"
  shows "holds_rows inp st (bundle_of inp h st)"
  using assms dict_of_subset[of qu_id "ns_flags st"] dict_of_keys[of sc_id "map cr_scope (in_requests inp)"]
  by (simp add: holds_rows_def bundle_of_def scope_ids_def image_image)

lemma normalize_gives_bundle:
  assumes "input_valid rt inp body" "parse_source rt body = Inr document"
    "canonical_cik (map_of document ''cik'') = Inr (in_cik inp)" "map_of document ''facts'' = Some (SDict taxonomies)"
    "fold_result (resolve_request rt inp document taxonomies) (in_requests inp) (start_state inp) = Inr st"
  shows "\<exists>b. normalize_verified_bytes rt body inp = Inr b \<and> nb_resolutions b = ns_resolutions st"
proof -
  obtain ih where ih: "normalization_input_hash rt inp = Some ih" using input_hash_defined[OF assms(1)] by auto
  obtain h where h: "bundle_output_hash rt (bundle_of inp ih st) = Some h"
    using output_hash_defined[OF bundle_holds_rows[OF requests_closed[OF assms(5)]] assms(1)] by auto
  show ?thesis
    using assms ih h by (simp add: normalize_verified_bytes_def source_fields_def Let_def) (simp add: bundle_of_def)
qed

end
