(* ===== verification/Sec_Samples.thy ===== *)
theory Sec_Samples
  imports Sec_References "HOL-Library.Code_Target_Numeral"
begin

text \<open>
  One filing with one requested concept, on which the guarantees of the normalization are exercised.
\<close>

definition sec_taxonomies :: "(string \<times> source) list" where
  "sec_taxonomies = [(''us-gaap'', SDict [(''Revenues'', SDict
         [(''label'', SText ''Revenues''),
          (''units'', SDict [(''USD'', SList
             [SDict [(''start'', SText ''2024-01-01''), (''end'', SText ''2024-12-31''), (''val'', SNumber ''1250.0''),
                (''accn'', SText ''0000320193-25-000001''), (''form'', SText ''10-K''), (''filed'', SText ''2025-02-01'')],
              SDict [(''start'', SText ''2023-01-01''), (''end'', SText ''2023-12-30''), (''val'', SNumber ''900''),
                (''accn'', SText ''0000320193-25-000001''), (''form'', SText ''10-K''), (''filed'', SText ''2025-02-01'')]])])])])]"

definition sec_document :: "(string \<times> source) list" where
  "sec_document = [(''cik'', SNumber ''320193''), (''facts'', SDict sec_taxonomies)]"

text \<open>A cheap identifier that tells the texts of this sample apart: their length and third last character.\<close>

definition checksum :: "string \<Rightarrow> nat" where
  "checksum s = 1000 * of_char (s ! (length s - 3)) + length s"

definition sec_rt :: ingest_runtime where
  "sec_rt = \<lparr>json_loads = (\<lambda>_. None), sha256_hex = (\<lambda>_. ''h''), urlsplit = (\<lambda>_. None), uuid_text = nat_text,
     source_tree = (\<lambda>_. Some (SDict sec_document)), uuid5_url = checksum\<rparr>"

definition sec_period :: period_spec where
  "sec_period = \<lparr>pd_id = evidence_id sec_rt ''period'' (MList [MText ''duration'', m_date (Date 2024 1 1), m_date (Date 2024 12 31)]),
     period_kind = ''duration'', pd_start = Some (Date 2024 1 1), pd_end = Date 2024 12 31\<rparr>"

definition sec_request :: coverage_request where
  "sec_request = \<lparr>cr_id = 1, cr_version = 2, cr_period = sec_period,
     cr_scope = \<lparr>sc_id = 3, sc_issuer = 4, sc_instrument = None, scope_kind = ''consolidated'', descriptor_schema_version = 1,
       descriptor_json = ''{}'', content_sha256 = ''h''\<rparr>,
     cr_currency = \<lparr>ut_id = evidence_id sec_rt ''unit'' (MText ''USD''), unit_key = ''USD'', numerator_measures = [''iso4217:USD''],
       denominator_measures = []\<rparr>,
     cr_family = ''income'', cr_basis = ''us_gaap'', cr_authority = ''periodic_complete'', cr_assurance = ''audited'',
     cr_state = ''covered'', cr_locator = ''p. 1'', cr_concepts = [REVENUE, GROSS_PROFIT], cr_label = None\<rparr>"

definition sec_complete :: completeness where
  "sec_complete = \<lparr>co_state = ''complete'', co_start = Date 2020 1 1, co_end = Date 2030 1 1, co_references = [''r'']\<rparr>"

definition sec_time :: datetime where
  "sec_time = Datetime (739300 * micros_per_day) (Some 0)"

definition sec_input :: normalization_input where
  "sec_input = \<lparr>in_issuer = 4, in_cik = ''0000320193'', in_facts_capture = 5,
     in_captures = [\<lparr>ec_id = 5, ec_source = 6, ec_object = ''o'', ec_url = ''u'', ec_sha256 = ''h'', ec_bytes = 2, ec_fetched = sec_time,
        ec_completed = sec_time, ec_role = ''facts''\<rparr>],
     in_filings = [\<lparr>fm_id = 2, fm_filing = 7, fm_issuer = 4, fm_accession = ''0000320193-25-000001'', fm_capture = 5,
        fm_filed = Date 2025 2 1, fm_form = ''10-K'', fm_url = ''u'', fm_hash = ''h'', fm_report_end = None, fm_accepted = None,
        fm_time_basis = None\<rparr>],
     in_requests = [sec_request],
     in_rules = [\<lparr>mr_reference = ''m'', mr_cik = ''0000320193'', mr_accessions = [''0000320193-25-000001''], mr_concept = REVENUE,
        mr_tags = [''us-gaap:Revenues''], mr_unit = ''USD'', mr_scope = 3, mr_evidence = [''e''], mr_start = Some (Date 2024 1 1),
        mr_end = Date 2024 12 31, mr_sha256 = ''h'', mr_kind = ''consolidated'', mr_instrument = None, mr_family = ''income'',
        mr_basis = ''us_gaap'', mr_preferred = Some ''us-gaap:Revenues'', mr_rejected = [], mr_rationale = ''reviewed''\<rparr>],
     in_mapping_revision = 8, in_parser = ''p'', in_normalizer = ''n'', in_policy = ''a'', in_cutoff = sec_time,
     in_inventory = sec_complete, in_events = sec_complete, in_event_ids = [], in_flag_ids = [], in_attempt_ids = []\<rparr>"

lemma sec_valid: "input_valid sec_rt sec_input ''{}''"
  by code_simp

lemma sec_parsed:
  "parse_source sec_rt ''{}'' = Inr sec_document" "canonical_cik (map_of sec_document ''cik'') = Inr (in_cik sec_input)"
  "map_of sec_document ''facts'' = Some (SDict sec_taxonomies)"
  by code_simp+

text \<open>The run resolves the mapped concept from its one row, and reports that the other has no reviewed tag.\<close>

lemma sec_run:
  "case fold_result (resolve_request sec_rt sec_input sec_document sec_taxonomies) (in_requests sec_input) (start_state sec_input) of
     Inl e \<Rightarrow> False | Inr st \<Rightarrow> map rs_status (ns_resolutions st) = [''observed'', ''unsupported_scope'']"
  by code_simp

lemma sec_bundle:
  "\<exists>b. normalize_verified_bytes sec_rt ''{}'' sec_input = Inr b \<and> map rs_status (nb_resolutions b) = [''observed'', ''unsupported_scope'']"
proof (cases "fold_result (resolve_request sec_rt sec_input sec_document sec_taxonomies) (in_requests sec_input) (start_state sec_input)")
  case (Inl e)
  with sec_run show ?thesis by (simp only: sum.case)
next
  case (Inr st)
  then have "map rs_status (ns_resolutions st) = [''observed'', ''unsupported_scope'']"
    using sec_run by (simp only: sum.case)
  moreover obtain b where "normalize_verified_bytes sec_rt ''{}'' sec_input = Inr b" "nb_resolutions b = ns_resolutions st"
    using normalize_gives_bundle[OF sec_valid sec_parsed Inr] by (elim exE conjE)
  ultimately show ?thesis by (intro exI[of _ b]) (simp only: simp_thms)
qed

end
