(* ===== verification/Sec_Guarantees.thy ===== *)
theory Sec_Guarantees
  imports Sec_Samples
begin

text \<open>
  The guarantees of the Company Facts normalization, on its published bundle.
\<close>

section \<open>Observed numbers\<close>



section \<open>Every gap has an outcome\<close>

text \<open>
  C24.  Whenever the normalization returns a bundle, it holds exactly one coverage row for each request, and
  exactly one resolution for each requested concept, in the order of the requests.  A resolution selects an
  observation exactly when it is observed, gives a reason exactly when it is not, and then a quality flag of the
  bundle has the identifier that its request, its resolution and this reason determine.
\<close>

theorem every_request_resolved:
  assumes "normalize_verified_bytes rt body inp = Inr b"
  shows "map ci_id (nb_coverage b) = map cr_id (in_requests inp)
    \<and> map (\<lambda>r. (rs_coverage r, rs_concept r)) (nb_resolutions b) = requested_concepts (in_requests inp)
    \<and> list_all (\<lambda>r. (rs_selected r \<noteq> None \<longleftrightarrow> rs_status r = ''observed'') \<and> (rs_reason r = None \<longleftrightarrow> rs_status r = ''observed'')
        \<and> (case rs_reason r of None \<Rightarrow> True | Some why \<Rightarrow>
             list_ex (\<lambda>q. cr_id q = rs_coverage r \<and>
               qu_id (mk_flag rt inp q why (concept_value (rs_concept r) @ '': '' @ why) (Some (rs_id r))) \<in> set (map qu_id (nb_flags b)))
               (in_requests inp))) (nb_resolutions b)"
proof -
  from assms obtain document taxonomies st where n:
      "fold_result (resolve_request rt inp document taxonomies) (in_requests inp) (start_state inp) = Inr st"
      "nb_resolutions b = ns_resolutions st" "nb_coverage b = ns_coverage st" "nb_flags b = dict_of qu_id (ns_flags st)"
    by (rule normalize_InrE)
  have acc: "accounted rt inp taxonomies (requested_concepts (in_requests inp)) (start_state inp) st"
      "map ci_id (ns_coverage st) = map cr_id (in_requests inp)"
    using requests_accounted[OF n(1)] by (simp_all add: start_state_def)
  have "(rs_selected r \<noteq> None \<longleftrightarrow> rs_status r = ''observed'') \<and> (rs_reason r = None \<longleftrightarrow> rs_status r = ''observed'')
        \<and> (case rs_reason r of None \<Rightarrow> True | Some why \<Rightarrow>
             list_ex (\<lambda>q. cr_id q = rs_coverage r \<and>
               qu_id (mk_flag rt inp q why (concept_value (rs_concept r) @ '': '' @ why) (Some (rs_id r))) \<in> set (map qu_id (nb_flags b)))
               (in_requests inp))" if r: "r \<in> set (nb_resolutions b)" for r
  proof -
    obtain q where q: "q \<in> set (in_requests inp)" "rs_coverage r = cr_id q"
        "outcome rt inp taxonomies (set (ns_observations st)) (set (ns_flags st)) q r"
      using r acc(1) by (auto simp: accounted_def n(2) start_state_def)
    show ?thesis
    proof (cases "rs_status r = ''observed''")
      case True
      then show ?thesis using q(3) by (auto simp: outcome_def reported_def)
    next
      case False
      then obtain why where why: "rs_selected r = None" "rs_reason r = Some why"
          "mk_flag rt inp q why (concept_value (rs_concept r) @ '': '' @ why) (Some (rs_id r)) \<in> set (ns_flags st)"
        using q(3) by (auto simp: outcome_def)
      then have "qu_id (mk_flag rt inp q why (concept_value (rs_concept r) @ '': '' @ why) (Some (rs_id r))) \<in> set (map qu_id (nb_flags b))"
        unfolding n(4) set_map dict_of_keys by (intro imageI)
      with why False q(1,2) show ?thesis by (auto simp: list_ex_iff)
    qed
  qed
  then show ?thesis using acc n by (auto simp: accounted_def start_state_def list_all_iff)
qed

theorem every_request_resolved_witness:
  "\<exists>b. normalize_verified_bytes sec_rt ''{}'' sec_input = Inr b \<and> map ci_id (nb_coverage b) = map cr_id (in_requests sec_input)
    \<and> map (\<lambda>r. (rs_coverage r, rs_concept r)) (nb_resolutions b) = requested_concepts (in_requests sec_input)"
proof -
  from sec_bundle obtain b where b: "normalize_verified_bytes sec_rt ''{}'' sec_input = Inr b" by (elim exE conjE)
  from every_request_resolved[OF b] show ?thesis by (intro exI[of _ b] conjI b) (elim conjE, assumption)+
qed

end
