(* ===== verification/Sec_Rule_Properties.thy ===== *)
theory Sec_Rule_Properties
  imports Sec_Rules Sec_Guarantees
begin

text \<open>
  The reviewed cohort rules apply to the requests that they were derived from, and the one case in which the
  selection of a representative raises.
\<close>

section \<open>Admitted and rejected tags\<close>

definition tags_apart :: "string \<Rightarrow> concept \<Rightarrow> string list \<Rightarrow> bool" where
  "tags_apart cik k tags = list_all (\<lambda>t. t \<notin> set (fst (rejected_tags cik k))) tags"

lemma rejected_tags_cases:
  "fst (rejected_tags cik k) = [] \<or> k \<in> {OPERATING_EXPENSES, SHARE_BASED_COMPENSATION} \<or> (cik, k) \<in> {(cik_crcl, REVENUE), (cik_tsm, DIVIDENDS_PAID)}"
  by (simp add: rejected_tags_def)

lemma default_tags_reviewed:
  "default_tags cik OPERATING_EXPENSES = [''us-gaap:OperatingExpenses'']"
  "default_tags cik SHARE_BASED_COMPENSATION = [''us-gaap:ShareBasedCompensation'']"
  "default_tags cik_crcl REVENUE = [''us-gaap:Revenues'']"
  "default_tags cik_tsm DIVIDENDS_PAID = [''us-gaap:PaymentsOfDividendsCommonStock'']"
  by (simp_all add: default_tags_def reviewed_overrides_def concept_index_def all_concepts_def us_tags_def or_else_def)

lemma default_tags_apart: "tags_apart cik k (default_tags cik k)"
  using rejected_tags_cases[of cik k]
  by (auto simp: tags_apart_def default_tags_reviewed list_all_iff) (auto simp: rejected_tags_def split: if_splits)

lemma special_tags_apart:
  "k \<in> {NET_INCOME_PARENT, NET_INCOME_CONSOLIDATED, COMMON_SHARES_OUTSTANDING} \<Longrightarrow> tags_apart cik k tags"
  "map_of historical_tags k = Some t \<Longrightarrow> tags_apart cik_tsm k [''ifrs-full:'' @ t]"
  "tags_apart cik k []"
  by (auto simp: tags_apart_def rejected_tags_def historical_tags_def list_all_iff split: if_splits)

lemma reviewed_tags_apart:
  assumes "reviewed_tags cik anchor f r k = Some tags"
  shows "tags_apart cik k tags"
  using assms special_tags_apart(2)[of k] unfolding reviewed_tags_def Let_def
  by (simp split: if_splits option.splits) (auto simp: default_tags_apart special_tags_apart(1,3))

section \<open>Rules of the cohort\<close>

text \<open>
  C31.  The reviewed cohort rules hold what they were reviewed for.  Each of them stems from a request of the run
  and a concept that it asks for, names exactly the accession of that request's filing, is found when that
  concept is resolved, prefers the first tag that it admits, admits no tag that it also rejects, and belongs to
  an issuer of the reviewed table with a scope of the reviewed meaning.
\<close>

theorem cohort_rules_reviewed:
  assumes "canonical_cik_text (in_cik inp) = Inr (in_cik inp)"
    "reviewed_cohort_rules rt (SText (in_cik inp)) (in_filings inp) (in_requests inp) = Inr rules" "rule \<in> set rules"
  shows "\<exists>r f. r \<in> set (in_requests inp) \<and> f \<in> set (in_filings inp) \<and> fm_id f = cr_version r
    \<and> mr_concept rule \<in> set (cr_concepts r) \<and> mr_accessions rule = [fm_accession f]
    \<and> rule_applies inp (fm_accession f) r (mr_concept rule) rule
    \<and> mr_preferred rule = (case mr_tags rule of [] \<Rightarrow> None | t # _ \<Rightarrow> Some t)
    \<and> list_all (\<lambda>t. t \<notin> set (mr_rejected rule)) (mr_tags rule)
    \<and> map_of reviewed_anchors (in_cik inp) \<noteq> None \<and> reviewed_scope_matches rt (in_cik inp) (mr_concept rule) r"
proof -
  from assms(2,3) obtain c anchor f r k where o: "canonical_cik_text (in_cik inp) = Inr c" "map_of reviewed_anchors c = Some anchor"
      "r \<in> set (in_requests inp)" "k \<in> set (cr_concepts r)" "f \<in> set (in_filings inp)" "fm_id f = cr_version r"
      "concept_rule rt c anchor f r k = Some rule"
    by (rule cohort_rule_origin)
  have c: "c = in_cik inp" using o(1) assms(1) by simp
  from o(7) obtain tags where t: "reviewed_scope_matches rt c k r" "reviewed_tags c anchor f r k = Some tags"
      "rule = cohort_rule c f r k tags"
    by (auto simp: concept_rule_def split: if_splits)
  have "tags_apart c k tags" by (rule reviewed_tags_apart[OF t(2)])
  then show ?thesis
    using o c t concept_rule_applies[OF o(7), of inp]
    by (intro exI[of _ r] exI[of _ f]) (auto simp: cohort_rule_def tags_apart_def)
qed

definition cohort_request :: coverage_request where
  "cohort_request = sec_request\<lparr>
     cr_period := \<lparr>pd_id = 9, period_kind = ''duration'', pd_start = Some (Date 2024 9 29), pd_end = Date 2025 9 27\<rparr>\<rparr>"

definition cohort_input :: normalization_input where
  "cohort_input = sec_input\<lparr>in_requests := [cohort_request],
     in_filings := [(hd (in_filings sec_input))\<lparr>fm_accession := ''0000320193-25-000079''\<rparr>]\<rparr>"

definition cohort_rt :: ingest_runtime where
  "cohort_rt = sec_rt\<lparr>json_loads := (\<lambda>_. Some (JObject (expected_descriptor sec_rt cik_apple REVENUE None)))\<rparr>"

lemma cohort_rules_sample:
  "canonical_cik_text (in_cik cohort_input) = Inr (in_cik cohort_input)"
  "map_sum id (map mr_tags) (reviewed_cohort_rules cohort_rt (SText (in_cik cohort_input)) (in_filings cohort_input) (in_requests cohort_input))
     = Inr [[''us-gaap:RevenueFromContractWithCustomerExcludingAssessedTax''], [''us-gaap:GrossProfit'']]"
  by code_simp+

theorem cohort_rules_reviewed_witness:
  "\<exists>rules rule r f. reviewed_cohort_rules cohort_rt (SText (in_cik cohort_input)) (in_filings cohort_input) (in_requests cohort_input) = Inr rules
    \<and> rule \<in> set rules \<and> f \<in> set (in_filings cohort_input) \<and> rule_applies cohort_input (fm_accession f) r (mr_concept rule) rule"
proof -
  from cohort_rules_sample(2) obtain rules where rules:
      "reviewed_cohort_rules cohort_rt (SText (in_cik cohort_input)) (in_filings cohort_input) (in_requests cohort_input) = Inr rules"
      "map mr_tags rules = [[''us-gaap:RevenueFromContractWithCustomerExcludingAssessedTax''], [''us-gaap:GrossProfit'']]"
    by (cases "reviewed_cohort_rules cohort_rt (SText (in_cik cohort_input)) (in_filings cohort_input) (in_requests cohort_input)")
      (simp_all only: map_sum.simps sum.inject sum.distinct)
  from rules(2) obtain rule where rule: "rule \<in> set rules" by (cases rules) auto
  from cohort_rules_reviewed[OF cohort_rules_sample(1) rules(1) rule]
  obtain r f where "f \<in> set (in_filings cohort_input)" "rule_applies cohort_input (fm_accession f) r (mr_concept rule) rule"
    by (elim exE conjE)
  with rules(1) rule show ?thesis by (intro exI conjI)
qed

section \<open>The representative\<close>

lemma one_value_iff: "xs \<noteq> [] \<Longrightarrow> length (remdups xs) \<le> 1 \<longleftrightarrow> (\<exists>t. list_all (\<lambda>x. x = t) xs)"
proof (cases xs)
  case (Cons x ys)
  have "length (remdups xs) = card (set xs)" by (simp add: length_remdups_card_conv)
  moreover have "card (set xs) \<le> 1 \<longleftrightarrow> (\<forall>y\<in>set xs. y = x)"
    unfolding Cons by (subst One_nat_def, subst card_le_Suc0_iff_eq) (simp, (simp, metis)?)
  ultimately show ?thesis unfolding Cons by (auto simp: list_all_iff)
qed simp

text \<open>
  C27.  The selection of a representative fails in exactly one situation, with the error of a minimum over no
  rows: no row of the accession conflicts with the filing and no value in scope is unreadable, some rows are
  eligible, all of them agree on the value and carry one tag, and the rule prefers another tag.  In every other
  situation it returns an outcome.
\<close>

theorem settle_rows_raises_iff:
  "settle_rows r unit rule considered = Inl e \<longleftrightarrow>
     (let eligible = filter (\<lambda>j. jd_rejection j = None) considered in
        e = ValueError
        \<and> list_all (\<lambda>j. jd_rejection j \<noteq> Some ''filing_metadata_conflict'') considered
        \<and> list_all (\<lambda>j. \<not> (ob_period (jd_observation j) = pd_id (cr_period r) \<and> ob_unit (jd_observation j) = ut_id unit
              \<and> jd_rejection j \<in> Some ` set value_problems)) considered
        \<and> eligible \<noteq> [] \<and> list_all (same_value (hd eligible)) eligible
        \<and> (\<exists>tag p. list_all (\<lambda>j. observed_tag j = tag) eligible \<and> mr_preferred rule = Some p \<and> p \<noteq> [] \<and> p \<noteq> tag))"
proof -
  define eligible where "eligible = filter (\<lambda>j. jd_rejection j = None) considered"
  define preferred where "preferred = preferred_rows rule eligible"
  have conflict: "list_ex (\<lambda>j. jd_rejection j = Some ''filing_metadata_conflict'') considered
      \<longleftrightarrow> \<not> list_all (\<lambda>j. jd_rejection j \<noteq> Some ''filing_metadata_conflict'') considered"
    by (auto simp: list_ex_iff list_all_iff)
  have invalid: "List.map_filter (\<lambda>j. if ob_period (jd_observation j) = pd_id (cr_period r) \<and> ob_unit (jd_observation j) = ut_id unit
            then (case jd_rejection j of Some w \<Rightarrow> if w \<in> set value_problems then Some w else None | None \<Rightarrow> None) else None) considered = []
      \<longleftrightarrow> list_all (\<lambda>j. \<not> (ob_period (jd_observation j) = pd_id (cr_period r) \<and> ob_unit (jd_observation j) = ut_id unit
              \<and> jd_rejection j \<in> Some ` set value_problems)) considered" (is "?inv = [] \<longleftrightarrow> ?clean")
    by (induction considered) (auto split: option.splits)
  have preferred: "preferred = [] \<longleftrightarrow>
      (\<exists>p. mr_preferred rule = Some p \<and> p \<noteq> [] \<and> list_all (\<lambda>j. observed_tag j \<noteq> p) eligible)" if "eligible \<noteq> []"
    using that by (auto simp: preferred_def preferred_rows_def filter_empty_conv list_all_iff split: option.splits)
  have one: "length (remdups (map observed_tag eligible)) \<le> 1 \<longleftrightarrow> (\<exists>t. list_all (\<lambda>j. observed_tag j = t) eligible)"
    if "eligible \<noteq> []"
    using one_value_iff[of "map observed_tag eligible"] that by (simp add: list.pred_map comp_def)
  have settle: "settle_rows r unit rule considered = Inl e \<longleftrightarrow>
      e = ValueError \<and> \<not> list_ex (\<lambda>j. jd_rejection j = Some ''filing_metadata_conflict'') considered \<and> ?inv = []
      \<and> eligible \<noteq> [] \<and> list_all (same_value (hd eligible)) eligible \<and> preferred = []
      \<and> length (remdups (map observed_tag eligible)) \<le> 1"
    by (auto simp: settle_rows_def Let_def eligible_def preferred_def not_less)
  show ?thesis
  proof (cases "eligible = []")
    case True
    then show ?thesis unfolding settle by (simp add: eligible_def)
  next
    case False
    then have "hd eligible \<in> set eligible" by simp
    then have "preferred = [] \<and> length (remdups (map observed_tag eligible)) \<le> 1 \<longleftrightarrow>
        (\<exists>tag p. list_all (\<lambda>j. observed_tag j = tag) eligible \<and> mr_preferred rule = Some p \<and> p \<noteq> [] \<and> p \<noteq> tag)"
      unfolding preferred[OF False] one[OF False] by (auto simp: list_all_iff)
    then show ?thesis using False unfolding settle conflict invalid Let_def eligible_def[symmetric] by blast
  qed
qed

text \<open>The situation arises under a reviewed rule: a filing of the bank that reports only the second of its two tags.\<close>

definition bank_row :: judged_row where
  "bank_row = \<lparr>jd_observation = \<lparr>ob_id = 1, ob_capture = 2, ob_version = 3, ob_locator = ''/facts/us-gaap/Revenues/units/USD/0'',
       ob_namespace = ''us-gaap'', ob_tag = ''Revenues'', ob_period = pd_id sec_period, ob_unit = 4, ob_scope = Some 3,
       ob_value = Some (Dec False 5 0), ob_state = ''numeric'', ob_text = Some ''5'', ob_parser = ''p'', ob_transform = [], ob_raw = []\<rparr>,
     jd_rejection = None, jd_raw = ''{}'', jd_index = 0, jd_period = sec_period,
     jd_unit = \<lparr>ut_id = 4, unit_key = ''USD'', numerator_measures = [''iso4217:USD''], denominator_measures = []\<rparr>\<rparr>"

theorem settle_rows_raises_iff_witness:
  "settle_rows sec_request (jd_unit bank_row)
     (cohort_rule cik_jpm (hd (in_filings sec_input)) sec_request REVENUE (default_tags cik_jpm REVENUE)) [bank_row] = Inl ValueError"
proof -
  have "default_tags cik_jpm REVENUE = [''us-gaap:RevenuesNetOfInterestExpense'', ''us-gaap:Revenues'']" by code_simp
  then show ?thesis
    by (simp add: settle_rows_raises_iff bank_row_def cohort_rule_def same_value_def observed_tag_def dec_eq_def)
qed

end
