(* ===== verification/Market_Feed.thy ===== *)
theory Market_Feed
  imports Sec_Manifest
begin

text \<open>
  The transfer objects of \<open>packages/ingest/market_types.py\<close>, their canonical text and digests, and the
  readers of provider numbers and dates in \<open>market_normalize.py\<close>.  Bodies are byte strings; the
  tokenizer of JSON and the XML parser are fields of the runtime record.
\<close>

section \<open>Transfer objects\<close>

record quote_binding =
  qb_id :: uuid
  qb_source :: uuid
  qb_quote :: uuid
  qb_security :: uuid
  qb_symbol :: string
  qb_from :: date
  qb_to :: "date option"
  qb_capture :: uuid
  qb_locator :: string
  qb_review :: string
  qb_reviewed_at :: datetime
  qb_reviewed_by :: string
  qb_sha256 :: string
  qb_instrument :: "string option"

record quote_context =
  qc_quote :: uuid
  qc_security :: uuid
  qc_venue :: "string option"
  qc_currency :: "string option"
  qc_kind :: string
  qc_from :: date
  qc_to :: "date option"
  qc_timezone :: "string option"
  qc_dividend :: "string option"
  qc_dividend_evidence :: "string option"

record macro_definition =
  md_id :: uuid
  md_source :: uuid
  md_key :: string
  md_capture :: uuid
  md_locator :: string
  md_sha256 :: string
  md_revision :: string
  md_title :: string
  md_units :: string
  md_unit :: string
  md_multiplier :: decimal
  md_frequency :: string
  md_seasonal :: string
  md_geography :: string
  md_convention :: string
  md_upstream :: string
  md_rights :: string
  md_release :: "string option"
  md_as_of :: "date option"
  md_basis :: string

record market_input =
  mi_source :: uuid
  mi_policy :: uuid
  mi_start :: date
  mi_end :: date
  mi_captures :: "evidence_capture list"
  mi_parser :: string
  mi_normalizer :: string
  mi_selection :: string
  mi_definition :: "macro_definition option"
  mi_binding :: "quote_binding option"
  mi_context :: "quote_context option"
  mi_cutoff :: "datetime option"
  mi_as_of :: "date option"
  mi_month :: "string option"
  mi_legacy_null :: bool
  mi_attempts :: "uuid list"

record fred_page =
  fp_capture :: uuid
  fp_body :: string
  fp_series :: string
  fp_start :: date
  fp_end :: date
  fp_begin :: date
  fp_until :: date
  fp_offset :: int
  fp_limit :: int
  fp_units :: string
  fp_output :: int
  fp_order :: string
  fp_sort :: string
  fp_frequency :: "string option"
  fp_aggregation :: "string option"

record market_flag =
  mf_id :: uuid
  mf_date :: "date option"
  mf_field :: "string option"
  mf_rule :: string
  mf_severity :: string
  mf_message :: string
  mf_capture :: "uuid option"
  mf_locator :: "string option"

record macro_observation =
  mo_id :: uuid
  mo_date :: date
  mo_definition :: uuid
  mo_capture :: uuid
  mo_locator :: string
  mo_date_text :: string
  mo_value :: "dec option"
  mo_state :: string
  mo_original :: "string option"
  mo_transform :: string
  mo_begin :: "date option"
  mo_until :: "date option"
  mo_basis :: string
  mo_requested :: "date option"

record price_cell =
  pf_value :: "dec option"
  pf_state :: string
  pf_text :: "string option"

record price_observation =
  po_id :: uuid
  po_date :: date
  po_capture :: uuid
  po_locator :: string
  po_binding :: uuid
  po_quote :: uuid
  po_security :: uuid
  po_currency :: string
  po_dividend :: "string option"
  po_date_text :: string
  po_transform :: string
  po_cells :: "(string \<times> price_cell) list"
  po_timezone :: "string option"

record market_bundle =
  mx_inputs :: market_input
  mx_prices :: "price_observation list"
  mx_macros :: "macro_observation list"
  mx_flags :: "market_flag list"
  mx_coverage :: string
  mx_input_hash :: string
  mx_output_hash :: string

section \<open>Canonical text\<close>

text \<open>An instant is written in UTC; one without an offset raises.\<close>

definition m_instant :: "datetime \<Rightarrow> manifest" where
  "m_instant t = MText (datetime_text (Datetime (instant t) (Some 0)))"

definition input_stamped :: "market_input \<Rightarrow> bool" where
  "input_stamped inp =
     (list_all (\<lambda>c. aware (ec_fetched c) \<and> aware (ec_completed c)) (mi_captures inp)
      \<and> (case mi_cutoff inp of None \<Rightarrow> True | Some t \<Rightarrow> aware t)
      \<and> (case mi_binding inp of None \<Rightarrow> True | Some b \<Rightarrow> aware (qb_reviewed_at b)))"

definition stamped_capture :: "'z ingest_runtime_scheme \<Rightarrow> evidence_capture \<Rightarrow> manifest" where
  "stamped_capture rt c = MDict
     [(''id'', m_uuid rt (ec_id c)), (''source_id'', m_uuid rt (ec_source c)), (''source_object_key'', MText (ec_object c)),
      (''request_url'', MText (ec_url c)), (''body_sha256'', MText (ec_sha256 c)), (''byte_count'', MInt (int (ec_bytes c))),
      (''fetched_at'', m_instant (ec_fetched c)), (''completed_at'', m_instant (ec_completed c)), (''role'', MText (ec_role c))]"

definition binding_manifest :: "'z ingest_runtime_scheme \<Rightarrow> quote_binding \<Rightarrow> manifest" where
  "binding_manifest rt b = MDict
     [(''id'', m_uuid rt (qb_id b)), (''source_id'', m_uuid rt (qb_source b)), (''quote_identifier_id'', m_uuid rt (qb_quote b)),
      (''security_id'', m_uuid rt (qb_security b)), (''provider_symbol'', MText (qb_symbol b)), (''valid_from'', m_date (qb_from b)),
      (''valid_to'', or_null m_date (qb_to b)), (''identity_capture_id'', m_uuid rt (qb_capture b)),
      (''source_locator'', MText (qb_locator b)), (''identity_review_revision'', MText (qb_review b)),
      (''reviewed_at'', m_instant (qb_reviewed_at b)), (''reviewed_by'', MText (qb_reviewed_by b)),
      (''content_sha256'', MText (qb_sha256 b)), (''provider_instrument_key'', or_null MText (qb_instrument b))]"

definition context_manifest :: "'z ingest_runtime_scheme \<Rightarrow> quote_context \<Rightarrow> manifest" where
  "context_manifest rt c = MDict
     [(''quote_identifier_id'', m_uuid rt (qc_quote c)), (''security_id'', m_uuid rt (qc_security c)),
      (''venue'', or_null MText (qc_venue c)), (''quote_currency'', or_null MText (qc_currency c)),
      (''instrument_kind'', MText (qc_kind c)), (''valid_from'', m_date (qc_from c)), (''valid_to'', or_null m_date (qc_to c)),
      (''session_timezone'', or_null MText (qc_timezone c)), (''dividend_currency'', or_null MText (qc_dividend c)),
      (''dividend_currency_evidence'', or_null MText (qc_dividend_evidence c))]"

definition definition_manifest :: "'z ingest_runtime_scheme \<Rightarrow> macro_definition \<Rightarrow> manifest" where
  "definition_manifest rt d = MDict
     [(''id'', m_uuid rt (md_id d)), (''source_id'', m_uuid rt (md_source d)), (''source_series_key'', MText (md_key d)),
      (''metadata_capture_id'', m_uuid rt (md_capture d)), (''source_locator'', MText (md_locator d)),
      (''content_sha256'', MText (md_sha256 d)), (''definition_revision'', MText (md_revision d)), (''title'', MText (md_title d)),
      (''units_text'', MText (md_units d)), (''unit_code'', MText (md_unit d)),
      (''unit_multiplier'', MText (decimal_text (md_multiplier d))), (''frequency'', MText (md_frequency d)),
      (''seasonal_adjustment'', MText (md_seasonal d)), (''geography'', MText (md_geography d)),
      (''reference_date_convention'', MText (md_convention d)), (''upstream_source_name'', MText (md_upstream d)),
      (''upstream_rights_reference'', MText (md_rights d)), (''source_release_key'', or_null MText (md_release d)),
      (''definition_as_of_date'', or_null m_date (md_as_of d)), (''definition_as_of_basis'', MText (md_basis d))]"

definition input_manifest :: "'z ingest_runtime_scheme \<Rightarrow> market_input \<Rightarrow> manifest" where
  "input_manifest rt inp = MDict
     [(''source_id'', m_uuid rt (mi_source inp)), (''policy_revision_id'', m_uuid rt (mi_policy inp)),
      (''requested_start'', m_date (mi_start inp)), (''requested_end'', m_date (mi_end inp)),
      (''captures'', MList (map (stamped_capture rt) (mi_captures inp))), (''parser_revision'', MText (mi_parser inp)),
      (''normalizer_revision'', MText (mi_normalizer inp)), (''selection_policy_revision'', MText (mi_selection inp)),
      (''series_definition'', or_null (definition_manifest rt) (mi_definition inp)),
      (''quote_binding'', or_null (binding_manifest rt) (mi_binding inp)),
      (''quote_context'', or_null (context_manifest rt) (mi_context inp)),
      (''retrieval_cutoff'', or_null m_instant (mi_cutoff inp)), (''source_as_of_date'', or_null m_date (mi_as_of inp)),
      (''treasury_month'', or_null MText (mi_month inp)), (''allow_legacy_treasury_null'', MBool (mi_legacy_null inp)),
      (''attempt_ids'', m_uuids rt (mi_attempts inp))]"

definition market_input_hash :: "'z ingest_runtime_scheme \<Rightarrow> market_input \<Rightarrow> string result" where
  "market_input_hash rt inp = guard_value (input_stamped inp) (content_hash rt (input_manifest rt inp))"

definition market_flag_manifest :: "'z ingest_runtime_scheme \<Rightarrow> market_flag \<Rightarrow> manifest" where
  "market_flag_manifest rt q = MDict
     [(''id'', m_uuid rt (mf_id q)), (''reference_date'', or_null m_date (mf_date q)), (''field_key'', or_null MText (mf_field q)),
      (''rule_key'', MText (mf_rule q)), (''severity'', MText (mf_severity q)), (''message'', MText (mf_message q)),
      (''capture_id'', or_null (m_uuid rt) (mf_capture q)), (''attempt_id'', MNull),
      (''source_locator'', or_null MText (mf_locator q))]"

definition m_dec :: "dec \<Rightarrow> manifest" where
  "m_dec d = MText (dec_text d)"

definition macro_manifest :: "'z ingest_runtime_scheme \<Rightarrow> macro_observation \<Rightarrow> manifest" where
  "macro_manifest rt o' = MDict
     [(''id'', m_uuid rt (mo_id o')), (''reference_date'', m_date (mo_date o')),
      (''series_definition_id'', m_uuid rt (mo_definition o')), (''source_capture_id'', m_uuid rt (mo_capture o')),
      (''source_locator'', MText (mo_locator o')), (''source_date_text'', MText (mo_date_text o')),
      (''value'', or_null m_dec (mo_value o')), (''value_state'', MText (mo_state o')),
      (''original_value_text'', or_null MText (mo_original o')), (''source_observation_status'', MNull),
      (''transform_revision'', MText (mo_transform o')), (''reference_end_date'', MNull),
      (''source_realtime_start'', or_null m_date (mo_begin o')), (''source_realtime_end'', or_null m_date (mo_until o')),
      (''source_vintage_basis'', MText (mo_basis o')), (''requested_source_as_of'', or_null m_date (mo_requested o')),
      (''source_published_date'', MNull), (''source_published_at'', MNull), (''publication_precision'', MText ''unknown'')]"

definition price_manifest :: "'z ingest_runtime_scheme \<Rightarrow> price_observation \<Rightarrow> manifest" where
  "price_manifest rt o' = MDict
     ([(''id'', m_uuid rt (po_id o')), (''session_date'', m_date (po_date o')), (''source_capture_id'', m_uuid rt (po_capture o')),
       (''source_locator'', MText (po_locator o')), (''quote_binding_id'', m_uuid rt (po_binding o')),
       (''quote_identifier_id'', m_uuid rt (po_quote o')), (''security_id'', m_uuid rt (po_security o')),
       (''quote_currency'', MText (po_currency o')), (''dividend_currency'', or_null MText (po_dividend o')),
       (''source_date_text'', MText (po_date_text o')), (''transform_revision'', MText (po_transform o'))]
      @ concat (map (\<lambda>(name, c).
          [(name, or_null m_dec (pf_value c)), (name @ ''_state'', MText (pf_state c)), (name @ ''_text'', or_null MText (pf_text c))])
          (po_cells o'))
      @ [(''session_basis'', MText ''provider_daily_label''), (''session_timezone'', or_null MText (po_timezone o')),
         (''source_published_date'', MNull), (''source_published_at'', MNull), (''publication_precision'', MText ''unknown''),
         (''adjustment_basis'', MText ''split_and_dividend''), (''adjustment_vintage_basis'', MText ''capture_only''),
         (''adjustment_vintage_date'', MNull)])"

definition market_output_hash :: "'z ingest_runtime_scheme \<Rightarrow> market_bundle \<Rightarrow> string" where
  "market_output_hash rt b = content_hash rt (MDict
     [(''input_manifest_hash'', MText (mx_input_hash b)), (''prices'', MList (map (price_manifest rt) (mx_prices b))),
      (''macros'', MList (map (macro_manifest rt) (mx_macros b))), (''flags'', MList (map (market_flag_manifest rt) (mx_flags b))),
      (''coverage_state'', MText (mx_coverage b))])"

section \<open>Numbers and dates of providers\<close>

definition plain_digits :: "string \<Rightarrow> bool" where
  "plain_digits s = (s \<noteq> [] \<and> list_all is_digit s)"

definition exponent_part :: "string \<Rightarrow> bool" where
  "exponent_part s =
     (case s of
        [] \<Rightarrow> True
      | c # cs \<Rightarrow> (c = CHR ''e'' \<or> c = CHR ''E'')
          \<and> plain_digits (case cs of [] \<Rightarrow> [] | d # ds \<Rightarrow> if d = CHR ''+'' \<or> d = CHR ''-'' then ds else cs))"

definition fraction_part :: "string \<Rightarrow> bool" where
  "fraction_part s =
     (case s of
        [] \<Rightarrow> True
      | c # cs \<Rightarrow> if c = CHR ''.'' then takeWhile is_digit cs \<noteq> [] \<and> exponent_part (dropWhile is_digit cs) else exponent_part s)"

text \<open>\<open>NUMBER\<close>\<close>

definition number_text :: "string \<Rightarrow> bool" where
  "number_text t =
     (let u = (case t of [] \<Rightarrow> [] | c # cs \<Rightarrow> if c = CHR ''-'' then cs else t); whole = takeWhile is_digit u in
      whole \<noteq> [] \<and> (whole = ''0'' \<or> hd whole \<noteq> CHR ''0'') \<and> fraction_part (dropWhile is_digit u))"

definition market_decimal :: "string option \<Rightarrow> dec option" where
  "market_decimal text =
     (case text of None \<Rightarrow> None | Some t \<Rightarrow> if number_text t then exact_decimal (numeral_value t) else None)"

definition date_shaped :: "string \<Rightarrow> bool" where
  "date_shaped s =
     (length s = 10 \<and> list_all is_digit (take 4 s) \<and> s ! 4 = CHR ''-'' \<and> list_all is_digit (take 2 (drop 5 s))
      \<and> s ! 7 = CHR ''-'' \<and> list_all is_digit (drop 8 s))"

definition exact_date :: "source option \<Rightarrow> date option" where
  "exact_date v = (case v of Some (SText s) \<Rightarrow> if date_shaped s then fromisoformat s else None | _ \<Rightarrow> None)"

text \<open>The midnight suffix of a daily label: nothing, or \<open>T00:00:00\<close> with any zero fraction and \<open>Z\<close>.\<close>

definition midnight_suffix :: "string \<Rightarrow> bool" where
  "midnight_suffix s =
     (s = [] \<or> (take 9 s = ''T00:00:00''
        \<and> (let r = drop 9 s in
           r = ''Z'' \<or> (r \<noteq> [] \<and> hd r = CHR ''.''
             \<and> (let z = takeWhile (\<lambda>c. c = CHR ''0'') (tl r) in z \<noteq> [] \<and> drop (length z) (tl r) = ''Z'')))))"

definition daily_label :: "bool \<Rightarrow> source option \<Rightarrow> date option" where
  "daily_label treasury v =
     (case v of
        Some (SText s) \<Rightarrow>
          if date_shaped (take 10 s) \<and> (if treasury then drop 10 s = ''T00:00:00'' else midnight_suffix (drop 10 s))
          then fromisoformat (take 10 s) else None
      | _ \<Rightarrow> None)"

text \<open>\<open>json.dumps\<close> of a value that is neither text nor a number; a number inside it becomes a quoted text.\<close>

fun dumped :: "source \<Rightarrow> string" where
  "dumped SNull = ''null''"
| "dumped (SBool b) = bool_text b"
| "dumped (SNumber t) = json_text True t"
| "dumped (SText s) = json_text True s"
| "dumped (SList xs) = ''['' @ join_with '','' (map dumped xs) @ '']''"
| "dumped (SDict kvs) = ''{'' @ join_with '','' (map (\<lambda>kv. json_text True (fst kv) @ '':'' @ dumped (snd kv)) kvs) @ ''}''"

definition literal :: "source \<Rightarrow> string" where
  "literal v = (case v of SNumber t \<Rightarrow> t | SText s \<Rightarrow> s | _ \<Rightarrow> dumped v)"

definition parse_market :: "'z ingest_runtime_scheme \<Rightarrow> string \<Rightarrow> source result" where
  "parse_market rt body =
     (case source_tree rt body of None \<Rightarrow> Inl ValueError | Some t \<Rightarrow> guard_value (unique_keys t) t)"

definition natural_token :: "source option \<Rightarrow> int option" where
  "natural_token v =
     (case v of
        Some (SNumber t) \<Rightarrow> if t = ''0'' \<or> (plain_digits t \<and> hd t \<noteq> CHR ''0'') then Some (int (digits_value t)) else None
      | _ \<Rightarrow> None)"

end
