(* ===== verification/Market_Normalize.thy ===== *)
theory Market_Normalize
  imports Market_Feed
begin

text \<open>
  \<open>packages/ingest/market_normalize.py\<close>: pinned provider responses become price and macro observations
  with the spelling of their source, and every gap becomes a quality flag.  An exception of any kind is
  \<open>Inl ValueError\<close>.  Each result that is returned rests on the digest of the input, so that the digest is
  taken once, after the checks of the input.
\<close>

section \<open>Checks of the input\<close>

definition market_capture_ready :: "market_input \<Rightarrow> evidence_capture \<Rightarrow> bool" where
  "market_capture_ready inp c =
     (ec_source c = mi_source inp \<and> sha256_text (ec_sha256 c) \<and> aware (ec_fetched c) \<and> aware (ec_completed c)
      \<and> instant (ec_fetched c) \<le> instant (ec_completed c)
      \<and> (case mi_cutoff inp of None \<Rightarrow> True | Some t \<Rightarrow> instant (ec_completed c) \<le> instant t))"

definition market_input_valid :: "market_input \<Rightarrow> bool" where
  "market_input_valid inp =
     (mi_start inp \<le> mi_end inp \<and> nonblank (mi_parser inp) \<and> nonblank (mi_normalizer inp) \<and> nonblank (mi_selection inp)
      \<and> (case mi_cutoff inp of None \<Rightarrow> True | Some t \<Rightarrow> aware t)
      \<and> distinct (map ec_id (mi_captures inp)) \<and> list_all (market_capture_ready inp) (mi_captures inp))"

definition pinned_capture ::
  "'z ingest_runtime_scheme \<Rightarrow> market_input \<Rightarrow> uuid \<Rightarrow> string \<Rightarrow> string \<Rightarrow> evidence_capture option" where
  "pinned_capture rt inp i body key =
     (case filter (\<lambda>c. ec_id c = i \<and> ec_role c = ''observations'') (mi_captures inp) of
        [c] \<Rightarrow> if ec_object c = key \<and> ec_bytes c = length body \<and> ec_sha256 c = sha256_hex rt body then Some c else None
      | _ \<Rightarrow> None)"

definition single_capture :: "'z ingest_runtime_scheme \<Rightarrow> market_input \<Rightarrow> string \<Rightarrow> string \<Rightarrow> evidence_capture option" where
  "single_capture rt inp body key =
     (case filter (\<lambda>c. ec_role c = ''observations'') (mi_captures inp) of
        [c] \<Rightarrow> pinned_capture rt inp (ec_id c) body key
      | _ \<Rightarrow> None)"

definition positive_decimal :: "decimal \<Rightarrow> bool" where
  "positive_decimal v = (case v of Finite d \<Rightarrow> dec_lt dec_zero d | _ \<Rightarrow> False)"

definition definition_reviewed :: "market_input \<Rightarrow> macro_definition \<Rightarrow> bool" where
  "definition_reviewed inp d =
     (mi_binding inp = None \<and> mi_context inp = None \<and> md_source d = mi_source inp
      \<and> list_ex (\<lambda>c. ec_id c = md_capture d \<and> ec_role c = ''series_definition'') (mi_captures inp)
      \<and> md_unit d \<in> {''percent_per_year'', ''percent'', ''percentage_points'', ''basis_points'', ''index'', ''count''}
      \<and> positive_decimal (md_multiplier d)
      \<and> md_frequency d \<in> {''daily'', ''business_day'', ''weekly'', ''monthly'', ''quarterly'', ''annual''}
      \<and> md_seasonal d \<in> {''adjusted'', ''not_adjusted'', ''not_applicable'', ''unknown''}
      \<and> md_convention d \<in> {''measurement_date'', ''period_start''}
      \<and> md_key d \<noteq> [] \<and> md_locator d \<noteq> [] \<and> md_revision d \<noteq> [] \<and> md_units d \<noteq> [] \<and> md_upstream d \<noteq> []
      \<and> md_rights d \<noteq> [] \<and> md_geography d \<noteq> [] \<and> sha256_text (md_sha256 d)
      \<and> md_basis d \<in> {''source_supplied'', ''capture_only'', ''unknown''}
      \<and> (md_basis d = ''source_supplied'') = (md_as_of d \<noteq> None))"

definition macro_scope :: "market_input \<Rightarrow> macro_definition option" where
  "macro_scope inp =
     (case mi_definition inp of None \<Rightarrow> None | Some d \<Rightarrow> if definition_reviewed inp d then Some d else None)"

definition reference_date_ok :: "macro_definition \<Rightarrow> date \<Rightarrow> bool" where
  "reference_date_ok d when =
     (if md_convention d = ''measurement_date'' then md_frequency d \<in> {''daily'', ''business_day''}
      else md_frequency d \<in> {''monthly'', ''quarterly'', ''annual''} \<and> dy when = 1
        \<and> (md_frequency d = ''quarterly'' \<longrightarrow> mo when \<in> {1, 4, 7, 10}) \<and> (md_frequency d = ''annual'' \<longrightarrow> mo when = 1))"

section \<open>Flags, observations, bundles\<close>

definition mk_market_flag ::
  "'z ingest_runtime_scheme \<Rightarrow> string \<Rightarrow> string \<Rightarrow> string \<Rightarrow> string \<Rightarrow> uuid option \<Rightarrow> date option \<Rightarrow> string option
     \<Rightarrow> string option \<Rightarrow> market_flag" where
  "mk_market_flag rt ih severity rule message capture when name locator =
     \<lparr>mf_id = evidence_id rt ''market_flag'' (MList [MText ih, MText rule, or_null (m_uuid rt) capture, or_null m_date when,
        or_null MText name, or_null MText locator]),
      mf_date = when, mf_field = name, mf_rule = rule, mf_severity = severity, mf_message = message, mf_capture = capture,
      mf_locator = locator\<rparr>"

definition mk_macro ::
  "'z ingest_runtime_scheme \<Rightarrow> string \<Rightarrow> market_input \<Rightarrow> macro_definition \<Rightarrow> uuid \<Rightarrow> string \<Rightarrow> date \<Rightarrow> string
     \<Rightarrow> dec option \<Rightarrow> string \<Rightarrow> string option \<Rightarrow> macro_observation" where
  "mk_macro rt ih inp d capture locator when text v state original =
     \<lparr>mo_id = evidence_id rt ''macro_observation'' (MList [MText ih, m_uuid rt capture, MText locator]),
      mo_date = when, mo_definition = md_id d, mo_capture = capture, mo_locator = locator, mo_date_text = text, mo_value = v,
      mo_state = state, mo_original = original, mo_transform = mi_normalizer inp, mo_begin = None, mo_until = None,
      mo_basis = ''current_only'', mo_requested = None\<rparr>"

definition coverage_state_of :: "price_observation list \<Rightarrow> macro_observation list \<Rightarrow> market_flag list \<Rightarrow> string" where
  "coverage_state_of prices macros qs =
     (if prices = [] \<and> macros = [] then ''unavailable''
      else if list_ex (\<lambda>q. mf_severity q = ''blocking'') qs then ''partial'' else ''unknown'')"

definition mk_market_bundle ::
  "'z ingest_runtime_scheme \<Rightarrow> string \<Rightarrow> market_input \<Rightarrow> price_observation list \<Rightarrow> macro_observation list \<Rightarrow> market_flag list
     \<Rightarrow> market_bundle" where
  "mk_market_bundle rt ih inp prices macros qs =
     (let gaps = (if prices = [] \<and> macros = [] \<and> qs = []
            then [mk_market_flag rt ih ''blocking'' ''source_rows_absent'' ''No source observations in requested window'' None None None None]
            else qs);
          b = \<lparr>mx_inputs = inp, mx_prices = prices, mx_macros = macros,
            mx_flags = gaps @ [mk_market_flag rt ih ''info'' ''calendar_coverage_unknown''
              ''Complete source response does not prove calendar coverage'' None None None None],
            mx_coverage = coverage_state_of prices macros qs, mx_input_hash = ih, mx_output_hash = []\<rparr> in
      b\<lparr>mx_output_hash := market_output_hash rt b\<rparr>)"

section \<open>Daily prices\<close>

definition price_columns :: "(string \<times> string) list" where
  "price_columns =
     [(''open'', ''open''), (''high'', ''high''), (''low'', ''low''), (''close'', ''close''), (''volume'', ''volume''),
      (''adj_open'', ''adjOpen''), (''adj_high'', ''adjHigh''), (''adj_low'', ''adjLow''), (''adj_close'', ''adjClose''),
      (''adj_volume'', ''adjVolume''), (''div_cash'', ''divCash''), (''split_factor'', ''splitFactor'')]"

text \<open>The number of a cell: a token that is a finite number, not negative, and positive for a split.\<close>

definition cell_value :: "string \<Rightarrow> source \<Rightarrow> dec option" where
  "cell_value name v =
     (case v of
        SNumber t \<Rightarrow>
          (case market_decimal (Some t) of
             None \<Rightarrow> None
           | Some d \<Rightarrow> if dec_lt d dec_zero \<or> (name = ''split_factor'' \<and> dec_eq d dec_zero) then None else Some d)
      | _ \<Rightarrow> None)"

definition price_cell_of :: "(string \<times> source) list \<Rightarrow> string \<Rightarrow> string \<Rightarrow> price_cell" where
  "price_cell_of row name column =
     (case map_of row column of
        None \<Rightarrow> \<lparr>pf_value = None, pf_state = ''missing'', pf_text = None\<rparr>
      | Some v \<Rightarrow>
          \<lparr>pf_value = cell_value name v,
           pf_state = (if cell_value name v \<noteq> None then ''observed'' else if v = SNull then ''source_null'' else ''unparseable''),
           pf_text = Some (literal v)\<rparr>)"

definition price_cells :: "(string \<times> source) list \<Rightarrow> (string \<times> price_cell) list" where
  "price_cells row = map (\<lambda>(name, column). (name, price_cell_of row name column)) price_columns"

definition cell_flags ::
  "'z ingest_runtime_scheme \<Rightarrow> string \<Rightarrow> uuid \<Rightarrow> date \<Rightarrow> string \<Rightarrow> (string \<times> source) list \<Rightarrow> market_flag list" where
  "cell_flags rt ih capture when locator row =
     List.map_filter (\<lambda>(name, column).
       let s = pf_state (price_cell_of row name column) in
       if s = ''observed'' then None
       else Some (mk_market_flag rt ih ''blocking'' (''price_'' @ s) ''Source field unavailable; no substitution or reconstruction''
         (Some capture) (Some when) (Some name) (Some (locator @ ''.'' @ column)))) price_columns"

definition known_value :: "(string \<times> price_cell) list \<Rightarrow> string \<Rightarrow> dec option" where
  "known_value cells name = Option.bind (map_of cells name) pf_value"

definition both_known :: "(dec \<Rightarrow> dec \<Rightarrow> bool) \<Rightarrow> dec option \<Rightarrow> dec option \<Rightarrow> bool" where
  "both_known p x y = (case (x, y) of (Some a, Some b) \<Rightarrow> p a b | _ \<Rightarrow> False)"

definition ohlc_inconsistent :: "(string \<times> price_cell) list \<Rightarrow> string \<Rightarrow> bool" where
  "ohlc_inconsistent cells prefix =
     (let high = known_value cells (prefix @ ''high''); low = known_value cells (prefix @ ''low'') in
      both_known dec_lt high low
      \<or> list_ex (\<lambda>name. let v = known_value cells (prefix @ name) in both_known dec_lt high v \<or> both_known dec_lt v low)
          [''open'', ''close''])"

definition ohlc_flags ::
  "'z ingest_runtime_scheme \<Rightarrow> string \<Rightarrow> uuid \<Rightarrow> date \<Rightarrow> string \<Rightarrow> (string \<times> price_cell) list \<Rightarrow> market_flag list" where
  "ohlc_flags rt ih capture when locator cells =
     concat (map (\<lambda>prefix.
       if ohlc_inconsistent cells prefix
       then map (\<lambda>name. mk_market_flag rt ih ''blocking'' ''ohlc_inconsistent''
           ''Source OHLC is inconsistent; values are preserved without correction'' (Some capture) (Some when)
           (Some (prefix @ name)) (Some locator)) [''open'', ''high'', ''low'', ''close'']
       else []) [[], ''adj_''])"

definition reviewed_dividend :: "quote_context \<Rightarrow> string option" where
  "reviewed_dividend c =
     (case qc_dividend c of
        None \<Rightarrow> None
      | Some k \<Rightarrow> if iso_currency k \<and> qc_dividend_evidence c \<notin> {None, Some []} then Some k else None)"

definition dividend_flags ::
  "'z ingest_runtime_scheme \<Rightarrow> string \<Rightarrow> uuid \<Rightarrow> date \<Rightarrow> string \<Rightarrow> quote_context \<Rightarrow> (string \<times> source) list \<Rightarrow> market_flag list" where
  "dividend_flags rt ih capture when locator c row =
     (if reviewed_dividend c = None \<and> pf_state (price_cell_of row ''div_cash'' ''divCash'') = ''observed''
      then [mk_market_flag rt ih ''blocking'' ''dividend_currency_unverified'' ''Dividend amount retained; currency not established''
        (Some capture) (Some when) (Some ''div_cash'') (Some (locator @ ''.divCash''))]
      else [])"

definition binding_in_force :: "quote_binding \<Rightarrow> quote_context \<Rightarrow> date \<Rightarrow> bool" where
  "binding_in_force b c when =
     (qb_from b \<le> when \<and> qc_from c \<le> when
      \<and> (case qb_to b of None \<Rightarrow> True | Some d \<Rightarrow> when < d) \<and> (case qc_to c of None \<Rightarrow> True | Some d \<Rightarrow> when < d))"

definition quote_verified :: "quote_binding \<Rightarrow> quote_context \<Rightarrow> bool" where
  "quote_verified b c =
     (qb_security b = qc_security c \<and> qb_quote b = qc_quote c \<and> qc_venue c \<notin> {None, Some []}
      \<and> (case qc_currency c of None \<Rightarrow> False | Some k \<Rightarrow> iso_currency k) \<and> qc_kind c = ''common'')"

definition mk_price ::
  "'z ingest_runtime_scheme \<Rightarrow> string \<Rightarrow> market_input \<Rightarrow> quote_binding \<Rightarrow> quote_context \<Rightarrow> uuid \<Rightarrow> string \<Rightarrow> date \<Rightarrow> string
     \<Rightarrow> (string \<times> source) list \<Rightarrow> price_observation" where
  "mk_price rt ih inp b c capture locator when text row =
     \<lparr>po_id = evidence_id rt ''price_observation'' (MList [MText ih, m_uuid rt capture, MText locator]),
      po_date = when, po_capture = capture, po_locator = locator, po_binding = qb_id b, po_quote = qb_quote b,
      po_security = qb_security b, po_currency = or_else (qc_currency c) [], po_dividend = reviewed_dividend c,
      po_date_text = text, po_transform = mi_normalizer inp, po_cells = price_cells row, po_timezone = qc_timezone c\<rparr>"

record tiingo_state =
  ts_rows :: "price_observation list"
  ts_flags :: "market_flag list"
  ts_seen :: "date list"

definition source_text :: "source option \<Rightarrow> string" where
  "source_text v = (case v of Some (SText s) \<Rightarrow> s | _ \<Rightarrow> [])"

text \<open>One row of the response, with its index.\<close>

definition tiingo_row ::
  "'z ingest_runtime_scheme \<Rightarrow> string \<Rightarrow> market_input \<Rightarrow> quote_binding \<Rightarrow> quote_context \<Rightarrow> uuid \<Rightarrow> nat \<times> source
     \<Rightarrow> tiingo_state \<Rightarrow> tiingo_state result" where
  "tiingo_row rt ih inp b c capture ix st =
     (case source_fields (Some (snd ix)) of
        None \<Rightarrow> Inl ValueError
      | Some row \<Rightarrow>
          (case daily_label False (map_of row ''date'') of
             None \<Rightarrow> Inl ValueError
           | Some when \<Rightarrow>
               if when \<in> set (ts_seen st) \<or> when < mi_start inp \<or> mi_end inp < when then Inl ValueError
               else
                 let locator = ''$['' @ nat_text (fst ix) @ '']''; seen = when # ts_seen st in
                 if \<not> binding_in_force b c when
                 then Inr (st\<lparr>ts_seen := seen, ts_flags := ts_flags st @
                   [mk_market_flag rt ih ''blocking'' ''quote_identity_outside_validity''
                     ''Session outside reviewed binding or quote/closure interval'' (Some capture) (Some when) None (Some locator)]\<rparr>)
                 else if map_of row ''ticker'' \<notin> {None, Some (SText (qb_symbol b))} then Inl ValueError
                 else Inr \<lparr>ts_rows = ts_rows st @ [mk_price rt ih inp b c capture locator when (source_text (map_of row ''date'')) row],
                   ts_flags = ts_flags st @ cell_flags rt ih capture when locator row
                     @ ohlc_flags rt ih capture when locator (price_cells row) @ dividend_flags rt ih capture when locator c row,
                   ts_seen = seen\<rparr>))"

definition tiingo_rows ::
  "'z ingest_runtime_scheme \<Rightarrow> string \<Rightarrow> market_input \<Rightarrow> quote_binding \<Rightarrow> quote_context \<Rightarrow> uuid \<Rightarrow> source \<Rightarrow> tiingo_state result" where
  "tiingo_rows rt ih inp b c capture payload =
     (case payload of
        SList xs \<Rightarrow> fold_result (tiingo_row rt ih inp b c capture) (enumerate 0 xs) \<lparr>ts_rows = [], ts_flags = [], ts_seen = []\<rparr>
      | _ \<Rightarrow> Inl ValueError)"

definition refused ::
  "'z ingest_runtime_scheme \<Rightarrow> string \<Rightarrow> market_input \<Rightarrow> string \<Rightarrow> string \<Rightarrow> uuid option \<Rightarrow> market_bundle" where
  "refused rt ih inp rule message capture =
     mk_market_bundle rt ih inp [] [] [mk_market_flag rt ih ''blocking'' rule message capture None None None]"

definition price_scope :: "market_input \<Rightarrow> (quote_binding \<times> quote_context) option" where
  "price_scope inp =
     (case (mi_binding inp, mi_context inp, mi_definition inp) of
        (Some b, Some c, None) \<Rightarrow>
          if qb_source b = mi_source inp \<and> list_ex (\<lambda>k. ec_id k = qb_capture b \<and> ec_role k = ''quote_identity'') (mi_captures inp)
          then Some (b, c) else None
      | _ \<Rightarrow> None)"

definition normalize_tiingo :: "'z ingest_runtime_scheme \<Rightarrow> string \<Rightarrow> market_input \<Rightarrow> market_bundle result" where
  "normalize_tiingo rt body inp =
     (if \<not> market_input_valid inp then Inl ValueError
      else case price_scope inp of
        None \<Rightarrow> Inl ValueError
      | Some (b, c) \<Rightarrow>
          (case single_capture rt inp body (''tiingo_eod/'' @ qb_symbol b) of
             None \<Rightarrow> Inl ValueError
           | Some k \<Rightarrow>
               (case market_input_hash rt inp of
                  Inl e \<Rightarrow> Inl e
                | Inr ih \<Rightarrow>
                    if mi_as_of inp \<noteq> None
                    then Inr (refused rt ih inp ''source_vintage_unavailable'' ''Tiingo adjustment vintage is capture-only'' (Some (ec_id k)))
                    else if \<not> quote_verified b c
                    then Inr (refused rt ih inp ''quote_identity_unverified''
                      ''Dated venue/currency/common-instrument identity is unsupported'' (Some (ec_id k)))
                    else (case parse_market rt body of
                        Inl e \<Rightarrow> Inl e
                      | Inr payload \<Rightarrow>
                          map_sum id (\<lambda>st. mk_market_bundle rt ih inp (sort_key po_date (ts_rows st)) [] (ts_flags st))
                            (tiingo_rows rt ih inp b c (ec_id k) payload)))))"

section \<open>Bundles\<close>

lemma bundle_rows [simp]:
  "mx_macros (mk_market_bundle rt ih inp prices macros qs) = macros" "mx_prices (mk_market_bundle rt ih inp prices macros qs) = prices"
  "mx_coverage (mk_market_bundle rt ih inp prices macros qs) = coverage_state_of prices macros qs"
  "mx_inputs (mk_market_bundle rt ih inp prices macros qs) = inp" "mx_input_hash (mk_market_bundle rt ih inp prices macros qs) = ih"
  by (simp_all add: mk_market_bundle_def Let_def)

lemma bundle_keeps_flags: "set qs \<subseteq> set (mx_flags (mk_market_bundle rt ih inp prices macros qs))"
  by (auto simp: mk_market_bundle_def Let_def)

end
