(* ===== verification/Market_Fred.thy ===== *)
theory Market_Fred
  imports Market_Normalize
begin

text \<open>
  \<open>normalize_fred\<close> and \<open>unavailable_market_bundle\<close> of \<open>packages/ingest/market_normalize.py\<close>:
  a series in pages, whose envelopes, lengths, order and revision intervals must agree with the request.
\<close>

section \<open>The request and its pages\<close>

definition observation_captures :: "market_input \<Rightarrow> uuid list" where
  "observation_captures inp = map ec_id (filter (\<lambda>c. ec_role c = ''observations'') (mi_captures inp))"

definition pages_pinned :: "market_input \<Rightarrow> fred_page list \<Rightarrow> bool" where
  "pages_pinned inp pages =
     (pages \<noteq> [] \<and> distinct (map fp_capture pages) \<and> set (observation_captures inp) = set (map fp_capture pages))"

definition vintage_requested :: "market_input \<Rightarrow> fred_page \<Rightarrow> bool" where
  "vintage_requested inp first =
     (fp_begin first \<le> fp_until first
      \<and> (case mi_as_of inp of None \<Rightarrow> True | Some d \<Rightarrow> fp_begin first \<le> d \<and> d \<le> fp_until first))"

definition page_request_ok :: "market_input \<Rightarrow> macro_definition \<Rightarrow> fred_page \<Rightarrow> int \<Rightarrow> fred_page \<Rightarrow> bool" where
  "page_request_ok inp d first expected p =
     (fp_series p = md_key d \<and> fp_start p = mi_start inp \<and> fp_end p = mi_end inp \<and> fp_units p = ''lin'' \<and> fp_output p = 1
      \<and> fp_frequency p = None \<and> fp_aggregation p = None \<and> fp_order p = ''observation_date'' \<and> fp_sort p = ''asc''
      \<and> fp_begin p = fp_begin first \<and> fp_until p = fp_until first \<and> 0 < fp_limit p \<and> fp_limit p \<le> 100000
      \<and> fp_offset p = expected)"

definition envelope_ok :: "(string \<times> source) list \<Rightarrow> fred_page \<Rightarrow> bool" where
  "envelope_ok data p =
     (map_of data ''units'' = Some (SText ''lin'') \<and> natural_token (map_of data ''output_type'') = Some 1
      \<and> map_of data ''order_by'' = Some (SText ''observation_date'') \<and> map_of data ''sort_order'' = Some (SText ''asc'')
      \<and> map_of data ''file_type'' = Some (SText ''json'')
      \<and> exact_date (map_of data ''observation_start'') = Some (fp_start p)
      \<and> exact_date (map_of data ''observation_end'') = Some (fp_end p)
      \<and> exact_date (map_of data ''realtime_start'') = Some (fp_begin p)
      \<and> exact_date (map_of data ''realtime_end'') = Some (fp_until p)
      \<and> natural_token (map_of data ''offset'') = Some (fp_offset p)
      \<and> natural_token (map_of data ''limit'') = Some (fp_limit p)
      \<and> map_of data ''series_id'' \<in> {None, Some (SText (fp_series p))})"

section \<open>One observation\<close>

record fred_state =
  fs_offset :: int
  fs_total :: "int option"
  fs_rows :: "macro_observation list"
  fs_flags :: "market_flag list"
  fs_intervals :: "(date \<times> date \<times> date) list"
  fs_previous :: "date option"

definition overlapping :: "(date \<times> date \<times> date) list \<Rightarrow> date \<Rightarrow> date \<Rightarrow> date \<Rightarrow> bool" where
  "overlapping intervals when begins ends =
     list_ex (\<lambda>(w, b, e). w = when \<and> begins \<le> e \<and> b \<le> ends) intervals"

definition vintage_basis :: "market_input \<Rightarrow> fred_page \<Rightarrow> string" where
  "vintage_basis inp p =
     (case mi_as_of inp of
        None \<Rightarrow> ''current_only''
      | Some d \<Rightarrow> if fp_begin p = d \<and> fp_until p = d then ''requested_as_of'' else ''source_interval'')"

definition fred_value :: "source option \<Rightarrow> dec option" where
  "fred_value v = (case v of Some (SText s) \<Rightarrow> market_decimal (Some s) | _ \<Rightarrow> None)"

definition fred_value_state :: "source option \<Rightarrow> string" where
  "fred_value_state v =
     (if fred_value v \<noteq> None then ''observed'' else if v = Some (SText ''.'') then ''source_missing'' else ''unparseable'')"

definition fred_macro ::
  "'z ingest_runtime_scheme \<Rightarrow> string \<Rightarrow> market_input \<Rightarrow> macro_definition \<Rightarrow> fred_page \<Rightarrow> uuid \<Rightarrow> nat
     \<Rightarrow> (string \<times> source) list \<Rightarrow> date \<Rightarrow> date \<Rightarrow> date \<Rightarrow> macro_observation" where
  "fred_macro rt ih inp d p capture i raw when begins ends =
     (mk_macro rt ih inp d capture (''$.observations['' @ nat_text i @ '']'') when (source_text (map_of raw ''date''))
        (fred_value (map_of raw ''value'')) (fred_value_state (map_of raw ''value'')) (map_option literal (map_of raw ''value'')))
     \<lparr>mo_begin := Some begins, mo_until := Some ends, mo_basis := vintage_basis inp p, mo_requested := mi_as_of inp\<rparr>"

definition fred_flags ::
  "'z ingest_runtime_scheme \<Rightarrow> string \<Rightarrow> uuid \<Rightarrow> nat \<Rightarrow> (string \<times> source) list \<Rightarrow> date \<Rightarrow> market_flag list" where
  "fred_flags rt ih capture i raw when =
     (let s = fred_value_state (map_of raw ''value'') in
      if s = ''observed'' then []
      else [mk_market_flag rt ih ''blocking'' (if s = ''source_missing'' then ''source_missing'' else ''unparseable_value'')
        ''Native FRED value unavailable; original spelling retained'' (Some capture) (Some when) (Some ''value'')
        (Some (''$.observations['' @ nat_text i @ '']''))])"

definition observation_in_bounds :: "market_input \<Rightarrow> fred_page \<Rightarrow> date option \<Rightarrow> date \<Rightarrow> date \<Rightarrow> date \<Rightarrow> bool" where
  "observation_in_bounds inp p previous when begins ends =
     (mi_start inp \<le> when \<and> when \<le> mi_end inp \<and> begins \<le> ends \<and> fp_begin p \<le> begins \<and> ends \<le> fp_until p
      \<and> (case previous of None \<Rightarrow> True | Some d \<Rightarrow> d \<le> when))"

definition in_vintage :: "market_input \<Rightarrow> date \<Rightarrow> date \<Rightarrow> bool" where
  "in_vintage inp begins ends = (case mi_as_of inp of None \<Rightarrow> True | Some d \<Rightarrow> begins \<le> d \<and> d \<le> ends)"

text \<open>The date and the revision interval of a raw observation.\<close>

definition observation_dates :: "(string \<times> source) list \<Rightarrow> (date \<times> date \<times> date) option" where
  "observation_dates raw =
     (case (exact_date (map_of raw ''date''), exact_date (map_of raw ''realtime_start''), exact_date (map_of raw ''realtime_end'')) of
        (Some when, Some begins, Some ends) \<Rightarrow> Some (when, begins, ends)
      | _ \<Rightarrow> None)"

definition fred_row ::
  "'z ingest_runtime_scheme \<Rightarrow> string \<Rightarrow> market_input \<Rightarrow> macro_definition \<Rightarrow> fred_page \<Rightarrow> uuid \<Rightarrow> nat \<times> source
     \<Rightarrow> fred_state \<Rightarrow> fred_state result" where
  "fred_row rt ih inp d p capture ix st =
     (case source_fields (Some (snd ix)) of
        None \<Rightarrow> Inl ValueError
      | Some raw \<Rightarrow>
          (case observation_dates raw of
             None \<Rightarrow> Inl ValueError
           | Some (when, begins, ends) \<Rightarrow>
               if \<not> reference_date_ok d when \<or> \<not> observation_in_bounds inp p (fs_previous st) when begins ends
                 \<or> overlapping (fs_intervals st) when begins ends then Inl ValueError
               else
                 let st' = st\<lparr>fs_previous := Some when, fs_intervals := (when, begins, ends) # fs_intervals st\<rparr> in
                 if \<not> in_vintage inp begins ends then Inr st'
                 else Inr (st'\<lparr>fs_flags := fs_flags st @ fred_flags rt ih capture (fst ix) raw when,
                   fs_rows := fs_rows st @ [fred_macro rt ih inp d p capture (fst ix) raw when begins ends]\<rparr>)))"

section \<open>Pages\<close>

text \<open>The count and the observations of a page whose envelope repeats the request.\<close>

definition page_content :: "'z ingest_runtime_scheme \<Rightarrow> fred_page \<Rightarrow> (int \<times> source list) option" where
  "page_content rt p =
     (case parse_market rt (fp_body p) of
        Inr (SDict data) \<Rightarrow>
          (case (map_of data ''observations'', natural_token (map_of data ''count'')) of
             (Some (SList xs), Some n) \<Rightarrow> if envelope_ok data p then Some (n, xs) else None
           | _ \<Rightarrow> None)
      | _ \<Rightarrow> None)"

definition fred_page_step ::
  "'z ingest_runtime_scheme \<Rightarrow> string \<Rightarrow> market_input \<Rightarrow> macro_definition \<Rightarrow> fred_page \<Rightarrow> fred_page \<Rightarrow> fred_state
     \<Rightarrow> fred_state result" where
  "fred_page_step rt ih inp d first p st =
     (case pinned_capture rt inp (fp_capture p) (fp_body p) (''fred_observations/'' @ md_key d) of
        None \<Rightarrow> Inl ValueError
      | Some k \<Rightarrow>
          if \<not> page_request_ok inp d first (fs_offset st) p then Inl ValueError
          else (case page_content rt p of
              None \<Rightarrow> Inl ValueError
            | Some (n, xs) \<Rightarrow>
                if fs_total st \<notin> {None, Some n} \<or> int (length xs) \<noteq> min (fp_limit p) (n - fp_offset p) \<or> n < fp_offset p
                then Inl ValueError
                else fold_result (fred_row rt ih inp d p (ec_id k)) (enumerate 0 xs)
                  (st\<lparr>fs_total := Some n, fs_offset := fs_offset st + int (length xs)\<rparr>)))"

definition fred_start :: fred_state where
  "fred_start = \<lparr>fs_offset = 0, fs_total = None, fs_rows = [], fs_flags = [], fs_intervals = [], fs_previous = None\<rparr>"

definition fred_pages ::
  "'z ingest_runtime_scheme \<Rightarrow> string \<Rightarrow> market_input \<Rightarrow> macro_definition \<Rightarrow> fred_page list \<Rightarrow> fred_state result" where
  "fred_pages rt ih inp d ordered = fold_result (fred_page_step rt ih inp d (hd ordered)) ordered fred_start"

definition normalize_fred :: "'z ingest_runtime_scheme \<Rightarrow> fred_page list \<Rightarrow> market_input \<Rightarrow> market_bundle result" where
  "normalize_fred rt pages inp =
     (if \<not> market_input_valid inp then Inl ValueError
      else case macro_scope inp of
        None \<Rightarrow> Inl ValueError
      | Some d \<Rightarrow>
          let ordered = sort_key fp_offset pages in
          if \<not> pages_pinned inp pages \<or> \<not> vintage_requested inp (hd ordered) then Inl ValueError
          else (case market_input_hash rt inp of
              Inl e \<Rightarrow> Inl e
            | Inr ih \<Rightarrow>
                (case fred_pages rt ih inp d ordered of
                   Inl e \<Rightarrow> Inl e
                 | Inr st \<Rightarrow>
                     if fs_total st \<noteq> Some (fs_offset st) then Inl ValueError
                     else Inr (mk_market_bundle rt ih inp [] (fs_rows st) (fs_flags st)))))"

section \<open>Sourced gaps\<close>

definition rule_key :: "string \<Rightarrow> bool" where
  "rule_key s =
     (s \<noteq> [] \<and> length s \<le> 128 \<and> char_between (CHR ''a'') (CHR ''z'') (hd s)
      \<and> list_all (\<lambda>c. char_between (CHR ''a'') (CHR ''z'') c \<or> is_digit c \<or> c = CHR ''_'') s)"

definition unavailable_market_bundle :: "'z ingest_runtime_scheme \<Rightarrow> market_input \<Rightarrow> string \<Rightarrow> market_bundle result" where
  "unavailable_market_bundle rt inp reason =
     (if \<not> market_input_valid inp \<or> \<not> rule_key reason \<or> (mi_captures inp = [] \<and> mi_attempts inp = [])
        \<or> observation_captures inp \<noteq> [] then Inl ValueError
      else map_sum id (\<lambda>ih. refused rt ih inp reason ''Market request unavailable; no older value substituted'' None)
        (market_input_hash rt inp))"

end
