(* ===== verification/Fred_Properties.thy ===== *)
theory Fred_Properties
  imports Market_Fred
begin

text \<open>
  What a normalized series is: the complete pages of one request, row by row, with disjoint revision intervals.
\<close>

section \<open>Rows\<close>

text \<open>The specification: the rows of a page, in their order, that the requested vintage holds.\<close>

definition selected_row ::
  "'z ingest_runtime_scheme \<Rightarrow> string \<Rightarrow> market_input \<Rightarrow> macro_definition \<Rightarrow> fred_page \<Rightarrow> nat \<times> source \<Rightarrow> macro_observation option" where
  "selected_row rt ih inp d p ix =
     (case source_fields (Some (snd ix)) of
        None \<Rightarrow> None
      | Some raw \<Rightarrow>
          (case observation_dates raw of
             None \<Rightarrow> None
           | Some (when, begins, ends) \<Rightarrow>
               if in_vintage inp begins ends
               then Some (fred_macro rt ih inp d p (fp_capture p) (fst ix) raw when begins ends) else None))"

definition page_rows ::
  "'z ingest_runtime_scheme \<Rightarrow> string \<Rightarrow> market_input \<Rightarrow> macro_definition \<Rightarrow> fred_page \<times> source list \<Rightarrow> macro_observation list" where
  "page_rows rt ih inp d px = List.map_filter (selected_row rt ih inp d (fst px)) (enumerate 0 (snd px))"

text \<open>What holds of the rows gathered so far.\<close>

definition disjoint_intervals :: "(date \<times> date \<times> date) list \<Rightarrow> bool" where
  "disjoint_intervals xs = sorted_wrt (\<lambda>x y. fst x = fst y \<longrightarrow> snd (snd x) < fst (snd y) \<or> snd (snd y) < fst (snd x)) xs"

definition row_key :: "macro_observation \<Rightarrow> date \<times> date \<times> date" where
  "row_key o' = (mo_date o', or_else (mo_begin o') (mo_date o'), or_else (mo_until o') (mo_date o'))"

definition fred_ok :: "market_input \<Rightarrow> fred_state \<Rightarrow> bool" where
  "fred_ok inp st =
     (sorted (map mo_date (fs_rows st)) \<and> disjoint_intervals (map row_key (fs_rows st))
      \<and> (\<forall>x\<in>set (fs_rows st). row_key x \<in> set (fs_intervals st) \<and> (\<exists>w. fs_previous st = Some w \<and> mo_date x \<le> w)
          \<and> in_vintage inp (fst (snd (row_key x))) (snd (snd (row_key x)))))"

lemma fred_row_InrE:
  assumes "fred_row rt ih inp d p k (i, x) st = Inr st'"
  obtains raw w b e where "x = SDict raw" "observation_dates raw = Some (w, b, e)" "b \<le> e"
    "\<not> overlapping (fs_intervals st) w b e" "\<And>v. fs_previous st = Some v \<Longrightarrow> v \<le> w"
    "fs_previous st' = Some w" "fs_intervals st' = (w, b, e) # fs_intervals st"
    "fs_rows st' = fs_rows st @ (if in_vintage inp b e then [fred_macro rt ih inp d p k i raw w b e] else [])"
    "fs_flags st' = fs_flags st @ (if in_vintage inp b e then fred_flags rt ih k i raw w else [])"
    "fs_offset st' = fs_offset st" "fs_total st' = fs_total st"
proof -
  from assms obtain raw w b e where "x = SDict raw" "observation_dates raw = Some (w, b, e)"
      "reference_date_ok d w" "observation_in_bounds inp p (fs_previous st) w b e" "\<not> overlapping (fs_intervals st) w b e"
    by (auto simp: fred_row_def source_fields_def split: source.splits option.splits if_splits)
  with assms show thesis
    by (intro that[of raw w b e])
      (auto simp: fred_row_def source_fields_def observation_in_bounds_def Let_def split: if_splits)
qed

lemma row_key_fred_macro [simp]: "row_key (fred_macro rt ih inp d p k i raw w b e) = (w, b, e)"
  by (simp add: row_key_def fred_macro_def mk_macro_def or_else_def)

lemma fst_row_key [simp]: "fst (row_key x) = mo_date x"
  by (simp add: row_key_def)

lemma mo_date_fred_macro [simp]: "mo_date (fred_macro rt ih inp d p k i raw w b e) = w"
  by (simp add: fred_macro_def mk_macro_def)

lemma fred_row_ok:
  assumes "fred_row rt ih inp d p k (i, x) st = Inr st'" "fred_ok inp st"
  shows "fred_ok inp st'"
  using assms(1)
proof (rule fred_row_InrE)
  fix raw w b e
  assume st: "x = SDict raw" "\<not> overlapping (fs_intervals st) w b e" "\<And>v. fs_previous st = Some v \<Longrightarrow> v \<le> w"
    "fs_previous st' = Some w" "fs_intervals st' = (w, b, e) # fs_intervals st"
    "fs_rows st' = fs_rows st @ (if in_vintage inp b e then [fred_macro rt ih inp d p k i raw w b e] else [])"
  have le: "mo_date y \<le> w" if "y \<in> set (fs_rows st)" for y
    using assms(2) st(3) that by (force simp: fred_ok_def)
  have apart: "e < fst (snd (row_key y)) \<or> snd (snd (row_key y)) < b" if "y \<in> set (fs_rows st)" "mo_date y = w" for y
  proof -
    have "(w, snd (row_key y)) \<in> set (fs_intervals st)"
      using assms(2) that by (metis fred_ok_def fst_row_key prod.collapse)
    then have "\<not> (b \<le> snd (snd (row_key y)) \<and> fst (snd (row_key y)) \<le> e)"
      using st(2) that(2) by (cases "snd (row_key y)") (auto simp: overlapping_def list_ex_iff)
    then show ?thesis by auto
  qed
  show ?thesis
  proof (cases "in_vintage inp b e")
    case True
    then have rows: "fs_rows st' = fs_rows st @ [fred_macro rt ih inp d p k i raw w b e]" using st(6) by simp
    have "sorted (map mo_date (fs_rows st'))"
      using assms(2) le by (auto simp: rows sorted_append fred_ok_def)
    moreover have "disjoint_intervals (map row_key (fs_rows st'))"
      using assms(2) apart by (auto simp: rows disjoint_intervals_def sorted_wrt_append fred_ok_def)
    moreover have "row_key y \<in> set (fs_intervals st') \<and> mo_date y \<le> w
        \<and> in_vintage inp (fst (snd (row_key y))) (snd (snd (row_key y)))" if "y \<in> set (fs_rows st')" for y
      using that assms(2) le True by (auto simp: rows st(5) fred_ok_def)
    ultimately show ?thesis by (simp add: fred_ok_def st(4))
  next
    case False
    then show ?thesis using assms(2) st le by (auto simp: fred_ok_def)
  qed
qed

section \<open>Values\<close>

text \<open>
  An observation is sourced when its value is the number that its original text spells, its state says whether
  there is one, and a blocking flag at the same date, capture and locator reports a missing one.
\<close>

definition sourced :: "market_flag list \<Rightarrow> macro_observation \<Rightarrow> bool" where
  "sourced qs x =
     ((mo_state x = ''observed'') = (mo_value x \<noteq> None)
      \<and> (case mo_value x of None \<Rightarrow> True | Some v \<Rightarrow> market_decimal (mo_original x) = Some v)
      \<and> (mo_state x = ''observed'' \<or> list_ex (\<lambda>q. mf_severity q = ''blocking'' \<and> mf_date q = Some (mo_date x)
            \<and> mf_capture q = Some (mo_capture x) \<and> mf_locator q = Some (mo_locator x)) qs))"

lemma sourced_mono: "sourced qs x \<Longrightarrow> set qs \<subseteq> set qs' \<Longrightarrow> sourced qs' x"
  unfolding sourced_def list_ex_iff by blast

lemma fred_macro_sourced: "sourced (fred_flags rt ih k i raw w) (fred_macro rt ih inp d p k i raw w b e)"
  by (auto simp: sourced_def fred_macro_def mk_macro_def fred_flags_def fred_value_state_def fred_value_def literal_def
      mk_market_flag_def Let_def split: option.splits source.splits)

lemma fred_row_sourced:
  assumes "fred_row rt ih inp d p k (i, x) st = Inr st'" "\<forall>y\<in>set (fs_rows st). sourced (fs_flags st) y"
  shows "\<forall>y\<in>set (fs_rows st'). sourced (fs_flags st') y"
  using assms(1)
proof (rule fred_row_InrE)
  fix raw w b e
  assume st: "fs_rows st' = fs_rows st @ (if in_vintage inp b e then [fred_macro rt ih inp d p k i raw w b e] else [])"
    "fs_flags st' = fs_flags st @ (if in_vintage inp b e then fred_flags rt ih k i raw w else [])"
  show ?thesis
  proof
    fix y assume "y \<in> set (fs_rows st')"
    then consider "y \<in> set (fs_rows st)" | "in_vintage inp b e" "y = fred_macro rt ih inp d p k i raw w b e"
      using st(1) by (auto split: if_splits)
    then show "sourced (fs_flags st') y"
    proof cases
      case 1
      then show ?thesis using assms(2) by (auto simp: st(2) intro: sourced_mono)
    next
      case 2
      show ?thesis unfolding 2(2) by (rule sourced_mono[OF fred_macro_sourced]) (simp add: st(2) 2(1))
    qed
  qed
qed

section \<open>Pages\<close>

definition fred_good :: "market_input \<Rightarrow> fred_state \<Rightarrow> bool" where
  "fred_good inp st = (fred_ok inp st \<and> (\<forall>y\<in>set (fs_rows st). sourced (fs_flags st) y))"

lemma fred_rows_page:
  assumes "fold_result (fred_row rt ih inp d p (fp_capture p)) (enumerate n xs) st = Inr st'" "fred_good inp st"
  shows "fs_rows st' = fs_rows st @ List.map_filter (selected_row rt ih inp d p) (enumerate n xs)
    \<and> fs_offset st' = fs_offset st \<and> fs_total st' = fs_total st \<and> fred_good inp st'"
  using assms
proof (induction xs arbitrary: n st)
  case (Cons x xs)
  from Cons.prems(1) obtain s where s: "fred_row rt ih inp d p (fp_capture p) (n, x) st = Inr s"
      "fold_result (fred_row rt ih inp d p (fp_capture p)) (enumerate (Suc n) xs) s = Inr st'"
    by (auto split: sum.splits)
  have good: "fred_good inp s"
    using fred_row_ok[OF s(1)] fred_row_sourced[OF s(1)] Cons.prems(2) unfolding fred_good_def by blast
  have step: "fs_rows s = fs_rows st @ (case selected_row rt ih inp d p (n, x) of None \<Rightarrow> [] | Some y \<Rightarrow> [y])"
      "fs_offset s = fs_offset st" "fs_total s = fs_total st"
    using s(1) by (rule fred_row_InrE; simp add: selected_row_def source_fields_def)+
  from Cons.IH[OF s(2) good] step show ?case
    by (simp add: List.map_filter_simps split: option.splits)
qed (simp add: List.map_filter_simps)

lemma pinned_capture_id: "pinned_capture rt inp i body key = Some c \<Longrightarrow> ec_id c = i"
  by (auto simp: pinned_capture_def split: list.splits if_splits dest!: arg_cong[of "filter _ _" _ set])

text \<open>What a page adds, and what was asked of it.\<close>

lemma fred_page_InrE:
  assumes "fred_page_step rt ih inp d first p st = Inr st'" "fred_good inp st"
  obtains n xs where "page_content rt p = Some (n, xs)" "fs_total st \<in> {None, Some n}" "fs_total st' = Some n"
    "fp_offset p = fs_offset st" "fs_offset st' = fs_offset st + int (length xs)"
    "fs_rows st' = fs_rows st @ page_rows rt ih inp d (p, xs)" "fred_good inp st'"
proof -
  from assms(1) obtain k n xs where k: "pinned_capture rt inp (fp_capture p) (fp_body p) (''fred_observations/'' @ md_key d) = Some k"
      "page_request_ok inp d first (fs_offset st) p" "page_content rt p = Some (n, xs)" "fs_total st \<in> {None, Some n}"
      "fold_result (fred_row rt ih inp d p (ec_id k)) (enumerate 0 xs)
         (st\<lparr>fs_total := Some n, fs_offset := fs_offset st + int (length xs)\<rparr>) = Inr st'"
    by (auto simp: fred_page_step_def split: option.splits if_splits)
  have run: "fold_result (fred_row rt ih inp d p (fp_capture p)) (enumerate 0 xs)
         (st\<lparr>fs_total := Some n, fs_offset := fs_offset st + int (length xs)\<rparr>) = Inr st'"
    using k(5) pinned_capture_id[OF k(1)] by simp
  have good: "fred_good inp (st\<lparr>fs_total := Some n, fs_offset := fs_offset st + int (length xs)\<rparr>)"
    using assms(2) by (simp add: fred_good_def fred_ok_def)
  show thesis
    using that[OF k(3,4)] fred_rows_page[OF run good] k(2) by (simp add: page_rows_def page_request_ok_def)
qed

text \<open>Each page begins where the pages before it ended.\<close>

fun contiguous :: "int \<Rightarrow> (fred_page \<times> source list) list \<Rightarrow> bool" where
  "contiguous n [] = True"
| "contiguous n (px # pxs) = (fp_offset (fst px) = n \<and> contiguous (n + int (length (snd px))) pxs)"

lemma fred_pages_all:
  assumes "fold_result (fred_page_step rt ih inp d first) pages st = Inr st'" "fred_good inp st"
  shows "\<exists>contents. map fst contents = pages \<and> contiguous (fs_offset st) contents
    \<and> list_all (\<lambda>px. \<exists>n. page_content rt (fst px) = Some (n, snd px) \<and> fs_total st' = Some n) contents
    \<and> fs_offset st' = fs_offset st + int (length (concat (map snd contents)))
    \<and> fs_rows st' = fs_rows st @ concat (map (page_rows rt ih inp d) contents) \<and> fred_good inp st'
    \<and> (fs_total st = None \<or> fs_total st' = fs_total st)"
  using assms
proof (induction pages arbitrary: st)
  case (Cons p pages)
  from Cons.prems(1) obtain s where s: "fred_page_step rt ih inp d first p st = Inr s"
      "fold_result (fred_page_step rt ih inp d first) pages s = Inr st'"
    by (auto split: sum.splits)
  from s(1) Cons.prems(2) obtain n xs where p: "page_content rt p = Some (n, xs)" "fs_total st \<in> {None, Some n}" "fs_total s = Some n"
    "fp_offset p = fs_offset st" "fs_offset s = fs_offset st + int (length xs)"
    "fs_rows s = fs_rows st @ page_rows rt ih inp d (p, xs)" "fred_good inp s"
    by (rule fred_page_InrE)
  from Cons.IH[OF s(2) p(7)] obtain contents where c: "map fst contents = pages" "contiguous (fs_offset s) contents"
      "list_all (\<lambda>px. \<exists>n. page_content rt (fst px) = Some (n, snd px) \<and> fs_total st' = Some n) contents"
      "fs_offset st' = fs_offset s + int (length (concat (map snd contents)))"
      "fs_rows st' = fs_rows s @ concat (map (page_rows rt ih inp d) contents)" "fred_good inp st'"
      "fs_total st' = Some n"
    using p(3) by auto
  show ?case
    by (rule exI[of _ "(p, xs) # contents"]) (use p c in auto)
qed simp

section \<open>The series\<close>

lemma normalize_fred_InrE:
  assumes "normalize_fred rt pages inp = Inr b"
  obtains d ih contents st where "mi_definition inp = Some d" "market_input_hash rt inp = Inr ih"
    "map fst contents = sort_key fp_offset pages" "contiguous 0 contents"
    "list_all (\<lambda>px. page_content rt (fst px) = Some (int (length (concat (map snd contents))), snd px)) contents"
    "fs_rows st = concat (map (page_rows rt ih inp d) contents)" "fred_good inp st"
    "b = mk_market_bundle rt ih inp [] (fs_rows st) (fs_flags st)"
proof -
  from assms obtain d ih st where d: "mi_definition inp = Some d" "market_input_hash rt inp = Inr ih"
      "fold_result (fred_page_step rt ih inp d (hd (sort_key fp_offset pages))) (sort_key fp_offset pages) fred_start = Inr st"
      "fs_total st = Some (fs_offset st)" "b = mk_market_bundle rt ih inp [] (fs_rows st) (fs_flags st)"
    by (auto simp: normalize_fred_def fred_pages_def macro_scope_def Let_def split: if_splits option.splits sum.splits)
  have "fred_good inp fred_start" by (simp add: fred_good_def fred_ok_def fred_start_def disjoint_intervals_def)
  from fred_pages_all[OF d(3) this] obtain contents where c: "map fst contents = sort_key fp_offset pages" "contiguous 0 contents"
      "list_all (\<lambda>px. \<exists>n. page_content rt (fst px) = Some (n, snd px) \<and> fs_total st = Some n) contents"
      "fs_offset st = int (length (concat (map snd contents)))"
      "fs_rows st = concat (map (page_rows rt ih inp d) contents)" "fred_good inp st"
    by (auto simp: fred_start_def)
  have "list_all (\<lambda>px. page_content rt (fst px) = Some (int (length (concat (map snd contents))), snd px)) contents"
    using c(3,4) d(4) by (auto simp: list_all_iff)
  with that c d show thesis by blast
qed

lemma disjoint_in_vintage_distinct:
  assumes "mi_as_of inp = Some t" "disjoint_intervals (map row_key xs)"
    "\<forall>x\<in>set xs. in_vintage inp (fst (snd (row_key x))) (snd (snd (row_key x)))"
  shows "distinct (map mo_date xs)"
  using assms(2,3)
proof (induction xs)
  case (Cons x xs)
  have "mo_date y \<noteq> mo_date x" if y: "y \<in> set xs" for y
  proof
    assume "mo_date y = mo_date x"
    then have "snd (snd (row_key x)) < fst (snd (row_key y)) \<or> snd (snd (row_key y)) < fst (snd (row_key x))"
      using Cons.prems(1) y by (simp add: disjoint_intervals_def)
    moreover have "fst (snd (row_key z)) \<le> t \<and> t \<le> snd (snd (row_key z))" if "z \<in> {x, y}" for z
      using Cons.prems(2) that y assms(1) by (auto simp: in_vintage_def)
    ultimately show False by (meson insertI1 insertI2 leD le_less_trans less_le_trans order_less_le_trans)
  qed
  then have "mo_date x \<notin> mo_date ` set xs" by (metis imageE)
  moreover have "distinct (map mo_date xs)" using Cons by (simp add: disjoint_intervals_def)
  ultimately show ?case by simp
qed simp

lemma sourced_in_bundle: "sourced qs x \<Longrightarrow> sourced (mx_flags (mk_market_bundle rt ih inp prices macros qs)) x"
  by (rule sourced_mono[OF _ bundle_keeps_flags])

end
