(* ===== verification/Treasury.thy ===== *)
theory Treasury
  imports Market_Normalize
begin

text \<open>
  \<open>normalize_treasury\<close> of \<open>packages/ingest/market_normalize.py\<close>: one maturity of the daily yield
  curve feed.  The XML parser is a field of the runtime record, which returns the tree that \<open>lxml\<close> builds:
  a node is an element, or a comment or processing instruction, whose tag is not text.
\<close>

datatype xml = Element (xml_tag: string) (xml_attributes: "(string \<times> string) list") (xml_text: "string option") (xml_children: "xml list")
  | Markup

record xml_document =
  xd_dtd :: bool
  xd_root :: xml

record xml_runtime = ingest_runtime +
  xml_parse :: "string \<Rightarrow> xml_document option"

abbreviation "atom_ns \<equiv> ''{http://www.w3.org/2005/Atom}''"
abbreviation "data_ns \<equiv> ''{http://schemas.microsoft.com/ado/2007/08/dataservices}''"
abbreviation "meta_ns \<equiv> ''{http://schemas.microsoft.com/ado/2007/08/dataservices/metadata}''"

definition treasury_id :: string where
  "treasury_id = ''https://home.treasury.gov/resource-center/data-chart-center/interest-rates/''
     @ ''pages/xml-item?data=daily_treasury_yield_curve''"

definition has_tag :: "string \<Rightarrow> xml \<Rightarrow> bool" where
  "has_tag t x = (case x of Element u _ _ _ \<Rightarrow> u = t | Markup \<Rightarrow> False)"

definition findall :: "xml \<Rightarrow> string \<Rightarrow> xml list" where
  "findall x t = (case x of Element _ _ _ cs \<Rightarrow> filter (has_tag t) cs | Markup \<Rightarrow> [])"

definition xml_get :: "xml \<Rightarrow> string \<Rightarrow> string option" where
  "xml_get x a = (case x of Element _ kvs _ _ \<Rightarrow> map_of kvs a | Markup \<Rightarrow> None)"

definition text_of :: "xml \<Rightarrow> string option" where
  "text_of x = (case x of Element _ _ t _ \<Rightarrow> t | Markup \<Rightarrow> None)"

text \<open>The text of the one child with a tag; empty when it has none.\<close>

definition only_text :: "xml \<Rightarrow> string \<Rightarrow> string option" where
  "only_text x t = (case findall x t of [c] \<Rightarrow> Some (or_else (text_of c) []) | _ \<Rightarrow> None)"

section \<open>Unsafe declarations\<close>

text \<open>\<open>re.search(rb"<!\s*(DOCTYPE|ENTITY)\b", body, re.I)\<close>\<close>

definition lower_char :: "char \<Rightarrow> char" where
  "lower_char c = (if is_upper c then char_of (of_char c + 32 :: nat) else c)"

definition byte_space :: "char \<Rightarrow> bool" where
  "byte_space c = (let n = (of_char c :: nat) in (9 \<le> n \<and> n \<le> 13) \<or> n = 32)"

definition word_char :: "char \<Rightarrow> bool" where
  "word_char c = (is_digit c \<or> is_upper c \<or> char_between (CHR ''a'') (CHR ''z'') c \<or> c = CHR ''_'')"

definition word_at :: "string \<Rightarrow> string \<Rightarrow> bool" where
  "word_at w s =
     (map lower_char (take (length w) s) = w \<and> (case drop (length w) s of [] \<Rightarrow> True | c # _ \<Rightarrow> \<not> word_char c))"

fun declares_entities :: "string \<Rightarrow> bool" where
  "declares_entities [] = False"
| "declares_entities (c # cs) =
     ((starts_with ''<!'' (c # cs)
        \<and> (let r = dropWhile byte_space (drop 2 (c # cs)) in word_at ''doctype'' r \<or> word_at ''entity'' r))
      \<or> declares_entities cs)"

section \<open>The feed\<close>

definition year_month :: "date \<Rightarrow> string" where
  "year_month d = padded 4 (yr d) @ padded 2 (mo d)"

definition treasury_scope :: "market_input \<Rightarrow> macro_definition \<Rightarrow> bool" where
  "treasury_scope inp d =
     (md_key d \<in> {''BC_2YEAR'', ''BC_10YEAR''} \<and> md_unit d \<in> {''percent'', ''percent_per_year''}
      \<and> (case md_multiplier d of Finite m \<Rightarrow> dec_eq m (Dec False 1 0) | _ \<Rightarrow> False)
      \<and> md_frequency d = ''business_day'' \<and> md_convention d = ''measurement_date''
      \<and> (case mi_month inp of
           None \<Rightarrow> False
         | Some m \<Rightarrow> length m = 6 \<and> list_all is_digit m \<and> fromisoformat (take 4 m @ ''-'' @ drop 4 m @ ''-01'') \<noteq> None
             \<and> year_month (mi_start inp) = m \<and> year_month (mi_end inp) = m))"

definition safe_feed :: "'z xml_runtime_scheme \<Rightarrow> string \<Rightarrow> xml option" where
  "safe_feed rt body =
     (if 8 * 1024 * 1024 < length body \<or> declares_entities body then None
      else case xml_parse rt body of
        None \<Rightarrow> None
      | Some doc \<Rightarrow>
          if xd_dtd doc \<or> \<not> has_tag (atom_ns @ ''feed'') (xd_root doc)
            \<or> \<not> list_all (\<lambda>c. case c of Element t _ _ _ \<Rightarrow> starts_with atom_ns t | Markup \<Rightarrow> False) (xml_children (xd_root doc))
            \<or> only_text (xd_root doc) (atom_ns @ ''title'') \<noteq> Some ''DailyTreasuryYieldCurveRateData''
            \<or> only_text (xd_root doc) (atom_ns @ ''id'') \<noteq> Some treasury_id
          then None else Some (xd_root doc))"

text \<open>The properties of an entry.\<close>

definition entry_properties :: "xml \<Rightarrow> xml option" where
  "entry_properties entry =
     (case findall entry (atom_ns @ ''category'') of
        [] \<Rightarrow> None
      | category # _ \<Rightarrow>
          if xml_get category ''term'' \<noteq> Some ''TreasuryDataWarehouseModel.DailyTreasuryYieldCurveRateDatum'' then None
          else (case findall entry (atom_ns @ ''content'') of
              [content] \<Rightarrow>
                if xml_get content ''type'' \<noteq> Some ''application/xml'' then None
                else (case findall content (meta_ns @ ''properties'') of
                    [props] \<Rightarrow>
                      if list_all (\<lambda>c. case c of Element t _ _ cs \<Rightarrow> starts_with data_ns t \<and> cs = [] | Markup \<Rightarrow> False)
                          (xml_children props)
                      then Some props else None
                  | _ \<Rightarrow> None)
            | _ \<Rightarrow> None))"

definition typed :: "string \<Rightarrow> xml \<Rightarrow> bool" where
  "typed t x = (xml_get x (meta_ns @ ''type'') = Some t)"

definition entry_date :: "xml \<Rightarrow> (string \<times> date) option" where
  "entry_date props =
     (case findall props (data_ns @ ''NEW_DATE'') of
        [x] \<Rightarrow>
          if \<not> typed ''Edm.DateTime'' x then None
          else (case text_of x of
              None \<Rightarrow> None
            | Some s \<Rightarrow> map_option (Pair s) (daily_label True (Some (SText s))))
      | _ \<Rightarrow> None)"

definition maturity :: "xml \<Rightarrow> string \<Rightarrow> xml option result" where
  "maturity props key =
     (case findall props (data_ns @ key) of
        [] \<Rightarrow> Inr None
      | [x] \<Rightarrow> guard_value (typed ''Edm.Double'' x) (Some x)
      | _ \<Rightarrow> Inl ValueError)"

definition yield_state :: "bool \<Rightarrow> xml \<Rightarrow> string" where
  "yield_state legacy x =
     (case xml_get x (meta_ns @ ''null'') of
        Some n \<Rightarrow> if n = ''true'' \<and> text_of x \<in> {None, Some []} \<and> legacy then ''source_missing'' else ''unparseable''
      | None \<Rightarrow> if market_decimal (text_of x) = None then ''unparseable'' else ''observed'')"

definition yield_value :: "xml \<Rightarrow> dec option" where
  "yield_value x = (if xml_get x (meta_ns @ ''null'') = None then market_decimal (text_of x) else None)"

record treasury_state =
  ty_rows :: "macro_observation list"
  ty_flags :: "market_flag list"
  ty_seen :: "date list"

definition treasury_locator :: "nat \<Rightarrow> string \<Rightarrow> string" where
  "treasury_locator i key = ''/feed/entry['' @ nat_text (i + 1) @ '']/content/properties/'' @ key"

definition treasury_entry ::
  "'z xml_runtime_scheme \<Rightarrow> string \<Rightarrow> market_input \<Rightarrow> macro_definition \<Rightarrow> uuid \<Rightarrow> nat \<times> xml \<Rightarrow> treasury_state
     \<Rightarrow> treasury_state result" where
  "treasury_entry rt ih inp d capture ix st =
     (case Option.bind (entry_properties (snd ix)) (\<lambda>props. map_option (Pair props) (entry_date props)) of
        None \<Rightarrow> Inl ValueError
      | Some (props, text, when) \<Rightarrow>
          if Some (year_month when) \<noteq> mi_month inp \<or> when \<in> set (ty_seen st) then Inl ValueError
          else
            let locator = treasury_locator (fst ix) (md_key d); st' = st\<lparr>ty_seen := when # ty_seen st\<rparr> in
            (case maturity props (md_key d) of
               Inl e \<Rightarrow> Inl e
             | Inr field \<Rightarrow>
                 if when < mi_start inp \<or> mi_end inp < when then Inr st'
                 else (case field of
                     None \<Rightarrow>
                       Inr (st'\<lparr>ty_flags := ty_flags st @
                         [mk_market_flag rt ih ''blocking'' ''source_field_absent''
                           ''Source omitted requested maturity; no observation fabricated'' (Some capture) (Some when)
                           (Some ''value'') (Some locator)]\<rparr>)
                   | Some x \<Rightarrow>
                       let s = yield_state (mi_legacy_null inp) x in
                       Inr (st'\<lparr>ty_flags := ty_flags st @
                           (if s = ''observed'' then []
                            else [mk_market_flag rt ih ''blocking''
                              (if s = ''source_missing'' then ''source_missing'' else ''unparseable_value'')
                              ''Source selected value unavailable; original text retained'' (Some capture) (Some when)
                              (Some ''value'') (Some locator)]),
                         ty_rows := ty_rows st @ [mk_macro rt ih inp d capture locator when text (yield_value x) s (text_of x)]\<rparr>))))"

definition treasury_rows ::
  "'z xml_runtime_scheme \<Rightarrow> string \<Rightarrow> market_input \<Rightarrow> macro_definition \<Rightarrow> uuid \<Rightarrow> xml \<Rightarrow> treasury_state result" where
  "treasury_rows rt ih inp d capture feed =
     fold_result (treasury_entry rt ih inp d capture) (enumerate 0 (findall feed (atom_ns @ ''entry'')))
       \<lparr>ty_rows = [], ty_flags = [], ty_seen = []\<rparr>"

definition normalize_treasury :: "'z xml_runtime_scheme \<Rightarrow> string \<Rightarrow> market_input \<Rightarrow> market_bundle result" where
  "normalize_treasury rt body inp =
     (if \<not> market_input_valid inp then Inl ValueError
      else case macro_scope inp of
        None \<Rightarrow> Inl ValueError
      | Some d \<Rightarrow>
          (case single_capture rt inp body ''daily_treasury_yield_curve'' of
             None \<Rightarrow> Inl ValueError
           | Some k \<Rightarrow>
               if \<not> treasury_scope inp d then Inl ValueError
               else (case safe_feed rt body of
                   None \<Rightarrow> Inl ValueError
                 | Some feed \<Rightarrow>
                     (case market_input_hash rt inp of
                        Inl e \<Rightarrow> Inl e
                      | Inr ih \<Rightarrow>
                          (case treasury_rows rt ih inp d (ec_id k) feed of
                             Inl e \<Rightarrow> Inl e
                           | Inr st \<Rightarrow>
                               if mi_as_of inp \<noteq> None
                               then Inr (refused rt ih inp ''source_vintage_unavailable''
                                 ''Treasury current capture cannot reconstruct historical source vintages'' (Some (ec_id k)))
                               else Inr (mk_market_bundle rt ih inp [] (sort_key mo_date (ty_rows st)) (ty_flags st)))))))"

end
