(* ===== verification/Tiingo_Properties.thy ===== *)
theory Tiingo_Properties
  imports Fred_Properties
begin

text \<open>
  Daily prices: each field is the number of its source or a reported gap, inconsistent prices are never left
  unflagged, and each row of the response is accounted for.
\<close>

section \<open>One price\<close>

definition field_flagged :: "market_flag list \<Rightarrow> price_observation \<Rightarrow> string \<Rightarrow> bool" where
  "field_flagged qs p name =
     list_ex (\<lambda>q. mf_severity q = ''blocking'' \<and> mf_date q = Some (po_date p) \<and> mf_capture q = Some (po_capture p)
       \<and> mf_field q = Some name) qs"

definition cell_sourced :: "market_flag list \<Rightarrow> price_observation \<Rightarrow> string \<times> price_cell \<Rightarrow> bool" where
  "cell_sourced qs p nc =
     ((pf_state (snd nc) = ''observed'') = (pf_value (snd nc) \<noteq> None)
      \<and> (case pf_value (snd nc) of None \<Rightarrow> True | Some v \<Rightarrow> market_decimal (pf_text (snd nc)) = Some v \<and> \<not> dec_lt v dec_zero)
      \<and> (pf_state (snd nc) = ''observed'' \<or> field_flagged qs p (fst nc)))"

definition price_sourced :: "market_flag list \<Rightarrow> price_observation \<Rightarrow> bool" where
  "price_sourced qs p =
     (map fst (po_cells p) = map fst price_columns \<and> list_all (cell_sourced qs p) (po_cells p)
      \<and> list_all (\<lambda>prefix. ohlc_inconsistent (po_cells p) prefix \<longrightarrow>
          list_all (\<lambda>name. field_flagged qs p (prefix @ name)) [''open'', ''high'', ''low'', ''close'']) [[], ''adj_''])"

lemma field_flagged_mono: "field_flagged qs p name \<Longrightarrow> set qs \<subseteq> set qs' \<Longrightarrow> field_flagged qs' p name"
  unfolding field_flagged_def list_ex_iff by blast

lemma price_sourced_mono:
  assumes "price_sourced qs p" "set qs \<subseteq> set qs'"
  shows "price_sourced qs' p"
  using assms(1) unfolding price_sourced_def cell_sourced_def list_all_iff
  by (blast intro: field_flagged_mono[OF _ assms(2)])

lemma price_cell_sourced:
  "pf_state (price_cell_of row name column) = ''observed'' \<longleftrightarrow> pf_value (price_cell_of row name column) \<noteq> None"
  "pf_value (price_cell_of row name column) = Some v \<Longrightarrow>
     market_decimal (pf_text (price_cell_of row name column)) = Some v \<and> \<not> dec_lt v dec_zero"
  by (auto simp: price_cell_of_def cell_value_def literal_def split: option.splits source.splits if_splits)

lemma mk_price_fields:
  "po_date (mk_price rt ih inp b c k l w s row) = w" "po_capture (mk_price rt ih inp b c k l w s row) = k"
  "po_cells (mk_price rt ih inp b c k l w s row) = price_cells row"
  by (simp_all add: mk_price_def)

lemma mk_market_flag_fields [simp]:
  "mf_severity (mk_market_flag rt ih sev rule msg k w name l) = sev" "mf_rule (mk_market_flag rt ih sev rule msg k w name l) = rule"
  "mf_date (mk_market_flag rt ih sev rule msg k w name l) = w" "mf_field (mk_market_flag rt ih sev rule msg k w name l) = name"
  "mf_capture (mk_market_flag rt ih sev rule msg k w name l) = k"
  by (simp_all add: mk_market_flag_def)

lemma field_flaggedI:
  assumes "mk_market_flag rt ih ''blocking'' rule msg (Some k) (Some w) (Some name) l \<in> set qs"
  shows "field_flagged qs (mk_price rt ih inp b c k l' w s row) name"
  unfolding field_flagged_def list_ex_iff mk_price_fields by (rule bexI[OF _ assms]) simp

lemma map_sum_Inr_iff: "map_sum id f x = Inr y \<longleftrightarrow> (\<exists>z. x = Inr z \<and> y = f z)"
  by (cases x) auto

lemma cell_flags_reported:
  assumes "(name, column) \<in> set price_columns" "pf_state (price_cell_of row name column) \<noteq> ''observed''"
  shows "field_flagged (cell_flags rt ih k w l row) (mk_price rt ih inp b c k l' w s row) name"
  using assms by (intro field_flaggedI) (force simp: cell_flags_def set_map_filter Let_def)

lemma ohlc_flags_reported:
  assumes "ohlc_inconsistent (price_cells row) prefix" "prefix \<in> {[], ''adj_''}" "name \<in> {''open'', ''high'', ''low'', ''close''}"
  shows "field_flagged (ohlc_flags rt ih k w l (price_cells row)) (mk_price rt ih inp b c k l' w s row) (prefix @ name)"
  using assms by (intro field_flaggedI) (auto simp: ohlc_flags_def)

lemma new_price_sourced:
  "price_sourced (cell_flags rt ih k w l row @ ohlc_flags rt ih k w l (price_cells row) @ qs) (mk_price rt ih inp b c k l' w s row)"
  (is "price_sourced ?qs ?p")
proof -
  have "cell_sourced ?qs ?p (name, price_cell_of row name column)" if "(name, column) \<in> set price_columns" for name column
    using price_cell_sourced[of row name column]
      field_flagged_mono[OF cell_flags_reported[OF that, of row rt ih k w l inp b c l' s], of ?qs]
    by (auto simp: cell_sourced_def split: option.splits)
  then have "list_all (cell_sourced ?qs ?p) (po_cells ?p)"
    by (auto simp: list_all_iff mk_price_fields price_cells_def)
  moreover have "field_flagged ?qs ?p (prefix @ name)"
    if "ohlc_inconsistent (price_cells row) prefix" "prefix \<in> {[], ''adj_''}" "name \<in> {''open'', ''high'', ''low'', ''close''}" for prefix name
    by (rule field_flagged_mono[OF ohlc_flags_reported[OF that]]) auto
  moreover have "map fst (po_cells ?p) = map fst price_columns"
    by (simp add: mk_price_fields price_cells_def comp_def case_prod_unfold)
  ultimately show ?thesis unfolding price_sourced_def mk_price_fields(3) list_all_iff by fastforce
qed

section \<open>The response\<close>

definition outside_flag :: "market_flag \<Rightarrow> bool" where
  "outside_flag q = (mf_rule q = ''quote_identity_outside_validity'')"

definition tiingo_ok :: "market_input \<Rightarrow> quote_binding \<Rightarrow> quote_context \<Rightarrow> nat \<Rightarrow> tiingo_state \<Rightarrow> bool" where
  "tiingo_ok inp b c n st =
     ((\<forall>p\<in>set (ts_rows st). price_sourced (ts_flags st) p \<and> mi_start inp \<le> po_date p \<and> po_date p \<le> mi_end inp
         \<and> binding_in_force b c (po_date p) \<and> po_quote p = qb_quote b \<and> qc_currency c = Some (po_currency p))
      \<and> distinct (map po_date (ts_rows st)) \<and> po_date ` set (ts_rows st) \<subseteq> set (ts_seen st)
      \<and> length (ts_rows st) + length (filter outside_flag (ts_flags st)) = n)"

lemma no_outside_flags:
  "filter outside_flag (cell_flags rt ih k w l row) = []" "filter outside_flag (ohlc_flags rt ih k w l cells) = []"
  "filter outside_flag (dividend_flags rt ih k w l c row) = []"
  by (auto simp: filter_empty_conv outside_flag_def cell_flags_def ohlc_flags_def dividend_flags_def
      set_map_filter Let_def split: if_splits)

lemma tiingo_row_ok:
  assumes "tiingo_row rt ih inp b c k ix st = Inr st'" "tiingo_ok inp b c n st" "quote_verified b c"
  shows "tiingo_ok inp b c (Suc n) st'"
proof -
  from assms(1) obtain row w where r: "source_fields (Some (snd ix)) = Some row" "daily_label False (map_of row ''date'') = Some w"
      "w \<notin> set (ts_seen st)" "mi_start inp \<le> w" "w \<le> mi_end inp"
    by (auto simp: tiingo_row_def Let_def split: option.splits if_splits)
  show ?thesis
  proof (cases "binding_in_force b c w")
    case False
    then obtain q where "ts_rows st' = ts_rows st" "ts_flags st' = ts_flags st @ [q]" "outside_flag q" "ts_seen st' = w # ts_seen st"
      using assms(1) r by (auto simp: tiingo_row_def Let_def outside_flag_def split: if_splits)
    then show ?thesis using assms(2) by (auto simp: tiingo_ok_def intro: price_sourced_mono)
  next
    case True
    define l where "l = ''$['' @ nat_text (fst ix) @ '']''"
    define new where "new = mk_price rt ih inp b c k l w (source_text (map_of row ''date'')) row"
    define qs where "qs = cell_flags rt ih k w l row @ ohlc_flags rt ih k w l (price_cells row) @ dividend_flags rt ih k w l c row"
    have st': "ts_rows st' = ts_rows st @ [new]" "ts_flags st' = ts_flags st @ qs" "ts_seen st' = w # ts_seen st"
      using assms(1) r True by (auto simp: tiingo_row_def Let_def new_def qs_def l_def split: if_splits)
    have "price_sourced qs new" unfolding qs_def new_def by (rule new_price_sourced)
    moreover have "po_date new = w" "po_quote new = qb_quote b" "qc_currency c = Some (po_currency new)"
      using assms(3) by (auto simp: new_def mk_price_def quote_verified_def or_else_def split: option.splits)
    moreover have "filter outside_flag qs = []" by (simp add: qs_def no_outside_flags)
    ultimately show ?thesis using assms(2) r(3-5) True unfolding tiingo_ok_def st'
      by (auto intro: price_sourced_mono)
  qed
qed

lemma tiingo_steps_ok:
  assumes "fold_result (tiingo_row rt ih inp b c k) rows st = Inr st'" "tiingo_ok inp b c n st" "quote_verified b c"
  shows "tiingo_ok inp b c (n + length rows) st'"
  using assms(1,2)
proof (induction rows arbitrary: st n)
  case (Cons ix rows)
  then obtain s where s: "tiingo_row rt ih inp b c k ix st = Inr s" "fold_result (tiingo_row rt ih inp b c k) rows s = Inr st'"
    by (auto split: sum.splits)
  from Cons.IH[OF s(2) tiingo_row_ok[OF s(1) Cons.prems(2) assms(3)]] show ?case by simp
qed simp

end
