(* ===== verification/Ingest_Samples.thy ===== *)
theory Ingest_Samples
  imports Market_Fred Treasury "HOL-Library.Code_Target_Numeral"
begin

text \<open>
  One response of each market provider, on which the properties of their normalization are exercised.
\<close>

section \<open>Responses\<close>

definition fred_document :: source where
  "fred_document = SDict
     [(''units'', SText ''lin''), (''output_type'', SNumber ''1''), (''order_by'', SText ''observation_date''),
      (''sort_order'', SText ''asc''), (''file_type'', SText ''json''), (''observation_start'', SText ''2024-01-01''),
      (''observation_end'', SText ''2024-01-31''), (''realtime_start'', SText ''2024-02-01''),
      (''realtime_end'', SText ''2024-02-01''), (''offset'', SNumber ''0''), (''limit'', SNumber ''1000''), (''count'', SNumber ''2''),
      (''observations'', SList
         [SDict [(''date'', SText ''2024-01-02''), (''realtime_start'', SText ''2024-02-01''), (''realtime_end'', SText ''2024-02-01''),
            (''value'', SText ''3.95'')],
          SDict [(''date'', SText ''2024-01-03''), (''realtime_start'', SText ''2024-02-01''), (''realtime_end'', SText ''2024-02-01''),
            (''value'', SText ''.'')]])]"

definition tiingo_document :: source where
  "tiingo_document = SList
     [SDict [(''date'', SText ''2024-01-02T00:00:00.000Z''), (''open'', SNumber ''10''), (''high'', SNumber ''12.5''), (''low'', SNumber ''9''),
        (''close'', SNumber ''11''), (''volume'', SNumber ''1000''), (''divCash'', SNumber ''0''), (''splitFactor'', SNumber ''1'')],
      SDict [(''date'', SText ''2024-01-03''), (''open'', SNumber ''10''), (''high'', SNumber ''8''), (''low'', SNull)]]"

definition sample_hash :: string where
  "sample_hash = replicate 64 (CHR ''a'')"

definition market_rt :: "source \<Rightarrow> ingest_runtime" where
  "market_rt document = \<lparr>json_loads = (\<lambda>_. None), sha256_hex = (\<lambda>_. sample_hash), urlsplit = (\<lambda>_. None), uuid_text = nat_text,
     source_tree = (\<lambda>_. Some document), uuid5_url = length\<rparr>"

definition market_time :: datetime where
  "market_time = Datetime (738900 * micros_per_day) (Some 0)"

definition market_evidence :: "uuid \<Rightarrow> string \<Rightarrow> string \<Rightarrow> evidence_capture" where
  "market_evidence i key role = \<lparr>ec_id = i, ec_source = 1, ec_object = key, ec_url = ''u'', ec_sha256 = sample_hash, ec_bytes = 2,
     ec_fetched = market_time, ec_completed = market_time, ec_role = role\<rparr>"

definition market_sample :: market_input where
  "market_sample = \<lparr>mi_source = 1, mi_policy = 2, mi_start = Date 2024 1 1, mi_end = Date 2024 1 31, mi_captures = [],
     mi_parser = ''p'', mi_normalizer = ''n'', mi_selection = ''s'', mi_definition = None, mi_binding = None, mi_context = None,
     mi_cutoff = None, mi_as_of = None, mi_month = None, mi_legacy_null = False, mi_attempts = []\<rparr>"

definition fred_input :: market_input where
  "fred_input = market_sample\<lparr>
     mi_captures := [market_evidence 3 ''fred_observations/DGS10'' ''observations'', market_evidence 4 ''d'' ''series_definition''],
     mi_as_of := Some (Date 2024 2 1),
     mi_definition := Some \<lparr>md_id = 5, md_source = 1, md_key = ''DGS10'', md_capture = 4, md_locator = ''l'',
       md_sha256 = sample_hash, md_revision = ''r'', md_title = ''t'', md_units = ''Percent'', md_unit = ''percent'',
       md_multiplier = Finite (Dec False 1 0), md_frequency = ''business_day'', md_seasonal = ''not_applicable'', md_geography = ''US'',
       md_convention = ''measurement_date'', md_upstream = ''Board'', md_rights = ''public'', md_release = None, md_as_of = None,
       md_basis = ''capture_only''\<rparr>\<rparr>"

definition fred_sample_page :: fred_page where
  "fred_sample_page = \<lparr>fp_capture = 3, fp_body = ''{}'', fp_series = ''DGS10'', fp_start = Date 2024 1 1, fp_end = Date 2024 1 31,
     fp_begin = Date 2024 2 1, fp_until = Date 2024 2 1, fp_offset = 0, fp_limit = 1000, fp_units = ''lin'', fp_output = 1,
     fp_order = ''observation_date'', fp_sort = ''asc'', fp_frequency = None, fp_aggregation = None\<rparr>"

definition tiingo_input :: market_input where
  "tiingo_input = market_sample\<lparr>
     mi_captures := [market_evidence 3 ''tiingo_eod/ABC'' ''observations'', market_evidence 4 ''q'' ''quote_identity''],
     mi_binding := Some \<lparr>qb_id = 6, qb_source = 1, qb_quote = 7, qb_security = 8, qb_symbol = ''ABC'', qb_from = Date 2023 1 1, qb_to = None,
       qb_capture = 4, qb_locator = ''l'', qb_review = ''r'', qb_reviewed_at = market_time, qb_reviewed_by = ''x'',
       qb_sha256 = sample_hash, qb_instrument = None\<rparr>,
     mi_context := Some \<lparr>qc_quote = 7, qc_security = 8, qc_venue = Some ''XNAS'', qc_currency = Some ''USD'', qc_kind = ''common'',
       qc_from = Date 2023 1 1, qc_to = None, qc_timezone = None, qc_dividend = None, qc_dividend_evidence = None\<rparr>\<rparr>"

definition yield_entry :: "string \<Rightarrow> string \<Rightarrow> xml" where
  "yield_entry day rate = Element (atom_ns @ ''entry'') [] None
     [Element (atom_ns @ ''category'') [(''term'', ''TreasuryDataWarehouseModel.DailyTreasuryYieldCurveRateDatum'')] None [],
      Element (atom_ns @ ''content'') [(''type'', ''application/xml'')] None
        [Element (meta_ns @ ''properties'') [] None
          [Element (data_ns @ ''NEW_DATE'') [(meta_ns @ ''type'', ''Edm.DateTime'')] (Some (day @ ''T00:00:00'')) [],
           Element (data_ns @ ''BC_10YEAR'') [(meta_ns @ ''type'', ''Edm.Double'')] (Some rate) []]]]"

definition yield_feed :: xml where
  "yield_feed = Element (atom_ns @ ''feed'') [] None
     [Element (atom_ns @ ''title'') [] (Some ''DailyTreasuryYieldCurveRateData'') [], Element (atom_ns @ ''id'') [] (Some treasury_id) [],
      yield_entry ''2024-01-03'' ''4.05'', yield_entry ''2024-01-02'' ''n/a'']"

definition yield_rt :: xml_runtime where
  "yield_rt = \<lparr>json_loads = (\<lambda>_. None), sha256_hex = (\<lambda>_. sample_hash), urlsplit = (\<lambda>_. None), uuid_text = nat_text,
     source_tree = (\<lambda>_. None), uuid5_url = length, xml_parse = (\<lambda>_. Some \<lparr>xd_dtd = False, xd_root = yield_feed\<rparr>)\<rparr>"

definition yield_input :: market_input where
  "yield_input = fred_input\<lparr>
     mi_captures := [market_evidence 3 ''daily_treasury_yield_curve'' ''observations'', market_evidence 4 ''d'' ''series_definition''],
     mi_as_of := None, mi_month := Some ''202401'',
     mi_definition := map_option (md_key_update (\<lambda>_. ''BC_10YEAR'')) (mi_definition fred_input)\<rparr>"

section \<open>Runs\<close>

lemma market_hash: "input_stamped inp \<Longrightarrow> market_input_hash (market_rt doc) inp = Inr sample_hash"
  by (simp add: market_input_hash_def content_hash_def market_rt_def)

lemma fred_checks:
  "market_input_valid fred_input" "macro_scope fred_input = mi_definition fred_input" "pages_pinned fred_input [fred_sample_page]"
  "vintage_requested fred_input fred_sample_page" "input_stamped fred_input"
  by code_simp+

lemma fred_run:
  "case fred_pages (market_rt fred_document) sample_hash fred_input (the (mi_definition fred_input)) [fred_sample_page] of
     Inl e \<Rightarrow> False | Inr st \<Rightarrow> fs_total st = Some (fs_offset st) \<and> map mo_state (fs_rows st) = [''observed'', ''source_missing'']"
  by code_simp

lemma fred_bundle:
  "\<exists>b. normalize_fred (market_rt fred_document) [fred_sample_page] fred_input = Inr b
    \<and> map mo_state (mx_macros b) = [''observed'', ''source_missing'']"
proof -
  obtain d where d: "mi_definition fred_input = Some d" by (simp add: fred_input_def)
  then obtain st where st: "fred_pages (market_rt fred_document) sample_hash fred_input d [fred_sample_page] = Inr st"
      "fs_total st = Some (fs_offset st)" "map mo_state (fs_rows st) = [''observed'', ''source_missing'']"
    using fred_run by (auto split: sum.splits)
  show ?thesis
    by (rule exI[of _ "mk_market_bundle (market_rt fred_document) sample_hash fred_input [] (fs_rows st) (fs_flags st)"])
      (simp add: normalize_fred_def fred_checks d st market_hash)
qed

lemma tiingo_checks:
  "market_input_valid tiingo_input" "input_stamped tiingo_input"
  "case price_scope tiingo_input of None \<Rightarrow> False | Some (b, c) \<Rightarrow> quote_verified b c \<and> mi_binding tiingo_input = Some b \<and> mi_context tiingo_input = Some c
     \<and> map_option ec_id (single_capture (market_rt tiingo_document) tiingo_input ''{}'' (''tiingo_eod/'' @ qb_symbol b)) = Some 3"
  "parse_market (market_rt tiingo_document) ''{}'' = Inr tiingo_document"
  by code_simp+

lemma tiingo_run:
  "case tiingo_rows (market_rt tiingo_document) sample_hash tiingo_input (the (mi_binding tiingo_input)) (the (mi_context tiingo_input)) 3
       tiingo_document of
     Inl e \<Rightarrow> False
   | Inr st \<Rightarrow> map po_date (ts_rows st) = [Date 2024 1 2, Date 2024 1 3]
       \<and> map (\<lambda>p. ohlc_inconsistent (po_cells p) []) (ts_rows st) = [False, True]"
  by code_simp

lemma tiingo_bundle:
  "\<exists>b. normalize_tiingo (market_rt tiingo_document) ''{}'' tiingo_input = Inr b \<and> length (mx_prices b) = 2"
proof -
  from tiingo_checks(3) obtain q c where q: "price_scope tiingo_input = Some (q, c)" "quote_verified q c"
      "mi_binding tiingo_input = Some q" "mi_context tiingo_input = Some c"
      "map_option ec_id (single_capture (market_rt tiingo_document) tiingo_input ''{}'' (''tiingo_eod/'' @ qb_symbol q)) = Some 3"
    by (auto split: option.splits)
  then obtain k where k: "single_capture (market_rt tiingo_document) tiingo_input ''{}'' (''tiingo_eod/'' @ qb_symbol q) = Some k" "ec_id k = 3"
    by auto
  from tiingo_run q obtain st where st: "tiingo_rows (market_rt tiingo_document) sample_hash tiingo_input q c 3 tiingo_document = Inr st"
      "map po_date (ts_rows st) = [Date 2024 1 2, Date 2024 1 3]"
    by (auto split: sum.splits)
  have "length (map po_date (ts_rows st)) = 2" unfolding st(2) by simp
  then have "length (ts_rows st) = 2" by simp
  moreover have "mi_as_of tiingo_input = None" by (simp add: tiingo_input_def market_sample_def)
  ultimately show ?thesis
    using q(1,2) k st(1) market_hash[OF tiingo_checks(2), of tiingo_document]
    by (intro exI[of _ "mk_market_bundle (market_rt tiingo_document) sample_hash tiingo_input (sort_key po_date (ts_rows st)) [] (ts_flags st)"])
      (simp add: normalize_tiingo_def tiingo_checks(1,4))
qed

lemma yield_checks:
  "market_input_valid yield_input" "input_stamped yield_input"
  "case macro_scope yield_input of None \<Rightarrow> False | Some d \<Rightarrow> treasury_scope yield_input d \<and> mi_definition yield_input = Some d"
  "map_option ec_id (single_capture yield_rt yield_input ''{}'' ''daily_treasury_yield_curve'') = Some 3"
  "safe_feed yield_rt ''{}'' = Some yield_feed"
  by code_simp+

lemma yield_run:
  "case treasury_rows yield_rt sample_hash yield_input (the (mi_definition yield_input)) 3 yield_feed of
     Inl e \<Rightarrow> False | Inr st \<Rightarrow> map mo_state (ty_rows st) = [''observed'', ''unparseable'']"
  by code_simp

lemma yield_bundle: "\<exists>b. normalize_treasury yield_rt ''{}'' yield_input = Inr b \<and> length (mx_macros b) = 2"
proof -
  from yield_checks(3) obtain d where d: "macro_scope yield_input = Some d" "treasury_scope yield_input d" "mi_definition yield_input = Some d"
    by (auto split: option.splits)
  from yield_checks(4) obtain k where k: "single_capture yield_rt yield_input ''{}'' ''daily_treasury_yield_curve'' = Some k" "ec_id k = 3"
    by auto
  from yield_run d(3) obtain st where st: "treasury_rows yield_rt sample_hash yield_input d 3 yield_feed = Inr st"
      "map mo_state (ty_rows st) = [''observed'', ''unparseable'']"
    by (auto split: sum.splits)
  have "length (map mo_state (ty_rows st)) = 2" by (simp add: st(2))
  then have "length (ty_rows st) = 2" by simp
  moreover have "mi_as_of yield_input = None" by (simp add: yield_input_def)
  moreover have "market_input_hash yield_rt yield_input = Inr sample_hash"
    using yield_checks(2) by (simp add: market_input_hash_def content_hash_def yield_rt_def)
  ultimately show ?thesis
    using d(1,2) k st(1) yield_checks(1,5)
    by (intro exI[of _ "mk_market_bundle yield_rt sample_hash yield_input [] (sort_key mo_date (ty_rows st)) (ty_flags st)"])
      (simp add: normalize_treasury_def)
qed

end
