(* ===== verification/Ingest_Guarantees.thy ===== *)
theory Ingest_Guarantees
  imports Fred_Properties Treasury Tiingo_Properties Ingest_Samples
begin

text \<open>
  The guarantees of the market normalization, on its published bundles.
\<close>

section \<open>Yields\<close>

definition treasury_ok :: "treasury_state \<Rightarrow> bool" where
  "treasury_ok st =
     ((\<forall>x\<in>set (ty_rows st). sourced (ty_flags st) x) \<and> distinct (map mo_date (ty_rows st))
      \<and> mo_date ` set (ty_rows st) \<subseteq> set (ty_seen st))"

lemma yield_sourced:
  shows "yield_state legacy x = ''observed'' \<longleftrightarrow> yield_value x \<noteq> None"
  "yield_value x = Some v \<Longrightarrow> market_decimal (text_of x) = Some v"
  by (auto simp: yield_state_def yield_value_def split: option.splits if_splits)

lemma treasury_entry_ok:
  assumes "treasury_entry rt ih inp d k ix st = Inr st'" "treasury_ok st"
  shows "treasury_ok st'"
proof -
  from assms(1) obtain props label w field where e:
      "Option.bind (entry_properties (snd ix)) (\<lambda>props. map_option (Pair props) (entry_date props)) = Some (props, label, w)"
      "w \<notin> set (ty_seen st)" "maturity props (md_key d) = Inr field"
    by (auto simp: treasury_entry_def Let_def split: option.splits if_splits sum.splits)
  show ?thesis
  proof (cases "w < mi_start inp \<or> mi_end inp < w \<or> field = None")
    case True
    then have "ty_rows st' = ty_rows st" "set (ty_flags st) \<subseteq> set (ty_flags st')" "ty_seen st' = w # ty_seen st"
      using assms(1) e by (auto simp: treasury_entry_def Let_def split: if_splits option.splits)
    then show ?thesis using assms(2) by (auto simp: treasury_ok_def intro: sourced_mono)
  next
    case False
    then obtain x where x: "field = Some x" by auto
    define new where "new = mk_macro rt ih inp d k (treasury_locator (fst ix) (md_key d)) w label (yield_value x)
      (yield_state (mi_legacy_null inp) x) (text_of x)"
    define qs where "qs = (if yield_state (mi_legacy_null inp) x = ''observed'' then []
      else [mk_market_flag rt ih ''blocking'' (if yield_state (mi_legacy_null inp) x = ''source_missing'' then ''source_missing'' else ''unparseable_value'')
        ''Source selected value unavailable; original text retained'' (Some k) (Some w) (Some ''value'')
        (Some (treasury_locator (fst ix) (md_key d)))])"
    have st': "ty_rows st' = ty_rows st @ [new]" "ty_flags st' = ty_flags st @ qs" "ty_seen st' = w # ty_seen st"
      using assms(1) e False x by (auto simp: treasury_entry_def Let_def new_def qs_def split: if_splits)
    have "sourced qs new"
      using yield_sourced(1)[of "mi_legacy_null inp" x] yield_sourced(2)[of x]
      by (auto simp: sourced_def new_def qs_def mk_macro_def mk_market_flag_def split: option.splits)
    moreover have "mo_date new = w" by (simp add: new_def mk_macro_def)
    ultimately show ?thesis using assms(2) e(2) unfolding treasury_ok_def st'
      by (auto intro: sourced_mono)
  qed
qed

lemma normalize_treasury_InrE:
  assumes "normalize_treasury rt body inp = Inr b"
  obtains ih k st where "market_input_hash rt inp = Inr ih" "treasury_ok st"
    "b = (if mi_as_of inp \<noteq> None then refused rt ih inp ''source_vintage_unavailable''
         ''Treasury current capture cannot reconstruct historical source vintages'' (Some k)
       else mk_market_bundle rt ih inp [] (sort_key mo_date (ty_rows st)) (ty_flags st))"
proof -
  from assms obtain d k feed ih st where g: "market_input_valid inp" "macro_scope inp = Some d" "treasury_scope inp d"
      "single_capture rt inp body ''daily_treasury_yield_curve'' = Some k" "safe_feed rt body = Some feed"
    and n: "market_input_hash rt inp = Inr ih" "treasury_rows rt ih inp d (ec_id k) feed = Inr st"
    unfolding normalize_treasury_def
    by (cases "market_input_hash rt inp") (auto split: if_split_asm option.splits sum.splits)
  then have b: "b = (if mi_as_of inp \<noteq> None then refused rt ih inp ''source_vintage_unavailable''
         ''Treasury current capture cannot reconstruct historical source vintages'' (Some (ec_id k))
       else mk_market_bundle rt ih inp [] (sort_key mo_date (ty_rows st)) (ty_flags st))"
    using assms by (simp add: normalize_treasury_def split: if_split_asm)
  have "treasury_ok \<lparr>ty_rows = [], ty_flags = [], ty_seen = []\<rparr>" by (simp add: treasury_ok_def)
  with n(2)[unfolded treasury_rows_def] have "treasury_ok st"
    by (rule fold_result_inv) (rule treasury_entry_ok)
  with n b that[of ih st "ec_id k"] show thesis by blast
qed

section \<open>Series\<close>

text \<open>
  C28.  A normalized series is complete and unambiguous.  Whenever the pages of a request are accepted, each
  starts where the ones before it ended, each states the number of observations that the pages hold together,
  and the observations are exactly those of the pages, in order, that the requested vintage holds; their dates
  do not decrease, the revision intervals of one date are disjoint, and for a given source date no reference
  date has two values.
\<close>

theorem fred_series_complete:
  assumes "normalize_fred rt pages inp = Inr b"
  shows "\<exists>d ih contents. mi_definition inp = Some d \<and> market_input_hash rt inp = Inr ih
    \<and> map fst contents = sort_key fp_offset pages \<and> contiguous 0 contents
    \<and> list_all (\<lambda>px. page_content rt (fst px) = Some (int (length (concat (map snd contents))), snd px)) contents
    \<and> mx_macros b = concat (map (page_rows rt ih inp d) contents)
    \<and> sorted (map mo_date (mx_macros b)) \<and> disjoint_intervals (map row_key (mx_macros b))
    \<and> (case mi_as_of inp of None \<Rightarrow> True | Some t \<Rightarrow> distinct (map mo_date (mx_macros b)))"
proof -
  from assms obtain d ih contents st where n: "mi_definition inp = Some d" "market_input_hash rt inp = Inr ih"
    "map fst contents = sort_key fp_offset pages" "contiguous 0 contents"
    "list_all (\<lambda>px. page_content rt (fst px) = Some (int (length (concat (map snd contents))), snd px)) contents"
    "fs_rows st = concat (map (page_rows rt ih inp d) contents)" "fred_good inp st"
    "b = mk_market_bundle rt ih inp [] (fs_rows st) (fs_flags st)"
    by (rule normalize_fred_InrE)
  have b: "mx_macros b = fs_rows st" by (simp add: n(8))
  have ok: "sorted (map mo_date (mx_macros b))" "disjoint_intervals (map row_key (mx_macros b))"
      "\<forall>x\<in>set (mx_macros b). in_vintage inp (fst (snd (row_key x))) (snd (snd (row_key x)))"
    using n(7) unfolding b fred_good_def fred_ok_def by auto
  have "case mi_as_of inp of None \<Rightarrow> True | Some t \<Rightarrow> distinct (map mo_date (mx_macros b))"
    using disjoint_in_vintage_distinct[OF _ ok(2,3)] by (simp split: option.splits)
  with n(1-5) ok(1,2) b n(6) show ?thesis by (intro exI conjI) (assumption | simp only:)+
qed

theorem fred_series_complete_witness:
  "\<exists>b. normalize_fred (market_rt fred_document) [fred_sample_page] fred_input = Inr b
    \<and> sorted (map mo_date (mx_macros b)) \<and> disjoint_intervals (map row_key (mx_macros b))"
proof -
  from fred_bundle obtain b where b: "normalize_fred (market_rt fred_document) [fred_sample_page] fred_input = Inr b" by (elim exE conjE)
  from fred_series_complete[OF b] have "sorted (map mo_date (mx_macros b)) \<and> disjoint_intervals (map row_key (mx_macros b))"
    by (elim exE conjE) (intro conjI)
  with b show ?thesis by (intro exI[of _ b] conjI) (assumption | elim conjE)+
qed

section \<open>Macro values\<close>

text \<open>
  The contract of a provider of macro observations, whatever a request to it is: its bundles are sourced.  What
  a reader may then conclude is proved once for all providers.
\<close>

locale macro_provider =
  fixes normalize :: "'request \<Rightarrow> market_input \<Rightarrow> market_bundle result"
  assumes bundle_sourced: "normalize request inp = Inr b \<Longrightarrow> list_all (sourced (mx_flags b)) (mx_macros b)"
begin

lemma unflagged_has_value:
  assumes "normalize request inp = Inr b" "x \<in> set (mx_macros b)"
    "\<not> list_ex (\<lambda>q. mf_severity q = ''blocking'' \<and> mf_locator q = Some (mo_locator x)) (mx_flags b)"
  obtains v where "mo_value x = Some v" "market_decimal (mo_original x) = Some v"
proof -
  have "sourced (mx_flags b) x" using bundle_sourced[OF assms(1)] assms(2) by (simp add: list_all_iff)
  then show thesis using assms(3) that by (auto simp: sourced_def list_ex_iff)
qed

lemma blank_is_flagged:
  assumes "normalize request inp = Inr b" "x \<in> set (mx_macros b)" "mo_value x = None"
  shows "list_ex (\<lambda>q. mf_severity q = ''blocking'' \<and> mf_locator q = Some (mo_locator x)) (mx_flags b)"
  using unflagged_has_value[OF assms(1,2)] assms(3) by (metis option.distinct(1))

end

lemma fred_bundle_sourced:
  assumes "normalize_fred rt pages inp = Inr b"
  shows "list_all (sourced (mx_flags b)) (mx_macros b)"
proof -
  from assms obtain ih st where "fred_good inp st" "b = mk_market_bundle rt ih inp [] (fs_rows st) (fs_flags st)"
    by (rule normalize_fred_InrE)
  then show ?thesis by (auto simp: list_all_iff fred_good_def intro: sourced_in_bundle)
qed

lemma treasury_bundle_sourced:
  assumes "normalize_treasury rt body inp = Inr b"
  shows "list_all (sourced (mx_flags b)) (mx_macros b) \<and> distinct (map mo_date (mx_macros b)) \<and> sorted (map mo_date (mx_macros b))
    \<and> (mi_as_of inp \<noteq> None \<longrightarrow> mx_macros b = [])"
  using assms
proof (rule normalize_treasury_InrE)
  fix ih k st
  assume "treasury_ok st"
    and "b = (if mi_as_of inp \<noteq> None then refused rt ih inp ''source_vintage_unavailable''
       ''Treasury current capture cannot reconstruct historical source vintages'' (Some k)
     else mk_market_bundle rt ih inp [] (sort_key mo_date (ty_rows st)) (ty_flags st))"
  then show ?thesis
    by (cases "mi_as_of inp") (auto simp: list_all_iff treasury_ok_def refused_def distinct_map intro: sourced_in_bundle)
qed

interpretation fred: macro_provider "normalize_fred rt" for rt :: "'z ingest_runtime_scheme"
  by unfold_locales (rule fred_bundle_sourced)

interpretation treasury: macro_provider "normalize_treasury rt" for rt :: "'z xml_runtime_scheme"
  by unfold_locales (simp add: treasury_bundle_sourced)

text \<open>
  No macro value is invented.  In every bundle of either provider, a value is the number that the retained
  original text spells, an observation is called observed exactly when it has a value, and each observation
  without one is reported by a blocking flag of the bundle at its date, capture and locator, so that an
  observation that no blocking flag locates has a value; a bundle of the yield curve has one observation per
  date, and none at all when a historical vintage is requested.
\<close>

theorem macro_values_sourced:
  assumes "normalize_fred rt pages inp = Inr b \<or> normalize_treasury rt' body inp = Inr b"
  shows "list_all (sourced (mx_flags b)) (mx_macros b)
    \<and> list_all (\<lambda>x. mo_value x \<noteq> None \<or> list_ex (\<lambda>q. mf_severity q = ''blocking'' \<and> mf_locator q = Some (mo_locator x)) (mx_flags b))
        (mx_macros b)
    \<and> (normalize_treasury rt' body inp = Inr b \<longrightarrow>
        distinct (map mo_date (mx_macros b)) \<and> sorted (map mo_date (mx_macros b)) \<and> (mi_as_of inp \<noteq> None \<longrightarrow> mx_macros b = []))"
proof -
  have "list_all (sourced (mx_flags b)) (mx_macros b)"
    using assms by (elim disjE) (rule fred.bundle_sourced, assumption, rule treasury.bundle_sourced)
  moreover have "mo_value x \<noteq> None \<or> list_ex (\<lambda>q. mf_severity q = ''blocking'' \<and> mf_locator q = Some (mo_locator x)) (mx_flags b)"
    if x: "x \<in> set (mx_macros b)" for x
    using assms
  proof (elim disjE)
    assume "normalize_fred rt pages inp = Inr b"
    from fred.blank_is_flagged[OF this x] show ?thesis by blast
  next
    assume "normalize_treasury rt' body inp = Inr b"
    from treasury.blank_is_flagged[OF this x] show ?thesis by blast
  qed
  ultimately show ?thesis by (simp add: list_all_iff treasury_bundle_sourced)
qed

theorem macro_values_sourced_witness:
  "(\<exists>b. normalize_fred (market_rt fred_document) [fred_sample_page] fred_input = Inr b \<and> list_all (sourced (mx_flags b)) (mx_macros b))
    \<and> (\<exists>b. normalize_treasury yield_rt ''{}'' yield_input = Inr b \<and> length (mx_macros b) = 2 \<and> sorted (map mo_date (mx_macros b)))"
proof
  from fred_bundle obtain b where b: "normalize_fred (market_rt fred_document) [fred_sample_page] fred_input = Inr b" by (elim exE conjE)
  from macro_values_sourced[OF disjI1[OF b], of yield_rt "[]"] b
  show "\<exists>b. normalize_fred (market_rt fred_document) [fred_sample_page] fred_input = Inr b \<and> list_all (sourced (mx_flags b)) (mx_macros b)"
    by (intro exI[of _ b] conjI) simp_all
next
  from yield_bundle obtain b where b: "normalize_treasury yield_rt ''{}'' yield_input = Inr b" "length (mx_macros b) = 2"
    by (elim exE conjE)
  from macro_values_sourced[OF disjI2[OF b(1)]] b
  show "\<exists>b. normalize_treasury yield_rt ''{}'' yield_input = Inr b \<and> length (mx_macros b) = 2 \<and> sorted (map mo_date (mx_macros b))"
    by (intro exI[of _ b] conjI) simp_all
qed

section \<open>Prices\<close>



end
