(* ===== verification/Sec_Inventory.thy ===== *)
theory Sec_Inventory
  imports Sec_Normalize "HOL-Library.Product_Lexorder"
begin

text \<open>
  \<open>packages/ingest/sec_inventory.py\<close>: pinned Submissions documents become the list of filings of an issuer in
  a window, with a statement whether every advertised older document was there.  Any exception is
  \<open>Inl ValueError\<close>.
\<close>

section \<open>ISO timestamps\<close>

text \<open>\<open>datetime.fromisoformat\<close>: a date, any one character, and a time with an optional offset.\<close>

definition clock_fields :: "string \<Rightarrow> ((nat \<times> nat \<times> nat) \<times> string) option" where
  "clock_fields s =
     (case number_at 0 2 s of
        None \<Rightarrow> None
      | Some h \<Rightarrow>
          let r = drop 2 s; sep = (r \<noteq> [] \<and> hd r = CHR '':''); r1 = (if sep then tl r else r) in
          if r = [] then Some ((h, 0, 0), [])
          else (case number_at 0 2 r1 of
              None \<Rightarrow> None
            | Some m \<Rightarrow>
                let r2 = drop 2 r1 in
                if r2 = [] then Some ((h, m, 0), [])
                else if sep \<and> hd r2 \<noteq> CHR '':'' then None
                else let r3 = (if sep then tl r2 else r2) in
                  map_option (\<lambda>sec. ((h, m, sec), drop 2 r3)) (number_at 0 2 r3)))"

definition fraction_micros :: "string \<Rightarrow> nat option" where
  "fraction_micros r =
     (case r of
        [] \<Rightarrow> Some 0
      | c # ds \<Rightarrow>
          if c \<in> {CHR ''.'', CHR '',''} \<and> ds \<noteq> [] \<and> list_all is_digit ds
          then Some (digits_value (take 6 ds) * 10 ^ (6 - length (take 6 ds))) else None)"

text \<open>Hours, minutes, seconds and microseconds as text.\<close>

definition clock_value :: "string \<Rightarrow> (nat \<times> nat \<times> nat \<times> nat) option" where
  "clock_value s =
     (case clock_fields s of
        None \<Rightarrow> None
      | Some ((h, m, sec), r) \<Rightarrow> map_option (\<lambda>f. (h, m, sec, f)) (fraction_micros r))"

definition total_micros :: "nat \<times> nat \<times> nat \<times> nat \<Rightarrow> int" where
  "total_micros t = (case t of (h, m, s, f) \<Rightarrow> int (((h * 60 + m) * 60 + s) * 1000000 + f))"

definition zone_at :: "string \<Rightarrow> nat option" where
  "zone_at t =
     (let spot = \<lambda>c. if c \<in> set t then Some (length (takeWhile (\<lambda>d. d \<noteq> c) t)) else None in
      case spot (CHR ''-'') of
        Some i \<Rightarrow> Some i
      | None \<Rightarrow> (case spot (CHR ''+'') of Some i \<Rightarrow> Some i | None \<Rightarrow> spot (CHR ''Z'')))"

text \<open>The offset that follows a zone mark; outer \<open>None\<close> is malformed.\<close>

definition zone_offset :: "char \<Rightarrow> string \<Rightarrow> int option" where
  "zone_offset mark z =
     (if mark = CHR ''Z'' then (if z = [] then Some 0 else None)
      else if length z \<in> {0, 1, 3} then None
      else case clock_value z of
        None \<Rightarrow> None
      | Some v \<Rightarrow>
          if total_micros v < micros_per_day then Some (if mark = CHR ''-'' then - total_micros v else total_micros v) else None)"

definition iso_time :: "string \<Rightarrow> (int \<times> int option) option" where
  "iso_time t =
     (case zone_at t of
        None \<Rightarrow> Option.bind (clock_value t) (\<lambda>(h, m, s, f).
          if h < 24 \<and> m < 60 \<and> s < 60 then Some (total_micros (h, m, s, f), None) else None)
      | Some i \<Rightarrow> Option.bind (clock_value (take i t)) (\<lambda>(h, m, s, f).
          if h < 24 \<and> m < 60 \<and> s < 60
          then map_option (\<lambda>z. (total_micros (h, m, s, f), Some z)) (zone_offset (t ! i) (drop (i + 1) t)) else None))"

definition date_end :: "string \<Rightarrow> nat" where
  "date_end s =
     (let digits = length (takeWhile is_digit (drop 7 s)) + 7 in
      if length s = 7 then 7
      else if s ! 4 = CHR ''-'' then
        (if s ! 5 = CHR ''W''
         then (if 8 < length s \<and> s ! 8 = CHR ''-''
               then (if 10 < length s \<and> is_digit (s ! 10) then 8 else 10) else 8)
         else 10)
      else if s ! 4 = CHR ''W''
      then (if digits < 9 then digits else if digits mod 2 = 0 then 7 else 8)
      else 8)"

definition iso_datetime :: "string \<Rightarrow> datetime option" where
  "iso_datetime s =
     (if length s < 7 then None
      else case fromisoformat (take (date_end s) s) of
        None \<Rightarrow> None
      | Some d \<Rightarrow>
          let t = drop (date_end s + 1) s; day = int (toordinal d) * micros_per_day in
          if t = [] then Some (Datetime day None)
          else map_option (\<lambda>(clock, z). Datetime (day + clock - or_else z 0) z) (iso_time t))"

section \<open>Documents\<close>

record inventory_filing =
  iv_accession :: string
  iv_filed :: date
  iv_form :: string
  iv_report :: "date option"
  iv_primary :: "string option"
  iv_accepted :: "datetime option"
  iv_basis :: "string option"
  iv_capture :: uuid
  iv_locator :: string
  iv_raw :: string

record older_document =
  od_name :: string
  od_count :: nat
  od_from :: date
  od_to :: date

record submission_document =
  sm_cik :: string
  sm_capture :: uuid
  sm_name :: "string option"
  sm_filings :: "inventory_filing list"
  sm_older :: "older_document list"
  sm_cik_json :: "string option"

record filing_inventory =
  iy_cik :: string
  iy_start :: date
  iy_end :: date
  iy_filings :: "inventory_filing list"
  iy_captures :: "uuid list"
  iy_completeness :: string
  iy_missing :: "string list"
  iy_flags :: "string list"

definition older_name :: "string \<Rightarrow> string \<Rightarrow> bool" where
  "older_name cik name =
     (let prefix = ''CIK'' @ cik @ ''-submissions-''; n = length prefix in
      length name = n + 8 \<and> take n name = prefix \<and> list_all is_digit (take 3 (drop n name)) \<and> drop (n + 3) name = ''.json'')"

definition source_count :: "source option \<Rightarrow> nat option" where
  "source_count v = (case v of Some (SNumber t) \<Rightarrow> if t \<noteq> [] \<and> list_all is_digit t then Some (digits_value t) else None | _ \<Rightarrow> None)"

text \<open>The truth value of an entry of a dictionary.\<close>

definition truthy :: "source option \<Rightarrow> bool" where
  "truthy v =
     (case v of
        None \<Rightarrow> False
      | Some SNull \<Rightarrow> False
      | Some (SBool b) \<Rightarrow> b
      | Some (SNumber t) \<Rightarrow> True
      | Some (SText s) \<Rightarrow> s \<noteq> []
      | Some (SList xs) \<Rightarrow> xs \<noteq> []
      | Some (SDict kvs) \<Rightarrow> kvs \<noteq> [])"

definition source_date :: "source option \<Rightarrow> date option" where
  "source_date v = (case v of Some (SText s) \<Rightarrow> fromisoformat s | _ \<Rightarrow> None)"

section \<open>One filing\<close>

definition alphanumeric :: "char \<Rightarrow> bool" where
  "alphanumeric c = (is_digit c \<or> is_upper c \<or> char_between (CHR ''a'') (CHR ''z'') c)"

fun split_slash :: "string \<Rightarrow> string list" where
  "split_slash [] = [[]]"
| "split_slash (c # cs) =
     (if c = CHR ''/'' then [] # split_slash cs
      else case split_slash cs of [] \<Rightarrow> [[c]] | p # ps \<Rightarrow> (c # p) # ps)"

definition path_part :: "string \<Rightarrow> bool" where
  "path_part p =
     (case p of [] \<Rightarrow> False
      | c # cs \<Rightarrow> alphanumeric c \<and> list_all (\<lambda>d. alphanumeric d \<or> d \<in> {CHR ''_'', CHR ''.'', CHR ''-''}) cs)"

definition has_dotdot :: "string \<Rightarrow> bool" where
  "has_dotdot s = ((CHR ''.'', CHR ''.'') \<in> set (zip s (tl s)))"

definition safe_path :: "string \<Rightarrow> bool" where
  "safe_path s = (list_all path_part (split_slash s) \<and> \<not> has_dotdot s)"

definition primary_document :: "source option \<Rightarrow> string option result" where
  "primary_document v =
     (if \<not> truthy v then Inr None
      else case v of Some (SText s) \<Rightarrow> guard_value (safe_path s) (Some s) | _ \<Rightarrow> Inl ValueError)"

text \<open>\<open>text.replace("Z", "+00:00")\<close>\<close>

definition zulu_offset :: "string \<Rightarrow> string" where
  "zulu_offset s = concat (map (\<lambda>c. if c = CHR ''Z'' then ''+00:00'' else [c]) s)"

text \<open>A timestamp without an offset is no acceptance time.\<close>

definition acceptance :: "source option \<Rightarrow> datetime option result" where
  "acceptance v =
     (if \<not> truthy v then Inr None
      else case v of
        Some (SText s) \<Rightarrow>
          (case iso_datetime (zulu_offset s) of None \<Rightarrow> Inl ValueError | Some t \<Rightarrow> Inr (if aware t then Some t else None))
      | _ \<Rightarrow> Inl ValueError)"

definition report_date :: "source option \<Rightarrow> date option result" where
  "report_date v =
     (if \<not> truthy v then Inr None else case source_date v of None \<Rightarrow> Inl ValueError | Some d \<Rightarrow> Inr (Some d))"

definition inventory_row :: "uuid \<Rightarrow> string \<Rightarrow> nat \<Rightarrow> (string \<times> source) list \<Rightarrow> inventory_filing result" where
  "inventory_row capture prefix i row =
     (case (map_of row ''accessionNumber'', map_of row ''form'', source_date (map_of row ''filingDate''),
            report_date (map_of row ''reportDate''), primary_document (map_of row ''primaryDocument''),
            acceptance (map_of row ''acceptanceDateTime'')) of
        (Some (SText accession), Some (SText form), Some filed, Inr report, Inr primary, Inr accepted) \<Rightarrow>
          guard_value (accession_text accession \<and> nonblank form)
            \<lparr>iv_accession = accession, iv_filed = filed, iv_form = form, iv_report = report, iv_primary = primary,
             iv_accepted = accepted, iv_basis = map_option (\<lambda>_. ''verified_timezone'') accepted, iv_capture = capture,
             iv_locator = prefix @ ''/'' @ nat_text i, iv_raw = source_json (SDict row)\<rparr>
      | _ \<Rightarrow> Inl ValueError)"

section \<open>Parallel columns\<close>

definition column_length :: "(string \<times> source) list \<Rightarrow> nat option" where
  "column_length columns =
     (case map_of columns ''accessionNumber'' of
        Some (SList xs) \<Rightarrow>
          if list_all (\<lambda>kv. case snd kv of SList ys \<Rightarrow> length ys = length xs | _ \<Rightarrow> False) columns then Some (length xs) else None
      | _ \<Rightarrow> None)"

definition column_row :: "(string \<times> source) list \<Rightarrow> nat \<Rightarrow> (string \<times> source) list" where
  "column_row columns i = map (\<lambda>kv. (fst kv, case snd kv of SList ys \<Rightarrow> ys ! i | v \<Rightarrow> v)) columns"

text \<open>Every value, or the first error.\<close>

fun all_results :: "'a result list \<Rightarrow> 'a list result" where
  "all_results [] = Inr []"
| "all_results (Inl e # rs) = Inl e"
| "all_results (Inr x # rs) = map_sum id (Cons x) (all_results rs)"

definition inventory_filings :: "source option \<Rightarrow> uuid \<Rightarrow> string \<Rightarrow> inventory_filing list result" where
  "inventory_filings columns capture prefix =
     (case source_fields columns of
        None \<Rightarrow> Inl ValueError
      | Some cols \<Rightarrow>
          if \<not> {''accessionNumber'', ''filingDate'', ''form''} \<subseteq> set (map fst cols) then Inl ValueError
          else (case column_length cols of
              None \<Rightarrow> Inl ValueError
            | Some n \<Rightarrow> all_results (map (\<lambda>i. inventory_row capture prefix i (column_row cols i)) [0..<n])))"

section \<open>Documents\<close>

definition older_reference :: "string \<Rightarrow> source \<Rightarrow> older_document result" where
  "older_reference cik item =
     (case source_fields (Some item) of
        None \<Rightarrow> Inl ValueError
      | Some kvs \<Rightarrow>
          (case (map_of kvs ''name'', source_date (map_of kvs ''filingFrom''), source_date (map_of kvs ''filingTo''),
                 source_count (map_of kvs ''filingCount'')) of
             (Some (SText name), Some first, Some final, Some n) \<Rightarrow>
               guard_value (older_name cik name \<and> first \<le> final) \<lparr>od_name = name, od_count = n, od_from = first, od_to = final\<rparr>
           | _ \<Rightarrow> Inl ValueError))"

definition older_references :: "string \<Rightarrow> source list \<Rightarrow> older_document list result" where
  "older_references cik items =
     (case all_results (map (older_reference cik) items) of
        Inl e \<Rightarrow> Inl e
      | Inr refs \<Rightarrow> guard_value (distinct (map od_name refs)) refs)"

definition root_document :: "string \<Rightarrow> uuid \<Rightarrow> (string \<times> source) list \<Rightarrow> submission_document result" where
  "root_document cik capture document =
     (if canonical_cik (map_of document ''cik'') \<noteq> Inr cik then Inl ValueError
      else case source_fields (map_of document ''filings'') of
        None \<Rightarrow> Inl ValueError
      | Some info \<Rightarrow>
          (case map_of info ''files'' of
             Some (SList items) \<Rightarrow>
               (case (older_references cik items, inventory_filings (map_of info ''recent'') capture ''/filings/recent'') of
                  (Inr refs, Inr filings) \<Rightarrow>
                    Inr \<lparr>sm_cik = cik, sm_capture = capture, sm_name = None, sm_filings = filings, sm_older = refs,
                      sm_cik_json = map_option source_json (map_of document ''cik'')\<rparr>
                | _ \<Rightarrow> Inl ValueError)
           | _ \<Rightarrow> Inl ValueError))"

definition parse_submissions ::
  "'z ingest_runtime_scheme \<Rightarrow> string \<Rightarrow> source \<Rightarrow> uuid \<Rightarrow> string option \<Rightarrow> submission_document result" where
  "parse_submissions rt body expected capture name =
     (case canonical_cik (Some expected) of
        Inl e \<Rightarrow> Inl e
      | Inr cik \<Rightarrow>
          (case parse_source rt body of
             Inl e \<Rightarrow> Inl e
           | Inr document \<Rightarrow>
               (case name of
                  None \<Rightarrow> root_document cik capture document
                | Some n \<Rightarrow>
                    if \<not> older_name cik n then Inl ValueError
                    else map_sum id (\<lambda>filings. \<lparr>sm_cik = cik, sm_capture = capture, sm_name = Some n, sm_filings = filings,
                        sm_older = [], sm_cik_json = None\<rparr>) (inventory_filings (Some (SDict document)) capture []))))"

section \<open>The inventory\<close>

definition advertised :: "submission_document \<Rightarrow> string \<Rightarrow> older_document option" where
  "advertised parent name = find (\<lambda>r. od_name r = name) (rev (sm_older parent))"

definition older_supplied :: "submission_document \<Rightarrow> submission_document list \<Rightarrow> bool" where
  "older_supplied parent older =
     (list_all (\<lambda>d. sm_cik d = sm_cik parent \<and> (case sm_name d of None \<Rightarrow> False | Some n \<Rightarrow> advertised parent n \<noteq> None)) older
      \<and> distinct (map sm_name older))"

definition needed_names :: "submission_document \<Rightarrow> date \<Rightarrow> date \<Rightarrow> string list" where
  "needed_names parent first final =
     filter (\<lambda>n. case advertised parent n of None \<Rightarrow> False | Some r \<Rightarrow> od_from r \<le> final \<and> first \<le> od_to r) (map od_name (sm_older parent))"

definition missing_names :: "submission_document \<Rightarrow> submission_document list \<Rightarrow> date \<Rightarrow> date \<Rightarrow> string list" where
  "missing_names parent older first final =
     sorted_set (filter (\<lambda>n. Some n \<notin> set (map sm_name older)) (needed_names parent first final))"

definition older_matches :: "older_document \<Rightarrow> submission_document \<Rightarrow> bool" where
  "older_matches r d =
     (length (sm_filings d) = od_count r \<and> list_all (\<lambda>f. od_from r \<le> iv_filed f \<and> iv_filed f \<le> od_to r) (sm_filings d))"

definition metadata_matches :: "submission_document \<Rightarrow> submission_document \<Rightarrow> bool" where
  "metadata_matches parent d =
     (case Option.bind (sm_name d) (advertised parent) of None \<Rightarrow> False | Some r \<Rightarrow> older_matches r d)"

definition selected_filings :: "submission_document \<Rightarrow> submission_document list \<Rightarrow> date \<Rightarrow> date \<Rightarrow> inventory_filing list" where
  "selected_filings parent older first final =
     filter (\<lambda>f. first \<le> iv_filed f \<and> iv_filed f \<le> final) (concat (map sm_filings (parent # older)))"

definition conflicting_metadata :: "inventory_filing list \<Rightarrow> bool" where
  "conflicting_metadata fs = list_ex (\<lambda>f. list_ex (\<lambda>g. iv_accession f = iv_accession g \<and> iv_raw f \<noteq> iv_raw g) fs) fs"

definition inventory_flags :: "submission_document \<Rightarrow> submission_document list \<Rightarrow> date \<Rightarrow> date \<Rightarrow> string list" where
  "inventory_flags parent older first final = sorted_set
     (flag_if (missing_names parent older first final \<noteq> []) ''missing_advertised_history''
      @ flag_if (list_ex (\<lambda>d. \<not> distinct (map iv_accession (sm_filings d))) (parent # older)) ''duplicate_accessions_in_document''
      @ flag_if (\<not> list_all (metadata_matches parent) older) ''older_inventory_metadata_mismatch''
      @ flag_if (conflicting_metadata (selected_filings parent older first final)) ''conflicting_filing_metadata'')"

definition assemble_inventory ::
  "submission_document \<Rightarrow> submission_document list \<Rightarrow> date \<Rightarrow> date \<Rightarrow> filing_inventory result" where
  "assemble_inventory parent older first final =
     (if sm_name parent \<noteq> None \<or> final < first \<or> \<not> older_supplied parent older then Inl ValueError
      else let flags = inventory_flags parent older first final in
        Inr \<lparr>iy_cik = sm_cik parent, iy_start = first, iy_end = final,
          iy_filings = sort_key (\<lambda>f. (iv_filed f, iv_accession f, iv_capture f)) (selected_filings parent older first final),
          iy_captures = sorted_set (sm_capture parent # map sm_capture older),
          iy_completeness = (if flags = [] then ''complete'' else ''incomplete''),
          iy_missing = missing_names parent older first final, iy_flags = flags\<rparr>)"

section \<open>What an inventory promises\<close>

lemma advertised_in: "advertised parent n = Some r \<Longrightarrow> r \<in> set (sm_older parent) \<and> od_name r = n"
  unfolding advertised_def by (auto simp: find_Some_iff) (metis length_rev nth_mem set_rev)

lemma missing_names_iff:
  "n \<in> set (missing_names parent older first final) \<longleftrightarrow>
     (\<exists>r. advertised parent n = Some r \<and> od_from r \<le> final \<and> first \<le> od_to r) \<and> Some n \<notin> set (map sm_name older)"
  by (auto simp: missing_names_def needed_names_def split: option.splits dest!: advertised_in)

lemma inventory_complete_iff:
  assumes "assemble_inventory parent older first final = Inr v"
  shows "iy_completeness v = ''complete'' \<longleftrightarrow>
     missing_names parent older first final = [] \<and> list_all (\<lambda>d. distinct (map iv_accession (sm_filings d))) (parent # older)
     \<and> list_all (metadata_matches parent) older \<and> \<not> conflicting_metadata (selected_filings parent older first final)"
proof -
  have "iy_completeness v = ''complete'' \<longleftrightarrow> inventory_flags parent older first final = []"
    using assms by (auto simp: assemble_inventory_def Let_def split: if_splits)
  then show ?thesis by (auto simp: inventory_flags_def list_ex_iff list_all_iff)
qed

end
