(* ===== verification/Inventory_Properties.thy ===== *)
theory Inventory_Properties
  imports Sec_Inventory Sec_Samples "HOL-Library.Multiset"
begin

text \<open>
  What a filing inventory promises: an inventory that calls itself complete rests on every advertised document
  that meets its window.
\<close>

section \<open>Parsed documents\<close>

lemma root_document_older:
  assumes "root_document cik capture document = Inr parent"
  shows "distinct (map od_name (sm_older parent)) \<and> sm_name parent = None"
  using assms
  by (auto simp: root_document_def older_references_def split: if_splits option.splits source.splits sum.splits)

lemma parse_submissions_parent:
  assumes "parse_submissions rt body expected capture None = Inr parent"
  shows "distinct (map od_name (sm_older parent))"
  using assms
  by (auto simp: parse_submissions_def split: sum.splits dest: root_document_older)

lemma advertised_iff:
  assumes "distinct (map od_name (sm_older parent))"
  shows "advertised parent n = Some r \<longleftrightarrow> r \<in> set (sm_older parent) \<and> od_name r = n"
proof
  assume r: "r \<in> set (sm_older parent) \<and> od_name r = n"
  then have "advertised parent n \<noteq> None"
    by (auto simp: advertised_def find_None_iff)
  then obtain q where q: "advertised parent n = Some q" by blast
  then have "q = r"
    using advertised_in[OF q] r inj_onD[of od_name "set (sm_older parent)" q r] assms by (simp add: distinct_map)
  with q show "advertised parent n = Some r" by simp
qed (rule advertised_in)

section \<open>Completeness\<close>

lemma complete_supplied:
  assumes "distinct (map od_name (sm_older parent))" "missing_names parent older first final = []"
    and "list_all (metadata_matches parent) older"
    and "r \<in> set (sm_older parent)" "od_from r \<le> final" "first \<le> od_to r"
  shows "\<exists>d\<in>set older. sm_name d = Some (od_name r) \<and> older_matches r d"
proof -
  have a: "advertised parent (od_name r) = Some r"
    using assms(1,4) by (simp add: advertised_iff)
  have "od_name r \<notin> set (missing_names parent older first final)"
    using assms(2) by simp
  then have "Some (od_name r) \<in> set (map sm_name older)"
    using a assms(5,6) unfolding missing_names_iff by blast
  then obtain d where d: "d \<in> set older" "sm_name d = Some (od_name r)" by auto
  then have "metadata_matches parent d" using assms(3) by (simp add: list_all_iff)
  then have "older_matches r d" using d(2) a by (simp add: metadata_matches_def)
  with d show ?thesis by blast
qed

lemma assembled_filings:
  assumes "assemble_inventory parent older first final = Inr v"
  shows "iy_filings v = sort_key (\<lambda>f. (iv_filed f, iv_accession f, iv_capture f)) (selected_filings parent older first final)"
  using assms by (auto simp: assemble_inventory_def Let_def split: if_splits)

lemma sorted_by_first: "sorted (map (\<lambda>x. (a x, b x)) xs) \<Longrightarrow> sorted (map a xs)"
  for a :: "'x \<Rightarrow> 'a::linorder" and b :: "'x \<Rightarrow> 'b::linorder"
  by (induction xs) (auto simp: less_eq_prod_def)

lemma no_conflict:
  "\<not> conflicting_metadata fs \<longleftrightarrow> (\<forall>f\<in>set fs. \<forall>g\<in>set fs. iv_accession f = iv_accession g \<longrightarrow> iv_raw f = iv_raw g)"
  by (auto simp: conflicting_metadata_def list_ex_iff)

text \<open>
  C18.  An inventory that is called complete rests on every advertised older document whose dates meet the
  window, each supplied with as many filings as advertised, all inside its advertised dates.  It lists exactly the
  filings of the root and the older documents that were filed inside the window, in filing order; no document
  repeats an accession, and all entries of one accession carry the same metadata.
\<close>

theorem complete_inventory_sound:
  assumes "parse_submissions rt body expected capture None = Inr parent"
    and "assemble_inventory parent older first final = Inr v" "iy_completeness v = ''complete''"
  shows "(\<forall>r\<in>set (sm_older parent). od_from r \<le> final \<and> first \<le> od_to r \<longrightarrow>
        (\<exists>d\<in>set older. sm_name d = Some (od_name r) \<and> length (sm_filings d) = od_count r
           \<and> (\<forall>f\<in>set (sm_filings d). od_from r \<le> iv_filed f \<and> iv_filed f \<le> od_to r)))
    \<and> mset (iy_filings v) = filter_mset (\<lambda>f. first \<le> iv_filed f \<and> iv_filed f \<le> final) (mset (concat (map sm_filings (parent # older))))
    \<and> sorted (map iv_filed (iy_filings v))
    \<and> (\<forall>d\<in>set (parent # older). distinct (map iv_accession (sm_filings d)))
    \<and> (\<forall>f\<in>set (iy_filings v). \<forall>g\<in>set (iy_filings v). iv_accession f = iv_accession g \<longrightarrow> iv_raw f = iv_raw g)"
proof -
  have d: "distinct (map od_name (sm_older parent))"
    using assms(1) by (rule parse_submissions_parent)
  from assms(3) have c: "missing_names parent older first final = []" "list_all (\<lambda>d. distinct (map iv_accession (sm_filings d))) (parent # older)"
    "list_all (metadata_matches parent) older" "\<not> conflicting_metadata (selected_filings parent older first final)"
    unfolding inventory_complete_iff[OF assms(2)] by blast+
  have f: "iy_filings v = sort_key (\<lambda>f. (iv_filed f, iv_accession f, iv_capture f)) (selected_filings parent older first final)"
    using assms(2) by (rule assembled_filings)
  have s: "set (iy_filings v) = set (selected_filings parent older first final)"
    unfolding f by simp
  show ?thesis
  proof (intro conjI)
    show "\<forall>r\<in>set (sm_older parent). od_from r \<le> final \<and> first \<le> od_to r \<longrightarrow>
        (\<exists>d\<in>set older. sm_name d = Some (od_name r) \<and> length (sm_filings d) = od_count r
           \<and> (\<forall>f\<in>set (sm_filings d). od_from r \<le> iv_filed f \<and> iv_filed f \<le> od_to r))"
      using complete_supplied[OF d c(1,3)] unfolding older_matches_def list_all_iff by blast
    show "mset (iy_filings v) = filter_mset (\<lambda>f. first \<le> iv_filed f \<and> iv_filed f \<le> final) (mset (concat (map sm_filings (parent # older))))"
      unfolding f mset_sort selected_filings_def mset_filter ..
    show "sorted (map iv_filed (iy_filings v))"
      unfolding f by (rule sorted_by_first[OF sorted_sort_key])
    show "\<forall>d\<in>set (parent # older). distinct (map iv_accession (sm_filings d))"
      using c(2) by (simp add: list_all_iff)
    show "\<forall>f\<in>set (iy_filings v). \<forall>g\<in>set (iy_filings v). iv_accession f = iv_accession g \<longrightarrow> iv_raw f = iv_raw g"
      using c(4) unfolding no_conflict s .
  qed
qed

section \<open>An inventory of three filings\<close>

definition iv_columns :: "(string \<times> source) list" where
  "iv_columns = [(''accessionNumber'', SList [SText ''0000320193-25-000001'', SText ''0000320193-24-000009'']),
     (''filingDate'', SList [SText ''2025-02-01'', SText ''2024-08-02'']),
     (''form'', SList [SText ''10-K'', SText ''10-Q'']),
     (''acceptanceDateTime'', SList [SText ''2025-02-01T16:30:12.000Z'', SText ''2024-08-02T06:01:36'']),
     (''primaryDocument'', SList [SText ''a10-k.htm'', SText []])]"

definition iv_root :: "(string \<times> source) list" where
  "iv_root = [(''cik'', SText ''0000320193''),
     (''filings'', SDict [(''recent'', SDict iv_columns),
        (''files'', SList [SDict [(''name'', SText ''CIK0000320193-submissions-001.json''), (''filingCount'', SNumber ''1''),
           (''filingFrom'', SText ''2023-01-01''), (''filingTo'', SText ''2023-12-31'')]])])]"

definition iv_older :: "(string \<times> source) list" where
  "iv_older = [(''accessionNumber'', SList [SText ''0000320193-23-000106'']), (''filingDate'', SList [SText ''2023-11-03'']),
     (''form'', SList [SText ''10-K''])]"

definition iv_rt :: "(string \<times> source) list \<Rightarrow> ingest_runtime" where
  "iv_rt document = sec_rt\<lparr>source_tree := (\<lambda>_. Some (SDict document))\<rparr>"

definition iv_parent :: "submission_document result" where
  "iv_parent = parse_submissions (iv_rt iv_root) ''{}'' (SText ''320193'') 1 None"

definition iv_supplied :: "submission_document result" where
  "iv_supplied = parse_submissions (iv_rt iv_older) ''{}'' (SText ''320193'') 2 (Some ''CIK0000320193-submissions-001.json'')"

lemma iv_complete:
  "case (iv_parent, iv_supplied) of
     (Inr p, Inr d) \<Rightarrow>
       (case assemble_inventory p [d] (Date 2023 6 1) (Date 2025 12 31) of
          Inr v \<Rightarrow> iy_completeness v = ''complete''
            \<and> map iv_accession (iy_filings v) = [''0000320193-23-000106'', ''0000320193-24-000009'', ''0000320193-25-000001'']
            \<and> map (\<lambda>f. iv_accepted f \<noteq> None) (iy_filings v) = [False, False, True]
        | Inl e \<Rightarrow> False)
   | _ \<Rightarrow> False"
  by code_simp

theorem complete_inventory_sound_witness:
  "\<exists>p d v. parse_submissions (iv_rt iv_root) ''{}'' (SText ''320193'') 1 None = Inr p \<and> iv_supplied = Inr d
     \<and> assemble_inventory p [d] (Date 2023 6 1) (Date 2025 12 31) = Inr v
     \<and> mset (iy_filings v) = filter_mset (\<lambda>f. Date 2023 6 1 \<le> iv_filed f \<and> iv_filed f \<le> Date 2025 12 31) (mset (concat (map sm_filings [p, d])))
     \<and> sorted (map iv_filed (iy_filings v))"
proof -
  obtain p d v where p: "iv_parent = Inr p" and d: "iv_supplied = Inr d"
    and v: "assemble_inventory p [d] (Date 2023 6 1) (Date 2025 12 31) = Inr v" "iy_completeness v = ''complete''"
    using iv_complete by (auto split: sum.splits)
  have q: "parse_submissions (iv_rt iv_root) ''{}'' (SText ''320193'') 1 None = Inr p"
    using p by (simp only: iv_parent_def)
  show ?thesis
    using complete_inventory_sound[OF q v] q d v by (intro exI[of _ p] exI[of _ d] exI[of _ v]) simp
qed

end
