(* ===== verification/Filing.thy ===== *)
theory Filing
  imports Market_Feed "HOL-Library.Product_Lexorder"
begin

text \<open>
  \<open>packages/ingest/filing.py\<close>: the bounded reader of Inline XBRL filings.  The XML parser, the element
  path and the serialisation of a node are fields of the runtime record.  A node of the document is its path
  from the root, so that two nodes are the same node exactly when their paths are equal.
\<close>

section \<open>Documents\<close>

text \<open>An element, or a comment, processing instruction or entity, of which only the following text matters.\<close>

datatype xnode =
  XElement (xn_tag: string) (xn_attributes: "(string \<times> string) list") (xn_namespaces: "(string option \<times> string) list")
    (xn_text: "string option") (xn_after: "string option") (xn_children: "xnode list")
| XAside bool "string option"

type_synonym path = "nat list"

record xhtml =
  xh_doctype :: bool
  xh_root :: xnode

record filing_runtime = ingest_runtime +
  parse_xhtml :: "string \<Rightarrow> xhtml option"
  element_path :: "xnode \<Rightarrow> path \<Rightarrow> string"
  element_xml :: "xnode \<Rightarrow> path \<Rightarrow> string"

fun walk :: "path \<Rightarrow> xnode \<Rightarrow> (path \<times> xnode) list" and walk_list :: "path \<Rightarrow> nat \<Rightarrow> xnode list \<Rightarrow> (path \<times> xnode) list" where
  "walk p (XAside e t) = [(p, XAside e t)]"
| "walk p (XElement g a n t u cs) = (p, XElement g a n t u cs) # walk_list p 0 cs"
| "walk_list p i [] = []"
| "walk_list p i (c # cs) = walk (p @ [i]) c @ walk_list p (Suc i) cs"

fun node_at :: "xnode \<Rightarrow> path \<Rightarrow> xnode option" where
  "node_at n [] = Some n"
| "node_at (XElement g a m t u cs) (i # p) = (if i < length cs then node_at (cs ! i) p else None)"
| "node_at (XAside e t) (i # p) = None"

definition is_element :: "xnode \<Rightarrow> bool" where
  "is_element n = (case n of XElement _ _ _ _ _ _ \<Rightarrow> True | XAside _ _ \<Rightarrow> False)"

definition x_tag :: "xnode \<Rightarrow> string option" where
  "x_tag n = (case n of XElement g _ _ _ _ _ \<Rightarrow> Some g | XAside _ _ \<Rightarrow> None)"

definition x_get :: "xnode \<Rightarrow> string \<Rightarrow> string option" where
  "x_get n a = (case n of XElement _ kvs _ _ _ _ \<Rightarrow> map_of kvs a | XAside _ _ \<Rightarrow> None)"

definition x_text :: "xnode \<Rightarrow> string option" where
  "x_text n = (case n of XElement _ _ _ t _ _ \<Rightarrow> t | XAside _ _ \<Rightarrow> None)"

definition x_after :: "xnode \<Rightarrow> string" where
  "x_after n = or_else (case n of XElement _ _ _ _ u _ \<Rightarrow> u | XAside _ u \<Rightarrow> u) []"

definition x_nodes :: "xnode \<Rightarrow> xnode list" where
  "x_nodes n = (case n of XElement _ _ _ _ _ cs \<Rightarrow> cs | XAside _ _ \<Rightarrow> [])"

definition x_children :: "xnode \<Rightarrow> xnode list" where
  "x_children n = filter is_element (x_nodes n)"

definition x_findall :: "xnode \<Rightarrow> string \<Rightarrow> xnode list" where
  "x_findall n g = filter (\<lambda>c. x_tag c = Some g) (x_nodes n)"

text \<open>The tags of the proper ancestors of a node, the nearest last.\<close>

definition ancestor_tags :: "xnode \<Rightarrow> path \<Rightarrow> string list" where
  "ancestor_tags doc p = List.map_filter (\<lambda>k. Option.bind (node_at doc (take k p)) x_tag) [0..<length p]"

section \<open>Names\<close>

definition clark :: "string \<Rightarrow> string \<Rightarrow> string" where
  "clark namespace local = ''{'' @ namespace @ ''}'' @ local"

abbreviation ix_ns :: string where "ix_ns \<equiv> ''http://www.xbrl.org/2013/inlineXBRL''"
abbreviation xbrli_ns :: string where "xbrli_ns \<equiv> ''http://www.xbrl.org/2003/instance''"
abbreviation xbrldi_ns :: string where "xbrldi_ns \<equiv> ''http://xbrl.org/2006/xbrldi''"
abbreviation xsi_ns :: string where "xsi_ns \<equiv> ''http://www.w3.org/2001/XMLSchema-instance''"
abbreviation xhtml_ns :: string where "xhtml_ns \<equiv> ''http://www.w3.org/1999/xhtml''"
abbreviation iso4217_ns :: string where "iso4217_ns \<equiv> ''http://www.xbrl.org/2003/iso4217''"

definition transforms :: "string list" where
  "transforms = map (\<lambda>v. ''http://www.xbrl.org/inlineXBRL/transformation/'' @ v) [''2020-02-12'', ''2022-02-16'']"

definition clark_namespace :: "string \<Rightarrow> string" where
  "clark_namespace q = (case q of [] \<Rightarrow> [] | c # cs \<Rightarrow> if c = CHR ''{'' then takeWhile (\<lambda>d. d \<noteq> CHR ''}'') cs else [])"

definition clark_local :: "string \<Rightarrow> string" where
  "clark_local q =
     (case q of [] \<Rightarrow> [] | c # cs \<Rightarrow> if c = CHR ''{'' then drop 1 (dropWhile (\<lambda>d. d \<noteq> CHR ''}'') cs) else q)"

type_synonym 'a supported = "string + 'a"

definition require :: "bool \<Rightarrow> string \<Rightarrow> 'a \<Rightarrow> 'a supported" where
  "require ok code x = (if ok then Inr x else Inl code)"

definition letter :: "char \<Rightarrow> bool" where
  "letter c = (is_upper c \<or> char_between (CHR ''a'') (CHR ''z'') c)"

definition stripped :: "(char \<Rightarrow> bool) \<Rightarrow> string \<Rightarrow> string" where
  "stripped p s = rev (dropWhile p (rev (dropWhile p s)))"

definition nc_name :: "string \<Rightarrow> bool" where
  "nc_name s =
     (case s of [] \<Rightarrow> False
      | c # cs \<Rightarrow> (letter c \<or> c = CHR ''_'') \<and> list_all (\<lambda>d. letter d \<or> is_digit d \<or> d \<in> {CHR ''_'', CHR ''.'', CHR ''-''}) cs)"

text \<open>A match of \<open>[A-Za-z][A-Za-z0-9+.-]*:\<close> at the start.\<close>

definition absolute_iri :: "string \<Rightarrow> bool" where
  "absolute_iri s =
     (case s of [] \<Rightarrow> False
      | c # cs \<Rightarrow> letter c
          \<and> (case dropWhile (\<lambda>d. letter d \<or> is_digit d \<or> d \<in> {CHR ''+'', CHR ''.'', CHR ''-''}) cs of
               [] \<Rightarrow> False | d # _ \<Rightarrow> d = CHR '':''))"

fun split_colon :: "string \<Rightarrow> string list" where
  "split_colon [] = [[]]"
| "split_colon (c # cs) =
     (if c = CHR '':'' then [] # split_colon cs
      else case split_colon cs of [] \<Rightarrow> [[c]] | p # ps \<Rightarrow> (c # p) # ps)"

definition x_namespace :: "xnode \<Rightarrow> string option \<Rightarrow> string option" where
  "x_namespace n prefix = (case n of XElement _ _ m _ _ _ \<Rightarrow> map_of m prefix | XAside _ _ \<Rightarrow> None)"

definition resolve_name :: "xnode \<Rightarrow> string option \<Rightarrow> string \<Rightarrow> string supported" where
  "resolve_name n prefix local =
     (case x_namespace n prefix of
        None \<Rightarrow> Inl ''unresolved_qname''
      | Some ns \<Rightarrow> require (ns \<noteq> [] \<and> absolute_iri ns) ''unresolved_qname'' (clark ns local))"

definition qname :: "xnode \<Rightarrow> string option \<Rightarrow> string supported" where
  "qname n lexical =
     (case lexical of
        None \<Rightarrow> Inl ''missing_qname''
      | Some s \<Rightarrow>
          let pieces = split_colon (stripped is_space s) in
          if \<not> list_all nc_name pieces then Inl ''invalid_qname''
          else case pieces of
            [local] \<Rightarrow> resolve_name n None local
          | [prefix, local] \<Rightarrow> resolve_name n (Some prefix) local
          | _ \<Rightarrow> Inl ''invalid_qname'')"

section \<open>Records\<close>

record filing_issue =
  is_code :: string
  is_locator :: string
  is_detail :: string

record filing_dimension =
  dm_axis :: string
  dm_member :: string
  dm_location :: string

record filing_context =
  cx_id :: string
  cx_scheme :: "string option"
  cx_identifier :: "string option"
  cx_cik :: "string option"
  cx_kind :: "string option"
  cx_start :: "date option"
  cx_end :: "date option"
  cx_dimensions :: "filing_dimension list"
  cx_xml :: string
  cx_locator :: string
  cx_valid :: bool

record filing_unit =
  fu_id :: string
  fu_numerator :: "string list"
  fu_denominator :: "string list"
  fu_xml :: string
  fu_locator :: string
  fu_valid :: bool

record filing_fact =
  ff_id :: "string option"
  ff_kind :: string
  ff_tag :: string
  ff_name :: "string option"
  ff_context :: "string option"
  ff_unit :: "string option"
  ff_lexical :: string
  ff_scale :: "int option"
  ff_sign :: "string option"
  ff_decimals :: "string option"
  ff_precision :: "string option"
  ff_format :: "string option"
  ff_attributes :: "(string \<times> string) list"
  ff_value :: "dec option"
  ff_status :: string
  ff_locator :: string
  ff_evidence :: "string list"
  ff_issues :: "string list"

record filing_extraction =
  fx_sha256 :: string
  fx_bytes :: nat
  fx_cik :: string
  fx_contexts :: "filing_context list"
  fx_units :: "filing_unit list"
  fx_facts :: "filing_fact list"
  fx_issues :: "filing_issue list"
  fx_complete :: bool

record filing_selection =
  sl_status :: string
  sl_value :: "dec option"
  sl_fact :: "filing_fact option"
  sl_candidates :: "string list"
  sl_reason :: string

text \<open>
  Steps that fill in a record until one of them raises: what the earlier steps filled in stays.
\<close>

fun run_steps :: "('s \<Rightarrow> 's supported) list \<Rightarrow> 's \<Rightarrow> 's \<times> string option" where
  "run_steps [] s = (s, None)"
| "run_steps (f # fs) s = (case f s of Inl code \<Rightarrow> (s, Some code) | Inr s' \<Rightarrow> run_steps fs s')"

end
