(* ===== verification/Filing_Extract.thy ===== *)
theory Filing_Extract
  imports Filing
begin

text \<open>
  Contexts, units and facts of \<open>packages/ingest/filing.py\<close>, the extraction of a document and the selection
  of one fact.
\<close>

section \<open>Resources\<close>

definition locator :: "'z filing_runtime_scheme \<Rightarrow> xnode \<Rightarrow> path \<Rightarrow> string" where
  "locator rt doc p = ''elementpath:'' @ element_path rt doc p"

definition element_only :: "string list" where
  "element_only = map (clark xbrli_ns) [''context'', ''entity'', ''period'', ''segment'', ''scenario'', ''unit'', ''divide'',
     ''unitNumerator'', ''unitDenominator'']"

definition blank_text :: "string option \<Rightarrow> bool" where
  "blank_text t = (\<not> nonblank (or_else t []))"

definition stray_text :: "xnode \<Rightarrow> bool" where
  "stray_text n =
     (x_tag n \<in> Some ` set element_only \<and> (\<not> blank_text (x_text n) \<or> list_ex (\<lambda>c. nonblank (x_after c)) (x_nodes n)))"

definition tag_above :: "xnode \<Rightarrow> path \<Rightarrow> nat \<Rightarrow> string option" where
  "tag_above doc p k = (if length p < k then None else Option.bind (node_at doc (take (length p - k) p)) x_tag)"

definition require_resource :: "xnode \<Rightarrow> path \<Rightarrow> xnode \<Rightarrow> unit supported" where
  "require_resource doc p n =
     (if list_ex (\<lambda>(q, m). stray_text m) (walk [] n) then Inl ''unrecognized_resource_text''
      else require (tag_above doc p 1 = Some (clark ix_ns ''resources'') \<and> tag_above doc p 2 = Some (clark ix_ns ''header''))
        ''invalid_resource_placement'' ())"

definition only_child :: "xnode \<Rightarrow> string \<Rightarrow> xnode supported" where
  "only_child n name = (case x_findall n (clark xbrli_ns name) of [c] \<Rightarrow> Inr c | _ \<Rightarrow> Inl ''invalid_context_structure'')"

definition context_date :: "xnode \<Rightarrow> date supported" where
  "context_date n =
     (let s = stripped is_space (or_else (x_text n) []) in
      if x_children n \<noteq> [] \<or> \<not> date_shaped s then Inl ''unsupported_period''
      else case fromisoformat s of None \<Rightarrow> Inl ''invalid_period'' | Some d \<Rightarrow> Inr d)"

definition children_among :: "xnode \<Rightarrow> string list \<Rightarrow> bool" where
  "children_among n names = list_all (\<lambda>c. x_tag c \<in> Some ` set (map (clark xbrli_ns) names)) (x_children n)"

section \<open>Contexts\<close>

definition check_identity :: "xnode \<Rightarrow> path \<Rightarrow> xnode \<Rightarrow> string list \<Rightarrow> filing_context \<Rightarrow> filing_context supported" where
  "check_identity doc p n duplicates c =
     (case require_resource doc p n of
        Inl e \<Rightarrow> Inl e
      | Inr _ \<Rightarrow>
          if cx_id c = [] then Inl ''missing_id''
          else if cx_id c \<in> set duplicates then Inl ''duplicate_id''
          else case (only_child n ''entity'', only_child n ''period'') of
            (Inr _, Inr _) \<Rightarrow> require (children_among n [''entity'', ''period'', ''scenario'']) ''invalid_context_structure'' c
          | _ \<Rightarrow> Inl ''invalid_context_structure'')"

definition read_scheme :: "xnode \<Rightarrow> filing_context \<Rightarrow> filing_context supported" where
  "read_scheme n c =
     (case only_child n ''entity'' of
        Inl e \<Rightarrow> Inl e
      | Inr entity \<Rightarrow>
          (case only_child entity ''identifier'' of
             Inl e \<Rightarrow> Inl e
           | Inr i \<Rightarrow> Inr (c\<lparr>cx_scheme := x_get i ''scheme'', cx_identifier := x_text i\<rparr>)))"

definition bad_cik :: string where
  "bad_cik = ''Expected a nonzero SEC CIK digit string of at most ten characters''"

definition read_entity :: "xnode \<Rightarrow> filing_context \<Rightarrow> filing_context supported" where
  "read_entity n c =
     (case Option.bind (case only_child n ''entity'' of Inl _ \<Rightarrow> None | Inr e \<Rightarrow> Some e)
         (\<lambda>e. case only_child e ''identifier'' of Inl _ \<Rightarrow> None | Inr i \<Rightarrow> Some i) of
        None \<Rightarrow> Inl ''invalid_context_structure''
      | Some i \<Rightarrow>
          if cx_scheme c \<noteq> Some ''http://www.sec.gov/CIK'' \<or> x_children i \<noteq> [] then Inl ''unverified_entity''
          else case cx_identifier c of
            None \<Rightarrow> Inl ''unverified_entity''
          | Some s \<Rightarrow>
              if length s \<noteq> 10 \<or> \<not> list_all is_digit s then Inl ''unverified_entity''
              else require (digits_value s \<noteq> 0) bad_cik (c\<lparr>cx_cik := Some s\<rparr>))"

definition match_entity :: "xnode \<Rightarrow> string \<Rightarrow> filing_context \<Rightarrow> filing_context supported" where
  "match_entity n cik c =
     (if cx_cik c \<noteq> Some cik then Inl ''wrong_entity''
      else case only_child n ''entity'' of
        Inl e \<Rightarrow> Inl e
      | Inr entity \<Rightarrow> require (children_among entity [''identifier'', ''segment'']) ''unknown_context_scope'' c)"

definition period_tags :: "xnode \<Rightarrow> string list" where
  "period_tags n = (case only_child n ''period'' of Inl _ \<Rightarrow> [] | Inr p \<Rightarrow> List.map_filter x_tag (x_children p))"

definition period_date :: "xnode \<Rightarrow> string \<Rightarrow> date supported" where
  "period_date n name =
     (case only_child n ''period'' of
        Inl e \<Rightarrow> Inl e
      | Inr p \<Rightarrow> (case only_child p name of Inl e \<Rightarrow> Inl e | Inr d \<Rightarrow> context_date d))"

text \<open>An instant assigns the kind and the date together; a duration assigns its kind first.\<close>

definition read_kind :: "xnode \<Rightarrow> filing_context \<Rightarrow> filing_context supported" where
  "read_kind n c =
     (if period_tags n = [clark xbrli_ns ''instant'']
      then map_sum id (\<lambda>d. c\<lparr>cx_kind := Some ''instant'', cx_end := Some d\<rparr>) (period_date n ''instant'')
      else require (period_tags n = [clark xbrli_ns ''startDate'', clark xbrli_ns ''endDate'']) ''unsupported_period''
        (c\<lparr>cx_kind := Some ''duration''\<rparr>))"

definition read_duration :: "xnode \<Rightarrow> filing_context \<Rightarrow> filing_context supported" where
  "read_duration n c =
     (if cx_kind c = Some ''instant'' then Inr c
      else case period_date n ''startDate'' of
        Inl e \<Rightarrow> Inl e
      | Inr s \<Rightarrow> map_sum id (\<lambda>d. c\<lparr>cx_start := Some s, cx_end := Some d\<rparr>) (period_date n ''endDate''))"

definition ordered_period :: "filing_context \<Rightarrow> filing_context supported" where
  "ordered_period c =
     (case (cx_start c, cx_end c) of (Some s, Some e) \<Rightarrow> require (s \<le> e) ''invalid_period'' c | _ \<Rightarrow> Inr c)"

definition add_dimension :: "string \<Rightarrow> xnode \<Rightarrow> filing_context \<Rightarrow> filing_context supported" where
  "add_dimension location d c =
     (if x_tag d \<noteq> Some (clark xbrldi_ns ''explicitMember'') \<or> x_children d \<noteq> [] then Inl ''unknown_context_scope''
      else case qname d (x_get d ''dimension'') of
        Inl e \<Rightarrow> Inl e
      | Inr axis \<Rightarrow> map_sum id (\<lambda>member. c\<lparr>cx_dimensions := cx_dimensions c @ [\<lparr>dm_axis = axis, dm_member = member, dm_location = location\<rparr>]\<rparr>)
          (qname d (x_text d)))"

definition scope_container :: "xnode \<Rightarrow> filing_context \<Rightarrow> filing_context supported" where
  "scope_container k c = require (blank_text (x_text k) \<and> x_children k \<noteq> []) ''unknown_context_scope'' c"

definition scope_steps :: "xnode \<Rightarrow> string \<Rightarrow> (filing_context \<Rightarrow> filing_context supported) list" where
  "scope_steps parent location =
     (case x_findall parent (clark xbrli_ns location) of
        [] \<Rightarrow> []
      | [k] \<Rightarrow> scope_container k # map (add_dimension location) (x_children k)
      | _ \<Rightarrow> [\<lambda>c. Inl ''unknown_context_scope''])"

definition distinct_axes :: "filing_context \<Rightarrow> filing_context supported" where
  "distinct_axes c = require (distinct (map dm_axis (cx_dimensions c))) ''duplicate_dimension'' c"

definition entity_of :: "xnode \<Rightarrow> xnode" where
  "entity_of n = (case only_child n ''entity'' of Inr e \<Rightarrow> e | Inl _ \<Rightarrow> n)"

definition context_steps :: "xnode \<Rightarrow> path \<Rightarrow> xnode \<Rightarrow> string \<Rightarrow> string list \<Rightarrow> (filing_context \<Rightarrow> filing_context supported) list" where
  "context_steps doc p n cik duplicates =
     [check_identity doc p n duplicates, read_scheme n, read_entity n, match_entity n cik, read_kind n, read_duration n,
      ordered_period] @ scope_steps (entity_of n) ''segment'' @ scope_steps n ''scenario'' @ [distinct_axes]"

definition dimension_key :: "filing_dimension \<Rightarrow> string \<times> string \<times> string" where
  "dimension_key d = (dm_axis d, dm_member d, dm_location d)"

definition blank_context :: "'z filing_runtime_scheme \<Rightarrow> xnode \<Rightarrow> path \<Rightarrow> xnode \<Rightarrow> filing_context" where
  "blank_context rt doc p n =
     \<lparr>cx_id = or_else (x_get n ''id'') [], cx_scheme = None, cx_identifier = None, cx_cik = None, cx_kind = None, cx_start = None,
      cx_end = None, cx_dimensions = [], cx_xml = element_xml rt doc p, cx_locator = locator rt doc p, cx_valid = True\<rparr>"

definition read_context ::
  "'z filing_runtime_scheme \<Rightarrow> xnode \<Rightarrow> string \<Rightarrow> string list \<Rightarrow> path \<times> xnode \<Rightarrow> filing_context \<times> filing_issue list" where
  "read_context rt doc cik duplicates pn =
     (case run_steps (context_steps doc (fst pn) (snd pn) cik duplicates) (blank_context rt doc (fst pn) (snd pn)) of
        (c, e) \<Rightarrow>
          (c\<lparr>cx_dimensions := sort_key dimension_key (cx_dimensions c), cx_valid := (e = None)\<rparr>,
           case e of None \<Rightarrow> []
           | Some code \<Rightarrow> [\<lparr>is_code = code, is_locator = locator rt doc (fst pn), is_detail = ''Context is not selectable''\<rparr>]))"

section \<open>Units\<close>

fun all_supported :: "'a supported list \<Rightarrow> 'a list supported" where
  "all_supported [] = Inr []"
| "all_supported (Inl e # rs) = Inl e"
| "all_supported (Inr x # rs) = map_sum id (Cons x) (all_supported rs)"

definition reviewed_measure :: "string \<Rightarrow> bool" where
  "reviewed_measure q =
     ((clark_namespace q = iso4217_ns \<and> iso_currency (clark_local q))
      \<or> (clark_namespace q = xbrli_ns \<and> clark_local q \<in> {''pure'', ''shares''}))"

definition measures :: "xnode \<Rightarrow> string list supported" where
  "measures parent =
     (let cs = x_children parent in
      if cs = [] \<or> list_ex (\<lambda>c. x_tag c \<noteq> Some (clark xbrli_ns ''measure'') \<or> x_children c \<noteq> []) cs then Inl ''invalid_unit''
      else case all_supported (map (\<lambda>c. qname c (x_text c)) cs) of
        Inl e \<Rightarrow> Inl e
      | Inr qs \<Rightarrow> require (list_all reviewed_measure qs) ''unsupported_unit_measure'' qs)"

text \<open>The two lists of measures are assigned together.\<close>

definition read_measures :: "xnode \<Rightarrow> filing_unit \<Rightarrow> filing_unit supported" where
  "read_measures n u =
     (case x_children n of
        [d] \<Rightarrow>
          if x_tag d = Some (clark xbrli_ns ''divide'')
          then (case x_children d of
              [a, b] \<Rightarrow>
                if x_tag a = Some (clark xbrli_ns ''unitNumerator'') \<and> x_tag b = Some (clark xbrli_ns ''unitDenominator'')
                then (case (measures a, measures b) of
                    (Inl e, _) \<Rightarrow> Inl e
                  | (Inr x, Inl e) \<Rightarrow> Inl e
                  | (Inr x, Inr y) \<Rightarrow> Inr (u\<lparr>fu_numerator := x, fu_denominator := y\<rparr>))
                else Inl ''invalid_unit''
            | _ \<Rightarrow> Inl ''invalid_unit'')
          else map_sum id (\<lambda>x. u\<lparr>fu_numerator := x\<rparr>) (measures n)
      | _ \<Rightarrow> map_sum id (\<lambda>x. u\<lparr>fu_numerator := x\<rparr>) (measures n))"

definition unit_identity :: "xnode \<Rightarrow> path \<Rightarrow> xnode \<Rightarrow> string list \<Rightarrow> filing_unit \<Rightarrow> filing_unit supported" where
  "unit_identity doc p n duplicates u =
     (case require_resource doc p n of
        Inl e \<Rightarrow> Inl e
      | Inr _ \<Rightarrow>
          if fu_id u = [] then Inl ''missing_id'' else require (fu_id u \<notin> set duplicates) ''duplicate_id'' u)"

definition read_unit ::
  "'z filing_runtime_scheme \<Rightarrow> xnode \<Rightarrow> string list \<Rightarrow> path \<times> xnode \<Rightarrow> filing_unit \<times> filing_issue list" where
  "read_unit rt doc duplicates pn =
     (case run_steps [unit_identity doc (fst pn) (snd pn) duplicates, read_measures (snd pn)]
         \<lparr>fu_id = or_else (x_get (snd pn) ''id'') [], fu_numerator = [], fu_denominator = [], fu_xml = element_xml rt doc (fst pn),
          fu_locator = locator rt doc (fst pn), fu_valid = True\<rparr> of
        (u, e) \<Rightarrow>
          (u\<lparr>fu_valid := (e = None)\<rparr>,
           case e of None \<Rightarrow> []
           | Some code \<Rightarrow> [\<lparr>is_code = code, is_locator = locator rt doc (fst pn), is_detail = ''Unit is not selectable''\<rparr>]))"

end
