(* ===== verification/Filing_Facts.thy ===== *)
theory Filing_Facts
  imports Filing_Extract
begin

text \<open>
  Facts of \<open>packages/ingest/filing.py\<close>: texts with their continuations, exact numbers, the extraction of
  a whole document and the selection of one fact.
\<close>

section \<open>Texts\<close>

text \<open>The text of an element without the excluded parts, and all of its text.\<close>

fun shown_text :: "xnode \<Rightarrow> string" and shown_texts :: "xnode list \<Rightarrow> string" where
  "shown_text (XAside e t) = []"
| "shown_text (XElement g a m t u cs) = or_else t [] @ shown_texts cs"
| "shown_texts [] = []"
| "shown_texts (c # cs) =
     (if x_tag c = Some (clark ix_ns ''exclude'') then [] else shown_text c) @ x_after c @ shown_texts cs"

fun full_text :: "xnode \<Rightarrow> string" and full_texts :: "xnode list \<Rightarrow> string" where
  "full_text (XAside e t) = []"
| "full_text (XElement g a m t u cs) = or_else t [] @ full_texts cs"
| "full_texts [] = []"
| "full_texts (c # cs) = full_text c @ x_after c @ full_texts cs"

type_synonym id_table = "(string \<times> path \<times> xnode) list"

definition strictly_inside :: "path \<Rightarrow> path \<Rightarrow> bool" where
  "strictly_inside p q = (length q < length p \<and> take (length q) p = q)"

text \<open>
  The chain of continuations.  Each step visits a reference that was not visited before, so that at most as
  many steps follow as there are identifiers.
\<close>

definition open_references :: "id_table \<Rightarrow> string list \<Rightarrow> nat" where
  "open_references ids visited = card (set (map fst ids) - set visited)"

lemma open_references_less:
  "map_of ids r \<noteq> None \<Longrightarrow> r \<notin> set visited \<Longrightarrow> open_references ids (r # visited) < open_references ids visited"
proof -
  assume "map_of ids r \<noteq> None" "r \<notin> set visited"
  then have "set (map fst ids) - set (r # visited) \<subset> set (map fst ids) - set visited"
    by (auto simp: map_of_eq_None_iff)
  then show ?thesis
    unfolding open_references_def by (intro psubset_card_mono) simp_all
qed

function continued_text ::
  "id_table \<Rightarrow> string list \<Rightarrow> string list \<Rightarrow> path list \<Rightarrow> path \<times> xnode \<Rightarrow> (string \<times> path list) supported" where
  "continued_text ids refused visited nodes (p, n) =
     (case x_get n ''continuedAt'' of
        None \<Rightarrow> Inr (shown_text n, [p])
      | Some r \<Rightarrow>
          if r \<in> set visited \<or> r \<in> set refused then Inl ''invalid_continuation''
          else (case map_of ids r of
              None \<Rightarrow> Inl ''invalid_continuation''
            | Some (q, m) \<Rightarrow>
                if x_tag m \<noteq> Some (clark ix_ns ''continuation'')
                  \<or> list_ex (\<lambda>v. strictly_inside v q \<or> strictly_inside q v) nodes then Inl ''invalid_continuation''
                else map_sum id (\<lambda>(s, ps). (shown_text n @ s, p # ps)) (continued_text ids refused (r # visited) (nodes @ [q]) (q, m))))"
  by pat_completeness auto
termination
  by (relation "measure (\<lambda>(ids, refused, visited, nodes, pn). open_references ids visited)") (auto intro: open_references_less)

declare continued_text.simps [simp del]

section \<open>Numbers\<close>

definition max_numeric_chars :: nat where
  "max_numeric_chars = 4096"

definition max_scale :: int where
  "max_scale = 10000"

definition xml_space :: "char \<Rightarrow> bool" where
  "xml_space c = (c \<in> {CHR '' '', char_of (9 :: nat), char_of (13 :: nat), char_of (10 :: nat)})"

definition nbsp :: char where
  "nbsp = char_of (160 :: nat)"

text \<open>A number with grouping commas and spaces, as \<open>num-dot-decimal\<close> allows it.\<close>

definition grouped_number :: "string \<Rightarrow> bool" where
  "grouped_number s =
     (let group = (\<lambda>c. c = CHR '' '' \<or> c = nbsp \<or> is_digit c); rest = dropWhile (\<lambda>c. c = CHR '','' \<or> group c) s in
      case rest of [] \<Rightarrow> True | c # cs \<Rightarrow> c = CHR ''.'' \<and> cs \<noteq> [] \<and> list_all group cs)"

definition plain_number :: "string \<Rightarrow> bool" where
  "plain_number s =
     (let u = (case s of [] \<Rightarrow> [] | c # cs \<Rightarrow> if c = CHR ''+'' then cs else s);
          whole = takeWhile is_digit u; rest = dropWhile is_digit u in
      case rest of
        [] \<Rightarrow> whole \<noteq> []
      | c # cs \<Rightarrow> c = CHR ''.'' \<and> list_all is_digit cs \<and> (whole \<noteq> [] \<or> cs \<noteq> []))"

definition unsigned_part :: "string \<Rightarrow> string" where
  "unsigned_part s = (case s of [] \<Rightarrow> [] | c # cs \<Rightarrow> if c = CHR ''+'' then cs else s)"

text \<open>The digits that the format leaves of the text of a fact.\<close>

definition transformed :: "string option \<Rightarrow> string \<Rightarrow> string supported" where
  "transformed format text =
     (case format of
        None \<Rightarrow> Inr text
      | Some q \<Rightarrow>
          if clark_namespace q \<notin> set transforms \<or> clark_local q \<notin> {''num-dot-decimal'', ''fixed-zero''}
          then Inl ''unsupported_transform''
          else if clark_local q = ''fixed-zero'' then Inr ''0''
          else let s = map (\<lambda>c. if xml_space c then CHR '' '' else c) text in
            require (grouped_number s) ''invalid_numeric'' (filter (\<lambda>c. c \<notin> {CHR '','', CHR '' '', nbsp}) s))"

definition filing_number :: "string \<Rightarrow> string option \<Rightarrow> int \<Rightarrow> string option \<Rightarrow> dec supported" where
  "filing_number lexical format scale mark =
     (if max_numeric_chars < length lexical then Inl ''numeric_limit''
      else case transformed format (stripped xml_space lexical) of
        Inl e \<Rightarrow> Inl e
      | Inr s \<Rightarrow>
          let v = numeral_value (unsigned_part s) in
          require (plain_number s) ''invalid_numeric'' (Dec (mark = Some ''-'') (dcoeff v) (dexp v + scale)))"

section \<open>Facts\<close>

record fact_scope =
  sc_root :: xnode
  sc_contexts :: "filing_context list"
  sc_units :: "filing_unit list"
  sc_ids :: id_table
  sc_duplicates :: "string list"
  sc_shared :: "string list"

definition last_with :: "('r \<Rightarrow> string) \<Rightarrow> 'r list \<Rightarrow> string \<Rightarrow> 'r option" where
  "last_with key rows k = find (\<lambda>r. key r = k) (rev rows)"

definition is_nil :: "xnode \<Rightarrow> bool" where
  "is_nil n = (x_get n (clark xsi_ns ''nil'') \<in> {Some ''true'', Some ''1''})"

definition name_fact :: "xnode \<Rightarrow> filing_fact \<Rightarrow> filing_fact supported" where
  "name_fact n f = map_sum id (\<lambda>q. f\<lparr>ff_tag := q\<rparr>) (qname n (x_get n ''name''))"

definition nonempty_text :: "string option \<Rightarrow> bool" where
  "nonempty_text t = (t \<noteq> None \<and> t \<noteq> Some [])"

definition place_fact :: "fact_scope \<Rightarrow> path \<Rightarrow> xnode \<Rightarrow> filing_fact \<Rightarrow> filing_fact supported" where
  "place_fact sc p n f =
     (if x_get n ''id'' \<in> Some ` set (sc_duplicates sc) then Inl ''duplicate_id''
      else require (\<not> nonempty_text (x_get n ''target'') \<and> \<not> nonempty_text (x_get n ''tupleRef'')
          \<and> clark ix_ns ''tuple'' \<notin> set (ancestor_tags (sc_root sc) p)) ''unsupported_target_or_tuple'' f)"

definition format_fact :: "xnode \<Rightarrow> filing_fact \<Rightarrow> filing_fact supported" where
  "format_fact n f =
     (case x_get n ''format'' of None \<Rightarrow> Inr f | Some s \<Rightarrow> map_sum id (\<lambda>q. f\<lparr>ff_format := Some q\<rparr>) (qname n (Some s)))"

definition context_fact :: "fact_scope \<Rightarrow> xnode \<Rightarrow> filing_fact \<Rightarrow> filing_fact supported" where
  "context_fact sc n f =
     (case Option.bind (ff_context f) (last_with cx_id (sc_contexts sc)) of
        None \<Rightarrow> Inl ''invalid_context''
      | Some c \<Rightarrow>
          if \<not> cx_valid c then Inl ''invalid_context''
          else require (x_get n (clark xsi_ns ''nil'') \<in> {None, Some ''true'', Some ''false'', Some ''1'', Some ''0''}) ''invalid_nil'' f)"

definition text_fact :: "'z filing_runtime_scheme \<Rightarrow> fact_scope \<Rightarrow> path \<Rightarrow> xnode \<Rightarrow> filing_fact \<Rightarrow> filing_fact supported" where
  "text_fact rt sc p n f =
     map_sum id (\<lambda>(s, ps). f\<lparr>ff_lexical := s, ff_evidence := map (locator rt (sc_root sc)) ps\<rparr>)
       (continued_text (sc_ids sc) (sc_duplicates sc @ sc_shared sc) [] [p] (p, n))"

definition close_text :: "xnode \<Rightarrow> filing_fact \<Rightarrow> filing_fact supported" where
  "close_text n f =
     (if is_nil n \<and> (nonblank (ff_lexical f) \<or> x_children n \<noteq> [] \<or> nonempty_text (x_get n ''continuedAt'')) then Inl ''invalid_nil''
      else require (\<not> nonempty_text (ff_format f) \<and> x_get n ''escape'' \<in> {None, Some ''false'', Some ''0''}) ''unsupported_text_transform''
        (f\<lparr>ff_status := (if is_nil n then ''source_nil'' else ''text'')\<rparr>))"

definition number_structure :: "fact_scope \<Rightarrow> path \<Rightarrow> xnode \<Rightarrow> filing_fact \<Rightarrow> filing_fact supported" where
  "number_structure sc p n f =
     (case Option.bind (ff_unit f) (last_with fu_id (sc_units sc)) of
        None \<Rightarrow> Inl ''invalid_unit''
      | Some u \<Rightarrow>
          if \<not> fu_valid u then Inl ''invalid_unit''
          else if x_get n ''continuedAt'' \<noteq> None \<or> x_children n \<noteq> []
            \<or> clark ix_ns ''nonFraction'' \<in> set (ancestor_tags (sc_root sc) p) then Inl ''unsupported_numeric_structure''
          else require (ff_sign f \<in> {None, Some ''-''}) ''invalid_sign'' f)"

definition scale_text :: "string \<Rightarrow> bool" where
  "scale_text s =
     (let u = (case s of [] \<Rightarrow> [] | c # cs \<Rightarrow> if c \<in> {CHR ''+'', CHR ''-''} then cs else s) in
      u \<noteq> [] \<and> length u \<le> 6 \<and> list_all is_digit u)"

definition scale_fact :: "xnode \<Rightarrow> filing_fact \<Rightarrow> filing_fact supported" where
  "scale_fact n f =
     (let s = or_else (x_get n ''scale'') ''0'' in
      require (scale_text s \<and> \<bar>signed_digits s\<bar> \<le> max_scale) ''invalid_scale'' (f\<lparr>ff_scale := Some (signed_digits s)\<rparr>))"

definition decimals_text :: "string \<Rightarrow> bool" where
  "decimals_text s =
     (s = ''INF'' \<or> plain_digits (case s of [] \<Rightarrow> [] | c # cs \<Rightarrow> if c \<in> {CHR ''+'', CHR ''-''} then cs else s))"

definition precision_text :: "string \<Rightarrow> bool" where
  "precision_text s = (s = ''INF'' \<or> (plain_digits s \<and> hd s \<noteq> CHR ''0''))"

definition accuracy_stated :: "filing_fact \<Rightarrow> bool" where
  "accuracy_stated f =
     ((ff_decimals f = None) \<noteq> (ff_precision f = None)
      \<and> (case ff_decimals f of None \<Rightarrow> True | Some s \<Rightarrow> decimals_text s)
      \<and> (case ff_precision f of None \<Rightarrow> True | Some s \<Rightarrow> precision_text s))"

definition value_fact :: "xnode \<Rightarrow> filing_fact \<Rightarrow> filing_fact supported" where
  "value_fact n f =
     (if is_nil n
      then require (\<not> nonblank (ff_lexical f) \<and> ff_decimals f = None \<and> ff_precision f = None) ''invalid_nil'' (f\<lparr>ff_status := ''source_nil''\<rparr>)
      else if \<not> accuracy_stated f then Inl ''invalid_accuracy''
      else map_sum id (\<lambda>v. f\<lparr>ff_value := Some v, ff_status := ''observed''\<rparr>)
        (filing_number (ff_lexical f) (ff_format f) (or_else (ff_scale f) 0) (ff_sign f)))"

definition kind_steps :: "'z filing_runtime_scheme \<Rightarrow> fact_scope \<Rightarrow> path \<Rightarrow> xnode \<Rightarrow> string \<Rightarrow> (filing_fact \<Rightarrow> filing_fact supported) list" where
  "kind_steps rt sc p n kind =
     (if kind = ''nonNumeric'' then [text_fact rt sc p n, close_text n]
      else if kind = ''nonFraction'' then [number_structure sc p n, scale_fact n, value_fact n]
      else [\<lambda>f. Inl ''unsupported_fraction''])"

definition blank_fact :: "'z filing_runtime_scheme \<Rightarrow> fact_scope \<Rightarrow> path \<Rightarrow> xnode \<Rightarrow> filing_fact" where
  "blank_fact rt sc p n =
     \<lparr>ff_id = x_get n ''id'', ff_kind = clark_local (or_else (x_tag n) []), ff_tag = [], ff_name = x_get n ''name'',
      ff_context = x_get n ''contextRef'', ff_unit = x_get n ''unitRef'', ff_lexical = full_text n, ff_scale = None,
      ff_sign = x_get n ''sign'', ff_decimals = x_get n ''decimals'', ff_precision = x_get n ''precision'', ff_format = None,
      ff_attributes = sort (xn_attributes n), ff_value = None, ff_status = ''unsupported'',
      ff_locator = locator rt (sc_root sc) p, ff_evidence = [locator rt (sc_root sc) p], ff_issues = []\<rparr>"

definition fact_steps :: "'z filing_runtime_scheme \<Rightarrow> fact_scope \<Rightarrow> path \<Rightarrow> xnode \<Rightarrow> (filing_fact \<Rightarrow> filing_fact supported) list" where
  "fact_steps rt sc p n =
     [name_fact n, place_fact sc p n, format_fact n, context_fact sc n] @ kind_steps rt sc p n (clark_local (or_else (x_tag n) []))"

definition read_fact :: "'z filing_runtime_scheme \<Rightarrow> fact_scope \<Rightarrow> path \<times> xnode \<Rightarrow> filing_fact \<times> filing_issue list" where
  "read_fact rt sc pn =
     (case run_steps (fact_steps rt sc (fst pn) (snd pn)) (blank_fact rt sc (fst pn) (snd pn)) of
        (f, None) \<Rightarrow> (f, [])
      | (f, Some code) \<Rightarrow>
          (f\<lparr>ff_issues := [code]\<rparr>,
           [\<lparr>is_code = code, is_locator = ff_locator f, is_detail = ''Fact retained without a selectable amount''\<rparr>]))"

section \<open>The document\<close>

definition max_body_bytes :: nat where
  "max_body_bytes = 64 * 1024 * 1024"

definition failed_extraction :: "string \<Rightarrow> nat \<Rightarrow> string \<Rightarrow> string \<Rightarrow> string \<Rightarrow> filing_extraction" where
  "failed_extraction digest n cik code detail =
     \<lparr>fx_sha256 = digest, fx_bytes = n, fx_cik = cik, fx_contexts = [], fx_units = [], fx_facts = [],
      fx_issues = [\<lparr>is_code = code, is_locator = ''document'', is_detail = detail\<rparr>], fx_complete = False\<rparr>"

definition has_entity :: "xnode \<Rightarrow> bool" where
  "has_entity doc = list_ex (\<lambda>pn. case snd pn of XAside e _ \<Rightarrow> e | _ \<Rightarrow> False) (walk [] doc)"

definition elements_of :: "xnode \<Rightarrow> (path \<times> xnode) list" where
  "elements_of doc = filter (\<lambda>pn. is_element (snd pn)) (walk [] doc)"

definition repeated :: "string list \<Rightarrow> string list" where
  "repeated xs = filter (\<lambda>x. x \<noteq> [] \<and> 1 < length (filter (\<lambda>y. y = x) xs)) (remdups xs)"

definition with_tag :: "string list \<Rightarrow> (path \<times> xnode) list \<Rightarrow> (path \<times> xnode) list" where
  "with_tag tags nodes = filter (\<lambda>pn. x_tag (snd pn) \<in> Some ` set tags) nodes"

definition id_table_of :: "string list \<Rightarrow> (path \<times> xnode) list \<Rightarrow> id_table" where
  "id_table_of duplicates nodes =
     rev (map (\<lambda>pn. (or_else (x_get (snd pn) ''id'') [], pn)) (filter (\<lambda>pn. x_get (snd pn) ''id'' \<notin> Some ` set duplicates) nodes))"

definition extract_document :: "'z filing_runtime_scheme \<Rightarrow> string \<Rightarrow> nat \<Rightarrow> string \<Rightarrow> xnode \<Rightarrow> filing_extraction" where
  "extract_document rt digest n cik doc =
     (let nodes = elements_of doc; facts = with_tag (map (clark ix_ns) [''nonFraction'', ''nonNumeric'', ''fraction'']) nodes in
      if facts = [] then failed_extraction digest n cik ''no_inline_facts'' ''No supported Inline XBRL 1.1 fact elements''
      else
        let duplicates = repeated (List.map_filter (\<lambda>pn. x_get (snd pn) ''id'') nodes);
            contexts = map (read_context rt doc cik duplicates) (with_tag [clark xbrli_ns ''context''] nodes);
            units = map (read_unit rt doc duplicates) (with_tag [clark xbrli_ns ''unit''] nodes);
            sc = \<lparr>sc_root = doc, sc_contexts = map fst contexts, sc_units = map fst units, sc_ids = id_table_of duplicates nodes,
              sc_duplicates = duplicates, sc_shared = repeated (List.map_filter (\<lambda>pn. x_get (snd pn) ''continuedAt'') nodes)\<rparr>;
            read = map (read_fact rt sc) facts;
            issues = concat (map snd contexts) @ concat (map snd units) @ concat (map snd read) in
        \<lparr>fx_sha256 = digest, fx_bytes = n, fx_cik = cik, fx_contexts = map fst contexts, fx_units = map fst units,
         fx_facts = map fst read, fx_issues = issues, fx_complete = (issues = [])\<rparr>)"

definition filing_cik :: "string \<Rightarrow> string result" where
  "filing_cik s =
     guard_value (1 \<le> length s \<and> length s \<le> 10 \<and> list_all is_digit s \<and> digits_value s \<noteq> 0) (replicate (10 - length s) (CHR ''0'') @ s)"

definition extract_inline_filing ::
  "'z filing_runtime_scheme \<Rightarrow> string \<Rightarrow> string \<Rightarrow> nat \<Rightarrow> string \<Rightarrow> filing_extraction result" where
  "extract_inline_filing rt body expected_sha256 expected_bytes expected_cik =
     (case filing_cik expected_cik of
        Inl e \<Rightarrow> Inl e
      | Inr cik \<Rightarrow>
          let digest = sha256_hex rt body; n = length body; failed = failed_extraction digest n cik in
          if digest \<noteq> expected_sha256 \<or> n \<noteq> expected_bytes then Inl ValueError
          else if max_body_bytes < n then Inr (failed ''document_limit'' ''Filing exceeds the bounded XML reader limit'')
          else case parse_xhtml rt body of
            None \<Rightarrow> Inr (failed ''malformed_xml'' ''Source is not well-formed supported XHTML; no HTML recovery'')
          | Some doc \<Rightarrow>
              if xh_doctype doc \<or> has_entity (xh_root doc)
              then Inr (failed ''unsafe_xml'' ''DTD and entity-bearing documents are unsupported'')
              else if x_tag (xh_root doc) \<noteq> Some (clark xhtml_ns ''html'')
              then Inr (failed ''unsupported_document'' ''Expected a namespace-qualified XHTML document'')
              else Inr (extract_document rt digest n cik (xh_root doc)))"

section \<open>Selection\<close>

definition same_fact :: "filing_fact \<Rightarrow> filing_fact \<Rightarrow> bool" where
  "same_fact f g =
     (ff_status f = ff_status g \<and> rel_option dec_eq (ff_value f) (ff_value g) \<and> ff_decimals f = ff_decimals g
      \<and> ff_precision f = ff_precision g \<and> ff_scale f = ff_scale g \<and> ff_sign f = ff_sign g \<and> ff_format f = ff_format g)"

definition fact_candidates :: "filing_extraction \<Rightarrow> string \<Rightarrow> string \<Rightarrow> string \<Rightarrow> filing_fact list" where
  "fact_candidates ex tag context unit =
     filter (\<lambda>f. ff_tag f = tag \<and> ff_context f = Some context \<and> ff_unit f = Some unit \<and> ff_kind f \<in> {''nonFraction'', ''fraction''})
       (fx_facts ex)"

definition scope_reviewed :: "filing_extraction \<Rightarrow> string \<Rightarrow> filing_dimension list \<Rightarrow> bool" where
  "scope_reviewed ex context dims =
     (case filter (\<lambda>c. cx_id c = context) (fx_contexts ex) of
        [c] \<Rightarrow> cx_valid c \<and> cx_dimensions c = sort_key dimension_key dims
      | _ \<Rightarrow> False)"

definition select_filing_fact ::
  "filing_extraction \<Rightarrow> string \<Rightarrow> string \<Rightarrow> string \<Rightarrow> filing_dimension list \<Rightarrow> filing_selection result" where
  "select_filing_fact ex tag context unit dims =
     (if \<not> starts_with ''{'' tag \<or> CHR ''}'' \<notin> set tag then Inl ValueError
      else
        let cs = fact_candidates ex tag context unit;
            out = (\<lambda>s reason. \<lparr>sl_status = s, sl_value = None, sl_fact = None, sl_candidates = map ff_locator cs, sl_reason = reason\<rparr>) in
        Inr (case cs of
            [] \<Rightarrow> out ''missing'' ''No exact source fact''
          | f # _ \<Rightarrow>
              if \<not> scope_reviewed ex context dims then out ''unsupported'' ''Context or scope not reviewed''
              else if \<not> list_all (\<lambda>g. ff_status g \<in> {''observed'', ''source_nil''}) cs then out ''unsupported'' ''Matching evidence is unsupported''
              else if \<not> list_all (same_fact f) cs then out ''ambiguous'' ''Conflicting repeated source facts''
              else \<lparr>sl_status = (if ff_status f = ''source_nil'' then ''source_nil'' else ''observed''), sl_value = ff_value f,
                sl_fact = Some f, sl_candidates = map ff_locator cs,
                sl_reason = ''Exact reviewed evidence; all matching repetitions retained''\<rparr>))"

end
