(* ===== verification/Filing_Properties.thy ===== *)
theory Filing_Properties
  imports Filing_Facts Decimal_Laws "HOL-Library.Code_Target_Numeral"
begin

text \<open>
  What the reader of Inline XBRL filings promises: numbers are exact, an observed selection rests on reviewed
  evidence of the right issuer, and nothing that is refused is refused silently.
\<close>

section \<open>Exact numbers\<close>

text \<open>The digits of a text and those behind its first point.\<close>

definition spelled_digits :: "string \<Rightarrow> nat" where
  "spelled_digits s = digits_value (filter is_digit s)"

definition spelled_places :: "string \<Rightarrow> nat" where
  "spelled_places s = length (filter is_digit (dropWhile (\<lambda>c. c \<noteq> CHR ''.'') s))"

definition silent :: "char \<Rightarrow> bool" where
  "silent c = (\<not> is_digit c \<and> c \<noteq> CHR ''.'')"

lemma drop_silent_prefix:
  "list_all silent a \<Longrightarrow> filter is_digit (a @ s) = filter is_digit s"
  "list_all silent a \<Longrightarrow> dropWhile (\<lambda>c. c \<noteq> CHR ''.'') (a @ s) = dropWhile (\<lambda>c. c \<noteq> CHR ''.'') s"
  by (induction a) (auto simp: silent_def)

lemma filter_silent: "list_all silent b \<Longrightarrow> filter is_digit b = []"
  by (induction b) (auto simp: silent_def)

lemma drop_silent_suffix:
  assumes "list_all silent b"
  shows "filter is_digit (s @ b) = filter is_digit s"
    "filter is_digit (dropWhile (\<lambda>c. c \<noteq> CHR ''.'') (s @ b)) = filter is_digit (dropWhile (\<lambda>c. c \<noteq> CHR ''.'') s)"
proof -
  have f: "filter is_digit (s @ b) = filter is_digit s" for s
    using assms by (simp add: filter_silent)
  have d: "dropWhile (\<lambda>c. c \<noteq> CHR ''.'') b = []"
    using assms by (induction b) (auto simp: silent_def)
  show "filter is_digit (s @ b) = filter is_digit s" by (rule f)
  show "filter is_digit (dropWhile (\<lambda>c. c \<noteq> CHR ''.'') (s @ b)) = filter is_digit (dropWhile (\<lambda>c. c \<noteq> CHR ''.'') s)"
  proof (induction s)
    case Nil
    show ?case by (simp only: append_Nil d dropWhile.simps)
  next
    case (Cons c s)
    then show ?case using f[of "c # s"] by (cases "c = CHR ''.''") simp_all
  qed
qed

lemma stripped_split: "\<exists>a b. s = a @ stripped p s @ b \<and> list_all p a \<and> list_all p b"
proof -
  define t where "t = dropWhile p s"
  have 1: "takeWhile p s @ t = s" by (simp add: t_def)
  have 2: "rev (dropWhile p (rev t)) @ rev (takeWhile p (rev t)) = t"
    using arg_cong[OF takeWhile_dropWhile_id[of p "rev t"], of rev] by (simp del: takeWhile_dropWhile_id)
  have 3: "stripped p s = rev (dropWhile p (rev t))" by (simp only: stripped_def t_def)
  have "s = takeWhile p s @ stripped p s @ rev (takeWhile p (rev t))"
    unfolding 3 2 1 ..
  moreover have "list_all p (takeWhile p s)" "list_all p (rev (takeWhile p (rev t)))"
    by (auto simp: list_all_iff dest: set_takeWhileD)
  ultimately show ?thesis by (intro exI conjI)
qed

lemma spaces_silent: "list_all silent [CHR '' '', char_of (9 :: nat), char_of (13 :: nat), char_of (10 :: nat), CHR '','', nbsp]"
  by code_simp

lemma xml_space_silent: "xml_space c \<Longrightarrow> silent c"
  using spaces_silent by (auto simp: xml_space_def)

lemma spelled_stripped:
  "spelled_digits (stripped xml_space s) = spelled_digits s" "spelled_places (stripped xml_space s) = spelled_places s"
proof -
  obtain a b where s: "s = a @ stripped xml_space s @ b" "list_all xml_space a" "list_all xml_space b"
    using stripped_split by blast
  then have ab: "list_all silent a" "list_all silent b"
    by (auto simp: list_all_iff intro: xml_space_silent)
  show "spelled_digits (stripped xml_space s) = spelled_digits s"
    unfolding spelled_digits_def by (subst (2) s(1)) (simp add: drop_silent_prefix[OF ab(1)] drop_silent_suffix[OF ab(2)] del: filter_append)
  show "spelled_places (stripped xml_space s) = spelled_places s"
    unfolding spelled_places_def by (subst (2) s(1)) (simp add: drop_silent_prefix[OF ab(1)] drop_silent_suffix[OF ab(2)] del: filter_append)
qed

lemma grouping_silent: "c \<in> {CHR '','', CHR '' '', nbsp} \<Longrightarrow> silent c"
  using spaces_silent by auto

lemma spelled_filtered:
  assumes "\<And>c. c \<in> X \<Longrightarrow> silent c"
  shows "filter is_digit (filter (\<lambda>c. c \<notin> X) s) = filter is_digit s"
    "filter is_digit (dropWhile (\<lambda>c. c \<noteq> CHR ''.'') (filter (\<lambda>c. c \<notin> X) s)) = filter is_digit (dropWhile (\<lambda>c. c \<noteq> CHR ''.'') s)"
proof -
  show f: "filter is_digit (filter (\<lambda>c. c \<notin> X) s) = filter is_digit s" for s
    using assms by (induction s) (auto simp: silent_def)
  show "filter is_digit (dropWhile (\<lambda>c. c \<noteq> CHR ''.'') (filter (\<lambda>c. c \<notin> X) s)) = filter is_digit (dropWhile (\<lambda>c. c \<noteq> CHR ''.'') s)"
    using assms f by (induction s) (auto simp: silent_def)
qed

lemma spelled_spaced:
  "filter is_digit (map (\<lambda>c. if xml_space c then CHR '' '' else c) s) = filter is_digit s"
  "filter is_digit (dropWhile (\<lambda>c. c \<noteq> CHR ''.'') (map (\<lambda>c. if xml_space c then CHR '' '' else c) s))
     = filter is_digit (dropWhile (\<lambda>c. c \<noteq> CHR ''.'') s)"
proof -
  have sp: "silent (CHR '' '')" by (simp add: grouping_silent)
  show f: "filter is_digit (map (\<lambda>c. if xml_space c then CHR '' '' else c) s) = filter is_digit s" for s
    using sp by (induction s) (auto simp: silent_def dest: xml_space_silent)
  show "filter is_digit (dropWhile (\<lambda>c. c \<noteq> CHR ''.'') (map (\<lambda>c. if xml_space c then CHR '' '' else c) s))
     = filter is_digit (dropWhile (\<lambda>c. c \<noteq> CHR ''.'') s)"
    using sp f by (induction s) (auto simp: silent_def dest: xml_space_silent)
qed

definition zero_format :: "string option \<Rightarrow> bool" where
  "zero_format format = (case format of None \<Rightarrow> False | Some q \<Rightarrow> clark_local q = ''fixed-zero'')"

lemma transformed_spelled:
  assumes "transformed format text = Inr s"
  shows "if zero_format format then s = ''0'' else spelled_digits s = spelled_digits text \<and> spelled_places s = spelled_places text"
  using assms
  by (auto simp: transformed_def zero_format_def require_def Let_def spelled_digits_def spelled_places_def
      spelled_filtered[OF grouping_silent] spelled_spaced split: option.splits if_splits simp del: filter_filter insert_iff)

lemma plain_number_value:
  assumes "plain_number s"
  shows "numeral_value (unsigned_part s) = Dec False (spelled_digits s) (- int (spelled_places s))"
proof -
  define u where "u = unsigned_part s"
  have s: "s = u \<or> s = CHR ''+'' # u"
    by (auto simp: u_def unsigned_part_def split: list.splits)
  have plus: "list_all silent ''+''" by (simp add: silent_def is_digit_def char_between_def)
  have e: "spelled_digits s = spelled_digits u" "spelled_places s = spelled_places u"
    using s drop_silent_prefix[OF plus, of u] by (auto simp: spelled_digits_def spelled_places_def)
  define w r where "w = takeWhile is_digit u" and "r = dropWhile is_digit u"
  then have u: "u = w @ r" and w: "list_all is_digit w"
    by (auto simp: list_all_iff dest: set_takeWhileD)
  have dot: "\<not> is_digit (CHR ''.'')" by (simp add: is_digit_def char_between_def)
  have r: "r = [] \<or> (\<exists>cs. r = CHR ''.'' # cs \<and> list_all is_digit cs)"
    using assms unfolding plain_number_def Let_def unsigned_part_def[symmetric] u_def[symmetric] w_def[symmetric] r_def[symmetric]
    by (auto split: list.splits)
  have ne: "u \<noteq> []"
    using assms unfolding plain_number_def Let_def unsigned_part_def[symmetric] u_def[symmetric]
    by (cases u) auto
  obtain cs where cs: "list_all is_digit cs" "r = [] \<and> cs = [] \<or> r = CHR ''.'' # cs"
    using r by auto
  have digit: "c \<noteq> CHR ''-'' \<and> c \<noteq> CHR ''e'' \<and> c \<noteq> CHR ''E'' \<and> c \<noteq> CHR ''.''" if "is_digit c" for c
    using that by (auto simp: is_digit_def char_between_def)
  have nowhere: "dropWhile (\<lambda>c. c \<noteq> CHR ''.'') (w @ r) = dropWhile (\<lambda>c. c \<noteq> CHR ''.'') r"
    using w digit by (intro dropWhile_append2) (auto simp: list_all_iff)
  have fd: "filter is_digit w = w" "filter is_digit cs = cs"
    using w cs(1) by (auto simp: list_all_iff intro: filter_True)
  have places: "spelled_places u = length cs"
    using cs(2) fd(2) dot unfolding spelled_places_def u nowhere by auto
  have digits: "spelled_digits u = digits_value (w @ cs)"
    using cs(2) fd dot unfolding spelled_digits_def u by auto
  have frac: "fraction_of r = cs"
    using cs by (auto simp: fraction_of_def list_all_iff intro: takeWhile_eq_all_conv[THEN iffD2])
  have "dropWhile (\<lambda>c. c \<noteq> CHR ''e'' \<and> c \<noteq> CHR ''E'') r = []"
    using cs(2)
  proof
    assume "r = CHR ''.'' # cs"
    moreover have "\<forall>c\<in>set cs. c \<noteq> CHR ''e'' \<and> c \<noteq> CHR ''E''"
      using cs(1) digit unfolding list_all_iff by blast
    ultimately show ?thesis by (simp add: dropWhile_eq_Nil_conv)
  qed simp
  then have ex: "exponent_of r = 0" unfolding exponent_of_def by (simp only: list.case)
  have neg: "hd u \<noteq> CHR ''-''"
    using u ne cs(2) w digit by (cases w) auto
  have "numeral_value u = Dec False (digits_value (w @ cs)) (- int (length cs))"
    using ne neg ex frac by (simp add: numeral_value_def flip: w_def r_def)
  then show ?thesis
    using places digits e unfolding u_def[symmetric] by simp
qed

text \<open>
  C17.  The amount of a numeric fact is exact: it is the sign times the number that the digits of its text spell,
  with as many places as digits follow the point, times the stated power of ten, and zero under the explicit zero
  format.
\<close>

theorem filing_number_exact:
  assumes "filing_number lexical format scale mark = Inr v"
  shows "(dval v :: rat) = (if mark = Some ''-'' then - 1 else 1)
      * (if zero_format format then 0 else of_nat (spelled_digits lexical) * 10 powi (scale - int (spelled_places lexical)))"
proof -
  obtain s where s: "transformed format (stripped xml_space lexical) = Inr s" "plain_number s"
    and v: "v = Dec (mark = Some ''-'') (dcoeff (numeral_value (unsigned_part s))) (dexp (numeral_value (unsigned_part s)) + scale)"
    using assms by (auto simp: filing_number_def require_def Let_def split: if_splits sum.splits)
  have n: "v = Dec (mark = Some ''-'') (spelled_digits s) (scale - int (spelled_places s))"
    unfolding v plain_number_value[OF s(2)] by simp
  show ?thesis
  proof (cases "zero_format format")
    case True
    then have "s = ''0''" using transformed_spelled[OF s(1)] by simp
    then have "spelled_digits s = 0"
      by (simp add: spelled_digits_def digits_value_def is_digit_def char_between_def)
    then show ?thesis using True by (simp add: n dval_def dint_def)
  next
    case False
    then have "spelled_digits s = spelled_digits lexical" "spelled_places s = spelled_places lexical"
      using transformed_spelled[OF s(1)] by (simp_all add: spelled_stripped)
    then show ?thesis using False by (simp add: n dval_def dint_def)
  qed
qed

theorem filing_number_exact_witness:
  "\<exists>v. filing_number '' 1,250.50 '' (Some (clark (hd transforms) ''num-dot-decimal'')) 3 (Some ''-'') = Inr v \<and> (dval v :: rat) = - 1250500"
proof -
  have "\<exists>v. filing_number '' 1,250.50 '' (Some (clark (hd transforms) ''num-dot-decimal'')) 3 (Some ''-'') = Inr v"
    by (rule exI[of _ "Dec True 125050 1"]) code_simp
  then obtain v where v: "filing_number '' 1,250.50 '' (Some (clark (hd transforms) ''num-dot-decimal'')) 3 (Some ''-'') = Inr v" ..
  have e: "\<not> zero_format (Some (clark (hd transforms) ''num-dot-decimal''))" "spelled_digits '' 1,250.50 '' = 125050" "spelled_places '' 1,250.50 '' = 2"
    by code_simp+
  have "(dval v :: rat) = - 1250500"
    unfolding filing_number_exact[OF v] using e by simp
  with v show ?thesis by blast
qed

end
