(* ===== verification/Filing_Guarantees.thy ===== *)
theory Filing_Guarantees
  imports Filing_Facts Sec_Samples "HOL-Library.Multiset"
begin

text \<open>
  The reader of filings as a whole: what a valid context or unit and an observed fact have gone through, what a
  selection rests on, and that every refusal leaves an issue.
\<close>

section \<open>A sample\<close>

text \<open>
  A filing with one context, one unit and three facts, on which the guarantees of the reader are exercised.
\<close>

definition leaf :: "string \<Rightarrow> (string \<times> string) list \<Rightarrow> string \<Rightarrow> xnode" where
  "leaf tag attributes content =
     XElement tag attributes [(None, xhtml_ns), (Some ''us-gaap'', ''http://fasb.org/us-gaap/2024''), (Some ''iso4217'', iso4217_ns),
       (Some ''ixt'', hd transforms)] (Some content) None []"

definition branch :: "string \<Rightarrow> (string \<times> string) list \<Rightarrow> xnode list \<Rightarrow> xnode" where
  "branch tag attributes nodes = XElement tag attributes [(None, xhtml_ns)] None None nodes"

definition fl_context :: xnode where
  "fl_context = branch (clark xbrli_ns ''context'') [(''id'', ''c'')]
     [branch (clark xbrli_ns ''entity'') [] [leaf (clark xbrli_ns ''identifier'') [(''scheme'', ''http://www.sec.gov/CIK'')] ''0000320193''],
      branch (clark xbrli_ns ''period'') [] [leaf (clark xbrli_ns ''instant'') [] ''2024-09-28'']]"

definition fl_unit :: xnode where
  "fl_unit = branch (clark xbrli_ns ''unit'') [(''id'', ''u'')] [leaf (clark xbrli_ns ''measure'') [] ''iso4217:USD'']"

definition fl_fact :: "string \<Rightarrow> (string \<times> string) list \<Rightarrow> xnode" where
  "fl_fact content extra = leaf (clark ix_ns ''nonFraction'')
     ([(''name'', ''us-gaap:Assets''), (''contextRef'', ''c''), (''unitRef'', ''u''), (''decimals'', ''-6''), (''scale'', ''6'')] @ extra) content"

definition fl_root :: xnode where
  "fl_root = branch (clark xhtml_ns ''html'') []
     [branch (clark ix_ns ''header'') [] [branch (clark ix_ns ''resources'') [] [fl_context, fl_unit]],
      fl_fact ''364,980'' [(''format'', ''ixt:num-dot-decimal'')], leaf (clark ix_ns ''fraction'') [] ''1/2'']"

definition fl_rt :: filing_runtime where
  "fl_rt = \<lparr>json_loads = (\<lambda>_. None), sha256_hex = (\<lambda>_. ''h''), urlsplit = (\<lambda>_. None), uuid_text = nat_text,
     source_tree = (\<lambda>_. None), uuid5_url = checksum,
     parse_xhtml = (\<lambda>_. Some \<lparr>xh_doctype = False, xh_root = fl_root\<rparr>), element_path = (\<lambda>_ p. concat (map nat_text p)),
     element_xml = (\<lambda>_ _. ''x'')\<rparr>"

definition fl_extraction :: "filing_extraction result" where
  "fl_extraction = extract_inline_filing fl_rt ''{}'' ''h'' 2 ''320193''"



lemma fl_refused:
  "case fl_extraction of Inl e \<Rightarrow> False
   | Inr ex \<Rightarrow> list_ex (\<lambda>f. ff_status f = ''unsupported'') (fx_facts ex) \<and> fx_issues ex \<noteq> []"
  by code_simp

section \<open>Steps\<close>

lemma run_steps_append:
  "run_steps (fs @ gs) s = (t, None) \<longleftrightarrow> (\<exists>m. run_steps fs s = (m, None) \<and> run_steps gs m = (t, None))"
  by (induction fs arbitrary: s) (auto split: sum.splits)

lemma run_steps_Cons:
  "run_steps (f # fs) s = (t, None) \<longleftrightarrow> (\<exists>m. f s = Inr m \<and> run_steps fs m = (t, None))"
  by (auto split: sum.splits)

lemma run_steps_invariant:
  assumes "P s" "\<And>f s s'. f \<in> set fs \<Longrightarrow> P s \<Longrightarrow> f s = Inr s' \<Longrightarrow> P s'"
  shows "P (fst (run_steps fs s))"
  using assms by (induction fs arbitrary: s) (auto split: sum.splits)

lemma require_Inr [simp]: "require ok code x = Inr y \<longleftrightarrow> ok \<and> y = x"
  by (auto simp: require_def)

lemma map_sum_id_Inr [simp]: "map_sum id f r = Inr y \<longleftrightarrow> (\<exists>x. r = Inr x \<and> y = f x)"
  by (cases r) auto

section \<open>Contexts and units\<close>

text \<open>The part of a context that the scope steps leave alone.\<close>

definition entity_part where
  "entity_part c = (cx_id c, cx_cik c, cx_kind c, cx_start c, cx_end c, cx_locator c)"

lemma add_dimension_part: "add_dimension location d c = Inr c' \<Longrightarrow> entity_part c' = entity_part c"
  by (auto simp: add_dimension_def entity_part_def split: if_splits sum.splits)

lemma scope_step_part: "f \<in> set (scope_steps parent location) \<Longrightarrow> f c = Inr c' \<Longrightarrow> entity_part c' = entity_part c"
proof -
  assume f: "f \<in> set (scope_steps parent location)" "f c = Inr c'"
  consider "x_findall parent (clark xbrli_ns location) = []" | k where "x_findall parent (clark xbrli_ns location) = [k]"
    | k l ks where "x_findall parent (clark xbrli_ns location) = k # l # ks"
    by (metis neq_Nil_conv)
  then show ?thesis
    by cases (use f in \<open>auto simp: scope_steps_def scope_container_def add_dimension_part\<close>)
qed







section \<open>Facts\<close>

text \<open>What a fact keeps of its element.\<close>

definition fact_frame where
  "fact_frame f = (ff_kind f, ff_context f, ff_unit f, ff_sign f, ff_decimals f, ff_precision f, ff_locator f, ff_issues f)"

lemma fact_step_frame:
  assumes "g \<in> set (fact_steps rt sc p n)" "g f = Inr f'"
  shows "fact_frame f' = fact_frame f"
  using assms
  by (auto simp: fact_steps_def kind_steps_def name_fact_def place_fact_def format_fact_def context_fact_def text_fact_def close_text_def
      number_structure_def scale_fact_def value_fact_def fact_frame_def Let_def
      split: if_splits option.splits sum.splits)









section \<open>Documents\<close>

lemma context_step_locator:
  assumes "g \<in> set (context_steps doc p n cik duplicates)" "g c = Inr c'"
  shows "cx_locator c' = cx_locator c"
proof -
  consider "g \<in> set (scope_steps (entity_of n) ''segment'')" | "g \<in> set (scope_steps n ''scenario'')"
    | "g \<in> set [check_identity doc p n duplicates, read_scheme n, read_entity n, match_entity n cik, read_kind n, read_duration n, ordered_period, distinct_axes]"
    using assms(1) unfolding context_steps_def by auto
  then show ?thesis
  proof cases
    case 3
    then show ?thesis
      using assms(2)
      by (auto simp: check_identity_def read_scheme_def read_entity_def match_entity_def read_kind_def read_duration_def ordered_period_def
          distinct_axes_def split: if_splits sum.splits option.splits)
  qed (use assms(2) scope_step_part[of g _ _ c c'] in \<open>auto simp: entity_part_def\<close>)
qed

text \<open>A refused record leaves an issue at its place.\<close>

lemma read_context_reported:
  assumes "\<not> cx_valid (fst (read_context rt doc cik duplicates pn))"
  shows "cx_locator (fst (read_context rt doc cik duplicates pn)) \<in> is_locator ` set (snd (read_context rt doc cik duplicates pn))"
proof -
  obtain c e where r: "run_steps (context_steps doc (fst pn) (snd pn) cik duplicates) (blank_context rt doc (fst pn) (snd pn)) = (c, e)"
    by fastforce
  have "cx_locator c = locator rt doc (fst pn)"
    using run_steps_invariant[of "\<lambda>c. cx_locator c = locator rt doc (fst pn)" "blank_context rt doc (fst pn) (snd pn)"
      "context_steps doc (fst pn) (snd pn) cik duplicates"] context_step_locator r by (simp add: blank_context_def)
  then show ?thesis using assms by (auto simp: read_context_def r split: option.splits)
qed

lemma read_measures_locator: "read_measures n u = Inr u' \<Longrightarrow> fu_locator u' = fu_locator u"
  by (auto simp: read_measures_def split: list.split_asm if_split_asm sum.split_asm)

lemma unit_step_locator:
  "g \<in> set [unit_identity doc p n duplicates, read_measures n] \<Longrightarrow> g u = Inr u' \<Longrightarrow> fu_locator u' = fu_locator u"
  by (auto simp: unit_identity_def split: sum.splits if_splits dest: read_measures_locator)

lemma read_unit_reported:
  assumes "\<not> fu_valid (fst (read_unit rt doc duplicates pn))"
  shows "fu_locator (fst (read_unit rt doc duplicates pn)) \<in> is_locator ` set (snd (read_unit rt doc duplicates pn))"
proof -
  let ?steps = "[unit_identity doc (fst pn) (snd pn) duplicates, read_measures (snd pn)]"
  let ?u = "\<lparr>fu_id = or_else (x_get (snd pn) ''id'') [], fu_numerator = [], fu_denominator = [], fu_xml = element_xml rt doc (fst pn),
    fu_locator = locator rt doc (fst pn), fu_valid = True\<rparr>"
  obtain u e where r: "run_steps ?steps ?u = (u, e)" by fastforce
  have "fu_locator u = locator rt doc (fst pn)"
    using run_steps_invariant[of "\<lambda>u. fu_locator u = locator rt doc (fst pn)" ?u ?steps] unit_step_locator
    unfolding r by simp
  moreover have "read_unit rt doc duplicates pn = (u\<lparr>fu_valid := (e = None)\<rparr>, case e of None \<Rightarrow> []
      | Some code \<Rightarrow> [\<lparr>is_code = code, is_locator = locator rt doc (fst pn), is_detail = ''Unit is not selectable''\<rparr>])"
    by (simp only: read_unit_def r prod.case)
  ultimately show ?thesis using assms by (auto split: option.splits)
qed

lemma accepted_status:
  assumes "run_steps (fact_steps rt sc p n) f = (g, None)"
  shows "ff_status g \<noteq> ''unsupported''"
proof -
  obtain m where "run_steps (kind_steps rt sc p n (clark_local (or_else (x_tag n) []))) m = (g, None)"
    using assms unfolding fact_steps_def run_steps_append by blast
  then show ?thesis
    by (auto simp: kind_steps_def run_steps_Cons close_text_def value_fact_def split: if_splits sum.splits)
qed

lemma read_fact_reported:
  assumes "ff_status (fst (read_fact rt sc pn)) = ''unsupported''"
  shows "\<exists>i\<in>set (snd (read_fact rt sc pn)). is_locator i = ff_locator (fst (read_fact rt sc pn)) \<and> ff_issues (fst (read_fact rt sc pn)) = [is_code i]"
proof -
  obtain f e where r: "run_steps (fact_steps rt sc (fst pn) (snd pn)) (blank_fact rt sc (fst pn) (snd pn)) = (f, e)"
    by fastforce
  show ?thesis
  proof (cases e)
    case None
    then show ?thesis using assms r accepted_status[of rt sc "fst pn" "snd pn" _ f] by (auto simp: read_fact_def)
  qed (simp add: read_fact_def r)
qed

section \<open>Extractions\<close>

lemma failed_extraction_simps [simp]:
  "fx_contexts (failed_extraction d n cik code detail) = []" "fx_units (failed_extraction d n cik code detail) = []"
  "fx_facts (failed_extraction d n cik code detail) = []" "fx_cik (failed_extraction d n cik code detail) = cik"
  "\<not> fx_complete (failed_extraction d n cik code detail)" "fx_issues (failed_extraction d n cik code detail) \<noteq> []"
  by (simp_all add: failed_extraction_def)

definition fact_elements :: "xnode \<Rightarrow> (path \<times> xnode) list" where
  "fact_elements doc = with_tag (map (clark ix_ns) [''nonFraction'', ''nonNumeric'', ''fraction'']) (elements_of doc)"

definition extracted_from :: "'z filing_runtime_scheme \<Rightarrow> xnode \<Rightarrow> string list \<Rightarrow> fact_scope \<Rightarrow> filing_extraction \<Rightarrow> bool" where
  "extracted_from rt doc duplicates sc ex \<longleftrightarrow>
     fx_contexts ex = map (\<lambda>pn. fst (read_context rt doc (fx_cik ex) duplicates pn)) (with_tag [clark xbrli_ns ''context''] (elements_of doc))
     \<and> fx_units ex = map (\<lambda>pn. fst (read_unit rt doc duplicates pn)) (with_tag [clark xbrli_ns ''unit''] (elements_of doc))
     \<and> fx_facts ex = map (\<lambda>pn. fst (read_fact rt sc pn)) (fact_elements doc)
     \<and> sc_contexts sc = fx_contexts ex \<and> sc_units sc = fx_units ex
     \<and> set (fx_issues ex) =
       (\<Union>pn\<in>set (with_tag [clark xbrli_ns ''context''] (elements_of doc)). set (snd (read_context rt doc (fx_cik ex) duplicates pn)))
       \<union> (\<Union>pn\<in>set (with_tag [clark xbrli_ns ''unit''] (elements_of doc)). set (snd (read_unit rt doc duplicates pn)))
       \<union> (\<Union>pn\<in>set (fact_elements doc). set (snd (read_fact rt sc pn)))
     \<and> (fx_complete ex \<longleftrightarrow> fx_issues ex = [])"

lemma extracted_fields:
  assumes "extracted_from rt doc duplicates sc ex"
  shows "fx_contexts ex = map (\<lambda>pn. fst (read_context rt doc (fx_cik ex) duplicates pn)) (with_tag [clark xbrli_ns ''context''] (elements_of doc))"
    "fx_units ex = map (\<lambda>pn. fst (read_unit rt doc duplicates pn)) (with_tag [clark xbrli_ns ''unit''] (elements_of doc))"
    "fx_facts ex = map (\<lambda>pn. fst (read_fact rt sc pn)) (fact_elements doc)"
    "sc_contexts sc = fx_contexts ex" "sc_units sc = fx_units ex"
    "set (fx_issues ex) =
       (\<Union>pn\<in>set (with_tag [clark xbrli_ns ''context''] (elements_of doc)). set (snd (read_context rt doc (fx_cik ex) duplicates pn)))
       \<union> (\<Union>pn\<in>set (with_tag [clark xbrli_ns ''unit''] (elements_of doc)). set (snd (read_unit rt doc duplicates pn)))
       \<union> (\<Union>pn\<in>set (fact_elements doc). set (snd (read_fact rt sc pn)))"
    "fx_complete ex \<longleftrightarrow> fx_issues ex = []"
  using assms unfolding extracted_from_def by blast+

lemma extracted_document:
  assumes "fact_elements doc \<noteq> []"
  shows "\<exists>duplicates sc. extracted_from rt doc duplicates sc (extract_document rt h k cik doc)"
proof -
  define duplicates where "duplicates = repeated (List.map_filter (\<lambda>pn. x_get (snd pn) ''id'') (elements_of doc))"
  define sc where "sc = \<lparr>sc_root = doc, sc_contexts = map (\<lambda>pn. fst (read_context rt doc cik duplicates pn)) (with_tag [clark xbrli_ns ''context''] (elements_of doc)),
    sc_units = map (\<lambda>pn. fst (read_unit rt doc duplicates pn)) (with_tag [clark xbrli_ns ''unit''] (elements_of doc)),
    sc_ids = id_table_of duplicates (elements_of doc), sc_duplicates = duplicates,
    sc_shared = repeated (List.map_filter (\<lambda>pn. x_get (snd pn) ''continuedAt'') (elements_of doc))\<rparr>"
  have "extracted_from rt doc duplicates sc (extract_document rt h k cik doc)"
    using assms
    by (simp add: extracted_from_def extract_document_def Let_def comp_def flip: fact_elements_def duplicates_def sc_def del: list.map)
      (simp add: sc_def Un_assoc)
  then show ?thesis by blast
qed

lemma extraction_cases:
  assumes "extract_inline_filing rt body h k expected = Inr ex"
  obtains (failed) code detail where "sha256_hex rt body = h" "length body = k" "ex = failed_extraction h k (fx_cik ex) code detail"
  | (document) doc where "sha256_hex rt body = h" "length body = k" "filing_cik expected = Inr (fx_cik ex)"
      "parse_xhtml rt body = Some doc" "fact_elements (xh_root doc) \<noteq> []"
      "\<exists>duplicates sc. extracted_from rt (xh_root doc) duplicates sc ex"
proof -
  let ?x = "extract_inline_filing rt body h k expected"
  obtain cik where c: "filing_cik expected = Inr cik"
    using assms by (cases "filing_cik expected") (simp_all add: extract_inline_filing_def)
  have hk: "sha256_hex rt body = h" "length body = k"
    by (rule ccontr, use assms in \<open>simp add: extract_inline_filing_def c Let_def\<close>)+
  have open_failed: thesis if "\<exists>code detail. ?x = Inr (failed_extraction h k cik code detail)"
  proof -
    from that obtain code detail where "ex = failed_extraction h k cik code detail" using assms by auto
    then show thesis using failed[OF hk, of code detail] by simp
  qed
  show thesis
  proof (cases "max_body_bytes < k")
    case True
    then show thesis by (intro open_failed) (auto simp: extract_inline_filing_def c hk Let_def)
  next
    case small: False
    show thesis
    proof (cases "parse_xhtml rt body")
      case None
      with small show thesis by (intro open_failed) (auto simp: extract_inline_filing_def c hk Let_def)
    next
      case (Some doc)
      let ?d = "xh_root doc"
      show thesis
      proof (cases "(xh_doctype doc \<or> has_entity ?d) \<or> x_tag ?d \<noteq> Some (clark xhtml_ns ''html'') \<or> fact_elements ?d = []")
        case True
        with small Some show thesis
          by (intro open_failed) (auto simp: extract_inline_filing_def extract_document_def c hk Let_def fact_elements_def)
      next
        case False
        then have "ex = extract_document rt h k cik ?d"
          using small Some assms by (simp add: extract_inline_filing_def c hk Let_def)
        moreover from this False have "fx_cik ex = cik" by (simp add: extract_document_def Let_def flip: fact_elements_def)
        ultimately show thesis
          using document[OF hk _ Some] c False extracted_document[of ?d rt h k cik] by simp
      qed
    qed
  qed
qed

section \<open>Reports\<close>

text \<open>
  C19.  Nothing is refused silently.  Every element that states a fact has one record; a context or unit that
  cannot be selected and a fact without a supported reading each leave an issue at their own place, and an
  extraction is called complete exactly when there is no issue at all.
\<close>

theorem filing_refusals_reported:
  assumes "extract_inline_filing rt body h k expected = Inr ex"
  shows "(fx_complete ex \<longleftrightarrow> fx_issues ex = [])
    \<and> (\<forall>c\<in>set (fx_contexts ex). cx_valid c \<or> cx_locator c \<in> is_locator ` set (fx_issues ex))
    \<and> (\<forall>u\<in>set (fx_units ex). fu_valid u \<or> fu_locator u \<in> is_locator ` set (fx_issues ex))
    \<and> (\<forall>f\<in>set (fx_facts ex). ff_status f \<noteq> ''unsupported''
         \<or> (\<exists>i\<in>set (fx_issues ex). is_locator i = ff_locator f \<and> ff_issues f = [is_code i]))
    \<and> (fx_complete ex \<longrightarrow> (\<exists>doc. parse_xhtml rt body = Some doc \<and> fx_facts ex \<noteq> []
         \<and> length (fx_facts ex) = length (fact_elements (xh_root doc))))"
  using assms
proof (cases rule: extraction_cases)
  case (failed code detail)
  have "fx_contexts ex = []" "fx_units ex = []" "fx_facts ex = []" "\<not> fx_complete ex" "fx_issues ex \<noteq> []"
    by (subst failed(3), simp)+
  then show ?thesis by simp
next
  case (document doc)
  then obtain duplicates sc where "extracted_from rt (xh_root doc) duplicates sc ex" by blast
  note x = extracted_fields[OF this]
  show ?thesis
  proof (intro conjI)
    show "\<forall>c\<in>set (fx_contexts ex). cx_valid c \<or> cx_locator c \<in> is_locator ` set (fx_issues ex)"
      unfolding x(1,6) using read_context_reported by fastforce
    show "\<forall>u\<in>set (fx_units ex). fu_valid u \<or> fu_locator u \<in> is_locator ` set (fx_issues ex)"
      unfolding x(2,6) using read_unit_reported by fastforce
    show "\<forall>f\<in>set (fx_facts ex). ff_status f \<noteq> ''unsupported''
         \<or> (\<exists>i\<in>set (fx_issues ex). is_locator i = ff_locator f \<and> ff_issues f = [is_code i])"
      unfolding x(3,6) using read_fact_reported[of rt sc] by fastforce
    show "fx_complete ex \<longrightarrow> (\<exists>doc. parse_xhtml rt body = Some doc \<and> fx_facts ex \<noteq> []
         \<and> length (fx_facts ex) = length (fact_elements (xh_root doc)))"
      using document(4,5) x(3) by (intro impI exI[of _ doc]) simp
  qed (rule x(7))
qed

theorem filing_refusals_reported_witness:
  "\<exists>ex. extract_inline_filing fl_rt ''{}'' ''h'' 2 ''320193'' = Inr ex \<and> \<not> fx_complete ex
     \<and> (\<exists>f\<in>set (fx_facts ex). \<exists>i\<in>set (fx_issues ex). is_locator i = ff_locator f \<and> ff_issues f = [is_code i])"
proof -
  obtain ex where ex: "extract_inline_filing fl_rt ''{}'' ''h'' 2 ''320193'' = Inr ex" "list_ex (\<lambda>f. ff_status f = ''unsupported'') (fx_facts ex)"
    "fx_issues ex \<noteq> []"
    using fl_refused unfolding fl_extraction_def by (auto split: sum.splits)
  then obtain f where "f \<in> set (fx_facts ex)" "ff_status f = ''unsupported''" by (auto simp: list_ex_iff)
  then show ?thesis
    using filing_refusals_reported[OF ex(1)] ex by blast
qed

section \<open>Selections\<close>






end
