(* ===== verification/Fetch_Types.thy ===== *)
theory Fetch_Types
  imports Sec_Inventory
begin

text \<open>
  \<open>packages/ingest/contracts.py\<close>: the identities of SEC resources, source descriptors, archived captures, and
  the requests and results of a fetch, each with the checks of its constructor.
\<close>

section \<open>Resources\<close>

datatype resource_kind = COMPANY_FACTS | SUBMISSIONS | SUBMISSIONS_HISTORY | FILING_DOCUMENT

fun kind_value :: "resource_kind \<Rightarrow> string" where
  "kind_value COMPANY_FACTS = ''company_facts''"
| "kind_value SUBMISSIONS = ''submissions''"
| "kind_value SUBMISSIONS_HISTORY = ''submissions_history''"
| "kind_value FILING_DOCUMENT = ''filing_document''"

datatype cik_input = Cik_Int int | Cik_Text string

definition resource_cik :: "cik_input \<Rightarrow> string result" where
  "resource_cik v =
     (case v of
        Cik_Int i \<Rightarrow> if i < 0 then Inl ValueError else canonical_cik_text (nat_text (nat i))
      | Cik_Text s \<Rightarrow> canonical_cik_text s)"

record sec_resource =
  sr_issuer :: uuid
  sr_cik :: string
  sr_kind :: resource_kind
  sr_filename :: "string option"
  sr_accession :: "string option"

definition history_filename :: "string \<Rightarrow> string \<Rightarrow> bool" where
  "history_filename cik name =
     (let prefix = ''CIK'' @ cik @ ''-submissions-''; n = length prefix; digits = takeWhile is_digit (drop n name) in
      take n name = prefix \<and> digits \<noteq> [] \<and> drop (n + length digits) name = ''.json'')"

definition document_filename :: "string \<Rightarrow> bool" where
  "document_filename name =
     (list_ex (\<lambda>e. let n = length name - length e in length e < length name \<and> drop n name = e \<and> path_part (take n name))
        [''.htm'', ''.html'', ''.xml'', ''.txt'', ''.xsd''] \<and> \<not> has_dotdot name)"

definition resource_names_ok :: "string \<Rightarrow> resource_kind \<Rightarrow> string option \<Rightarrow> string option \<Rightarrow> bool" where
  "resource_names_ok cik kind filename accession =
     (case kind of
        SUBMISSIONS_HISTORY \<Rightarrow> (case filename of None \<Rightarrow> False | Some f \<Rightarrow> history_filename cik f) \<and> accession = None
      | FILING_DOCUMENT \<Rightarrow>
          (case accession of None \<Rightarrow> False | Some a \<Rightarrow> accession_text a)
          \<and> (case filename of None \<Rightarrow> False | Some f \<Rightarrow> document_filename f)
      | _ \<Rightarrow> filename = None \<and> accession = None)"

definition mk_sec_resource :: "uuid \<Rightarrow> cik_input \<Rightarrow> resource_kind \<Rightarrow> string option \<Rightarrow> string option \<Rightarrow> sec_resource result" where
  "mk_sec_resource issuer cik kind filename accession =
     (case resource_cik cik of
        Inl e \<Rightarrow> Inl e
      | Inr c \<Rightarrow> guard_value (resource_names_ok c kind filename accession)
          \<lparr>sr_issuer = issuer, sr_cik = c, sr_kind = kind, sr_filename = filename, sr_accession = accession\<rparr>)"

definition resource_url :: "sec_resource \<Rightarrow> string" where
  "resource_url r =
     (case sr_kind r of
        COMPANY_FACTS \<Rightarrow> ''https://data.sec.gov/api/xbrl/companyfacts/CIK'' @ sr_cik r @ ''.json''
      | SUBMISSIONS \<Rightarrow> ''https://data.sec.gov/submissions/CIK'' @ sr_cik r @ ''.json''
      | SUBMISSIONS_HISTORY \<Rightarrow> ''https://data.sec.gov/submissions/'' @ or_else (sr_filename r) []
      | FILING_DOCUMENT \<Rightarrow> ''https://www.sec.gov/Archives/edgar/data/'' @ nat_text (digits_value (sr_cik r)) @ ''/''
          @ filter (\<lambda>c. c \<noteq> CHR ''-'') (or_else (sr_accession r) []) @ ''/'' @ or_else (sr_filename r) [])"

definition object_key :: "sec_resource \<Rightarrow> string" where
  "object_key r =
     kind_value (sr_kind r) @ ''/'' @ sr_cik r
       @ concat (map (\<lambda>part. case part of None \<Rightarrow> [] | Some s \<Rightarrow> if s = [] then [] else ''/'' @ s) [sr_accession r, sr_filename r])"

definition params_hash :: "'z runtime_scheme \<Rightarrow> string" where
  "params_hash rt = sha256_hex rt ''{}''"

section \<open>Sources and captures\<close>

record source_descriptor =
  sd_id :: uuid
  sd_key :: string
  sd_name :: string
  sd_policy :: uuid
  sd_terms :: string
  sd_licence :: string
  sd_redistribution :: string
  sd_kinds :: "resource_kind list"
  sd_freshness :: int
  sd_limiter_key :: string
  sd_rate :: int

text \<open>The freshness policy is a number of microseconds.\<close>

definition descriptor_valid :: "source_descriptor \<Rightarrow> bool" where
  "descriptor_valid d =
     (list_all nonblank [sd_key d, sd_name d, sd_terms d, sd_licence d, sd_limiter_key d]
      \<and> sd_redistribution d \<in> {''allowed'', ''prohibited'', ''unknown''}
      \<and> 1 \<le> sd_rate d \<and> sd_rate d \<le> 10 \<and> 0 < sd_freshness d \<and> sd_kinds d \<noteq> [])"

definition redistribution_allowed :: "source_descriptor \<Rightarrow> bool" where
  "redistribution_allowed d = (sd_redistribution d = ''allowed'')"

record raw_record =
  rr_capture :: uuid
  rr_source :: uuid
  rr_object :: string
  rr_url :: string
  rr_params :: string
  rr_requested :: datetime
  rr_fetched :: datetime
  rr_completed :: datetime
  rr_status :: int
  rr_sha256 :: string
  rr_bytes :: int
  rr_blob :: string
  rr_content_type :: "string option"
  rr_policy :: uuid
  rr_terms :: string
  rr_etag :: "string option"
  rr_modified :: "string option"

definition mk_raw_record :: "raw_record \<Rightarrow> raw_record result" where
  "mk_raw_record r =
     guard_value
       (aware (rr_requested r) \<and> aware (rr_fetched r) \<and> aware (rr_completed r)
        \<and> instant (rr_requested r) \<le> instant (rr_fetched r) \<and> instant (rr_fetched r) \<le> instant (rr_completed r)
        \<and> 100 \<le> rr_status r \<and> rr_status r \<le> 599 \<and> 0 \<le> rr_bytes r \<and> rr_blob r \<noteq> []
        \<and> sha256_text (rr_sha256 r) \<and> sha256_text (rr_params r)) r"

definition rr_successful :: "raw_record \<Rightarrow> bool" where
  "rr_successful r = (200 \<le> rr_status r \<and> rr_status r < 300)"

section \<open>Requests and results\<close>

record lease =
  ls_request :: uuid
  ls_execution :: uuid
  ls_epoch :: int
  ls_fencing :: int
  ls_worker :: string
  ls_expires :: datetime

record requested_period =
  rq_kind :: string
  rq_end :: date
  rq_start :: "date option"

record fetch_request =
  ft_fetch :: uuid
  ft_resource :: sec_resource
  ft_lease :: "lease option"
  ft_stage :: "uuid option"
  ft_mode :: string
  ft_cached :: "raw_record option"
  ft_replay :: "raw_record list"
  ft_periods :: "requested_period list"
  ft_cutoff :: "datetime option"
  ft_monitor :: bool

definition belongs_to :: "'z runtime_scheme \<Rightarrow> sec_resource \<Rightarrow> raw_record \<Rightarrow> bool" where
  "belongs_to rt res r = (rr_object r = object_key res \<and> rr_params r = params_hash rt)"

definition not_after_cutoff :: "datetime option \<Rightarrow> raw_record \<Rightarrow> bool" where
  "not_after_cutoff cutoff r = (case cutoff of None \<Rightarrow> True | Some t \<Rightarrow> instant (rr_completed r) \<le> instant t)"

definition mk_fetch_request :: "'z runtime_scheme \<Rightarrow> fetch_request \<Rightarrow> fetch_request result" where
  "mk_fetch_request rt q =
     guard_value
       ((ft_monitor q \<longrightarrow> ft_mode q \<in> {''refresh'', ''conditional''})
        \<and> ft_mode q \<in> {''refresh'', ''reuse'', ''conditional'', ''replay''}
        \<and> (ft_mode q \<noteq> ''replay'' \<longrightarrow> ft_lease q \<noteq> None \<and> ft_stage q \<noteq> None)
        \<and> (case ft_cutoff q of None \<Rightarrow> True | Some t \<Rightarrow> aware t \<and> ft_mode q = ''replay'')
        \<and> (ft_replay q \<noteq> [] \<longrightarrow> ft_mode q = ''replay'')
        \<and> (ft_mode q = ''replay'' \<longrightarrow> ft_cached q = None)
        \<and> list_all (\<lambda>r. belongs_to rt (ft_resource q) r \<and> not_after_cutoff (ft_cutoff q) r)
            (ft_replay q @ (case ft_cached q of None \<Rightarrow> [] | Some r \<Rightarrow> [r]))) q"

record attempt_outcome =
  ao_id :: uuid
  ao_outcome :: string
  ao_status :: "int option"
  ao_reason :: "string option"

record fetch_result =
  fr_records :: "raw_record list"
  fr_attempts :: "attempt_outcome list"
  fr_reused :: "uuid list"
  fr_completeness :: string
  fr_gaps :: "string list"
  fr_next :: "rat option"

definition successful_records :: "fetch_result \<Rightarrow> raw_record list" where
  "successful_records r = filter rr_successful (fr_records r)"

definition fetch_usable :: "fetch_result \<Rightarrow> bool" where
  "fetch_usable r = (successful_records r \<noteq> [] \<and> fr_gaps r = [])"

end
