(* ===== verification/Transport.thy ===== *)
theory Transport
  imports Fetch_Types Limiter
begin

text \<open>
  \<open>packages/ingest/transport.py\<close>: one bounded fetch of an SEC resource.  Every call on the attempt store, the
  limiter, the archive, the client and the clocks is an entry of a log, and its answer is a function of the log so
  far, so that a theorem holds for whatever those services answer and whenever one of them raises.
\<close>

section \<open>Services\<close>

text \<open>What a call may raise; \<open>Other\<close> is every exception that the transport does not handle.\<close>

datatype failure =
  Limited limiter_error | Lease_Lost | Transport_Error | Deadline | Transfer_Incomplete | Body_Limit | Decoding
| Archive_Error | Os_Error | Other

record response_headers =
  rh_content_type :: "string option"
  rh_content_encoding :: "string option"
  rh_etag :: "string option"
  rh_last_modified :: "string option"
  rh_retry_after :: "string option"
  rh_location :: "string option"

definition no_headers :: response_headers where
  "no_headers = \<lparr>rh_content_type = None, rh_content_encoding = None, rh_etag = None, rh_last_modified = None,
     rh_retry_after = None, rh_location = None\<rparr>"

record http_response =
  hr_status :: int
  hr_headers :: "(string \<times> string) list"

record archived_body =
  ab_blob :: string
  ab_sha256 :: string
  ab_bytes :: int

datatype fetch_call =
  Validate_Record uuid
| Read_Blob string string int
| Guard
| Prepare nat string "uuid option"
| Acquire rat
| Dispatched uuid datetime
| Confirm
| Send string "(string \<times> string) list"
| Record_Headers uuid datetime int response_headers
| Write_Body uuid datetime nat "string option" "nat option"
| Payload uuid datetime archived_body
| Finish uuid string datetime "raw_record option" "uuid option" "string option"
| Cooldown duration
| Sleep rat
| Read_Clock
| Read_Time
| New_Id
| Jitter

record services =
  sv_done :: "fetch_call list \<Rightarrow> failure + unit"
  sv_prepare :: "fetch_call list \<Rightarrow> failure + uuid"
  sv_send :: "fetch_call list \<Rightarrow> failure + http_response"
  sv_write :: "fetch_call list \<Rightarrow> failure + archived_body"
  sv_cooldown :: "fetch_call list \<Rightarrow> failure + rat"
  sv_clock :: "fetch_call list \<Rightarrow> rat"
  sv_time :: "fetch_call list \<Rightarrow> datetime"
  sv_id :: "fetch_call list \<Rightarrow> uuid"
  sv_jitter :: "fetch_call list \<Rightarrow> duration"

record split_parts =
  sp_scheme :: string
  sp_netloc :: string
  sp_path :: string
  sp_query :: string
  sp_fragment :: string
  sp_username :: "string option"
  sp_password :: "string option"

record transport_runtime = ingest_runtime +
  split_parts_of :: "string \<Rightarrow> split_parts option"
  urljoin :: "string \<Rightarrow> string \<Rightarrow> string option"
  parse_http_date :: "string \<Rightarrow> datetime option"

text \<open>The locals of a fetch that survive an exception.\<close>

record fetch_state =
  fs_calls :: "fetch_call list"
  fs_url :: string
  fs_validator :: "raw_record option"
  fs_records :: "raw_record list"
  fs_outcomes :: "attempt_outcome list"
  fs_status :: "int option"

type_synonym 'a act = "fetch_state \<Rightarrow> (failure + 'a) \<times> fetch_state"

definition ret :: "'a \<Rightarrow> 'a act" where
  "ret x = (\<lambda>s. (Inr x, s))"

definition fail_with :: "failure \<Rightarrow> 'a act" where
  "fail_with e = (\<lambda>s. (Inl e, s))"

definition seq :: "'a act \<Rightarrow> ('a \<Rightarrow> 'b act) \<Rightarrow> 'b act" where
  "seq m k = (\<lambda>s. case m s of (Inl e, t) \<Rightarrow> (Inl e, t) | (Inr x, t) \<Rightarrow> k x t)"

definition handle :: "'a act \<Rightarrow> (failure \<Rightarrow> 'a act) \<Rightarrow> 'a act" where
  "handle m h = (\<lambda>s. case m s of (Inl e, t) \<Rightarrow> h e t | (Inr x, t) \<Rightarrow> (Inr x, t))"

definition ask :: "fetch_call \<Rightarrow> (fetch_call list \<Rightarrow> failure + 'a) \<Rightarrow> 'a act" where
  "ask c f = (\<lambda>s. let t = s\<lparr>fs_calls := c # fs_calls s\<rparr> in (f (fs_calls t), t))"

definition observe :: "fetch_call \<Rightarrow> (fetch_call list \<Rightarrow> 'a) \<Rightarrow> 'a act" where
  "observe c f = ask c (\<lambda>calls. Inr (f calls))"

definition look :: "(fetch_state \<Rightarrow> 'a) \<Rightarrow> 'a act" where
  "look f = (\<lambda>s. (Inr (f s), s))"

definition update :: "(fetch_state \<Rightarrow> fetch_state) \<Rightarrow> unit act" where
  "update f = (\<lambda>s. (Inr (), f s))"

definition then_do :: "'a act \<Rightarrow> 'b act \<Rightarrow> 'b act" where
  "then_do m k = seq m (\<lambda>_. k)"

section \<open>Redirects and delays\<close>

definition validate_redirect :: "'z transport_runtime_scheme \<Rightarrow> sec_resource \<Rightarrow> string \<Rightarrow> string \<Rightarrow> string result" where
  "validate_redirect rt res current place =
     (if place = [] \<or> 2048 < length place \<or> list_ex (\<lambda>c. (of_char c :: nat) \<le> 32) place \<or> CHR ''%'' \<in> set place
        \<or> char_of (92 :: nat) \<in> set place then Inl ValueError
      else case split_parts_of rt place of
        None \<Rightarrow> Inl ValueError
      | Some p \<Rightarrow>
          if ''..'' \<in> set (split_slash (sp_path p)) then Inl ValueError
          else (case urljoin rt current place of
              None \<Rightarrow> Inl ValueError
            | Some target \<Rightarrow>
                (case (split_parts_of rt target, split_parts_of rt (resource_url res)) of
                   (Some q, Some r) \<Rightarrow>
                     guard_value (sp_scheme q = ''https'' \<and> sp_netloc q = sp_netloc r \<and> sp_username q = None \<and> sp_password q = None
                         \<and> sp_query q = [] \<and> sp_fragment q = [] \<and> CHR ''%'' \<notin> set (sp_path q) \<and> target = resource_url res) target
                 | _ \<Rightarrow> Inl ValueError)))"

definition year_9999 :: int where
  "year_9999 = int (toordinal (Date 9999 1 1)) * micros_per_day"

definition trimmed :: "string \<Rightarrow> string" where
  "trimmed s = rev (dropWhile is_space (rev (dropWhile is_space s)))"

text \<open>Seconds until a retry is allowed.\<close>

definition retry_after_seconds :: "'z transport_runtime_scheme \<Rightarrow> string option \<Rightarrow> datetime \<Rightarrow> duration" where
  "retry_after_seconds rt v now =
     (case v of
        None \<Rightarrow> Number 0
      | Some s \<Rightarrow>
          if trimmed s \<noteq> [] \<and> list_all is_digit (trimmed s)
          then (let delay = of_nat (digits_value (trimmed s)) in
            if delay < (of_int (year_9999 - instant now) :: rat) / 1000000 then Number delay else Infinite True)
          else (case parse_http_date rt s of
              None \<Rightarrow> Number 0
            | Some d \<Rightarrow>
                if \<not> aware d then Number 0
                else if year_9999 \<le> instant d then Infinite True
                else Number (max 0 (of_int (instant d - instant now) / 1000000))))"

section \<open>Configuration\<close>

record transport =
  tp_descriptor :: source_descriptor
  tp_contact :: string
  tp_json_limit :: nat
  tp_document_limit :: nat

definition contact_email :: "string \<Rightarrow> bool" where
  "contact_email s =
     (let local = takeWhile (\<lambda>c. c \<noteq> CHR ''@'') s; domain = drop (length local + 1) s in
      CHR ''@'' \<in> set s \<and> local \<noteq> [] \<and> CHR ''@'' \<notin> set domain \<and> \<not> list_ex is_space s
      \<and> list_ex (\<lambda>i. domain ! i = CHR ''.'') [1..<length domain - 1] \<and> \<not> list_ex (\<lambda>c. (of_char c :: nat) < 32) s)"

definition mk_transport :: "source_descriptor \<Rightarrow> string \<Rightarrow> int \<Rightarrow> int \<Rightarrow> transport result" where
  "mk_transport d contact json_limit document_limit =
     guard_value (contact_email contact \<and> 0 \<le> min json_limit document_limit)
       \<lparr>tp_descriptor = d, tp_contact = contact, tp_json_limit = nat json_limit, tp_document_limit = nat document_limit\<rparr>"

definition nonempty :: "string option \<Rightarrow> bool" where
  "nonempty v = (v \<noteq> None \<and> v \<noteq> Some [])"

definition request_headers :: "transport \<Rightarrow> resource_kind \<Rightarrow> raw_record option \<Rightarrow> (string \<times> string) list" where
  "request_headers tp kind validator =
     [(''User-Agent'', ''EquityEval/0.1 '' @ tp_contact tp), (''Accept-Encoding'', ''gzip, deflate''),
      (''Accept'', if kind = FILING_DOCUMENT then ''text/html,application/xml,text/plain'' else ''application/json'')]
     @ (case validator of
          None \<Rightarrow> []
        | Some v \<Rightarrow>
            (if nonempty (rr_etag v) then [(''If-None-Match'', the (rr_etag v))] else [])
            @ (if nonempty (rr_modified v) then [(''If-Modified-Since'', the (rr_modified v))] else []))"

definition utf8_length :: "string \<Rightarrow> nat" where
  "utf8_length s = sum_list (map (\<lambda>c. if (of_char c :: nat) < 128 then 1 else 2) s)"

text \<open>A response header: absent, usable, or a decoding error.\<close>

definition response_header :: "http_response \<Rightarrow> string \<Rightarrow> failure + string option" where
  "response_header r name =
     (case map_of (hr_headers r) name of
        None \<Rightarrow> Inr None
      | Some v \<Rightarrow> if 4096 < utf8_length v \<or> list_ex (\<lambda>c. (of_char c :: nat) < 32) v then Inl Decoding else Inr (Some v))"

definition header_evidence :: "http_response \<Rightarrow> string option \<Rightarrow> failure + response_headers" where
  "header_evidence r target =
     (case (response_header r ''content-type'', response_header r ''content-encoding'', response_header r ''etag'',
            response_header r ''last-modified'', response_header r ''retry-after'') of
        (Inr ct, Inr ce, Inr et, Inr lm, Inr ra) \<Rightarrow>
          Inr \<lparr>rh_content_type = ct, rh_content_encoding = ce, rh_etag = et, rh_last_modified = lm, rh_retry_after = ra, rh_location = target\<rparr>
      | _ \<Rightarrow> Inl Decoding)"

definition redirect_target :: "'z transport_runtime_scheme \<Rightarrow> sec_resource \<Rightarrow> string \<Rightarrow> http_response \<Rightarrow> string option" where
  "redirect_target rt res url r =
     (if hr_status r \<in> {301, 302, 303, 307, 308}
      then (case map_of (hr_headers r) ''location'' of
          None \<Rightarrow> None
        | Some place \<Rightarrow> (case validate_redirect rt res url place of Inl e \<Rightarrow> None | Inr t \<Rightarrow> Some t))
      else None)"

definition wire_length :: "http_response \<Rightarrow> failure + nat option" where
  "wire_length r =
     (case map_of (hr_headers r) ''content-length'' of
        None \<Rightarrow> Inr None
      | Some t \<Rightarrow> if t \<noteq> [] \<and> list_all is_digit t then Inr (Some (digits_value t)) else Inl Transfer_Incomplete)"

section \<open>Results\<close>

definition archive_failure :: "failure \<Rightarrow> bool" where
  "archive_failure e = (e \<in> {Archive_Error, Body_Limit, Decoding, Transfer_Incomplete})"

definition answer :: "raw_record list \<Rightarrow> attempt_outcome list \<Rightarrow> uuid list \<Rightarrow> string list \<Rightarrow> string \<Rightarrow> rat option \<Rightarrow> fetch_result" where
  "answer records attempts reused gaps completeness eligible =
     \<lparr>fr_records = records, fr_attempts = attempts, fr_reused = reused, fr_completeness = completeness, fr_gaps = gaps, fr_next = eligible\<rparr>"

text \<open>An incomplete result with what was gathered so far.\<close>

definition gap :: "string \<Rightarrow> rat option \<Rightarrow> fetch_result act" where
  "gap reason eligible = look (\<lambda>s. answer (fs_records s) (fs_outcomes s) [] [reason] ''incomplete'' eligible)"

definition add_outcome :: "uuid \<Rightarrow> string \<Rightarrow> int option \<Rightarrow> string option \<Rightarrow> unit act" where
  "add_outcome i outcome status reason =
     update (\<lambda>s. s\<lparr>fs_outcomes := fs_outcomes s @ [\<lparr>ao_id = i, ao_outcome = outcome, ao_status = status, ao_reason = reason\<rparr>]\<rparr>)"

definition add_record :: "raw_record \<Rightarrow> unit act" where
  "add_record r = update (\<lambda>s. s\<lparr>fs_records := fs_records s @ [r]\<rparr>)"

definition finish ::
  "services \<Rightarrow> uuid \<Rightarrow> string \<Rightarrow> datetime \<Rightarrow> raw_record option \<Rightarrow> uuid option \<Rightarrow> string option \<Rightarrow> unit act" where
  "finish sv i outcome now capture reused reason = ask (Finish i outcome now capture reused reason) (sv_done sv)"

text \<open>\<open>finish\<close> at the present time, and the outcome that goes with it.\<close>

definition finish_now :: "services \<Rightarrow> uuid \<Rightarrow> string \<Rightarrow> uuid option \<Rightarrow> string option \<Rightarrow> int option \<Rightarrow> string option \<Rightarrow> unit act" where
  "finish_now sv i outcome reused failure status reason =
     seq (observe Read_Time (sv_time sv)) (\<lambda>now.
     then_do (finish sv i outcome now None reused failure) (add_outcome i outcome status reason))"

definition check_deadline :: "services \<Rightarrow> rat \<Rightarrow> unit act" where
  "check_deadline sv limit = seq (observe Read_Clock (sv_clock sv)) (\<lambda>t. if limit \<le> t then fail_with Deadline else ret ())"

section \<open>Captures\<close>

definition verify :: "'z transport_runtime_scheme \<Rightarrow> services \<Rightarrow> transport \<Rightarrow> fetch_request \<Rightarrow> raw_record \<Rightarrow> unit act" where
  "verify rt sv tp q r =
     (if rr_source r \<noteq> sd_id (tp_descriptor tp) \<or> rr_object r \<noteq> object_key (ft_resource q)
        \<or> rr_params r \<noteq> params_hash rt \<or> rr_url r \<noteq> resource_url (ft_resource q)
      then fail_with Archive_Error
      else then_do (ask (Validate_Record (rr_capture r)) (sv_done sv))
             (ask (Read_Blob (rr_blob r) (rr_sha256 r) (rr_bytes r)) (sv_done sv)))"

fun verify_all :: "'z transport_runtime_scheme \<Rightarrow> services \<Rightarrow> transport \<Rightarrow> fetch_request \<Rightarrow> raw_record list \<Rightarrow> unit act" where
  "verify_all rt sv tp q [] = ret ()"
| "verify_all rt sv tp q (r # rs) = then_do (verify rt sv tp q r) (verify_all rt sv tp q rs)"

definition replay :: "'z transport_runtime_scheme \<Rightarrow> services \<Rightarrow> transport \<Rightarrow> fetch_request \<Rightarrow> fetch_result act" where
  "replay rt sv tp q =
     handle
       (then_do (verify_all rt sv tp q (ft_replay q))
          (ret (if ft_replay q = [] \<or> \<not> list_all rr_successful (ft_replay q)
                then answer (ft_replay q) [] [] [''capture_unavailable''] ''unknown'' None
                else answer (ft_replay q) [] (map rr_capture (ft_replay q)) [] ''unknown'' None)))
       (\<lambda>e. if archive_failure e then ret (answer [] [] [] [''archive_integrity''] ''incomplete'' None) else fail_with e)"

definition usable_cache :: "'z transport_runtime_scheme \<Rightarrow> services \<Rightarrow> transport \<Rightarrow> fetch_request \<Rightarrow> raw_record option act" where
  "usable_cache rt sv tp q =
     (case ft_cached q of
        None \<Rightarrow> ret None
      | Some r \<Rightarrow>
          handle (then_do (verify rt sv tp q r) (ret (if rr_successful r then Some r else None)))
            (\<lambda>e. if archive_failure e then ret None else fail_with e))"

end
