(* ===== verification/Fetch.thy ===== *)
theory Fetch
  imports Transport
begin

text \<open>
  \<open>SecTransport.fetch\<close>: one exchange with the source, the handlers around it, and the loop over at most three
  attempts.
\<close>

section \<open>One response\<close>

datatype flow = Return fetch_result | Next | Fall | Stop

definition not_modified :: "'z transport_runtime_scheme \<Rightarrow> services \<Rightarrow> transport \<Rightarrow> fetch_request \<Rightarrow> rat \<Rightarrow> uuid \<Rightarrow> flow act" where
  "not_modified rt sv tp q limit i =
     seq (look fs_validator) (\<lambda>v.
     case v of
       None \<Rightarrow>
         then_do (finish_now sv i ''transport_error'' None (Some ''invalid_not_modified'') (Some 304) (Some ''invalid_not_modified'')) (ret Next)
     | Some r \<Rightarrow>
         seq (handle (then_do (verify rt sv tp q r) (then_do (check_deadline sv limit) (ret True)))
                (\<lambda>e. if archive_failure e
                  then then_do (finish_now sv i ''transport_error'' None (Some ''invalid_not_modified'') (Some 304) (Some ''invalid_not_modified''))
                         (then_do (update (\<lambda>s. s\<lparr>fs_validator := None\<rparr>)) (ret False))
                  else fail_with e))
           (\<lambda>ok. if \<not> ok then ret Next
              else then_do (finish_now sv i ''not_modified'' (Some (rr_capture r)) None (Some 304) None)
                (look (\<lambda>s. Return (answer (fs_records s @ [r]) (fs_outcomes s) [rr_capture r] [] ''unknown'' None)))))"

text \<open>The body in the archive, with its capture identifier and the time at which it was complete.\<close>

definition archive_response ::
  "services \<Rightarrow> rat \<Rightarrow> nat \<Rightarrow> datetime \<Rightarrow> string option \<Rightarrow> http_response \<Rightarrow> (uuid \<times> archived_body \<times> datetime) act" where
  "archive_response sv limit max_bytes headers_at encoding r =
     seq (observe New_Id (sv_id sv)) (\<lambda>c.
     seq (case wire_length r of Inl e \<Rightarrow> fail_with e | Inr n \<Rightarrow> ret n) (\<lambda>n.
     seq (ask (Write_Body c headers_at max_bytes encoding n) (sv_write sv)) (\<lambda>body.
     then_do (check_deadline sv limit)
       (seq (observe Read_Time (sv_time sv)) (\<lambda>finished. ret (c, body, finished))))))"

text \<open>Every monitored entity is kept, and an unchanged one refers to the verified earlier capture.\<close>

definition monitored ::
  "'z transport_runtime_scheme \<Rightarrow> services \<Rightarrow> transport \<Rightarrow> fetch_request \<Rightarrow> raw_record option \<Rightarrow> uuid \<Rightarrow> int \<Rightarrow> archived_body \<Rightarrow> datetime \<Rightarrow> flow option act" where
  "monitored rt sv tp q cached i status body finished =
     (if ft_monitor q \<and> status = 200
      then then_do (ask (Read_Blob (ab_blob body) (ab_sha256 body) (ab_bytes body)) (sv_done sv))
        (then_do (ask (Payload i finished body) (sv_done sv))
          (case cached of
             None \<Rightarrow> ret None
           | Some c \<Rightarrow>
               if ab_sha256 body = rr_sha256 c \<and> ab_bytes body = rr_bytes c
               then then_do (verify rt sv tp q c)
                 (then_do (finish_now sv i ''content_unchanged'' (Some (rr_capture c)) None (Some 200) None)
                   (look (\<lambda>s. Some (Return (answer (fs_records s @ [c]) (fs_outcomes s) [rr_capture c] [] ''unknown'' None)))))
               else ret None))
      else ret None)"

definition capture_of ::
  "'z transport_runtime_scheme \<Rightarrow> transport \<Rightarrow> fetch_request \<Rightarrow> string \<Rightarrow> datetime \<Rightarrow> int \<Rightarrow> response_headers \<Rightarrow> uuid \<times> archived_body \<times> datetime \<Rightarrow> raw_record" where
  "capture_of rt tp q url requested_at status evidence stored =
     (case stored of (c, body, finished) \<Rightarrow>
       \<lparr>rr_capture = c, rr_source = sd_id (tp_descriptor tp), rr_object = object_key (ft_resource q), rr_url = url,
        rr_params = params_hash rt, rr_requested = requested_at, rr_fetched = finished, rr_completed = finished,
        rr_status = status, rr_sha256 = ab_sha256 body, rr_bytes = ab_bytes body, rr_blob = ab_blob body,
        rr_content_type = rh_content_type evidence, rr_policy = sd_policy (tp_descriptor tp), rr_terms = sd_terms (tp_descriptor tp),
        rr_etag = rh_etag evidence, rr_modified = rh_last_modified evidence\<rparr>)"

definition so_far :: "flow act" where
  "so_far = look (\<lambda>s. Return (answer (fs_records s) (fs_outcomes s) [] [] ''unknown'' None))"

definition gap_flow :: "string \<Rightarrow> rat option \<Rightarrow> flow act" where
  "gap_flow reason eligible = seq (gap reason eligible) (\<lambda>r. ret (Return r))"

definition completed :: "services \<Rightarrow> uuid \<Rightarrow> raw_record \<Rightarrow> flow act" where
  "completed sv i capture =
     then_do (finish sv i ''complete'' (rr_completed capture) (Some capture) None None)
     (then_do (add_outcome i ''complete'' (Some (rr_status capture)) None) (then_do (add_record capture) so_far))"

definition redirected :: "services \<Rightarrow> uuid \<Rightarrow> nat \<Rightarrow> string option \<Rightarrow> raw_record \<Rightarrow> flow act" where
  "redirected sv i sequence target capture =
     (case (if sequence < 3 then target else None) of
        None \<Rightarrow>
          then_do (finish sv i ''redirect_refused'' (rr_completed capture) (Some capture) None (Some ''redirect_refused''))
          (then_do (add_outcome i ''redirect_refused'' (Some (rr_status capture)) None)
          (then_do (add_record capture) (gap_flow ''redirect_refused'' None)))
      | Some t \<Rightarrow>
          then_do (finish sv i ''redirected'' (rr_completed capture) (Some capture) None None)
          (then_do (add_outcome i ''redirected'' (Some (rr_status capture)) None)
          (then_do (add_record capture) (then_do (update (\<lambda>s. s\<lparr>fs_url := t, fs_validator := None\<rparr>)) (ret Next)))))"

definition retryable :: "int \<Rightarrow> bool" where
  "retryable status = (status \<in> {408, 429, 500, 502, 503, 504})"

definition after_error :: "int \<Rightarrow> flow act" where
  "after_error status = (if retryable status then ret Fall else gap_flow ''http_error'' None)"

definition quiet_time :: "int \<Rightarrow> rat \<Rightarrow> rat" where
  "quiet_time status d = (if status = 403 then max 600 d else if status = 429 then max 1 d else d)"

definition respect_delay :: "services \<Rightarrow> rat \<Rightarrow> int \<Rightarrow> rat \<Rightarrow> flow act" where
  "respect_delay sv deadline status d =
     (if status \<notin> {403, 429} \<and> d = 0 then after_error status
      else seq (ask (Cooldown (Number (quiet_time status d))) (sv_cooldown sv)) (\<lambda>eligible.
        if status = 403 then gap_flow ''source_access_deferred'' (Some eligible)
        else seq (observe Read_Clock (sv_clock sv)) (\<lambda>t.
          if deadline \<le> t + quiet_time status d then gap_flow ''source_access_deferred'' (Some eligible) else after_error status)))"

definition http_error ::
  "'z transport_runtime_scheme \<Rightarrow> services \<Rightarrow> rat \<Rightarrow> uuid \<Rightarrow> string option \<Rightarrow> raw_record \<Rightarrow> flow act" where
  "http_error rt sv deadline i retry_after capture =
     then_do (finish sv i ''http_error'' (rr_completed capture) (Some capture) None None)
     (then_do (add_record capture)
     (then_do (add_outcome i ''http_error'' (Some (rr_status capture)) None)
     (seq (observe Read_Time (sv_time sv)) (\<lambda>now.
       case retry_after_seconds rt retry_after now of
         Number d \<Rightarrow> respect_delay sv deadline (rr_status capture) d
       | _ \<Rightarrow> then_do (ask (Cooldown (Infinite True)) (sv_cooldown sv)) (gap_flow ''retry_after_requires_review'' None)))))"

definition body_limit :: "transport \<Rightarrow> fetch_request \<Rightarrow> nat" where
  "body_limit tp q = (if sr_kind (ft_resource q) = FILING_DOCUMENT then tp_document_limit tp else tp_json_limit tp)"

definition record_capture ::
  "'z transport_runtime_scheme \<Rightarrow> services \<Rightarrow> transport \<Rightarrow> fetch_request \<Rightarrow> rat \<Rightarrow> uuid \<Rightarrow> nat \<Rightarrow> string option \<Rightarrow> string \<Rightarrow> datetime \<Rightarrow> int \<Rightarrow> response_headers \<Rightarrow> uuid \<times> archived_body \<times> datetime \<Rightarrow> flow act" where
  "record_capture rt sv tp q deadline i sequence target url requested_at status evidence stored =
     (case mk_raw_record (capture_of rt tp q url requested_at status evidence stored) of
        Inl e \<Rightarrow> fail_with Other
      | Inr capture \<Rightarrow>
          if 200 \<le> status \<and> status < 300 then completed sv i capture
          else if 300 \<le> status \<and> status < 400 then redirected sv i sequence target capture
          else http_error rt sv deadline i (rh_retry_after evidence) capture)"

definition read_response ::
  "'z transport_runtime_scheme \<Rightarrow> services \<Rightarrow> transport \<Rightarrow> fetch_request \<Rightarrow> raw_record option \<Rightarrow> rat \<Rightarrow> rat \<Rightarrow> nat \<Rightarrow> uuid \<Rightarrow> datetime \<Rightarrow> http_response \<Rightarrow> flow act" where
  "read_response rt sv tp q cached deadline limit sequence i requested_at r =
     then_do (update (\<lambda>s. s\<lparr>fs_status := Some (hr_status r)\<rparr>))
     (seq (observe Read_Time (sv_time sv)) (\<lambda>headers_at.
      seq (look fs_url) (\<lambda>url.
      let target = redirect_target rt (ft_resource q) url r in
      case header_evidence r target of
        Inl e \<Rightarrow> then_do (ask (Record_Headers i headers_at (hr_status r) no_headers) (sv_done sv)) (fail_with e)
      | Inr evidence \<Rightarrow>
          then_do (ask (Record_Headers i headers_at (hr_status r) evidence) (sv_done sv))
          (then_do (check_deadline sv limit)
          (if hr_status r = 304 then not_modified rt sv tp q limit i
           else seq (archive_response sv limit (body_limit tp q) headers_at (rh_content_encoding evidence) r) (\<lambda>stored.
             seq (monitored rt sv tp q cached i (hr_status r) (fst (snd stored)) (snd (snd stored))) (\<lambda>done.
             case done of
               Some f \<Rightarrow> ret f
             | None \<Rightarrow>
                 record_capture rt sv tp q deadline i sequence target url requested_at (hr_status r) evidence stored)))))))"

section \<open>One attempt\<close>

definition cancel :: "services \<Rightarrow> uuid \<Rightarrow> string \<Rightarrow> rat option \<Rightarrow> flow act" where
  "cancel sv i reason eligible =
     then_do (finish_now sv i ''cancelled'' None (Some reason) None (Some reason)) (gap_flow reason eligible)"

text \<open>The reason and the next time of a permit that was not granted.\<close>

definition permit_refused :: "failure \<Rightarrow> (string \<times> rat option) option" where
  "permit_refused e =
     (case e of
        Limited (RateDeferred t) \<Rightarrow> Some (''rate_deferred'', Some t)
      | Limited PermitExpired \<Rightarrow> Some (''permit_expired'', None)
      | Limited CoordinationUnavailable \<Rightarrow> Some (''coordination_unavailable'', None)
      | _ \<Rightarrow> None)"

definition start_attempt :: "services \<Rightarrow> rat \<Rightarrow> uuid \<Rightarrow> (flow + datetime) act" where
  "start_attempt sv deadline i =
     handle
       (then_do (ask (Acquire deadline) (sv_done sv))
       (then_do (ask Guard (sv_done sv))
       (seq (observe Read_Time (sv_time sv)) (\<lambda>requested_at.
        then_do (ask (Dispatched i requested_at) (sv_done sv)) (ret (Inr requested_at))))))
       (\<lambda>e. case permit_refused e of
          None \<Rightarrow> fail_with e
        | Some (reason, eligible) \<Rightarrow> seq (cancel sv i reason eligible) (\<lambda>f. ret (Inl f)))"

text \<open>Nothing happens between the confirmation of the permit and the request.\<close>

definition exchange ::
  "'z transport_runtime_scheme \<Rightarrow> services \<Rightarrow> transport \<Rightarrow> fetch_request \<Rightarrow> raw_record option \<Rightarrow> rat \<Rightarrow> rat \<Rightarrow> nat \<Rightarrow> uuid \<Rightarrow> datetime \<Rightarrow> flow act" where
  "exchange rt sv tp q cached deadline limit sequence i requested_at =
     then_do (check_deadline sv limit)
     (seq (handle (then_do (ask Confirm (sv_done sv)) (ret None))
            (\<lambda>e. if e \<in> {Limited CoordinationUnavailable, Limited PermitExpired}
               then seq (cancel sv i (if e = Limited PermitExpired then ''permit_expired'' else ''coordination_unavailable'') None) (\<lambda>f. ret (Some f))
               else fail_with e))
       (\<lambda>refused. case refused of
          Some f \<Rightarrow> ret f
        | None \<Rightarrow>
            seq (look (\<lambda>s. (fs_url s, request_headers tp (sr_kind (ft_resource q)) (fs_validator s)))) (\<lambda>(url, headers).
            seq (ask (Send url headers) (sv_send sv))
              (read_response rt sv tp q cached deadline limit sequence i requested_at))))"

definition failed_exchange :: "services \<Rightarrow> uuid \<Rightarrow> failure \<Rightarrow> flow act" where
  "failed_exchange sv i e =
     seq (look fs_status) (\<lambda>status.
     if e \<in> {Transport_Error, Deadline, Transfer_Incomplete}
     then then_do (finish_now sv i ''transport_error'' None
            (Some (if e = Deadline then ''dispatch_deadline'' else ''transfer_incomplete'')) status
            (Some (if e = Deadline then ''dispatch_deadline'' else ''transfer_incomplete''))) (ret Fall)
     else if archive_failure e \<or> e = Os_Error
     then (let outcome = (if e = Body_Limit then ''body_limit'' else if e = Decoding then ''transport_error'' else ''archive_error'') in
       then_do (finish_now sv i outcome None (Some outcome) status (Some outcome)) (gap_flow outcome None))
     else fail_with e)"

definition unit_jitter :: "duration \<Rightarrow> rat" where
  "unit_jitter d = (case d of Not_A_Number \<Rightarrow> 1 | Infinite positive \<Rightarrow> (if positive then 1 else 0) | Number x \<Rightarrow> max 0 (min 1 x))"

definition backoff :: "services \<Rightarrow> rat \<Rightarrow> nat \<Rightarrow> flow act" where
  "backoff sv deadline sequence =
     (if 3 \<le> sequence then ret Next
      else seq (observe Jitter (sv_jitter sv)) (\<lambda>j.
        seq (observe Read_Clock (sv_clock sv)) (\<lambda>t.
        let delay = 2 ^ (sequence - 1) + unit_jitter j in
        if deadline \<le> t + delay then ret Stop
        else then_do (ask (Sleep delay) (sv_done sv)) (ret Next))))"

definition attempt_fetch ::
  "'z transport_runtime_scheme \<Rightarrow> services \<Rightarrow> transport \<Rightarrow> fetch_request \<Rightarrow> raw_record option \<Rightarrow> rat \<Rightarrow> nat \<Rightarrow> flow act" where
  "attempt_fetch rt sv tp q cached deadline sequence =
     then_do (update (\<lambda>s. s\<lparr>fs_status := None\<rparr>))
     (seq (look (\<lambda>s. Prepare sequence (fs_url s) (map_option rr_capture (fs_validator s)))) (\<lambda>prepare.
      seq (ask prepare (sv_prepare sv)) (\<lambda>i.
      seq (start_attempt sv deadline i) (\<lambda>started.
      case started of
        Inl f \<Rightarrow> ret f
      | Inr requested_at \<Rightarrow>
          seq (observe Read_Clock (sv_clock sv)) (\<lambda>t0.
          seq (observe Read_Clock (sv_clock sv)) (\<lambda>t1.
          seq (handle (exchange rt sv tp q cached deadline (min deadline (t0 + 120)) sequence i requested_at) (failed_exchange sv i))
            (\<lambda>f. if f = Fall then backoff sv deadline sequence else ret f)))))))"

section \<open>The fetch\<close>

fun attempts_from ::
  "'z transport_runtime_scheme \<Rightarrow> services \<Rightarrow> transport \<Rightarrow> fetch_request \<Rightarrow> raw_record option \<Rightarrow> rat \<Rightarrow> nat list \<Rightarrow> fetch_result act" where
  "attempts_from rt sv tp q cached deadline [] = gap ''dispatch_budget_exhausted'' None"
| "attempts_from rt sv tp q cached deadline (n # ns) =
     seq (attempt_fetch rt sv tp q cached deadline n) (\<lambda>f.
     case f of
       Return r \<Rightarrow> ret r
     | Stop \<Rightarrow> gap ''dispatch_budget_exhausted'' None
     | _ \<Rightarrow> attempts_from rt sv tp q cached deadline ns)"

definition fresh :: "services \<Rightarrow> transport \<Rightarrow> fetch_request \<Rightarrow> raw_record option \<Rightarrow> raw_record option act" where
  "fresh sv tp q cached =
     (case cached of
        None \<Rightarrow> ret None
      | Some r \<Rightarrow>
          if ft_mode q \<noteq> ''reuse'' then ret None
          else seq (observe Read_Time (sv_time sv)) (\<lambda>now.
            ret (if instant now - instant (rr_fetched r) \<le> sd_freshness (tp_descriptor tp) then Some r else None)))"

definition live_attempts ::
  "'z transport_runtime_scheme \<Rightarrow> services \<Rightarrow> transport \<Rightarrow> fetch_request \<Rightarrow> raw_record option \<Rightarrow> rat \<Rightarrow> fetch_result act" where
  "live_attempts rt sv tp q cached deadline =
     handle
       (then_do (ask Guard (sv_done sv))
       (seq (fresh sv tp q cached) (\<lambda>hit.
        case hit of
          Some r \<Rightarrow> ret (answer [r] [] [rr_capture r] [] ''unknown'' None)
        | None \<Rightarrow> attempts_from rt sv tp q cached deadline [1, 2, 3])))
       (\<lambda>e. if e = Lease_Lost then gap ''lease_lost'' None
          else if e = Limited CoordinationUnavailable then gap ''coordination_unavailable'' None
          else fail_with e)"

definition conditional_validator :: "fetch_request \<Rightarrow> raw_record option \<Rightarrow> raw_record option" where
  "conditional_validator q cached =
     (if ft_mode q \<noteq> ''conditional'' then None
      else case cached of
        None \<Rightarrow> None
      | Some r \<Rightarrow> if nonempty (rr_etag r) \<or> nonempty (rr_modified r) then Some r else None)"

definition seconds_left :: "lease \<Rightarrow> datetime \<Rightarrow> rat" where
  "seconds_left l now = max 0 (of_int (instant (ls_expires l) - instant now) / 1000000)"

definition live :: "'z transport_runtime_scheme \<Rightarrow> services \<Rightarrow> transport \<Rightarrow> fetch_request \<Rightarrow> fetch_result act" where
  "live rt sv tp q =
     seq (usable_cache rt sv tp q) (\<lambda>cached.
     case ft_lease q of
       None \<Rightarrow> fail_with Other
     | Some l \<Rightarrow>
         seq (observe Read_Time (sv_time sv)) (\<lambda>now.
         seq (observe Read_Clock (sv_clock sv)) (\<lambda>t.
         then_do (update (\<lambda>s. s\<lparr>fs_validator := conditional_validator q cached\<rparr>))
           (live_attempts rt sv tp q cached (t + min 360 (seconds_left l now))))))"

definition start_fetch :: "fetch_request \<Rightarrow> fetch_state" where
  "start_fetch q = \<lparr>fs_calls = [], fs_url = resource_url (ft_resource q), fs_validator = None, fs_records = [], fs_outcomes = [], fs_status = None\<rparr>"

definition fetch :: "'z transport_runtime_scheme \<Rightarrow> services \<Rightarrow> transport \<Rightarrow> fetch_request \<Rightarrow> (failure + fetch_result) \<times> fetch_state" where
  "fetch rt sv tp q =
     (if sr_kind (ft_resource q) \<notin> set (sd_kinds (tp_descriptor tp)) then (Inl Other, start_fetch q)
      else if ft_mode q = ''replay'' then replay rt sv tp q (start_fetch q)
      else live rt sv tp q (start_fetch q))"

end
