(* ===== verification/Fetch_Logic.thy ===== *)
theory Fetch_Logic
  imports Fetch "HOL-Library.Sublist"
begin

text \<open>
  Weakest preconditions for the acts of a fetch, and the three things that its theorems follow through the log:
  the protocol before each request, the book of attempts, and where records come from.
\<close>

section \<open>Weakest preconditions\<close>

definition wp :: "'a act \<Rightarrow> ('a \<Rightarrow> fetch_state \<Rightarrow> bool) \<Rightarrow> (failure \<Rightarrow> fetch_state \<Rightarrow> bool) \<Rightarrow> fetch_state \<Rightarrow> bool" where
  "wp m Q E s = (case m s of (Inl e, t) \<Rightarrow> E e t | (Inr x, t) \<Rightarrow> Q x t)"

lemma wp_ret [simp]: "wp (ret x) Q E s = Q x s"
  by (simp add: wp_def ret_def)

lemma wp_fail_with [simp]: "wp (fail_with e) Q E s = E e s"
  by (simp add: wp_def fail_with_def)

lemma wp_seq [simp]: "wp (seq m k) Q E s = wp m (\<lambda>x. wp (k x) Q E) E s"
  by (auto simp: wp_def seq_def split: prod.splits sum.splits)

lemma wp_then_do [simp]: "wp (then_do m k) Q E s = wp m (\<lambda>_. wp k Q E) E s"
  by (simp add: then_do_def)

lemma wp_handle [simp]: "wp (handle m h) Q E s = wp m Q (\<lambda>e. wp (h e) Q E) s"
  by (auto simp: wp_def handle_def split: prod.splits sum.splits)

lemma wp_look [simp]: "wp (look f) Q E s = Q (f s) s"
  by (simp add: wp_def look_def)

lemma wp_update [simp]: "wp (update f) Q E s = Q () (f s)"
  by (simp add: wp_def update_def)

definition logged :: "fetch_call \<Rightarrow> fetch_state \<Rightarrow> fetch_state" where
  "logged c s = s\<lparr>fs_calls := c # fs_calls s\<rparr>"

lemma logged_fields [simp]:
  "fs_calls (logged c s) = c # fs_calls s" "fs_url (logged c s) = fs_url s" "fs_validator (logged c s) = fs_validator s"
  "fs_records (logged c s) = fs_records s" "fs_outcomes (logged c s) = fs_outcomes s" "fs_status (logged c s) = fs_status s"
  by (simp_all add: logged_def)

lemma wp_ask [simp]:
  "wp (ask c f) Q E s = (case f (c # fs_calls s) of Inl e \<Rightarrow> E e (logged c s) | Inr x \<Rightarrow> Q x (logged c s))"
  by (simp add: wp_def ask_def Let_def logged_def split: sum.split)

lemma wp_observe [simp]: "wp (observe c f) Q E s = Q (f (c # fs_calls s)) (logged c s)"
  by (simp add: observe_def)

lemma wp_mono:
  assumes "wp m Q E s" "\<And>x t. Q x t \<Longrightarrow> Q' x t" "\<And>e t. E e t \<Longrightarrow> E' e t"
  shows "wp m Q' E' s"
  using assms by (auto simp: wp_def split: prod.splits sum.splits)

lemma wp_case_option [simp]:
  "wp (case v of None \<Rightarrow> m | Some x \<Rightarrow> k x) Q E s = (case v of None \<Rightarrow> wp m Q E s | Some x \<Rightarrow> wp (k x) Q E s)"
  by (cases v) simp_all

lemma wp_case_sum [simp]:
  "wp (case v of Inl x \<Rightarrow> m x | Inr y \<Rightarrow> k y) Q E s = (case v of Inl x \<Rightarrow> wp (m x) Q E s | Inr y \<Rightarrow> wp (k y) Q E s)"
  by (cases v) simp_all

lemma wp_if [simp]: "wp (if b then m else k) Q E s = (if b then wp m Q E s else wp k Q E s)"
  by simp

section \<open>The log\<close>

text \<open>The attempts that were opened, and those that were closed with an outcome, oldest first.\<close>

fun opened :: "services \<Rightarrow> fetch_call list \<Rightarrow> uuid list" where
  "opened sv [] = []"
| "opened sv (c # cs) =
     opened sv cs @ (case c of Prepare _ _ _ \<Rightarrow> (case sv_prepare sv (c # cs) of Inr i \<Rightarrow> [i] | Inl _ \<Rightarrow> []) | _ \<Rightarrow> [])"

fun book_closed :: "services \<Rightarrow> fetch_call list \<Rightarrow> (uuid \<times> string) list" where
  "book_closed sv [] = []"
| "book_closed sv (c # cs) =
     book_closed sv cs @ (case c of Finish i outcome _ _ _ _ \<Rightarrow> (case sv_done sv (c # cs) of Inr _ \<Rightarrow> [(i, outcome)] | Inl _ \<Rightarrow> []) | _ \<Rightarrow> [])"

definition told :: "attempt_outcome list \<Rightarrow> (uuid \<times> string) list" where
  "told os = map (\<lambda>a. (ao_id a, ao_outcome a)) os"

lemma told_simps [simp]: "told [] = []" "told (os @ ps) = told os @ told ps" "told (a # os) = (ao_id a, ao_outcome a) # told os"
  by (simp_all add: told_def)

definition balanced :: "services \<Rightarrow> fetch_state \<Rightarrow> bool" where
  "balanced sv s \<longleftrightarrow> book_closed sv (fs_calls s) = told (fs_outcomes s) \<and> map fst (book_closed sv (fs_calls s)) = opened sv (fs_calls s)"

definition pending :: "services \<Rightarrow> uuid \<Rightarrow> fetch_state \<Rightarrow> bool" where
  "pending sv i s \<longleftrightarrow> book_closed sv (fs_calls s) = told (fs_outcomes s) \<and> opened sv (fs_calls s) = map fst (book_closed sv (fs_calls s)) @ [i]"

text \<open>
  A request leaves only after its attempt was prepared, a permit granted, the lease and policy checked, the dispatch
  recorded, the deadline checked and the permit confirmed, in this order and each with success.
\<close>

definition ready :: "services \<Rightarrow> rat \<Rightarrow> fetch_call list \<Rightarrow> bool" where
  "ready sv deadline cs \<longleftrightarrow>
     (\<exists>i now n u v rest.
        let prepared = Prepare n u v # rest; acquired = Acquire deadline # prepared; guarded = Guard # acquired; timed = Read_Time # guarded in
        cs = Dispatched i now # timed \<and> sv_prepare sv prepared = Inr i \<and> sv_done sv acquired = Inr () \<and> sv_done sv guarded = Inr ()
        \<and> sv_time sv timed = now \<and> sv_done sv cs = Inr ())"

definition cleared :: "services \<Rightarrow> rat \<Rightarrow> fetch_call list \<Rightarrow> bool" where
  "cleared sv deadline cs \<longleftrightarrow>
     (\<exists>rest. cs = Confirm # Read_Clock # Read_Clock # Read_Clock # rest \<and> ready sv deadline rest
        \<and> sv_clock sv (tl cs) < deadline \<and> sv_done sv cs = Inr ())"

fun disciplined :: "services \<Rightarrow> string \<Rightarrow> rat \<Rightarrow> fetch_call list \<Rightarrow> bool" where
  "disciplined sv url deadline [] \<longleftrightarrow> True"
| "disciplined sv url deadline (c # cs) \<longleftrightarrow>
     disciplined sv url deadline cs \<and> (case c of Send u _ \<Rightarrow> u = url \<and> cleared sv deadline cs | _ \<Rightarrow> True)"

fun is_send :: "fetch_call \<Rightarrow> bool" where
  "is_send (Send _ _) = True"
| "is_send _ = False"

fun is_prepare :: "fetch_call \<Rightarrow> bool" where
  "is_prepare (Prepare _ _ _) = True"
| "is_prepare _ = False"

text \<open>At most as many requests as prepared attempts.\<close>

lemma sends_le_prepares:
  "disciplined sv url deadline cs \<Longrightarrow> length (filter is_send cs) \<le> length (filter is_prepare cs)"
proof (induction cs rule: length_induct)
  case (1 cs)
  show ?case
  proof (cases cs)
    case (Cons c ds)
    show ?thesis
    proof (cases "is_send c")
      case False
      then show ?thesis using 1 Cons by (cases "is_prepare c") auto
    next
      case True
      then obtain u h where c: "c = Send u h" by (cases c) auto
      then have d: "disciplined sv url deadline ds" "cleared sv deadline ds" using 1(2) Cons by auto
      obtain i now n u' v rest where r:
        "ds = Confirm # Read_Clock # Read_Clock # Read_Clock # Dispatched i now # Read_Time # Guard # Acquire deadline # Prepare n u' v # rest"
        using d(2) unfolding cleared_def ready_def Let_def by blast
      have "disciplined sv url deadline rest" using d(1) by (simp add: r)
      moreover have "length rest < length cs" by (simp add: r Cons)
      ultimately have "length (filter is_send rest) \<le> length (filter is_prepare rest)" using 1(1) by blast
      then show ?thesis by (simp add: Cons c r)
    qed
  qed simp
qed

section \<open>Where records come from\<close>

fun ever :: "(fetch_call list \<Rightarrow> bool) \<Rightarrow> fetch_call list \<Rightarrow> bool" where
  "ever P [] \<longleftrightarrow> False"
| "ever P (c # cs) \<longleftrightarrow> P (c # cs) \<or> ever P cs"

text \<open>The bytes of a record were checked against the archive, or archived, in this fetch.\<close>

definition rechecked :: "services \<Rightarrow> raw_record \<Rightarrow> fetch_call list \<Rightarrow> bool" where
  "rechecked sv r cs \<longleftrightarrow>
     (\<exists>rest. cs = Read_Blob (rr_blob r) (rr_sha256 r) (rr_bytes r) # Validate_Record (rr_capture r) # rest
        \<and> sv_done sv cs = Inr () \<and> sv_done sv (tl cs) = Inr ())"

definition written :: "services \<Rightarrow> uuid \<Rightarrow> archived_body \<Rightarrow> fetch_call list \<Rightarrow> bool" where
  "written sv c body cs \<longleftrightarrow>
     (\<exists>since limit encoding n rest. cs = Write_Body c since limit encoding n # rest \<and> sv_write sv cs = Inr body)"

definition archived :: "services \<Rightarrow> raw_record \<Rightarrow> fetch_call list \<Rightarrow> bool" where
  "archived sv r = written sv (rr_capture r) \<lparr>ab_blob = rr_blob r, ab_sha256 = rr_sha256 r, ab_bytes = rr_bytes r\<rparr>"

definition of_resource :: "'z transport_runtime_scheme \<Rightarrow> transport \<Rightarrow> fetch_request \<Rightarrow> raw_record \<Rightarrow> bool" where
  "of_resource rt tp q r \<longleftrightarrow>
     rr_source r = sd_id (tp_descriptor tp) \<and> rr_object r = object_key (ft_resource q) \<and> rr_params r = params_hash rt
     \<and> rr_url r = resource_url (ft_resource q)"

definition vouched :: "'z transport_runtime_scheme \<Rightarrow> services \<Rightarrow> transport \<Rightarrow> fetch_request \<Rightarrow> fetch_call list \<Rightarrow> raw_record \<Rightarrow> bool" where
  "vouched rt sv tp q cs r \<longleftrightarrow> of_resource rt tp q r \<and> (ever (rechecked sv r) cs \<or> ever (archived sv r) cs)"

lemma vouched_logged: "vouched rt sv tp q cs r \<Longrightarrow> vouched rt sv tp q (c # cs) r"
  by (auto simp: vouched_def)

end
