(* ===== verification/Fetch_Properties.thy ===== *)
theory Fetch_Properties
  imports Fetch_Logic
begin

text \<open>
  What a fetch promises, whatever its services answer: the protocol before each request, the book of attempts, and
  that every record handed over was checked or archived.
\<close>

section \<open>What holds throughout\<close>

definition cache_ok :: "'z transport_runtime_scheme \<Rightarrow> services \<Rightarrow> transport \<Rightarrow> fetch_request \<Rightarrow> raw_record option \<Rightarrow> fetch_call list \<Rightarrow> bool" where
  "cache_ok rt sv tp q cached cs \<longleftrightarrow> (\<forall>r. cached = Some r \<longrightarrow> rr_successful r \<and> vouched rt sv tp q cs r)"

definition good :: "'z transport_runtime_scheme \<Rightarrow> services \<Rightarrow> transport \<Rightarrow> fetch_request \<Rightarrow> raw_record option \<Rightarrow> rat \<Rightarrow> nat \<Rightarrow> fetch_call list \<Rightarrow> fetch_state \<Rightarrow> bool" where
  "good rt sv tp q cached deadline k base s \<longleftrightarrow>
     fs_url s = resource_url (ft_resource q) \<and> disciplined sv (resource_url (ft_resource q)) deadline (fs_calls s)
     \<and> (\<forall>r\<in>set (fs_records s). vouched rt sv tp q (fs_calls s) r) \<and> fs_validator s \<in> {None, cached}
     \<and> cache_ok rt sv tp q cached (fs_calls s) \<and> length (filter is_prepare (fs_calls s)) \<le> k \<and> suffix base (fs_calls s)"

lemma cache_ok_logged: "cache_ok rt sv tp q cached cs \<Longrightarrow> cache_ok rt sv tp q cached (c # cs)"
  by (auto simp: cache_ok_def vouched_logged)

lemma good_logged [simp, intro]: "good rt sv tp q cached deadline k base s \<Longrightarrow> \<not> is_send c \<Longrightarrow> \<not> is_prepare c \<Longrightarrow> good rt sv tp q cached deadline k base (logged c s)"
  by (cases c) (auto simp: good_def vouched_logged cache_ok_logged suffix_ConsI)

lemma good_update [simp]:
  "good rt sv tp q cached deadline k base (s\<lparr>fs_outcomes := os\<rparr>) = good rt sv tp q cached deadline k base s"
  "good rt sv tp q cached deadline k base (s\<lparr>fs_status := st\<rparr>) = good rt sv tp q cached deadline k base s"
  by (simp_all add: good_def)

lemma good_validator: "good rt sv tp q cached deadline k base s \<Longrightarrow> good rt sv tp q cached deadline k base (s\<lparr>fs_validator := None\<rparr>)"
  by (simp add: good_def)

lemma good_target:
  "good rt sv tp q cached deadline k base s \<Longrightarrow> good rt sv tp q cached deadline k base (s\<lparr>fs_url := resource_url (ft_resource q), fs_validator := None\<rparr>)"
  by (simp add: good_def)

lemma good_record:
  "good rt sv tp q cached deadline k base s \<Longrightarrow> vouched rt sv tp q (fs_calls s) r \<Longrightarrow>
     good rt sv tp q cached deadline k base (s\<lparr>fs_records := fs_records s @ [r]\<rparr>)"
  by (auto simp: good_def)

text \<open>Answers that change nothing in the book of attempts.\<close>

fun neutral :: "fetch_call \<Rightarrow> bool" where
  "neutral (Prepare _ _ _) = False"
| "neutral (Finish _ _ _ _ _ _) = False"
| "neutral _ = True"

lemma book_logged [simp]:
  "neutral c \<Longrightarrow> balanced sv (logged c s) = balanced sv s" "neutral c \<Longrightarrow> pending sv i (logged c s) = pending sv i s"
  by (cases c; simp add: balanced_def pending_def)+

lemma book_update [simp]:
  "balanced sv (s\<lparr>fs_status := st\<rparr>) = balanced sv s" "pending sv i (s\<lparr>fs_status := st\<rparr>) = pending sv i s"
  "balanced sv (s\<lparr>fs_validator := v\<rparr>) = balanced sv s" "pending sv i (s\<lparr>fs_validator := v\<rparr>) = pending sv i s"
  "balanced sv (s\<lparr>fs_url := u\<rparr>) = balanced sv s" "balanced sv (s\<lparr>fs_url := u, fs_validator := v\<rparr>) = balanced sv s"
  "balanced sv (s\<lparr>fs_records := rs, fs_outcomes := os\<rparr>) = balanced sv (s\<lparr>fs_outcomes := os\<rparr>)"
  "balanced sv (s\<lparr>fs_records := rs\<rparr>) = balanced sv s" "pending sv i (s\<lparr>fs_records := rs\<rparr>) = pending sv i s"
  by (simp_all add: balanced_def pending_def)

text \<open>Closing a pending attempt and telling its outcome restores the balance; a refused closing leaves it pending.\<close>

lemma finish_book:
  assumes "pending sv i s"
  shows "sv_done sv (Finish i w now r x y # fs_calls s) = Inl e \<Longrightarrow> pending sv i (logged (Finish i w now r x y) s)"
    "sv_done sv (Finish i w now r x y # fs_calls s) = Inr u \<Longrightarrow>
       balanced sv (logged (Finish i w now r x y) s\<lparr>fs_outcomes := fs_outcomes s @ [\<lparr>ao_id = i, ao_outcome = w, ao_status = st, ao_reason = z\<rparr>]\<rparr>)"
  using assms by (simp_all add: pending_def balanced_def)

section \<open>Closing steps\<close>

definition result_ok :: "'z transport_runtime_scheme \<Rightarrow> services \<Rightarrow> transport \<Rightarrow> fetch_request \<Rightarrow> fetch_result \<Rightarrow> fetch_state \<Rightarrow> bool" where
  "result_ok rt sv tp q r s \<longleftrightarrow>
     (\<forall>x\<in>set (fr_records r). vouched rt sv tp q (fs_calls s) x) \<and> fr_attempts r = fs_outcomes s
     \<and> (fr_gaps r = [] \<longrightarrow> fr_records r \<noteq> [] \<and> rr_successful (last (fr_records r)))"

definition flow_ok :: "'z transport_runtime_scheme \<Rightarrow> services \<Rightarrow> transport \<Rightarrow> fetch_request \<Rightarrow> flow \<Rightarrow> fetch_state \<Rightarrow> bool" where
  "flow_ok rt sv tp q f s \<longleftrightarrow> (case f of Return r \<Rightarrow> result_ok rt sv tp q r s | _ \<Rightarrow> True)"

definition settled where
  "settled rt sv tp q cached deadline k base f s \<longleftrightarrow> good rt sv tp q cached deadline k base s \<and> balanced sv s \<and> flow_ok rt sv tp q f s"

text \<open>An exception either leaves the attempt open, or comes from the limiter after the attempt was closed.\<close>

definition broken where
  "broken rt sv tp q cached deadline k base i e s \<longleftrightarrow>
     good rt sv tp q cached deadline k base s \<and> (pending sv i s \<or> balanced sv s \<and> (\<exists>l. e = Limited l))"

lemma flow_ok_simps [simp]: "flow_ok rt sv tp q Next s" "flow_ok rt sv tp q Fall s" "flow_ok rt sv tp q Stop s"
  "flow_ok rt sv tp q (Return r) s = result_ok rt sv tp q r s"
  by (simp_all add: flow_ok_def)

lemma wp_gap_flow:
  assumes "good rt sv tp q cached deadline k base s" "balanced sv s"
  shows "wp (gap_flow reason eligible) (settled rt sv tp q cached deadline k base) E s"
  using assms by (auto simp: gap_flow_def gap_def settled_def result_ok_def answer_def good_def)

lemma wp_finish_now:
  assumes "good rt sv tp q cached deadline k base s" "pending sv i s"
    and "\<And>t. good rt sv tp q cached deadline k base t \<Longrightarrow> balanced sv t \<Longrightarrow> Q () t"
    and "\<And>e t. good rt sv tp q cached deadline k base t \<Longrightarrow> pending sv i t \<Longrightarrow> E e t"
  shows "wp (finish_now sv i w reused failure st reason) Q E s"
  using assms finish_book[of sv i "logged Read_Time s"]
  by (auto simp: finish_now_def finish_def add_outcome_def split: sum.split)

lemma wp_verify:
  assumes "good rt sv tp q cached deadline k base s" "pending sv i s"
    and "\<And>t. good rt sv tp q cached deadline k base t \<Longrightarrow> pending sv i t \<Longrightarrow> Q () t"
    and "\<And>e t. good rt sv tp q cached deadline k base t \<Longrightarrow> pending sv i t \<Longrightarrow> E e t"
  shows "wp (verify rt sv tp q r) Q E s"
  using assms by (auto simp: verify_def split: sum.split)

lemma wp_check_deadline:
  assumes "good rt sv tp q cached deadline k base s" "pending sv i s"
    and "\<And>t. good rt sv tp q cached deadline k base t \<Longrightarrow> pending sv i t \<Longrightarrow> Q () t"
    and "\<And>e t. good rt sv tp q cached deadline k base t \<Longrightarrow> pending sv i t \<Longrightarrow> E e t"
  shows "wp (check_deadline sv limit) Q E s"
  using assms by (auto simp: check_deadline_def)

lemma brokenI: "good rt sv tp q cached deadline k base s \<Longrightarrow> pending sv i s \<Longrightarrow> broken rt sv tp q cached deadline k base i e s"
  by (simp add: broken_def)

lemma settledI: "good rt sv tp q cached deadline k base s \<Longrightarrow> balanced sv s \<Longrightarrow> flow_ok rt sv tp q f s \<Longrightarrow> settled rt sv tp q cached deadline k base f s"
  by (simp add: settled_def)

lemma reused_ok:
  assumes "good rt sv tp q cached deadline k base s" "cached = Some r"
  shows "result_ok rt sv tp q (answer (fs_records s @ [r]) (fs_outcomes s) [rr_capture r] [] ''unknown'' None) s"
  using assms by (auto simp: result_ok_def answer_def good_def cache_ok_def)

lemma gap_ok:
  "good rt sv tp q cached deadline k base s \<Longrightarrow> result_ok rt sv tp q (answer (fs_records s) (fs_outcomes s) [] [reason] ''incomplete'' eligible) s"
  by (auto simp: result_ok_def answer_def good_def)

lemma wp_not_modified:
  assumes g: "good rt sv tp q cached deadline k base s" and p: "pending sv i s"
  shows "wp (not_modified rt sv tp q limit i) (settled rt sv tp q cached deadline k base) (broken rt sv tp q cached deadline k base i) s"
proof (cases "fs_validator s")
  case None
  with g p show ?thesis
    by (auto simp: not_modified_def intro!: wp_finish_now brokenI settledI)
next
  case (Some r)
  then have c: "cached = Some r" using g by (auto simp: good_def)
  show ?thesis
    using g p
    by (auto simp: not_modified_def Some
        intro!: wp_verify wp_check_deadline wp_finish_now brokenI settledI good_validator reused_ok[OF _ c])
qed

text \<open>Closing with a capture, whichever of its two lists is extended first.\<close>

lemma good_extended:
  assumes "good rt sv tp q cached deadline k base s" "vouched rt sv tp q (fs_calls s) r"
  shows "good rt sv tp q cached deadline k base (s\<lparr>fs_outcomes := os, fs_records := fs_records s @ [r]\<rparr>)"
    "good rt sv tp q cached deadline k base (s\<lparr>fs_records := fs_records s @ [r], fs_outcomes := os\<rparr>)"
  using assms by (auto simp: good_def)

lemma wp_close_capture:
  assumes g: "good rt sv tp q cached deadline k base s" and p: "pending sv i s" and v: "vouched rt sv tp q (fs_calls s) capture"
    and kk: "\<And>t. good rt sv tp q cached deadline k base t \<Longrightarrow> balanced sv t \<Longrightarrow> fs_records t = fs_records s @ [capture] \<Longrightarrow> wp m Q E t"
    and e: "\<And>e t. good rt sv tp q cached deadline k base t \<Longrightarrow> pending sv i t \<Longrightarrow> E e t"
  shows "wp (then_do (finish sv i w now (Some capture) None z) (then_do (add_outcome i w st None) (then_do (add_record capture) m))) Q E s"
    "wp (then_do (finish sv i w now (Some capture) None z) (then_do (add_record capture) (then_do (add_outcome i w st None) m))) Q E s"
proof -
  let ?c = "Finish i w now (Some capture) None z"
  have l: "good rt sv tp q cached deadline k base (logged ?c s)" "vouched rt sv tp q (fs_calls (logged ?c s)) capture"
    using g v by (simp_all add: vouched_logged)
  note x = good_extended[OF l, unfolded logged_fields]
  show "wp (then_do (finish sv i w now (Some capture) None z) (then_do (add_outcome i w st None) (then_do (add_record capture) m))) Q E s"
    using g l(1) finish_book[OF p]
    by (auto simp: finish_def add_outcome_def add_record_def intro!: kk e x split: sum.split)
  show "wp (then_do (finish sv i w now (Some capture) None z) (then_do (add_record capture) (then_do (add_outcome i w st None) m))) Q E s"
    using g l(1) finish_book[OF p]
    by (auto simp: finish_def add_outcome_def add_record_def intro!: kk e x split: sum.split)
qed

lemma wp_completed:
  assumes "good rt sv tp q cached deadline k base s" "pending sv i s" "vouched rt sv tp q (fs_calls s) capture" "rr_successful capture"
  shows "wp (completed sv i capture) (settled rt sv tp q cached deadline k base) (broken rt sv tp q cached deadline k base i) s"
  unfolding completed_def
  by (rule wp_close_capture[OF assms(1-3)])
    (use assms(4) in \<open>auto simp: so_far_def result_ok_def answer_def good_def intro!: brokenI settledI\<close>)

lemma wp_redirected:
  assumes "good rt sv tp q cached deadline k base s" "pending sv i s" "vouched rt sv tp q (fs_calls s) capture"
    and "\<And>t. target = Some t \<Longrightarrow> t = resource_url (ft_resource q)"
  shows "wp (redirected sv i sequence target capture) (settled rt sv tp q cached deadline k base) (broken rt sv tp q cached deadline k base i) s"
proof (cases "if sequence < 3 then target else None")
  case None
  show ?thesis
    unfolding redirected_def None option.case
    by (rule wp_close_capture[OF assms(1-3)]) (auto intro: wp_gap_flow brokenI)
next
  case (Some t)
  then have t: "t = resource_url (ft_resource q)" using assms(4) by (auto split: if_splits)
  show ?thesis
    unfolding redirected_def Some option.case
    by (rule wp_close_capture[OF assms(1-3)]) (auto simp: t intro!: settledI brokenI good_target)
qed

section \<open>Responses\<close>

text \<open>The limiter's cooldown raises its own errors only.\<close>

definition limited_cooldown :: "services \<Rightarrow> bool" where
  "limited_cooldown sv \<longleftrightarrow> (\<forall>cs e. sv_cooldown sv cs = Inl e \<longrightarrow> (\<exists>l. e = Limited l))"

lemma wp_after_error:
  assumes "good rt sv tp q cached deadline k base s" "balanced sv s"
  shows "wp (after_error status) (settled rt sv tp q cached deadline k base) E s"
  using assms by (auto simp: after_error_def intro: settledI wp_gap_flow)

lemma wp_cooldown:
  assumes "limited_cooldown sv" "good rt sv tp q cached deadline k base s" "balanced sv s"
    and "\<And>x t. good rt sv tp q cached deadline k base t \<Longrightarrow> balanced sv t \<Longrightarrow> Q x t"
  shows "wp (ask (Cooldown d) (sv_cooldown sv)) Q (broken rt sv tp q cached deadline k base i) s"
  using assms by (auto simp: broken_def limited_cooldown_def split: sum.split)

lemma wp_http_error:
  assumes "limited_cooldown sv" "good rt sv tp q cached deadline k base s" "pending sv i s" "vouched rt sv tp q (fs_calls s) capture"
  shows "wp (http_error rt sv deadline i retry_after capture) (settled rt sv tp q cached deadline k base) (broken rt sv tp q cached deadline k base i) s"
  unfolding http_error_def
  by (rule wp_close_capture(2)[OF assms(2-4)])
    (auto simp: respect_delay_def intro!: wp_cooldown[OF assms(1)] wp_gap_flow wp_after_error brokenI split: duration.split simp del: wp_ask)

lemma wp_archive_response:
  assumes "good rt sv tp q cached deadline k base s" "pending sv i s"
    and "\<And>c body finished t. good rt sv tp q cached deadline k base t \<Longrightarrow> pending sv i t \<Longrightarrow> ever (written sv c body) (fs_calls t) \<Longrightarrow>
      fs_url t = fs_url s \<Longrightarrow> Q (c, body, finished) t"
    and "\<And>e t. good rt sv tp q cached deadline k base t \<Longrightarrow> pending sv i t \<Longrightarrow> E e t"
  shows "wp (archive_response sv limit m headers_at encoding r) Q E s"
  using assms by (auto simp: archive_response_def check_deadline_def written_def split: sum.split)

lemma wp_monitored:
  assumes g: "good rt sv tp q cached deadline k base s" and p: "pending sv i s" and w: "ever (written sv c body') (fs_calls s)"
    and kk: "\<And>t. good rt sv tp q cached deadline k base t \<Longrightarrow> pending sv i t \<Longrightarrow> ever (written sv c body') (fs_calls t) \<Longrightarrow> Q None t"
    and f: "\<And>f t. settled rt sv tp q cached deadline k base f t \<Longrightarrow> Q (Some f) t"
    and e: "\<And>e t. good rt sv tp q cached deadline k base t \<Longrightarrow> pending sv i t \<Longrightarrow> E e t"
  shows "wp (monitored rt sv tp q cached i status body finished) Q E s"
  using g p w
  by (auto simp: monitored_def intro!: kk e f wp_verify wp_finish_now settledI reused_ok[OF _ refl] split: sum.split option.split)

lemma capture_vouched:
  assumes "ever (written sv c body) cs" "url = resource_url (ft_resource q)"
  shows "vouched rt sv tp q cs (capture_of rt tp q url requested_at status evidence (c, body, finished))"
  using assms by (cases body) (simp add: vouched_def of_resource_def capture_of_def archived_def)

lemma target_fixed: "redirect_target rt res url r = Some t \<Longrightarrow> t = resource_url res"
  by (auto simp: redirect_target_def validate_redirect_def split: if_splits option.splits sum.splits)

lemma wp_record_capture:
  assumes lim: "limited_cooldown sv" and t: "good rt sv tp q cached deadline k base t" "pending sv i t" and w: "ever (written sv c body) (fs_calls t)"
    and target: "\<And>u. target = Some u \<Longrightarrow> u = resource_url (ft_resource q)" and url: "url = resource_url (ft_resource q)"
  shows "wp (record_capture rt sv tp q deadline i sequence target url requested_at status evidence (c, body, finished))
    (settled rt sv tp q cached deadline k base) (broken rt sv tp q cached deadline k base i) t"
proof (cases "mk_raw_record (capture_of rt tp q url requested_at status evidence (c, body, finished))")
  case (Inl e)
  then show ?thesis using t by (auto simp: record_capture_def intro: brokenI)
next
  case (Inr capture)
  then have cap: "capture = capture_of rt tp q url requested_at status evidence (c, body, finished)"
    by (simp add: mk_raw_record_def)
  have v: "vouched rt sv tp q (fs_calls t) capture"
    unfolding cap by (rule capture_vouched[OF w url])
  have st: "rr_status capture = status" by (simp add: cap capture_of_def)
  show ?thesis
    unfolding record_capture_def Inr sum.case wp_if
    using wp_completed[OF t v] wp_http_error[OF lim t v] wp_redirected[OF t v target] st
    by (simp add: rr_successful_def)
qed

lemma wp_read_response:
  assumes lim: "limited_cooldown sv" and g: "good rt sv tp q cached deadline k base s" and p: "pending sv i s"
  shows "wp (read_response rt sv tp q cached deadline limit sequence i requested_at r)
    (settled rt sv tp q cached deadline k base) (broken rt sv tp q cached deadline k base i) s"
proof -
  have url: "fs_url s = resource_url (ft_resource q)"
    using g by (simp add: good_def)
  show ?thesis
    using g p
    by (auto simp: read_response_def Let_def url
        intro!: wp_check_deadline wp_not_modified wp_archive_response wp_monitored wp_record_capture[OF lim] target_fixed brokenI
        split: sum.split option.split)
qed

section \<open>Attempts\<close>

lemma wp_cancel:
  assumes "good rt sv tp q cached deadline k base s" "pending sv i s"
    and "\<And>f t. settled rt sv tp q cached deadline k base f t \<Longrightarrow> Q f t"
    and "\<And>e t. good rt sv tp q cached deadline k base t \<Longrightarrow> pending sv i t \<Longrightarrow> E e t"
  shows "wp (cancel sv i reason eligible) Q E s"
  unfolding cancel_def wp_then_do
proof (rule wp_finish_now[OF assms(1,2)])
  fix t
  assume t: "good rt sv tp q cached deadline k base t" "balanced sv t"
  show "wp (gap_flow reason eligible) Q E t"
    by (rule wp_mono[OF wp_gap_flow[OF t, where E = E]]) (use assms(3) in auto)
qed (rule assms(4))

lemma wp_failed_exchange:
  assumes "broken rt sv tp q cached deadline k base i e s"
  shows "wp (failed_exchange sv i e) (settled rt sv tp q cached deadline k base) (broken rt sv tp q cached deadline k base i) s"
proof (cases "good rt sv tp q cached deadline k base s \<and> pending sv i s")
  case True
  then show ?thesis
    by (auto simp: failed_exchange_def Let_def intro!: wp_finish_now brokenI settledI wp_gap_flow)
next
  case False
  then obtain l where "e = Limited l" using assms by (auto simp: broken_def)
  then show ?thesis using assms by (simp add: failed_exchange_def archive_failure_def)
qed

lemma wp_backoff:
  assumes "good rt sv tp q cached deadline k base s" "balanced sv s"
    and "\<And>e t. good rt sv tp q cached deadline k base t \<Longrightarrow> balanced sv t \<Longrightarrow> E e t"
  shows "wp (backoff sv deadline sequence) (settled rt sv tp q cached deadline k base) E s"
  using assms by (auto simp: backoff_def Let_def intro!: settledI split: sum.split)

lemma wp_start_attempt:
  assumes g: "good rt sv tp q cached deadline k base s" and p: "pending sv i s"
    and c: "fs_calls s = Prepare n u v # rest" "sv_prepare sv (fs_calls s) = Inr i"
    and kk: "\<And>now t. good rt sv tp q cached deadline k base t \<Longrightarrow> pending sv i t \<Longrightarrow> ready sv deadline (fs_calls t) \<Longrightarrow> Q (Inr now) t"
    and f: "\<And>f t. settled rt sv tp q cached deadline k base f t \<Longrightarrow> Q (Inl f) t"
    and e: "\<And>e t. good rt sv tp q cached deadline k base t \<Longrightarrow> pending sv i t \<Longrightarrow> E e t"
  shows "wp (start_attempt sv deadline i) Q E s"
  using g p c
  by (auto simp: start_attempt_def ready_def Let_def intro!: kk f e wp_cancel split: sum.split option.split prod.split)

lemma good_send:
  "good rt sv tp q cached deadline k base s \<Longrightarrow> cleared sv deadline (fs_calls s) \<Longrightarrow> good rt sv tp q cached deadline k base (logged (Send (fs_url s) h) s)"
  by (auto simp: good_def vouched_logged cache_ok_logged suffix_ConsI)

lemma wp_exchange:
  assumes lim: "limited_cooldown sv" and g: "good rt sv tp q cached deadline k base s" and p: "pending sv i s"
    and r: "fs_calls s = Read_Clock # Read_Clock # ds" "ready sv deadline ds" and l: "limit \<le> deadline"
  shows "wp (exchange rt sv tp q cached deadline limit sequence i requested_at)
    (settled rt sv tp q cached deadline k base) (broken rt sv tp q cached deadline k base i) s"
proof -
  let ?t = "logged Confirm (logged Read_Clock s)"
  have send: "good rt sv tp q cached deadline k base (logged (Send (fs_url s) h) ?t)"
    if "sv_done sv (fs_calls ?t) = Inr ()" "\<not> limit \<le> sv_clock sv (Read_Clock # fs_calls s)" for h
  proof -
    have "cleared sv deadline (fs_calls ?t)" using that r l by (simp add: cleared_def)
    then show ?thesis using good_send[of rt sv tp q cached deadline k base ?t h] g by simp
  qed
  show ?thesis
    using g p send
    by (auto simp: exchange_def check_deadline_def intro!: brokenI wp_cancel wp_read_response[OF lim] split: sum.split option.split)
qed

lemma prepared_pending:
  assumes "balanced sv s" "sv_prepare sv (Prepare n u v # fs_calls s) = Inr i"
  shows "pending sv i (logged (Prepare n u v) s)"
  using assms by (auto simp: balanced_def pending_def)

lemma unprepared_balanced:
  assumes "balanced sv s" "sv_prepare sv (Prepare n u v # fs_calls s) = Inl e"
  shows "balanced sv (logged (Prepare n u v) s)"
  using assms by (auto simp: balanced_def)

text \<open>After an exception at most the last attempt is open.\<close>

definition disturbed where
  "disturbed rt sv tp q cached deadline k base s \<longleftrightarrow> good rt sv tp q cached deadline k base s \<and> (balanced sv s \<or> (\<exists>i. pending sv i s))"

lemma good_prepared: "good rt sv tp q cached deadline k base s \<Longrightarrow> good rt sv tp q cached deadline (Suc k) base (logged (Prepare n u v) s)"
  by (auto simp: good_def vouched_logged cache_ok_logged suffix_ConsI)

lemma wp_attempt_fetch:
  assumes lim: "limited_cooldown sv" and g: "good rt sv tp q cached deadline k base s" and b: "balanced sv s"
  shows "wp (attempt_fetch rt sv tp q cached deadline sequence) (settled rt sv tp q cached deadline (Suc k) base)
    (\<lambda>e. disturbed rt sv tp q cached deadline (Suc k) base) s"
proof -
  let ?s = "s\<lparr>fs_status := None\<rparr>" and ?c = "Prepare sequence (fs_url s) (map_option rr_capture (fs_validator s))"
  have d: "disturbed rt sv tp q cached deadline (Suc k) base t" if "broken rt sv tp q cached deadline (Suc k) base i e t" for i e t
    using that by (auto simp: disturbed_def broken_def)
  show ?thesis
  proof (cases "sv_prepare sv (?c # fs_calls s)")
    case (Inl e)
    then show ?thesis
      using g unprepared_balanced[of sv ?s] b by (simp add: attempt_fetch_def disturbed_def good_prepared)
  next
    case (Inr i)
    have g2: "good rt sv tp q cached deadline (Suc k) base (logged ?c ?s)" using g by (simp add: good_prepared)
    have p: "pending sv i (logged ?c ?s)" using prepared_pending[of sv ?s] b Inr by simp
    have run: "wp (handle (exchange rt sv tp q cached deadline (min deadline (t0 + 120)) sequence i now) (failed_exchange sv i))
        (\<lambda>f. wp (if f = Fall then backoff sv deadline sequence else ret f) (settled rt sv tp q cached deadline (Suc k) base) (\<lambda>e. disturbed rt sv tp q cached deadline (Suc k) base))
        (\<lambda>e. disturbed rt sv tp q cached deadline (Suc k) base) (logged Read_Clock (logged Read_Clock t))"
      if t: "good rt sv tp q cached deadline (Suc k) base t" "pending sv i t" "ready sv deadline (fs_calls t)" for t t0 now
      unfolding wp_handle
      by (rule wp_mono[OF wp_exchange[OF lim]])
        (use t in \<open>auto intro!: wp_mono[OF wp_failed_exchange] wp_backoff dest: d simp: settled_def disturbed_def\<close>)
    show ?thesis
      using g2 p Inr run
      by (auto simp: attempt_fetch_def disturbed_def intro!: wp_start_attempt[of rt sv tp q cached deadline "Suc k" base _ i sequence "fs_url s" "map_option rr_capture (fs_validator s)" "fs_calls s"] simp del: wp_handle)
  qed
qed

section \<open>The loop\<close>

lemma good_more: "good rt sv tp q cached deadline k base s \<Longrightarrow> k \<le> k' \<Longrightarrow> good rt sv tp q cached deadline k' base s"
  by (auto simp: good_def)

lemma disturbed_more: "disturbed rt sv tp q cached deadline k base s \<Longrightarrow> k \<le> k' \<Longrightarrow> disturbed rt sv tp q cached deadline k' base s"
  by (auto simp: disturbed_def good_more)

definition answered where
  "answered rt sv tp q cached deadline k base r s \<longleftrightarrow>
     good rt sv tp q cached deadline k base s \<and> balanced sv s \<and> result_ok rt sv tp q r s"

lemma wp_gap:
  assumes "good rt sv tp q cached deadline k base s" "balanced sv s" "k \<le> k'"
  shows "wp (gap reason eligible) (answered rt sv tp q cached deadline k' base) E s"
  using assms by (auto simp: gap_def answered_def intro: good_more gap_ok)

lemma wp_attempts_from:
  assumes "limited_cooldown sv" "good rt sv tp q cached deadline k base s" "balanced sv s"
  shows "wp (attempts_from rt sv tp q cached deadline ns) (answered rt sv tp q cached deadline (k + length ns) base)
    (\<lambda>e. disturbed rt sv tp q cached deadline (k + length ns) base) s"
  using assms(2,3)
proof (induction ns arbitrary: k s)
  case Nil
  then show ?case by (simp add: wp_gap)
next
  case (Cons n ns)
  let ?A = "answered rt sv tp q cached deadline (k + length (n # ns)) base"
    and ?D = "\<lambda>e. disturbed rt sv tp q cached deadline (k + length (n # ns)) base"
  have step: "wp (case f of Return r \<Rightarrow> ret r | Stop \<Rightarrow> gap ''dispatch_budget_exhausted'' None | _ \<Rightarrow> attempts_from rt sv tp q cached deadline ns) ?A ?D t"
    if t: "settled rt sv tp q cached deadline (Suc k) base f t" for f t
  proof (cases f)
    case (Return r)
    then show ?thesis using t by (auto simp: settled_def answered_def intro: good_more)
  next
    case Stop
    then show ?thesis using t wp_gap[of rt sv tp q cached deadline "Suc k" base t] by (simp add: settled_def)
  qed (use t Cons.IH[of "Suc k" t] in \<open>simp_all add: settled_def\<close>)
  show ?case
    unfolding attempts_from.simps wp_seq
    by (rule wp_mono[OF wp_attempt_fetch[OF assms(1) Cons.prems]]) (erule step, erule disturbed_more, simp)
qed

text \<open>The end of a live fetch.\<close>

definition interrupted :: "fetch_result \<Rightarrow> bool" where
  "interrupted r \<longleftrightarrow> fr_gaps r \<in> {[''lease_lost''], [''coordination_unavailable'']}"

definition finished where
  "finished rt sv tp q cached deadline base r s \<longleftrightarrow>
     disturbed rt sv tp q cached deadline 3 base s \<and> result_ok rt sv tp q r s \<and> (balanced sv s \<or> interrupted r)"

lemma wp_ask_rule:
  "(\<And>x. Q x (logged c s)) \<Longrightarrow> (\<And>e. E e (logged c s)) \<Longrightarrow> wp (ask c f) Q E s"
  by (simp split: sum.split)

lemma wp_fresh:
  assumes "good rt sv tp q cached deadline k base s" "balanced sv s" "fs_outcomes s = []"
    and "\<And>t. good rt sv tp q cached deadline k base t \<Longrightarrow> balanced sv t \<Longrightarrow> Q None t"
    and "\<And>r t. cached = Some r \<Longrightarrow> good rt sv tp q cached deadline k base t \<Longrightarrow> balanced sv t \<Longrightarrow> fs_outcomes t = [] \<Longrightarrow> Q (Some r) t"
  shows "wp (fresh sv tp q cached) Q E s"
  using assms by (auto simp: fresh_def split: option.split)

lemma wp_live_attempts:
  assumes lim: "limited_cooldown sv" and g: "good rt sv tp q cached deadline 0 base s" and b: "balanced sv s" and o: "fs_outcomes s = []"
  shows "wp (live_attempts rt sv tp q cached deadline) (finished rt sv tp q cached deadline base)
    (\<lambda>e. disturbed rt sv tp q cached deadline 3 base) s"
proof -
  let ?F = "finished rt sv tp q cached deadline base" and ?D = "disturbed rt sv tp q cached deadline 3 base"
  let ?H = "\<lambda>e. wp (if e = Lease_Lost then gap ''lease_lost'' None
      else if e = Limited CoordinationUnavailable then gap ''coordination_unavailable'' None else fail_with e) ?F (\<lambda>e. ?D)"
  have h: "?H e t" if "?D t" for e t
    using that by (auto simp: gap_def finished_def disturbed_def interrupted_def answer_def result_ok_def good_def)
  have run: "wp (attempts_from rt sv tp q cached deadline [1, 2, 3]) ?F ?H t"
    if "good rt sv tp q cached deadline 0 base t" "balanced sv t" for t
  proof -
    have three: "0 + length [1, 2, 3 :: nat] = 3" by simp
    show ?thesis
    proof (rule wp_mono[OF wp_attempts_from[OF lim that, of "[1, 2, 3]", unfolded three]])
      show "?F x u" if "answered rt sv tp q cached deadline 3 base x u" for x u
        using that by (simp add: answered_def finished_def disturbed_def)
    qed (rule h)
  qed
  have d: "?D t" if "good rt sv tp q cached deadline 0 base t" "balanced sv t" for t
    using that good_more[of rt sv tp q cached deadline 0 base t 3] by (simp add: disturbed_def)
  have hit: "?F (answer [r] [] [rr_capture r] [] ''unknown'' None) t"
    if "good rt sv tp q cached deadline 0 base t" "balanced sv t" "fs_outcomes t = []" "cached = Some r" for r t
    using that d[OF that(1,2)] by (auto simp: finished_def result_ok_def answer_def good_def cache_ok_def)
  show ?thesis
    unfolding live_attempts_def wp_handle wp_then_do wp_seq
  proof (rule wp_ask_rule)
    have l: "good rt sv tp q cached deadline 0 base (logged Guard s)" "balanced sv (logged Guard s)" "fs_outcomes (logged Guard s) = []"
      using g b o by simp_all
    show "?H e (logged Guard s)" for e
      by (rule h[OF d[OF l(1,2)]])
    show "wp (fresh sv tp q cached)
        (\<lambda>hit. wp (case hit of None \<Rightarrow> attempts_from rt sv tp q cached deadline [1, 2, 3] | Some r \<Rightarrow> ret (answer [r] [] [rr_capture r] [] ''unknown'' None)) ?F ?H)
        ?H (logged Guard s)"
    proof (rule wp_fresh[OF l])
      show "wp (case None of None \<Rightarrow> attempts_from rt sv tp q cached deadline [1, 2, 3] | Some r \<Rightarrow> ret (answer [r] [] [rr_capture r] [] ''unknown'' None)) ?F ?H t"
        if "good rt sv tp q cached deadline 0 base t" "balanced sv t" for t
        unfolding option.case by (rule run[OF that])
      show "wp (case Some r of None \<Rightarrow> attempts_from rt sv tp q cached deadline [1, 2, 3] | Some r \<Rightarrow> ret (answer [r] [] [rr_capture r] [] ''unknown'' None)) ?F ?H t"
        if "cached = Some r" "good rt sv tp q cached deadline 0 base t" "balanced sv t" "fs_outcomes t = []" for r t
        unfolding option.case wp_ret by (rule hit[OF that(2-4,1)])
    qed
  qed
qed

end
