(* ===== verification/Fetch_Guarantees.thy ===== *)
theory Fetch_Guarantees
  imports Fetch_Properties "HOL-Library.Code_Target_Numeral"
begin

text \<open>
  The guarantees of \<open>SecTransport.fetch\<close>: the discipline of its requests, the book of its attempts and the
  provenance of its records.
\<close>

section \<open>A sample\<close>

text \<open>
  A fetch of company facts whose source first answers 503 with a delay of two seconds and then delivers.
\<close>

definition fe_hash :: string where
  "fe_hash = replicate 64 (CHR ''a'')"

definition fe_rt :: transport_runtime where
  "fe_rt = \<lparr>json_loads = (\<lambda>_. None), sha256_hex = (\<lambda>_. fe_hash), urlsplit = (\<lambda>_. None), uuid_text = nat_text,
     source_tree = (\<lambda>_. None), uuid5_url = length, split_parts_of = (\<lambda>_. None), urljoin = (\<lambda>_ _. None), parse_http_date = (\<lambda>_. None)\<rparr>"

definition fe_time :: datetime where
  "fe_time = Datetime (739300 * micros_per_day) (Some 0)"

text \<open>Each call takes no time; identifiers are the length of the log.\<close>

definition fe_services :: services where
  "fe_services = \<lparr>sv_done = (\<lambda>_. Inr ()), sv_prepare = (\<lambda>cs. Inr (length cs)),
     sv_send = (\<lambda>cs. Inr (if length (filter is_send cs) = 1 then \<lparr>hr_status = 503, hr_headers = [(''retry-after'', ''2'')]\<rparr>
        else \<lparr>hr_status = 200, hr_headers = [(''content-type'', ''application/json''), (''content-length'', ''2'')]\<rparr>)),
     sv_write = (\<lambda>cs. Inr \<lparr>ab_blob = ''sec/key'', ab_sha256 = fe_hash, ab_bytes = 2\<rparr>), sv_cooldown = (\<lambda>_. Inr 0),
     sv_clock = (\<lambda>_. 0), sv_time = (\<lambda>_. fe_time), sv_id = length, sv_jitter = (\<lambda>_. Number (1 / 2))\<rparr>"

definition fe_resource :: sec_resource where
  "fe_resource = \<lparr>sr_issuer = 1, sr_cik = ''0000320193'', sr_kind = COMPANY_FACTS, sr_filename = None, sr_accession = None\<rparr>"

definition fe_transport :: transport where
  "fe_transport = \<lparr>tp_descriptor = \<lparr>sd_id = 2, sd_key = ''sec'', sd_name = ''SEC'', sd_policy = 3, sd_terms = ''t'', sd_licence = ''l'',
       sd_redistribution = ''allowed'', sd_kinds = [COMPANY_FACTS], sd_freshness = 86400000000, sd_limiter_key = ''sec:user'', sd_rate = 5\<rparr>,
     tp_contact = ''a@b.example'', tp_json_limit = 1000, tp_document_limit = 1000\<rparr>"

definition fe_request :: fetch_request where
  "fe_request = \<lparr>ft_fetch = 4, ft_resource = fe_resource,
     ft_lease = Some \<lparr>ls_request = 5, ls_execution = 6, ls_epoch = 1, ls_fencing = 1, ls_worker = ''w'', ls_expires = Datetime (739301 * micros_per_day) (Some 0)\<rparr>,
     ft_stage = Some 7, ft_mode = ''refresh'', ft_cached = None, ft_replay = [], ft_periods = [], ft_cutoff = None, ft_monitor = False\<rparr>"

lemma fe_limited: "limited_cooldown fe_services"
  by (simp add: limited_cooldown_def fe_services_def)

lemma fe_answers [simp]:
  "sv_done fe_services cs = Inr ()" "sv_prepare fe_services cs = Inr (length cs)" "sv_clock fe_services cs = 0" "sv_time fe_services cs = fe_time"
  "sv_id fe_services cs = length cs" "sv_jitter fe_services cs = Number (1 / 2)" "sv_cooldown fe_services cs = Inr 0"
  "sv_write fe_services cs = Inr \<lparr>ab_blob = ''sec/key'', ab_sha256 = fe_hash, ab_bytes = 2\<rparr>"
  "sv_send fe_services cs = Inr (if length (filter is_send cs) = 1 then \<lparr>hr_status = 503, hr_headers = [(''retry-after'', ''2'')]\<rparr>
        else \<lparr>hr_status = 200, hr_headers = [(''content-type'', ''application/json''), (''content-length'', ''2'')]\<rparr>)"
  by (simp_all add: fe_services_def)

lemma fe_facts [simp]:
  "sha256_text fe_hash" "params_hash fe_rt = fe_hash" "aware fe_time" "seconds_left \<lparr>ls_request = 5, ls_execution = 6, ls_epoch = 1, ls_fencing = 1, ls_worker = ''w'', ls_expires = Datetime (739301 * micros_per_day) (Some 0)\<rparr> fe_time = 86400" "retry_after_seconds fe_rt (Some ''2'') fe_time = Number 2"
  "header_evidence \<lparr>hr_status = 503, hr_headers = [(''retry-after'', ''2'')]\<rparr> None
     = Inr \<lparr>rh_content_type = None, rh_content_encoding = None, rh_etag = None, rh_last_modified = None, rh_retry_after = Some ''2'', rh_location = None\<rparr>"
  "header_evidence \<lparr>hr_status = 200, hr_headers = [(''content-type'', ''application/json''), (''content-length'', ''2'')]\<rparr> None
     = Inr \<lparr>rh_content_type = Some ''application/json'', rh_content_encoding = None, rh_etag = None, rh_last_modified = None, rh_retry_after = None, rh_location = None\<rparr>"
  "wire_length \<lparr>hr_status = 503, hr_headers = [(''retry-after'', ''2'')]\<rparr> = Inr None"
  "wire_length \<lparr>hr_status = 200, hr_headers = [(''content-type'', ''application/json''), (''content-length'', ''2'')]\<rparr> = Inr (Some 2)"
  by code_simp+

lemma wp_weak_cong: "m = m' \<Longrightarrow> wp m Q E s = wp m' Q E s"
  by simp

lemma fe_result:
  "wp (live fe_rt fe_services fe_transport fe_request)
     (\<lambda>r t. fetch_usable r \<and> length (fr_attempts r) = 2 \<and> length (filter is_send (fs_calls t)) = 2) (\<lambda>e t. False) (start_fetch fe_request)"
  by (simp add: live_def usable_cache_def fe_request_def live_attempts_def fresh_def attempt_fetch_def start_attempt_def exchange_def
      check_deadline_def read_response_def redirect_target_def archive_response_def monitored_def record_capture_def mk_raw_record_def capture_of_def
      http_error_def respect_delay_def after_error_def retryable_def quiet_time_def completed_def finish_def add_outcome_def add_record_def
      so_far_def backoff_def unit_jitter_def conditional_validator_def  start_fetch_def answer_def fetch_usable_def
      successful_records_def rr_successful_def Let_def guard_value_def cong: wp_weak_cong)

lemma fe_run:
  "\<exists>r t. fetch fe_rt fe_services fe_transport fe_request = (Inr r, t) \<and> fetch_usable r \<and> length (fr_attempts r) = 2
     \<and> length (filter is_send (fs_calls t)) = 2"
proof -
  have "fetch fe_rt fe_services fe_transport fe_request = live fe_rt fe_services fe_transport fe_request (start_fetch fe_request)"
    by (simp add: fetch_def fe_request_def fe_transport_def fe_resource_def)
  then show ?thesis using fe_result by (auto simp: wp_def split: prod.splits sum.splits)
qed

section \<open>Before the first attempt\<close>

text \<open>Nothing was prepared, sent, told or gathered yet.\<close>

definition plain :: "fetch_request \<Rightarrow> fetch_state \<Rightarrow> bool" where
  "plain q s \<longleftrightarrow>
     list_all (\<lambda>c. neutral c \<and> \<not> is_send c \<and> \<not> is_prepare c) (fs_calls s) \<and> fs_url s = resource_url (ft_resource q)
     \<and> fs_validator s = None \<and> fs_records s = [] \<and> fs_outcomes s = []"

lemma quiet_log:
  assumes "list_all (\<lambda>c. neutral c \<and> \<not> is_send c \<and> \<not> is_prepare c) cs"
  shows "disciplined sv url deadline cs \<and> opened sv cs = [] \<and> book_closed sv cs = [] \<and> filter is_prepare cs = [] \<and> filter is_send cs = []"
  using assms
proof (induction cs)
  case (Cons c cs)
  then show ?case by (cases c) simp_all
qed simp

lemma plain_logged: "plain q s \<Longrightarrow> neutral c \<Longrightarrow> \<not> is_send c \<Longrightarrow> \<not> is_prepare c \<Longrightarrow> plain q (logged c s)"
  by (simp add: plain_def)

lemma plain_balanced: "plain q s \<Longrightarrow> balanced sv s"
  using quiet_log[of "fs_calls s" sv] by (simp add: plain_def balanced_def)

lemma plain_good:
  assumes "plain q s" "cache_ok rt sv tp q cached (fs_calls s)" "v \<in> {None, cached}" "suffix base (fs_calls s)"
  shows "good rt sv tp q cached deadline 0 base (s\<lparr>fs_validator := v\<rparr>)"
  using assms quiet_log[of "fs_calls s" sv] by (auto simp: plain_def good_def)

lemma wp_verify_plain:
  assumes "plain q s"
    and "\<And>t. plain q t \<Longrightarrow> vouched rt sv tp q (fs_calls t) r \<Longrightarrow> suffix (fs_calls s) (fs_calls t) \<Longrightarrow> Q () t"
    and "\<And>e t. plain q t \<Longrightarrow> E e t"
  shows "wp (verify rt sv tp q r) Q E s"
  using assms
  by (auto simp: verify_def plain_logged vouched_def of_resource_def rechecked_def suffix_ConsI split: sum.split)

lemma wp_usable_cache:
  assumes "plain q s"
  shows "wp (usable_cache rt sv tp q) (\<lambda>cached t. plain q t \<and> cache_ok rt sv tp q cached (fs_calls t)) (\<lambda>e. plain q) s"
  using assms
  by (auto simp: usable_cache_def cache_ok_def intro!: wp_verify_plain split: option.split)

lemma vouched_suffix: "suffix cs ds \<Longrightarrow> vouched rt sv tp q cs r \<Longrightarrow> vouched rt sv tp q ds r"
proof (elim suffixE)
  fix zs
  assume "ds = zs @ cs" "vouched rt sv tp q cs r"
  then show "vouched rt sv tp q ds r"
    by (induction zs arbitrary: ds) (simp_all add: vouched_logged)
qed

lemma wp_verify_all:
  assumes "plain q s"
    and "\<And>t. plain q t \<Longrightarrow> \<forall>r\<in>set rs. vouched rt sv tp q (fs_calls t) r \<Longrightarrow> suffix (fs_calls s) (fs_calls t) \<Longrightarrow> Q () t"
    and "\<And>e t. plain q t \<Longrightarrow> E e t"
  shows "wp (verify_all rt sv tp q rs) Q E s"
  using assms
proof (induction rs arbitrary: s Q)
  case (Cons r rs)
  show ?case
    unfolding verify_all.simps wp_then_do
  proof (rule wp_verify_plain[OF Cons.prems(1)])
    fix t
    assume t: "plain q t" "vouched rt sv tp q (fs_calls t) r" "suffix (fs_calls s) (fs_calls t)"
    show "wp (verify_all rt sv tp q rs) Q E t"
    proof (rule Cons.IH[OF t(1) _ Cons.prems(3)])
      fix u
      assume u: "plain q u" "\<forall>r\<in>set rs. vouched rt sv tp q (fs_calls u) r" "suffix (fs_calls t) (fs_calls u)"
      then show "Q () u"
        using Cons.prems(2)[of u] vouched_suffix[OF u(3) t(2)] suffix_order.trans[OF t(3) u(3)] by simp
    qed
  qed (rule Cons.prems(3))
qed simp

section \<open>The whole fetch\<close>

definition replayed where
  "replayed rt sv tp q r s \<longleftrightarrow> plain q s \<and> result_ok rt sv tp q r s"

lemma wp_replay:
  assumes "plain q s"
  shows "wp (replay rt sv tp q) (replayed rt sv tp q) (\<lambda>e. plain q) s"
proof -
  have over: "wp (ret (if ft_replay q = [] \<or> \<not> list_all rr_successful (ft_replay q)
                then answer (ft_replay q) [] [] [''capture_unavailable''] ''unknown'' None
                else answer (ft_replay q) [] (map rr_capture (ft_replay q)) [] ''unknown'' None)) (replayed rt sv tp q) E t"
    if "plain q t" "\<forall>r\<in>set (ft_replay q). vouched rt sv tp q (fs_calls t) r" for t E
    using that by (auto simp: replayed_def result_ok_def answer_def plain_def list_all_iff)
  show ?thesis
    unfolding replay_def wp_handle wp_then_do
    by (rule wp_verify_all[OF assms], rule over) (auto simp: replayed_def result_ok_def answer_def plain_def)
qed

text \<open>The deadline that a live fetch sets itself, from the clock and the time left on the lease.\<close>

definition own_deadline :: "services \<Rightarrow> fetch_request \<Rightarrow> rat \<Rightarrow> fetch_call list \<Rightarrow> bool" where
  "own_deadline sv q deadline cs \<longleftrightarrow>
     (\<exists>l earlier. ft_lease q = Some l \<and> suffix (Read_Clock # Read_Time # earlier) cs
        \<and> deadline = sv_clock sv (Read_Clock # Read_Time # earlier) + min 360 (seconds_left l (sv_time sv (Read_Time # earlier))))"

definition conducted where
  "conducted rt sv tp q s \<longleftrightarrow>
     plain q s \<or> (\<exists>cached deadline base. disturbed rt sv tp q cached deadline 3 base s \<and> own_deadline sv q deadline (fs_calls s))"

lemma wp_live:
  assumes lim: "limited_cooldown sv" and s: "plain q s"
  shows "wp (live rt sv tp q) (\<lambda>r t. conducted rt sv tp q t \<and> result_ok rt sv tp q r t \<and> (balanced sv t \<or> interrupted r)) (\<lambda>e. conducted rt sv tp q) s"
  unfolding live_def wp_seq
proof (rule wp_mono[OF wp_usable_cache[OF s]])
  fix cached t
  let ?Q = "\<lambda>r t. conducted rt sv tp q t \<and> result_ok rt sv tp q r t \<and> (balanced sv t \<or> interrupted r)"
  assume t: "plain q t \<and> cache_ok rt sv tp q cached (fs_calls t)"
  show "wp (case ft_lease q of None \<Rightarrow> fail_with Other
     | Some l \<Rightarrow> seq (observe Read_Time (sv_time sv)) (\<lambda>now. seq (observe Read_Clock (sv_clock sv)) (\<lambda>t.
         then_do (update (\<lambda>s. s\<lparr>fs_validator := conditional_validator q cached\<rparr>))
           (live_attempts rt sv tp q cached (t + min 360 (seconds_left l now)))))) ?Q (\<lambda>e. conducted rt sv tp q) t"
  proof (cases "ft_lease q")
    case None
    then show ?thesis using t by (simp add: conducted_def)
  next
    case (Some l)
    define u where "u = logged Read_Clock (logged Read_Time t)"
    define deadline where "deadline = sv_clock sv (fs_calls u) + min 360 (seconds_left l (sv_time sv (Read_Time # fs_calls t)))"
    define w where "w = u\<lparr>fs_validator := conditional_validator q cached\<rparr>"
    have u: "plain q u" "cache_ok rt sv tp q cached (fs_calls u)"
      using t by (auto simp: u_def plain_logged cache_ok_logged)
    have "good rt sv tp q cached deadline 0 (fs_calls u) w" unfolding w_def
      by (rule plain_good[OF u]) (simp_all add: conditional_validator_def split: option.split)
    moreover have "balanced sv w" "fs_outcomes w = []"
      using plain_balanced[OF u(1)] u(1) by (simp_all add: w_def plain_def)
    ultimately have run: "wp (live_attempts rt sv tp q cached deadline) (finished rt sv tp q cached deadline (fs_calls u))
        (\<lambda>e. disturbed rt sv tp q cached deadline 3 (fs_calls u)) w"
      by (rule wp_live_attempts[OF lim])
    have c: "conducted rt sv tp q x" if "disturbed rt sv tp q cached deadline 3 (fs_calls u) x" for x
    proof -
      have "suffix (Read_Clock # Read_Time # fs_calls t) (fs_calls x)"
        using that by (simp add: disturbed_def good_def u_def)
      then have "own_deadline sv q deadline (fs_calls x)"
        unfolding own_deadline_def deadline_def u_def using Some by (intro exI[of _ l] exI[of _ "fs_calls t"]) simp
      with that show ?thesis by (auto simp: conducted_def)
    qed
    have "wp (live_attempts rt sv tp q cached deadline) ?Q (\<lambda>e. conducted rt sv tp q) w"
      by (rule wp_mono[OF run]) (auto simp: finished_def intro: c)
    then show ?thesis by (simp add: Some deadline_def w_def u_def)
  qed
qed (simp add: conducted_def)

lemma fetch_conduct:
  assumes "limited_cooldown sv" "fetch rt sv tp q = (res, t)"
  shows "conducted rt sv tp q t \<and> (\<forall>r. res = Inr r \<longrightarrow> result_ok rt sv tp q r t \<and> (balanced sv t \<or> interrupted r))"
proof -
  have p: "plain q (start_fetch q)" by (simp add: plain_def start_fetch_def)
  show ?thesis
    using assms(2) wp_live[OF assms(1) p, of rt tp] wp_replay[OF p, of rt sv tp] p
    by (auto simp: fetch_def wp_def conducted_def replayed_def plain_balanced split: if_splits sum.splits)
qed

section \<open>Guarantees\<close>

text \<open>
  C20.  The contact address leaves only in requests to the approved address of the resource, at most three of them,
  and each directly after a confirmed permit of an attempt that was prepared, cleared by lease and policy and
  recorded as dispatched, before a deadline of at most six minutes that also ends with the lease.
\<close>

theorem fetch_disciplined:
  assumes "limited_cooldown sv" "fetch rt sv tp q = (res, t)"
  shows "\<exists>deadline. disciplined sv (resource_url (ft_resource q)) deadline (fs_calls t)
    \<and> length (filter is_send (fs_calls t)) \<le> 3 \<and> (list_ex is_send (fs_calls t) \<longrightarrow> own_deadline sv q deadline (fs_calls t))"
proof -
  have "conducted rt sv tp q t" using fetch_conduct[OF assms] by blast
  then consider "plain q t" | cached deadline base where "disturbed rt sv tp q cached deadline 3 base t" "own_deadline sv q deadline (fs_calls t)"
    unfolding conducted_def by blast
  then show ?thesis
  proof cases
    case 1
    then have "list_all (\<lambda>c. neutral c \<and> \<not> is_send c \<and> \<not> is_prepare c) (fs_calls t)" by (simp add: plain_def)
    then show ?thesis using quiet_log[of "fs_calls t" sv] by (auto simp: list_ex_iff list_all_iff intro: exI[of _ 0])
  next
    case 2
    then have g: "good rt sv tp q cached deadline 3 base t" by (simp add: disturbed_def)
    then have "disciplined sv (resource_url (ft_resource q)) deadline (fs_calls t)" "length (filter is_prepare (fs_calls t)) \<le> 3"
      by (simp_all add: good_def)
    then show ?thesis using sends_le_prepares[of sv _ deadline "fs_calls t"] 2(2) by (intro exI[of _ deadline]) fastforce
  qed
qed

theorem fetch_disciplined_witness:
  "\<exists>res t deadline. fetch fe_rt fe_services fe_transport fe_request = (res, t) \<and> length (filter is_send (fs_calls t)) = 2
     \<and> disciplined fe_services (resource_url fe_resource) deadline (fs_calls t) \<and> own_deadline fe_services fe_request deadline (fs_calls t)"
proof -
  obtain r t where f: "fetch fe_rt fe_services fe_transport fe_request = (Inr r, t)" "length (filter is_send (fs_calls t)) = 2"
    using fe_run by (elim exE conjE)
  have "list_ex is_send (fs_calls t)"
    using f(2) by (metis filter_False list.size(3) list_ex_iff zero_neq_numeral)
  moreover have "ft_resource fe_request = fe_resource" by (simp add: fe_request_def)
  ultimately show ?thesis
    using fetch_disciplined[OF fe_limited f(1)] f by auto
qed

text \<open>
  C22.  The book of attempts is kept: every prepared attempt is closed once, with the outcome that the result tells,
  in the order of preparation; only an interruption can leave the last one open, and a result that is not an
  interruption tells all of them.
\<close>

theorem attempts_accounted:
  assumes "limited_cooldown sv" "fetch rt sv tp q = (res, t)"
  shows "book_closed sv (fs_calls t) = told (fs_outcomes t)
    \<and> (\<exists>open. opened sv (fs_calls t) = map fst (book_closed sv (fs_calls t)) @ open \<and> length open \<le> 1)
    \<and> (\<forall>r. res = Inr r \<longrightarrow> fr_attempts r = fs_outcomes t
         \<and> (interrupted r \<or> map ao_id (fr_attempts r) = opened sv (fs_calls t)))"
proof -
  have c: "conducted rt sv tp q t" and r: "\<forall>r. res = Inr r \<longrightarrow> result_ok rt sv tp q r t \<and> (balanced sv t \<or> interrupted r)"
    using fetch_conduct[OF assms] by blast+
  have b: "balanced sv t \<or> (\<exists>i. pending sv i t)"
    using c plain_balanced by (auto simp: conducted_def disturbed_def)
  then have "book_closed sv (fs_calls t) = told (fs_outcomes t)"
    and "\<exists>open. opened sv (fs_calls t) = map fst (book_closed sv (fs_calls t)) @ open \<and> length open \<le> 1"
    by (auto simp: balanced_def pending_def)
  moreover have "map ao_id (fs_outcomes t) = opened sv (fs_calls t)" if "balanced sv t"
    using that by (auto simp: balanced_def told_def comp_def)
  ultimately show ?thesis using r by (auto simp: result_ok_def)
qed

theorem attempts_accounted_witness:
  "\<exists>r t. fetch fe_rt fe_services fe_transport fe_request = (Inr r, t) \<and> length (fr_attempts r) = 2
     \<and> map ao_id (fr_attempts r) = opened fe_services (fs_calls t)"
proof -
  obtain r t where f: "fetch fe_rt fe_services fe_transport fe_request = (Inr r, t)" "fetch_usable r" "length (fr_attempts r) = 2"
    using fe_run by (elim exE conjE)
  then show ?thesis
    using attempts_accounted[OF fe_limited f(1)] by (auto simp: interrupted_def fetch_usable_def)
qed

text \<open>
  C21.  Every record that a fetch hands over belongs to the configured source and the requested resource, and its
  bytes were archived or checked against the archive in this very fetch; a usable result ends with a successful one.
\<close>

theorem records_vouched:
  assumes "limited_cooldown sv" "fetch rt sv tp q = (Inr r, t)"
  shows "(\<forall>x\<in>set (fr_records r). of_resource rt tp q x \<and> (ever (rechecked sv x) (fs_calls t) \<or> ever (archived sv x) (fs_calls t)))
    \<and> (fetch_usable r \<longrightarrow> rr_successful (last (fr_records r)))"
  using fetch_conduct[OF assms] by (auto simp: result_ok_def vouched_def fetch_usable_def)

theorem records_vouched_witness:
  "\<exists>r t. fetch fe_rt fe_services fe_transport fe_request = (Inr r, t) \<and> rr_successful (last (fr_records r))
     \<and> (\<forall>x\<in>set (fr_records r). of_resource fe_rt fe_transport fe_request x)"
proof -
  obtain r t where f: "fetch fe_rt fe_services fe_transport fe_request = (Inr r, t)" "fetch_usable r"
    using fe_run by (elim exE conjE)
  then show ?thesis
    using records_vouched[OF fe_limited f(1)] by blast
qed

end
