(* ===== verification/Archive.thy ===== *)
theory Archive
  imports Transport Sec_Manifest "HOL-Library.Code_Target_Numeral"
begin

text \<open>
  \<open>packages/ingest/archive.py\<close>: the local archive of entity bytes.  The directory is a map from keys to file
  contents; compression, symbolic links and disk failures are fields of the runtime record.  A loop over a
  decompressor that never progresses would not end, and then the result is \<open>None\<close>.
\<close>

section \<open>The outside\<close>

record inflate_step =
  if_out :: string
  if_tail :: string
  if_unused :: string
  if_eof :: bool

text \<open>
  A decompressor answers from its calls so far, newest first, each with its input and its output limit.  A disk step
  fails when \<open>disk_fails\<close> says so: making the temporary file, syncing it, linking it, syncing the directory.
\<close>

record archive_runtime = transport_runtime +
  gzip_of :: "string \<Rightarrow> string"
  gunzip :: "string \<Rightarrow> string option"
  inflate :: "string \<Rightarrow> (string \<times> nat) list \<Rightarrow> inflate_step option"
  is_symlink :: "string list \<Rightarrow> bool"
  inside_root :: "string list \<Rightarrow> bool"
  disk_fails :: "nat \<Rightarrow> bool"

type_synonym store = "string \<Rightarrow> string option"

section \<open>Paths\<close>

definition path_parts :: "string \<Rightarrow> string list" where
  "path_parts key = filter (\<lambda>p. p \<noteq> [] \<and> p \<noteq> ''.'') (split_slash key)"

definition safe_key :: "'z archive_runtime_scheme \<Rightarrow> string \<Rightarrow> bool" where
  "safe_key rt key =
     (let parts = path_parts key in
      \<not> starts_with ''/'' key \<and> ''..'' \<notin> set parts \<and> parts \<noteq> []
      \<and> list_all (\<lambda>n. \<not> is_symlink rt (take n parts)) [1..<length parts + 1] \<and> inside_root rt parts)"

section \<open>Reading\<close>

definition read_path :: "'z archive_runtime_scheme \<Rightarrow> string option \<Rightarrow> string \<Rightarrow> int \<Rightarrow> failure + string" where
  "read_path rt file sha n =
     (if n < 0 \<or> \<not> sha256_text sha then Inl Archive_Error
      else case Option.bind file (gunzip rt) of
        None \<Rightarrow> Inl Archive_Error
      | Some content \<Rightarrow> if int (length content) = n \<and> sha256_hex rt content = sha then Inr content else Inl Archive_Error)"

definition read_blob :: "'z archive_runtime_scheme \<Rightarrow> store \<Rightarrow> string \<Rightarrow> string \<Rightarrow> int \<Rightarrow> failure + string" where
  "read_blob rt st key sha n = (if safe_key rt key then read_path rt (st key) sha n else Inl Archive_Error)"

section \<open>Decoding\<close>

record write_state =
  ws_history :: "(string \<times> nat) list"
  ws_wire :: nat
  ws_out :: string
  ws_eof :: bool

text \<open>What the caller adds: the body limit, the deadline at each check and a test of decoded pieces.\<close>

record write_limits =
  wl_max :: nat
  wl_late :: "nat \<Rightarrow> bool"
  wl_screen :: "string \<Rightarrow> string \<Rightarrow> failure option"

definition decode_once ::
  "'z archive_runtime_scheme \<Rightarrow> string \<Rightarrow> nat \<Rightarrow> string \<Rightarrow> write_state \<Rightarrow> failure + (string \<times> string \<times> write_state)" where
  "decode_once rt encoding limit pending ws =
     (if encoding = ''identity'' then Inr (pending, [], ws)
      else let h = (pending, limit - length (ws_out ws) + 1) # ws_history ws in
        case inflate rt encoding h of
          None \<Rightarrow> Inl Decoding
        | Some s \<Rightarrow>
            if if_unused s \<noteq> [] then Inl Decoding
            else Inr (if_out s, if_tail s, ws\<lparr>ws_history := h, ws_eof := if_eof s\<rparr>))"

definition absorb :: "write_limits \<Rightarrow> string \<Rightarrow> write_state \<Rightarrow> failure + write_state" where
  "absorb wl decoded ws =
     (if wl_max wl < length (ws_out ws) + length decoded then Inl Body_Limit
      else case wl_screen wl (ws_out ws) decoded of
        Some e \<Rightarrow> Inl e
      | None \<Rightarrow> Inr (ws\<lparr>ws_out := ws_out ws @ decoded\<rparr>))"

definition drain_step ::
  "'z archive_runtime_scheme \<Rightarrow> string \<Rightarrow> write_limits \<Rightarrow> string \<Rightarrow> write_state \<Rightarrow> failure + (string \<times> write_state)" where
  "drain_step rt encoding wl pending ws =
     (case decode_once rt encoding (wl_max wl) pending ws of
        Inl e \<Rightarrow> Inl e
      | Inr (decoded, tail, ws') \<Rightarrow> map_sum id (Pair tail) (absorb wl decoded ws'))"

text \<open>\<open>while pending\<close>\<close>

partial_function (option) drain ::
  "'z archive_runtime_scheme \<Rightarrow> string \<Rightarrow> write_limits \<Rightarrow> string \<Rightarrow> write_state \<Rightarrow> (failure + write_state) option" where
  "drain rt encoding wl pending ws =
     (if pending = [] then Some (Inr ws)
      else case drain_step rt encoding wl pending ws of
        Inl e \<Rightarrow> Some (Inl e)
      | Inr p \<Rightarrow> drain rt encoding wl (fst p) (snd p))"

declare drain.simps [code]

text \<open>The chunks of a response; receiving one may raise.\<close>

fun write_chunks ::
  "'z archive_runtime_scheme \<Rightarrow> string \<Rightarrow> write_limits \<Rightarrow> nat \<Rightarrow> (failure + string) list \<Rightarrow> write_state \<Rightarrow> (failure + write_state) option" where
  "write_chunks rt encoding wl i [] ws = Some (if wl_late wl i then Inl Deadline else Inr ws)"
| "write_chunks rt encoding wl i (Inl e # cs) ws = Some (Inl e)"
| "write_chunks rt encoding wl i (Inr c # cs) ws =
     (if wl_late wl i then Some (Inl Deadline)
      else if wl_max wl * 2 + 65536 < ws_wire ws + length c then Some (Inl Body_Limit)
      else case drain rt encoding wl c (ws\<lparr>ws_wire := ws_wire ws + length c\<rparr>) of
        None \<Rightarrow> None
      | Some (Inl e) \<Rightarrow> Some (Inl e)
      | Some (Inr ws') \<Rightarrow> write_chunks rt encoding wl (Suc i) cs ws')"

definition body_complete :: "string \<Rightarrow> int option \<Rightarrow> write_state \<Rightarrow> failure + string" where
  "body_complete encoding expected ws =
     (if encoding \<noteq> ''identity'' \<and> \<not> ws_eof ws then Inl Decoding
      else if (case expected of None \<Rightarrow> False | Some n \<Rightarrow> n \<noteq> int (ws_wire ws)) then Inl Transfer_Incomplete
      else Inr (ws_out ws))"

section \<open>Writing\<close>

definition lower :: "string \<Rightarrow> string" where
  "lower s = map (\<lambda>c. if is_upper c then char_of ((of_char c :: nat) + 32) else c) s"

definition entity_encoding :: "string option \<Rightarrow> string" where
  "entity_encoding e = lower (trimmed (if nonempty e then the e else ''identity''))"

text \<open>\<open>retrieved_at.strftime("%Y%m%dT%H%M%S%f%z")\<close>, for years of four digits\<close>

definition compact_clock :: "int \<Rightarrow> string" where
  "compact_clock micros =
     (let s = micros div 1000000 in padded 2 (nat (s div 3600)) @ padded 2 (nat (s div 60 mod 60)))"

definition compact_zone :: "int \<Rightarrow> string" where
  "compact_zone z =
     (let s = \<bar>z\<bar> div 1000000; f = \<bar>z\<bar> mod 1000000 in
      (if z < 0 then ''-'' else ''+'') @ compact_clock \<bar>z\<bar>
      @ (if s mod 60 \<noteq> 0 \<or> f \<noteq> 0 then padded 2 (nat (s mod 60)) else []) @ (if f \<noteq> 0 then ''.'' @ padded 6 (nat f) else []))"

definition compact_stamp :: "datetime \<Rightarrow> string" where
  "compact_stamp t =
     (let z = or_else (utc_offset t) 0; wall = instant t + z; d = from_ordinal (nat (wall div micros_per_day)); m = wall mod micros_per_day in
      padded 4 (yr d) @ padded 2 (mo d) @ padded 2 (dy d) @ ''T'' @ compact_clock m @ padded 2 (nat (m div 1000000 mod 60))
      @ padded 6 (nat (m mod 1000000)) @ (if aware t then compact_zone z else []))"

record write_request =
  wr_source :: string
  wr_object :: string
  wr_params :: string
  wr_capture :: uuid
  wr_retrieved :: datetime
  wr_encoding :: "string option"
  wr_expected :: "int option"

definition source_key_ok :: "string \<Rightarrow> bool" where
  "source_key_ok s =
     (case s of [] \<Rightarrow> False
      | c # cs \<Rightarrow>
          (is_digit c \<or> char_between (CHR ''a'') (CHR ''z'') c) \<and> length cs \<le> 79
          \<and> list_all (\<lambda>d. is_digit d \<or> char_between (CHR ''a'') (CHR ''z'') d \<or> d \<in> {CHR ''_'', CHR ''-''}) cs)"

definition write_valid :: "write_request \<Rightarrow> bool" where
  "write_valid w =
     (source_key_ok (wr_source w) \<and> sha256_text (wr_params w) \<and> wr_object w \<noteq> [] \<and> aware (wr_retrieved w)
      \<and> (case wr_expected w of None \<Rightarrow> True | Some n \<Rightarrow> 0 \<le> n))"

definition blob_key :: "'z archive_runtime_scheme \<Rightarrow> write_request \<Rightarrow> string" where
  "blob_key rt w =
     wr_source w @ ''/'' @ sha256_hex rt (wr_object w) @ ''/'' @ wr_params w @ ''/'' @ compact_stamp (wr_retrieved w) @ ''-''
       @ uuid_text rt (wr_capture w) @ ''.gz''"

definition empty_write :: write_state where
  "empty_write = \<lparr>ws_history = [], ws_wire = 0, ws_out = [], ws_eof = False\<rparr>"

text \<open>The temporary file is read back before its key is published, and a key is never overwritten.\<close>

definition publish :: "'z archive_runtime_scheme \<Rightarrow> string \<Rightarrow> string \<Rightarrow> store \<Rightarrow> (failure + archived_body) \<times> store" where
  "publish rt key content st =
     (let file = gzip_of rt content; sha = sha256_hex rt content; n = int (length content) in
      if disk_fails rt 1 then (Inl Os_Error, st)
      else case read_path rt (Some file) sha n of
        Inl e \<Rightarrow> (Inl e, st)
      | Inr _ \<Rightarrow>
          if disk_fails rt 2 \<or> st key \<noteq> None then (Inl Os_Error, st)
          else if disk_fails rt 3 then (Inl Os_Error, st(key \<mapsto> file))
          else (Inr \<lparr>ab_blob = key, ab_sha256 = sha, ab_bytes = n\<rparr>, st(key \<mapsto> file)))"

definition archive_write ::
  "'z archive_runtime_scheme \<Rightarrow> write_limits \<Rightarrow> write_request \<Rightarrow> (failure + string) list \<Rightarrow> store \<Rightarrow> ((failure + archived_body) \<times> store) option" where
  "archive_write rt wl w chunks st =
     (let encoding = entity_encoding (wr_encoding w); key = blob_key rt w in
      if \<not> write_valid w then Some (Inl Other, st)
      else if encoding \<notin> {''identity'', ''gzip'', ''deflate''} then Some (Inl Decoding, st)
      else if \<not> safe_key rt key then Some (Inl Archive_Error, st)
      else if disk_fails rt 0 then Some (Inl Os_Error, st)
      else case write_chunks rt encoding wl 0 chunks empty_write of
        None \<Rightarrow> None
      | Some (Inl e) \<Rightarrow> Some (Inl e, st)
      | Some (Inr ws) \<Rightarrow>
          (case body_complete encoding (wr_expected w) ws of
             Inl e \<Rightarrow> Some (Inl e, st)
           | Inr content \<Rightarrow> Some (publish rt key content st)))"

section \<open>Guarantees\<close>

text \<open>A decoded piece is kept whole, and nothing is kept beyond the limit.\<close>

definition drained :: "string \<Rightarrow> write_limits \<Rightarrow> string \<Rightarrow> write_state \<Rightarrow> failure + write_state \<Rightarrow> bool" where
  "drained encoding wl pending ws r \<longleftrightarrow>
     (\<forall>ws'. r = Inr ws' \<longrightarrow> length (ws_out ws) \<le> wl_max wl \<longrightarrow> length (ws_out ws') \<le> wl_max wl \<and> ws_wire ws' = ws_wire ws
        \<and> (encoding = ''identity'' \<longrightarrow> ws_out ws' = ws_out ws @ pending))"

lemma drain_step_drained:
  assumes "drain_step rt encoding wl pending ws = Inr (tail, ws1)" "drained encoding wl tail ws1 r"
  shows "drained encoding wl pending ws r"
  using assms
  by (auto simp: drained_def drain_step_def decode_once_def absorb_def Let_def split: if_splits option.splits sum.splits)

lemma drain_drained: "drain rt encoding wl pending ws = Some r \<Longrightarrow> drained encoding wl pending ws r"
proof -
  assume "drain rt encoding wl pending ws = Some r"
  then show ?thesis
  proof (rule drain.raw_induct[where P = "\<lambda>rt encoding wl pending ws r. drained encoding wl pending ws r", rotated])
  fix f :: "'a archive_runtime_scheme \<Rightarrow> string \<Rightarrow> write_limits \<Rightarrow> string \<Rightarrow> write_state \<Rightarrow> (failure + write_state) option"
    and rt encoding wl pending ws r
  assume ih: "\<And>rt encoding wl pending ws r. f rt encoding wl pending ws = Some r \<Longrightarrow> drained encoding wl pending ws r"
    and run: "(if pending = [] then Some (Inr ws)
      else case drain_step rt encoding wl pending ws of Inl e \<Rightarrow> Some (Inl e) | Inr p \<Rightarrow> f rt encoding wl (fst p) (snd p)) = Some r"
  show "drained encoding wl pending ws r"
  proof (cases "pending = []")
    case True
    then show ?thesis using run by (auto simp: drained_def)
  next
    case False
    show ?thesis
    proof (cases "drain_step rt encoding wl pending ws")
      case (Inl e)
      then show ?thesis using run False by (auto simp: drained_def)
    next
      case (Inr p)
      then show ?thesis using run False ih[of rt encoding wl "fst p" "snd p" r] drain_step_drained[of rt encoding wl pending ws "fst p" "snd p" r] by simp
    qed
  qed
  qed
qed

lemma write_chunks_kept:
  assumes "write_chunks rt encoding wl i chunks ws = Some (Inr ws')" "length (ws_out ws) \<le> wl_max wl"
  shows "length (ws_out ws') \<le> wl_max wl \<and> (\<forall>e. Inl e \<notin> set chunks) \<and> ws_wire ws' = ws_wire ws + length (concat (map projr chunks))
    \<and> (encoding = ''identity'' \<longrightarrow> ws_out ws' = ws_out ws @ concat (map projr chunks))"
  using assms
proof (induction rt encoding wl i chunks ws rule: write_chunks.induct)
  case (3 rt encoding wl i c cs ws)
  then obtain w where w: "drain rt encoding wl c (ws\<lparr>ws_wire := ws_wire ws + length c\<rparr>) = Some (Inr w)"
    "write_chunks rt encoding wl (Suc i) cs w = Some (Inr ws')" "\<not> wl_late wl i" "\<not> wl_max wl * 2 + 65536 < ws_wire ws + length c"
    by (auto split: if_splits option.splits sum.splits)
  have d: "length (ws_out w) \<le> wl_max wl" "ws_wire w = ws_wire ws + length c" "encoding = ''identity'' \<longrightarrow> ws_out w = ws_out ws @ c"
    using drain_drained[OF w(1)] 3(3) by (auto simp: drained_def)
  then show ?case using 3(1)[OF w(3,4,1)] w(2) by (auto simp del: write_chunks.simps)
qed (auto split: if_splits)

definition lossless :: "'z archive_runtime_scheme \<Rightarrow> bool" where
  "lossless rt \<longleftrightarrow> (\<forall>x. gunzip rt (gzip_of rt x) = Some x)"

lemma publish_ok:
  assumes "publish rt key content st = (Inr body, st')"
  shows "st key = None" "st' = st(key \<mapsto> gzip_of rt content)"
    "body = \<lparr>ab_blob = key, ab_sha256 = sha256_hex rt content, ab_bytes = int (length content)\<rparr>" "sha256_text (sha256_hex rt content)"
  using assms by (auto simp: publish_def read_path_def Let_def split: if_splits option.splits)

lemma publish_failed:
  assumes "publish rt key content st = (Inl e, st')"
  shows "st' = st \<or> st key = None \<and> disk_fails rt 3 \<and> st' = st(key \<mapsto> gzip_of rt content)"
  using assms by (auto simp: publish_def Let_def split: if_splits sum.splits)

text \<open>
  C23.  What was archived can be read back: the key is new and nothing else changes, the content has the reported
  length and digest, respects the limit, is the whole response when it is not compressed, and reading the key with
  the reported digest gives exactly this content.
\<close>

theorem archive_roundtrip:
  assumes "lossless rt" "archive_write rt wl w chunks st = Some (Inr body, st')"
  shows "\<exists>content. read_blob rt st' (ab_blob body) (ab_sha256 body) (ab_bytes body) = Inr content
    \<and> sha256_hex rt content = ab_sha256 body \<and> int (length content) = ab_bytes body \<and> length content \<le> wl_max wl
    \<and> st (ab_blob body) = None \<and> (\<forall>k. k \<noteq> ab_blob body \<longrightarrow> st' k = st k)
    \<and> (entity_encoding (wr_encoding w) = ''identity'' \<longrightarrow> content = concat (map projr chunks))
    \<and> (\<forall>n. wr_expected w = Some n \<longrightarrow> n = int (length (concat (map projr chunks))))"
proof -
  let ?e = "entity_encoding (wr_encoding w)" and ?key = "blob_key rt w"
  obtain ws content where
    x: "safe_key rt ?key" "write_chunks rt ?e wl 0 chunks empty_write = Some (Inr ws)" "body_complete ?e (wr_expected w) ws = Inr content"
      "publish rt ?key content st = (Inr body, st')"
    using assms(2) by (auto simp: archive_write_def Let_def split: if_splits option.splits sum.splits)
  have c: "content = ws_out ws" "\<forall>n. wr_expected w = Some n \<longrightarrow> n = int (ws_wire ws)"
    using x(3) by (auto simp: body_complete_def split: if_splits option.splits)
  have k: "length (ws_out ws) \<le> wl_max wl" "ws_wire ws = length (concat (map projr chunks))"
    "?e = ''identity'' \<longrightarrow> ws_out ws = concat (map projr chunks)"
    using write_chunks_kept[OF x(2)] by (auto simp: empty_write_def)
  note p = publish_ok[OF x(4)]
  have "read_blob rt st' ?key (sha256_hex rt content) (int (length content)) = Inr content"
    using x(1) p(2,4) assms(1) by (simp add: read_blob_def read_path_def lossless_def)
  then show ?thesis using p c k by (intro exI[of _ content]) auto
qed

text \<open>A capture of two uncompressed chunks, with a lossless file format.\<close>

definition ar_rt :: archive_runtime where
  "ar_rt = \<lparr>json_loads = (\<lambda>_. None), sha256_hex = (\<lambda>_. replicate 64 (CHR ''a'')), urlsplit = (\<lambda>_. None), uuid_text = nat_text,
     source_tree = (\<lambda>_. None), uuid5_url = length, split_parts_of = (\<lambda>_. None), urljoin = (\<lambda>_ _. None), parse_http_date = (\<lambda>_. None),
     gzip_of = Cons (CHR ''z''), gunzip = (\<lambda>s. case s of [] \<Rightarrow> None | c # cs \<Rightarrow> Some cs), inflate = (\<lambda>_ _. None),
     is_symlink = (\<lambda>_. False), inside_root = (\<lambda>_. True), disk_fails = (\<lambda>_. False)\<rparr>"

definition ar_limits :: write_limits where
  "ar_limits = \<lparr>wl_max = 10, wl_late = (\<lambda>_. False), wl_screen = (\<lambda>_ _. None)\<rparr>"

definition ar_request :: write_request where
  "ar_request = \<lparr>wr_source = ''sec'', wr_object = ''o'', wr_params = replicate 64 (CHR ''b''), wr_capture = 7,
     wr_retrieved = Datetime (739300 * micros_per_day) (Some 0), wr_encoding = None, wr_expected = Some 2\<rparr>"

lemma ar_lossless: "lossless ar_rt"
  by (simp add: lossless_def ar_rt_def)

lemma ar_valid: "write_valid ar_request" "safe_key ar_rt (blob_key ar_rt ar_request)"
  by code_simp+

lemma ar_plain: "entity_encoding (wr_encoding ar_request) = ''identity''" "wr_expected ar_request = Some 2"
  by code_simp+

lemma ar_digest: "sha256_text (sha256_hex ar_rt content)"
proof -
  have "sha256_hex ar_rt content = replicate 64 (CHR ''a'')" by (simp add: ar_rt_def)
  moreover have "sha256_text (replicate 64 (CHR ''a''))" by code_simp
  ultimately show ?thesis by simp
qed

lemma ar_write:
  "archive_write ar_rt ar_limits ar_request [Inr ''a'', Inr ''b''] Map.empty
     = Some (Inr \<lparr>ab_blob = blob_key ar_rt ar_request, ab_sha256 = sha256_hex ar_rt ''ab'', ab_bytes = 2\<rparr>,
         [blob_key ar_rt ar_request \<mapsto> gzip_of ar_rt ''ab''])"
proof -
  have fails: "disk_fails ar_rt n = False" for n by (simp add: ar_rt_def)
  have zip: "gunzip ar_rt (gzip_of ar_rt x) = Some x" for x by (simp add: ar_rt_def)
  have chunks: "write_chunks ar_rt ''identity'' ar_limits 0 [Inr ''a'', Inr ''b''] empty_write
      = Some (Inr \<lparr>ws_history = [], ws_wire = 2, ws_out = ''ab'', ws_eof = False\<rparr>)"
    by (simp add: drain.simps drain_step_def decode_once_def absorb_def ar_limits_def empty_write_def)
  show ?thesis
    by (simp add: archive_write_def ar_valid ar_plain ar_digest chunks fails zip body_complete_def publish_def read_path_def Let_def del: write_chunks.simps)
qed

theorem archive_roundtrip_witness:
  "\<exists>body st'. archive_write ar_rt ar_limits ar_request [Inr ''a'', Inr ''b''] Map.empty = Some (Inr body, st')
     \<and> read_blob ar_rt st' (ab_blob body) (ab_sha256 body) (ab_bytes body) = Inr ''ab''"
  using archive_roundtrip[OF ar_lossless ar_write] ar_write ar_plain by auto

text \<open>A failed write loses nothing that was there.\<close>

lemma archive_failure_keeps:
  assumes "archive_write rt wl w chunks st = Some (Inl e, st')" "st k = Some file"
  shows "st' k = Some file"
proof -
  have "st' = st \<or> (\<exists>content. publish rt (blob_key rt w) content st = (Inl e, st'))"
    using assms(1) by (auto simp: archive_write_def Let_def split: if_splits option.splits sum.splits)
  then show ?thesis using publish_failed assms(2) by fastforce
qed

section \<open>Progress\<close>

text \<open>A decompressor leaves input only when it produced output.\<close>

definition progressive :: "'z archive_runtime_scheme \<Rightarrow> bool" where
  "progressive rt \<longleftrightarrow>
     (\<forall>encoding p n h s. 0 < n \<longrightarrow> inflate rt encoding ((p, n) # h) = Some s \<longrightarrow> if_tail s = [] \<or> if_out s \<noteq> [])"

lemma drain_returns:
  assumes "progressive rt" "length (ws_out ws) \<le> wl_max wl"
  shows "\<exists>r. drain rt encoding wl pending ws = Some r"
  using assms(2)
proof (induction "wl_max wl - length (ws_out ws)" arbitrary: pending ws rule: less_induct)
  case less
  show ?case
  proof (cases "pending = [] \<or> (\<exists>e. drain_step rt encoding wl pending ws = Inl e)")
    case True
    then show ?thesis by (subst drain.simps) auto
  next
    case False
    then obtain tail ws1 where s: "drain_step rt encoding wl pending ws = Inr (tail, ws1)"
      by (cases "drain_step rt encoding wl pending ws") auto
    have inflated: "if_tail q = [] \<or> if_out q \<noteq> []" if "inflate rt encoding ((p, Suc k) # h) = Some q" for p k h q
      using assms(1) that unfolding progressive_def by blast
    have "tail = [] \<or> length (ws_out ws) < length (ws_out ws1)" "length (ws_out ws1) \<le> wl_max wl"
      using s less(2)
      by (auto simp: drain_step_def decode_once_def absorb_def Let_def split: if_splits option.splits sum.splits dest: inflated)
    then have "\<exists>r. drain rt encoding wl tail ws1 = Some r"
      using less(1)[of ws1 tail] drain.simps[of rt encoding wl "[]" ws1] by fastforce
    then show ?thesis
      using False s by (subst drain.simps) simp
  qed
qed

end
