(* ===== verification/Assumptions.thy ===== *)
theory Assumptions
  imports Anchors Solver_Properties Sec_Manifest
begin

text \<open>
  \<open>packages/schema/valuation.py\<close>: what a valuation run is given, with every validator.  Scenarios leave open
  exactly the parameter that is solved for; each scenario and parameter is bound to one signed judgment; the bridge
  from enterprise value to equity has exactly seven claims, a share pool and a price.  Fields that can have only one
  value are left out.
\<close>

section \<open>Texts\<close>

definition short_text :: "string \<Rightarrow> bool" where
  "short_text s = (s \<noteq> [] \<and> length s \<le> 250)"

fun if_present :: "('a \<Rightarrow> bool) \<Rightarrow> 'a option \<Rightarrow> bool" where
  "if_present P None = True"
| "if_present P (Some x) = P x"

definition fixture_address :: "string \<Rightarrow> bool" where
  "fixture_address = starts_with ''https://example.invalid/''"

fun variable_text :: "variable \<Rightarrow> string" where
  "variable_text Revenue_cagr = ''revenue_cagr''"
| "variable_text Terminal_operating_margin = ''terminal_operating_margin''"
| "variable_text Reinvestment_to_revenue = ''reinvestment_to_revenue''"

section \<open>Scenarios and judgments\<close>

record scenario =
  sn_name :: string
  sn_anchor :: dec
  sn_growth :: "dec list option"
  sn_margins :: "dec list option"
  sn_taxes :: "dec list"
  sn_reinvestment :: "dec list option"
  sn_wacc :: dec
  sn_risk_free :: dec
  sn_terminal_growth :: dec
  sn_terminal_margin :: "dec option"
  sn_terminal_tax :: dec
  sn_terminal_roic :: dec
  sn_solve :: solve_spec

definition scenario_inputs :: "scenario \<Rightarrow> dec list" where
  "scenario_inputs s =
     [sn_anchor s] @ or_else (sn_growth s) [] @ or_else (sn_margins s) [] @ sn_taxes s @ or_else (sn_reinvestment s) []
     @ [sn_wacc s, sn_risk_free s, sn_terminal_growth s] @ (case sn_terminal_margin s of None \<Rightarrow> [] | Some m \<Rightarrow> [m])
     @ [sn_terminal_tax s, sn_terminal_roic s]"

text \<open>Only the declared solved parameter may be unspecified.\<close>

definition slots_ok :: "scenario \<Rightarrow> bool" where
  "slots_ok s =
     (let v = solve_variable (sn_solve s) in
      (sn_growth s = None) = (v = Revenue_cagr) \<and> (sn_reinvestment s = None) = (v = Reinvestment_to_revenue)
      \<and> (sn_margins s = None) = (v = Terminal_operating_margin) \<and> (sn_terminal_margin s = None) = (v = Terminal_operating_margin)
      \<and> 5 \<le> length (sn_taxes s) \<and> length (sn_taxes s) \<le> 10
      \<and> (v = Terminal_operating_margin \<longrightarrow> length (margin_weights (sn_solve s)) = length (sn_taxes s)))"

definition scenario_valid :: "scenario \<Rightarrow> bool" where
  "scenario_valid s =
     (short_text (sn_name s) \<and> list_all dcf_bounds (scenario_inputs s) \<and> spec_domain (sn_solve s) \<and> slots_ok s)"

datatype judgment_binding =
  Scalar_Binding dec | Vector_Binding "dec list" | Solved_Binding variable | Schedule_Binding "date list" | Solver_Binding solve_spec

definition binding_valid :: "judgment_binding \<Rightarrow> bool" where
  "binding_valid b =
     (case b of
        Scalar_Binding x \<Rightarrow> dcf_bounds x
      | Vector_Binding xs \<Rightarrow> list_all dcf_bounds xs
      | Solver_Binding s \<Rightarrow> spec_domain s
      | _ \<Rightarrow> True)"

record user_judgment =
  jd_scenario :: string
  jd_parameter :: string
  jd_binding :: judgment_binding
  jd_author :: string
  jd_authored :: datetime
  jd_known :: datetime
  jd_unit :: string
  jd_rationale :: string
  jd_from :: date
  jd_to :: date
  jd_hashes :: "string list"

definition judgment_valid :: "user_judgment \<Rightarrow> bool" where
  "judgment_valid j =
     (short_text (jd_scenario j) \<and> short_text (jd_parameter j) \<and> binding_valid (jd_binding j) \<and> short_text (jd_author j)
      \<and> aware (jd_authored j) \<and> aware (jd_known j)
      \<and> jd_unit j \<in> {''fraction'', ''currency'', ''years'', ''schedule'', ''solver_policy''}
      \<and> 1 \<le> length (jd_rationale j) \<and> length (jd_rationale j) \<le> 4000 \<and> list_all sha256_text (jd_hashes j)
      \<and> jd_from j \<le> jd_to j)"

definition required_parameters :: "string list" where
  "required_parameters =
     [''revenue_anchor'', ''growth'', ''margins'', ''taxes'', ''reinvestment'', ''wacc'', ''risk_free'', ''terminal_growth'',
      ''terminal_margin'', ''terminal_tax'', ''terminal_roic'', ''schedule'', ''solver_policy'']"

text \<open>A parameter without a value is the solved one.\<close>

definition bound_or_solved :: "scenario \<Rightarrow> ('a \<Rightarrow> judgment_binding) \<Rightarrow> 'a option \<Rightarrow> judgment_binding" where
  "bound_or_solved s bound v = (case v of None \<Rightarrow> Solved_Binding (solve_variable (sn_solve s)) | Some x \<Rightarrow> bound x)"

definition binding_for :: "scenario \<Rightarrow> string \<Rightarrow> date list \<Rightarrow> judgment_binding option" where
  "binding_for s parameter dates =
     map_of [(''schedule'', Schedule_Binding dates), (''solver_policy'', Solver_Binding (sn_solve s)),
       (''revenue_anchor'', Scalar_Binding (sn_anchor s)), (''growth'', bound_or_solved s Vector_Binding (sn_growth s)),
       (''margins'', bound_or_solved s Vector_Binding (sn_margins s)), (''taxes'', Vector_Binding (sn_taxes s)),
       (''reinvestment'', bound_or_solved s Vector_Binding (sn_reinvestment s)), (''wacc'', Scalar_Binding (sn_wacc s)),
       (''risk_free'', Scalar_Binding (sn_risk_free s)), (''terminal_growth'', Scalar_Binding (sn_terminal_growth s)),
       (''terminal_margin'', bound_or_solved s Scalar_Binding (sn_terminal_margin s)),
       (''terminal_tax'', Scalar_Binding (sn_terminal_tax s)), (''terminal_roic'', Scalar_Binding (sn_terminal_roic s))] parameter"

definition expected_unit :: "string \<Rightarrow> string" where
  "expected_unit parameter =
     (if parameter = ''revenue_anchor'' then ''currency''
      else if parameter \<in> {''schedule'', ''solver_policy''} then parameter else ''fraction'')"

section \<open>Sensitivity grids\<close>

datatype grid_parameter = Grid_wacc | Grid_terminal_growth | Grid_variable variable

datatype grid_output = Reverse_implied_parameter | Conditional_reprice

record sensitivity_grid =
  sg_name :: string
  sg_reference :: string
  sg_output :: grid_output
  sg_x :: grid_parameter
  sg_xs :: "dec list"
  sg_y :: grid_parameter
  sg_ys :: "dec list"
  sg_conditional :: "dec option"

fun dec_distinct :: "dec list \<Rightarrow> bool" where
  "dec_distinct [] = True"
| "dec_distinct (x # xs) = (\<not> list_ex (dec_eq x) xs \<and> dec_distinct xs)"

definition grid_valid :: "sensitivity_grid \<Rightarrow> bool" where
  "grid_valid g =
     (short_text (sg_name g) \<and> short_text (sg_reference g)
      \<and> list_all dcf_bounds (sg_xs g @ sg_ys g @ (case sg_conditional g of None \<Rightarrow> [] | Some c \<Rightarrow> [c]))
      \<and> sg_xs g \<noteq> [] \<and> sg_ys g \<noteq> [] \<and> sg_x g \<noteq> sg_y g \<and> length (sg_xs g) * length (sg_ys g) \<le> 100
      \<and> dec_distinct (sg_xs g) \<and> dec_distinct (sg_ys g)
      \<and> (sg_conditional g = None) = (sg_output g = Reverse_implied_parameter))"

section \<open>Assumptions\<close>

record assumption_content =
  ac_authored :: datetime
  ac_author :: string
  ac_valuation_at :: datetime
  ac_retrospective :: bool
  ac_dates :: "date list"
  ac_anchor_index :: nat
  ac_scenarios :: "scenario list"
  ac_grids :: "sensitivity_grid list"
  ac_judgments :: "user_judgment list"

text \<open>The same day \<open>n\<close> years later, and the last of February where that day does not exist.\<close>

definition anniversary :: "date \<Rightarrow> nat \<Rightarrow> date option" where
  "anniversary d n =
     (let same = Date (yr d + n) (mo d) (dy d) in
      if 9999 < yr d + n then None else if valid_date same then Some same else Some (Date (yr d + n) 2 28))"

definition schedule_ok :: "assumption_content \<Rightarrow> bool" where
  "schedule_ok a =
     (let n = length (ac_dates a); today = from_ordinal (nat (utc_day (ac_valuation_at a))) in
      opt_all (map (anniversary today) [1..<n + 1]) = Some (ac_dates a) \<and> list_all (\<lambda>s. length (sn_taxes s) = n) (ac_scenarios a))"

definition judged_once :: "assumption_content \<Rightarrow> bool" where
  "judged_once a =
     (let keys = map (\<lambda>j. (jd_scenario j, jd_parameter j)) (ac_judgments a) in
      set keys = set (List.product (map sn_name (ac_scenarios a)) required_parameters) \<and> distinct keys)"

text \<open>
  The canonical text of a binding determines it: a decimal is spelled with its sign, digits and exponent, so equal texts
  are equal bindings.
\<close>

definition judgment_bound :: "assumption_content \<Rightarrow> user_judgment \<Rightarrow> bool" where
  "judgment_bound a j =
     (jd_author j = ac_author a \<and> instant (jd_authored j) = instant (ac_authored a)
      \<and> instant (jd_known j) = instant (ac_authored a)
      \<and> (case List.find (\<lambda>s. sn_name s = jd_scenario j) (ac_scenarios a) of
           None \<Rightarrow> False
         | Some s \<Rightarrow> binding_for s (jd_parameter j) (ac_dates a) = Some (jd_binding j))
      \<and> jd_unit j = expected_unit (jd_parameter j))"

definition grids_ok :: "assumption_content \<Rightarrow> bool" where
  "grids_ok a =
     (list_all (\<lambda>g. sg_reference g \<in> set (map sn_name (ac_scenarios a))
        \<and> \<not> (sg_output g = Reverse_implied_parameter
             \<and> Grid_variable (solve_variable (sn_solve (hd (ac_scenarios a)))) \<in> {sg_x g, sg_y g})) (ac_grids a)
      \<and> distinct (map sg_name (ac_grids a)))"

definition assumptions_valid :: "assumption_content \<Rightarrow> bool" where
  "assumptions_valid a =
     (aware (ac_authored a) \<and> short_text (ac_author a) \<and> aware (ac_valuation_at a)
      \<and> 1 \<le> length (ac_scenarios a) \<and> length (ac_scenarios a) \<le> 12 \<and> length (ac_grids a) \<le> 4
      \<and> list_all scenario_valid (ac_scenarios a) \<and> list_all grid_valid (ac_grids a) \<and> list_all judgment_valid (ac_judgments a)
      \<and> ac_retrospective a = (instant (ac_valuation_at a) < instant (ac_authored a))
      \<and> distinct (map sn_name (ac_scenarios a)) \<and> all_same (map (\<lambda>s. solve_variable (sn_solve s)) (ac_scenarios a))
      \<and> schedule_ok a \<and> judged_once a \<and> list_all (judgment_bound a) (ac_judgments a) \<and> grids_ok a)"

section \<open>The bridge\<close>

datatype claim_kind = Cash | Nonoperating_assets | Debt | Leases | Preferred | Nci | Other_claims

definition claim_kinds :: "claim_kind list" where
  "claim_kinds = [Cash, Nonoperating_assets, Debt, Leases, Preferred, Nci, Other_claims]"

fun claim_text :: "claim_kind \<Rightarrow> string" where
  "claim_text Cash = ''cash''"
| "claim_text Nonoperating_assets = ''nonoperating_assets''"
| "claim_text Debt = ''debt''"
| "claim_text Leases = ''leases''"
| "claim_text Preferred = ''preferred''"
| "claim_text Nci = ''nci''"
| "claim_text Other_claims = ''other''"

datatype coverage_disposition = Claim_included | Claim_excluded | Claim_unknown
datatype known_basis = Owner_reviewed_instant | Date_only | Unproven
datatype claim_state = Eligible_amount | Evidenced_absence | Claim_unavailable
datatype claim_basis = Economic_value | Absence_basis | Unreviewed

record claim_coverage =
  cc_component :: claim_kind
  cc_disposition :: coverage_disposition
  cc_explanation :: string
  cc_evidence :: "string option"

record claim =
  cm_kind :: claim_kind
  cm_coverage :: "claim_coverage list option"
  cm_ids :: "string list"
  cm_state :: claim_state
  cm_amount :: "dec option"
  cm_currency :: string
  cm_as_of :: date
  cm_known :: datetime
  cm_captured :: datetime
  cm_known_basis :: known_basis
  cm_basis :: claim_basis
  cm_evidence :: string
  cm_url :: string
  cm_reasons :: "string list"

definition claim_fields_ok :: "claim \<Rightarrow> bool" where
  "claim_fields_ok c =
     (list_all (\<lambda>v. short_text (cc_explanation v) \<and> if_present sha256_text (cc_evidence v)) (or_else (cm_coverage c) [])
      \<and> list_all short_text (cm_ids c) \<and> if_present dcf_bounds (cm_amount c) \<and> iso_currency (cm_currency c)
      \<and> aware (cm_known c) \<and> aware (cm_captured c) \<and> sha256_text (cm_evidence c) \<and> fixture_address (cm_url c)
      \<and> list_all short_text (cm_reasons c))"

definition claim_valid :: "claim \<Rightarrow> bool" where
  "claim_valid c =
     (claim_fields_ok c
      \<and> (case cm_state c of
           Eligible_amount \<Rightarrow>
             (case cm_amount c of None \<Rightarrow> False | Some x \<Rightarrow> dec_nonneg x) \<and> cm_basis c = Economic_value \<and> cm_ids c \<noteq> []
         | Evidenced_absence \<Rightarrow>
             (case cm_amount c of None \<Rightarrow> False | Some x \<Rightarrow> dec_eq x dec_zero) \<and> cm_basis c = Absence_basis \<and> cm_ids c \<noteq> []
         | Claim_unavailable \<Rightarrow> cm_amount c = None \<and> cm_reasons c \<noteq> [])
      \<and> distinct (cm_ids c))"

record share_pool =
  sh_source_basic :: "dec option"
  sh_source_diluted :: "dec option"
  sh_source_unit :: "string option"
  sh_source_multiplier :: "dec option"
  sh_basic :: "dec option"
  sh_diluted :: "dec option"
  sh_currency :: string
  sh_as_of :: date
  sh_known :: datetime
  sh_captured :: datetime
  sh_known_basis :: known_basis
  sh_action_basis :: string
  sh_evidence :: string
  sh_url :: string
  sh_homogeneous_pool :: bool
  sh_no_dilutive_claims :: bool
  sh_complete_actions :: bool
  sh_lease_basis :: bool
  sh_unrestricted_cash :: bool
  sh_no_crossholdings :: bool
  sh_reasons :: "string list"

definition shares_valid :: "share_pool \<Rightarrow> bool" where
  "shares_valid s =
     (list_all (if_present dcf_bounds) [sh_source_basic s, sh_source_diluted s, sh_source_multiplier s, sh_basic s, sh_diluted s]
      \<and> if_present (\<lambda>u. u \<in> {''shares'', ''thousand_shares'', ''million_shares''}) (sh_source_unit s)
      \<and> iso_currency (sh_currency s) \<and> aware (sh_known s) \<and> aware (sh_captured s) \<and> short_text (sh_action_basis s)
      \<and> sha256_text (sh_evidence s) \<and> fixture_address (sh_url s) \<and> list_all short_text (sh_reasons s))"

record price_evidence =
  px_source :: uuid
  px_quote_identifier :: uuid
  px_security :: uuid
  px_batch :: "uuid option"
  px_observation :: "uuid option"
  px_reference_date :: date
  px_retrieval_cutoff :: datetime
  px_known :: datetime
  px_selection_hash :: string
  px_value :: "dec option"
  px_currency :: "string option"
  px_usable :: bool
  px_adjustment :: "string option"
  px_session :: "string option"
  px_action_basis :: string
  px_reasons :: "string list"

definition price_valid :: "price_evidence \<Rightarrow> bool" where
  "price_valid p =
     (aware (px_retrieval_cutoff p) \<and> aware (px_known p) \<and> sha256_text (px_selection_hash p) \<and> if_present dcf_bounds (px_value p)
      \<and> if_present iso_currency (px_currency p) \<and> short_text (px_action_basis p) \<and> list_all short_text (px_reasons p))"

record valuation_policy =
  vp_revision :: string
  vp_effective :: datetime
  vp_known :: datetime
  vp_applicability :: string
  vp_evidence :: string
  vp_financial_age :: int
  vp_quote_age :: int
  vp_claim_age :: int

definition policy_valid :: "valuation_policy \<Rightarrow> bool" where
  "policy_valid p =
     (short_text (vp_revision p) \<and> aware (vp_effective p) \<and> aware (vp_known p)
      \<and> vp_applicability p \<in> {''reviewed_operating_fcff'', ''unsupported''} \<and> sha256_text (vp_evidence p)
      \<and> 0 \<le> vp_financial_age p \<and> vp_financial_age p \<le> 3650 \<and> 0 \<le> vp_quote_age p \<and> vp_quote_age p \<le> 365
      \<and> 0 \<le> vp_claim_age p \<and> vp_claim_age p \<le> 3650)"

text \<open>\<open>SelectionKey.validate_context\<close> with the fields' own restrictions.\<close>

definition selector_valid :: "selection_key \<Rightarrow> bool" where
  "selector_valid k =
     (sk_period_basis k \<in> {''annual'', ''quarter'', ''ttm'', ''instant''} \<and> sk_reporting_basis k \<in> {''us_gaap'', ''ifrs''}
      \<and> iso_currency (sk_currency k)
      \<and> list_all short_text [sk_profile_revision k, sk_freshness_revision k, sk_history_revision k, sk_trend_revision k, sk_engine_revision k]
      \<and> sha256_text (sk_policy_content_hash k) \<and> sk_history_years k \<in> {3, 5, 10}
      \<and> aware (sk_captured_before k) \<and> aware (sk_evaluated_at k)
      \<and> utc_day (sk_evaluated_at k) = int (toordinal (sk_as_of k)) \<and> sk_period_end k \<le> sk_as_of k
      \<and> (sk_period_basis k = ''instant'') = (sk_period_start k = None)
      \<and> if_present (\<lambda>d. d \<le> sk_period_end k) (sk_period_start k)
      \<and> (sk_history_mode k = AS_FILED_BY_DATE \<longrightarrow> sk_filed_cutoff k \<noteq> None)
      \<and> (sk_history_mode k = LATEST_REPORTED \<longrightarrow> sk_filed_cutoff k = None)
      \<and> if_present (\<lambda>d. d \<le> sk_as_of k) (sk_filed_cutoff k))"

record valuation_manifest =
  vm_selector :: selection_key
  vm_snapshot :: uuid
  vm_payload_hash :: string
  vm_input_hash :: string
  vm_assumption_set :: uuid
  vm_assumptions :: assumption_content
  vm_engine_build :: string
  vm_policy :: valuation_policy
  vm_price :: price_evidence
  vm_shares :: share_pool
  vm_claims :: "claim list"
  vm_captured_before :: datetime
  vm_source_reasons :: "string list"
  vm_uncertainty :: "(string \<times> dec option) list"

definition identities_ok :: "valuation_manifest \<Rightarrow> bool" where
  "identities_ok m =
     (set (map cm_kind (vm_claims m)) = set claim_kinds \<and> length (vm_claims m) = 7
      \<and> distinct (concat (map cm_ids (vm_claims m)))
      \<and> px_security (vm_price m) = sk_security (vm_selector m)
      \<and> px_quote_identifier (vm_price m) = sk_quote_identifier (vm_selector m))"

definition manifest_valid :: "valuation_manifest \<Rightarrow> bool" where
  "manifest_valid m =
     (selector_valid (vm_selector m) \<and> list_all sha256_text [vm_payload_hash m, vm_input_hash m, vm_engine_build m]
      \<and> assumptions_valid (vm_assumptions m) \<and> policy_valid (vm_policy m) \<and> price_valid (vm_price m) \<and> shares_valid (vm_shares m)
      \<and> list_all claim_valid (vm_claims m) \<and> aware (vm_captured_before m)
      \<and> list_all (\<lambda>(name, u). short_text name \<and> if_present dcf_bounds u) (vm_uncertainty m) \<and> identities_ok m)"

end
