(* ===== verification/Composition.thy ===== *)
theory Composition
  imports Assumptions Sensitivity
begin

text \<open>
  \<open>packages/core/valuation_payload.py\<close>: the bridge from the price to the target of the solver, the named scenarios,
  the cells of the sensitivity grids and the payload.  A result in which an exception was caught keeps what was
  computed before it, as the source's local variables do.
\<close>

section \<open>The bridge\<close>

record bridge_result =
  br_eligible :: bool
  br_market :: "dec option"
  br_adjustment :: "dec option"
  br_target :: "dec option"
  br_shares :: "dec option"
  br_reasons :: "string list"

definition aged_within :: "date \<Rightarrow> int \<Rightarrow> datetime \<Rightarrow> bool" where
  "aged_within d limit now = (0 \<le> utc_day now - int (toordinal d) \<and> utc_day now - int (toordinal d) \<le> limit)"

definition known_unproven :: "known_basis \<Rightarrow> datetime \<Rightarrow> datetime \<Rightarrow> bool" where
  "known_unproven basis known now = (basis = Unproven \<or> basis = Date_only \<and> utc_day now \<le> utc_day known)"

definition policy_reasons :: "valuation_manifest \<Rightarrow> string list" where
  "policy_reasons m =
     (let now = ac_valuation_at (vm_assumptions m); k = vm_selector m; policy = vm_policy m in
      flag_if (vp_applicability policy \<noteq> ''reviewed_operating_fcff'') ''unsupported_operating_model''
      @ flag_if (instant now < instant (vp_known policy) \<or> instant now < instant (vp_effective policy)) ''policy_not_known_or_effective''
      @ flag_if (\<not> aged_within (sk_period_end k) (vp_financial_age policy) now) ''ineligible_financial_age''
      @ flag_if (case sk_filed_cutoff k of None \<Rightarrow> True | Some d \<Rightarrow> utc_day now < int (toordinal d)) ''financial_known_cutoff'')"

definition quote_eligible :: "valuation_manifest \<Rightarrow> bool" where
  "quote_eligible m =
     (let p = vm_price m in
      px_usable p \<and> (case px_value p of None \<Rightarrow> False | Some v \<Rightarrow> dec_pos v) \<and> px_observation p \<noteq> None \<and> px_batch p \<noteq> None
      \<and> px_currency p = Some (sk_currency (vm_selector m))
      \<and> px_adjustment p \<in> Some ` {''unadjusted'', ''split_only'', ''split_and_dividend'', ''unknown''}
      \<and> (case px_session p of None \<Rightarrow> False | Some s \<Rightarrow> s \<noteq> []))"

definition price_reasons :: "valuation_manifest \<Rightarrow> string list" where
  "price_reasons m =
     (let now = ac_valuation_at (vm_assumptions m); p = vm_price m in
      flag_if (\<not> quote_eligible m) ''ineligible_quote''
      @ flag_if (instant now < instant (px_known p) \<or> \<not> aged_within (px_reference_date p) (vp_quote_age (vm_policy m)) now)
          ''quote_time_or_freshness'')"

definition pool_eligible :: "valuation_manifest \<Rightarrow> bool" where
  "pool_eligible m =
     (let s = vm_shares m in
      (case (sh_basic s, sh_diluted s) of (Some b, Some d) \<Rightarrow> dec_pos b \<and> dec_eq b d | _ \<Rightarrow> False)
      \<and> sh_currency s = sk_currency (vm_selector m)
      \<and> sh_homogeneous_pool s \<and> sh_no_dilutive_claims s \<and> sh_complete_actions s \<and> sh_lease_basis s
      \<and> sh_unrestricted_cash s \<and> sh_no_crossholdings s)"

definition unit_multiplier :: "string option \<Rightarrow> dec option" where
  "unit_multiplier u =
     map_of [(''shares'', dec_of_int 1), (''thousand_shares'', dec_of_int 1000), (''million_shares'', dec_of_int 1000000)] (or_else u [])"

text \<open>A source count in whole shares; a trapped signal is not caught.\<close>

definition count_differs :: "dec \<Rightarrow> dec \<Rightarrow> dec option \<Rightarrow> bool option" where
  "count_differs counted multiplier stated =
     map_option (\<lambda>n. case stated of None \<Rightarrow> True | Some c \<Rightarrow> \<not> dec_eq n c) (dec_mul CONTEXT counted multiplier)"

definition normalization_reasons :: "share_pool \<Rightarrow> string list result" where
  "normalization_reasons s =
     (case (unit_multiplier (sh_source_unit s), sh_source_multiplier s, sh_source_basic s, sh_source_diluted s) of
        (Some k, Some stated, Some basic, Some diluted) \<Rightarrow>
          if \<not> dec_eq stated k then Inr [''share_source_unit_unproven'']
          else (case count_differs basic k (sh_basic s) of
              None \<Rightarrow> Inl NumericError
            | Some True \<Rightarrow> Inr [''share_normalization_mismatch'']
            | Some False \<Rightarrow>
                (case count_differs diluted k (sh_diluted s) of
                   None \<Rightarrow> Inl NumericError
                 | Some b \<Rightarrow> Inr (flag_if b ''share_normalization_mismatch'')))
      | _ \<Rightarrow> Inr [''share_source_unit_unproven''])"

definition share_reasons :: "valuation_manifest \<Rightarrow> string list" where
  "share_reasons m =
     (let now = ac_valuation_at (vm_assumptions m); s = vm_shares m in
      flag_if (\<not> pool_eligible m) ''ineligible_common_pool_or_operating_basis''
      @ flag_if (instant (vm_captured_before m) < instant (sh_captured s) \<or> known_unproven (sh_known_basis s) (sh_known s) now)
          ''share_capture_or_publication_unproven''
      @ flag_if (sh_action_basis s \<noteq> px_action_basis (vm_price m)) ''price_share_action_mismatch''
      @ flag_if (instant now < instant (sh_known s) \<or> \<not> aged_within (sh_as_of s) (vp_claim_age (vm_policy m)) now) ''share_time_or_freshness'')"

text \<open>A claim is covered when exactly its own component is included, and only as an amount.\<close>

definition scope_proven :: "valuation_manifest \<Rightarrow> claim \<Rightarrow> bool" where
  "scope_proven m c =
     (let rows = or_else (cm_coverage c) [] in
      length rows = 7 \<and> set (map cc_component rows) = set (map cm_kind (vm_claims m))
      \<and> list_all (\<lambda>r. cc_evidence r \<noteq> None
           \<and> cc_disposition r = (if cc_component r = cm_kind c \<and> cm_state c = Eligible_amount then Claim_included else Claim_excluded)) rows)"

definition claim_eligible :: "valuation_manifest \<Rightarrow> claim \<Rightarrow> bool" where
  "claim_eligible m c =
     (let now = ac_valuation_at (vm_assumptions m) in
      cm_state c \<noteq> Claim_unavailable \<and> instant (cm_captured c) \<le> instant (vm_captured_before m)
      \<and> \<not> known_unproven (cm_known_basis c) (cm_known c) now \<and> cm_currency c = sk_currency (vm_selector m)
      \<and> instant (cm_known c) \<le> instant now \<and> aged_within (cm_as_of c) (vp_claim_age (vm_policy m)) now)"

definition claim_reasons :: "valuation_manifest \<Rightarrow> claim \<Rightarrow> string list" where
  "claim_reasons m c =
     flag_if (\<not> scope_proven m c) (''claim_scope_unproven_or_overlapping:'' @ claim_text (cm_kind c))
     @ flag_if (\<not> claim_eligible m c) (''ineligible_claim:'' @ claim_text (cm_kind c))"

definition bridge_objections :: "valuation_manifest \<Rightarrow> string list result" where
  "bridge_objections m =
     map_sum id (\<lambda>units. vm_source_reasons m @ policy_reasons m @ price_reasons m @ share_reasons m @ units
       @ concat (map (claim_reasons m) (vm_claims m))) (normalization_reasons (vm_shares m))"

definition signed_claim :: "claim \<Rightarrow> dec option" where
  "signed_claim c =
     Option.bind (cm_amount c) (\<lambda>a. if cm_kind c \<in> {Cash, Nonoperating_assets} then Some a else dec_neg CONTEXT a)"

text \<open>\<open>sum((c.amount if c.kind in (...) else -c.amount for c in claims if c.amount is not None), D(0))\<close>\<close>

definition bridge_adjustment :: "claim list \<Rightarrow> dec option" where
  "bridge_adjustment cs =
     Option.bind (opt_all (map signed_claim (filter (\<lambda>c. cm_amount c \<noteq> None) cs))) (dec_sum CONTEXT dec_zero)"

definition ineligible_bridge :: "string list \<Rightarrow> bridge_result" where
  "ineligible_bridge reasons =
     \<lparr>br_eligible = False, br_market = None, br_adjustment = None, br_target = None, br_shares = None, br_reasons = reasons\<rparr>"

definition eligible_bridge :: "valuation_manifest \<Rightarrow> bridge_result result" where
  "eligible_bridge m =
     (if list_ex (\<lambda>c. cm_amount c = None) (vm_claims m) then Inl AssertionError
      else case bridge_adjustment (vm_claims m) of
        None \<Rightarrow> Inl NumericError
      | Some adjustment \<Rightarrow>
          (case (px_value (vm_price m), sh_basic (vm_shares m)) of
             (Some price, Some shares) \<Rightarrow>
               (case dec_mul CONTEXT price shares of
                  None \<Rightarrow> Inl NumericError
                | Some market \<Rightarrow>
                    (case dec_sub CONTEXT market adjustment of
                       None \<Rightarrow> Inl NumericError
                     | Some target \<Rightarrow>
                         Inr \<lparr>br_eligible = True, br_market = Some market, br_adjustment = Some adjustment,
                           br_target = Some target, br_shares = Some shares, br_reasons = []\<rparr>))
           | _ \<Rightarrow> Inl AssertionError))"

definition bridge :: "valuation_manifest \<Rightarrow> bridge_result result" where
  "bridge m =
     (if \<not> manifest_valid m then Inl ValueError
      else case bridge_objections m of
        Inl e \<Rightarrow> Inl e
      | Inr reasons \<Rightarrow> if reasons \<noteq> [] then Inr (ineligible_bridge reasons) else eligible_bridge m)"

section \<open>Scenarios\<close>

text \<open>\<open>(1 - w) * anchor + w * parameter\<close>\<close>

definition faded_margin :: "dec \<Rightarrow> dec \<Rightarrow> dec \<Rightarrow> dec option" where
  "faded_margin anchor parameter w = do {
     rest \<leftarrow> dec_sub CONTEXT dec_one w;
     kept \<leftarrow> dec_mul CONTEXT rest anchor;
     moved \<leftarrow> dec_mul CONTEXT w parameter;
     dec_add CONTEXT kept moved }"

definition faded_margins :: "scenario \<Rightarrow> dec \<Rightarrow> dec list result" where
  "faded_margins s parameter =
     (case anchor_margin (sn_solve s) of
        None \<Rightarrow> Inl AssertionError
      | Some anchor \<Rightarrow>
          (case opt_all (map (faded_margin anchor parameter) (margin_weights (sn_solve s))) of
             None \<Rightarrow> Inl NumericError
           | Some ms \<Rightarrow> Inr ms))"

text \<open>The forecast of a scenario with its open parameter filled in; an absent field does not validate.\<close>

definition filled :: "scenario \<Rightarrow> dec list option \<Rightarrow> dec list option \<Rightarrow> dec list option \<Rightarrow> dec option \<Rightarrow> forecast result" where
  "filled s growths ms reinvestments margin =
     (case (growths, ms, reinvestments, margin) of
        (Some g, Some m, Some k, Some t) \<Rightarrow>
          let f = \<lparr>revenue_anchor = sn_anchor s, growth = g, margins = m, taxes = sn_taxes s, reinvestment = k, wacc = sn_wacc s,
                risk_free = sn_risk_free s, terminal_growth = sn_terminal_growth s, terminal_margin = t,
                terminal_tax = sn_terminal_tax s, terminal_roic = sn_terminal_roic s\<rparr>
          in guard_value (forecast_domains f) f
      | _ \<Rightarrow> Inl ValueError)"

definition resolved :: "scenario \<Rightarrow> dec \<Rightarrow> forecast result" where
  "resolved s parameter =
     (let n = length (sn_taxes s) in
      case solve_variable (sn_solve s) of
        Revenue_cagr \<Rightarrow> filled s (Some (replicate n parameter)) (sn_margins s) (sn_reinvestment s) (sn_terminal_margin s)
      | Reinvestment_to_revenue \<Rightarrow> filled s (sn_growth s) (sn_margins s) (Some (replicate n parameter)) (sn_terminal_margin s)
      | Terminal_operating_margin \<Rightarrow>
          (case faded_margins s parameter of
             Inl e \<Rightarrow> Inl e
           | Inr ms \<Rightarrow> filled s (sn_growth s) (Some ms) (sn_reinvestment s) (Some parameter)))"

definition unavailable :: "string list \<Rightarrow> solve_result" where
  "unavailable reasons =
     \<lparr>sr_state = Unavailable, sr_representative = None, sr_interval = None, sr_residual = None, sr_root_intervals = [],
      sr_unresolved_domains = [], sr_proof = [], sr_proof_revision = ''decimal_interval_model_v1'', sr_evaluations = 0,
      sr_subdivisions = 0, sr_iterations = 0, sr_reasons = reasons\<rparr>"

record scenario_result =
  sc_name :: string
  sc_variable :: variable
  sc_solve :: solve_result
  sc_evaluation :: "evaluation option"
  sc_equity :: "dec option"
  sc_per_share :: "dec option"
  sc_reasons :: "string list"

text \<open>\<open>except (ValueError, DecimalException, ArithmeticError)\<close>\<close>

definition caught :: "error \<Rightarrow> bool" where
  "caught e = (e = ValueError \<or> e = NumericError)"

definition solved_scenario :: "scenario \<Rightarrow> dec \<Rightarrow> solve_result result" where
  "solved_scenario s target =
     (case resolved s (lower (sn_solve s)) of Inl e \<Rightarrow> Inl e | Inr f \<Rightarrow> solve f (sn_solve s) (Finite target))"

definition evaluated_scenario :: "scenario \<Rightarrow> dec \<Rightarrow> evaluation result" where
  "evaluated_scenario s x = (case resolved s x of Inl e \<Rightarrow> Inl e | Inr f \<Rightarrow> evaluate f)"

text \<open>What is known of the common equity, and the exception that ended it.\<close>

record equity_state =
  eq_evaluation :: "evaluation option"
  eq_equity :: "dec option"
  eq_per_share :: "dec option"
  eq_raised :: "error option"

definition no_equity :: equity_state where
  "no_equity = \<lparr>eq_evaluation = None, eq_equity = None, eq_per_share = None, eq_raised = None\<rparr>"

definition equity_of :: "dec \<Rightarrow> dec \<Rightarrow> evaluation result \<Rightarrow> equity_state" where
  "equity_of adjustment shares ev =
     (case ev of
        Inl e \<Rightarrow> no_equity\<lparr>eq_raised := Some e\<rparr>
      | Inr v \<Rightarrow>
          (case dec_add CONTEXT (operating_ev v) adjustment of
             None \<Rightarrow> no_equity\<lparr>eq_evaluation := Some v, eq_raised := Some NumericError\<rparr>
           | Some equity \<Rightarrow>
               (case dec_div CONTEXT equity shares of
                  None \<Rightarrow> no_equity\<lparr>eq_evaluation := Some v, eq_equity := Some equity, eq_raised := Some NumericError\<rparr>
                | Some p \<Rightarrow> no_equity\<lparr>eq_evaluation := Some v, eq_equity := Some equity, eq_per_share := Some p\<rparr>)))"

definition nonpositive_equity :: "dec option \<Rightarrow> string list" where
  "nonpositive_equity e = flag_if (case e of None \<Rightarrow> False | Some x \<Rightarrow> dec_le x dec_zero) ''nonpositive_common_equity''"

definition scenario_report :: "scenario \<Rightarrow> solve_result \<Rightarrow> equity_state \<Rightarrow> scenario_result" where
  "scenario_report s r e =
     \<lparr>sc_name = sn_name s, sc_variable = solve_variable (sn_solve s), sc_solve = r, sc_evaluation = eq_evaluation e,
      sc_equity = eq_equity e, sc_per_share = eq_per_share e,
      sc_reasons = sr_reasons r @ (case eq_evaluation e of None \<Rightarrow> [] | Some v \<Rightarrow> ev_reasons v) @ nonpositive_equity (eq_equity e)\<rparr>"

definition calculate_scenario :: "scenario \<Rightarrow> bridge_result \<Rightarrow> scenario_result result" where
  "calculate_scenario s linked =
     (if \<not> br_eligible linked then Inr (scenario_report s (unavailable (br_reasons linked)) no_equity)
      else case (br_target linked, br_adjustment linked, br_shares linked) of
        (Some target, Some adjustment, Some shares) \<Rightarrow>
          (case solved_scenario s target of
             Inl e \<Rightarrow> if caught e then Inr (scenario_report s (unavailable [''invalid_model_inputs'']) no_equity) else Inl e
           | Inr r \<Rightarrow>
               (case sr_representative r of
                  None \<Rightarrow> Inr (scenario_report s r no_equity)
                | Some x \<Rightarrow>
                    let e = equity_of adjustment shares (evaluated_scenario s x) in
                    case eq_raised e of
                      None \<Rightarrow> Inr (scenario_report s r e)
                    | Some err \<Rightarrow>
                        if caught err then Inr (scenario_report s (unavailable [''invalid_model_inputs'']) e) else Inl err))
      | _ \<Rightarrow> Inl AssertionError)"

section \<open>Sensitivities\<close>

definition changed :: "scenario \<Rightarrow> grid_parameter \<Rightarrow> dec \<Rightarrow> forecast \<Rightarrow> forecast result" where
  "changed s parameter v f =
     (let years = length (sn_taxes s) in
      case parameter of
        Grid_wacc \<Rightarrow> Inr (f\<lparr>wacc := v\<rparr>)
      | Grid_terminal_growth \<Rightarrow> Inr (f\<lparr>terminal_growth := v\<rparr>)
      | Grid_variable Revenue_cagr \<Rightarrow> Inr (f\<lparr>growth := replicate years v\<rparr>)
      | Grid_variable Reinvestment_to_revenue \<Rightarrow> Inr (f\<lparr>reinvestment := replicate years v\<rparr>)
      | Grid_variable Terminal_operating_margin \<Rightarrow>
          if solve_variable (sn_solve s) \<noteq> Terminal_operating_margin then Inr (f\<lparr>terminal_margin := v\<rparr>)
          else (case faded_margins s v of
              Inl e \<Rightarrow> Inl e
            | Inr ms \<Rightarrow> Inr (f\<lparr>terminal_margin := v, margins := ms\<rparr>)))"

record sensitivity_cell =
  sx_x :: dec
  sx_y :: dec
  sx_value :: "dec option"
  sx_solve :: "solve_result option"
  sx_evaluation :: "evaluation option"
  sx_equity :: "dec option"
  sx_reasons :: "string list"

definition blank_cell :: "dec \<Rightarrow> dec \<Rightarrow> string list \<Rightarrow> sensitivity_cell" where
  "blank_cell x y reasons =
     \<lparr>sx_x = x, sx_y = y, sx_value = None, sx_solve = None, sx_evaluation = None, sx_equity = None, sx_reasons = reasons\<rparr>"

definition cell_forecast :: "scenario \<Rightarrow> sensitivity_grid \<Rightarrow> dec \<Rightarrow> dec \<Rightarrow> forecast result" where
  "cell_forecast s g x y =
     (case resolved s (or_else (sg_conditional g) (lower (sn_solve s))) of
        Inl e \<Rightarrow> Inl e
      | Inr f \<Rightarrow>
          (case changed s (sg_x g) x f of
             Inl e \<Rightarrow> Inl e
           | Inr f1 \<Rightarrow>
               (case changed s (sg_y g) y f1 of Inl e \<Rightarrow> Inl e | Inr f2 \<Rightarrow> guard_value (forecast_domains f2) f2)))"

text \<open>The value of the solved parameter that the market implies, with the valuation at it.\<close>

definition reverse_cell ::
  "scenario \<Rightarrow> dec \<Rightarrow> dec \<Rightarrow> forecast \<Rightarrow> sensitivity_cell \<Rightarrow> sensitivity_cell \<times> error option" where
  "reverse_cell s target adjustment f c =
     (case solve f (sn_solve s) (Finite target) of
        Inl e \<Rightarrow> (c, Some e)
      | Inr r \<Rightarrow>
          let c1 = c\<lparr>sx_solve := Some r, sx_value := sr_representative r, sx_reasons := sr_reasons r\<rparr> in
          case sr_representative r of
            None \<Rightarrow> (c1, None)
          | Some v \<Rightarrow>
              (case (case changed s (Grid_variable (solve_variable (sn_solve s))) v f of Inl e \<Rightarrow> Inl e | Inr f' \<Rightarrow> evaluate f') of
                 Inl e \<Rightarrow> (c1, Some e)
               | Inr ev \<Rightarrow>
                   (case dec_add CONTEXT (operating_ev ev) adjustment of
                      None \<Rightarrow> (c1\<lparr>sx_evaluation := Some ev\<rparr>, Some NumericError)
                    | Some equity \<Rightarrow>
                        (c1\<lparr>sx_evaluation := Some ev, sx_equity := Some equity,
                            sx_reasons := sr_reasons r @ ev_reasons ev @ nonpositive_equity (Some equity)\<rparr>, None))))"

text \<open>The value per share at a fixed parameter.\<close>

definition conditional_cell ::
  "dec \<Rightarrow> dec \<Rightarrow> forecast \<Rightarrow> sensitivity_cell \<Rightarrow> sensitivity_cell \<times> error option" where
  "conditional_cell adjustment shares f c =
     (let e = equity_of adjustment shares (evaluate f);
          c1 = c\<lparr>sx_evaluation := eq_evaluation e, sx_equity := eq_equity e, sx_value := eq_per_share e\<rparr> in
      case (eq_raised e, eq_evaluation e) of
        (None, Some ev) \<Rightarrow> (c1\<lparr>sx_reasons := ev_reasons ev @ nonpositive_equity (eq_equity e)\<rparr>, None)
      | (err, _) \<Rightarrow> (c1, err))"

definition close_cell :: "sensitivity_cell \<times> error option \<Rightarrow> sensitivity_cell result" where
  "close_cell attempt =
     (case snd attempt of
        None \<Rightarrow> Inr (fst attempt)
      | Some e \<Rightarrow> if caught e then Inr ((fst attempt)\<lparr>sx_reasons := [''invalid_sensitivity_cell'']\<rparr>) else Inl e)"

definition calculate_sensitivity_cell ::
  "scenario list \<Rightarrow> bridge_result \<Rightarrow> sensitivity_grid \<Rightarrow> dec \<Rightarrow> dec \<Rightarrow> sensitivity_cell result" where
  "calculate_sensitivity_cell scenarios linked g x y =
     (case List.find (\<lambda>s. sn_name s = sg_reference g) scenarios of
        None \<Rightarrow> Inl AssertionError
      | Some s \<Rightarrow>
          let blank = blank_cell x y (br_reasons linked) in
          if \<not> br_eligible linked then Inr blank
          else case (br_target linked, br_adjustment linked, br_shares linked) of
            (Some target, Some adjustment, Some shares) \<Rightarrow>
              close_cell (case cell_forecast s g x y of
                  Inl e \<Rightarrow> (blank, Some e)
                | Inr f \<Rightarrow>
                    if sg_output g = Reverse_implied_parameter then reverse_cell s target adjustment f blank
                    else conditional_cell adjustment shares f blank)
          | _ \<Rightarrow> Inl AssertionError)"

record sensitivity_effect =
  se_parameter :: grid_parameter
  se_perturbations :: "dec list"
  se_outputs :: "dec option list"
  se_elasticity :: "dec option"
  se_rank :: "nat option"
  se_reasons :: "string list"

record sensitivity_result =
  ss_request :: sensitivity_grid
  ss_unit :: string
  ss_cells :: "sensitivity_cell list"
  ss_effects :: "sensitivity_effect list"

definition sensitivity_effect_of :: "grid_parameter \<Rightarrow> dec list \<Rightarrow> dec option list \<Rightarrow> dec option \<Rightarrow> nat option \<Rightarrow> sensitivity_effect" where
  "sensitivity_effect_of parameter values outputs e rank =
     \<lparr>se_parameter = parameter, se_perturbations = values, se_outputs = outputs, se_elasticity = e, se_rank = rank,
      se_reasons = flag_if (e = None) ''ineligible_three_point_elasticity''\<rparr>"

text \<open>The outputs along the middle row and the middle column.\<close>

definition middle_row :: "sensitivity_grid \<Rightarrow> sensitivity_cell list \<Rightarrow> dec option list" where
  "middle_row g cells =
     map (\<lambda>i. sx_value (cells ! (i * length (sg_ys g) + length (sg_ys g) div 2))) [0..<length (sg_xs g)]"

definition middle_column :: "sensitivity_grid \<Rightarrow> sensitivity_cell list \<Rightarrow> dec option list" where
  "middle_column g cells =
     map (\<lambda>i. sx_value (cells ! (length (sg_xs g) div 2 * length (sg_ys g) + i))) [0..<length (sg_ys g)]"

definition summarize_sensitivity :: "sensitivity_grid \<Rightarrow> sensitivity_cell list \<Rightarrow> sensitivity_result result" where
  "summarize_sensitivity g cells =
     (let xs = middle_row g cells; ys = middle_column g cells in
      case (elasticity (sg_xs g) xs, elasticity (sg_ys g) ys) of
        (Inr ex, Inr ey) \<Rightarrow>
          (case ranks [ex, ey] of
             Inr [rx, ry] \<Rightarrow>
               Inr \<lparr>ss_request = g,
                 ss_unit = (if sg_output g = Reverse_implied_parameter then ''fraction'' else ''currency_per_share''),
                 ss_cells = cells,
                 ss_effects = [sensitivity_effect_of (sg_x g) (sg_xs g) xs ex rx, sensitivity_effect_of (sg_y g) (sg_ys g) ys ey ry]\<rparr>
           | Inl e \<Rightarrow> Inl e
           | _ \<Rightarrow> Inl ValueError)
      | (Inl e, _) \<Rightarrow> Inl e
      | (_, Inl e) \<Rightarrow> Inl e)"

text \<open>A tuple of results, the first exception ending it.\<close>

definition collect :: "('a \<Rightarrow> 'b result) \<Rightarrow> 'a list \<Rightarrow> 'b list result" where
  "collect f xs = fold_result (\<lambda>x acc. map_sum id (\<lambda>r. acc @ [r]) (f x)) xs []"

definition grid_points :: "sensitivity_grid \<Rightarrow> (dec \<times> dec) list" where
  "grid_points g = concat (map (\<lambda>x. map (Pair x) (sg_ys g)) (sg_xs g))"

definition calculate_grid :: "scenario list \<Rightarrow> bridge_result \<Rightarrow> sensitivity_grid \<Rightarrow> sensitivity_result result" where
  "calculate_grid scenarios linked g =
     (case collect (\<lambda>(x, y). calculate_sensitivity_cell scenarios linked g x y) (grid_points g) of
        Inl e \<Rightarrow> Inl e
      | Inr cells \<Rightarrow> summarize_sensitivity g cells)"

definition calculate_sensitivities :: "assumption_content \<Rightarrow> bridge_result \<Rightarrow> sensitivity_result list result" where
  "calculate_sensitivities a linked = collect (calculate_grid (ac_scenarios a) linked) (ac_grids a)"

section \<open>The payload\<close>

text \<open>The fields that repeat an input are the manifest itself; content digests are left out.\<close>

record valuation_payload =
  py_inputs :: valuation_manifest
  py_bridge :: bridge_result
  py_scenarios :: "scenario_result list"
  py_dispersion :: "interval option"
  py_uncertainty :: "(string \<times> interval list) list"
  py_sensitivities :: "sensitivity_result list"
  py_conclusions :: "string list"
  py_reasons :: "string list"

definition conclusion :: "scenario_result \<Rightarrow> string" where
  "conclusion r = ''Conditional implied '' @ variable_text (sc_variable r) @ '' for scenario '' @ sc_name r"

definition assemble_payload ::
  "valuation_manifest \<Rightarrow> bridge_result \<Rightarrow> scenario_result list \<Rightarrow> sensitivity_result list \<Rightarrow> valuation_payload result" where
  "assemble_payload m linked scenarios sensitivities =
     map_sum id (\<lambda>span. \<lparr>py_inputs = m, py_bridge = linked, py_scenarios = scenarios, py_dispersion = span,
         py_uncertainty = map (\<lambda>r. (sc_name r, sr_root_intervals (sc_solve r))) scenarios, py_sensitivities = sensitivities,
         py_conclusions = map conclusion (filter (\<lambda>r. sr_state (sc_solve r) = Converged) scenarios), py_reasons = br_reasons linked\<rparr>)
       (scenario_span (map sc_solve scenarios))"

definition calculate_payload :: "valuation_manifest \<Rightarrow> valuation_payload result" where
  "calculate_payload m =
     (case bridge m of
        Inl e \<Rightarrow> Inl e
      | Inr linked \<Rightarrow>
          (case collect (\<lambda>s. calculate_scenario s linked) (ac_scenarios (vm_assumptions m)) of
             Inl e \<Rightarrow> Inl e
           | Inr scenarios \<Rightarrow>
               (case calculate_sensitivities (vm_assumptions m) linked of
                  Inl e \<Rightarrow> Inl e
                | Inr sensitivities \<Rightarrow> assemble_payload m linked scenarios sensitivities)))"

end
