(* ===== verification/Composition_Properties.thy ===== *)
theory Composition_Properties
  imports Composition
begin

text \<open>
  What a valuation payload rests on: an eligible bridge, certified scenarios, and one cell for each point of each grid.
\<close>

section \<open>Exact products\<close>

lemma dcf_bounds_CONTEXT:
  assumes "dcf_bounds a" "dcf_bounds b"
  shows "\<exists>r. dec_mul CONTEXT a b = Some r \<and> dval r = (dval a * dval b :: 'a::linordered_field)"
proof -
  let ?c = "dcoeff a * dcoeff b" and ?e = "dexp a + dexp b" and ?s = "dsign a \<noteq> dsign b"
  have d: "dcoeff a < 10 ^ 40" "dcoeff b < 10 ^ 40"
    using assms ndigits_le_iff[of 40] by (simp_all add: dcf_bounds_def)
  have "?c < 10 ^ 40 * 10 ^ 40" using d by (rule mult_strict_mono) simp_all
  then have n: "ndigits ?c \<le> 80" by (subst ndigits_le_iff) (simp_all flip: power_add)
  have e: "- 200 \<le> ?e" "?e \<le> 200" using assms by (simp_all add: dcf_bounds_def abs_le_iff)
  have "dec_fix CONTEXT ?s ?c ?e False = Some (Dec ?s ?c ?e)"
    using n e by (cases "?c = 0") (auto simp: dec_fix_def CONTEXT_def Let_def max_def min_def)
  moreover have "dval (Dec ?s ?c ?e) = (dval a * dval b :: 'a)"
    by (simp add: dval_with_sign with_sign_def power_int_add algebra_simps)
  ultimately show ?thesis by (simp add: dec_mul_def)
qed

lemma dec_neg_CONTEXT:
  assumes "dcf_bounds a"
  shows "\<exists>r. dec_neg CONTEXT a = Some r \<and> dval r = (- dval a :: 'a::linordered_field)"
proof -
  have b: "ndigits (dcoeff a) \<le> 40" "- 100 \<le> dexp a" "dexp a \<le> 100" using assms by (simp_all add: dcf_bounds_def abs_le_iff)
  have "dec_neg CONTEXT a = Some (Dec (dcoeff a \<noteq> 0 \<and> \<not> dsign a) (dcoeff a) (dexp a))"
    using b by (auto simp: dec_neg_def dec_fix_def CONTEXT_def Let_def max_def min_def)
  then show ?thesis by (simp add: dval_with_sign with_sign_def)
qed

section \<open>Lists of results\<close>

lemma collect_from:
  assumes "fold_result (\<lambda>x acc. map_sum id (\<lambda>r. acc @ [r]) (f x)) xs acc = Inr ys"
  shows "\<exists>zs. ys = acc @ zs \<and> list_all2 (\<lambda>x y. f x = Inr y) xs zs"
  using assms
proof (induction xs arbitrary: acc)
  case (Cons x xs)
  then show ?case
  proof (cases "f x")
    case (Inr r)
    then obtain zs where "ys = (acc @ [r]) @ zs" "list_all2 (\<lambda>x y. f x = Inr y) xs zs"
      using Cons.IH[of "acc @ [r]"] Cons.prems by auto
    then show ?thesis using Inr by (intro exI[of _ "r # zs"]) simp
  qed simp
qed simp

lemma collect_Inr: "collect f xs = Inr ys \<Longrightarrow> list_all2 (\<lambda>x y. f x = Inr y) xs ys"
  using collect_from[of f xs "[]" ys] by (simp add: collect_def)

lemma collect_length: "collect f xs = Inr ys \<Longrightarrow> length ys = length xs"
  using collect_Inr by (metis list_all2_lengthD)

lemma collect_map:
  assumes "collect f xs = Inr ys" "\<And>x y. x \<in> set xs \<Longrightarrow> f x = Inr y \<Longrightarrow> g y = h x"
  shows "map g ys = map h xs"
  using collect_Inr[OF assms(1)] assms(2) by (induction rule: list_all2_induct) auto

lemma collect_in:
  assumes "collect f xs = Inr ys" "y \<in> set ys"
  obtains x where "x \<in> set xs" "f x = Inr y"
proof -
  obtain i where "i < length ys" "ys ! i = y" using assms(2) by (auto simp: in_set_conv_nth)
  then show thesis using collect_Inr[OF assms(1)] by (intro that[of "xs ! i"]) (auto simp: list_all2_conv_all_nth)
qed

section \<open>The bridge\<close>

text \<open>The amount of a claim with its side of the bridge.\<close>

definition side_of :: "claim \<Rightarrow> rat" where
  "side_of c = (if cm_kind c \<in> {Cash, Nonoperating_assets} then 1 else - 1)"

text \<open>What makes a claim admissible at the valuation instant.\<close>

definition claim_admissible :: "valuation_manifest \<Rightarrow> claim \<Rightarrow> bool" where
  "claim_admissible m c \<longleftrightarrow>
     (let now = ac_valuation_at (vm_assumptions m) in
      (\<exists>a. cm_amount c = Some a \<and> 0 \<le> (dval a :: rat)) \<and> cm_currency c = sk_currency (vm_selector m)
      \<and> instant (cm_known c) \<le> instant now \<and> instant (cm_captured c) \<le> instant (vm_captured_before m)
      \<and> cm_known_basis c \<noteq> Unproven \<and> (cm_known_basis c = Date_only \<longrightarrow> utc_day (cm_known c) < utc_day now)
      \<and> int (toordinal (cm_as_of c)) \<le> utc_day now)"

lemma signed_claim_exact:
  assumes "cm_amount c = Some a" "dcf_bounds a"
  shows "\<exists>r. signed_claim c = Some r \<and> dval r = side_of c * dval a"
  using dec_neg_CONTEXT[OF assms(2), where 'a=rat] assms(1) by (auto simp: signed_claim_def side_of_def)

lemma bridge_parts:
  assumes "bridge m = Inr b" "br_eligible b"
  shows "manifest_valid m" "bridge_objections m = Inr []" "eligible_bridge m = Inr b"
  using assms by (auto simp: bridge_def ineligible_bridge_def split: if_splits sum.splits)

lemma no_objections:
  assumes "bridge_objections m = Inr []"
  shows "vm_source_reasons m = []" "policy_reasons m = []" "price_reasons m = []" "share_reasons m = []"
    "normalization_reasons (vm_shares m) = Inr []" "\<forall>c\<in>set (vm_claims m). scope_proven m c \<and> claim_eligible m c"
  using assms by (cases "normalization_reasons (vm_shares m)"; auto simp: bridge_objections_def claim_reasons_def)+

lemma eligible_claim_admissible:
  assumes "claim_valid c" "claim_eligible m c"
  shows "claim_admissible m c"
  using assms
  by (auto simp: claim_admissible_def claim_eligible_def known_unproven_def aged_within_def claim_valid_def Let_def
      dec_le_iff[where 'a=rat] dec_eq_iff[where 'a=rat] split: claim_state.splits option.splits)

lemma claim_roster:
  assumes "identities_ok m"
  shows "distinct (map cm_kind (vm_claims m))" "set (map cm_kind (vm_claims m)) = UNIV"
proof -
  have u: "set claim_kinds = UNIV" by (auto simp: claim_kinds_def) (metis claim_kind.exhaust)
  have "card (set (map cm_kind (vm_claims m))) = length (map cm_kind (vm_claims m))"
    using assms by (simp add: identities_ok_def claim_kinds_def)
  then show "distinct (map cm_kind (vm_claims m))" by (rule card_distinct)
  show "set (map cm_kind (vm_claims m)) = UNIV" using assms u by (simp add: identities_ok_def)
qed

lemma adjustment_exact_terms:
  assumes "bridge_adjustment cs = Some r" "\<forall>c\<in>set cs. \<exists>a. cm_amount c = Some a \<and> dcf_bounds a"
  shows "\<exists>terms. dec_sum CONTEXT dec_zero terms = Some r \<and> map dval terms = map (\<lambda>c. side_of c * dval (the (cm_amount c))) cs"
proof -
  have f: "filter (\<lambda>c. cm_amount c \<noteq> None) cs = cs" using assms(2) by (auto simp: filter_id_conv)
  obtain terms where t: "map signed_claim cs = map Some terms" "dec_sum CONTEXT dec_zero terms = Some r"
    using assms(1) unfolding bridge_adjustment_def f by (auto simp: bind_eq_Some_conv opt_all_Some_iff)
  have "map dval terms = map (\<lambda>c. side_of c * dval (the (cm_amount c))) cs"
  proof (rule nth_equalityI)
    show l: "length (map dval terms) = length (map (\<lambda>c. side_of c * dval (the (cm_amount c))) cs)"
      using t(1) by (metis length_map)
    fix i
    assume i: "i < length (map dval terms :: rat list)"
    then have "cs ! i \<in> set cs" "signed_claim (cs ! i) = Some (terms ! i)"
      using l t(1) by (auto dest: arg_cong[where f = "\<lambda>xs. xs ! i"])
    then show "map dval terms ! i = map (\<lambda>c. side_of c * dval (the (cm_amount c))) cs ! i"
      using assms(2) signed_claim_exact i l by fastforce
  qed
  with t(2) show ?thesis by blast
qed

text \<open>
  C6.  An eligible bridge rests on admissible evidence: a positive price and a positive share count in the selector's
  currency, known by the valuation instant, and exactly one admissible claim of each kind without overlapping
  economic interests.  The market value is the exact product, the adjustment the rounded running sum of the exact
  signed amounts, and the target their correctly rounded difference.
\<close>

theorem eligible_bridge_sound:
  assumes "bridge m = Inr b" "br_eligible b"
  shows "\<exists>price shares market adjustment target terms.
      px_value (vm_price m) = Some price \<and> 0 < (dval price :: rat) \<and> px_currency (vm_price m) = Some (sk_currency (vm_selector m))
    \<and> instant (px_known (vm_price m)) \<le> instant (ac_valuation_at (vm_assumptions m))
    \<and> sh_basic (vm_shares m) = Some shares \<and> 0 < (dval shares :: rat) \<and> sh_currency (vm_shares m) = sk_currency (vm_selector m)
    \<and> instant (sh_known (vm_shares m)) \<le> instant (ac_valuation_at (vm_assumptions m))
    \<and> br_shares b = Some shares \<and> br_market b = Some market \<and> dval market = (dval price * dval shares :: rat)
    \<and> map dval terms = map (\<lambda>c. side_of c * dval (the (cm_amount c))) (vm_claims m)
    \<and> dec_sum CONTEXT dec_zero terms = Some adjustment \<and> br_adjustment b = Some adjustment
    \<and> br_target b = Some target \<and> rounds_to CONTEXT target (dval market - dval adjustment :: rat)
    \<and> vm_source_reasons m = [] \<and> distinct (map cm_kind (vm_claims m)) \<and> set (map cm_kind (vm_claims m)) = UNIV
    \<and> distinct (concat (map cm_ids (vm_claims m))) \<and> (\<forall>c\<in>set (vm_claims m). claim_admissible m c)"
proof -
  note parts = bridge_parts[OF assms]
  note clean = no_objections[OF parts(2)]
  have valid: "identities_ok m" "list_all claim_valid (vm_claims m)" "price_valid (vm_price m)" "shares_valid (vm_shares m)"
    using parts(1) by (simp_all add: manifest_valid_def)
  have claims: "claim_admissible m c" if "c \<in> set (vm_claims m)" for c
    using eligible_claim_admissible clean(6) valid(2) that by (auto simp: list_all_iff)
  obtain adjustment price shares market target where e:
    "bridge_adjustment (vm_claims m) = Some adjustment" "px_value (vm_price m) = Some price" "sh_basic (vm_shares m) = Some shares"
    "dec_mul CONTEXT price shares = Some market" "dec_sub CONTEXT market adjustment = Some target"
    "b = \<lparr>br_eligible = True, br_market = Some market, br_adjustment = Some adjustment, br_target = Some target, br_shares = Some shares, br_reasons = []\<rparr>"
    using parts(3) by (auto simp: eligible_bridge_def split: if_splits option.splits)
  have amounts: "\<forall>c\<in>set (vm_claims m). \<exists>a. cm_amount c = Some a \<and> dcf_bounds a"
  proof
    fix c
    assume c: "c \<in> set (vm_claims m)"
    then obtain a where "cm_amount c = Some a" using claims[OF c] by (auto simp: claim_admissible_def Let_def)
    moreover have "if_present dcf_bounds (cm_amount c)" using c valid(2) by (auto simp: list_all_iff claim_valid_def claim_fields_ok_def)
    ultimately show "\<exists>a. cm_amount c = Some a \<and> dcf_bounds a" by simp
  qed
  obtain terms where t: "dec_sum CONTEXT dec_zero terms = Some adjustment"
    "map dval terms = map (\<lambda>c. side_of c * dval (the (cm_amount c))) (vm_claims m)"
    using adjustment_exact_terms[OF e(1) amounts] by blast
  have quote: "quote_eligible m" "instant (px_known (vm_price m)) \<le> instant (ac_valuation_at (vm_assumptions m))"
    using clean(3) by (auto simp: price_reasons_def Let_def)
  have pool: "pool_eligible m" "instant (sh_known (vm_shares m)) \<le> instant (ac_valuation_at (vm_assumptions m))"
    using clean(4) by (auto simp: share_reasons_def Let_def)
  have pos: "0 < (dval price :: rat)" "px_currency (vm_price m) = Some (sk_currency (vm_selector m))"
    using quote(1) e(2) by (auto simp: quote_eligible_def Let_def dec_lt_iff[where 'a=rat])
  have held: "0 < (dval shares :: rat)" "sh_currency (vm_shares m) = sk_currency (vm_selector m)"
    using pool(1) e(3) by (auto simp: pool_eligible_def Let_def dec_lt_iff[where 'a=rat] split: option.splits)
  have "dcf_bounds price" "dcf_bounds shares"
    using valid(3,4) e(2,3) by (auto simp: price_valid_def shares_valid_def)
  then have market: "dval market = (dval price * dval shares :: rat)" using dcf_bounds_CONTEXT[where 'a=rat] e(4) by fastforce
  have "rounds_to CONTEXT target (dval market - dval adjustment :: rat)"
    using dec_sub_rounds_to[OF e(5)] by (simp add: CONTEXT_def)
  then show ?thesis
    using e t quote(2) pool(2) pos held market clean(1) claims claim_roster[OF valid(1)] valid(1)
    by (intro exI[of _ price] exI[of _ shares] exI[of _ market] exI[of _ adjustment] exI[of _ target] exI[of _ terms])
      (simp add: identities_ok_def)
qed

section \<open>Scenarios\<close>

lemma unavailable_state [simp]: "sr_state (unavailable reasons) = Unavailable" "sr_reasons (unavailable reasons) = reasons"
  by (simp_all add: unavailable_def)

lemma report_fields [simp]:
  "sc_solve (scenario_report s r e) = r" "sc_name (scenario_report s r e) = sn_name s" "sc_evaluation (scenario_report s r e) = eq_evaluation e"
  "sc_equity (scenario_report s r e) = eq_equity e" "sc_per_share (scenario_report s r e) = eq_per_share e"
  by (simp_all add: scenario_report_def)

lemma equity_of_clean:
  assumes "eq_raised (equity_of adjustment shares ev) = None"
  shows "\<exists>v equity p. ev = Inr v \<and> dec_add CONTEXT (operating_ev v) adjustment = Some equity \<and> dec_div CONTEXT equity shares = Some p
    \<and> equity_of adjustment shares ev = \<lparr>eq_evaluation = Some v, eq_equity = Some equity, eq_per_share = Some p, eq_raised = None\<rparr>"
  using assms by (auto simp: equity_of_def no_equity_def split: sum.splits option.splits)

lemma converged_representative:
  assumes "solve f spec (Finite t) = Inr r" "sr_state r = Converged"
  shows "\<exists>x. sr_representative r = Some x"
proof -
  obtain s where "solve_summary s = Inr r" using solve_InrE[OF assms(1)] by blast
  then have "scalar_requires_certificate r = Inr r"
    by (auto simp: solve_summary_def Let_def scalar_requires_certificate_def split: sum.splits)
  then show ?thesis using assms(2) by (auto simp: scalar_requires_certificate_def split: option.splits)
qed

text \<open>
  C5.  A converged scenario means what it says: the bridge is eligible, the published interval holds a root of the
  exact cash flow equation for this scenario and the market target, with residuals within tolerance on all of it, and
  the value per share is the correctly rounded quotient of the equity at the representative and the share count.
\<close>

theorem scenario_certified:
  assumes "calculate_scenario s linked = Inr r" "sr_state (sc_solve r) = Converged"
  shows "\<exists>f target adjustment shares x iv tol ev equity p.
      br_eligible linked \<and> br_target linked = Some target \<and> br_adjustment linked = Some adjustment \<and> br_shares linked = Some shares
    \<and> resolved s (lower (sn_solve s)) = Inr f \<and> sr_representative (sc_solve r) = Some x \<and> sr_interval (sc_solve r) = Some iv
    \<and> (\<exists>z\<in>iv_region iv. exact_residual f (sn_solve s) target z = 0)
    \<and> tolerance (sn_solve s) target = Some tol \<and> (\<forall>z\<in>iv_region iv. \<bar>exact_residual f (sn_solve s) target z\<bar> \<le> dval tol)
    \<and> evaluated_scenario s x = Inr ev \<and> sc_evaluation r = Some ev
    \<and> sc_equity r = Some equity \<and> rounds_to CONTEXT equity (dval (operating_ev ev) + dval adjustment :: rat)
    \<and> sc_per_share r = Some p \<and> rounds_to CONTEXT p (dval equity / dval shares :: rat)"
proof -
  obtain target adjustment shares where l: "br_eligible linked" "br_target linked = Some target" "br_adjustment linked = Some adjustment"
    "br_shares linked = Some shares"
    using assms by (auto simp: calculate_scenario_def split: if_splits option.splits)
  obtain r0 where r0: "solved_scenario s target = Inr r0"
    using assms l by (auto simp: calculate_scenario_def split: sum.splits if_splits)
  obtain f where f: "resolved s (lower (sn_solve s)) = Inr f" "solve f (sn_solve s) (Finite target) = Inr r0"
    using r0 by (auto simp: solved_scenario_def split: sum.splits)
  have same: "sc_solve r = r0"
    using assms l r0 by (auto simp: calculate_scenario_def Let_def split: option.splits if_splits)
  then have conv: "sr_state r0 = Converged" using assms(2) by simp
  then obtain x where x: "sr_representative r0 = Some x" using converged_representative[OF f(2)] by blast
  define e where "e = equity_of adjustment shares (evaluated_scenario s x)"
  have clean: "eq_raised e = None" "r = scenario_report s r0 e"
    using assms l r0 x by (auto simp: calculate_scenario_def Let_def e_def split: option.splits if_splits)
  obtain ev equity p where q: "evaluated_scenario s x = Inr ev" "dec_add CONTEXT (operating_ev ev) adjustment = Some equity"
    "dec_div CONTEXT equity shares = Some p"
    "e = \<lparr>eq_evaluation = Some ev, eq_equity = Some equity, eq_per_share = Some p, eq_raised = None\<rparr>"
    using equity_of_clean[OF clean(1)[unfolded e_def]] unfolding e_def by blast
  have rounded: "rounds_to CONTEXT equity (dval (operating_ev ev) + dval adjustment :: rat)" "rounds_to CONTEXT p (dval equity / dval shares :: rat)"
    using dec_add_rounds_to[OF q(2)] dec_div_rounds_to[OF q(3)] by (simp_all add: CONTEXT_def)
  have published: "sc_evaluation r = Some ev" "sc_equity r = Some equity" "sc_per_share r = Some p"
    unfolding clean(2) q(4) by simp_all
  obtain iv tol where c: "sr_interval r0 = Some iv" "\<exists>z\<in>iv_region iv. exact_residual f (sn_solve s) target z = 0"
    "tolerance (sn_solve s) target = Some tol" "\<forall>z\<in>iv_region iv. \<bar>exact_residual f (sn_solve s) target z\<bar> \<le> dval tol"
    using converged_facts[OF f(2) conv] by blast
  show ?thesis
    unfolding same
    by (rule exI[of _ f], rule exI[of _ target], rule exI[of _ adjustment], rule exI[of _ shares], rule exI[of _ x], rule exI[of _ iv],
        rule exI[of _ tol], rule exI[of _ ev], rule exI[of _ equity], rule exI[of _ p])
      (intro conjI l f(1) x c q(1) published rounded)
qed

section \<open>The payload\<close>

lemma calculate_scenario_name: "calculate_scenario s linked = Inr r \<Longrightarrow> sc_name r = sn_name s"
  by (auto simp: calculate_scenario_def Let_def split: if_splits option.splits sum.splits)

definition empty_scenario :: "bridge_result \<Rightarrow> scenario_result \<Rightarrow> bool" where
  "empty_scenario linked r \<longleftrightarrow>
     sr_state (sc_solve r) = Unavailable \<and> sc_reasons r = br_reasons linked \<and> sr_representative (sc_solve r) = None
     \<and> sr_root_intervals (sc_solve r) = [] \<and> sc_evaluation r = None \<and> sc_equity r = None \<and> sc_per_share r = None"

definition empty_cell :: "bridge_result \<Rightarrow> sensitivity_cell \<Rightarrow> bool" where
  "empty_cell linked c \<longleftrightarrow>
     sx_value c = None \<and> sx_solve c = None \<and> sx_evaluation c = None \<and> sx_equity c = None \<and> sx_reasons c = br_reasons linked"

lemma ineligible_scenario: "calculate_scenario s linked = Inr r \<Longrightarrow> \<not> br_eligible linked \<Longrightarrow> empty_scenario linked r"
  by (auto simp: calculate_scenario_def empty_scenario_def scenario_report_def no_equity_def nonpositive_equity_def unavailable_def)

lemma ineligible_cell: "calculate_sensitivity_cell ss linked g x y = Inr c \<Longrightarrow> \<not> br_eligible linked \<Longrightarrow> empty_cell linked c"
  by (auto simp: calculate_sensitivity_cell_def empty_cell_def blank_cell_def Let_def split: option.splits)

text \<open>No step moves a cell.\<close>

definition placed :: "dec \<Rightarrow> dec \<Rightarrow> sensitivity_cell \<Rightarrow> bool" where
  "placed x y c \<longleftrightarrow> sx_x c = x \<and> sx_y c = y"

lemma placed_attempts:
  assumes "placed x y c"
  shows "placed x y (fst (reverse_cell s t a f c))" "placed x y (fst (conditional_cell a n f c))"
  using assms by (auto simp: reverse_cell_def conditional_cell_def placed_def Let_def split: sum.splits option.splits)

lemma placed_closed: "close_cell attempt = Inr c \<Longrightarrow> placed x y (fst attempt) \<Longrightarrow> placed x y c"
  by (auto simp: close_cell_def placed_def split: option.splits if_splits)

lemma placed_blank: "placed x y (blank_cell x y reasons)"
  by (simp add: placed_def blank_cell_def)

lemma calculate_sensitivity_cell_placed:
  assumes "calculate_sensitivity_cell ss linked g x y = Inr c"
  shows "placed x y c"
proof -
  let ?blank = "blank_cell x y (br_reasons linked)"
  show ?thesis
  proof (cases "List.find (\<lambda>s. sn_name s = sg_reference g) ss")
    case None
    then show ?thesis using assms by (simp add: calculate_sensitivity_cell_def)
  next
    case (Some s)
    show ?thesis
    proof (cases "br_eligible linked")
      case False
      then have "c = ?blank" using assms Some by (simp add: calculate_sensitivity_cell_def)
      then show ?thesis by (simp add: placed_blank)
    next
      case True
      then obtain target adjustment shares where l: "br_target linked = Some target" "br_adjustment linked = Some adjustment"
        "br_shares linked = Some shares"
        using assms Some
        by (cases "br_target linked"; cases "br_adjustment linked"; cases "br_shares linked") (simp_all add: calculate_sensitivity_cell_def)
      then have "close_cell (case cell_forecast s g x y of Inl e \<Rightarrow> (?blank, Some e)
         | Inr f \<Rightarrow> if sg_output g = Reverse_implied_parameter then reverse_cell s target adjustment f ?blank
             else conditional_cell adjustment shares f ?blank) = Inr c"
        using assms Some True by (simp add: calculate_sensitivity_cell_def Let_def)
      then show ?thesis
        by (rule placed_closed) (simp add: placed_attempts placed_blank split: sum.split)
    qed
  qed
qed

lemma summarize_fields:
  "summarize_sensitivity g cells = Inr r \<Longrightarrow> ss_request r = g \<and> ss_cells r = cells"
  by (auto simp: summarize_sensitivity_def Let_def split: sum.splits list.splits)

lemma calculate_grid_cells:
  assumes "calculate_grid ss linked g = Inr r"
  shows "ss_request r = g" "map (\<lambda>c. (sx_x c, sx_y c)) (ss_cells r) = grid_points g"
    "\<not> br_eligible linked \<Longrightarrow> \<forall>c\<in>set (ss_cells r). empty_cell linked c"
proof -
  obtain cells where c: "collect (\<lambda>(x, y). calculate_sensitivity_cell ss linked g x y) (grid_points g) = Inr cells"
    "summarize_sensitivity g cells = Inr r"
    using assms by (auto simp: calculate_grid_def split: sum.splits)
  note s = summarize_fields[OF c(2)]
  show "ss_request r = g" using s by simp
  have "map (\<lambda>c. (sx_x c, sx_y c)) cells = map id (grid_points g)"
    by (rule collect_map[OF c(1)]) (auto dest!: calculate_sensitivity_cell_placed simp: placed_def split: prod.splits)
  then show "map (\<lambda>c. (sx_x c, sx_y c)) (ss_cells r) = grid_points g" using s by simp
  show "\<forall>c\<in>set (ss_cells r). empty_cell linked c" if "\<not> br_eligible linked"
    using s that by (auto elim!: collect_in[OF c(1)] dest!: ineligible_cell)
qed

text \<open>
  C7.  A payload is complete and withholds everything without an eligible bridge: it has one result for each scenario
  and each grid, in their order, and one cell for each point of a grid.  When the bridge is not eligible there is a reason,
  every scenario and every cell is empty and repeats it, and nothing is concluded.
\<close>

theorem payload_complete:
  assumes "calculate_payload m = Inr p"
  shows "map sc_name (py_scenarios p) = map sn_name (ac_scenarios (vm_assumptions m))
    \<and> map ss_request (py_sensitivities p) = ac_grids (vm_assumptions m)
    \<and> (\<forall>g\<in>set (py_sensitivities p). map (\<lambda>c. (sx_x c, sx_y c)) (ss_cells g) = grid_points (ss_request g))
    \<and> (\<not> br_eligible (py_bridge p) \<longrightarrow>
         py_reasons p \<noteq> [] \<and> py_conclusions p = [] \<and> py_dispersion p = None \<and> br_target (py_bridge p) = None
         \<and> (\<forall>r\<in>set (py_scenarios p). empty_scenario (py_bridge p) r)
         \<and> (\<forall>g\<in>set (py_sensitivities p). \<forall>c\<in>set (ss_cells g). empty_cell (py_bridge p) c))"
proof -
  obtain linked scenarios sensitivities where x: "bridge m = Inr linked"
    "collect (\<lambda>s. calculate_scenario s linked) (ac_scenarios (vm_assumptions m)) = Inr scenarios"
    "collect (calculate_grid (ac_scenarios (vm_assumptions m)) linked) (ac_grids (vm_assumptions m)) = Inr sensitivities"
    "assemble_payload m linked scenarios sensitivities = Inr p"
    using assms by (auto simp: calculate_payload_def calculate_sensitivities_def split: sum.splits)
  obtain span where span: "scenario_span (map sc_solve scenarios) = Inr span"
    using x(4) by (cases "scenario_span (map sc_solve scenarios)") (auto simp: assemble_payload_def)
  have p: "py_scenarios p = scenarios" "py_sensitivities p = sensitivities" "py_bridge p = linked" "py_reasons p = br_reasons linked"
    "py_conclusions p = map conclusion (filter (\<lambda>r. sr_state (sc_solve r) = Converged) scenarios)" "py_dispersion p = span"
    using x(4) span by (auto simp: assemble_payload_def)
  have names: "map sc_name scenarios = map sn_name (ac_scenarios (vm_assumptions m))"
    by (rule collect_map[OF x(2)]) (rule calculate_scenario_name)
  have grids: "map ss_request sensitivities = map id (ac_grids (vm_assumptions m))"
    by (rule collect_map[OF x(3)]) (simp add: calculate_grid_cells(1))
  have cells: "map (\<lambda>c. (sx_x c, sx_y c)) (ss_cells g) = grid_points (ss_request g)" if "g \<in> set sensitivities" for g
    using calculate_grid_cells(1,2) by (metis collect_in[OF x(3) that])
  have none: "br_reasons linked \<noteq> [] \<and> br_target linked = None" if "\<not> br_eligible linked"
    using x(1) that by (auto simp: bridge_def ineligible_bridge_def eligible_bridge_def split: if_splits sum.splits option.splits)
  have empty: "empty_scenario linked r" if "\<not> br_eligible linked" "r \<in> set scenarios" for r
    using collect_in[OF x(2) that(2)] ineligible_scenario that(1) by metis
  have blank: "empty_cell linked c" if "\<not> br_eligible linked" "g \<in> set sensitivities" "c \<in> set (ss_cells g)" for g c
    using collect_in[OF x(3) that(2)] calculate_grid_cells(3) that(1,3) by metis
  have "scenarios \<noteq> [] \<longrightarrow> span = None" if "\<not> br_eligible linked"
    using span empty[OF that] by (cases scenarios) (auto simp: scenario_span_def empty_scenario_def)
  moreover have "scenarios = [] \<longrightarrow> span = None" using span by (auto simp: scenario_span_def)
  ultimately show ?thesis
    using names grids cells none empty blank unfolding p by (auto simp: empty_scenario_def filter_empty_conv)
qed

section \<open>A sample\<close>

definition one_year :: scenario where
  "one_year = \<lparr>sn_name = ''base'', sn_anchor = dec_of_int 100, sn_growth = None, sn_margins = Some [Dec False 2 (- 1)],
     sn_taxes = [Dec False 5 (- 1)], sn_reinvestment = Some [dec_zero], sn_wacc = Dec False 25 (- 2), sn_risk_free = Dec False 1 (- 1),
     sn_terminal_growth = dec_zero, sn_terminal_margin = Some (Dec False 2 (- 1)), sn_terminal_tax = Dec False 5 (- 1),
     sn_terminal_roic = dec_one, sn_solve = wide_spec\<rparr>"

definition sixty :: bridge_result where
  "sixty = \<lparr>br_eligible = True, br_market = Some (dec_of_int 60), br_adjustment = Some dec_zero, br_target = Some (dec_of_int 60),
     br_shares = Some (dec_of_int 10), br_reasons = []\<rparr>"

lemma one_year_facts:
  "resolved one_year (lower (sn_solve one_year)) = Inr sample_forecast"
  "eq_raised (equity_of dec_zero (dec_of_int 10) (evaluated_scenario one_year (Dec False 5 (- 1)))) = None"
proof -
  have "forecast_domains sample_forecast" by code_simp
  then show "resolved one_year (lower (sn_solve one_year)) = Inr sample_forecast"
    by (simp add: resolved_def filled_def one_year_def wide_spec_def sample_spec_def sample_forecast_def)
  show "eq_raised (equity_of dec_zero (dec_of_int 10) (evaluated_scenario one_year (Dec False 5 (- 1)))) = None" by code_simp
qed

theorem scenario_certified_witness:
  "\<exists>r f z p. calculate_scenario one_year sixty = Inr r \<and> resolved one_year (lower (sn_solve one_year)) = Inr f
     \<and> exact_residual f (sn_solve one_year) (dec_of_int 60) z = 0 \<and> sc_per_share r = Some p"
proof -
  obtain r0 where r0: "solve sample_forecast wide_spec (Finite (dec_of_int 60)) = Inr r0" "sr_state r0 = Converged"
    "sr_representative r0 = Some (Dec False 5 (- 1))"
    using sample_solved by blast
  have w: "sn_solve one_year = wide_spec" by (simp add: one_year_def)
  obtain r where r: "calculate_scenario one_year sixty = Inr r" "sc_solve r = r0"
    using r0 one_year_facts unfolding w by (simp add: calculate_scenario_def solved_scenario_def sixty_def w Let_def)
  have "sr_state (sc_solve r) = Converged" using r r0 by simp
  from scenario_certified[OF r(1) this] show ?thesis using r(1) by (fastforce simp: sixty_def)
qed

definition sample_day :: datetime where
  "sample_day = Datetime (738000 * micros_per_day) (Some 0)"

definition five_years :: scenario where
  "five_years = one_year\<lparr>sn_margins := Some (replicate 5 (Dec False 2 (- 1))), sn_taxes := replicate 5 (Dec False 5 (- 1)),
     sn_reinvestment := Some (replicate 5 dec_zero)\<rparr>"

definition sample_dates :: "date list" where
  "sample_dates = [Date 2022 7 29, Date 2023 7 29, Date 2024 7 29, Date 2025 7 29, Date 2026 7 29]"

definition sample_judgment :: "string \<Rightarrow> user_judgment" where
  "sample_judgment p = \<lparr>jd_scenario = ''base'', jd_parameter = p, jd_binding = the (binding_for five_years p sample_dates), jd_author = ''a'',
     jd_authored = sample_day, jd_known = sample_day, jd_unit = expected_unit p, jd_rationale = ''r'', jd_from = Date 2021 7 29,
     jd_to = Date 2026 7 29, jd_hashes = []\<rparr>"

definition sample_grid :: sensitivity_grid where
  "sample_grid = \<lparr>sg_name = ''g'', sg_reference = ''base'', sg_output = Conditional_reprice, sg_x = Grid_wacc, sg_xs = [Dec False 25 (- 2)],
     sg_y = Grid_terminal_growth, sg_ys = [dec_zero], sg_conditional = Some dec_zero\<rparr>"

definition sample_assumptions :: assumption_content where
  "sample_assumptions = \<lparr>ac_authored = sample_day, ac_author = ''a'', ac_valuation_at = sample_day, ac_retrospective = False,
     ac_dates = sample_dates, ac_anchor_index = 0, ac_scenarios = [five_years], ac_grids = [sample_grid],
     ac_judgments = map sample_judgment required_parameters\<rparr>"

definition sample_claim :: "claim_kind \<Rightarrow> claim" where
  "sample_claim k = \<lparr>cm_kind = k,
     cm_coverage = Some (map (\<lambda>j. \<lparr>cc_component = j, cc_disposition = (if j = k then Claim_included else Claim_excluded),
        cc_explanation = ''e'', cc_evidence = Some (hex64 (CHR ''e''))\<rparr>) claim_kinds),
     cm_ids = [claim_text k], cm_state = Eligible_amount, cm_amount = Some (dec_of_int 2), cm_currency = ''USD'', cm_as_of = Date 2021 7 28,
     cm_known = sample_day, cm_captured = sample_day, cm_known_basis = Owner_reviewed_instant, cm_basis = Economic_value,
     cm_evidence = hex64 (CHR ''c''), cm_url = ''https://example.invalid/c'', cm_reasons = []\<rparr>"

definition sample_shares :: share_pool where
  "sample_shares = \<lparr>sh_source_basic = Some (dec_of_int 10), sh_source_diluted = Some (dec_of_int 10), sh_source_unit = Some ''shares'',
     sh_source_multiplier = Some dec_one, sh_basic = Some (dec_of_int 10), sh_diluted = Some (dec_of_int 10), sh_currency = ''USD'',
     sh_as_of = Date 2021 7 28, sh_known = sample_day, sh_captured = sample_day, sh_known_basis = Owner_reviewed_instant,
     sh_action_basis = ''none'', sh_evidence = hex64 (CHR ''b''), sh_url = ''https://example.invalid/s'', sh_homogeneous_pool = True,
     sh_no_dilutive_claims = True, sh_complete_actions = True, sh_lease_basis = True, sh_unrestricted_cash = True,
     sh_no_crossholdings = True, sh_reasons = []\<rparr>"

definition sample_price :: price_evidence where
  "sample_price = \<lparr>px_source = 1, px_quote_identifier = 3, px_security = 2, px_batch = Some 4, px_observation = Some 5,
     px_reference_date = Date 2021 7 28, px_retrieval_cutoff = sample_day, px_known = sample_day, px_selection_hash = hex64 (CHR ''d''),
     px_value = Some (dec_of_int 7), px_currency = Some ''USD'', px_usable = True, px_adjustment = Some ''unadjusted'',
     px_session = Some ''close'', px_action_basis = ''none'', px_reasons = []\<rparr>"

definition run_policy :: "string \<Rightarrow> valuation_policy" where
  "run_policy applicability = \<lparr>vp_revision = ''v'', vp_effective = sample_day, vp_known = sample_day, vp_applicability = applicability,
     vp_evidence = hex64 (CHR ''a''), vp_financial_age = 400, vp_quote_age = 5, vp_claim_age = 100\<rparr>"

definition sample_manifest :: "string \<Rightarrow> valuation_manifest" where
  "sample_manifest applicability = \<lparr>vm_selector = sample_selector\<lparr>sk_history_mode := AS_FILED_BY_DATE, sk_filed_cutoff := Some (Date 2021 6 30),
        sk_evaluated_at := Datetime (737971 * micros_per_day) (Some 0)\<rparr>,
     vm_snapshot = 6, vm_payload_hash = hex64 (CHR ''a''), vm_input_hash = hex64 (CHR ''b''), vm_assumption_set = 7,
     vm_assumptions = sample_assumptions, vm_engine_build = hex64 (CHR ''f''), vm_policy = run_policy applicability, vm_price = sample_price,
     vm_shares = sample_shares, vm_claims = map sample_claim claim_kinds, vm_captured_before = sample_day, vm_source_reasons = [],
     vm_uncertainty = []\<rparr>"

lemma sample_roster: "length (map sample_claim claim_kinds) = 7"
  by (simp add: claim_kinds_def)

lemma sample_eligible:
  "case bridge (sample_manifest ''reviewed_operating_fcff'') of Inl e \<Rightarrow> False | Inr b \<Rightarrow> br_eligible b \<and> br_target b = Some (dec_of_int 76)"
  by code_simp

theorem eligible_bridge_sound_witness:
  "\<exists>b target terms adjustment. bridge (sample_manifest ''reviewed_operating_fcff'') = Inr b \<and> br_target b = Some target
     \<and> dec_sum CONTEXT dec_zero terms = Some adjustment \<and> length terms = 7 \<and> dval target = (76 :: rat)"
proof -
  obtain b where b: "bridge (sample_manifest ''reviewed_operating_fcff'') = Inr b" "br_eligible b" "br_target b = Some (dec_of_int 76)"
    using sample_eligible by (auto split: sum.splits)
  obtain terms adjustment where "map dval terms = map (\<lambda>c. side_of c * dval (the (cm_amount c))) (vm_claims (sample_manifest ''reviewed_operating_fcff''))"
    "dec_sum CONTEXT dec_zero terms = Some adjustment"
    using eligible_bridge_sound[OF b(1,2)] by blast
  moreover from this have "length terms = 7"
    by (metis (no_types, lifting) length_map sample_manifest_def valuation_manifest.select_convs(11) sample_roster)
  ultimately show ?thesis using b by (intro exI[of _ b] exI[of _ "dec_of_int 76"] exI[of _ terms] exI[of _ adjustment]) simp
qed

lemma sample_withheld:
  "case calculate_payload (sample_manifest ''unsupported'') of
     Inl e \<Rightarrow> False
   | Inr p \<Rightarrow> \<not> br_eligible (py_bridge p) \<and> py_reasons p = [''unsupported_operating_model''] \<and> map sc_name (py_scenarios p) = [''base'']"
  by code_simp

theorem payload_complete_witness:
  "\<exists>p. calculate_payload (sample_manifest ''unsupported'') = Inr p \<and> \<not> br_eligible (py_bridge p)
     \<and> map sc_name (py_scenarios p) = [''base''] \<and> py_conclusions p = []
     \<and> (\<forall>r\<in>set (py_scenarios p). empty_scenario (py_bridge p) r)"
proof -
  obtain p where p: "calculate_payload (sample_manifest ''unsupported'') = Inr p" "\<not> br_eligible (py_bridge p)" "map sc_name (py_scenarios p) = [''base'']"
    using sample_withheld by (auto split: sum.splits)
  note withheld = mp[OF payload_complete[OF p(1), THEN conjunct2, THEN conjunct2, THEN conjunct2] p(2)]
  show ?thesis using p withheld by (intro exI[of _ p] conjI) simp_all
qed

end
