(* ===== verification/Vintage.thy ===== *)
theory Vintage
  imports Market
begin

text \<open>
  \<open>packages/schema/vintage.py\<close>: the archived captures of a set of source objects as they were known at a cutoff.  The
  two queries are selections over one snapshot of the capture and attempt tables.
\<close>

section \<open>Requirements and rows\<close>

record source_object =
  ob_source :: uuid
  ob_key :: string
  ob_role :: string

definition source_object_ok :: "source_object \<Rightarrow> bool" where
  "source_object_ok r = (nonblank (ob_key r) \<and> nonblank (ob_role r))"

definition identity_of :: "source_object \<Rightarrow> uuid \<times> string" where
  "identity_of r = (ob_source r, ob_key r)"

record stored_capture = market_capture +
  sc_status :: "int option"
  sc_bytes :: "int option"

record stored_attempt = fetch_attempt +
  sa_source :: uuid
  sa_object :: string
  sa_state :: string
  sa_reused :: "uuid option"

definition capture_identity :: "stored_capture \<Rightarrow> uuid \<times> string" where
  "capture_identity c = (cap_source c, cap_object c)"

definition attempt_identity :: "stored_attempt \<Rightarrow> uuid \<times> string" where
  "attempt_identity a = (sa_source a, sa_object a)"

definition by_cutoff :: "int option \<Rightarrow> int \<Rightarrow> bool" where
  "by_cutoff t cutoff = (case t of None \<Rightarrow> False | Some x \<Rightarrow> x \<le> cutoff)"

definition capture_successful :: "int \<Rightarrow> stored_capture \<Rightarrow> bool" where
  "capture_successful cutoff c =
     ((case sc_status c of None \<Rightarrow> False | Some s \<Rightarrow> 200 \<le> s \<and> s < 300) \<and> by_cutoff (cap_fetched c) cutoff
      \<and> cap_sha256 c \<noteq> None \<and> (case cap_blob c of None \<Rightarrow> False | Some b \<Rightarrow> nonblank b) \<and> sc_bytes c \<noteq> None)"

record capture_manifest =
  cf_requirements :: "source_object list"
  cf_before :: datetime
  cf_captures :: "uuid list"
  cf_failed :: "uuid list"
  cf_flags :: "flag list"
  cf_usable :: bool
  cf_attempts :: "uuid list"
  cf_failed_attempts :: "uuid list"

section \<open>One object\<close>

record vintage_state =
  vt_selected :: "uuid list"
  vt_failed :: "uuid list"
  vt_flags :: "flag list"
  vt_failed_attempts :: "uuid list"

definition newest_of :: "stored_capture list \<Rightarrow> int option" where
  "newest_of cs = (case List.map_filter cap_fetched cs of [] \<Rightarrow> None | t # ts \<Rightarrow> Some (foldl max t ts))"

definition latest_of :: "stored_capture list \<Rightarrow> stored_capture list" where
  "latest_of cs = filter (\<lambda>c. cap_fetched c = newest_of cs) cs"

definition outcome_known :: "int \<Rightarrow> stored_attempt \<Rightarrow> bool" where
  "outcome_known cutoff a = by_cutoff (fa_finished a) cutoff"

definition outcome_unknown :: "int \<Rightarrow> stored_attempt \<Rightarrow> bool" where
  "outcome_unknown cutoff a = (\<not> by_cutoff (fa_finished a) cutoff \<or> sa_state a = ''interrupted_unknown'')"

text \<open>The selected captures, or the flag that says why there are none.\<close>

definition select_latest :: "stored_capture list \<Rightarrow> vintage_state \<Rightarrow> vintage_state" where
  "select_latest successes st =
     (if successes = [] then st\<lparr>vt_flags := vt_flags st @ [''capture_unavailable'']\<rparr>
      else if 1 < length (remdups (map cap_sha256 (latest_of successes)))
      then st\<lparr>vt_flags := vt_flags st @ [''ambiguous_capture_vintage'']\<rparr>
      else st\<lparr>vt_selected := vt_selected st @ map cap_id (latest_of successes)\<rparr>)"

text \<open>A revalidation of a selected capture renews its freshness.\<close>

definition freshness_boundary :: "int option \<Rightarrow> uuid list \<Rightarrow> stored_attempt list \<Rightarrow> int option" where
  "freshness_boundary newest selected known =
     map_option (\<lambda>t. foldl max t (List.map_filter fa_finished
         (filter (\<lambda>a. sa_state a = ''not_modified'' \<and> (case sa_reused a of None \<Rightarrow> False | Some i \<Rightarrow> i \<in> set selected)) known)))
       newest"

definition since :: "int option \<Rightarrow> int option \<Rightarrow> bool" where
  "since boundary t = (case boundary of None \<Rightarrow> True | Some x \<Rightarrow> (case t of None \<Rightarrow> False | Some y \<Rightarrow> x \<le> y))"

definition failure_states :: "string list" where
  "failure_states = [''http_error'', ''transport_error'', ''body_limit'', ''redirect_refused'', ''archive_error'', ''cancelled'']"

definition failure_flag :: "int option \<Rightarrow> flag" where
  "failure_flag newest = (if newest \<noteq> None then ''newer_capture_failed'' else ''capture_failed'')"

definition judge_object ::
  "int \<Rightarrow> stored_capture list \<Rightarrow> stored_attempt list \<Rightarrow> uuid \<times> string \<Rightarrow> vintage_state \<Rightarrow> vintage_state" where
  "judge_object cutoff rows attempts object st =
     (let captures = filter (\<lambda>c. capture_identity c = object) rows;
          successes = filter (capture_successful cutoff) captures;
          newest = newest_of successes;
          st1 = select_latest successes st;
          own = filter (\<lambda>a. attempt_identity a = object) attempts;
          known = filter (outcome_known cutoff) own;
          boundary = freshness_boundary newest (vt_selected st1) known;
          failures = filter (\<lambda>a. sa_state a \<in> set failure_states \<and> since boundary (fa_finished a)) known;
          later = filter (\<lambda>c. \<not> capture_successful cutoff c \<and> sc_status c \<noteq> Some 304 \<and> since boundary (cap_completed c)) captures in
      st1\<lparr>vt_flags := vt_flags st1 @ flag_if (list_ex (outcome_unknown cutoff) own) ''source_attempt_outcome_unknown''
            @ flag_if (failures \<noteq> []) (failure_flag newest) @ flag_if (later \<noteq> []) (failure_flag newest),
          vt_failed_attempts := vt_failed_attempts st1 @ map fa_id failures,
          vt_failed := vt_failed st1 @ map cap_id later\<rparr>)"

section \<open>The manifest\<close>

definition requirements_ok :: "source_object list \<Rightarrow> bool" where
  "requirements_ok rs = (rs \<noteq> [] \<and> distinct rs \<and> list_all source_object_ok rs)"

definition required_objects :: "source_object list \<Rightarrow> (uuid \<times> string) list" where
  "required_objects rs = sorted_set (map identity_of rs)"

definition known_captures :: "(uuid \<times> string) list \<Rightarrow> int \<Rightarrow> stored_capture list \<Rightarrow> stored_capture list" where
  "known_captures objects cutoff cs = filter (\<lambda>c. capture_identity c \<in> set objects \<and> by_cutoff (cap_completed c) cutoff) cs"

definition known_attempts :: "(uuid \<times> string) list \<Rightarrow> int \<Rightarrow> stored_attempt list \<Rightarrow> stored_attempt list" where
  "known_attempts objects cutoff as = filter (\<lambda>a. attempt_identity a \<in> set objects \<and> fa_prepared a \<le> cutoff) as"

definition prepare_capture_manifest ::
  "stored_capture list \<Rightarrow> stored_attempt list \<Rightarrow> source_object list \<Rightarrow> datetime \<Rightarrow> capture_manifest result" where
  "prepare_capture_manifest captures attempts requirements before =
     (if \<not> aware before \<or> \<not> requirements_ok requirements then Inl ValueError
      else let cutoff = instant before; objects = required_objects requirements;
          rows = known_captures objects cutoff captures; tries = known_attempts objects cutoff attempts;
          st = fold (judge_object cutoff rows tries) objects \<lparr>vt_selected = [], vt_failed = [], vt_flags = [], vt_failed_attempts = []\<rparr> in
        Inr \<lparr>cf_requirements = requirements, cf_before = before, cf_captures = sorted_set (vt_selected st),
          cf_failed = sorted_set (vt_failed st), cf_flags = sorted_set (vt_flags st),
          cf_usable = (''capture_unavailable'' \<notin> set (vt_flags st) \<and> ''ambiguous_capture_vintage'' \<notin> set (vt_flags st)),
          cf_attempts = sort (map fa_id tries), cf_failed_attempts = sorted_set (vt_failed_attempts st)\<rparr>)"

section \<open>Guarantee\<close>

text \<open>A capture stands for an object at a cutoff: it is a complete success, known by then, and none known by then is newer or differs.\<close>

definition stands_for :: "int \<Rightarrow> stored_capture list \<Rightarrow> uuid \<times> string \<Rightarrow> stored_capture \<Rightarrow> bool" where
  "stands_for cutoff captures object c \<longleftrightarrow>
     c \<in> set captures \<and> capture_identity c = object \<and> capture_successful cutoff c \<and> by_cutoff (cap_completed c) cutoff
     \<and> (\<forall>d\<in>set captures. capture_identity d = object \<and> capture_successful cutoff d \<and> by_cutoff (cap_completed d) cutoff
          \<longrightarrow> the (cap_fetched d) < the (cap_fetched c) \<or> cap_fetched d = cap_fetched c \<and> cap_sha256 d = cap_sha256 c)"

lemma foldl_max: "foldl max t ts = Max (set (t # ts))" for t :: int
proof -
  have "(\<lambda>x s. max s x) = (max :: int \<Rightarrow> int \<Rightarrow> int)" by (intro ext max.commute)
  then show ?thesis unfolding Max.set_eq_fold foldl_conv_fold by simp
qed

lemma newest_of_Some:
  assumes "newest_of cs = Some t"
  shows "(\<exists>c\<in>set cs. cap_fetched c = Some t) \<and> (\<forall>c\<in>set cs. \<forall>u. cap_fetched c = Some u \<longrightarrow> u \<le> t)"
proof -
  obtain x xs where x: "List.map_filter cap_fetched cs = x # xs" "t = Max (set (x # xs))"
    using assms by (auto simp: newest_of_def foldl_max simp del: list.set split: list.splits)
  then have s: "set (x # xs) = {y. \<exists>c\<in>set cs. cap_fetched c = Some y}" using set_map_filter by metis
  have "t \<in> set (x # xs)" using x(2) by (metis List.finite_set Max_in list.distinct(1) set_empty)
  moreover have "\<forall>u\<in>set (x # xs). u \<le> t" using x(2) by (metis List.finite_set Max_ge)
  ultimately show ?thesis unfolding s by auto
qed

lemma newest_of_None: "newest_of cs = None \<Longrightarrow> c \<in> set cs \<Longrightarrow> cap_fetched c = None"
  using set_map_filter[of cap_fetched cs] by (cases "cap_fetched c") (auto simp: newest_of_def split: list.splits)

lemma latest_successes:
  assumes "successes = filter (capture_successful cutoff) (filter (\<lambda>c. capture_identity c = object) (known_captures objects cutoff captures))"
    and "object \<in> set objects" "length (remdups (map cap_sha256 (latest_of successes))) \<le> 1" "c \<in> set (latest_of successes)"
  shows "stands_for cutoff captures object c"
proof -
  have known: "set successes = {d \<in> set captures. capture_identity d = object \<and> capture_successful cutoff d \<and> by_cutoff (cap_completed d) cutoff}"
    using assms(2) by (auto simp: assms(1) known_captures_def)
  have fetched: "\<exists>u. cap_fetched d = Some u" if "d \<in> set successes" for d
    using that known by (auto simp: capture_successful_def by_cutoff_def split: option.splits)
  have c: "c \<in> set successes" "cap_fetched c = newest_of successes" using assms(4) by (simp_all add: latest_of_def)
  then obtain t where t: "newest_of successes = Some t" using fetched by force
  have "the (cap_fetched d) < the (cap_fetched c) \<or> cap_fetched d = cap_fetched c \<and> cap_sha256 d = cap_sha256 c"
    if d: "d \<in> set successes" for d
  proof -
    obtain u where u: "cap_fetched d = Some u" using fetched[OF d] by blast
    then have "u \<le> t" using newest_of_Some[OF t] d by blast
    moreover have "cap_sha256 d = cap_sha256 c" if "u = t"
    proof -
      have "d \<in> set (latest_of successes)" using d u t that by (simp add: latest_of_def)
      then have "cap_sha256 d \<in> set (map cap_sha256 (latest_of successes))" "cap_sha256 c \<in> set (map cap_sha256 (latest_of successes))"
        using assms(4) by auto
      moreover have "card (set (map cap_sha256 (latest_of successes))) \<le> 1"
        using assms(3) by (simp add: length_remdups_card_conv)
      ultimately show ?thesis using card_le_Suc0_iff_eq[OF List.finite_set] by (metis One_nat_def)
    qed
    ultimately show ?thesis using u t c(2) by fastforce
  qed
  then show ?thesis using c(1) known by (auto simp: stands_for_def)
qed

text \<open>Every selected capture stands for an object, and an object without one has left a blocking flag.\<close>

definition blocked :: "vintage_state \<Rightarrow> bool" where
  "blocked st \<longleftrightarrow> ''capture_unavailable'' \<in> set (vt_flags st) \<or> ''ambiguous_capture_vintage'' \<in> set (vt_flags st)"

definition vintage_ok :: "int \<Rightarrow> stored_capture list \<Rightarrow> (uuid \<times> string) list \<Rightarrow> (uuid \<times> string) list \<Rightarrow> vintage_state \<Rightarrow> bool" where
  "vintage_ok cutoff captures objects judged st \<longleftrightarrow>
     (\<forall>i\<in>set (vt_selected st). \<exists>c. cap_id c = i \<and> capture_identity c \<in> set objects \<and> stands_for cutoff captures (capture_identity c) c)
     \<and> (\<forall>object\<in>set judged. blocked st \<or> (\<exists>c. cap_id c \<in> set (vt_selected st) \<and> stands_for cutoff captures object c))"

lemma judge_object_fields:
  "vt_selected (judge_object cutoff rows attempts object st)
     = vt_selected (select_latest (filter (capture_successful cutoff) (filter (\<lambda>c. capture_identity c = object) rows)) st)"
  "blocked (select_latest (filter (capture_successful cutoff) (filter (\<lambda>c. capture_identity c = object) rows)) st)
     \<Longrightarrow> blocked (judge_object cutoff rows attempts object st)"
  by (auto simp: judge_object_def Let_def blocked_def)

lemma judge_object_ok:
  assumes "vintage_ok cutoff captures objects judged st" "object \<in> set objects"
  shows "vintage_ok cutoff captures objects (object # judged) (judge_object cutoff (known_captures objects cutoff captures) attempts object st)"
proof -
  define successes where
    "successes = filter (capture_successful cutoff) (filter (\<lambda>c. capture_identity c = object) (known_captures objects cutoff captures))"
  let ?st = "judge_object cutoff (known_captures objects cutoff captures) attempts object st"
  consider (none) "successes = []" | (many) "successes \<noteq> []" "1 < length (remdups (map cap_sha256 (latest_of successes)))"
    | (one) "successes \<noteq> []" "length (remdups (map cap_sha256 (latest_of successes))) \<le> 1"
    by linarith
  then show ?thesis
  proof cases
    case one
    have l: "stands_for cutoff captures object c" if "c \<in> set (latest_of successes)" for c
      using latest_successes[OF successes_def assms(2) one(2) that] .
    have sel: "vt_selected ?st = vt_selected st @ map cap_id (latest_of successes)"
      unfolding judge_object_fields(1) successes_def[symmetric] using one by (simp add: select_latest_def)
    have keep: "blocked st \<Longrightarrow> blocked ?st"
      unfolding blocked_def judge_object_def Let_def successes_def[symmetric] using one by (auto simp: select_latest_def)
    obtain c where c: "c \<in> set (latest_of successes)"
    proof (cases "newest_of successes")
      case None
      then have "latest_of successes = successes" using newest_of_None[OF None] by (auto simp: latest_of_def filter_id_conv)
      then show ?thesis using that one(1) by (metis list.set_intros(1) neq_Nil_conv)
    next
      case (Some t)
      then show ?thesis using newest_of_Some[OF Some] that by (auto simp: latest_of_def)
    qed
    have "capture_identity c = object" if "stands_for cutoff captures object c" for c
      using that by (simp add: stands_for_def)
    then show ?thesis
      using assms l c keep unfolding vintage_ok_def sel by (auto; blast)
  next
    case none
    then have "vt_selected ?st = vt_selected st" "blocked ?st"
      unfolding blocked_def judge_object_def Let_def successes_def[symmetric] by (simp_all add: select_latest_def)
    then show ?thesis using assms by (simp add: vintage_ok_def)
  next
    case many
    then have "vt_selected ?st = vt_selected st" "blocked ?st"
      unfolding blocked_def judge_object_def Let_def successes_def[symmetric] by (simp_all add: select_latest_def)
    then show ?thesis using assms by (simp add: vintage_ok_def)
  qed
qed

lemma judge_all_ok:
  assumes "set os \<subseteq> set objects" "vintage_ok cutoff captures objects judged st"
  shows "vintage_ok cutoff captures objects (rev os @ judged) (fold (judge_object cutoff (known_captures objects cutoff captures) attempts) os st)"
  using assms
proof (induction os arbitrary: judged st)
  case (Cons object os)
  have "vintage_ok cutoff captures objects (object # judged) (judge_object cutoff (known_captures objects cutoff captures) attempts object st)"
    using Cons.prems by (intro judge_object_ok) simp_all
  then show ?case using Cons.IH[of "object # judged"] Cons.prems(1) by simp
qed simp

text \<open>
  C8.  A capture manifest does not look ahead: each of its captures belongs to a required object, is a complete success
  whose retrieval and completion were known by the cutoff, and no success of that object known by then is newer or has
  other bytes at the same time.  A usable manifest has such a capture for every requirement.
\<close>

theorem capture_manifest_sound:
  assumes "prepare_capture_manifest captures attempts requirements before = Inr m"
  shows "(\<forall>i\<in>set (cf_captures m). \<exists>c. cap_id c = i \<and> capture_identity c \<in> identity_of ` set requirements
            \<and> stands_for (instant before) captures (capture_identity c) c)
    \<and> (cf_usable m \<longrightarrow> (\<forall>r\<in>set requirements. \<exists>c. cap_id c \<in> set (cf_captures m) \<and> stands_for (instant before) captures (identity_of r) c))"
proof -
  let ?objects = "required_objects requirements" and ?cutoff = "instant before"
  let ?start = "\<lparr>vt_selected = [], vt_failed = [], vt_flags = [], vt_failed_attempts = []\<rparr>"
  let ?st = "fold (judge_object ?cutoff (known_captures ?objects ?cutoff captures) (known_attempts ?objects ?cutoff attempts)) ?objects ?start"
  have o: "set ?objects = identity_of ` set requirements" by (simp add: required_objects_def)
  have m: "set (cf_captures m) = set (vt_selected ?st)" "cf_usable m \<longleftrightarrow> \<not> blocked ?st"
    using assms by (auto simp: prepare_capture_manifest_def Let_def blocked_def split: if_splits)
  have "vintage_ok ?cutoff captures ?objects (rev ?objects @ []) ?st"
    by (rule judge_all_ok) (simp_all add: vintage_ok_def)
  then show ?thesis unfolding vintage_ok_def m using o by auto
qed

text \<open>A capture at noon, a failed attempt in the afternoon and a newer capture after the cutoff.\<close>

definition vintage_capture :: "uuid \<Rightarrow> int \<Rightarrow> string \<Rightarrow> stored_capture" where
  "vintage_capture i t sha = \<lparr>cap_id = i, cap_source = 1, cap_object = ''facts'', cap_url = ''u'', cap_completed = Some t, cap_fetched = Some t,
     cap_sha256 = Some sha, cap_blob = Some ''b'', sc_status = Some 200, sc_bytes = Some 2\<rparr>"

definition vintage_attempt :: stored_attempt where
  "vintage_attempt = \<lparr>fa_id = 9, fa_prepared = 15, fa_finished = Some 16, sa_source = 1, sa_object = ''facts'', sa_state = ''http_error'', sa_reused = None\<rparr>"

definition vintage_object :: source_object where
  "vintage_object = \<lparr>ob_source = 1, ob_key = ''facts'', ob_role = ''financials''\<rparr>"

lemma vintage_run:
  "\<exists>m. prepare_capture_manifest [vintage_capture 5 12 ''x'', vintage_capture 6 30 ''y''] [vintage_attempt] [vintage_object] (Datetime 20 (Some 0)) = Inr m
     \<and> cf_captures m = [5] \<and> cf_failed_attempts m = [9] \<and> cf_flags m = [''newer_capture_failed''] \<and> cf_usable m"
proof -
  have "case prepare_capture_manifest [vintage_capture 5 12 ''x'', vintage_capture 6 30 ''y''] [vintage_attempt] [vintage_object] (Datetime 20 (Some 0)) of
      Inl e \<Rightarrow> False
    | Inr m \<Rightarrow> cf_captures m = [5] \<and> cf_failed_attempts m = [9] \<and> cf_flags m = [''newer_capture_failed''] \<and> cf_usable m"
    by code_simp
  then show ?thesis by (auto split: sum.splits)
qed

theorem capture_manifest_sound_witness:
  "\<exists>m c. prepare_capture_manifest [vintage_capture 5 12 ''x'', vintage_capture 6 30 ''y''] [vintage_attempt] [vintage_object] (Datetime 20 (Some 0)) = Inr m
     \<and> cap_id c \<in> set (cf_captures m) \<and> stands_for 20 [vintage_capture 5 12 ''x'', vintage_capture 6 30 ''y''] (1, ''facts'') c"
proof -
  obtain m where m: "prepare_capture_manifest [vintage_capture 5 12 ''x'', vintage_capture 6 30 ''y''] [vintage_attempt] [vintage_object] (Datetime 20 (Some 0)) = Inr m"
    "cf_usable m"
    using vintage_run by blast
  then show ?thesis using capture_manifest_sound[OF m(1)] by (auto simp: vintage_object_def identity_of_def)
qed

end
