(* ===== verification/Spec2Isabelle.thy ===== *)
theory Spec2Isabelle
  imports Solver_Properties Period_Properties Metric_Properties History_Properties Reconciliation
    Company_Properties Assessment_Properties Sector_Properties Trends Sector_History Histogram
    Sensitivity Anchors Limiter Pit_Properties Market_Properties Sec_Rule_Properties
    Ingest_Guarantees Inventory_Properties Filing_Properties Filing_Guarantees Fetch_Guarantees Archive Composition_Properties Vintage
begin

text \<open>
  EquityEval turns filed financial evidence into valuations and comparisons, and its first rule is that a
  number it cannot defend is withheld with a reason.  This development models the part of the program that
  decides which numbers exist and what they are: the analysis core (\<open>packages/core\<close>), the reads of
  frozen evidence (\<open>packages/schema/pit.py\<close>, \<open>market_selection.py\<close>), the normalization of
  filed and market sources into that evidence (\<open>packages/ingest\<close>), and the dispatch
  budget that the ingest workers share (\<open>packages/ingest/limiter.py\<close>).  Every definition is
  executable and follows the function whose name it bears; an exception is a value (\<open>Inl\<close> an error, or
  \<open>None\<close> for a trapped decimal signal), so that every early return of the source is a branch.

  Foundations.
  \<^item> \<open>Prelude\<close>: flag sets as lists published by \<open>sorted_set\<close>, text predicates, results that
    may raise.  \<open>Dates\<close>: calendar dates and aware instants.  \<open>Prelude\<close> also holds reachable
    states and the locale \<open>invariant_system\<close>.
  \<^item> \<open>Decimals\<close>: Python's decimal arithmetic on finite values with precision, exponent range and
    traps; \<open>Decimal_Laws\<close> bounds each rounding step, \<open>Decimal_Eval\<close> computes exact
    quotients, \<open>Exact_Sum\<close> shows the signed sum of \<open>periods.py\<close> exact.

  Evidence to amounts (\<open>core/inputs.py\<close>, \<open>fiscal.py\<close>, \<open>periods.py\<close>, \<open>metrics.py\<close>,
  \<open>history.py\<close>, \<open>reconciliation.py\<close>).
  \<^item> \<open>Evidence\<close> holds concepts, queries, facts and selections; \<open>Inputs\<close> the gate that
    publishes a selected value; \<open>Fiscal\<close> reviewed fiscal calendars; \<open>Operands\<close> and
    \<open>Periods\<close> the assembled amounts; \<open>Metrics\<close> the formulas; \<open>History\<close> the
    quartile bands.  \<open>Period_Properties\<close>, \<open>Metric_Properties\<close>,
    \<open>History_Laws\<close> and \<open>History_Properties\<close> prove that published values rest on complete
    evidence, that sums are exact, quotients correctly rounded, windows contiguous, and no sample lost.

  Companies and sectors (\<open>company.py\<close>, \<open>assessment.py\<close>, \<open>sectors.py\<close>, \<open>trends.py\<close>,
  \<open>sector_history.py\<close>).
  \<^item> \<open>Company\<close>, \<open>Assessment\<close>, \<open>Sectors\<close>, \<open>Histogram\<close>, \<open>Trends\<close> and
    \<open>Sector_History\<close> with their \<open>_Properties\<close>: figures are believed when recomputing them
    from their recorded operands gives them again, rosters are partitioned, totals exact, comparisons
    gated by coverage, and past classifications do not look ahead.

  Valuation (\<open>valuation_types.py\<close>, \<open>valuation.py\<close>, \<open>valuation_sensitivity.py\<close>,
  \<open>valuation_source.py\<close>).
  \<^item> \<open>Valuation_Types\<close>, \<open>Valuation\<close> (forecast, outward-rounded intervals, dual numbers,
    residual), \<open>Solver\<close> (bracket refinement, kink partition, branch and bound).
    \<open>Enclosure\<close> proves that every interval operation contains the exact one;
    \<open>Solver_Correct\<close> states the contract between evaluator and search as the locale
    \<open>certified_function\<close>, interpreted on \<open>residual\<close>; \<open>Solver_Loop\<close> proves budgets,
    termination and the cover of the domain; \<open>Solver_Properties\<close> what a published result says about
    the exact equation, the simulation of the exact model, and an edge where a rounded midpoint leaves its bracket.
    \<open>Sensitivity\<close> and \<open>Anchors\<close> hold ranks and anchor objections.  The search loop runs with an explicit iteration bound taken
    from the specification's budgets; termination within it is a theorem, not an assumption.

  Valuation runs (\<open>packages/schema/valuation.py\<close>, \<open>core/valuation_payload.py\<close>).
  \<^item> \<open>Assumptions\<close>: what a run is given, with every validator.  \<open>Composition\<close>: the bridge from the price to the
    solver's target, the scenarios, the sensitivity cells and the payload; a result in which an exception was caught keeps
    what was computed before it.  \<open>Composition_Properties\<close> proves the bridge admissible and its product exact, ties a
    converged scenario to the exact equation, and shows that a payload is complete and empty without an eligible bridge.

  Sources to evidence (\<open>packages/ingest/financial_types.py\<close>, \<open>sec_normalize.py\<close>,
  \<open>market_types.py\<close>, \<open>market_normalize.py\<close>).
  \<^item> \<open>Texts\<close>, \<open>Source_Json\<close>, \<open>Sec_Types\<close> and \<open>Sec_Manifest\<close> hold token trees, canonical text, the
    transfer objects and the digests; \<open>Sec_Normalize\<close> turns one pinned Company Facts document into
    observations, resolutions and flags, \<open>Sec_Rules\<close> derives the reviewed rules of the cohort.
    \<open>Sec_Properties\<close> follows what each step adds, \<open>Sec_References\<close> shows that every digest is
    defined, \<open>Sec_Guarantees\<close> and \<open>Sec_Rule_Properties\<close> state what a bundle promises and the one way
    in which settling a concept raises.
  \<^item> \<open>Market_Feed\<close>, \<open>Market_Normalize\<close> (daily prices), \<open>Market_Fred\<close> (paged series) and
    \<open>Treasury\<close> (yield curve feed) normalize market responses; \<open>Tiingo_Properties\<close>
    and \<open>Fred_Properties\<close> prove their invariants, and
    \<open>Ingest_Guarantees\<close> states the contract of a provider as the locale \<open>macro_provider\<close>,
    interpreted on both macro providers.  \<open>Sec_Samples\<close> and \<open>Ingest_Samples\<close> run one response of each.
  \<^item> \<open>Sec_Inventory\<close> (\<open>sec_inventory.py\<close>) parses pinned Submissions documents and assembles the
    filings of a window; \<open>Inventory_Properties\<close> says what a complete inventory rests on.
  \<^item> \<open>Filing\<close> (document trees and names), \<open>Filing_Extract\<close> (contexts and units) and \<open>Filing_Facts\<close>
    (continued texts, exact numbers, facts, selection) model \<open>filing.py\<close>.  A check that raises in the middle of
    filling in a record is a step of \<open>run_steps\<close>, which keeps what the earlier steps filled in.
    \<open>Filing_Properties\<close> shows numbers exact, \<open>Filing_Guarantees\<close> what a selection rests on and that
    every refusal is reported, and runs one document.  The walk along continuations ends because
    each step visits an identifier that was not visited before.

  Source to archive (\<open>packages/ingest/contracts.py\<close>, \<open>transport.py\<close>, \<open>archive.py\<close>).
  \<^item> \<open>Fetch_Types\<close>: resources with their addresses, descriptors, captures, requests and results.
    \<open>Transport\<close> and \<open>Fetch\<close>: \<open>SecTransport.fetch\<close> with every handler, as state passing with exceptions.
    Each call on the attempt store, the limiter, the archive, the client or a clock is an entry of a log, and the
    record \<open>services\<close> answers it by a function of the log so far.  \<open>Fetch_Logic\<close> is a calculus of weakest
    preconditions for these programs, \<open>Fetch_Properties\<close> follows the steps of an attempt, and
    \<open>Fetch_Guarantees\<close> states what a whole fetch does: where its requests go, that its book of attempts is kept,
    and what its records rest on, and runs one fetch with a retry.
  \<^item> \<open>Archive\<close>: keys, bounded decoding, publication of verified bytes under new keys, and reads.  The loop over
    a decompressor returns \<open>None\<close> when it never ends; \<open>drain_returns\<close> shows that it ends when no input is left
    without output.

  Frozen evidence.
  \<^item> \<open>Pit\<close>, \<open>Pit_Properties\<close>: point-in-time statement reads over the tables of the first
    migration.  The choice of an edition is the locale \<open>best_choice\<close>, interpreted for both history
    modes.  \<open>Market\<close>, \<open>Market_Properties\<close>: the selection of prices and macro observations,
    whose result groups the fields that one step of the source fills in together.
  \<^item> \<open>Vintage\<close> (\<open>packages/schema/vintage.py\<close>): the captures of required objects as known at a cutoff, with the newer
    failures, and the proof that the choice does not look ahead.

  Shared budget.
  \<^item> \<open>Limiter\<close>: the three server scripts as functions of the shared keys and the server's time, and a
    step relation in which any number of workers interleave; \<open>invariant_system\<close> is interpreted on it.

  Abstractions.  Tables are lists of rows of one snapshot, and a join along a foreign key is a lookup of the
  primary key.  Identifiers are natural numbers whose order is the order of their text.  Hash functions,
  the tokenizer of JSON, XML, URL and HTTP date parsing, compression, the disk and name-based identifiers are fields of a record that every operation takes, so theorems hold for whatever they
  return.  The limiter's times, doubles on the server, are exact rationals.  Text is limited to code points
  up to 255.

  Not modelled.  Serialisation and publication (content digests of valuation payloads, \<open>core/fundamentals.py\<close>,
  the stores of \<open>packages/schema\<close>, the adapter \<open>DatabaseAttemptStore\<close>), pipelines and publishers of \<open>packages/ingest\<close>,
  triggers and grants of the migrations, the HTTP interface, the web client and the scripts: they move data in
  and out of databases, files and sockets, and the values they carry are decided by the parts above.
\<close>

end
